(* ===== verification/Prelude.thy ===== *)
theory Prelude
  imports Complex_Main "HOL-Library.Word"
begin

text \<open>
  What every theory of the development shares: the basic types (identifiers, instants), the error
  values of the program, the combinators in which its methods are written, the few functions of
  Go's standard library that the program calls, and the generic lemmas on them.

  A Go method that can fail and that touches state of type \<^verbatim>\<open>'s\<close> is a function
  \<^verbatim>\<open>'s \<Rightarrow> (goerr + 'a) \<times> 's\<close>. The statement
  \<^verbatim>\<open>x, err := m(); if err != nil { return wrap(err) }; k\<close> is \<^verbatim>\<open>callw m wrap (\<lambda>x. k)\<close>.
\<close>

named_theorems eff_intros "rules that compose frame and error-frame facts along callw"
named_theorems eff_simps "equations that run one statement of an effectful definition"

section \<open>Basic types\<close>

text \<open>A UUID is its 128 bits; uuid.Nil is 0. An instant is a number of nanoseconds in UTC.\<close>

type_synonym uuid = "128 word"
type_synonym time = int
type_synonym bytes = "8 word list"
type_synonym json_map = "string \<rightharpoonup> string"

definition uuid_Nil :: uuid where
  "uuid_Nil = 0"

section \<open>Errors\<close>

text \<open>
  The package-level error values (errors.New) are compared by identity, so each is a constructor
  of \<^verbatim>\<open>sentinel\<close>. They are those of internal/errors/errors.go, those of internal/auth/errors.go and refresh.go,
  those of fake_store.go and of scheduler/dispatcher.go, and the values of the pgx driver.
\<close>

datatype sentinel =
    ErrInvalidTransition | ErrWorkflowNotFound | ErrAuditLogFailed | ErrCeleryDispatchFailed
  | ErrPgxPoolExhausted | ErrEvidenceNotFound | ErrEvidenceImmutable | ErrEvalItemNotFound
  | ErrEvalItemInvalidInput | ErrEvalItemParentNotFound | ErrEvalItemHierarchyImmutable
  | ErrEvalItemInvalidStatus | ErrScoreNotFound | ErrScoreInvalidInput | ErrScoreImmutable
  | ErrScoreInvalidStatus | ErrGradeThresholdsUnavailable | ErrScoreAuditWriteFailed
  | ErrScoreNotConfirmed | ErrScoreReviewRequestNotFound | ErrScoreReviewRequestInvalidInput
  | ErrScoreReviewRequestInvalidStatus | ErrScoreReviewRequestNotSubmitted
  | ErrScoreReviewRequestNotUnderReview | ErrScoreReviewRequestAuditWriteFailed
  | ErrRubricNotFound | ErrRubricInvalidInput | ErrRubricInvalidStatus | ErrRubricArchived
  | ErrRubricWeightOutOfBounds | ErrRubricBandOverlap | ErrRubricAuditWriteFailed
  | ErrAuditQueryInvalidFilter | ErrAuditQueryInvalidTimeRange
  | ErrTokenExpired | ErrTokenInvalidSignature | ErrTokenInvalidIssuer | ErrTokenInvalidAudience
  | ErrAlgorithmNotAllowed | ErrAlgorithmKeyMismatch | ErrTokenBlacklisted
  | ErrInsufficientPermission | ErrJWKSUnavailable | ErrMissingToken
  | ErrRefreshTokenReuseDetected | ErrRefreshTokenExpired
  | errFakeAuditInsertFail | errFakeWorkflowInsertFail | errFakeUpdateStateFail
  | errFakeGetWorkflowFail
  | ErrDispatchFailed | ErrEnvelopeSerializationFailed
  | pgx_ErrNoRows | pgx_ErrTxClosed | pgx_ErrTxCommitRollback

text \<open>
  An error value is a sentinel, a server error of PostgreSQL with its SQLSTATE, some other error
  of a library, or the result of fmt.Errorf with one or more percent-w verbs: the text of the
  format and the wrapped errors in order.
\<close>

datatype goerr =
    Sentinel sentinel
  | PgError string
  | LibError string
  | Wrap string "goerr list"

text \<open>errors.Is on a sentinel and errors.As on *pgconn.PgError walk the tree of wrapped errors.\<close>

fun errors_Is :: "goerr \<Rightarrow> sentinel \<Rightarrow> bool" where
  "errors_Is (Sentinel s) t = (s = t)"
| "errors_Is (PgError c) t = False"
| "errors_Is (LibError m) t = False"
| "errors_Is (Wrap m es) t = list_ex (\<lambda>e. errors_Is e t) es"

fun errors_As_Pg :: "goerr \<Rightarrow> string option" where
  "errors_As_Pg (Sentinel s) = None"
| "errors_As_Pg (PgError c) = Some c"
| "errors_As_Pg (LibError m) = None"
| "errors_As_Pg (Wrap m es) =
     List.fold (\<lambda>e acc. case acc of Some c \<Rightarrow> Some c | None \<Rightarrow> e) (map errors_As_Pg es) None"

definition wrap1 :: "string \<Rightarrow> goerr \<Rightarrow> goerr" where
  "wrap1 msg e = Wrap msg [e]"

lemma errors_Is_wrap1 [simp]: "errors_Is (wrap1 m e) t = errors_Is e t"
  by (simp add: wrap1_def)

lemma errors_As_wrap1 [simp]: "errors_As_Pg (wrap1 m e) = errors_As_Pg e"
  by (simp add: wrap1_def)

section \<open>Methods that fail and change state\<close>

type_synonym ('s, 'a) eff = "'s \<Rightarrow> (goerr + 'a) \<times> 's"

definition retn :: "'a \<Rightarrow> ('s, 'a) eff" where
  "retn a s = (Inr a, s)"

definition throw :: "goerr \<Rightarrow> ('s, 'a) eff" where
  "throw e s = (Inl e, s)"

definition callw :: "('s, 'a) eff \<Rightarrow> (goerr \<Rightarrow> goerr) \<Rightarrow> ('a \<Rightarrow> ('s, 'b) eff) \<Rightarrow> ('s, 'b) eff" where
  "callw m wrap k s = (case m s of (Inl e, s') \<Rightarrow> (Inl (wrap e), s') | (Inr a, s') \<Rightarrow> k a s')"

text \<open>A call whose error is returned unchanged, a pure step that can fail, and a state read.\<close>

definition call :: "('s, 'a) eff \<Rightarrow> ('a \<Rightarrow> ('s, 'b) eff) \<Rightarrow> ('s, 'b) eff" where
  "call m k = callw m (\<lambda>e. e) k"

definition lift :: "(goerr + 'a) \<Rightarrow> ('s, 'a) eff" where
  "lift r s = (r, s)"

definition always :: "('s \<Rightarrow> 'a \<times> 's) \<Rightarrow> ('s, 'a) eff" where
  "always f s = (case f s of (a, s') \<Rightarrow> (Inr a, s'))"

lemma callw_Inr_iff [eff_simps]:
  "callw m wrap k s = (Inr b, s') \<longleftrightarrow> (\<exists>a s1. m s = (Inr a, s1) \<and> k a s1 = (Inr b, s'))"
  by (auto simp: callw_def split: prod.splits sum.splits)

lemma callw_Inl_iff [eff_simps]:
  "callw m wrap k s = (Inl e, s') \<longleftrightarrow>
     (\<exists>e0. m s = (Inl e0, s') \<and> e = wrap e0) \<or> (\<exists>a s1. m s = (Inr a, s1) \<and> k a s1 = (Inl e, s'))"
  by (auto simp: callw_def split: prod.splits sum.splits)

lemma call_Inr_iff [eff_simps]:
  "call m k s = (Inr b, s') \<longleftrightarrow> (\<exists>a s1. m s = (Inr a, s1) \<and> k a s1 = (Inr b, s'))"
  by (simp add: call_def callw_Inr_iff)

lemma call_Inl_iff [eff_simps]:
  "call m k s = (Inl e, s') \<longleftrightarrow>
     m s = (Inl e, s') \<or> (\<exists>a s1. m s = (Inr a, s1) \<and> k a s1 = (Inl e, s'))"
  by (auto simp add: call_def callw_Inl_iff)

lemma retn_iff [simp, eff_simps]: "retn a s = (r, s') \<longleftrightarrow> r = Inr a \<and> s' = s"
  by (auto simp: retn_def)

lemma throw_iff [simp, eff_simps]: "throw e s = (r, s') \<longleftrightarrow> r = Inl e \<and> s' = s"
  by (auto simp: throw_def)

lemma lift_iff [simp, eff_simps]: "lift r s = (r', s') \<longleftrightarrow> r = r' \<and> s' = s"
  by (auto simp: lift_def)

lemma if_throw_iff [eff_simps]:
  "(if b then throw e else m) s = (Inr a, s') \<longleftrightarrow> \<not> b \<and> m s = (Inr a, s')"
  by simp

lemma snd_run [simp]: "snd (retn a s) = s" "snd (throw e s) = s" "snd (lift r s) = s"
  by (simp_all add: retn_def throw_def lift_def)

lemma fst_run [simp]: "fst (retn a s) = Inr a" "fst (throw e s) = Inl e" "fst (lift r s) = r"
  by (simp_all add: retn_def throw_def lift_def)

lemma always_iff [eff_simps]:
  "always f s = (r, s') \<longleftrightarrow> (\<exists>a. f s = (a, s') \<and> r = Inr a)"
  by (auto simp: always_def split: prod.splits)

lemma run_callw [simp]:
  "m s = (Inr a, s1) \<Longrightarrow> callw m wrap k s = k a s1"
  "m s = (Inl e, s1) \<Longrightarrow> callw m wrap k s = (Inl (wrap e), s1)"
  by (simp_all add: callw_def)

lemma run_call [simp]:
  "m s = (Inr a, s1) \<Longrightarrow> call m k s = k a s1"
  "m s = (Inl e, s1) \<Longrightarrow> call m k s = (Inl e, s1)"
  by (simp_all add: call_def)

section \<open>Frame facts\<close>

text \<open>
  \<^verbatim>\<open>keeps f m\<close>: whatever m returns, it leaves the part f of the state as it was.
  \<^verbatim>\<open>keeps_err f m\<close>: it does so whenever it returns an error.
\<close>

definition keeps :: "('s \<Rightarrow> 'v) \<Rightarrow> ('s, 'a) eff \<Rightarrow> bool" where
  "keeps f m \<longleftrightarrow> (\<forall>s. f (snd (m s)) = f s)"

definition keeps_err :: "('s \<Rightarrow> 'v) \<Rightarrow> ('s, 'a) eff \<Rightarrow> bool" where
  "keeps_err f m \<longleftrightarrow> (\<forall>s e s'. m s = (Inl e, s') \<longrightarrow> f s' = f s)"

lemma keepsI [intro?]: "(\<And>s. f (snd (m s)) = f s) \<Longrightarrow> keeps f m"
  by (simp add: keeps_def)

lemma keepsD: "keeps f m \<Longrightarrow> m s = (r, s') \<Longrightarrow> f s' = f s"
  by (metis keeps_def snd_conv)

lemma keeps_snd: "keeps f m \<Longrightarrow> f (snd (m s)) = f s"
  by (simp add: keeps_def)

lemma keeps_errD: "keeps_err f m \<Longrightarrow> m s = (Inl e, s') \<Longrightarrow> f s' = f s"
  by (simp add: keeps_err_def)

lemma keeps_imp_err: "keeps f m \<Longrightarrow> keeps_err f m"
  by (auto simp: keeps_err_def dest: keepsD)

lemma keeps_retn [eff_intros]: "keeps f (retn a)"
  by (simp add: keeps_def retn_def)

lemma keeps_throw [eff_intros]: "keeps f (throw e)"
  by (simp add: keeps_def throw_def)

lemma keeps_lift [eff_intros]: "keeps f (lift r)"
  by (simp add: keeps_def lift_def)

lemma keeps_always: "(\<And>s. f (snd (g s)) = f s) \<Longrightarrow> keeps f (always g)"
  by (auto simp: keeps_def always_def split: prod.splits) (metis snd_conv)

lemma keeps_callw [eff_intros]:
  "keeps f m \<Longrightarrow> (\<And>a. keeps f (k a)) \<Longrightarrow> keeps f (callw m wrap k)"
  unfolding keeps_def callw_def
  by (auto split: prod.splits sum.splits) (metis snd_conv)+

lemma keeps_call [eff_intros]:
  "keeps f m \<Longrightarrow> (\<And>a. keeps f (k a)) \<Longrightarrow> keeps f (call m k)"
  unfolding call_def by (rule keeps_callw)

lemma keeps_if [eff_intros]:
  "(b \<Longrightarrow> keeps f m) \<Longrightarrow> (\<not> b \<Longrightarrow> keeps f n) \<Longrightarrow> keeps f (if b then m else n)"
  by simp

lemma keeps_case_option [eff_intros]:
  "(x = None \<Longrightarrow> keeps f m) \<Longrightarrow> (\<And>a. x = Some a \<Longrightarrow> keeps f (n a)) \<Longrightarrow>
   keeps f (case x of None \<Rightarrow> m | Some a \<Rightarrow> n a)"
  by (cases x) simp_all

lemma keeps_err_throw [eff_intros]: "keeps_err f (throw e)"
  by (rule keeps_imp_err [OF keeps_throw])

lemma keeps_err_callw [eff_intros]:
  "keeps f m \<Longrightarrow> (\<And>a. keeps_err f (k a)) \<Longrightarrow> keeps_err f (callw m wrap k)"
  unfolding keeps_err_def by (auto simp: callw_Inl_iff dest: keepsD)

lemma keeps_err_call [eff_intros]:
  "keeps f m \<Longrightarrow> (\<And>a. keeps_err f (k a)) \<Longrightarrow> keeps_err f (call m k)"
  unfolding call_def by (rule keeps_err_callw)

lemma keeps_err_last: "keeps_err f m \<Longrightarrow> keeps_err f (callw m wrap (\<lambda>a. retn (g a)))"
  unfolding keeps_err_def by (auto simp: callw_Inl_iff)

lemma keeps_err_if [eff_intros]:
  "(b \<Longrightarrow> keeps_err f m) \<Longrightarrow> (\<not> b \<Longrightarrow> keeps_err f n) \<Longrightarrow> keeps_err f (if b then m else n)"
  by simp

section \<open>Values of Go and of its standard library\<close>

text \<open>
  A float64 is NaN, an infinity or a finite number; the comparison operators of Go are those of
  IEEE 754, false whenever an operand is NaN. The two zeros compare equal and are one value here.
\<close>

datatype float64 = NaN | NegInf | Fin rat | PosInf

fun f64_le :: "float64 \<Rightarrow> float64 \<Rightarrow> bool" where
  "f64_le NaN y = False"
| "f64_le x NaN = False"
| "f64_le NegInf y = True"
| "f64_le x PosInf = True"
| "f64_le (Fin a) (Fin b) = (a \<le> b)"
| "f64_le x y = False"

fun f64_lt :: "float64 \<Rightarrow> float64 \<Rightarrow> bool" where
  "f64_lt NaN y = False"
| "f64_lt x NaN = False"
| "f64_lt NegInf NegInf = False"
| "f64_lt NegInf y = True"
| "f64_lt PosInf y = False"
| "f64_lt x PosInf = True"
| "f64_lt (Fin a) (Fin b) = (a < b)"
| "f64_lt (Fin a) NegInf = False"

definition f64_ge :: "float64 \<Rightarrow> float64 \<Rightarrow> bool" where
  "f64_ge x y = f64_le y x"

definition f64_gt :: "float64 \<Rightarrow> float64 \<Rightarrow> bool" where
  "f64_gt x y = f64_lt y x"

text \<open>A value of map[string]any, as encoding/json decodes it; a nil or empty map is the empty list.\<close>

datatype json =
    JNull | JBool bool | JNumber string | JString string
  | JArray "json list" | JObject "(string \<times> json) list"

type_synonym metadata = "(string \<times> json) list"

text \<open>
  strings.TrimSpace on ASCII text (tab, newline, vertical tab, form feed, carriage return, space;
  the other Unicode spaces are multi-byte in Go's strings and are not trimmed here).
\<close>

definition is_space :: "char \<Rightarrow> bool" where
  "is_space c \<longleftrightarrow> (let n = (of_char c :: nat) in 9 \<le> n \<and> n \<le> 13 \<or> n = 32)"

definition TrimSpace :: "string \<Rightarrow> string" where
  "TrimSpace s = rev (dropWhile is_space (rev (dropWhile is_space s)))"

text \<open>The test strings.TrimSpace(s) == "" that the validators make.\<close>

definition blank :: "string \<Rightarrow> bool" where
  "blank s \<longleftrightarrow> TrimSpace s = []"

lemma blank_iff: "blank s \<longleftrightarrow> (\<forall>c\<in>set s. is_space c)"
proof
  assume "blank s"
  then have "\<forall>c\<in>set (dropWhile is_space s). is_space c"
    by (simp add: blank_def TrimSpace_def)
  then have "dropWhile is_space s = []"
    by (metis hd_dropWhile hd_in_set)
  then show "\<forall>c\<in>set s. is_space c" by simp
next
  assume "\<forall>c\<in>set s. is_space c"
  then have "dropWhile is_space s = []" by simp
  then show "blank s" unfolding blank_def TrimSpace_def by (metis dropWhile.simps(1) rev.simps(1))
qed

lemma blank_Nil [simp]: "blank []"
  by (simp add: blank_iff)

text \<open>
  A slice expression xs[i:j]: out of range it panics. A panic is the error value of
  \<^verbatim>\<open>go_panic\<close>; no branch of the model recovers from it.
\<close>

definition go_panic :: "string \<Rightarrow> goerr" where
  "go_panic msg = LibError (''panic: '' @ msg)"

definition slice :: "'a list \<Rightarrow> int \<Rightarrow> int \<Rightarrow> goerr + 'a list" where
  "slice xs i j =
     (if 0 \<le> i \<and> i \<le> j \<and> j \<le> int (length xs) then Inr (take (nat (j - i)) (drop (nat i) xs))
      else Inl (go_panic ''slice bounds out of range''))"

text \<open>The first error of two results.\<close>

definition both :: "(goerr + 'a) \<Rightarrow> (goerr + 'b) \<Rightarrow> goerr + 'a \<times> 'b" where
  "both x y = (case x of Inl e \<Rightarrow> Inl e | Inr a \<Rightarrow> (case y of Inl e \<Rightarrow> Inl e | Inr b \<Rightarrow> Inr (a, b)))"

lemma both_Inr [simp]: "both x y = Inr ab \<longleftrightarrow> x = Inr (fst ab) \<and> y = Inr (snd ab)"
  by (cases ab) (auto simp: both_def split: sum.splits)

text \<open>strconv.Itoa\<close>

fun digits :: "nat \<Rightarrow> string" where
  "digits n = (if n < 10 then [char_of (48 + n)] else digits (n div 10) @ [char_of (48 + n mod 10)])"

declare digits.simps [simp del]

definition strconv_Itoa :: "int \<Rightarrow> string" where
  "strconv_Itoa i = (if i < 0 then CHR ''-'' # digits (nat (- i)) else digits (nat i))"

text \<open>What is added when an optional field is set.\<close>

definition opt_list :: "('a \<Rightarrow> 'b) \<Rightarrow> 'a option \<Rightarrow> 'b list" where
  "opt_list f x = (case x of None \<Rightarrow> [] | Some a \<Rightarrow> [f a])"

section \<open>Tables kept as lists of rows\<close>

text \<open>The rows of a table in insertion order; a lookup by key returns the first match.\<close>

definition row_lookup :: "('r \<Rightarrow> 'k) \<Rightarrow> 'r list \<Rightarrow> 'k \<Rightarrow> 'r option" where
  "row_lookup key rs k = find (\<lambda>r. key r = k) rs"

definition row_update :: "('r \<Rightarrow> 'k) \<Rightarrow> 'k \<Rightarrow> ('r \<Rightarrow> 'r) \<Rightarrow> 'r list \<Rightarrow> 'r list" where
  "row_update key k f rs = map (\<lambda>r. if key r = k then f r else r) rs"

lemma row_lookup_Nil [simp]: "row_lookup key [] k = None"
  by (simp add: row_lookup_def)

lemma row_lookup_Cons [simp]:
  "row_lookup key (r # rs) k = (if key r = k then Some r else row_lookup key rs k)"
  by (simp add: row_lookup_def)

lemma row_update_Nil [simp]: "row_update key k f [] = []"
  by (simp add: row_update_def)

lemma row_update_Cons [simp]:
  "row_update key k f (r # rs) = (if key r = k then f r else r) # row_update key k f rs"
  by (simp add: row_update_def)

lemma row_lookup_append [simp]:
  "row_lookup key (rs @ qs) k =
     (case row_lookup key rs k of None \<Rightarrow> row_lookup key qs k | Some r \<Rightarrow> Some r)"
  by (induction rs) auto

lemma row_lookup_update [simp]:
  assumes "\<And>r. key (f r) = key r"
  shows "row_lookup key (row_update key k f rs) j =
     (if j = k then map_option f (row_lookup key rs k) else row_lookup key rs j)"
  using assms by (induction rs) auto

lemma row_lookup_key: "row_lookup key rs k = Some r \<Longrightarrow> key r = k"
  by (induction rs) (auto split: if_splits)

lemma row_lookup_None_iff: "row_lookup key rs k = None \<longleftrightarrow> k \<notin> key ` set rs"
  by (induction rs) auto

lemma row_lookup_in_set: "row_lookup key rs k = Some r \<Longrightarrow> r \<in> set rs"
  by (induction rs) (auto split: if_splits)

lemma row_update_length [simp]: "length (row_update key k f rs) = length rs"
  by (simp add: row_update_def)

lemma row_update_keys [simp]:
  assumes "\<And>r. key (f r) = key r"
  shows "map key (row_update key k f rs) = map key rs"
  using assms by (induction rs) auto

lemma row_update_id: "row_lookup key rs k = None \<Longrightarrow> row_update key k f rs = rs"
  by (induction rs) (auto split: if_splits)

lemma set_row_update:
  "r \<in> set (row_update key k f rs) \<longleftrightarrow>
     (\<exists>q\<in>set rs. key q \<noteq> k \<and> r = q \<or> key q = k \<and> r = f q)"
  by (induction rs) auto

text \<open>The replacement of the one row with a key.\<close>

lemma set_row_replace:
  assumes "distinct (map key rs)" and "row_lookup key rs (key r) = Some r"
  shows "set (row_update key (key r) (\<lambda>q. r') rs) = insert r' (set rs - {r})"
  using assms
proof (induction rs)
  case (Cons q rs)
  show ?case
  proof (cases "key q = key r")
    case True
    then have q: "q = r" and none: "row_lookup key rs (key r) = None"
      using Cons.prems by (simp_all add: row_lookup_None_iff)
    then have "row_update key (key r) (\<lambda>q. r') rs = rs" "r \<notin> set rs"
      by (auto simp: row_update_id row_lookup_None_iff)
    with q show ?thesis by auto
  next
    case False
    then show ?thesis using Cons by auto
  qed
qed simp

lemma map_row_replace:
  assumes "distinct (map key rs)" and "row_lookup key rs (key r) = Some r" and "f r' = f r"
  shows "map f (row_update key (key r) (\<lambda>q. r') rs) = map f rs"
  using assms
proof (induction rs)
  case (Cons q rs)
  show ?case
  proof (cases "key q = key r")
    case True
    then have q: "q = r" and none: "row_lookup key rs (key r) = None"
      using Cons.prems by (simp_all add: row_lookup_None_iff)
    then have "row_update key (key r) (\<lambda>q. r') rs = rs" by (simp add: row_update_id)
    with q Cons.prems(3) show ?thesis by simp
  next
    case False
    then show ?thesis using Cons by auto
  qed
qed simp

section \<open>What a run reads from its surroundings\<close>

text \<open>
  The surroundings of a run are given as the stream of what the operating system's clock, the
  UUID generators and the database connection will answer: position n holds the n-th answer, and
  every reading advances the position. A fault is an error that the driver reports for a statement
  (a lost connection, a cancelled context, a server error the tables do not explain).
\<close>

record env =
  env_clock :: "nat \<Rightarrow> time"
  env_ids :: "nat \<Rightarrow> uuid"
  env_faults :: "nat \<Rightarrow> string option"
  env_pos :: nat

definition read_clock :: "'a env_scheme \<Rightarrow> time \<times> 'a env_scheme" where
  "read_clock w = (env_clock w (env_pos w), w\<lparr>env_pos := Suc (env_pos w)\<rparr>)"

definition read_id :: "'a env_scheme \<Rightarrow> uuid \<times> 'a env_scheme" where
  "read_id w = (env_ids w (env_pos w), w\<lparr>env_pos := Suc (env_pos w)\<rparr>)"

definition read_fault :: "'a env_scheme \<Rightarrow> string option \<times> 'a env_scheme" where
  "read_fault w = (env_faults w (env_pos w), w\<lparr>env_pos := Suc (env_pos w)\<rparr>)"

definition no_faults :: "'a env_scheme \<Rightarrow> bool" where
  "no_faults w \<longleftrightarrow> env_faults w = (\<lambda>n. None)"

end
