(* ===== verification/Numbers.thy ===== *)
theory Numbers
  imports Prelude "HOL-Library.Word" "HOL-Library.Log_Nat"
begin

text \<open>
  The numbers of the standard library that the code reads from texts: decimal digits, the number
  of a JSON document as a float64 (strconv.ParseFloat: the nearest double, ties to even), the
  conversion of a float64 to int64, and the instants of package time, whose seconds are an int64
  counted from the year 1.
\<close>

section \<open>Decimal texts\<close>

definition is_digit :: "char \<Rightarrow> bool" where
  "is_digit c \<longleftrightarrow> (let n = (of_char c :: nat) in 48 \<le> n \<and> n \<le> 57)"

definition is_decimal :: "string \<Rightarrow> bool" where
  "is_decimal s \<longleftrightarrow> s \<noteq> [] \<and> (\<forall>c\<in>set s. is_digit c)"

definition decimal_value :: "string \<Rightarrow> nat" where
  "decimal_value s = foldl (\<lambda>n c. n * 10 + (of_char c - 48)) 0 s"

text \<open>The value of a JSON number: sign, integer part, fraction and exponent.\<close>

definition ten_power :: "int \<Rightarrow> rat" where
  "ten_power e = (if 0 \<le> e then 10 ^ nat e else 1 / 10 ^ nat (- e))"

definition exponent_value :: "string \<Rightarrow> int" where
  "exponent_value s =
     (if s = [] then 0
      else if hd s = CHR ''-'' then - int (decimal_value (tl s))
      else if hd s = CHR ''+'' then int (decimal_value (tl s))
      else int (decimal_value s))"

definition number_value :: "string \<Rightarrow> rat" where
  "number_value s =
     (let neg = (s \<noteq> [] \<and> hd s = CHR ''-''); r = (if neg then tl s else s);
          ip = takeWhile is_digit r; r1 = dropWhile is_digit r;
          frac = (r1 \<noteq> [] \<and> hd r1 = CHR ''.'');
          fp = (if frac then takeWhile is_digit (tl r1) else []);
          r2 = (if frac then dropWhile is_digit (tl r1) else r1);
          ex = (if r2 = [] then 0 else exponent_value (tl r2));
          v = of_nat (decimal_value (ip @ fp)) * ten_power (ex - int (length fp))
      in if neg then - v else v)"

section \<open>Rounding to a double\<close>

definition two_power :: "int \<Rightarrow> rat" where
  "two_power e = (if 0 \<le> e then 2 ^ nat e else 1 / 2 ^ nat (- e))"

definition round_even :: "rat \<Rightarrow> int" where
  "round_even r =
     (let f = \<lfloor>r\<rfloor>; d = r - of_int f
      in if d < 1 / 2 then f else if d > 1 / 2 then f + 1 else if even f then f else f + 1)"

text \<open>
  The exponent of the last of the 53 bits: that of the leading bit less 52, at least -1074. The
  quotient of the bit lengths misses the leading bit by at most one.
\<close>

definition f64_exponent :: "rat \<Rightarrow> int" where
  "f64_exponent a =
     (case quotient_of a of (n, d) \<Rightarrow>
        let e = bitlen n - bitlen d - 53
        in max (- 1074) (if a < two_power (e + 53) then e else e + 1))"

definition f64_of_rat :: "rat \<Rightarrow> float64" where
  "f64_of_rat q =
     (if q = 0 then Fin 0
      else let e = f64_exponent \<bar>q\<bar>; v = of_int (round_even (\<bar>q\<bar> / two_power e)) * two_power e
           in if two_power 1024 \<le> v then (if q < 0 then NegInf else PosInf)
              else Fin (if q < 0 then - v else v))"

text \<open>A number out of range is an error of the decoder.\<close>

definition ParseFloat :: "string \<Rightarrow> float64 option" where
  "ParseFloat s = (case f64_of_rat (number_value s) of Fin v \<Rightarrow> Some (Fin v) | _ \<Rightarrow> None)"

lemma round_even_int [simp]: "round_even (of_int n) = n"
  by (simp add: round_even_def Let_def)

lemma round_even_close: "\<bar>of_int (round_even r) - r\<bar> \<le> 1 / 2"
  using floor_correct [of r] by (simp add: round_even_def Let_def abs_le_iff; linarith)

text \<open>An integer of at most 53 bits is a double.\<close>

lemma f64_of_int:
  assumes "\<bar>n\<bar> < 2 ^ 53"
  shows "f64_of_rat (of_int n) = Fin (of_int n)"
proof (cases "n = 0")
  case True
  then show ?thesis by (simp add: f64_of_rat_def)
next
  case False
  let ?a = "\<bar>of_int n :: rat\<bar>" and ?e = "f64_exponent \<bar>of_int n :: rat\<bar>"
  have a: "?a = of_int \<bar>n\<bar>" by simp
  have q: "quotient_of ?a = (\<bar>n\<bar>, 1)" unfolding a by (rule quotient_of_rat_of_int)
  have "bitlen \<bar>n\<bar> \<le> 53" using assms bitlen_le_iff_power [of "\<bar>n\<bar>" 53] by simp
  moreover have b1: "bitlen 1 = (1 :: int)" by (simp add: bitlen_alt_def)
  ultimately have e: "?e \<le> 0" unfolding f64_exponent_def q by (simp add: Let_def)
  have "two_power x = 1 / 2 ^ nat (- x)" if "x \<le> 0" for x
    using that by (cases "x = 0") (simp_all add: two_power_def)
  with e obtain k where k: "two_power ?e = 1 / 2 ^ k" by blast
  have "?a / (1 / 2 ^ k) = of_int (\<bar>n\<bar> * 2 ^ k)" by simp
  then have v: "of_int (round_even (?a / two_power ?e)) * two_power ?e = ?a"
    unfolding k by (simp only: round_even_int) simp
  have "?a < two_power 1024"
  proof -
    have "\<bar>n\<bar> < 2 ^ 1024" using assms by simp
    then have "(of_int \<bar>n\<bar> :: rat) < of_int (2 ^ 1024)" by (simp only: of_int_less_iff)
    then show ?thesis by (simp add: two_power_def)
  qed
  with False show ?thesis unfolding f64_of_rat_def Let_def v by simp
qed

section \<open>Addition\<close>

text \<open>The sum of two doubles is the double nearest to the exact sum; the sign of zero is not modelled.\<close>

fun f64_add :: "float64 \<Rightarrow> float64 \<Rightarrow> float64" where
  "f64_add NaN y = NaN"
| "f64_add x NaN = NaN"
| "f64_add PosInf NegInf = NaN"
| "f64_add NegInf PosInf = NaN"
| "f64_add PosInf y = PosInf"
| "f64_add NegInf y = NegInf"
| "f64_add x PosInf = PosInf"
| "f64_add x NegInf = NegInf"
| "f64_add (Fin a) (Fin b) = f64_of_rat (a + b)"

lemma two_power_powi: "two_power e = 2 powi e"
  by (simp add: two_power_def power_int_def inverse_eq_divide power_divide)

lemma two_power_mono: "a \<le> b \<Longrightarrow> two_power a \<le> two_power b"
  by (simp add: two_power_powi power_int_increasing)

lemma two_power_pos [simp]: "0 < two_power e"
  by (simp add: two_power_powi)

lemma bitlen_rat:
  assumes "0 < n"
  shows "two_power (bitlen n - 1) \<le> of_int n" "of_int n < two_power (bitlen n)"
proof -
  have b: "2 ^ nat (bitlen n - 1) \<le> n" "n < 2 ^ nat (bitlen n)"
    using assms bitlen_bounds [of n] by simp_all
  have "0 < bitlen n" using assms by (simp add: bitlen_alt_def)
  moreover have "(of_int (2 ^ nat (bitlen n - 1)) :: rat) \<le> of_int n" "(of_int n :: rat) < of_int (2 ^ nat (bitlen n))"
    using b by (simp_all only: of_int_le_iff of_int_less_iff)
  ultimately show "two_power (bitlen n - 1) \<le> of_int n" "of_int n < two_power (bitlen n)"
    by (simp_all add: two_power_def)
qed

lemma f64_exponent_small:
  assumes "0 < a" "a < 4"
  shows "f64_exponent a \<le> - 51"
proof -
  obtain n d where q: "quotient_of a = (n, d)" by (rule prod.exhaust)
  have d: "0 < d" using quotient_of_denom_pos [OF q] .
  have a: "a = of_int n / of_int d" using quotient_of_div [OF q] .
  have n: "0 < n" using assms(1) d unfolding a by (simp add: zero_less_divide_iff)
  let ?e = "bitlen n - bitlen d - 53"
  have "two_power (bitlen n - 1) / two_power (bitlen d) < of_int n / of_int d"
    using bitlen_rat(1) [OF n] bitlen_rat(2) [OF d] d n by (intro frac_less2) simp_all
  then have "two_power (bitlen n - 1 - bitlen d) < two_power 2"
    using assms(2) unfolding a by (simp add: two_power_powi power_int_diff)
  then have "\<not> 2 \<le> bitlen n - 1 - bitlen d" using two_power_mono [of 2 "bitlen n - 1 - bitlen d"] by linarith
  then have e: "?e \<le> - 51" by simp
  show ?thesis
  proof (cases "?e = - 51")
    case True
    then have "a < two_power (?e + 53)" using assms(2) by (simp add: two_power_def)
    then show ?thesis using True by (simp add: f64_exponent_def q Let_def)
  next
    case False
    then show ?thesis using e by (simp add: f64_exponent_def q Let_def)
  qed
qed

text \<open>Below 4 the nearest double is within 2 to the power of minus 52.\<close>

lemma f64_of_rat_close:
  assumes "\<bar>q\<bar> < 4"
  obtains v where "f64_of_rat q = Fin v" "\<bar>v - q\<bar> \<le> 1 / 2 ^ 52"
proof (cases "q = 0")
  case True
  then show thesis using that [of 0] by (simp add: f64_of_rat_def)
next
  case False
  let ?p = "two_power (f64_exponent \<bar>q\<bar>)"
  let ?v = "of_int (round_even (\<bar>q\<bar> / ?p)) * ?p"
  have p: "?p \<le> 1 / 2 ^ 51"
    using two_power_mono [OF f64_exponent_small [of "\<bar>q\<bar>"]] assms False by (simp add: two_power_def)
  have "\<bar>?v - \<bar>q\<bar>\<bar> = \<bar>of_int (round_even (\<bar>q\<bar> / ?p)) - \<bar>q\<bar> / ?p\<bar> * ?p"
  proof -
    have "?v - \<bar>q\<bar> = (of_int (round_even (\<bar>q\<bar> / ?p)) - \<bar>q\<bar> / ?p) * ?p"
      using two_power_pos [of "f64_exponent \<bar>q\<bar>", THEN less_imp_neq, THEN not_sym] by (simp add: field_simps)
    then show ?thesis by (simp only: abs_mult abs_of_pos [OF two_power_pos])
  qed
  also have "\<dots> \<le> 1 / 2 * ?p"
    using round_even_close [of "\<bar>q\<bar> / ?p"] by (intro mult_right_mono less_imp_le [OF two_power_pos])
  finally have c: "\<bar>?v - \<bar>q\<bar>\<bar> \<le> 1 / 2 ^ 52" using p by simp
  have "?v < two_power 1024"
  proof -
    have "?v - \<bar>q\<bar> \<le> 1 / 2 ^ 52" using c by (rule abs_le_D1)
    moreover have "1 / 2 ^ 52 < (1 :: rat)" by simp
    ultimately have "?v < 5" using assms by linarith
    also have "(5 :: rat) \<le> two_power 3" by (simp add: two_power_def)
    also have "\<dots> \<le> two_power 1024" by (rule two_power_mono) simp
    finally show ?thesis .
  qed
  then have "f64_of_rat q = Fin (if q < 0 then - ?v else ?v)"
    using False by (simp add: f64_of_rat_def Let_def not_le)
  moreover have "\<bar>(if x < 0 then - v else v) - x\<bar> = \<bar>v - \<bar>x\<bar>\<bar>" for v x :: rat
    by (auto simp: abs_if)
  ultimately show thesis using that c by metis
qed

section \<open>A double as JSON\<close>

text \<open>
  encoding/json writes a float64 with the fewest decimal digits that read back as the same double,
  the nearest of them, without an exponent between 10 to the -6 and 10 to the 21. NaN and the
  infinities have no text. \<^verbatim>\<open>decimal_point\<close> is the e with 10 to the e-1 <= q < 10 to the e.
\<close>

definition decimal_point :: "rat \<Rightarrow> int" where
  "decimal_point q =
     (case quotient_of q of (n, d) \<Rightarrow>
        let e = int (length (digits (nat n))) - int (length (digits (nat d)))
        in if q < ten_power e then e else e + 1)"

text \<open>The best number k with k units of the n-th digit reading back as q, and that unit's exponent.\<close>

definition decimal_digits :: "rat \<Rightarrow> nat \<Rightarrow> (int \<times> int) option" where
  "decimal_digits q n =
     (let x = decimal_point q - int n; u = ten_power x; k = \<lfloor>q / u\<rfloor>;
          ok = (\<lambda>j. f64_of_rat (of_int j * u) = Fin q)
      in if ok k \<and> (\<not> ok (k + 1) \<or> q / u - of_int k \<le> 1 / 2) then Some (k, x)
         else if ok (k + 1) then Some (k + 1, x) else None)"

definition shortest_decimal :: "rat \<Rightarrow> int \<times> int" where
  "shortest_decimal q =
     (case List.map_filter (decimal_digits q) [1..<18] of
        [] \<Rightarrow> (\<lfloor>q / ten_power (decimal_point q - 17)\<rfloor>, decimal_point q - 17) | kx # _ \<Rightarrow> kx)"

definition decimal_text :: "int \<times> int \<Rightarrow> string" where
  "decimal_text kx =
     (let ds = digits (nat (fst kx)); dp = int (length ds) + snd kx;
          sig = rev (dropWhile (\<lambda>c. c = CHR ''0'') (rev ds)); n = int (length sig)
      in if dp \<le> - 6 \<or> 21 < dp
         then take 1 sig @ (if n = 1 then [] else ''.'' @ drop 1 sig) @ ''e'' @
              (if 1 \<le> dp then ''+'' else ''-'') @ digits (nat \<bar>dp - 1\<bar>)
         else if dp \<le> 0 then ''0.'' @ replicate (nat (- dp)) (CHR ''0'') @ sig
         else if n \<le> dp then sig @ replicate (nat (dp - n)) (CHR ''0'')
         else take (nat dp) sig @ ''.'' @ drop (nat dp) sig)"

definition json_float :: "float64 \<Rightarrow> string option" where
  "json_float x = (case x of
     Fin q \<Rightarrow> Some (if q = 0 then ''0'' else (if q < 0 then ''-'' else []) @ decimal_text (shortest_decimal \<bar>q\<bar>))
   | _ \<Rightarrow> None)"

section \<open>Instants\<close>

text \<open>
  int64(x) truncates; outside the range of int64 the result depends on the machine, and is the
  argument \<^verbatim>\<open>conv\<close>.
\<close>

definition trunc_rat :: "rat \<Rightarrow> int" where
  "trunc_rat q = (if 0 \<le> q then \<lfloor>q\<rfloor> else - \<lfloor>- q\<rfloor>)"

definition int64_of_f64 :: "(float64 \<Rightarrow> int) \<Rightarrow> float64 \<Rightarrow> int" where
  "int64_of_f64 conv x = (case x of
     Fin q \<Rightarrow> if - (2 ^ 63) \<le> trunc_rat q \<and> trunc_rat q < 2 ^ 63 then trunc_rat q else conv x
   | _ \<Rightarrow> conv x)"

definition epoch_offset :: int where
  "epoch_offset = 62135596800"

definition nanosecond :: int where
  "nanosecond = 1000000000"

text \<open>time.Unix(sec, 0): the seconds since the year 1 wrap at 64 bits.\<close>

definition time_Unix :: "int \<Rightarrow> time" where
  "time_Unix sec = (sint (word_of_int (sec + epoch_offset) :: 64 word) - epoch_offset) * nanosecond"

text \<open>Time.Add on whole instants: the seconds saturate at the bounds of int64.\<close>

definition time_Add :: "time \<Rightarrow> int \<Rightarrow> time" where
  "time_Add t d =
     max ((- (2 ^ 63) - epoch_offset) * nanosecond)
       (min ((2 ^ 63 - epoch_offset) * nanosecond - 1) (t + d))"

lemma time_Unix_small:
  assumes "0 \<le> sec" and "sec < 2 ^ 62"
  shows "time_Unix sec = sec * nanosecond"
proof -
  have "sint (word_of_int x :: 64 word) = x" if "0 \<le> x" "x < 2 ^ 63" for x
    using that by (simp add: signed_of_int signed_take_bit_int_eq_self)
  from this [of "sec + epoch_offset"] assms
  have "sint (word_of_int (sec + epoch_offset) :: 64 word) = sec + epoch_offset"
    by (simp add: epoch_offset_def)
  then show ?thesis by (simp add: time_Unix_def)
qed

end
