(* ===== verification/Workflow_Types.thy ===== *)
theory Workflow_Types
  imports Prelude
begin

text \<open>
  internal/types/workflow.go: the states of a workflow, the entity and the transition gate.
  A WorkflowState is a Go string, so values outside the four constants are possible and the gate
  has to answer for them too.
\<close>

type_synonym workflow_state = string

definition WorkflowStatePending :: workflow_state where
  "WorkflowStatePending = ''PENDING''"

definition WorkflowStateRunning :: workflow_state where
  "WorkflowStateRunning = ''RUNNING''"

definition WorkflowStateCompleted :: workflow_state where
  "WorkflowStateCompleted = ''COMPLETED''"

definition WorkflowStateFailed :: workflow_state where
  "WorkflowStateFailed = ''FAILED''"

lemmas workflow_state_defs =
  WorkflowStatePending_def WorkflowStateRunning_def
  WorkflowStateCompleted_def WorkflowStateFailed_def

lemma workflow_states_distinct [simp]:
  "WorkflowStatePending \<noteq> WorkflowStateRunning" "WorkflowStateRunning \<noteq> WorkflowStatePending"
  "WorkflowStatePending \<noteq> WorkflowStateCompleted" "WorkflowStateCompleted \<noteq> WorkflowStatePending"
  "WorkflowStatePending \<noteq> WorkflowStateFailed" "WorkflowStateFailed \<noteq> WorkflowStatePending"
  "WorkflowStateRunning \<noteq> WorkflowStateCompleted" "WorkflowStateCompleted \<noteq> WorkflowStateRunning"
  "WorkflowStateRunning \<noteq> WorkflowStateFailed" "WorkflowStateFailed \<noteq> WorkflowStateRunning"
  "WorkflowStateCompleted \<noteq> WorkflowStateFailed" "WorkflowStateFailed \<noteq> WorkflowStateCompleted"
  by (simp_all add: workflow_state_defs)

text \<open>The entity. A nil result_json is \<^verbatim>\<open>None\<close>; a nil report id is \<^verbatim>\<open>None\<close>.\<close>

record workflow =
  wf_CreatedAt :: time
  wf_UpdatedAt :: time
  wf_ReportID :: "uuid option"
  wf_State :: workflow_state
  wf_ResultJSON :: "bytes option"
  wf_ID :: uuid
  wf_DocumentID :: uuid

text \<open>The Go map ValidTransitions: looking up an absent key gives \<^verbatim>\<open>None\<close>.\<close>

definition ValidTransitions :: "workflow_state \<rightharpoonup> workflow_state list" where
  "ValidTransitions =
     [WorkflowStatePending \<mapsto> [WorkflowStateRunning, WorkflowStateFailed],
      WorkflowStateRunning \<mapsto> [WorkflowStateCompleted, WorkflowStateFailed]]"

text \<open>The loop of IsValidTransition over the allowed targets.\<close>

fun transition_allowed :: "workflow_state list \<Rightarrow> workflow_state \<Rightarrow> bool" where
  "transition_allowed [] q = False"
| "transition_allowed (s # ss) q = (if s = q then True else transition_allowed ss q)"

definition IsValidTransition :: "workflow_state \<Rightarrow> workflow_state \<Rightarrow> bool" where
  "IsValidTransition p q = (case ValidTransitions p of None \<Rightarrow> False | Some ss \<Rightarrow> transition_allowed ss q)"

lemma transition_allowed_iff [simp]: "transition_allowed ss q \<longleftrightarrow> q \<in> set ss"
  by (induction ss) auto

lemma IsValidTransition_iff:
  "IsValidTransition p q \<longleftrightarrow>
     p = WorkflowStatePending \<and> (q = WorkflowStateRunning \<or> q = WorkflowStateFailed) \<or>
     p = WorkflowStateRunning \<and> (q = WorkflowStateCompleted \<or> q = WorkflowStateFailed)"
  by (simp add: IsValidTransition_def ValidTransitions_def)

text \<open>The states with no way out.\<close>

definition terminal_state :: "workflow_state \<Rightarrow> bool" where
  "terminal_state p \<longleftrightarrow> ValidTransitions p = None"

lemma terminal_no_transition: "terminal_state p \<Longrightarrow> \<not> IsValidTransition p q"
  by (simp add: terminal_state_def IsValidTransition_def)

lemma terminal_states [simp]:
  "terminal_state WorkflowStateCompleted" "terminal_state WorkflowStateFailed"
  "\<not> terminal_state WorkflowStatePending" "\<not> terminal_state WorkflowStateRunning"
  by (simp_all add: terminal_state_def ValidTransitions_def)

text \<open>Every chain of valid transitions is short: a workflow changes state at most twice.\<close>

definition state_rank :: "workflow_state \<Rightarrow> nat" where
  "state_rank p = (if p = WorkflowStatePending then 2 else if p = WorkflowStateRunning then 1 else 0)"

lemma transition_decreases: "IsValidTransition p q \<Longrightarrow> state_rank q < state_rank p"
  by (auto simp: IsValidTransition_iff state_rank_def)

end
