(* ===== verification/Audit_Events.thy ===== *)
theory Audit_Events
  imports Prelude
begin

text \<open>
  internal/audit: the action names, the event and the Recorder, whose methods build one event
  each and hand it to the InsertAuditLog of the caller's transaction. What the methods use of the
  outside is the record \<^verbatim>\<open>runtime\<close>: the reading of the operating system's clock (time.Now)
  and the functions of github.com/google/uuid. The details of an event are the map that the code
  gives to json.Marshal; nil details are \<^verbatim>\<open>None\<close>.
\<close>

record 's runtime =
  time_Now :: "'s \<Rightarrow> time \<times> 's"
  uuid_Parse :: "string \<Rightarrow> uuid option"
  uuid_String :: "uuid \<Rightarrow> string"
  uuid_NewSHA1 :: "uuid \<Rightarrow> string \<Rightarrow> uuid"

type_synonym action = string

definition ActionWorkflowCreated :: action where
  "ActionWorkflowCreated = ''WORKFLOW_CREATED''"

definition ActionWorkflowTransitionedToRunning :: action where
  "ActionWorkflowTransitionedToRunning = ''WORKFLOW_TRANSITIONED_TO_RUNNING''"

definition ActionWorkflowCompleted :: action where
  "ActionWorkflowCompleted = ''WORKFLOW_COMPLETED''"

definition ActionWorkflowFailedDispatch :: action where
  "ActionWorkflowFailedDispatch = ''WORKFLOW_FAILED_DISPATCH''"

definition ActionWorkflowFailedCallback :: action where
  "ActionWorkflowFailedCallback = ''WORKFLOW_FAILED_CALLBACK''"

definition ActionCallbackRejectedTerminal :: action where
  "ActionCallbackRejectedTerminal = ''CALLBACK_REJECTED_TERMINAL''"

definition ActionTransitionRejected :: action where
  "ActionTransitionRejected = ''TRANSITION_REJECTED''"

definition ActionWorkflowCreateCancelled :: action where
  "ActionWorkflowCreateCancelled = ''WORKFLOW_CREATE_CANCELLED''"

definition ActionAuthForbidden :: action where
  "ActionAuthForbidden = ''AUTH_FORBIDDEN''"

definition ActionAuthLogout :: action where
  "ActionAuthLogout = ''AUTH_LOGOUT''"

definition ActionABACDenied :: action where
  "ActionABACDenied = ''ABAC_CONDITION_DENIED''"

definition ActionEvidenceCreated :: action where
  "ActionEvidenceCreated = ''EVIDENCE_CREATED''"

definition ActionEvidenceVersioned :: action where
  "ActionEvidenceVersioned = ''EVIDENCE_VERSIONED''"

definition ActionEvalItemCreated :: action where
  "ActionEvalItemCreated = ''EVAL_ITEM_CREATED''"

definition ActionEvalItemUpdated :: action where
  "ActionEvalItemUpdated = ''EVAL_ITEM_UPDATED''"

definition ActionScoreCreated :: action where
  "ActionScoreCreated = ''SCORE_CREATED''"

definition ActionScoreUpdated :: action where
  "ActionScoreUpdated = ''SCORE_UPDATED''"

definition ActionScoreReviewRequestCreated :: action where
  "ActionScoreReviewRequestCreated = ''SCORE_REVIEW_REQUEST_CREATED''"

definition ActionScoreReviewRequestReviewerAssigned :: action where
  "ActionScoreReviewRequestReviewerAssigned = ''SCORE_REVIEW_REQUEST_REVIEWER_ASSIGNED''"

definition ActionScoreReviewRequestApproved :: action where
  "ActionScoreReviewRequestApproved = ''SCORE_REVIEW_REQUEST_APPROVED''"

definition ActionScoreReviewRequestRejected :: action where
  "ActionScoreReviewRequestRejected = ''SCORE_REVIEW_REQUEST_REJECTED''"

definition ActionRubricCreated :: action where
  "ActionRubricCreated = ''RUBRIC_CREATED''"

definition ActionRubricUpdated :: action where
  "ActionRubricUpdated = ''RUBRIC_UPDATED''"

definition ActionRubricArchived :: action where
  "ActionRubricArchived = ''RUBRIC_ARCHIVED''"

definition ActionRubricCriterionAdded :: action where
  "ActionRubricCriterionAdded = ''RUBRIC_CRITERION_ADDED''"

definition ActionRubricBandAdded :: action where
  "ActionRubricBandAdded = ''RUBRIC_BAND_ADDED''"

text \<open>The fixed namespace a7f3c2e1-9b4d-5e6f-8a0b-1c2d3e4f5a6b of the UUIDv5 surrogates.\<close>

definition EvalItemAuditNamespace :: uuid where
  "EvalItemAuditNamespace = 0xa7f3c2e19b4d5e6f8a0b1c2d3e4f5a6b"

record audit_event =
  ev_Timestamp :: time
  ev_Action :: action
  ev_ResourceType :: string
  ev_UserID :: string
  ev_Details :: "json_map option"
  ev_ResourceID :: uuid

text \<open>The interface AuditTx has one method, InsertAuditLog; a value of it is that method.\<close>

type_synonym 's AuditTx = "audit_event \<Rightarrow> ('s, unit) eff"

text \<open>json.Marshal never fails on a map[string]string, so the error branches after it are dead.\<close>

definition json_Marshal :: "json_map \<Rightarrow> goerr + json_map" where
  "json_Marshal m = Inr m"

lemma json_Marshal_Inr [simp]: "json_Marshal m = Inr m"
  by (simp add: json_Marshal_def)

section \<open>The Recorder\<close>

definition DefaultUserID :: string where
  "DefaultUserID = ''cli-anonymous''"

type_synonym 's clock = "'s \<Rightarrow> time \<times> 's"

text \<open>A nil clock is \<^verbatim>\<open>None\<close>; systemClock.NowUTC is time.Now.\<close>

record 's Recorder =
  rec_clock :: "'s clock option"
  rec_authEnabled :: bool

definition systemClock_NowUTC :: "'s runtime \<Rightarrow> 's clock" where
  "systemClock_NowUTC rt = time_Now rt"

definition WithClock :: "'s clock option \<Rightarrow> 's Recorder \<Rightarrow> 's Recorder" where
  "WithClock c r = r\<lparr>rec_clock := c\<rparr>"

definition NewRecorder :: "'s runtime \<Rightarrow> bool \<Rightarrow> ('s Recorder \<Rightarrow> 's Recorder) list \<Rightarrow> 's Recorder" where
  "NewRecorder rt authEnabled opts =
     (let r = fold (\<lambda>opt r. opt r) opts
                \<lparr>rec_clock = Some (systemClock_NowUTC rt), rec_authEnabled = authEnabled\<rparr>
      in if rec_clock r = None then r\<lparr>rec_clock := Some (systemClock_NowUTC rt)\<rparr> else r)"

definition nowUTC :: "'s runtime \<Rightarrow> 's Recorder \<Rightarrow> 's clock" where
  "nowUTC rt r = (case rec_clock r of None \<Rightarrow> time_Now rt | Some c \<Rightarrow> c)"

definition Recorder_resolveUserID :: "'s Recorder \<Rightarrow> string \<Rightarrow> string" where
  "Recorder_resolveUserID r userID =
     (if userID = '''' \<or> \<not> rec_authEnabled r then DefaultUserID else userID)"

definition parseResourceID :: "'s runtime \<Rightarrow> string \<Rightarrow> uuid" where
  "parseResourceID rt s = (case uuid_Parse rt s of None \<Rightarrow> uuid_Nil | Some u \<Rightarrow> u)"

text \<open>
  The last lines of every Record method: read a clock, build the event, insert it. The workflow
  methods read time.Now, the others the Recorder's own clock.
\<close>

definition insert_event ::
  "'s clock \<Rightarrow> 's AuditTx \<Rightarrow> action \<Rightarrow> string \<Rightarrow> uuid \<Rightarrow> string \<Rightarrow> json_map option \<Rightarrow> ('s, unit) eff" where
  "insert_event clk ins act rtype rid uid details =
     call (always clk) (\<lambda>ts.
       ins \<lparr>ev_Timestamp = ts, ev_Action = act, ev_ResourceType = rtype, ev_UserID = uid,
            ev_Details = details, ev_ResourceID = rid\<rparr>)"

end
