(* ===== verification/Recorder.thy ===== *)
theory Recorder
  imports Audit_Events
begin

text \<open>
  The Record methods of internal/audit/recorder.go, one definition per method: which action,
  resource type, resource id, user and details each of them writes. The lemmas at the end give
  what the store theories use of them.
\<close>

named_theorems record_defs "the definitions of the Record methods"

definition marshal_then ::
  "string \<Rightarrow> json_map \<Rightarrow> (json_map \<Rightarrow> ('s, 'a) eff) \<Rightarrow> ('s, 'a) eff" where
  "marshal_then msg m k = callw (lift (json_Marshal m)) (wrap1 msg) k"

lemma marshal_then_run [simp]: "marshal_then msg m k = k m"
  by (rule ext) (simp add: marshal_then_def callw_def lift_def)

definition RecordCreated ::
  "'s runtime \<Rightarrow> 's Recorder \<Rightarrow> 's AuditTx \<Rightarrow> string \<Rightarrow> string \<Rightarrow> string \<Rightarrow> ('s, unit) eff" where
  [record_defs]: "RecordCreated rt r tx workflowID documentID userID =
     marshal_then ''recorder: marshal details'' [''document_id'' \<mapsto> documentID] (\<lambda>details.
       insert_event (time_Now rt) tx ActionWorkflowCreated ''workflow'' (parseResourceID rt workflowID)
         (Recorder_resolveUserID r userID) (Some details))"

definition RecordTransition ::
  "'s runtime \<Rightarrow> 's Recorder \<Rightarrow> 's AuditTx \<Rightarrow> string \<Rightarrow> action \<Rightarrow> action \<Rightarrow> string \<Rightarrow> ('s, unit) eff" where
  [record_defs]: "RecordTransition rt r tx workflowID from_act to_act userID =
     marshal_then ''recorder: marshal transition details'' [''from'' \<mapsto> from_act, ''to'' \<mapsto> to_act] (\<lambda>details.
       insert_event (time_Now rt) tx to_act ''workflow'' (parseResourceID rt workflowID)
         (Recorder_resolveUserID r userID) (Some details))"

definition RecordCompleted ::
  "'s runtime \<Rightarrow> 's Recorder \<Rightarrow> 's AuditTx \<Rightarrow> string \<Rightarrow> string \<Rightarrow> ('s, unit) eff" where
  [record_defs]: "RecordCompleted rt r tx workflowID userID =
     insert_event (time_Now rt) tx ActionWorkflowCompleted ''workflow'' (parseResourceID rt workflowID)
         (Recorder_resolveUserID r userID) None"

definition RecordFailedDispatch ::
  "'s runtime \<Rightarrow> 's Recorder \<Rightarrow> 's AuditTx \<Rightarrow> string \<Rightarrow> string \<Rightarrow> ('s, unit) eff" where
  [record_defs]: "RecordFailedDispatch rt r tx workflowID userID =
     insert_event (time_Now rt) tx ActionWorkflowFailedDispatch ''workflow'' (parseResourceID rt workflowID)
         (Recorder_resolveUserID r userID) None"

definition RecordTransitionRejected ::
  "'s runtime \<Rightarrow> 's Recorder \<Rightarrow> 's AuditTx \<Rightarrow> string \<Rightarrow> action \<Rightarrow> action \<Rightarrow> string \<Rightarrow> string \<Rightarrow> ('s, unit) eff" where
  [record_defs]: "RecordTransitionRejected rt r tx workflowID from_act to_act reason userID =
     marshal_then ''recorder: marshal rejection details'' [''from'' \<mapsto> from_act, ''to'' \<mapsto> to_act, ''reason'' \<mapsto> reason] (\<lambda>details.
       insert_event (time_Now rt) tx ActionTransitionRejected ''workflow'' (parseResourceID rt workflowID)
         (Recorder_resolveUserID r userID) (Some details))"

definition RecordTransitionedToRunning ::
  "'s runtime \<Rightarrow> 's Recorder \<Rightarrow> 's AuditTx \<Rightarrow> string \<Rightarrow> string \<Rightarrow> ('s, unit) eff" where
  [record_defs]: "RecordTransitionedToRunning rt r tx workflowID userID =
     marshal_then ''recorder: marshal transition details'' [''from'' \<mapsto> ''PENDING'', ''to'' \<mapsto> ''RUNNING''] (\<lambda>details.
       insert_event (time_Now rt) tx ActionWorkflowTransitionedToRunning ''workflow'' (parseResourceID rt workflowID)
         (Recorder_resolveUserID r userID) (Some details))"

definition RecordFailedCallback ::
  "'s runtime \<Rightarrow> 's Recorder \<Rightarrow> 's AuditTx \<Rightarrow> string \<Rightarrow> string \<Rightarrow> string \<Rightarrow> ('s, unit) eff" where
  [record_defs]: "RecordFailedCallback rt r tx workflowID reason userID =
     marshal_then ''recorder: marshal callback failure details'' [''reason'' \<mapsto> reason] (\<lambda>details.
       insert_event (time_Now rt) tx ActionWorkflowFailedCallback ''workflow'' (parseResourceID rt workflowID)
         (Recorder_resolveUserID r userID) (Some details))"

definition RecordCreateCancelled ::
  "'s runtime \<Rightarrow> 's Recorder \<Rightarrow> 's AuditTx \<Rightarrow> string \<Rightarrow> string \<Rightarrow> ('s, unit) eff" where
  [record_defs]: "RecordCreateCancelled rt r tx workflowID userID =
     insert_event (time_Now rt) tx ActionWorkflowCreateCancelled ''workflow'' (parseResourceID rt workflowID)
         (Recorder_resolveUserID r userID) None"

definition RecordEvidenceCreated ::
  "'s runtime \<Rightarrow> 's Recorder \<Rightarrow> 's AuditTx \<Rightarrow> string \<Rightarrow> string \<Rightarrow> string \<Rightarrow> int \<Rightarrow> string \<Rightarrow> ('s, unit) eff" where
  [record_defs]: "RecordEvidenceCreated rt r tx evidenceID evalItemID fileHashSHA256 version userID =
     marshal_then ''recorder: marshal evidence created details''
       [''evaluation_item_id'' \<mapsto> evalItemID, ''version'' \<mapsto> strconv_Itoa version,
        ''file_hash_sha256'' \<mapsto> fileHashSHA256] (\<lambda>details.
       insert_event (nowUTC rt r) tx ActionEvidenceCreated ''evidence'' (parseResourceID rt evidenceID)
         (Recorder_resolveUserID r userID) (Some details))"

definition RecordEvidenceVersioned ::
  "'s runtime \<Rightarrow> 's Recorder \<Rightarrow> 's AuditTx \<Rightarrow> string \<Rightarrow> string \<Rightarrow> string \<Rightarrow> int \<Rightarrow> string \<Rightarrow> string \<Rightarrow>
   ('s, unit) eff" where
  [record_defs]: "RecordEvidenceVersioned rt r tx evidenceID evalItemID fileHashSHA256 version previousVersionID userID =
     marshal_then ''recorder: marshal evidence versioned details''
       [''evaluation_item_id'' \<mapsto> evalItemID, ''version'' \<mapsto> strconv_Itoa version,
        ''file_hash_sha256'' \<mapsto> fileHashSHA256, ''previous_version_id'' \<mapsto> previousVersionID] (\<lambda>details.
       insert_event (nowUTC rt r) tx ActionEvidenceVersioned ''evidence'' (parseResourceID rt evidenceID)
         (Recorder_resolveUserID r userID) (Some details))"

definition evalItemResourceID :: "'s runtime \<Rightarrow> string \<Rightarrow> uuid" where
  "evalItemResourceID rt hierarchyCode = uuid_NewSHA1 rt EvalItemAuditNamespace hierarchyCode"

definition evalItemDetails :: "string \<Rightarrow> string \<Rightarrow> string \<Rightarrow> int \<Rightarrow> goerr + json_map" where
  "evalItemDetails itemID hierarchyCode parentID level =
     (let d = [''eval_item_id'' \<mapsto> itemID, ''hierarchy_code'' \<mapsto> hierarchyCode,
               ''level'' \<mapsto> strconv_Itoa level];
          d' = (if parentID \<noteq> '''' then d(''parent_id'' \<mapsto> parentID) else d)
      in case json_Marshal d' of
           Inl e \<Rightarrow> Inl (wrap1 ''recorder: marshal eval_item details'' e)
         | Inr b \<Rightarrow> Inr b)"

definition RecordEvalItemCreated ::
  "'s runtime \<Rightarrow> 's Recorder \<Rightarrow> 's AuditTx \<Rightarrow> string \<Rightarrow> string \<Rightarrow> string \<Rightarrow> int \<Rightarrow> string \<Rightarrow> ('s, unit) eff" where
  [record_defs]: "RecordEvalItemCreated rt r tx itemID hierarchyCode parentID level userID =
     call (lift (evalItemDetails itemID hierarchyCode parentID level)) (\<lambda>details.
       insert_event (nowUTC rt r) tx ActionEvalItemCreated ''evaluation_item''
         (evalItemResourceID rt hierarchyCode) (Recorder_resolveUserID r userID) (Some details))"

definition RecordEvalItemUpdated ::
  "'s runtime \<Rightarrow> 's Recorder \<Rightarrow> 's AuditTx \<Rightarrow> string \<Rightarrow> string \<Rightarrow> string \<Rightarrow> int \<Rightarrow> string \<Rightarrow> ('s, unit) eff" where
  [record_defs]: "RecordEvalItemUpdated rt r tx itemID hierarchyCode parentID level userID =
     call (lift (evalItemDetails itemID hierarchyCode parentID level)) (\<lambda>details.
       insert_event (nowUTC rt r) tx ActionEvalItemUpdated ''evaluation_item''
         (evalItemResourceID rt hierarchyCode) (Recorder_resolveUserID r userID) (Some details))"

definition scoreDetails :: "'s runtime \<Rightarrow> uuid \<Rightarrow> string \<Rightarrow> string \<Rightarrow> goerr + json_map" where
  "scoreDetails rt scoreID evaluationItemID level =
     (case json_Marshal [''score_id'' \<mapsto> uuid_String rt scoreID,
                         ''evaluation_item_id'' \<mapsto> evaluationItemID, ''level'' \<mapsto> level] of
        Inl e \<Rightarrow> Inl (wrap1 ''recorder: marshal score details'' e)
      | Inr b \<Rightarrow> Inr b)"

definition RecordScoreCreated ::
  "'s runtime \<Rightarrow> 's Recorder \<Rightarrow> 's AuditTx \<Rightarrow> uuid \<Rightarrow> string \<Rightarrow> string \<Rightarrow> string \<Rightarrow> ('s, unit) eff" where
  [record_defs]: "RecordScoreCreated rt r tx scoreID evaluationItemID level userID =
     call (lift (scoreDetails rt scoreID evaluationItemID level)) (\<lambda>details.
       insert_event (nowUTC rt r) tx ActionScoreCreated ''score'' scoreID
         (Recorder_resolveUserID r userID) (Some details))"

definition RecordScoreUpdated ::
  "'s runtime \<Rightarrow> 's Recorder \<Rightarrow> 's AuditTx \<Rightarrow> uuid \<Rightarrow> string \<Rightarrow> string \<Rightarrow> string \<Rightarrow> ('s, unit) eff" where
  [record_defs]: "RecordScoreUpdated rt r tx scoreID evaluationItemID level userID =
     call (lift (scoreDetails rt scoreID evaluationItemID level)) (\<lambda>details.
       insert_event (nowUTC rt r) tx ActionScoreUpdated ''score'' scoreID
         (Recorder_resolveUserID r userID) (Some details))"

text \<open>The loop over extra overwrites earlier keys: map update by extra.\<close>

definition reviewRequestDetails :: "'s runtime \<Rightarrow> uuid \<Rightarrow> uuid \<Rightarrow> json_map \<Rightarrow> goerr + json_map" where
  "reviewRequestDetails rt reviewRequestID scoreID extra =
     (case json_Marshal ([''score_review_request_id'' \<mapsto> uuid_String rt reviewRequestID,
                          ''score_id'' \<mapsto> uuid_String rt scoreID] ++ extra) of
        Inl e \<Rightarrow> Inl (wrap1 ''recorder: marshal review request details'' e)
      | Inr b \<Rightarrow> Inr b)"

definition RecordScoreReviewRequestCreated ::
  "'s runtime \<Rightarrow> 's Recorder \<Rightarrow> 's AuditTx \<Rightarrow> uuid \<Rightarrow> uuid \<Rightarrow> string \<Rightarrow> ('s, unit) eff" where
  [record_defs]: "RecordScoreReviewRequestCreated rt r tx reviewRequestID scoreID userID =
     call (lift (reviewRequestDetails rt reviewRequestID scoreID Map.empty)) (\<lambda>details.
       insert_event (nowUTC rt r) tx ActionScoreReviewRequestCreated ''score_review_request'' reviewRequestID
         (Recorder_resolveUserID r userID) (Some details))"

definition RecordScoreReviewRequestReviewerAssigned ::
  "'s runtime \<Rightarrow> 's Recorder \<Rightarrow> 's AuditTx \<Rightarrow> uuid \<Rightarrow> uuid \<Rightarrow> string \<Rightarrow> string \<Rightarrow> ('s, unit) eff" where
  [record_defs]: "RecordScoreReviewRequestReviewerAssigned rt r tx reviewRequestID scoreID reviewerID userID =
     call (lift (reviewRequestDetails rt reviewRequestID scoreID [''reviewer_id'' \<mapsto> reviewerID])) (\<lambda>details.
       insert_event (nowUTC rt r) tx ActionScoreReviewRequestReviewerAssigned ''score_review_request'' reviewRequestID
         (Recorder_resolveUserID r userID) (Some details))"

definition RecordScoreReviewRequestApproved ::
  "'s runtime \<Rightarrow> 's Recorder \<Rightarrow> 's AuditTx \<Rightarrow> uuid \<Rightarrow> uuid \<Rightarrow> string \<Rightarrow> string \<Rightarrow> ('s, unit) eff" where
  [record_defs]: "RecordScoreReviewRequestApproved rt r tx reviewRequestID scoreID commentText userID =
     call (lift (reviewRequestDetails rt reviewRequestID scoreID 
        (if commentText \<noteq> '''' then [''comment'' \<mapsto> commentText] else Map.empty))) (\<lambda>details.
       insert_event (nowUTC rt r) tx ActionScoreReviewRequestApproved ''score_review_request'' reviewRequestID
         (Recorder_resolveUserID r userID) (Some details))"

definition RecordScoreReviewRequestRejected ::
  "'s runtime \<Rightarrow> 's Recorder \<Rightarrow> 's AuditTx \<Rightarrow> uuid \<Rightarrow> uuid \<Rightarrow> string \<Rightarrow> string \<Rightarrow> string \<Rightarrow> ('s, unit) eff" where
  [record_defs]: "RecordScoreReviewRequestRejected rt r tx reviewRequestID scoreID rejectionReason commentText userID =
     call (lift (reviewRequestDetails rt reviewRequestID scoreID 
        (let extra = [''rejection_reason'' \<mapsto> rejectionReason]
         in if commentText \<noteq> '''' then extra(''comment'' \<mapsto> commentText) else extra))) (\<lambda>details.
       insert_event (nowUTC rt r) tx ActionScoreReviewRequestRejected ''score_review_request'' reviewRequestID
         (Recorder_resolveUserID r userID) (Some details))"

definition rubricDetails :: "'s runtime \<Rightarrow> uuid \<Rightarrow> json_map \<Rightarrow> goerr + json_map" where
  "rubricDetails rt rubricID extra =
     (case json_Marshal ([''rubric_id'' \<mapsto> uuid_String rt rubricID] ++ extra) of
        Inl e \<Rightarrow> Inl (wrap1 ''recorder: marshal rubric details'' e)
      | Inr b \<Rightarrow> Inr b)"

definition RecordRubricCreated ::
  "'s runtime \<Rightarrow> 's Recorder \<Rightarrow> 's AuditTx \<Rightarrow> uuid \<Rightarrow> string \<Rightarrow> int \<Rightarrow> string \<Rightarrow> ('s, unit) eff" where
  [record_defs]: "RecordRubricCreated rt r tx rubricID rubricName version userID =
     call (lift (rubricDetails rt rubricID 
        [''name'' \<mapsto> rubricName, ''version'' \<mapsto> strconv_Itoa version])) (\<lambda>details.
       insert_event (nowUTC rt r) tx ActionRubricCreated ''rubric'' rubricID
         (Recorder_resolveUserID r userID) (Some details))"

definition RecordRubricUpdated ::
  "'s runtime \<Rightarrow> 's Recorder \<Rightarrow> 's AuditTx \<Rightarrow> uuid \<Rightarrow> string \<Rightarrow> ('s, unit) eff" where
  [record_defs]: "RecordRubricUpdated rt r tx rubricID userID =
     call (lift (rubricDetails rt rubricID Map.empty)) (\<lambda>details.
       insert_event (nowUTC rt r) tx ActionRubricUpdated ''rubric'' rubricID
         (Recorder_resolveUserID r userID) (Some details))"

definition RecordRubricArchived ::
  "'s runtime \<Rightarrow> 's Recorder \<Rightarrow> 's AuditTx \<Rightarrow> uuid \<Rightarrow> string \<Rightarrow> string \<Rightarrow> ('s, unit) eff" where
  [record_defs]: "RecordRubricArchived rt r tx rubricID archiveReason userID =
     call (lift (rubricDetails rt rubricID [''archive_reason'' \<mapsto> archiveReason])) (\<lambda>details.
       insert_event (nowUTC rt r) tx ActionRubricArchived ''rubric'' rubricID
         (Recorder_resolveUserID r userID) (Some details))"

definition RecordRubricCriterionAdded ::
  "'s runtime \<Rightarrow> 's Recorder \<Rightarrow> 's AuditTx \<Rightarrow> uuid \<Rightarrow> uuid \<Rightarrow> uuid \<Rightarrow> string \<Rightarrow> ('s, unit) eff" where
  [record_defs]: "RecordRubricCriterionAdded rt r tx criterionID rubricID evalItemID userID =
     call (lift (rubricDetails rt rubricID 
        [''criterion_id'' \<mapsto> uuid_String rt criterionID,
         ''evaluation_item_id'' \<mapsto> uuid_String rt evalItemID])) (\<lambda>details.
       insert_event (nowUTC rt r) tx ActionRubricCriterionAdded ''rubric_criterion'' criterionID
         (Recorder_resolveUserID r userID) (Some details))"

definition RecordRubricBandAdded ::
  "'s runtime \<Rightarrow> 's Recorder \<Rightarrow> 's AuditTx \<Rightarrow> uuid \<Rightarrow> uuid \<Rightarrow> string \<Rightarrow> string \<Rightarrow> ('s, unit) eff" where
  [record_defs]: "RecordRubricBandAdded rt r tx bandID rubricID letter userID =
     call (lift (rubricDetails rt rubricID 
        [''band_id'' \<mapsto> uuid_String rt bandID, ''letter'' \<mapsto> letter])) (\<lambda>details.
       insert_event (nowUTC rt r) tx ActionRubricBandAdded ''rubric_band'' bandID
         (Recorder_resolveUserID r userID) (Some details))"

section \<open>Facts the stores use\<close>

lemma call_lift_Inr [simp]: "call (lift (Inr a)) k = k a"
  by (rule ext) (simp add: call_def callw_def lift_def)

lemma details_Inr:
  "\<exists>d. evalItemDetails i h p l = Inr d"
  "\<exists>d. scoreDetails rt sid i lv = Inr d"
  "\<exists>d. reviewRequestDetails rt rid sid x = Inr d"
  "\<exists>d. rubricDetails rt rid x = Inr d"
  by (simp_all add: evalItemDetails_def scoreDetails_def reviewRequestDetails_def rubricDetails_def Let_def)

lemma keeps_insert_event [eff_intros]:
  assumes "\<And>s. f (snd (clk s)) = f s" and "\<And>e. keeps f (ins e)"
  shows "keeps f (insert_event clk ins act rt rid uid d)"
  unfolding insert_event_def by (intro keeps_call keeps_always assms)

text \<open>
  The clock readings of a method do not change the part f of the state: it holds of the system
  clock, and of every injected clock that is a read.
\<close>

definition clock_keeps :: "('s \<Rightarrow> 'v) \<Rightarrow> 's clock \<Rightarrow> bool" where
  "clock_keeps f clk \<longleftrightarrow> (\<forall>s. f (snd (clk s)) = f s)"

lemma clock_keepsD: "clock_keeps f clk \<Longrightarrow> f (snd (clk s)) = f s"
  by (simp only: clock_keeps_def)

definition recorder_keeps :: "('s \<Rightarrow> 'v) \<Rightarrow> 's runtime \<Rightarrow> 's Recorder \<Rightarrow> bool" where
  "recorder_keeps f rt r \<longleftrightarrow> clock_keeps f (time_Now rt) \<and> clock_keeps f (nowUTC rt r)"

lemma NewRecorder_plain [simp]:
  "NewRecorder rt b [] = \<lparr>rec_clock = Some (time_Now rt), rec_authEnabled = b\<rparr>"
  by (simp add: NewRecorder_def systemClock_NowUTC_def Let_def)

lemma NewRecorder_clock_set: "rec_clock (NewRecorder rt b opts) \<noteq> None"
  by (simp add: NewRecorder_def Let_def)

lemma recorder_keeps_plain [simp]:
  "recorder_keeps f rt \<lparr>rec_clock = Some (time_Now rt), rec_authEnabled = b\<rparr> \<longleftrightarrow> clock_keeps f (time_Now rt)"
  by (simp add: recorder_keeps_def nowUTC_def)

end
