(* ===== verification/Store_Interface.thy ===== *)
theory Store_Interface
  imports Workflow_Types Recorder
begin

text \<open>
  internal/store/store.go: the interfaces WorkflowStore and WorkflowTx and the entities of the
  review and rubric stores. A Go interface is a record of its methods. The handle that BeginTx
  returns is a value of type \<^verbatim>\<open>'t\<close>, and the methods of the transaction act on the pair of the
  handle and the store \<^verbatim>\<open>'w\<close> it was opened on.
\<close>

record AuditLogFilter =
  flt_Action :: "string option"
  flt_ResourceType :: "string option"
  flt_ResourceID :: "uuid option"
  flt_UserID :: "string option"
  flt_Since :: "time option"
  flt_Until :: "time option"

record 's WorkflowTx =
  tx_InsertWorkflow :: "workflow \<Rightarrow> ('s, unit) eff"
  tx_InsertAuditLog :: "audit_event \<Rightarrow> ('s, unit) eff"
  tx_UpdateWorkflowState :: "string \<Rightarrow> workflow_state \<Rightarrow> ('s, unit) eff"
  tx_GetWorkflow :: "string \<Rightarrow> ('s, workflow) eff"
  tx_UpdateWorkflowResult :: "string \<Rightarrow> bytes option \<Rightarrow> ('s, unit) eff"
  tx_QueryAuditLogs :: "AuditLogFilter \<Rightarrow> int \<Rightarrow> int \<Rightarrow> ('s, audit_event list \<times> int) eff"
  tx_Commit :: "('s, unit) eff"
  tx_Rollback :: "('s, unit) eff"

record ('t, 'w) WorkflowStore =
  st_BeginTx :: "('w, 't) eff"
  st_ListWorkflows :: "int \<Rightarrow> int \<Rightarrow> ('w, workflow list) eff"
  st_tx :: "('t \<times> 'w) WorkflowTx"

text \<open>
  The frame of every method that opens a transaction: begin, wrap the error of begin, run the
  body on the handle, and run the deferred Rollback whatever the body returned, ignoring its result.
\<close>

definition with_tx ::
  "('w, 't) eff \<Rightarrow> (goerr \<Rightarrow> goerr) \<Rightarrow> ('t \<times> 'w, unit) eff \<Rightarrow> ('t \<times> 'w, 'a) eff \<Rightarrow> ('w, 'a) eff" where
  "with_tx begin_tx wrap rollback body w =
     (case begin_tx w of
        (Inl e, w') \<Rightarrow> (Inl (wrap e), w')
      | (Inr t, w') \<Rightarrow> (case body (t, w') of (r, s) \<Rightarrow> (r, snd (snd (rollback s)))))"

lemma with_tx_Inr_iff:
  "with_tx b wr rb body w = (Inr a, w2) \<longleftrightarrow>
     (\<exists>t w1 s. b w = (Inr t, w1) \<and> body (t, w1) = (Inr a, s) \<and> w2 = snd (snd (rb s)))"
  by (auto simp: with_tx_def split: prod.splits sum.splits)

lemma with_tx_Inl_iff:
  "with_tx b wr rb body w = (Inl e, w2) \<longleftrightarrow>
     (\<exists>e0. b w = (Inl e0, w2) \<and> e = wr e0) \<or>
     (\<exists>t w1 s. b w = (Inr t, w1) \<and> body (t, w1) = (Inl e, s) \<and> w2 = snd (snd (rb s)))"
  by (auto simp: with_tx_def split: prod.splits sum.splits)

text \<open>
  If begin and Rollback leave a part of the store as it is and the body does so when it fails,
  then the whole method does so when it fails.
\<close>

lemma with_tx_err_keeps:
  assumes "keeps f begin_tx" and "keeps (\<lambda>s. f (snd s)) rollback" and "keeps_err (\<lambda>s. f (snd s)) body"
    and "with_tx begin_tx wr rollback body w = (Inl e, w')"
  shows "f w' = f w"
proof -
  consider e0 where "begin_tx w = (Inl e0, w')"
    | t w1 s where "begin_tx w = (Inr t, w1)" "body (t, w1) = (Inl e, s)" "w' = snd (snd (rollback s))"
    using assms(4) by (auto simp: with_tx_Inl_iff)
  then show ?thesis
  proof cases
    case 1
    then show ?thesis using assms(1) by (metis keepsD)
  next
    case 2
    have "f w' = f (snd s)" using assms(2) unfolding keeps_def 2(3) by blast
    also have "\<dots> = f w1" using keeps_errD [OF assms(3) 2(2)] by simp
    also have "\<dots> = f w" using assms(1) 2(1) by (metis keepsD)
    finally show ?thesis .
  qed
qed

section \<open>The contract of a workflow store\<close>

text \<open>
  What a client may rely on, over an abstract view: the rows of the store by key (state and
  result), the audit log in insertion order, and for an open transaction the rows and the log that
  its Commit would publish. Nothing but a Commit that succeeds changes the published part; each
  write that succeeds changes the pending part by exactly the row or event it names. A handle is
  active until it is committed or rolled back, and fresh until its first write.
\<close>

type_synonym 'k rows = "'k \<rightharpoonup> workflow_state \<times> bytes option"

text \<open>
  What a store keeps of a result is the store's own, as the JSONB column of PostgreSQL is: \<^verbatim>\<open>kept s c c'\<close>
  says that of the result c it keeps c' in the state s. An event keeps everything but its instant,
  which a store may round.
\<close>

locale workflow_store =
  fixes st :: "('t, 'w) WorkflowStore"
    and key :: "string \<Rightarrow> 'k"
    and id_key :: "uuid \<Rightarrow> 'k"
    and rows :: "'w \<Rightarrow> 'k rows"
    and logs :: "'w \<Rightarrow> audit_event list"
    and active :: "'t \<Rightarrow> bool"
    and fresh :: "'t \<Rightarrow> bool"
    and trows :: "'t \<times> 'w \<Rightarrow> 'k rows"
    and tlogs :: "'t \<times> 'w \<Rightarrow> audit_event list"
    and kept :: "'t \<times> 'w \<Rightarrow> bytes option \<Rightarrow> bytes option \<Rightarrow> bool"
  assumes begin_keeps: "keeps (\<lambda>w. (rows w, logs w)) (st_BeginTx st)"
    and begin_fresh: "st_BeginTx st w = (Inr t, w') \<Longrightarrow>
          active t \<and> fresh t \<and> trows (t, w') = rows w' \<and> tlogs (t, w') = logs w'"
    and insert_keeps: "keeps (\<lambda>s. (rows (snd s), logs (snd s))) (tx_InsertWorkflow (st_tx st) x)"
    and audit_keeps: "keeps (\<lambda>s. (rows (snd s), logs (snd s))) (tx_InsertAuditLog (st_tx st) e)"
    and state_keeps: "keeps (\<lambda>s. (rows (snd s), logs (snd s))) (tx_UpdateWorkflowState (st_tx st) i q)"
    and get_keeps: "keeps (\<lambda>s. (rows (snd s), logs (snd s))) (tx_GetWorkflow (st_tx st) i)"
    and result_keeps: "keeps (\<lambda>s. (rows (snd s), logs (snd s))) (tx_UpdateWorkflowResult (st_tx st) i b)"
    and rollback_keeps: "keeps (\<lambda>s. (rows (snd s), logs (snd s))) (tx_Rollback (st_tx st))"
    and commit_err: "keeps_err (\<lambda>s. (rows (snd s), logs (snd s))) (tx_Commit (st_tx st))"
    and commit_ok: "tx_Commit (st_tx st) s = (Inr u, s') \<Longrightarrow> active (fst s) \<Longrightarrow>
          rows (snd s') = trows s \<and> logs (snd s') = tlogs s"
    and get_ok: "tx_GetWorkflow (st_tx st) i s = (Inr x, s') \<Longrightarrow> active (fst s) \<Longrightarrow>
          active (fst s') \<and> trows s' = trows s \<and> tlogs s' = tlogs s \<and>
          (trows s = rows (snd s) \<longrightarrow> rows (snd s) (key i) = Some (wf_State x, wf_ResultJSON x))"
    and insert_ok: "tx_InsertWorkflow (st_tx st) x s = (Inr u, s') \<Longrightarrow> active (fst s) \<Longrightarrow> fresh (fst s) \<Longrightarrow>
          active (fst s') \<and> tlogs s' = tlogs s \<and>
          (\<exists>c'. kept s (wf_ResultJSON x) c' \<and> (wf_ResultJSON x = None \<longrightarrow> c' = None) \<and>
             trows s' = (trows s)(id_key (wf_ID x) \<mapsto> (wf_State x, c')))"
    and audit_ok: "tx_InsertAuditLog (st_tx st) e s = (Inr u, s') \<Longrightarrow> active (fst s) \<Longrightarrow>
          active (fst s') \<and> trows s' = trows s \<and> (\<exists>ts. tlogs s' = tlogs s @ [e\<lparr>ev_Timestamp := ts\<rparr>])"
    and audit_err: "tx_InsertAuditLog (st_tx st) e s = (Inl er, s') \<Longrightarrow> active (fst s) \<Longrightarrow>
          active (fst s') \<and> trows s' = trows s \<and> tlogs s' = tlogs s"
    and state_ok: "tx_UpdateWorkflowState (st_tx st) i q s = (Inr u, s') \<Longrightarrow> active (fst s) \<Longrightarrow>
          trows s (key i) = Some (p, b) \<Longrightarrow>
          active (fst s') \<and> tlogs s' = tlogs s \<and> trows s' = (trows s)(key i \<mapsto> (q, b))"
    and result_ok: "tx_UpdateWorkflowResult (st_tx st) i c s = (Inr u, s') \<Longrightarrow> active (fst s) \<Longrightarrow>
          trows s (key i) = Some (p, b) \<Longrightarrow>
          active (fst s') \<and> tlogs s' = tlogs s \<and>
          (\<exists>c'. kept s c c' \<and> trows s' = (trows s)(key i \<mapsto> (p, c')))"
    and list_keeps: "keeps (\<lambda>w. (rows w, logs w)) (st_ListWorkflows st n m)"

end
