(* ===== verification/Fake_Store.thy ===== *)
theory Fake_Store
  imports Store_Interface "HOL-Library.AList"
begin

text \<open>
  internal/store/fake_store.go: the in-memory WorkflowStore. A transaction buffers its writes and
  Commit replays them on the store. The Go map Workflows is an association list with distinct
  keys, whose order stands for the order in which Go happens to iterate over it. The mutex has no
  counterpart: every method runs to its end before the next starts.
\<close>

record FakeStore = env +
  fs_Workflows :: "(string \<times> workflow) list"
  fs_AuditLogs :: "audit_event list"
  fs_NextTxFailOnAudit :: bool
  fs_NextTxFailOnWorkflow :: bool
  fs_NextTxFailOnGetWorkflow :: bool

record FakeTx =
  ft_pendingUpdates :: "string \<rightharpoonup> workflow_state"
  ft_pendingResultUpdates :: "string \<rightharpoonup> bytes"
  ft_pendingWorkflows :: "workflow list"
  ft_pendingAuditLogs :: "audit_event list"
  ft_FailOnAuditInsert :: bool
  ft_FailOnWorkflowInsert :: bool
  ft_FailOnUpdateState :: bool
  ft_FailOnGetWorkflow :: bool
  ft_committed :: bool

type_synonym fake_state = "FakeTx \<times> FakeStore"

section \<open>The store\<close>

definition NewFakeStore :: "env \<Rightarrow> FakeStore" where
  "NewFakeStore w = env.extend w
     \<lparr>fs_Workflows = [], fs_AuditLogs = [], fs_NextTxFailOnAudit = False,
      fs_NextTxFailOnWorkflow = False, fs_NextTxFailOnGetWorkflow = False\<rparr>"

definition SeedWorkflow :: "(uuid \<Rightarrow> string) \<Rightarrow> workflow \<Rightarrow> FakeStore \<Rightarrow> FakeStore" where
  "SeedWorkflow toString wfl s =
     s\<lparr>fs_Workflows := AList.update (toString (wf_ID wfl)) wfl (fs_Workflows s)\<rparr>"

definition FakeStore_BeginTx :: "(FakeStore, FakeTx) eff" where
  "FakeStore_BeginTx s =
     (let failAudit = fs_NextTxFailOnAudit s;
          failWorkflow = fs_NextTxFailOnWorkflow s;
          failGet = fs_NextTxFailOnGetWorkflow s;
          s' = s\<lparr>fs_NextTxFailOnAudit := False, fs_NextTxFailOnWorkflow := False,
                 fs_NextTxFailOnGetWorkflow := False\<rparr>
      in (Inr \<lparr>ft_pendingUpdates = Map.empty, ft_pendingResultUpdates = Map.empty,
               ft_pendingWorkflows = [], ft_pendingAuditLogs = [],
               ft_FailOnAuditInsert = failAudit, ft_FailOnWorkflowInsert = failWorkflow,
               ft_FailOnUpdateState = False, ft_FailOnGetWorkflow = failGet,
               ft_committed = False\<rparr>, s'))"

definition FakeStore_ListWorkflows :: "int \<Rightarrow> int \<Rightarrow> (FakeStore, workflow list) eff" where
  "FakeStore_ListWorkflows limit offset s =
     (let all = sort_key (\<lambda>x. - wf_CreatedAt x) (map snd (fs_Workflows s))
      in if offset \<ge> int (length all) then retn [] s
         else call (lift (slice all offset (int (length all)))) (\<lambda>page.
                if limit > 0 \<and> int (length page) > limit
                then lift (slice page 0 limit) else retn page) s)"

section \<open>The transaction\<close>

definition FakeTx_InsertWorkflow :: "workflow \<Rightarrow> (fake_state, unit) eff" where
  "FakeTx_InsertWorkflow x = (\<lambda>(tx, s).
     if ft_FailOnWorkflowInsert tx then throw (Sentinel errFakeWorkflowInsertFail) (tx, s)
     else retn () (tx\<lparr>ft_pendingWorkflows := ft_pendingWorkflows tx @ [x]\<rparr>, s))"

definition FakeTx_InsertAuditLog :: "audit_event \<Rightarrow> (fake_state, unit) eff" where
  "FakeTx_InsertAuditLog e = (\<lambda>(tx, s).
     if ft_FailOnAuditInsert tx then throw (Sentinel errFakeAuditInsertFail) (tx, s)
     else retn () (tx\<lparr>ft_pendingAuditLogs := ft_pendingAuditLogs tx @ [e]\<rparr>, s))"

definition FakeTx_UpdateWorkflowState :: "string \<Rightarrow> workflow_state \<Rightarrow> (fake_state, unit) eff" where
  "FakeTx_UpdateWorkflowState i newState = (\<lambda>(tx, s).
     if ft_FailOnUpdateState tx then throw (Sentinel errFakeUpdateStateFail) (tx, s)
     else retn () (tx\<lparr>ft_pendingUpdates := (ft_pendingUpdates tx)(i \<mapsto> newState)\<rparr>, s))"

text \<open>make([]byte, len) of a nil slice is an empty slice, no longer nil.\<close>

definition FakeTx_UpdateWorkflowResult :: "string \<Rightarrow> bytes option \<Rightarrow> (fake_state, unit) eff" where
  "FakeTx_UpdateWorkflowResult i resultJSON = (\<lambda>(tx, s).
     let buf = (case resultJSON of None \<Rightarrow> [] | Some b \<Rightarrow> b)
     in retn () (tx\<lparr>ft_pendingResultUpdates := (ft_pendingResultUpdates tx)(i \<mapsto> buf)\<rparr>, s))"

definition FakeTx_GetWorkflow :: "string \<Rightarrow> (fake_state, workflow) eff" where
  "FakeTx_GetWorkflow i = (\<lambda>(tx, s).
     if ft_FailOnGetWorkflow tx then throw (Sentinel errFakeGetWorkflowFail) (tx, s)
     else case map_of (fs_Workflows s) i of
            None \<Rightarrow> throw (Sentinel ErrWorkflowNotFound) (tx, s)
          | Some x \<Rightarrow> retn x (tx, s))"

text \<open>
  The loops of Commit: the pending rows in order, then for each id of the two update maps the row
  if the store has one. The updates touch different rows or different fields, so the order in
  which Go ranges over a map does not matter.
\<close>

fun put_workflows :: "(uuid \<Rightarrow> string) \<Rightarrow> workflow list \<Rightarrow> (string \<times> workflow) list \<Rightarrow> (string \<times> workflow) list" where
  "put_workflows toString [] ws = ws"
| "put_workflows toString (x # xs) ws =
     put_workflows toString xs (AList.update (toString (wf_ID x)) x ws)"

definition apply_state_updates ::
  "(string \<rightharpoonup> workflow_state) \<Rightarrow> (string \<times> workflow) list \<Rightarrow> (string \<times> workflow) list" where
  "apply_state_updates upd ws =
     map (\<lambda>(i, x). (i, case upd i of None \<Rightarrow> x | Some q \<Rightarrow> x\<lparr>wf_State := q\<rparr>)) ws"

definition apply_result_updates ::
  "(string \<rightharpoonup> bytes) \<Rightarrow> (string \<times> workflow) list \<Rightarrow> (string \<times> workflow) list" where
  "apply_result_updates upd ws =
     map (\<lambda>(i, x). (i, case upd i of None \<Rightarrow> x | Some b \<Rightarrow> x\<lparr>wf_ResultJSON := Some b\<rparr>)) ws"

definition committed_rows :: "(uuid \<Rightarrow> string) \<Rightarrow> FakeTx \<Rightarrow> FakeStore \<Rightarrow> (string \<times> workflow) list" where
  "committed_rows toString tx s =
     apply_result_updates (ft_pendingResultUpdates tx)
       (apply_state_updates (ft_pendingUpdates tx)
         (put_workflows toString (ft_pendingWorkflows tx) (fs_Workflows s)))"

definition FakeTx_Commit :: "(uuid \<Rightarrow> string) \<Rightarrow> (fake_state, unit) eff" where
  "FakeTx_Commit toString = (\<lambda>(tx, s).
     if ft_committed tx then retn () (tx, s)
     else retn () (tx\<lparr>ft_committed := True\<rparr>,
            s\<lparr>fs_Workflows := committed_rows toString tx s,
              fs_AuditLogs := fs_AuditLogs s @ ft_pendingAuditLogs tx\<rparr>))"

definition FakeTx_Rollback :: "(fake_state, unit) eff" where
  "FakeTx_Rollback = (\<lambda>(tx, s).
     if ft_committed tx then retn () (tx, s)
     else retn () (tx\<lparr>ft_pendingWorkflows := [], ft_pendingAuditLogs := [],
                     ft_pendingUpdates := Map.empty, ft_pendingResultUpdates := Map.empty\<rparr>, s))"

text \<open>The six tests of the loop over the events, each a continue of the source.\<close>

definition fake_audit_match :: "AuditLogFilter \<Rightarrow> audit_event \<Rightarrow> bool" where
  "fake_audit_match flt e =
     (if (case flt_Action flt of None \<Rightarrow> False | Some a \<Rightarrow> ev_Action e \<noteq> a) then False
      else if (case flt_ResourceType flt of None \<Rightarrow> False | Some a \<Rightarrow> ev_ResourceType e \<noteq> a) then False
      else if (case flt_ResourceID flt of None \<Rightarrow> False | Some a \<Rightarrow> ev_ResourceID e \<noteq> a) then False
      else if (case flt_UserID flt of None \<Rightarrow> False | Some a \<Rightarrow> ev_UserID e \<noteq> a) then False
      else if (case flt_Since flt of None \<Rightarrow> False | Some a \<Rightarrow> ev_Timestamp e < a) then False
      else if (case flt_Until flt of None \<Rightarrow> False | Some a \<Rightarrow> ev_Timestamp e > a) then False
      else True)"

text \<open>
  sort.Slice leaves the order of events of one instant open; here they stay in the order in which
  they were stored, like the rows of ORDER BY timestamp in Pg_Workflow.
\<close>

definition FakeTx_QueryAuditLogs ::
  "AuditLogFilter \<Rightarrow> int \<Rightarrow> int \<Rightarrow> (fake_state, audit_event list \<times> int) eff" where
  "FakeTx_QueryAuditLogs flt limit offset0 = (\<lambda>(tx, s).
     let matched = sort_key (\<lambda>e. - ev_Timestamp e) (List.filter (fake_audit_match flt) (fs_AuditLogs s));
         total = int (length matched);
         offset = (if offset0 < 0 then 0 else offset0)
     in if offset \<ge> int (length matched) then retn ([], total) (tx, s)
        else let end0 = offset + limit;
                 end1 = (if end0 > int (length matched) then int (length matched) else end0)
             in call (lift (slice matched offset end1)) (\<lambda>page. retn (page, total)) (tx, s))"

definition FakeTx_methods :: "(uuid \<Rightarrow> string) \<Rightarrow> fake_state WorkflowTx" where
  "FakeTx_methods toString =
     \<lparr>tx_InsertWorkflow = FakeTx_InsertWorkflow, tx_InsertAuditLog = FakeTx_InsertAuditLog,
      tx_UpdateWorkflowState = FakeTx_UpdateWorkflowState, tx_GetWorkflow = FakeTx_GetWorkflow,
      tx_UpdateWorkflowResult = FakeTx_UpdateWorkflowResult,
      tx_QueryAuditLogs = FakeTx_QueryAuditLogs,
      tx_Commit = FakeTx_Commit toString, tx_Rollback = FakeTx_Rollback\<rparr>"

definition FakeStore_methods :: "(uuid \<Rightarrow> string) \<Rightarrow> (FakeTx, FakeStore) WorkflowStore" where
  "FakeStore_methods toString =
     \<lparr>st_BeginTx = FakeStore_BeginTx, st_ListWorkflows = FakeStore_ListWorkflows,
      st_tx = FakeTx_methods toString\<rparr>"

lemmas fake_tx_defs =
  FakeTx_InsertWorkflow_def FakeTx_InsertAuditLog_def FakeTx_UpdateWorkflowState_def
  FakeTx_UpdateWorkflowResult_def FakeTx_GetWorkflow_def FakeTx_Commit_def FakeTx_Rollback_def

section \<open>The fake store meets the contract\<close>

definition row_view :: "workflow \<Rightarrow> workflow_state \<times> bytes option" where
  "row_view x = (wf_State x, wf_ResultJSON x)"

definition fake_rows :: "FakeStore \<Rightarrow> string rows" where
  "fake_rows s = (\<lambda>i. map_option row_view (map_of (fs_Workflows s) i))"

definition fake_trows :: "(uuid \<Rightarrow> string) \<Rightarrow> fake_state \<Rightarrow> string rows" where
  "fake_trows toString = (\<lambda>(tx, s).
     if ft_committed tx then fake_rows s
     else (\<lambda>i. map_option row_view (map_of (committed_rows toString tx s) i)))"

definition fake_tlogs :: "fake_state \<Rightarrow> audit_event list" where
  "fake_tlogs = (\<lambda>(tx, s).
     if ft_committed tx then fs_AuditLogs s else fs_AuditLogs s @ ft_pendingAuditLogs tx)"

text \<open>
  A row inserted after an update of the same id takes that update's state, since Commit applies
  the updates last: a handle is fresh, and an insert behaves as the contract asks, while no update
  is pending.
\<close>

definition fake_active :: "FakeTx \<Rightarrow> bool" where
  "fake_active tx \<longleftrightarrow> \<not> ft_committed tx"

definition fake_fresh :: "FakeTx \<Rightarrow> bool" where
  "fake_fresh tx \<longleftrightarrow> ft_pendingUpdates tx = Map.empty \<and> ft_pendingResultUpdates tx = Map.empty"

lemma map_of_apply_state [simp]:
  "map_of (apply_state_updates upd ws) i =
     map_option (\<lambda>x. case upd i of None \<Rightarrow> x | Some q \<Rightarrow> x\<lparr>wf_State := q\<rparr>) (map_of ws i)"
  by (induction ws) (auto simp: apply_state_updates_def split: option.splits)

lemma map_of_apply_result [simp]:
  "map_of (apply_result_updates upd ws) i =
     map_option (\<lambda>x. case upd i of None \<Rightarrow> x | Some b \<Rightarrow> x\<lparr>wf_ResultJSON := Some b\<rparr>) (map_of ws i)"
  by (induction ws) (auto simp: apply_result_updates_def split: option.splits)

lemma put_workflows_append:
  "put_workflows toString (xs @ ys) ws = put_workflows toString ys (put_workflows toString xs ws)"
  by (induction xs arbitrary: ws) auto

lemma map_of_put_last [simp]:
  "map_of (put_workflows toString (xs @ [x]) ws) =
     (map_of (put_workflows toString xs ws))(toString (wf_ID x) \<mapsto> x)"
  by (simp add: put_workflows_append update_conv')

lemma apply_no_updates [simp]:
  "apply_state_updates Map.empty ws = ws" "apply_result_updates Map.empty ws = ws"
  by (simp_all add: apply_state_updates_def apply_result_updates_def)

lemma put_no_workflows [simp]: "put_workflows toString [] ws = ws"
  by simp

lemma fake_trows_open:
  "\<not> ft_committed tx \<Longrightarrow> fake_trows toString (tx, s) i =
     (case map_of (put_workflows toString (ft_pendingWorkflows tx) (fs_Workflows s)) i of
        None \<Rightarrow> None
      | Some x \<Rightarrow> Some (case ft_pendingUpdates tx i of None \<Rightarrow> wf_State x | Some q \<Rightarrow> q,
                      case ft_pendingResultUpdates tx i of None \<Rightarrow> wf_ResultJSON x | Some b \<Rightarrow> Some b))"
  by (auto simp: fake_trows_def committed_rows_def row_view_def split: option.splits)

lemma fake_trows_closed: "ft_committed tx \<Longrightarrow> fake_trows toString (tx, s) = fake_rows s"
  by (simp add: fake_trows_def)

text \<open>The fake store keeps a result as the bytes it was given; a nil slice may become an empty one.\<close>

definition fake_kept :: "bytes option \<Rightarrow> bytes option \<Rightarrow> bool" where
  "fake_kept given kept \<longleftrightarrow> kept = given \<or> given = None \<and> kept = Some []"

lemma fake_result_ok:
  assumes "FakeTx_UpdateWorkflowResult i c s = (Inr u, s')" "fake_active (fst s)"
    and "fake_trows toString s i = Some (p, b)"
  shows "fake_active (fst s') \<and> fake_tlogs s' = fake_tlogs s \<and>
    (\<exists>c'. fake_kept c c' \<and> fake_trows toString s' = (fake_trows toString s)(i \<mapsto> (p, c')))"
proof -
  obtain tx w where s: "s = (tx, w)" by fastforce
  let ?buf = "case c of None \<Rightarrow> [] | Some b \<Rightarrow> b"
  let ?tx' = "tx\<lparr>ft_pendingResultUpdates := (ft_pendingResultUpdates tx)(i \<mapsto> ?buf)\<rparr>"
  have s': "s' = (?tx', w)" and nc: "\<not> ft_committed tx"
    using assms(1,2) by (simp_all add: s FakeTx_UpdateWorkflowResult_def Let_def fake_active_def)
  have "fake_trows toString s' = (fake_trows toString s)(i \<mapsto> (p, Some ?buf))"
    using assms(3) nc by (auto simp: s s' fake_trows_open fun_eq_iff split: option.splits)
  moreover have "fake_kept c (Some ?buf)"
    by (cases c) (simp_all add: fake_kept_def)
  ultimately show ?thesis using nc by (auto simp: s s' fake_active_def fake_tlogs_def)
qed

lemma fake_list_keeps [simp]: "snd (FakeStore_ListWorkflows n m s) = s"
proof -
  have "keeps (\<lambda>s :: FakeStore. s) (call (lift r) (\<lambda>page. if c page then lift (g page) else retn page))"
    for r :: "goerr + workflow list" and c g
    by (intro eff_intros)
  then show ?thesis by (auto simp: FakeStore_ListWorkflows_def Let_def keeps_def)
qed

interpretation fake: workflow_store "FakeStore_methods toString" "\<lambda>i. i" toString
  fake_rows fs_AuditLogs fake_active fake_fresh "fake_trows toString" fake_tlogs "\<lambda>s. fake_kept"
  for toString :: "uuid \<Rightarrow> string"
proof (unfold_locales, goal_cases)
  case (12 x s u s')
  then show ?case
    by (cases s) (auto simp: FakeStore_methods_def FakeTx_methods_def FakeTx_InsertWorkflow_def fake_trows_open fake_tlogs_def
        fake_active_def fake_fresh_def fake_kept_def fun_eq_iff intro!: exI [of _ "wf_ResultJSON x"]
        split: if_splits option.splits)
next
  case (13 e s u s')
  have "\<exists>ts. e = e\<lparr>ev_Timestamp := ts\<rparr>" by (rule exI [of _ "ev_Timestamp e"]) simp
  with 13 show ?case
    by (cases s) (auto simp: FakeStore_methods_def FakeTx_methods_def FakeTx_InsertAuditLog_def fake_trows_open fake_tlogs_def
        fake_active_def fun_eq_iff committed_rows_def fake_trows_def split: if_splits option.splits)
next
  case (16 i c s u s' p b)
  then show ?case
    using fake_result_ok [of i c s u s' toString p b]
    by (simp add: FakeStore_methods_def FakeTx_methods_def)
qed (auto simp: keeps_def keeps_err_def FakeStore_methods_def FakeTx_methods_def fake_tx_defs
       FakeStore_BeginTx_def Let_def fake_trows_open fake_trows_closed fake_tlogs_def fake_active_def
       fake_fresh_def committed_rows_def fake_rows_def row_view_def fun_eq_iff
       split: if_splits option.splits)

end
