(* ===== verification/Transaction.thy ===== *)
theory Transaction
  imports Store_Interface
begin

text \<open>
  internal/workflow/transaction.go: the coordinator that creates a workflow, or changes its state,
  together with its audit event in one transaction. The second half states what a client of any
  workflow store gets, in a locale that adds to the store's contract that reading the system clock
  changes nothing a client sees.
\<close>

record ('t, 'w) TxCoordinator =
  tc_store :: "('t, 'w) WorkflowStore"
  tc_recorder :: "('t \<times> 'w) Recorder"

definition ExecuteWorkflowCreate ::
  "('t \<times> 'w) runtime \<Rightarrow> ('t, 'w) TxCoordinator \<Rightarrow> workflow \<Rightarrow> string \<Rightarrow> string \<Rightarrow> ('w, unit) eff" where
  "ExecuteWorkflowCreate rt c x documentID userID =
     (let tx = st_tx (tc_store c)
      in with_tx (st_BeginTx (tc_store c)) (wrap1 ''workflow create: begin tx'') (tx_Rollback tx)
           (callw (tx_InsertWorkflow tx x) (wrap1 ''workflow create: insert workflow'') (\<lambda>_.
            callw (RecordCreated rt (tc_recorder c) (tx_InsertAuditLog tx)
                     (uuid_String rt (wf_ID x)) documentID userID)
                  (wrap1 ''workflow create: record audit'') (\<lambda>_.
            callw (tx_Commit tx) (wrap1 ''workflow create: commit'') (\<lambda>_.
            retn ())))))"

definition workflowStateToAction :: "workflow_state \<Rightarrow> action" where
  "workflowStateToAction q =
     (if q = WorkflowStateRunning then ActionWorkflowTransitionedToRunning
      else if q = WorkflowStateCompleted then ActionWorkflowCompleted
      else if q = WorkflowStateFailed then ActionWorkflowFailedDispatch
      else ActionWorkflowCreated)"

definition ExecuteWorkflowTransition ::
  "('t \<times> 'w) runtime \<Rightarrow> ('t, 'w) TxCoordinator \<Rightarrow> string \<Rightarrow> workflow_state \<Rightarrow> workflow_state \<Rightarrow> string \<Rightarrow>
   ('w, unit) eff" where
  "ExecuteWorkflowTransition rt c workflowID from_state to_state userID =
     (let tx = st_tx (tc_store c)
      in with_tx (st_BeginTx (tc_store c)) (wrap1 ''workflow transition: begin tx'') (tx_Rollback tx)
           (callw (tx_UpdateWorkflowState tx workflowID to_state)
                  (wrap1 ''workflow transition: update state'') (\<lambda>_.
            callw (RecordTransition rt (tc_recorder c) (tx_InsertAuditLog tx) workflowID
                     (workflowStateToAction from_state) (workflowStateToAction to_state) userID)
                  (wrap1 ''workflow transition: record audit'') (\<lambda>_.
            callw (tx_Commit tx) (wrap1 ''workflow transition: commit'') (\<lambda>_.
            retn ())))))"

section \<open>Clients of a workflow store\<close>

locale store_client = workflow_store st key id_key rows logs active fresh trows tlogs kept
  for st :: "('t, 'w) WorkflowStore" and key :: "string \<Rightarrow> 'k" and id_key :: "uuid \<Rightarrow> 'k"
    and rows :: "'w \<Rightarrow> 'k rows" and logs :: "'w \<Rightarrow> audit_event list"
    and active :: "'t \<Rightarrow> bool" and fresh :: "'t \<Rightarrow> bool"
    and trows :: "'t \<times> 'w \<Rightarrow> 'k rows" and tlogs :: "'t \<times> 'w \<Rightarrow> audit_event list"
    and kept :: "'t \<times> 'w \<Rightarrow> bytes option \<Rightarrow> bytes option \<Rightarrow> bool" +
  fixes rt :: "('t \<times> 'w) runtime" and rec :: "('t \<times> 'w) Recorder"
  assumes clock: "clock_keeps
    (\<lambda>s. (active (fst s), rows (snd s), logs (snd s), trows s, tlogs s)) (time_Now rt)"
begin

definition seen :: "'w \<Rightarrow> 'k rows \<times> audit_event list" where
  "seen w = (rows w, logs w)"

lemma clock_view:
  assumes "time_Now rt s = (ts, s1)"
  shows "active (fst s1) = active (fst s)" "rows (snd s1) = rows (snd s)"
    "logs (snd s1) = logs (snd s)" "trows s1 = trows s" "tlogs s1 = tlogs s"
  using clock_keepsD [OF clock, of s] assms by simp_all

lemma clock_seen: "seen (snd (snd (time_Now rt s))) = seen (snd s)"
  using clock_view [OF prod.collapse [symmetric], of s] by (simp add: seen_def)

lemma begin_seen: "keeps seen (st_BeginTx st)"
  using begin_keeps by (simp add: keeps_def seen_def)

lemmas tx_keeps = insert_keeps audit_keeps state_keeps get_keeps result_keeps rollback_keeps

lemma tx_seen [eff_intros]:
  "keeps (\<lambda>s. seen (snd s)) (tx_InsertWorkflow (st_tx st) x)"
  "keeps (\<lambda>s. seen (snd s)) (tx_InsertAuditLog (st_tx st) e)"
  "keeps (\<lambda>s. seen (snd s)) (tx_UpdateWorkflowState (st_tx st) i q)"
  "keeps (\<lambda>s. seen (snd s)) (tx_GetWorkflow (st_tx st) i)"
  "keeps (\<lambda>s. seen (snd s)) (tx_UpdateWorkflowResult (st_tx st) i b)"
  "keeps (\<lambda>s. seen (snd s)) (tx_Rollback (st_tx st))"
  using tx_keeps by (simp_all add: keeps_def seen_def)

lemma commit_seen: "keeps_err (\<lambda>s. seen (snd s)) (tx_Commit (st_tx st))"
  using commit_err by (simp add: keeps_err_def seen_def)

lemma commit_last:
  "keeps_err (\<lambda>s. seen (snd s)) (callw (tx_Commit (st_tx st)) wr (\<lambda>_. retn b))"
  by (rule keeps_err_last [OF commit_seen])

lemma event_seen [eff_intros]:
  "keeps (\<lambda>s. seen (snd s)) (insert_event (time_Now rt) (tx_InsertAuditLog (st_tx st)) a ty r u d)"
  by (intro keeps_insert_event tx_seen clock_seen)

text \<open>One event more, and nothing else, when the insertion of an event succeeds.\<close>

lemma event_ok:
  assumes "insert_event (time_Now rt) (tx_InsertAuditLog (st_tx st)) a ty r u d s = (Inr v, s')"
    and "active (fst s)"
  shows "active (fst s') \<and> trows s' = trows s \<and>
    (\<exists>ts. tlogs s' = tlogs s @ [\<lparr>ev_Timestamp = ts, ev_Action = a, ev_ResourceType = ty,
       ev_UserID = u, ev_Details = d, ev_ResourceID = r\<rparr>])"
proof -
  obtain ts s1 where n: "time_Now rt s = (ts, s1)" by (rule prod.exhaust)
  note k = clock_view [OF n]
  from assms(1) have "tx_InsertAuditLog (st_tx st) \<lparr>ev_Timestamp = ts, ev_Action = a,
      ev_ResourceType = ty, ev_UserID = u, ev_Details = d, ev_ResourceID = r\<rparr> s1 = (Inr v, s')"
    by (simp add: insert_event_def eff_simps n)
  from audit_ok [OF this] show ?thesis using assms(2) k by auto
qed

text \<open>The published part after a commit and the deferred Rollback is the pending part before.\<close>

lemma commit_then_rollback:
  assumes "tx_Commit (st_tx st) s = (Inr u, s1)" "active (fst s)"
  shows "rows (snd (snd (tx_Rollback (st_tx st) s1))) = trows s"
    and "logs (snd (snd (tx_Rollback (st_tx st) s1))) = tlogs s"
  using commit_ok [OF assms] keeps_snd [OF rollback_keeps, of s1] by simp_all

lemma create_err:
  assumes "ExecuteWorkflowCreate rt \<lparr>tc_store = st, tc_recorder = rec\<rparr> x d u w = (Inl e, w')"
  shows "rows w' = rows w \<and> logs w' = logs w"
proof -
  have "seen w' = seen w"
  proof (rule with_tx_err_keeps [OF begin_seen _ _ assms [unfolded ExecuteWorkflowCreate_def Let_def TxCoordinator.simps]])
    show "keeps (\<lambda>s. seen (snd s)) (tx_Rollback (st_tx st))" by (rule tx_seen)
  qed (unfold RecordCreated_def marshal_then_run, (rule commit_last | rule eff_intros)+)
  then show ?thesis by (simp add: seen_def)
qed

lemma transition_err:
  assumes "ExecuteWorkflowTransition rt \<lparr>tc_store = st, tc_recorder = rec\<rparr> i p q u w = (Inl e, w')"
  shows "rows w' = rows w \<and> logs w' = logs w"
proof -
  have "seen w' = seen w"
  proof (rule with_tx_err_keeps [OF begin_seen _ _ assms [unfolded ExecuteWorkflowTransition_def Let_def TxCoordinator.simps]])
    show "keeps (\<lambda>s. seen (snd s)) (tx_Rollback (st_tx st))" by (rule tx_seen)
  qed (unfold RecordTransition_def marshal_then_run, (rule commit_last | rule eff_intros)+)
  then show ?thesis by (simp add: seen_def)
qed

lemma create_ok:
  assumes "ExecuteWorkflowCreate rt \<lparr>tc_store = st, tc_recorder = rec\<rparr> x d u w = (Inr v, w')"
  shows "(\<exists>c'. (wf_ResultJSON x = None \<longrightarrow> c' = None) \<and>
      rows w' = (rows w)(id_key (wf_ID x) \<mapsto> (wf_State x, c'))) \<and>
    (\<exists>ts. logs w' = logs w @ [\<lparr>ev_Timestamp = ts, ev_Action = ActionWorkflowCreated,
       ev_ResourceType = ''workflow'', ev_UserID = Recorder_resolveUserID rec u,
       ev_Details = Some [''document_id'' \<mapsto> d],
       ev_ResourceID = parseResourceID rt (uuid_String rt (wf_ID x))\<rparr>])"
proof -
  from assms obtain t w1 s1 s2 s3 u1 u2 u3 where
    b: "st_BeginTx st w = (Inr t, w1)" and
    i: "tx_InsertWorkflow (st_tx st) x (t, w1) = (Inr u1, s1)" and
    r: "insert_event (time_Now rt) (tx_InsertAuditLog (st_tx st)) ActionWorkflowCreated ''workflow''
          (parseResourceID rt (uuid_String rt (wf_ID x))) (Recorder_resolveUserID rec u)
          (Some [''document_id'' \<mapsto> d]) s1 = (Inr u2, s2)" and
    c: "tx_Commit (st_tx st) s2 = (Inr u3, s3)" and
    w': "w' = snd (snd (tx_Rollback (st_tx st) s3))"
    by (auto simp: ExecuteWorkflowCreate_def Let_def with_tx_Inr_iff eff_simps RecordCreated_def)
  have 0: "active t" "fresh t" "trows (t, w1) = rows w" "tlogs (t, w1) = logs w"
    using begin_fresh [OF b] keepsD [OF begin_keeps b] by auto
  obtain c' where 1: "active (fst s1)" "tlogs s1 = logs w" "wf_ResultJSON x = None \<longrightarrow> c' = None"
    "trows s1 = (rows w)(id_key (wf_ID x) \<mapsto> (wf_State x, c'))"
  proof -
    have "active (fst (t, w1))" "fresh (fst (t, w1))" using 0 by simp_all
    from insert_ok [OF i this] 0 that show thesis by (elim conjE exE) simp
  qed
  note 2 = event_ok [OF r 1(1)]
  have w: "rows w' = trows s1" "logs w' = tlogs s2"
    using 2 commit_then_rollback [OF c] by (simp_all add: w')
  show ?thesis
  proof (intro conjI exI [of _ c'])
    show "wf_ResultJSON x = None \<longrightarrow> c' = None" by (rule 1(3))
    show "rows w' = (rows w)(id_key (wf_ID x) \<mapsto> (wf_State x, c'))" by (simp only: w 1)
    show "\<exists>ts. logs w' = logs w @ [\<lparr>ev_Timestamp = ts, ev_Action = ActionWorkflowCreated,
       ev_ResourceType = ''workflow'', ev_UserID = Recorder_resolveUserID rec u,
       ev_Details = Some [''document_id'' \<mapsto> d],
       ev_ResourceID = parseResourceID rt (uuid_String rt (wf_ID x))\<rparr>]"
      using 2 by (simp only: w 1)
  qed
qed

end

end
