(* ===== verification/State_Machine.thy ===== *)
theory State_Machine
  imports Transaction
begin

text \<open>
  internal/workflow/state_machine.go: Start, Complete, Fail and CurrentState, each one transaction
  on the coordinator's store. The mutex that the three transitions hold from begin to commit makes
  them run one after the other, which is what a sequence of calls of these functions is. The
  counter of metrics.IncWorkflowTransition is the second half of the state: it counts after the
  commit, so nothing is counted for a call that fails.
\<close>

type_synonym transition_counter = "string \<times> string \<Rightarrow> nat"

definition IncWorkflowTransition :: "string \<Rightarrow> string \<Rightarrow> transition_counter \<Rightarrow> transition_counter" where
  "IncWorkflowTransition p q m = m((p, q) := Suc (m (p, q)))"

record ('t, 'w) StateMachine =
  sm_coordinator :: "('t, 'w) TxCoordinator"

definition then_count ::
  "('w, string \<times> string) eff \<Rightarrow> ('w \<times> transition_counter, unit) eff" where
  "then_count body = (\<lambda>(w, m). case body w of
     (Inl e, w') \<Rightarrow> (Inl e, (w', m))
   | (Inr (p, q), w') \<Rightarrow> (Inr (), (w', IncWorkflowTransition p q m)))"

definition StateMachine_Start ::
  "('t \<times> 'w) runtime \<Rightarrow> ('t, 'w) StateMachine \<Rightarrow> string \<Rightarrow> ('w \<times> transition_counter, unit) eff" where
  "StateMachine_Start rt sm workflowID = then_count (
     let st = tc_store (sm_coordinator sm); tx = st_tx st; rec = tc_recorder (sm_coordinator sm)
     in with_tx (st_BeginTx st) (wrap1 ''state machine start: begin tx'') (tx_Rollback tx)
          (callw (tx_GetWorkflow tx workflowID) (wrap1 ''state machine start: get workflow'') (\<lambda>x.
           if \<not> IsValidTransition (wf_State x) WorkflowStateRunning
           then throw (wrap1 ''state machine start'' (Sentinel ErrInvalidTransition))
           else
           callw (tx_UpdateWorkflowState tx workflowID WorkflowStateRunning)
                 (wrap1 ''state machine start: update state'') (\<lambda>_.
           callw (RecordTransitionedToRunning rt rec (tx_InsertAuditLog tx) workflowID '''')
                 (wrap1 ''state machine start: record audit'') (\<lambda>_.
           callw (tx_Commit tx) (wrap1 ''state machine start: commit'') (\<lambda>_.
           retn (WorkflowStatePending, WorkflowStateRunning)))))))"

definition StateMachine_Complete ::
  "('t \<times> 'w) runtime \<Rightarrow> ('t, 'w) StateMachine \<Rightarrow> string \<Rightarrow> bytes option \<Rightarrow>
   ('w \<times> transition_counter, unit) eff" where
  "StateMachine_Complete rt sm workflowID resultJSON = then_count (
     let st = tc_store (sm_coordinator sm); tx = st_tx st; rec = tc_recorder (sm_coordinator sm)
     in with_tx (st_BeginTx st) (wrap1 ''state machine complete: begin tx'') (tx_Rollback tx)
          (callw (tx_GetWorkflow tx workflowID) (wrap1 ''state machine complete: get workflow'') (\<lambda>x.
           if \<not> IsValidTransition (wf_State x) WorkflowStateCompleted
           then throw (wrap1 ''state machine complete'' (Sentinel ErrInvalidTransition))
           else
           callw (tx_UpdateWorkflowState tx workflowID WorkflowStateCompleted)
                 (wrap1 ''state machine complete: update state'') (\<lambda>_.
           callw (tx_UpdateWorkflowResult tx workflowID resultJSON)
                 (wrap1 ''state machine complete: update result'') (\<lambda>_.
           callw (RecordCompleted rt rec (tx_InsertAuditLog tx) workflowID '''')
                 (wrap1 ''state machine complete: record audit'') (\<lambda>_.
           callw (tx_Commit tx) (wrap1 ''state machine complete: commit'') (\<lambda>_.
           retn (WorkflowStateRunning, WorkflowStateCompleted))))))))"

definition StateMachine_Fail ::
  "('t \<times> 'w) runtime \<Rightarrow> ('t, 'w) StateMachine \<Rightarrow> string \<Rightarrow> string \<Rightarrow>
   ('w \<times> transition_counter, unit) eff" where
  "StateMachine_Fail rt sm workflowID reason = then_count (
     let st = tc_store (sm_coordinator sm); tx = st_tx st; rec = tc_recorder (sm_coordinator sm)
     in with_tx (st_BeginTx st) (wrap1 ''state machine fail: begin tx'') (tx_Rollback tx)
          (callw (tx_GetWorkflow tx workflowID) (wrap1 ''state machine fail: get workflow'') (\<lambda>x.
           if \<not> IsValidTransition (wf_State x) WorkflowStateFailed
           then throw (wrap1 ''state machine fail'' (Sentinel ErrInvalidTransition))
           else
           callw (tx_UpdateWorkflowState tx workflowID WorkflowStateFailed)
                 (wrap1 ''state machine fail: update state'') (\<lambda>_.
           callw (if wf_State x = WorkflowStatePending
                  then callw (RecordFailedDispatch rt rec (tx_InsertAuditLog tx) workflowID '''')
                         (wrap1 ''state machine fail: record dispatch audit'') retn
                  else callw (RecordFailedCallback rt rec (tx_InsertAuditLog tx) workflowID reason '''')
                         (wrap1 ''state machine fail: record callback audit'') retn)
                 (\<lambda>e. e) (\<lambda>_.
           callw (tx_Commit tx) (wrap1 ''state machine fail: commit'') (\<lambda>_.
           retn (wf_State x, WorkflowStateFailed)))))))"

definition StateMachine_CurrentState ::
  "('t, 'w) StateMachine \<Rightarrow> string \<Rightarrow> ('w, string) eff" where
  "StateMachine_CurrentState sm workflowID =
     (let st = tc_store (sm_coordinator sm); tx = st_tx st
      in with_tx (st_BeginTx st) (wrap1 ''state machine current state: begin tx'') (tx_Rollback tx)
           (callw (tx_GetWorkflow tx workflowID)
              (wrap1 ''state machine current state: get workflow'') (\<lambda>x. retn (wf_State x))))"

text \<open>The deprecated method Transition ignores its arguments and returns nil.\<close>

definition StateMachine_Transition :: "workflow \<Rightarrow> string \<Rightarrow> ('w, unit) eff" where
  "StateMachine_Transition x q = retn ()"

lemmas state_machine_defs =
  StateMachine_Start_def StateMachine_Complete_def StateMachine_Fail_def

lemma then_count_Inr [eff_simps]:
  "then_count body (w, m) = (Inr u, (w', m')) \<longleftrightarrow>
     (\<exists>p q. body w = (Inr (p, q), w') \<and> m' = IncWorkflowTransition p q m)"
  by (auto simp: then_count_def split: prod.splits sum.splits)

lemma then_count_Inl [eff_simps]:
  "then_count body (w, m) = (Inl e, (w', m')) \<longleftrightarrow> body w = (Inl e, w') \<and> m' = m"
  by (auto simp: then_count_def split: prod.splits sum.splits)

section \<open>The specification\<close>

text \<open>
  What one successful call does to the rows and the log: the row of the workflow moves along a
  valid transition, and one event is appended that names the workflow and the transition.
\<close>

definition wf_event :: "('s) Recorder \<Rightarrow> time \<Rightarrow> action \<Rightarrow> json_map option \<Rightarrow> uuid \<Rightarrow> audit_event" where
  "wf_event rec ts a d r = \<lparr>ev_Timestamp = ts, ev_Action = a, ev_ResourceType = ''workflow'',
     ev_UserID = Recorder_resolveUserID rec '''', ev_Details = d, ev_ResourceID = r\<rparr>"

lemma wf_event_user [simp]: "ev_UserID (wf_event rec ts a d r) = DefaultUserID"
  by (simp add: wf_event_def Recorder_resolveUserID_def)

lemma wf_event_fields [simp]:
  "ev_Action (wf_event rec ts a d r) = a" "ev_ResourceID (wf_event rec ts a d r) = r"
  "ev_ResourceType (wf_event rec ts a d r) = ''workflow''" "ev_Details (wf_event rec ts a d r) = d"
  by (simp_all add: wf_event_def)

text \<open>The action that stands for each transition.\<close>

definition transition_action :: "workflow_state \<Rightarrow> workflow_state \<Rightarrow> action" where
  "transition_action p q =
     (if q = WorkflowStateRunning then ActionWorkflowTransitionedToRunning
      else if q = WorkflowStateCompleted then ActionWorkflowCompleted
      else if p = WorkflowStatePending then ActionWorkflowFailedDispatch
      else ActionWorkflowFailedCallback)"

definition moves ::
  "'k \<Rightarrow> uuid \<Rightarrow> workflow_state \<Rightarrow> workflow_state \<Rightarrow> 'k rows \<times> audit_event list \<Rightarrow>
   'k rows \<times> audit_event list \<Rightarrow> bool" where
  "moves k r p q = (\<lambda>(R, L) (R', L').
     IsValidTransition p q \<and>
     (\<exists>b b'. R k = Some (p, b) \<and> R' = R(k \<mapsto> (q, b')) \<and> (b' \<noteq> b \<longrightarrow> terminal_state q)) \<and>
     (\<exists>e. L' = L @ [e] \<and> ev_Action e = transition_action p q \<and> ev_ResourceID e = r \<and>
          ev_ResourceType e = ''workflow'' \<and> ev_UserID e = DefaultUserID))"

section \<open>The operations refine the specification on every store\<close>

context store_client
begin

definition machine :: "('t, 'w) StateMachine" where
  "machine = \<lparr>sm_coordinator = \<lparr>tc_store = st, tc_recorder = rec\<rparr>\<rparr>"

lemma machine_simps [simp]:
  "tc_store (sm_coordinator machine) = st" "tc_recorder (sm_coordinator machine) = rec"
  by (simp_all add: machine_def)

text \<open>A read at the start of a transaction returns the published row.\<close>

lemma get_first:
  assumes "st_BeginTx st w = (Inr t, w1)" and "tx_GetWorkflow (st_tx st) i (t, w1) = (Inr x, s)"
  shows "active (fst s)" "trows s = rows w" "tlogs s = logs w" 
    "rows w (key i) = Some (wf_State x, wf_ResultJSON x)"
  using begin_fresh [OF assms(1)] keepsD [OF begin_keeps assms(1)] get_ok [OF assms(2)] by auto

lemma start_ok:
  assumes "StateMachine_Start rt machine i (w, m) = (Inr u, (w', m'))"
  shows "moves (key i) (parseResourceID rt i) WorkflowStatePending WorkflowStateRunning
           (rows w, logs w) (rows w', logs w')"
    and "m' = IncWorkflowTransition WorkflowStatePending WorkflowStateRunning m"
proof -
  from assms obtain t w1 s x s1 s2 s3 u1 u2 u3 where
    b: "st_BeginTx st w = (Inr t, w1)" and
    g: "tx_GetWorkflow (st_tx st) i (t, w1) = (Inr x, s)" and
    v: "IsValidTransition (wf_State x) WorkflowStateRunning" and
    q: "tx_UpdateWorkflowState (st_tx st) i WorkflowStateRunning s = (Inr u1, s1)" and
    r: "insert_event (time_Now rt) (tx_InsertAuditLog (st_tx st)) ActionWorkflowTransitionedToRunning
          ''workflow'' (parseResourceID rt i) (Recorder_resolveUserID rec '''')
          (Some [''from'' \<mapsto> ''PENDING'', ''to'' \<mapsto> ''RUNNING'']) s1 = (Inr u2, s2)" and
    c: "tx_Commit (st_tx st) s2 = (Inr u3, s3)" and
    w': "w' = snd (snd (tx_Rollback (st_tx st) s3))" and
    m': "m' = IncWorkflowTransition WorkflowStatePending WorkflowStateRunning m"
    by (auto simp: StateMachine_Start_def Let_def with_tx_Inr_iff eff_simps
        RecordTransitionedToRunning_def split: if_splits)
  have p: "wf_State x = WorkflowStatePending" using v by (simp add: IsValidTransition_iff)
  note 0 = get_first [OF b g]
  note 1 = state_ok [OF q 0(1), of WorkflowStatePending "wf_ResultJSON x"]
  have 2: "active (fst s1)" "tlogs s1 = logs w"
    "trows s1 = (rows w)(key i \<mapsto> (WorkflowStateRunning, wf_ResultJSON x))"
    using 0 1 p by auto
  show "moves (key i) (parseResourceID rt i) WorkflowStatePending WorkflowStateRunning
           (rows w, logs w) (rows w', logs w')"
    using event_ok [OF r 2(1)] 2 0 commit_then_rollback [OF c] v p
    by (auto simp: w' moves_def transition_action_def Recorder_resolveUserID_def)
  show "m' = IncWorkflowTransition WorkflowStatePending WorkflowStateRunning m" by (rule m')
qed

lemma complete_ok:
  assumes "StateMachine_Complete rt machine i c (w, m) = (Inr u, (w', m'))"
  shows "moves (key i) (parseResourceID rt i) WorkflowStateRunning WorkflowStateCompleted
           (rows w, logs w) (rows w', logs w')"
    and "\<exists>s c'. rows w' (key i) = Some (WorkflowStateCompleted, c') \<and> kept s c c'"
    and "m' = IncWorkflowTransition WorkflowStateRunning WorkflowStateCompleted m"
proof -
  from assms obtain t w1 s x s1 s2 s3 s4 u1 u2 u3 u4 where
    b: "st_BeginTx st w = (Inr t, w1)" and
    g: "tx_GetWorkflow (st_tx st) i (t, w1) = (Inr x, s)" and
    v: "IsValidTransition (wf_State x) WorkflowStateCompleted" and
    q: "tx_UpdateWorkflowState (st_tx st) i WorkflowStateCompleted s = (Inr u1, s1)" and
    q': "tx_UpdateWorkflowResult (st_tx st) i c s1 = (Inr u2, s2)" and
    r: "insert_event (time_Now rt) (tx_InsertAuditLog (st_tx st)) ActionWorkflowCompleted
          ''workflow'' (parseResourceID rt i) (Recorder_resolveUserID rec '''') None s2 = (Inr u3, s3)" and
    c: "tx_Commit (st_tx st) s3 = (Inr u4, s4)" and
    w': "w' = snd (snd (tx_Rollback (st_tx st) s4))" and
    m': "m' = IncWorkflowTransition WorkflowStateRunning WorkflowStateCompleted m"
    by (auto simp: StateMachine_Complete_def Let_def with_tx_Inr_iff eff_simps
        RecordCompleted_def split: if_splits)
  have p: "wf_State x = WorkflowStateRunning" using v by (simp add: IsValidTransition_iff)
  note 0 = get_first [OF b g]
  have 1: "active (fst s1)" "tlogs s1 = logs w"
    "trows s1 = (rows w)(key i \<mapsto> (WorkflowStateCompleted, wf_ResultJSON x))"
    using 0 state_ok [OF q 0(1), of WorkflowStateRunning "wf_ResultJSON x"] p by auto
  obtain c' where 2: "active (fst s2)" "tlogs s2 = logs w" "kept s1 c c'"
    "trows s2 = (rows w)(key i \<mapsto> (WorkflowStateCompleted, c'))"
    using 1 result_ok [OF q' 1(1), of WorkflowStateCompleted "wf_ResultJSON x"] by auto
  note fin = event_ok [OF r 2(1)] 2 0 commit_then_rollback [OF c] v p
  show "moves (key i) (parseResourceID rt i) WorkflowStateRunning WorkflowStateCompleted
           (rows w, logs w) (rows w', logs w')"
    using fin by (auto simp: w' moves_def transition_action_def Recorder_resolveUserID_def)
  show "\<exists>s c'. rows w' (key i) = Some (WorkflowStateCompleted, c') \<and> kept s c c'"
    using fin by (intro exI [of _ s1] exI [of _ c']) (auto simp: w')
  show "m' = IncWorkflowTransition WorkflowStateRunning WorkflowStateCompleted m" by (rule m')
qed

lemma fail_ok:
  assumes "StateMachine_Fail rt machine i reason (w, m) = (Inr u, (w', m'))"
  shows "\<exists>p. moves (key i) (parseResourceID rt i) p WorkflowStateFailed
           (rows w, logs w) (rows w', logs w') \<and> m' = IncWorkflowTransition p WorkflowStateFailed m"
proof -
  let ?act = "\<lambda>x. if wf_State x = WorkflowStatePending then ActionWorkflowFailedDispatch
                  else ActionWorkflowFailedCallback"
  let ?det = "\<lambda>x. if wf_State x = WorkflowStatePending then None else Some [''reason'' \<mapsto> reason]"
  from assms obtain t w1 s x s1 s2 s3 u1 u2 u3 where
    b: "st_BeginTx st w = (Inr t, w1)" and
    g: "tx_GetWorkflow (st_tx st) i (t, w1) = (Inr x, s)" and
    v: "IsValidTransition (wf_State x) WorkflowStateFailed" and
    q: "tx_UpdateWorkflowState (st_tx st) i WorkflowStateFailed s = (Inr u1, s1)" and
    r: "insert_event (time_Now rt) (tx_InsertAuditLog (st_tx st)) (?act x)
          ''workflow'' (parseResourceID rt i) (Recorder_resolveUserID rec '''') (?det x) s1 = (Inr u2, s2)" and
    c: "tx_Commit (st_tx st) s2 = (Inr u3, s3)" and
    w': "w' = snd (snd (tx_Rollback (st_tx st) s3))" and
    m': "m' = IncWorkflowTransition (wf_State x) WorkflowStateFailed m"
    by (auto simp: StateMachine_Fail_def Let_def with_tx_Inr_iff eff_simps
        RecordFailedDispatch_def RecordFailedCallback_def split: if_splits)
  note 0 = get_first [OF b g]
  note 1 = state_ok [OF q 0(1), of "wf_State x" "wf_ResultJSON x"]
  have 2: "active (fst s1)" "tlogs s1 = logs w"
    "trows s1 = (rows w)(key i \<mapsto> (WorkflowStateFailed, wf_ResultJSON x))"
    using 0 1 by auto
  have "moves (key i) (parseResourceID rt i) (wf_State x) WorkflowStateFailed
           (rows w, logs w) (rows w', logs w')"
    using event_ok [OF r 2(1)] 2 0 commit_then_rollback [OF c] v
    by (auto simp: w' moves_def transition_action_def Recorder_resolveUserID_def)
  with m' show ?thesis by blast
qed

lemma begin_err_seen: "st_BeginTx st w = (Inl e, w') \<Longrightarrow> seen w' = seen w"
  by (rule keepsD [OF begin_seen])

lemma start_err:
  assumes "StateMachine_Start rt machine i (w, m) = (Inl e, (w', m'))"
  shows "seen w' = seen w \<and> m' = m"
proof -
  note run = assms [unfolded StateMachine_Start_def Let_def machine_simps then_count_Inl]
  have "seen w' = seen w"
    by (rule with_tx_err_keeps [OF begin_seen tx_seen(6) _ conjunct1 [OF run]])
      (unfold RecordTransitionedToRunning_def marshal_then_run,
        (rule commit_last keeps_err_throw | rule eff_intros)+)
  with run show ?thesis by simp
qed

lemma complete_err:
  assumes "StateMachine_Complete rt machine i c (w, m) = (Inl e, (w', m'))"
  shows "seen w' = seen w \<and> m' = m"
proof -
  note run = assms [unfolded StateMachine_Complete_def Let_def machine_simps then_count_Inl]
  have "seen w' = seen w"
    by (rule with_tx_err_keeps [OF begin_seen tx_seen(6) _ conjunct1 [OF run]])
      (unfold RecordCompleted_def, (rule commit_last keeps_err_throw | rule eff_intros)+)
  with run show ?thesis by simp
qed

lemma fail_err:
  assumes "StateMachine_Fail rt machine i reason (w, m) = (Inl e, (w', m'))"
  shows "seen w' = seen w \<and> m' = m"
proof -
  note run = assms [unfolded StateMachine_Fail_def Let_def machine_simps then_count_Inl]
  have "seen w' = seen w"
    by (rule with_tx_err_keeps [OF begin_seen tx_seen(6) _ conjunct1 [OF run]])
      (unfold RecordFailedDispatch_def RecordFailedCallback_def marshal_then_run,
        (rule commit_last keeps_err_throw | rule eff_intros)+)
  with run show ?thesis by simp
qed

text \<open>The body of Fail, one error branch of it at a time: an invalid transition is refused.\<close>

lemma current_state_ok:
  assumes "StateMachine_CurrentState machine i w = (Inr q, w')"
  shows "seen w' = seen w \<and> (\<exists>b. rows w (key i) = Some (q, b))"
proof -
  from assms obtain t w1 x s where
    b: "st_BeginTx st w = (Inr t, w1)" and
    g: "tx_GetWorkflow (st_tx st) i (t, w1) = (Inr x, s)" and
    q: "q = wf_State x" and w': "w' = snd (snd (tx_Rollback (st_tx st) s))"
    by (auto simp: StateMachine_CurrentState_def Let_def with_tx_Inr_iff eff_simps)
  have "seen w' = seen (snd s)" using keeps_snd [OF tx_seen(6), of s] by (simp add: w')
  also have "\<dots> = seen w1" using keepsD [OF tx_seen(4) g] by simp
  also have "\<dots> = seen w" by (rule keepsD [OF begin_seen b])
  finally show ?thesis using get_first(4) [OF b g] q by auto
qed

end

section \<open>Histories\<close>

text \<open>The state that the log alone says a resource is in.\<close>

definition event_state :: "audit_event \<Rightarrow> workflow_state option" where
  "event_state e =
     (if ev_Action e = ActionWorkflowCreated then Some WorkflowStatePending
      else if ev_Action e = ActionWorkflowTransitionedToRunning then Some WorkflowStateRunning
      else if ev_Action e = ActionWorkflowCompleted then Some WorkflowStateCompleted
      else if ev_Action e = ActionWorkflowFailedDispatch \<or> ev_Action e = ActionWorkflowFailedCallback
      then Some WorkflowStateFailed else None)"

text \<open>
  One step of the specification: a workflow with a new key is created in PENDING, a workflow
  moves along a valid transition, or something that changes no workflow is noted (a callback that was
  refused); each time one event is appended. \<^verbatim>\<open>K\<close> holds the keys that a creation can give,
  \<^verbatim>\<open>res\<close> the resource id an event has for a key.
\<close>

inductive wf_step ::
  "'k set \<Rightarrow> ('k \<Rightarrow> uuid) \<Rightarrow> 'k rows \<times> audit_event list \<Rightarrow> 'k rows \<times> audit_event list \<Rightarrow> bool"
  for K res where
  created: "k \<in> K \<Longrightarrow> R k = None \<Longrightarrow> ev_Action e = ActionWorkflowCreated \<Longrightarrow> ev_ResourceID e = res k \<Longrightarrow>
    wf_step K res (R, L) (R(k \<mapsto> (WorkflowStatePending, b)), L @ [e])"
| moved: "moves k (res k) p q (R, L) (R', L') \<Longrightarrow> wf_step K res (R, L) (R', L')"
| noted: "event_state e = None \<Longrightarrow> wf_step K res (R, L) (R, L @ [e])"

inductive_cases wf_stepE: "wf_step K res (R, L) (R', L')"

abbreviation wf_run where
  "wf_run K res \<equiv> (wf_step K res)\<^sup>*\<^sup>*"

fun replay :: "audit_event list \<Rightarrow> (uuid \<rightharpoonup> workflow_state) \<Rightarrow> (uuid \<rightharpoonup> workflow_state)" where
  "replay [] m = m"
| "replay (e # L) m =
     replay L (case event_state e of None \<Rightarrow> m | Some q \<Rightarrow> m(ev_ResourceID e \<mapsto> q))"

lemma replay_append: "replay (L @ M) m = replay M (replay L m)"
  by (induction L arbitrary: m) auto

lemmas workflow_action_defs =
  ActionWorkflowCreated_def ActionWorkflowTransitionedToRunning_def ActionWorkflowCompleted_def
  ActionWorkflowFailedDispatch_def ActionWorkflowFailedCallback_def

lemma event_state_created [simp]:
  "ev_Action e = ActionWorkflowCreated \<Longrightarrow> event_state e = Some WorkflowStatePending"
  by (simp add: event_state_def)

lemma event_state_transition:
  "ev_Action e = transition_action p q \<Longrightarrow> IsValidTransition p q \<Longrightarrow> event_state e = Some q"
  by (auto simp: event_state_def transition_action_def IsValidTransition_iff workflow_action_defs)

lemma transition_action_not_created [simp]: "transition_action p q \<noteq> ActionWorkflowCreated"
  by (simp add: transition_action_def workflow_action_defs)

lemma moves_dest:
  assumes "moves k r p q (R, L) (R', L')"
  obtains b b' e where "IsValidTransition p q" "R k = Some (p, b)" "R' = R(k \<mapsto> (q, b'))" "L' = L @ [e]"
    "ev_Action e = transition_action p q" "ev_ResourceID e = r" "event_state e = Some q"
  using assms event_state_transition unfolding moves_def by auto

definition replay_agrees :: "'k set \<Rightarrow> ('k \<Rightarrow> uuid) \<Rightarrow> 'k rows \<times> audit_event list \<Rightarrow> bool" where
  "replay_agrees K res = (\<lambda>(R, L). dom R \<subseteq> K \<and>
     (\<forall>k\<in>K. replay L Map.empty (res k) = map_option fst (R k)))"

lemma replay_agrees_step:
  assumes "wf_step K res c c'" and "inj_on res K" and "replay_agrees K res c"
  shows "replay_agrees K res c'"
  using assms(1)
proof cases
  case (created k R e L b)
  then show ?thesis using assms(2,3)
    by (auto simp: replay_agrees_def replay_append dest: inj_onD)
next
  case (moved k p q R L R' L')
  from moved(3) show ?thesis
  proof (rule moves_dest)
    fix b b' e
    assume "R k = Some (p, b)" "R' = R(k \<mapsto> (q, b'))" "L' = L @ [e]"
      "ev_ResourceID e = res k" "event_state e = Some q"
    then show ?thesis using assms(2,3) moved(1,2)
      by (auto simp: replay_agrees_def replay_append dest: inj_onD)
  qed
next
  case (noted e R L)
  then show ?thesis using assms(3) by (simp add: replay_agrees_def replay_append)
qed

lemma replay_agrees_run:
  "wf_run K res c c' \<Longrightarrow> inj_on res K \<Longrightarrow> replay_agrees K res c \<Longrightarrow> replay_agrees K res c'"
  by (induction rule: rtranclp_induct) (auto intro: replay_agrees_step)

text \<open>A terminal row never changes again, and the log is only ever extended.\<close>

lemma terminal_step:
  "wf_step K res (R, L) (R', L') \<Longrightarrow> R k = Some (p, b) \<Longrightarrow> terminal_state p \<Longrightarrow> R' k = Some (p, b)"
  by (erule wf_stepE) (auto elim!: moves_dest simp: terminal_no_transition)

lemma log_step: "wf_step K res (R, L) (R', L') \<Longrightarrow> \<exists>e. L' = L @ [e]"
  by (erule wf_stepE) (auto elim!: moves_dest)

lemma terminal_run:
  assumes "wf_run K res c c'" "fst c k = Some (p, b)" "terminal_state p"
  shows "fst c' k = Some (p, b)"
  using assms by (induction rule: rtranclp_induct) (auto dest: terminal_step)

lemma log_run: "wf_run K res c c' \<Longrightarrow> \<exists>M. snd c' = snd c @ M"
  by (induction rule: rtranclp_induct) (auto dest: log_step)

text \<open>
  At most two transition events per workflow: each transition lowers the rank of the state, which
  starts at two.
\<close>

definition transitions_of :: "uuid \<Rightarrow> audit_event list \<Rightarrow> audit_event list" where
  "transitions_of r L =
     List.filter (\<lambda>e. ev_ResourceID e = r \<and> event_state e \<noteq> None \<and> ev_Action e \<noteq> ActionWorkflowCreated) L"

definition rank_bound :: "'k set \<Rightarrow> ('k \<Rightarrow> uuid) \<Rightarrow> 'k rows \<times> audit_event list \<Rightarrow> bool" where
  "rank_bound K res = (\<lambda>(R, L). dom R \<subseteq> K \<and> (\<forall>k\<in>K.
     case R k of None \<Rightarrow> transitions_of (res k) L = []
     | Some (p, b) \<Rightarrow> length (transitions_of (res k) L) + state_rank p \<le> 2))"

lemma rank_bound_step:
  assumes "wf_step K res c c'" and "inj_on res K" and "rank_bound K res c"
  shows "rank_bound K res c'"
  using assms(1)
proof cases
  case (created k R e L b)
  then show ?thesis using assms(2,3)
    by (auto simp: rank_bound_def transitions_of_def state_rank_def split: option.splits)
next
  case (moved k p q R L R' L')
  from moved(3) show ?thesis
  proof (rule moves_dest)
    fix b b' e
    assume e: "IsValidTransition p q" "R k = Some (p, b)" "R' = R(k \<mapsto> (q, b'))" "L' = L @ [e]"
      "ev_ResourceID e = res k" "ev_Action e = transition_action p q" "event_state e = Some q"
    have k: "k \<in> K" using assms(3) moved(1) e(2) by (auto simp: rank_bound_def)
    have other: "transitions_of (res j) L' = transitions_of (res j) L" if "j \<in> K" "j \<noteq> k" for j
      using that k e(4,5) assms(2) by (auto simp: transitions_of_def dest: inj_onD)
    have one: "length (transitions_of (res k) L') = Suc (length (transitions_of (res k) L))"
      using e by (simp add: transitions_of_def)
    have old: "dom R \<subseteq> K" "length (transitions_of (res k) L) + state_rank p \<le> 2"
      using assms(3) k e(2) by (auto simp: rank_bound_def moved(1) dest!: bspec [of _ _ k])
    have "case R' j of None \<Rightarrow> transitions_of (res j) L' = []
        | Some (p, b) \<Rightarrow> length (transitions_of (res j) L') + state_rank p \<le> 2" if j: "j \<in> K" for j
    proof (cases "j = k")
      case True
      then show ?thesis using old(2) one transition_decreases [OF e(1)] e(3) by simp
    next
      case False
      then show ?thesis using assms(3) j other [OF j False] e(3)
        by (auto simp: rank_bound_def moved(1) split: option.splits)
    qed
    then show ?thesis using old(1) k e(3) by (auto simp: rank_bound_def moved(2))
  qed
next
  case (noted e R L)
  then show ?thesis using assms(3) by (auto simp: rank_bound_def transitions_of_def split: option.splits)
qed

lemma rank_bound_run:
  "wf_run K res c c' \<Longrightarrow> inj_on res K \<Longrightarrow> rank_bound K res c \<Longrightarrow> rank_bound K res c'"
  by (induction rule: rtranclp_induct) (auto intro: rank_bound_step)

end
