(* ===== verification/Http.thy ===== *)
theory Http
  imports Prelude Numbers
begin

text \<open>
  Requests, responses and handlers as net/http has them, the functions of strings and
  encoding/json that the REST layer calls, and the user that the middlewares put into the context
  of a request (internal/auth/middleware.go). A handler maps a request and the state of the
  program to the response it writes and the new state; a middleware maps handlers to handlers.
\<close>

section \<open>Text\<close>

definition HasPrefix :: "string \<Rightarrow> string \<Rightarrow> bool" where
  "HasPrefix s p \<longleftrightarrow> take (length p) s = p"

definition CutPrefix :: "string \<Rightarrow> string \<Rightarrow> string option" where
  "CutPrefix s p = (if HasPrefix s p then Some (drop (length p) s) else None)"

lemma HasPrefix_iff: "HasPrefix s p \<longleftrightarrow> (\<exists>t. s = p @ t)"
  by (auto simp: HasPrefix_def) (metis append_take_drop_id)

lemma CutPrefix_Some: "CutPrefix s p = Some t \<longleftrightarrow> s = p @ t"
  by (auto simp: CutPrefix_def HasPrefix_iff)

lemma CutPrefix_append [simp]: "CutPrefix (p @ t) p = Some t"
  by (simp add: CutPrefix_Some)

text \<open>strings.Fields: the maximal runs of characters that are not spaces.\<close>

primrec fields_from :: "string \<Rightarrow> string \<Rightarrow> string list" where
  "fields_from cur [] = (if cur = [] then [] else [rev cur])"
| "fields_from cur (c # s) =
     (if is_space c then (if cur = [] then fields_from [] s else rev cur # fields_from [] s)
      else fields_from (c # cur) s)"

definition Fields :: "string \<Rightarrow> string list" where
  "Fields s = fields_from [] s"

text \<open>strings.Join(xs, " ")\<close>

fun join_space :: "string list \<Rightarrow> string" where
  "join_space [] = []"
| "join_space [x] = x"
| "join_space (x # xs) = x @ '' '' @ join_space xs"

lemma is_space_blank [simp]: "is_space (CHR '' '')"
  by (simp add: is_space_def)

lemma fields_from_sep:
  "fields_from cur (s @ CHR '' '' # t) = fields_from cur s @ fields_from [] t"
  by (induction s arbitrary: cur) auto

lemma Fields_join: "Fields (join_space xs) = concat (map Fields xs)"
  by (induction xs rule: join_space.induct) (simp_all add: Fields_def fields_from_sep)

lemma fields_from_word:
  "\<forall>c\<in>set w. \<not> is_space c \<Longrightarrow> cur @ w \<noteq> [] \<Longrightarrow> fields_from cur w = [rev cur @ w]"
  by (induction w arbitrary: cur) auto

lemma Fields_word: "\<forall>c\<in>set w. \<not> is_space c \<Longrightarrow> w \<noteq> [] \<Longrightarrow> Fields w = [w]"
  unfolding Fields_def by (subst fields_from_word) auto

section \<open>Instants as text\<close>

text \<open>
  Time.UTC().Format("2006-01-02T15:04:05Z07:00") for the years 0 to 9999: the civil date of a day
  number, with the year taken to begin in March.
\<close>

definition civil_date :: "int \<Rightarrow> int \<times> int \<times> int" where
  "civil_date days =
     (let z = days + 719468; era = z div 146097; doe = z mod 146097;
          yoe = (doe - doe div 1460 + doe div 36524 - doe div 146096) div 365;
          doy = doe - (365 * yoe + yoe div 4 - yoe div 100);
          mp = (5 * doy + 2) div 153;
          dd = doy - (153 * mp + 2) div 5 + 1;
          mm = (if mp < 10 then mp + 3 else mp - 9)
      in (yoe + era * 400 + (if mm \<le> 2 then 1 else 0), mm, dd))"

primrec pad_digits :: "nat \<Rightarrow> int \<Rightarrow> string" where
  "pad_digits 0 n = []"
| "pad_digits (Suc k) n = pad_digits k (n div 10) @ [char_of (48 + nat (n mod 10))]"

definition Format_RFC3339 :: "time \<Rightarrow> string" where
  "Format_RFC3339 ts =
     (let sec = ts div nanosecond; sod = sec mod 86400
      in case civil_date (sec div 86400) of (y, m, dd) \<Rightarrow>
           pad_digits 4 y @ ''-'' @ pad_digits 2 m @ ''-'' @ pad_digits 2 dd @ ''T'' @
           pad_digits 2 (sod div 3600) @ '':'' @ pad_digits 2 (sod div 60 mod 60) @ '':'' @
           pad_digits 2 (sod mod 60) @ ''Z'')"

text \<open>Hour of the day in a zone with a fixed offset in seconds (time.FixedZone).\<close>

definition Hour_in :: "int \<Rightarrow> time \<Rightarrow> int" where
  "Hour_in offset ts = (ts div nanosecond + offset) mod 86400 div 3600"

section \<open>Requests and responses\<close>

text \<open>auth.User, and the request with what the context carries: the user and the granted permission.\<close>

record User =
  usr_UID :: string
  usr_Issuer :: string
  usr_Roles :: "string list"
  usr_Scopes :: "string list"

text \<open>
  \<^verbatim>\<open>req_Authorization\<close> is Header.Get("Authorization"), \<^verbatim>\<open>req_PathID\<close> is PathValue("id"),
  \<^verbatim>\<open>req_Query\<close> gives the first value of a query parameter or the empty text, and
  \<^verbatim>\<open>req_Body\<close> is the first JSON value of the body, if there is one.
\<close>

record request =
  req_Method :: string
  req_Path :: string
  req_Authorization :: string
  req_PathID :: string
  req_Query :: "string \<Rightarrow> string"
  req_ContentLength :: int
  req_Body :: "json option"
  req_User :: "User option"
  req_Granted :: "string option"

record response =
  resp_Code :: nat
  resp_Header :: "(string \<times> string) list"
  resp_Body :: json

type_synonym 's handler = "request \<Rightarrow> 's \<Rightarrow> response \<times> 's"

definition WithUser :: "User \<Rightarrow> request \<Rightarrow> request" where
  "WithUser u r = r\<lparr>req_User := Some u\<rparr>"

definition UserFromContext :: "request \<Rightarrow> User option" where
  "UserFromContext r = req_User r"

section \<open>Reading a JSON body\<close>

text \<open>
  json.Decoder.Decode into a struct: null leaves it as it is, an object sets the fields whose
  names match a key without regard to case, in the order of the keys, and a value of another type
  is an error. Nested objects of a map[string]any are kept as they are.
\<close>

definition to_lower :: "char \<Rightarrow> char" where
  "to_lower c = (let n = (of_char c :: nat) in if 65 \<le> n \<and> n \<le> 90 then char_of (n + 32) else c)"

definition decode_error :: goerr where
  "decode_error = LibError ''json: cannot unmarshal''"

definition decode_object :: "json option \<Rightarrow> goerr + (string \<times> json) list" where
  "decode_object b = (case b of
     None \<Rightarrow> Inl (LibError ''json: invalid input'')
   | Some JNull \<Rightarrow> Inr []
   | Some (JObject kvs) \<Rightarrow> Inr kvs
   | Some _ \<Rightarrow> Inl decode_error)"

primrec decode_field ::
  "string \<Rightarrow> ('a \<Rightarrow> json \<Rightarrow> goerr + 'a) \<Rightarrow> (string \<times> json) list \<Rightarrow> 'a \<Rightarrow> goerr + 'a" where
  "decode_field name f [] x = Inr x"
| "decode_field name f (kv # kvs) x =
     (if map to_lower (fst kv) = name
      then (case f x (snd kv) of Inl e \<Rightarrow> Inl e | Inr y \<Rightarrow> decode_field name f kvs y)
      else decode_field name f kvs x)"

definition set_string :: "string \<Rightarrow> json \<Rightarrow> goerr + string" where
  "set_string old v = (case v of JString s \<Rightarrow> Inr s | JNull \<Rightarrow> Inr old | _ \<Rightarrow> Inl decode_error)"

definition put_key :: "string \<times> json \<Rightarrow> metadata \<Rightarrow> metadata" where
  "put_key kv m = List.filter (\<lambda>q. fst q \<noteq> fst kv) m @ [kv]"

definition set_map :: "metadata \<Rightarrow> json \<Rightarrow> goerr + metadata" where
  "set_map old v = (case v of
     JObject kvs \<Rightarrow> Inr (List.fold put_key kvs old) | JNull \<Rightarrow> Inr [] | _ \<Rightarrow> Inl decode_error)"

text \<open>
  Fields behind a pointer: null sets the pointer to nil, before any method of the type is asked. An
  int takes an integer literal of 64 bits (strconv.ParseInt), a float64 any number in range.
\<close>

definition ParseInt :: "string \<Rightarrow> int option" where
  "ParseInt s =
     (let neg = (s \<noteq> [] \<and> hd s = CHR ''-''); r = (if neg then tl s else s);
          v = (if neg then - int (decimal_value r) else int (decimal_value r))
      in if is_decimal r \<and> - (2 ^ 63) \<le> v \<and> v < 2 ^ 63 then Some v else None)"

text \<open>strconv.ParseInt(s, 10, 64) on any text also takes a plus sign.\<close>

definition strconv_ParseInt :: "string \<Rightarrow> int option" where
  "strconv_ParseInt s =
     (if HasPrefix s ''+'' then (if HasPrefix (tl s) ''-'' then None else ParseInt (tl s)) else ParseInt s)"

definition set_pointer :: "(json \<Rightarrow> 'a option) \<Rightarrow> 'a option \<Rightarrow> json \<Rightarrow> goerr + 'a option" where
  "set_pointer f old v =
     (if v = JNull then Inr None else case f v of None \<Rightarrow> Inl decode_error | Some a \<Rightarrow> Inr (Some a))"

fun json_string :: "json \<Rightarrow> string option" where
  "json_string (JString s) = Some s"
| "json_string _ = None"

fun json_int :: "json \<Rightarrow> int option" where
  "json_int (JNumber s) = ParseInt s"
| "json_int _ = None"

fun json_float64 :: "json \<Rightarrow> float64 option" where
  "json_float64 (JNumber s) = ParseFloat s"
| "json_float64 _ = None"

text \<open>A field of type *map[string]any keeps the map it already has; *json.RawMessage takes any value.\<close>

definition set_map_pointer :: "metadata option \<Rightarrow> json \<Rightarrow> goerr + metadata option" where
  "set_map_pointer old v = (case v of
     JNull \<Rightarrow> Inr None
   | JObject kvs \<Rightarrow> Inr (Some (List.fold put_key kvs (case old of None \<Rightarrow> [] | Some m \<Rightarrow> m)))
   | _ \<Rightarrow> Inl decode_error)"

text \<open>A field of type float64: null leaves it.\<close>

definition set_value :: "(json \<Rightarrow> 'a option) \<Rightarrow> 'a \<Rightarrow> json \<Rightarrow> goerr + 'a" where
  "set_value f old v =
     (if v = JNull then Inr old else case f v of None \<Rightarrow> Inl decode_error | Some a \<Rightarrow> Inr a)"

section \<open>Values in an answer\<close>

text \<open>
  A nil pointer is null. A double without a text makes the encoder fail after the status was
  written, and the body stays empty; null stands for that here.
\<close>

definition float_json :: "float64 \<Rightarrow> json" where
  "float_json x = (case json_float x of None \<Rightarrow> JNull | Some t \<Rightarrow> JNumber t)"

definition pointer_json :: "('a \<Rightarrow> json) \<Rightarrow> 'a option \<Rightarrow> json" where
  "pointer_json f x = (case x of None \<Rightarrow> JNull | Some a \<Rightarrow> f a)"

section \<open>Fields that are left out when empty\<close>

definition opt_field :: "string \<Rightarrow> string option \<Rightarrow> (string \<times> json) list" where
  "opt_field name x = (case x of None \<Rightarrow> [] | Some s \<Rightarrow> [(name, JString s)])"

definition text_field :: "string \<Rightarrow> string \<Rightarrow> (string \<times> json) list" where
  "text_field name s = (if s = [] then [] else [(name, JString s)])"

end
