(* ===== verification/Database.thy ===== *)
theory Database
  imports Store_Interface
begin

text \<open>
  The PostgreSQL side of the stores. The server and the pgx driver are not under src/, so what is
  here is what the stores rely on, as documented: a transaction works on its own copy of the
  tables, which Commit publishes; the first statement that fails aborts the transaction, and every
  later statement and the Commit of an aborted transaction fail; a transaction that has ended
  answers pgx.ErrTxClosed; now() is the instant the transaction began. The tables, their columns
  and their constraints are those of .moai/db/schema (initial.sql and the migrations). Any
  statement can also fail with a fault of the surroundings, and a Commit that reports a fault has
  not committed. One transaction runs at a time; SELECT ... FOR UPDATE is then a SELECT.

  What a column keeps of a value the process sends is written out where the two differ. A JSONB
  column keeps a text in a normal form or refuses it: which, is the component \<^verbatim>\<open>db_jsonb\<close> of the
  database, on which every theorem is quantified and which no statement changes. TIMESTAMPTZ and the
  driver keep microseconds (\<^verbatim>\<open>micros\<close>). A text that is not UTF-8 or holds a NUL byte is refused
  (\<^verbatim>\<open>text_ok\<close>, error 22021): written out for the audit log and the evidence, where properties claim
  that a statement succeeds; the other statements take any text.
\<close>

section \<open>The tables\<close>

record workflow_row =
  wr_id :: uuid
  wr_status :: string
  wr_document_id :: "uuid option"
  wr_report_id :: "uuid option"
  wr_result_json :: "bytes option"
  wr_created_at :: time
  wr_updated_at :: time

record audit_row =
  ar_id :: uuid
  ar_action :: string
  ar_resource_type :: string
  ar_resource_id :: uuid
  ar_user_id :: string
  ar_details :: "json_map option"
  ar_timestamp :: time

record review_row =
  rr_id :: uuid
  rr_score_id :: uuid
  rr_status :: string
  rr_assigned_reviewer_id :: "string option"
  rr_rejection_reason :: "string option"
  rr_comment :: "string option"
  rr_metadata :: "metadata option"
  rr_created_at :: time
  rr_created_by :: string
  rr_updated_at :: time
  rr_updated_by :: string

text \<open>A NUMERIC value: PostgreSQL has NaN, and orders it above every number.\<close>

datatype numeric = Num rat | NumNaN

fun num_le :: "numeric \<Rightarrow> numeric \<Rightarrow> bool" where
  "num_le (Num a) (Num b) = (a \<le> b)"
| "num_le x NumNaN = True"
| "num_le NumNaN (Num b) = False"

instantiation numeric :: linorder
begin

definition less_eq_numeric :: "numeric \<Rightarrow> numeric \<Rightarrow> bool" where
  "x \<le> y \<longleftrightarrow> num_le x y"

definition less_numeric :: "numeric \<Rightarrow> numeric \<Rightarrow> bool" where
  "x < y \<longleftrightarrow> num_le x y \<and> x \<noteq> y"

instance
proof
  fix x y z :: numeric
  show "x < y \<longleftrightarrow> x \<le> y \<and> \<not> y \<le> x"
    by (cases x; cases y) (auto simp: less_eq_numeric_def less_numeric_def)
  show "x \<le> x" by (cases x) (auto simp: less_eq_numeric_def)
  show "x \<le> z" if "x \<le> y" "y \<le> z" using that
    by (cases x; cases y; cases z) (auto simp: less_eq_numeric_def)
  show "x = y" if "x \<le> y" "y \<le> x" using that
    by (cases x; cases y) (auto simp: less_eq_numeric_def)
  show "x \<le> y \<or> y \<le> x" by (cases x; cases y) (auto simp: less_eq_numeric_def)
qed

end

lemma numeric_less_simps [simp]:
  "Num a \<le> Num b \<longleftrightarrow> a \<le> b" "x \<le> NumNaN" "\<not> NumNaN \<le> Num b"
  "Num a < Num b \<longleftrightarrow> a < b" "Num a < NumNaN" "\<not> NumNaN < x"
  by (auto simp: less_eq_numeric_def less_numeric_def) (cases x; simp)+

text \<open>Arithmetic, and the cast to NUMERIC(p, s): rounded half away from zero, 22003 out of range.\<close>

fun num_add :: "numeric \<Rightarrow> numeric \<Rightarrow> numeric" where
  "num_add (Num a) (Num b) = Num (a + b)"
| "num_add x y = NumNaN"

fun num_mul :: "numeric \<Rightarrow> numeric \<Rightarrow> numeric" where
  "num_mul (Num a) (Num b) = Num (a * b)"
| "num_mul x y = NumNaN"

definition round_away :: "rat \<Rightarrow> int" where
  "round_away a = (if a < 0 then - \<lfloor>1 / 2 - a\<rfloor> else \<lfloor>a + 1 / 2\<rfloor>)"

fun num_cast :: "nat \<Rightarrow> nat \<Rightarrow> numeric \<Rightarrow> goerr + numeric" where
  "num_cast p s NumNaN = Inr NumNaN"
| "num_cast p s (Num a) =
     (let k = round_away (a * 10 ^ s) in
      if \<bar>k\<bar> < 10 ^ p then Inr (Num (of_int k / 10 ^ s)) else Inl (PgError ''22003''))"

lemma round_away_int [simp]: "round_away (of_int k) = k"
proof -
  have "\<lfloor>(of_int k :: rat) + 1 / 2\<rfloor> = k" for k by (simp add: floor_eq_iff)
  from this [of k] this [of "- k"] show ?thesis by (simp add: round_away_def)
qed

lemma num_cast_int: "\<bar>k\<bar> * 10 ^ s < 10 ^ p \<Longrightarrow> num_cast p s (Num (of_int k)) = Inr (Num (of_int k))"
proof -
  have "round_away (of_int k * 10 ^ s) = k * 10 ^ s"
    by (metis of_int_mult of_int_numeral of_int_power round_away_int)
  moreover have "\<bar>k * 10 ^ s\<bar> = \<bar>k\<bar> * 10 ^ s" by (simp add: abs_mult)
  ultimately show "\<bar>k\<bar> * 10 ^ s < 10 ^ p \<Longrightarrow> ?thesis" by (simp add: Let_def)
qed

text \<open>
  The driver writes a float64 into a NUMERIC(p, s) column rounded to s digits, or fails (22003 when
  the value has too many digits or is infinite), and reads a NUMERIC as the nearest float64. Both
  directions are parameters.
\<close>

record num_codec =
  to_numeric :: "nat \<Rightarrow> nat \<Rightarrow> float64 \<Rightarrow> goerr + numeric"
  of_numeric :: "numeric \<Rightarrow> float64"

definition to_numeric_opt :: "num_codec \<Rightarrow> nat \<Rightarrow> nat \<Rightarrow> float64 option \<Rightarrow> goerr + numeric option" where
  "to_numeric_opt c p s x = (case x of None \<Rightarrow> Inr None | Some v \<Rightarrow>
     (case to_numeric c p s v of Inl e \<Rightarrow> Inl e | Inr n \<Rightarrow> Inr (Some n)))"

record score_row =
  so_id :: uuid
  so_evaluation_item_id :: string
  so_evidence_id :: "uuid option"
  so_level :: string
  so_score_value :: "numeric option"
  so_weight :: "numeric option"
  so_grade :: "string option"
  so_status :: string
  so_metadata :: "metadata option"
  so_created_at :: time
  so_created_by :: string
  so_updated_at :: time

record threshold_row =
  gt_scope :: string
  gt_letter :: string
  gt_min_value :: numeric
  gt_boundary_rule :: string

record rubric_row =
  ub_id :: uuid
  ub_name :: string
  ub_version :: int
  ub_scope :: "string option"
  ub_status :: string
  ub_archive_reason :: "string option"
  ub_metadata :: "metadata option"
  ub_created_at :: time
  ub_created_by :: string
  ub_updated_at :: time
  ub_updated_by :: "string option"

record criterion_row =
  cr_id :: uuid
  cr_rubric_id :: uuid
  cr_evaluation_item_id :: uuid
  cr_weight :: numeric
  cr_created_at :: time

record band_row =
  bd_id :: uuid
  bd_rubric_id :: uuid
  bd_letter :: string
  bd_min_score :: numeric
  bd_max_score :: numeric
  bd_created_at :: time

record eval_item_row =
  ei_id :: string
  ei_parent_id :: "string option"
  ei_display_name :: string
  ei_description :: "string option"
  ei_level :: "int option"
  ei_hierarchy_code :: string
  ei_weight :: "numeric option"
  ei_max_score :: "int option"
  ei_status :: string
  ei_metadata :: "metadata option"
  ei_created_at :: time
  ei_created_by :: string
  ei_updated_at :: time

record evidence_row =
  ew_id :: uuid
  ew_evaluation_item_id :: string
  ew_version :: int
  ew_previous_version_id :: "uuid option"
  ew_file_name :: string
  ew_file_size_bytes :: "int option"
  ew_file_hash_sha256 :: "string option"
  ew_content_type :: "string option"
  ew_file_content :: "bytes option"
  ew_storage_location :: "string option"
  ew_storage_strategy :: string
  ew_status :: string
  ew_metadata :: "json_map option"
  ew_created_at :: time
  ew_created_by :: string
  ew_updated_at :: time

record db =
  db_documents :: "uuid list"
  db_reports :: "uuid list"
  db_workflows :: "workflow_row list"
  db_audit_logs :: "audit_row list"
  db_scores :: "score_row list"
  db_thresholds :: "threshold_row list"
  db_reviews :: "review_row list"
  db_rubrics :: "rubric_row list"
  db_criteria :: "criterion_row list"
  db_bands :: "band_row list"
  db_eval_items :: "eval_item_row list"
  db_evidences :: "evidence_row list"
  db_jsonb :: "bytes \<Rightarrow> goerr + bytes"

definition empty_db :: db where
  "empty_db = \<lparr>db_documents = [], db_reports = [], db_workflows = [], db_audit_logs = [],
     db_scores = [], db_thresholds = [], db_reviews = [], db_rubrics = [], db_criteria = [], db_bands = [],
     db_eval_items = [], db_evidences = [], db_jsonb = Inr\<rparr>"

text \<open>VARCHAR(n): a longer value is error 22001. The texts counted here are ASCII.\<close>

definition varchar :: "nat \<Rightarrow> string \<Rightarrow> bool" where
  "varchar n s \<longleftrightarrow> length s \<le> n"

text \<open>
  A text that is sent, for a column or to be compared with one, has to be UTF-8 (RFC 3629) without
  NUL bytes; any other text is error 22021.
\<close>

definition utf8_tail :: "nat \<Rightarrow> bool" where
  "utf8_tail n \<longleftrightarrow> 128 \<le> n \<and> n < 192"

fun utf8_ok :: "nat list \<Rightarrow> bool" where
  "utf8_ok [] = True"
| "utf8_ok (a # r) =
     (if a < 128 then a \<noteq> 0 \<and> utf8_ok r
      else if a < 194 \<or> 244 < a then False
      else if a < 224 then (case r of b # r1 \<Rightarrow> utf8_tail b \<and> utf8_ok r1 | _ \<Rightarrow> False)
      else if a < 240 then (case r of b # c # r1 \<Rightarrow> utf8_tail b \<and> utf8_tail c \<and>
        (a = 224 \<longrightarrow> 160 \<le> b) \<and> (a = 237 \<longrightarrow> b < 160) \<and> utf8_ok r1 | _ \<Rightarrow> False)
      else (case r of b # c # d # r1 \<Rightarrow> utf8_tail b \<and> utf8_tail c \<and> utf8_tail d \<and>
        (a = 240 \<longrightarrow> 144 \<le> b) \<and> (a = 244 \<longrightarrow> b < 144) \<and> utf8_ok r1 | _ \<Rightarrow> False))"

definition text_ok :: "string \<Rightarrow> bool" where
  "text_ok s \<longleftrightarrow> utf8_ok (map of_char s)"

lemma text_ok_simps [simp]:
  "text_ok []"
  "(of_char c :: nat) < 128 \<Longrightarrow> text_ok (c # s) \<longleftrightarrow> (of_char c :: nat) \<noteq> 0 \<and> text_ok s"
  by (simp_all add: text_ok_def)

lemma text_ok_ascii: "\<forall>c\<in>set s. 0 < (of_char c :: nat) \<and> (of_char c :: nat) < 128 \<Longrightarrow> text_ok s"
  by (induction s) simp_all

text \<open>
  An instant counts nanoseconds in the process. The driver sends it for a TIMESTAMPTZ column or
  parameter cut to microseconds, which is also what the column keeps.
\<close>

definition micros :: "time \<Rightarrow> time" where
  "micros t = t - t mod 1000"

lemma micros_micros [simp]: "micros (micros t) = micros t"
  by (simp add: micros_def)

lemma micros_le_iff: "micros a \<le> micros t \<longleftrightarrow> micros a \<le> t"
proof -
  have m: "micros x = 1000 * (x div 1000)" for x by (simp add: micros_def minus_mod_eq_mult_div)
  have "t = 1000 * (t div 1000) + t mod 1000" "0 \<le> t mod 1000" "t mod 1000 < 1000" by simp_all
  then have "1000 * q \<le> t \<Longrightarrow> q \<le> t div 1000" "q \<le> t div 1000 \<Longrightarrow> 1000 * q \<le> t" for q by linarith+
  then show ?thesis unfolding m by auto
qed

text \<open>What a nullable JSONB column keeps of what is written into it.\<close>

definition jsonb_opt :: "db \<Rightarrow> bytes option \<Rightarrow> goerr + bytes option" where
  "jsonb_opt d x = (case x of None \<Rightarrow> Inr None | Some b \<Rightarrow>
     (case db_jsonb d b of Inl e \<Rightarrow> Inl e | Inr kept \<Rightarrow> Inr (Some kept)))"

lemma jsonb_opt_None [simp]: "jsonb_opt d None = Inr None"
  by (simp add: jsonb_opt_def)

text \<open>
  The driver encodes an int for an INT column before it sends the statement: outside 32 bits it
  fails, and the transaction goes on.
\<close>

definition encode_int4 :: "int \<Rightarrow> goerr + unit" where
  "encode_int4 n =
     (if - (2 ^ 31) \<le> n \<and> n < 2 ^ 31 then Inr () else Inl (LibError ''value out of range for int4''))"

definition encode_int4_opt :: "int option \<Rightarrow> goerr + unit" where
  "encode_int4_opt x = (case x of None \<Rightarrow> Inr () | Some n \<Rightarrow> encode_int4 n)"

section \<open>Connections and transactions\<close>

record pg_world = env +
  pg_committed :: db

record pg_tx =
  ptx_work :: db
  ptx_now :: time
  ptx_aborted :: bool
  ptx_closed :: bool

type_synonym pg_state = "pg_tx \<times> pg_world"

definition pool_BeginTx :: "(pg_world, pg_tx) eff" where
  "pool_BeginTx w =
     (case read_fault w of
        (Some msg, w1) \<Rightarrow> (Inl (LibError msg), w1)
      | (None, w1) \<Rightarrow> (case read_clock w1 of (ts, w2) \<Rightarrow>
          (Inr \<lparr>ptx_work = pg_committed w2, ptx_now = ts, ptx_aborted = False, ptx_closed = False\<rparr>, w2)))"

text \<open>A statement reads the instant of the transaction, a generated UUID and the tables.\<close>

type_synonym 'a statement = "time \<Rightarrow> uuid \<Rightarrow> db \<Rightarrow> goerr + ('a \<times> db)"

definition pg_run :: "'a statement \<Rightarrow> (pg_state, 'a) eff" where
  "pg_run stmt = (\<lambda>(t, w).
     if ptx_closed t then (Inl (Sentinel pgx_ErrTxClosed), (t, w))
     else case read_fault w of
       (Some msg, w1) \<Rightarrow> (Inl (LibError msg), (t\<lparr>ptx_aborted := True\<rparr>, w1))
     | (None, w1) \<Rightarrow> (case read_id w1 of (u, w2) \<Rightarrow>
         if ptx_aborted t then (Inl (PgError ''25P02''), (t, w2))
         else case stmt (ptx_now t) u (ptx_work t) of
           Inl e \<Rightarrow> (Inl e, (t\<lparr>ptx_aborted := True\<rparr>, w2))
         | Inr (a, d) \<Rightarrow> (Inr a, (t\<lparr>ptx_work := d\<rparr>, w2))))"

definition pg_query :: "(db \<Rightarrow> 'a) \<Rightarrow> (pg_state, 'a) eff" where
  "pg_query f = pg_run (\<lambda>now u d. Inr (f d, d))"

text \<open>A query with texts as parameters.\<close>

definition pg_query_texts :: "string list \<Rightarrow> (db \<Rightarrow> 'a) \<Rightarrow> (pg_state, 'a) eff" where
  "pg_query_texts ts f = pg_run (\<lambda>now u d. if list_all text_ok ts then Inr (f d, d) else Inl (PgError ''22021''))"

text \<open>QueryRow(...).Scan: no row is pgx.ErrNoRows, which does not abort the transaction.\<close>

definition pg_query_row :: "(db \<Rightarrow> 'a option) \<Rightarrow> (pg_state, 'a) eff" where
  "pg_query_row f = call (pg_query f) (\<lambda>r. case r of
     None \<Rightarrow> throw (Sentinel pgx_ErrNoRows) | Some a \<Rightarrow> retn a)"

definition pg_commit :: "(pg_state, unit) eff" where
  "pg_commit = (\<lambda>(t, w).
     if ptx_closed t then (Inl (Sentinel pgx_ErrTxClosed), (t, w))
     else case read_fault w of
       (Some msg, w1) \<Rightarrow> (Inl (LibError msg), (t\<lparr>ptx_closed := True\<rparr>, w1))
     | (None, w1) \<Rightarrow>
         if ptx_aborted t then (Inl (Sentinel pgx_ErrTxCommitRollback), (t\<lparr>ptx_closed := True\<rparr>, w1))
         else (Inr (), (t\<lparr>ptx_closed := True\<rparr>, w1\<lparr>pg_committed := ptx_work t\<rparr>)))"

definition pg_rollback :: "(pg_state, unit) eff" where
  "pg_rollback = (\<lambda>(t, w).
     if ptx_closed t then (Inl (Sentinel pgx_ErrTxClosed), (t, w))
     else case read_fault w of
       (Some msg, w1) \<Rightarrow> (Inl (LibError msg), (t\<lparr>ptx_closed := True\<rparr>, w1))
     | (None, w1) \<Rightarrow> (Inr (), (t\<lparr>ptx_closed := True\<rparr>, w1)))"

text \<open>uuid.New() and time.Now() inside the process.\<close>

definition uuid_New :: "(pg_state, uuid) eff" where
  "uuid_New = always (\<lambda>(t, w). case read_id w of (u, w') \<Rightarrow> (u, (t, w')))"

definition pg_runtime ::
  "(string \<Rightarrow> uuid option) \<Rightarrow> (uuid \<Rightarrow> string) \<Rightarrow> (uuid \<Rightarrow> string \<Rightarrow> uuid) \<Rightarrow> pg_state runtime" where
  "pg_runtime parse toString sha1 =
     \<lparr>time_Now = (\<lambda>(t, w). case read_clock w of (ts, w') \<Rightarrow> (ts, (t, w'))),
      uuid_Parse = parse, uuid_String = toString, uuid_NewSHA1 = sha1\<rparr>"

text \<open>ORDER BY created_at DESC LIMIT n OFFSET m; a negative number is a server error.\<close>

definition limit_offset :: "int \<Rightarrow> int \<Rightarrow> 'a list \<Rightarrow> goerr + 'a list" where
  "limit_offset limit offset xs =
     (if limit < 0 then Inl (PgError ''2201W'')
      else if offset < 0 then Inl (PgError ''2201X'')
      else Inr (take (nat limit) (drop (nat offset) xs)))"

text \<open>The statement of the three InsertAuditLog methods.\<close>

definition insert_audit_stmt :: "uuid \<Rightarrow> audit_event \<Rightarrow> unit statement" where
  "insert_audit_stmt i e = (\<lambda>now u d.
     if \<not> varchar 64 (ev_Action e) \<or> \<not> varchar 32 (ev_ResourceType e) \<or> \<not> varchar 64 (ev_UserID e)
     then Inl (PgError ''22001'')
     else if \<not> text_ok (ev_Action e) \<or> \<not> text_ok (ev_ResourceType e) \<or> \<not> text_ok (ev_UserID e)
     then Inl (PgError ''22021'')
     else if i \<in> ar_id ` set (db_audit_logs d) then Inl (PgError ''23505'')
     else Inr ((), d\<lparr>db_audit_logs := db_audit_logs d @
       [\<lparr>ar_id = i, ar_action = ev_Action e, ar_resource_type = ev_ResourceType e,
         ar_resource_id = ev_ResourceID e, ar_user_id = ev_UserID e, ar_details = ev_Details e,
         ar_timestamp = micros (ev_Timestamp e)\<rparr>]\<rparr>))"

definition audit_row_event :: "audit_row \<Rightarrow> audit_event" where
  "audit_row_event r = \<lparr>ev_Timestamp = ar_timestamp r, ev_Action = ar_action r,
     ev_ResourceType = ar_resource_type r, ev_UserID = ar_user_id r, ev_Details = ar_details r,
     ev_ResourceID = ar_resource_id r\<rparr>"

definition pg_logs :: "db \<Rightarrow> audit_event list" where
  "pg_logs d = map audit_row_event (db_audit_logs d)"

text \<open>The two texts of a failure with and without a server error (pgScoreErrorOf and its twins).\<close>

definition sql_failed :: "string \<Rightarrow> goerr \<Rightarrow> goerr" where
  "sql_failed msg e =
     (case errors_As_Pg e of
        Some code \<Rightarrow> wrap1 (msg @ '' (SQLSTATE '' @ code @ '')'') e
      | None \<Rightarrow> wrap1 msg e)"

section \<open>Facts about statements\<close>

text \<open>What a statement that succeeds does, and that none of them publishes anything.\<close>

definition published :: "pg_state \<Rightarrow> db" where
  "published s = pg_committed (snd s)"

lemma pg_run_Inr_iff:
  "pg_run stmt s = (Inr a, s') \<longleftrightarrow>
     (\<exists>t w u d. s = (t, w) \<and> \<not> ptx_closed t \<and> \<not> ptx_aborted t \<and>
        env_faults w (env_pos w) = None \<and> u = env_ids w (Suc (env_pos w)) \<and>
        stmt (ptx_now t) u (ptx_work t) = Inr (a, d) \<and>
        s' = (t\<lparr>ptx_work := d\<rparr>, w\<lparr>env_pos := Suc (Suc (env_pos w))\<rparr>))"
  by (cases s)
    (auto simp: pg_run_def read_fault_def read_id_def split: option.splits sum.splits)

lemma pg_run_keeps [eff_intros]: "keeps published (pg_run stmt)"
  by (auto simp: keeps_def published_def pg_run_def read_fault_def read_id_def
      split: option.splits sum.splits)

lemma pg_query_keeps [eff_intros]: "keeps published (pg_query f)"
  unfolding pg_query_def by (rule eff_intros)

lemma pg_query_texts_keeps [eff_intros]: "keeps published (pg_query_texts ts f)"
  unfolding pg_query_texts_def by (rule eff_intros)

lemma pg_query_row_keeps [eff_intros]: "keeps published (pg_query_row f)"
  unfolding pg_query_row_def by (intro eff_intros)

lemma uuid_New_keeps [eff_intros]: "keeps published uuid_New"
  unfolding uuid_New_def by (rule keeps_always) (auto simp: published_def read_id_def)

lemma pg_rollback_keeps [eff_intros]: "keeps published pg_rollback"
  by (auto simp: keeps_def published_def pg_rollback_def read_fault_def split: option.splits)

lemma pg_commit_keeps_err: "keeps_err published pg_commit"
  by (auto simp: keeps_err_def published_def pg_commit_def read_fault_def
      split: option.splits if_splits)

lemma pg_commit_Inr_iff:
  "pg_commit s = (Inr u, s') \<longleftrightarrow>
     (\<exists>t w. s = (t, w) \<and> \<not> ptx_closed t \<and> \<not> ptx_aborted t \<and> env_faults w (env_pos w) = None \<and>
        s' = (t\<lparr>ptx_closed := True\<rparr>, w\<lparr>env_pos := Suc (env_pos w), pg_committed := ptx_work t\<rparr>))"
  by (cases s) (auto simp: pg_commit_def read_fault_def split: option.splits)

lemma pool_BeginTx_keeps: "keeps pg_committed pool_BeginTx"
  by (auto simp: keeps_def pool_BeginTx_def read_fault_def read_clock_def split: option.splits)

lemma pool_BeginTx_Inr_iff:
  "pool_BeginTx w = (Inr t, w') \<longleftrightarrow> env_faults w (env_pos w) = None \<and>
     t = \<lparr>ptx_work = pg_committed w, ptx_now = env_clock w (Suc (env_pos w)),
          ptx_aborted = False, ptx_closed = False\<rparr> \<and>
     w' = w\<lparr>env_pos := Suc (Suc (env_pos w))\<rparr>"
  by (auto simp: pool_BeginTx_def read_fault_def read_clock_def split: option.splits)

text \<open>Runs without faults: the statements as equations.\<close>

lemma pg_run_ok:
  assumes "no_faults w" "\<not> ptx_closed t" "\<not> ptx_aborted t"
  shows "pg_run stmt (t, w) =
    (case stmt (ptx_now t) (env_ids w (Suc (env_pos w))) (ptx_work t) of
       Inl e \<Rightarrow> (Inl e, (t\<lparr>ptx_aborted := True\<rparr>, w\<lparr>env_pos := Suc (Suc (env_pos w))\<rparr>))
     | Inr (a, d) \<Rightarrow> (Inr a, (t\<lparr>ptx_work := d\<rparr>, w\<lparr>env_pos := Suc (Suc (env_pos w))\<rparr>)))"
  using assms by (simp add: pg_run_def read_fault_def read_id_def no_faults_def)

lemma pg_logs_append [simp]:
  "pg_logs (d\<lparr>db_audit_logs := db_audit_logs d @ [r]\<rparr>) = pg_logs d @ [audit_row_event r]"
  by (simp add: pg_logs_def)

section \<open>The audit insertion of the stores\<close>

lemma uuid_New_iff:
  "uuid_New s = (r, s') \<longleftrightarrow> r = Inr (env_ids (snd s) (env_pos (snd s))) \<and>
     s' = (fst s, (snd s)\<lparr>env_pos := Suc (env_pos (snd s))\<rparr>)"
  by (cases s) (auto simp: uuid_New_def always_def read_id_def)

text \<open>The body that the InsertAuditLog methods share, with the text of each method's error.\<close>

definition insert_audit :: "string \<Rightarrow> audit_event \<Rightarrow> (pg_state, unit) eff" where
  "insert_audit msg e =
     call uuid_New (\<lambda>i. callw (pg_run (insert_audit_stmt i e)) (wrap1 msg) (\<lambda>_. retn ()))"

lemma insert_audit_keeps [eff_intros]: "keeps published (insert_audit msg e)"
  unfolding insert_audit_def by (intro eff_intros)

text \<open>When it succeeds the pending tables differ by one audit row, which holds the event.\<close>

lemma insert_audit_ok:
  assumes "insert_audit msg e s = (Inr u, s')"
  obtains i where "fst s' = (fst s)\<lparr>ptx_work := (ptx_work (fst s))\<lparr>db_audit_logs :=
      db_audit_logs (ptx_work (fst s)) @ [\<lparr>ar_id = i, ar_action = ev_Action e,
        ar_resource_type = ev_ResourceType e, ar_resource_id = ev_ResourceID e,
        ar_user_id = ev_UserID e, ar_details = ev_Details e,
        ar_timestamp = micros (ev_Timestamp e)\<rparr>]\<rparr>\<rparr>"
    and "\<not> ptx_closed (fst s)" "\<not> ptx_aborted (fst s)"
    and "varchar 64 (ev_Action e)" "varchar 32 (ev_ResourceType e)" "varchar 64 (ev_UserID e)"
  using assms
  by (auto simp: insert_audit_def eff_simps uuid_New_iff pg_run_Inr_iff insert_audit_stmt_def
      split: if_splits)

text \<open>When it fails they are as before.\<close>

lemma insert_audit_err:
  assumes "insert_audit msg e s = (Inl er, s')"
  shows "ptx_work (fst s') = ptx_work (fst s)" "ptx_closed (fst s') = ptx_closed (fst s)"
  using assms
  by (auto simp: insert_audit_def eff_simps uuid_New_iff pg_run_def read_fault_def read_id_def
      split: option.splits sum.splits if_splits prod.splits)

section \<open>One event in the pending tables\<close>

text \<open>
  \<^verbatim>\<open>adds_event a ty r u det d d'\<close>: d' is d with one more audit row, whose action, resource,
  user and details are these.
\<close>

definition adds_event ::
  "action \<Rightarrow> string \<Rightarrow> uuid \<Rightarrow> string \<Rightarrow> json_map option \<Rightarrow> db \<Rightarrow> db \<Rightarrow> bool" where
  "adds_event a ty r u det d d' \<longleftrightarrow> (\<exists>i ts. d' = d\<lparr>db_audit_logs := db_audit_logs d @
     [\<lparr>ar_id = i, ar_action = a, ar_resource_type = ty, ar_resource_id = r, ar_user_id = u,
       ar_details = det, ar_timestamp = ts\<rparr>]\<rparr>)"

lemma adds_event_logs:
  "adds_event a ty r u det d d' \<Longrightarrow> \<exists>e. pg_logs d' = pg_logs d @ [e] \<and> ev_Action e = a \<and>
     ev_ResourceType e = ty \<and> ev_ResourceID e = r \<and> ev_UserID e = u \<and> ev_Details e = det"
  by (auto simp: adds_event_def pg_logs_def audit_row_event_def)

lemma adds_event_tables [simp]:
  assumes "adds_event a ty r u det d d'"
  shows "db_reviews d' = db_reviews d" "db_rubrics d' = db_rubrics d" "db_criteria d' = db_criteria d"
    "db_bands d' = db_bands d" "db_workflows d' = db_workflows d" "db_scores d' = db_scores d"
    "db_thresholds d' = db_thresholds d" "db_eval_items d' = db_eval_items d" "db_evidences d' = db_evidences d"
  using assms by (auto simp: adds_event_def)

lemma pg_now_step:
  "time_Now (pg_runtime parse toString sha1) (t, w) =
     (env_clock w (env_pos w), (t, w\<lparr>env_pos := Suc (env_pos w)\<rparr>))"
  by (simp add: pg_runtime_def read_clock_def)

lemma nowUTC_pg [simp]: "nowUTC rt (NewRecorder rt b []) = time_Now rt"
  by (simp add: nowUTC_def)

lemma pg_event_ok:
  assumes "insert_event (time_Now (pg_runtime parse toString sha1)) (insert_audit msg) a ty r u det s = (Inr v, s')"
  shows "adds_event a ty r u det (ptx_work (fst s)) (ptx_work (fst s'))"
    and "fst s' = (fst s)\<lparr>ptx_work := ptx_work (fst s')\<rparr>"
    and "\<not> ptx_closed (fst s)" "\<not> ptx_aborted (fst s)" "length u \<le> 64"
proof -
  obtain t w where s: "s = (t, w)" by fastforce
  from assms obtain ts s1 where
    ins: "insert_audit msg \<lparr>ev_Timestamp = ts, ev_Action = a, ev_ResourceType = ty, ev_UserID = u,
       ev_Details = det, ev_ResourceID = r\<rparr> s1 = (Inr v, s')" and t: "fst s1 = t"
    by (auto simp: insert_event_def eff_simps s pg_now_step)
  obtain i where i: "fst s' = t\<lparr>ptx_work := (ptx_work t)\<lparr>db_audit_logs :=
      db_audit_logs (ptx_work t) @ [\<lparr>ar_id = i, ar_action = a, ar_resource_type = ty,
        ar_resource_id = r, ar_user_id = u, ar_details = det, ar_timestamp = micros ts\<rparr>]\<rparr>\<rparr>"
    and live: "\<not> ptx_closed t" "\<not> ptx_aborted t" and len: "length u \<le> 64"
    by (rule insert_audit_ok [OF ins]) (simp add: t varchar_def)
  show "adds_event a ty r u det (ptx_work (fst s)) (ptx_work (fst s'))"
    unfolding adds_event_def by (rule exI [of _ i], rule exI [of _ "micros ts"]) (simp add: s i)
  show "fst s' = (fst s)\<lparr>ptx_work := ptx_work (fst s')\<rparr>" by (simp add: s i)
  show "\<not> ptx_closed (fst s)" "\<not> ptx_aborted (fst s)" "length u \<le> 64"
    using live len by (simp_all add: s)
qed

lemma pg_event_keeps_published [eff_intros]:
  "keeps published (insert_event (time_Now (pg_runtime parse toString sha1)) (insert_audit msg) a ty r u d)"
  by (intro keeps_insert_event insert_audit_keeps) (auto simp: pg_runtime_def published_def read_clock_def)

lemma pg_query_row_Inr_iff:
  "pg_query_row f s = (Inr a, s') \<longleftrightarrow>
     (\<exists>t w. s = (t, w) \<and> \<not> ptx_closed t \<and> \<not> ptx_aborted t \<and> env_faults w (env_pos w) = None \<and>
        f (ptx_work t) = Some a \<and> s' = (t, w\<lparr>env_pos := Suc (Suc (env_pos w))\<rparr>))"
  by (auto simp: pg_query_row_def pg_query_def eff_simps pg_run_Inr_iff split: option.splits)

lemma pg_run_work:
  "pg_run stmt s = (Inr a, s') \<Longrightarrow>
   stmt (ptx_now (fst s)) (env_ids (snd s) (Suc (env_pos (snd s)))) (ptx_work (fst s)) = Inr (a, ptx_work (fst s'))"
  by (auto simp: pg_run_Inr_iff)

section \<open>Several events of one user\<close>

definition adds_user_events :: "nat \<Rightarrow> string \<Rightarrow> db \<Rightarrow> db \<Rightarrow> bool" where
  "adds_user_events n u d d' \<longleftrightarrow>
     (\<exists>es. pg_logs d' = pg_logs d @ es \<and> length es = n \<and> (\<forall>e\<in>set es. ev_UserID e = u))"

lemma adds_user_events_refl [simp]: "adds_user_events 0 u d d"
  by (simp add: adds_user_events_def)

lemma adds_user_events_one: "adds_event a ty i u det d d' \<Longrightarrow> adds_user_events 1 u d d'"
  using adds_event_logs [of a ty i u det d d'] by (auto simp: adds_user_events_def)

lemma adds_user_events_add:
  "adds_user_events m u d d1 \<Longrightarrow> pg_logs d2 = pg_logs d1 \<Longrightarrow> adds_user_events n u d2 d' \<Longrightarrow>
   adds_user_events (m + n) u d d'"
  unfolding adds_user_events_def by (elim exE conjE) (rule_tac x = "es @ esa" in exI, auto)

lemma adds_user_events_from: "adds_user_events n u d1 d' \<Longrightarrow> pg_logs d1 = pg_logs d \<Longrightarrow> adds_user_events n u d d'"
  by (simp add: adds_user_events_def)

text \<open>The definitions that a run on concrete surroundings unfolds.\<close>

lemmas pg_statements =
  callw_def call_def retn_def throw_def lift_def pg_query_row_def pg_query_def pg_query_texts_def pg_run_def
  read_fault_def read_id_def read_clock_def no_faults_def insert_event_def always_def insert_audit_def
  uuid_New_def insert_audit_stmt_def pg_runtime_def

end
