(* ===== verification/Handler_Frame.thy ===== *)
theory Handler_Frame
  imports Http Database "HOL-Library.Word"
begin

text \<open>
  The frame that the REST handlers of cmd/server share: a call whose error becomes an answer, the
  deferred Rollback, the shape of a mutation (begin, change, read back, commit), the numbers in
  query parameters, and the contract between a handler and the transactions it opens.
\<close>

section \<open>Handlers that open transactions\<close>

text \<open>
  A part of a handler gives an answer and says whether the transaction was committed before it
  (the variable committed of the code, which the deferred Rollback reads).
\<close>

type_synonym 's stage = "'s \<Rightarrow> (bool \<times> response) \<times> 's"

definition refuse :: "response \<Rightarrow> 's stage" where
  "refuse resp s = ((False, resp), s)"

definition answer :: "response \<Rightarrow> 's stage" where
  "answer resp s = ((True, resp), s)"

text \<open>\<^verbatim>\<open>a, err := m(); if err != nil { write(f(err)); return }\<close> and go on with k.\<close>

definition attempt :: "('s, 'a) eff \<Rightarrow> (goerr \<Rightarrow> response) \<Rightarrow> ('a \<Rightarrow> 's stage) \<Rightarrow> 's stage" where
  "attempt m f k s = (case m s of (Inl e, s') \<Rightarrow> refuse (f e) s' | (Inr a, s') \<Rightarrow> k a s')"

text \<open>Begin with the answer to its error, the stage, and the Rollback unless it was committed.\<close>

definition with_handle ::
  "('w, 't) eff \<Rightarrow> (goerr \<Rightarrow> response) \<Rightarrow> ('t \<times> 'w, unit) eff \<Rightarrow> ('t \<times> 'w) stage \<Rightarrow> 'w \<Rightarrow> response \<times> 'w" where
  "with_handle begin_tx f rollback stage w =
     (case begin_tx w of
        (Inl e, w') \<Rightarrow> (f e, w')
      | (Inr t, w') \<Rightarrow> (case stage (t, w') of ((committed, resp), s) \<Rightarrow>
          (resp, if committed then snd s else snd (snd (rollback s)))))"

text \<open>The same with a Rollback that is deferred in any case; and a call whose error is not looked at.\<close>

definition with_defer ::
  "('w, 't) eff \<Rightarrow> (goerr \<Rightarrow> response) \<Rightarrow> ('t \<times> 'w, unit) eff \<Rightarrow> ('t \<times> 'w) stage \<Rightarrow> 'w \<Rightarrow> response \<times> 'w" where
  "with_defer begin_tx f rollback stage w =
     (case begin_tx w of
        (Inl e, w') \<Rightarrow> (f e, w')
      | (Inr t, w') \<Rightarrow> (case stage (t, w') of ((committed, resp), s) \<Rightarrow> (resp, snd (snd (rollback s)))))"

definition ignoring :: "('s, 'a) eff \<Rightarrow> 's stage \<Rightarrow> 's stage" where
  "ignoring m k s = k (snd (m s))"

text \<open>A handler that runs while the transaction of an outer one is open.\<close>

definition inside :: "('w \<Rightarrow> response \<times> 'w) \<Rightarrow> ('t \<times> 'w) stage" where
  "inside h = (\<lambda>(t, w). case h w of (resp, w') \<Rightarrow> ((False, resp), (t, w')))"

text \<open>The mutation: change, read back, commit, answer.\<close>

definition mutate ::
  "('w, 't) eff \<Rightarrow> (goerr \<Rightarrow> response) \<Rightarrow> ('t \<times> 'w, unit) eff \<Rightarrow> ('t \<times> 'w, unit) eff \<Rightarrow> (goerr \<Rightarrow> response) \<Rightarrow>
   ('t \<times> 'w, 'a) eff \<Rightarrow> (goerr \<Rightarrow> response) \<Rightarrow> ('a \<Rightarrow> ('t \<times> 'w, 'b) eff) \<Rightarrow> (goerr \<Rightarrow> response) \<Rightarrow>
   ('a \<Rightarrow> 'b \<Rightarrow> response) \<Rightarrow> 'w \<Rightarrow> response \<times> 'w" where
  "mutate begin_tx fb rollback commit fc change fe reread fr ok =
     with_handle begin_tx fb rollback
       (attempt change fe (\<lambda>a. attempt (reread a) fr (\<lambda>b. attempt commit fc (\<lambda>_. answer (ok a b)))))"

section \<open>Stages in general\<close>

text \<open>
  \<^verbatim>\<open>safe_stage public stage\<close>: a stage that did not commit left the public part as it was;
  \<^verbatim>\<open>answers P stage\<close>: what it then answers has P.
\<close>

definition safe_stage :: "('w \<Rightarrow> 'd) \<Rightarrow> ('t \<times> 'w) stage \<Rightarrow> bool" where
  "safe_stage public stage \<longleftrightarrow>
     (\<forall>s r s'. stage s = ((False, r), s') \<longrightarrow> public (snd s') = public (snd s))"

definition answers :: "(response \<Rightarrow> bool) \<Rightarrow> 's stage \<Rightarrow> bool" where
  "answers P stage \<longleftrightarrow> (\<forall>s r s'. stage s = ((False, r), s') \<longrightarrow> P r)"

named_theorems stage_intros "rules for safe_stage and answers"

lemma safe_stageD: "safe_stage public stage \<Longrightarrow> stage s = ((False, r), s') \<Longrightarrow> public (snd s') = public (snd s)"
  unfolding safe_stage_def by blast

lemma safe_refuse [stage_intros]: "safe_stage public (refuse r)"
  by (simp add: safe_stage_def refuse_def)

lemma safe_attempt [stage_intros]:
  assumes "keeps (\<lambda>s. public (snd s)) m" and "\<And>a. safe_stage public (k a)"
  shows "safe_stage public (attempt m f k)"
  unfolding safe_stage_def
proof (intro allI impI)
  fix s r s' assume run: "attempt m f k s = ((False, r), s')"
  obtain q s1 where m: "m s = (q, s1)" by (cases "m s")
  have "public (snd s1) = public (snd s)" using keepsD [OF assms(1) m] .
  then show "public (snd s') = public (snd s)"
    using run m safe_stageD [OF assms(2)] by (cases q) (auto simp: attempt_def refuse_def)
qed

lemma answers_refuse [stage_intros]: "P r \<Longrightarrow> answers P (refuse r)"
  by (simp add: answers_def refuse_def)

lemma answers_answer [stage_intros]: "answers P (answer r)"
  by (simp add: answers_def answer_def)

lemma answers_attempt [stage_intros]:
  "(\<And>e. P (f e)) \<Longrightarrow> (\<And>a. answers P (k a)) \<Longrightarrow> answers P (attempt m f k)"
  by (auto simp: answers_def attempt_def refuse_def split: prod.splits sum.splits)

lemma safe_commit_last:
  "keeps_err (\<lambda>s. public (snd s)) m \<Longrightarrow> safe_stage public (attempt m f (\<lambda>u. answer r))"
  by (fastforce simp: safe_stage_def keeps_err_def attempt_def refuse_def answer_def split: prod.splits sum.splits)

lemma safe_if [stage_intros]: "safe_stage public p \<Longrightarrow> safe_stage public q \<Longrightarrow> safe_stage public (if b then p else q)"
  by simp

lemma answers_if [stage_intros]: "answers P p \<Longrightarrow> answers P q \<Longrightarrow> answers P (if b then p else q)"
  by simp

text \<open>The runs of a stage that committed.\<close>

lemma stage_committed [simp]:
  "attempt m f k s = ((True, r), s') \<longleftrightarrow> (\<exists>a s1. m s = (Inr a, s1) \<and> k a s1 = ((True, r), s'))"
  "refuse q s = ((True, r), s') \<longleftrightarrow> False"
  "answer q s = ((True, r), s') \<longleftrightarrow> r = q \<and> s' = s"
  by (auto simp: attempt_def refuse_def answer_def split: prod.splits sum.splits)

section \<open>The contract of the transactions\<close>

locale transactional =
  fixes begin_tx :: "('w, 't) eff"
    and commit :: "('t \<times> 'w, unit) eff"
    and rollback :: "('t \<times> 'w, unit) eff"
    and public :: "'w \<Rightarrow> 'd"
    and pending :: "'t \<times> 'w \<Rightarrow> 'd"
  assumes begin_keeps: "keeps public begin_tx"
    and begin_pending: "begin_tx w = (Inr t, w') \<Longrightarrow> pending (t, w') = public w"
    and rollback_keeps: "keeps (\<lambda>s. public (snd s)) rollback"
    and commit_err_keeps: "keeps_err (\<lambda>s. public (snd s)) commit"
    and commit_publishes: "commit s = (Inr u, s') \<Longrightarrow> public (snd s') = pending s"
begin

lemma safe_commit: "safe_stage public (attempt commit f (\<lambda>u. answer r))"
  by (rule safe_commit_last [OF commit_err_keeps])

lemma committed_state: "attempt commit f (\<lambda>u. answer q) s = ((True, r), s') \<Longrightarrow> r = q \<and> public (snd s') = pending s"
  using commit_publishes [of s _ s'] by (auto simp del: split_paired_Ex)

text \<open>A request around a safe stage: refused and without effect, or the stage committed.\<close>

lemma with_handle_cases:
  assumes "safe_stage public stage" and "answers P stage" and "\<And>e. P (f e)"
    and run: "with_handle begin_tx f rollback stage w = (resp, w')"
  obtains (refused) "public w' = public w" "P resp"
  | (completed) t w1 s' where "begin_tx w = (Inr t, w1)" "pending (t, w1) = public w"
      "stage (t, w1) = ((True, resp), s')" "w' = snd s'"
proof -
  obtain r w1 where b: "begin_tx w = (r, w1)" by fastforce
  have w1: "public w1 = public w" using begin_keeps b by (metis keepsD)
  show thesis
  proof (cases r)
    case (Inl e)
    then show ?thesis using run b w1 assms(3) by (auto simp: with_handle_def intro: refused)
  next
    case (Inr t)
    obtain c q s where st: "stage (t, w1) = ((c, q), s)" by (metis prod.exhaust)
    show ?thesis
    proof (cases c)
      case True
      then show ?thesis using run b Inr st begin_pending [of w t w1] by (intro completed) (auto simp: with_handle_def)
    next
      case False
      with run b Inr st have q: "resp = q" "w' = snd (snd (rollback s))" by (simp_all add: with_handle_def)
      have "public (snd s) = public w" using safe_stageD [OF assms(1), of "(t, w1)" q s] st False w1 by simp
      moreover have "P q" using assms(2) [unfolded answers_def, rule_format, of "(t, w1)" q s] st False by simp
      ultimately show ?thesis using q keeps_snd [OF rollback_keeps, of s] by (intro refused) auto
    qed
  qed
qed

text \<open>A stage that never commits and publishes nothing leaves the public part as it is.\<close>

lemma read_cases:
  assumes stage: "\<And>s c r s'. stage s = ((c, r), s') \<Longrightarrow> \<not> c \<and> public (snd s') = public (snd s)"
    and run: "with_handle begin_tx f rollback stage w = (resp, w')"
  shows "public w' = public w \<and> ((\<exists>e. resp = f e) \<or> (\<exists>s s'. stage s = ((False, resp), s')))"
proof -
  obtain r w1 where b: "begin_tx w = (r, w1)" by fastforce
  have w1: "public w1 = public w" using begin_keeps b by (metis keepsD)
  show ?thesis
  proof (cases r)
    case (Inl e)
    then show ?thesis using run b w1 by (auto simp: with_handle_def)
  next
    case (Inr t)
    obtain c q s where st: "stage (t, w1) = ((c, q), s)" by (metis prod.exhaust)
    from stage [OF st] have c: "\<not> c" "public (snd s) = public w1" by simp_all
    with run b Inr st have "resp = q" "w' = snd (snd (rollback s))" by (simp_all add: with_handle_def)
    moreover have "stage (t, w1) = ((False, q), s)" using st c(1) by simp
    then have "\<exists>s s'. stage s = ((False, q), s')" by blast
    ultimately show ?thesis using c(2) w1 keeps_snd [OF rollback_keeps, of s] by simp
  qed
qed

text \<open>
  A mutation either answers an error and publishes nothing, or it answers that it is done, and
  what is public afterwards is what the change left pending.
\<close>

lemma mutate_cases:
  assumes change: "keeps (\<lambda>s. public (snd s)) change"
    and reread: "\<And>a. keeps (\<lambda>s. public (snd s)) (reread a)" "\<And>a. keeps pending (reread a)"
    and run: "mutate begin_tx fb rollback commit fc change fe reread fr ok w = (resp, w')"
  obtains (refused) e where "public w' = public w" "resp = fb e \<or> resp = fe e \<or> resp = fr e \<or> resp = fc e"
  | (completed) t w1 a s1 b s2 where "begin_tx w = (Inr t, w1)" "change (t, w1) = (Inr a, s1)" "reread a s1 = (Inr b, s2)"
      "public w' = pending s1" "resp = ok a b"
proof -
  obtain r w1 where b: "begin_tx w = (r, w1)" by fastforce
  have w1: "public w1 = public w" using begin_keeps b by (metis keepsD)
  note run' = run [unfolded mutate_def with_handle_def attempt_def refuse_def answer_def b]
  note undo = keeps_snd [OF rollback_keeps]
  show thesis
  proof (cases r)
    case (Inl e)
    with run' w1 show ?thesis by (auto intro: refused)
  next
    case (Inr t)
    obtain q s1 where c: "change (t, w1) = (q, s1)" by (cases "change (t, w1)")
    have s1: "public (snd s1) = public w" using keepsD [OF change c] w1 by simp
    show ?thesis
    proof (cases q)
      case (Inl e)
      with run' Inr c s1 undo [of s1] show ?thesis by (auto intro: refused)
    next
      case a: (Inr a)
      obtain q2 s2 where d: "reread a s1 = (q2, s2)" by (cases "reread a s1")
      have s2: "public (snd s2) = public w" "pending s2 = pending s1"
        using keepsD [OF reread(1) d] keepsD [OF reread(2) d] s1 by simp_all
      show ?thesis
      proof (cases q2)
        case (Inl e)
        with run' Inr c a d s2(1) undo [of s2] show ?thesis by (auto intro: refused)
      next
        case b2: (Inr b')
        obtain q3 s3 where m: "commit s2 = (q3, s3)" by (cases "commit s2")
        show ?thesis
        proof (cases q3)
          case (Inl e)
          have "public (snd s3) = public w" using keeps_errD [OF commit_err_keeps m [unfolded Inl]] s2(1) by simp
          with run' Inr \<open>r = Inr t\<close> c a d b2 m undo [of s3] Inl show ?thesis by (auto intro: refused)
        next
          case u: (Inr u)
          have "public (snd s3) = pending s1" using commit_publishes [OF m [unfolded u]] s2(2) by simp
          with run' \<open>r = Inr t\<close> c a d b2 m u b show ?thesis by (auto intro!: completed)
        qed
      qed
    qed
  qed
qed

text \<open>A handler that runs inside a read of another store.\<close>

lemma nested_cases:
  assumes read: "keeps (\<lambda>s. public (snd s)) m"
    and run: "with_handle begin_tx f rollback (attempt m fe (\<lambda>a. inside (h a))) w = (resp, w')"
  obtains (refused) e where "public w' = public w" "resp = f e \<or> resp = fe e"
  | (inner) a w1 w2 where "public w1 = public w" "h a w1 = (resp, w2)" "public w' = public w2"
proof -
  obtain r w1 where b: "begin_tx w = (r, w1)" by fastforce
  have w1: "public w1 = public w" using begin_keeps b by (metis keepsD)
  note run' = run [unfolded with_handle_def attempt_def refuse_def inside_def b]
  note undo = keeps_snd [OF rollback_keeps]
  show thesis
  proof (cases r)
    case (Inl e)
    with run' w1 show ?thesis by (auto intro: refused)
  next
    case (Inr t)
    obtain q s1 where c: "m (t, w1) = (q, s1)" by (cases "m (t, w1)")
    have s1: "public (snd s1) = public w" using keepsD [OF read c] w1 by simp
    show ?thesis
    proof (cases q)
      case (Inl e)
      with run' Inr c s1 undo [of s1] show ?thesis by (auto intro: refused)
    next
      case a: (Inr a)
      obtain t2 w2 where t2: "s1 = (t2, w2)" by fastforce
      obtain q2 w3 where d: "h a w2 = (q2, w3)" by (cases "h a w2")
      with run' Inr a c t2 s1 undo [of "(t2, w3)"] show ?thesis by (auto intro: inner)
    qed
  qed
qed

end

section \<open>Stages as relations\<close>

text \<open>
  \<^verbatim>\<open>stage_does public R stage\<close>: whatever it answers, R relates the public part before, the answer and
  the public part after. For the stages whose transaction is rolled back in any case.
\<close>

definition stage_does :: "('w \<Rightarrow> 'd) \<Rightarrow> ('d \<Rightarrow> response \<Rightarrow> 'd \<Rightarrow> bool) \<Rightarrow> ('t \<times> 'w) stage \<Rightarrow> bool" where
  "stage_does public R stage \<longleftrightarrow> (\<forall>s c r s'. stage s = ((c, r), s') \<longrightarrow> R (public (snd s)) r (public (snd s')))"

lemma stage_doesD: "stage_does public R stage \<Longrightarrow> stage s = ((c, r), s') \<Longrightarrow> R (public (snd s)) r (public (snd s'))"
  unfolding stage_does_def by blast

named_theorems does_intros "rules for stage_does"

lemma does_refuse [does_intros]: "(\<And>d. R d r d) \<Longrightarrow> stage_does public R (refuse r)"
  by (simp add: stage_does_def refuse_def)

lemma does_attempt [does_intros]:
  assumes "keeps (\<lambda>s. public (snd s)) m" and "\<And>e d. R d (f e) d" and "\<And>a. stage_does public R (k a)"
  shows "stage_does public R (attempt m f k)"
  unfolding stage_does_def
proof (intro allI impI)
  fix s c r s' assume run: "attempt m f k s = ((c, r), s')"
  obtain q s1 where m: "m s = (q, s1)" by (cases "m s")
  have "public (snd s1) = public (snd s)" using keepsD [OF assms(1) m] .
  then show "R (public (snd s)) r (public (snd s'))"
    using run m assms(2) stage_doesD [OF assms(3)] by (cases q) (auto simp: attempt_def refuse_def dest!: stage_doesD [OF assms(3)])
qed

lemma does_ignoring [does_intros]:
  "keeps (\<lambda>s. public (snd s)) m \<Longrightarrow> stage_does public R k \<Longrightarrow> stage_does public R (ignoring m k)"
  unfolding stage_does_def ignoring_def by (metis keeps_snd [of "\<lambda>s. public (snd s)"])

lemma does_inside [does_intros]:
  "(\<And>w resp w'. h w = (resp, w') \<Longrightarrow> R (public w) resp (public w')) \<Longrightarrow> stage_does public R (inside h)"
  by (auto simp: stage_does_def inside_def split: prod.splits)

context transactional
begin

lemma with_defer_does:
  assumes "stage_does public R stage" and "\<And>e d. R d (f e) d"
    and run: "with_defer begin_tx f rollback stage w = (resp, w')"
  shows "R (public w) resp (public w')"
proof -
  obtain q w1 where b: "begin_tx w = (q, w1)" by fastforce
  have w1: "public w1 = public w" using begin_keeps b by (metis keepsD)
  show ?thesis
  proof (cases q)
    case (Inl e)
    then show ?thesis using run b w1 assms(2) [of "public w" e] by (simp add: with_defer_def)
  next
    case (Inr t)
    obtain c r s where st: "stage (t, w1) = ((c, r), s)" by (metis prod.exhaust)
    then have "R (public w1) r (public (snd s))" using assms(1) unfolding stage_does_def by fastforce
    then show ?thesis
      using run b Inr st w1 keeps_snd [OF rollback_keeps, of s] by (auto simp: with_defer_def)
  qed
qed

text \<open>What such a handler saw: the pending state of its transaction was the public one.\<close>

lemma with_defer_cases:
  assumes stage: "\<And>s c r s'. stage s = ((c, r), s') \<Longrightarrow> public (snd s') = public (snd s)"
    and run: "with_defer begin_tx f rollback stage w = (resp, w')"
  obtains (refused) e where "public w' = public w" "resp = f e"
  | (ran) s c s' where "pending s = public w" "stage s = ((c, resp), s')" "public w' = public w"
proof -
  obtain q w1 where b: "begin_tx w = (q, w1)" by fastforce
  have w1: "public w1 = public w" using begin_keeps b by (metis keepsD)
  show thesis
  proof (cases q)
    case (Inl e)
    then show ?thesis using run b w1 by (auto simp: with_defer_def intro: refused)
  next
    case (Inr t)
    obtain c r s where st: "stage (t, w1) = ((c, r), s)" by (metis prod.exhaust)
    have "public (snd s) = public w1" using stage [OF st] by simp
    then show ?thesis
      using run b Inr st w1 keeps_snd [OF rollback_keeps, of s] begin_pending [of w t w1]
      by (intro ran [of "(t, w1)" c s]) (auto simp: with_defer_def)
  qed
qed

text \<open>The same for a stage that commits last.\<close>

lemma with_handle_does:
  assumes "safe_stage public stage" and "answers (\<lambda>r. \<forall>d. R d r d) stage" and "\<And>e d. R d (f e) d"
    and "\<And>s resp s'. pending s = public w \<Longrightarrow> stage s = ((True, resp), s') \<Longrightarrow> R (pending s) resp (public (snd s'))"
    and run: "with_handle begin_tx f rollback stage w = (resp, w')"
  shows "R (public w) resp (public w')"
proof (rule with_handle_cases [OF assms(1,2) _ run], goal_cases)
  case (1 e)
  then show ?case using assms(3) by blast
next
  case 2
  then show ?case by simp
next
  case (3 t w1 s')
  with assms(4) [of "(t, w1)" resp s'] show ?case by simp
qed

end

section \<open>Users and roles\<close>

text \<open>The loop over the roles of a scope, and the name that stands in created_by.\<close>

primrec any_role :: "('a \<Rightarrow> bool) \<Rightarrow> 'a list \<Rightarrow> bool" where
  "any_role p [] = False"
| "any_role p (r # rs) = (if p r then True else any_role p rs)"

lemma any_role_iff [simp]: "any_role p rs \<longleftrightarrow> (\<exists>r\<in>set rs. p r)"
  by (induction rs) auto

definition resolveCreatedBy :: "request \<Rightarrow> string" where
  "resolveCreatedBy r = (case UserFromContext r of
     Some u \<Rightarrow> if usr_UID u \<noteq> [] then usr_UID u else ''cli-anonymous''
   | None \<Rightarrow> ''cli-anonymous'')"

definition map_field :: "string \<Rightarrow> metadata \<Rightarrow> (string \<times> json) list" where
  "map_field name m = (if m = [] then [] else [(name, JObject m)])"

section \<open>Numbers of the query\<close>

text \<open>
  parseIntDefault, used by every list handler: an int of 64 bits, whose arithmetic wraps. A minus
  sign is skipped at position 0 only.
\<close>

fun parse_digits :: "string \<Rightarrow> 64 word \<Rightarrow> 64 word option" where
  "parse_digits [] n = Some n"
| "parse_digits (c # cs) n =
     (let d = (of_char c :: nat) in
      if d < 48 \<or> d > 57 then None else parse_digits cs (n * 10 + word_of_nat (d - 48)))"

definition parseIntDefault :: "string \<Rightarrow> 64 word \<Rightarrow> 64 word" where
  "parseIntDefault s defaultValue =
     (if s = [] then defaultValue
      else case parse_digits (if hd s = CHR ''-'' then tl s else s) 0 of
        None \<Rightarrow> defaultValue
      | Some n \<Rightarrow> if HasPrefix s ''-'' then - n else n)"

section \<open>The transactions of PostgreSQL\<close>

text \<open>Every Begin of the stores wraps the pool's, every Commit the driver's.\<close>

lemma pg_transactional:
  assumes "keeps published rollback"
  shows "transactional (callw pool_BeginTx fb retn) (callw pg_commit fc (\<lambda>_. retn ())) rollback pg_committed
    (\<lambda>s. ptx_work (fst s))"
proof
  show "keeps pg_committed (callw pool_BeginTx fb retn)"
    by (intro eff_intros pool_BeginTx_keeps)
  show "keeps (\<lambda>s. pg_committed (snd s)) rollback"
    using assms by (simp add: published_def [abs_def])
  show "keeps_err (\<lambda>s. pg_committed (snd s)) (callw pg_commit fc (\<lambda>_. retn ()))"
    using keeps_err_last [OF pg_commit_keeps_err, where g = "\<lambda>_. ()"] by (simp add: published_def [abs_def])
qed (auto simp: eff_simps pool_BeginTx_Inr_iff pg_commit_Inr_iff)

text \<open>The Rollback of every store: an already closed transaction is no error.\<close>

lemma rollback_wrap_keeps:
  assumes "\<And>s. rollback s = (case pg_rollback s of
      (Inl e, s') \<Rightarrow> if errors_Is e pgx_ErrTxClosed then (Inr (), s') else (Inl (wrap1 msg e), s')
    | (Inr u, s') \<Rightarrow> (Inr (), s'))"
  shows "keeps published rollback"
  unfolding keeps_def assms
  using pg_rollback_keeps [unfolded keeps_def] by (auto split: prod.splits sum.splits) (metis snd_conv)+

text \<open>A read leaves the pending tables as they are.\<close>

definition work :: "pg_state \<Rightarrow> db" where
  "work s = ptx_work (fst s)"

lemma pg_query_keeps_work [eff_intros]: "keeps work (pg_query f)"
  by (auto simp: keeps_def work_def pg_query_def pg_run_def read_fault_def read_id_def split: option.splits)

lemma pg_query_texts_keeps_work [eff_intros]: "keeps work (pg_query_texts ts f)"
  by (auto simp: keeps_def work_def pg_query_texts_def pg_run_def read_fault_def read_id_def split: option.splits if_splits)

lemma pg_query_row_keeps_work [eff_intros]: "keeps work (pg_query_row f)"
  unfolding pg_query_row_def by (intro eff_intros)

end
