(* ===== verification/Workflow_Callback.thy ===== *)
theory Workflow_Callback
  imports State_Machine Handler_Frame
begin

text \<open>
  cmd/server/workflow_callback_handler.go: the report of a worker about the workflow it ran, on any
  workflow store. A request carries, beside its decoded body, the text of the last member
  result_json as it stands in the body, which json.RawMessage keeps. The lemmas state what one
  callback does in terms of the specification of State_Machine. Log lines are not modelled.
\<close>

record callback_request = request +
  cr_ResultText :: bytes

definition callbackStatusCompleted :: string where
  "callbackStatusCompleted = ''completed''"

definition callbackStatusFailed :: string where
  "callbackStatusFailed = ''failed''"

text \<open>The fields of callbackRequest: the status, and whether there is a result_json (also null counts).\<close>

definition decode_callbackRequest :: "json option \<Rightarrow> goerr + string \<times> bool" where
  "decode_callbackRequest b = (case decode_object b of
     Inl e \<Rightarrow> Inl e
   | Inr kvs \<Rightarrow> both (decode_field ''status'' set_string kvs [])
       (decode_field ''result_json'' (\<lambda>_ _. Inr True) kvs False))"

definition writeCallbackErr :: "nat \<Rightarrow> string \<Rightarrow> string \<Rightarrow> response" where
  "writeCallbackErr code errCode msg =
     \<lparr>resp_Code = code, resp_Header = [(''Content-Type'', ''application/json'')],
      resp_Body = JObject [(''error'', JObject [(''code'', JString errCode), (''message'', JString msg)])]\<rparr>"

text \<open>The answer 204 has no body.\<close>

definition callback_done :: response where
  "callback_done = \<lparr>resp_Code = 204, resp_Header = [], resp_Body = JNull\<rparr>"

record ('t, 'w) WorkflowCallbackHandler =
  ch_store :: "('t, 'w) WorkflowStore"

definition recordRejectedTerminal ::
  "'s runtime \<Rightarrow> 's AuditTx \<Rightarrow> uuid \<Rightarrow> workflow_state \<Rightarrow> string \<Rightarrow> ('s, unit) eff" where
  "recordRejectedTerminal rt tx wfID currentState requestedStatus =
     insert_event (time_Now rt) tx ActionCallbackRejectedTerminal ''workflow'' wfID DefaultUserID
       (case json_Marshal [''current_state'' \<mapsto> currentState, ''requested_status'' \<mapsto> requestedStatus] of
          Inl e \<Rightarrow> None | Inr details \<Rightarrow> Some details)"

text \<open>A callback for a workflow that is not RUNNING: noted in the log, whatever becomes of the note.\<close>

definition reject_stage ::
  "('t \<times> 'w) runtime \<Rightarrow> ('t \<times> 'w) WorkflowTx \<Rightarrow> uuid \<Rightarrow> workflow_state \<Rightarrow> string \<Rightarrow> ('t \<times> 'w) stage" where
  "reject_stage rt tx wfID currentState requestedStatus =
     ignoring (recordRejectedTerminal rt (tx_InsertAuditLog tx) wfID currentState requestedStatus)
       (ignoring (tx_Commit tx) (refuse (writeCallbackErr 409 ''INVALID_TRANSITION'' ''not running'')))"

definition finish_stage ::
  "('t \<times> 'w) runtime \<Rightarrow> ('t \<times> 'w) WorkflowTx \<Rightarrow> uuid \<Rightarrow> string \<Rightarrow> bytes \<Rightarrow> ('t \<times> 'w) stage" where
  "finish_stage rt tx wfID requestedStatus resultJSON =
     (let newState = (if requestedStatus = callbackStatusCompleted then WorkflowStateCompleted else WorkflowStateFailed);
          action = (if requestedStatus = callbackStatusCompleted then ActionWorkflowCompleted
                    else ActionWorkflowFailedCallback);
          internal = (\<lambda>msg e. writeCallbackErr 500 ''INTERNAL'' msg)
      in attempt (tx_UpdateWorkflowState tx (uuid_String rt wfID) newState) (internal ''state not updated'') (\<lambda>_.
         attempt (tx_UpdateWorkflowResult tx (uuid_String rt wfID) (Some resultJSON)) (internal ''result not stored'') (\<lambda>_.
         attempt (insert_event (time_Now rt) (tx_InsertAuditLog tx) action ''workflow'' wfID DefaultUserID None)
           (internal ''audit log not written'') (\<lambda>_.
         attempt (tx_Commit tx) (internal ''commit failed'') (\<lambda>_. answer callback_done)))))"

definition callback_stage ::
  "('t \<times> 'w) runtime \<Rightarrow> ('t \<times> 'w) WorkflowTx \<Rightarrow> uuid \<Rightarrow> string \<Rightarrow> bytes \<Rightarrow> ('t \<times> 'w) stage" where
  "callback_stage rt tx wfID requestedStatus resultJSON =
     attempt (tx_GetWorkflow tx (uuid_String rt wfID))
       (\<lambda>e. if errors_Is e ErrWorkflowNotFound then writeCallbackErr 404 ''NOT_FOUND'' ''no such workflow''
            else writeCallbackErr 500 ''INTERNAL'' ''workflow not read'') (\<lambda>wf.
     if wf_State wf \<noteq> WorkflowStateRunning then reject_stage rt tx wfID (wf_State wf) requestedStatus
     else finish_stage rt tx wfID requestedStatus resultJSON)"

definition handleCallback ::
  "('t \<times> 'w) runtime \<Rightarrow> ('t, 'w) WorkflowCallbackHandler \<Rightarrow> callback_request \<Rightarrow> 'w \<Rightarrow> response \<times> 'w" where
  "handleCallback rt h r w = (case uuid_Parse rt (req_PathID r) of
     None \<Rightarrow> (writeCallbackErr 400 ''INVALID_ARGUMENT'' ''workflow id is not a UUID'', w)
   | Some wfID \<Rightarrow> (case decode_callbackRequest (req_Body r) of
       Inl e \<Rightarrow> (writeCallbackErr 400 ''INVALID_ARGUMENT'' ''body is not JSON'', w)
     | Inr (status, has_result) \<Rightarrow>
         if status \<noteq> callbackStatusCompleted \<and> status \<noteq> callbackStatusFailed
         then (writeCallbackErr 400 ''INVALID_ARGUMENT'' ''status must be completed or failed'', w)
         else let resultJSON = (if has_result \<and> cr_ResultText r \<noteq> [] then cr_ResultText r else [123, 125])
              in with_defer (st_BeginTx (ch_store h)) (\<lambda>e. writeCallbackErr 500 ''INTERNAL'' ''begin failed'')
                   (tx_Rollback (st_tx (ch_store h))) (callback_stage rt (st_tx (ch_store h)) wfID status resultJSON) w))"

section \<open>What one callback does\<close>

lemma callback_codes [simp]: "resp_Code (writeCallbackErr a b m) = a" "resp_Code callback_done = 204"
  by (simp_all add: writeCallbackErr_def callback_done_def)

lemma callback_rejected_no_state:
  "ev_Action e = ActionCallbackRejectedTerminal \<Longrightarrow> event_state e = None"
  by (simp add: event_state_def ActionCallbackRejectedTerminal_def workflow_action_defs)

text \<open>The three outcomes of a callback, on the rows and the log that a client sees.\<close>

definition callback_outcome ::
  "'k \<Rightarrow> uuid \<Rightarrow> nat \<Rightarrow> 'k rows \<times> audit_event list \<Rightarrow> 'k rows \<times> audit_event list \<Rightarrow> bool" where
  "callback_outcome k u code c c' \<longleftrightarrow>
     (400 \<le> code \<and> c' = c) \<or>
     (code = 409 \<and> fst c' = fst c \<and> (\<exists>p b e. fst c k = Some (p, b) \<and> p \<noteq> WorkflowStateRunning \<and>
        snd c' = snd c @ [e] \<and> ev_Action e = ActionCallbackRejectedTerminal \<and> ev_ResourceID e = u)) \<or>
     (code = 204 \<and> (\<exists>q. terminal_state q \<and> moves k u WorkflowStateRunning q c c'))"

context store_client
begin

lemma event_err:
  assumes "insert_event (time_Now rt) (tx_InsertAuditLog (st_tx st)) a ty r u d s = (Inl e, s')" and "active (fst s)"
  shows "active (fst s') \<and> trows s' = trows s \<and> tlogs s' = tlogs s"
proof -
  obtain ts s1 where n: "time_Now rt s = (ts, s1)" by (rule prod.exhaust)
  note k = clock_view [OF n]
  from assms(1) have "tx_InsertAuditLog (st_tx st) \<lparr>ev_Timestamp = ts, ev_Action = a,
      ev_ResourceType = ty, ev_UserID = u, ev_Details = d, ev_ResourceID = r\<rparr> s1 = (Inl e, s')"
    by (simp add: insert_event_def eff_simps n)
  from audit_err [OF this] show ?thesis using assms(2) k by simp
qed

text \<open>A read that failed, and a note that may have failed, publish nothing else.\<close>

lemma reject_effect:
  assumes "reject_stage rt (st_tx st) u p status s = ((c, resp), s')" and "active (fst s)"
    and "trows s = rows (snd s)" and "tlogs s = logs (snd s)"
  shows "resp_Code resp = 409 \<and> rows (snd s') = rows (snd s) \<and> (logs (snd s') = logs (snd s) \<or>
    (\<exists>e. logs (snd s') = logs (snd s) @ [e] \<and> ev_Action e = ActionCallbackRejectedTerminal \<and> ev_ResourceID e = u))"
proof -
  let ?det = "case json_Marshal [''current_state'' \<mapsto> p, ''requested_status'' \<mapsto> status] of
      Inl e \<Rightarrow> None | Inr details \<Rightarrow> Some details"
  let ?ins = "insert_event (time_Now rt) (tx_InsertAuditLog (st_tx st)) ActionCallbackRejectedTerminal ''workflow'' u
      DefaultUserID ?det"
  obtain q s1 where i: "?ins s = (q, s1)" by (rule prod.exhaust)
  obtain v s2 where m: "tx_Commit (st_tx st) s1 = (v, s2)" by (rule prod.exhaust)
  have run: "s' = s2" "resp_Code resp = 409"
    using assms(1) i m by (auto simp: reject_stage_def recordRejectedTerminal_def ignoring_def refuse_def)
  have keep: "rows (snd s1) = rows (snd s)" "logs (snd s1) = logs (snd s)"
    using keepsD [OF event_seen i] by (simp_all add: seen_def)
  have pend: "active (fst s1)" "trows s1 = trows s"
    "tlogs s1 = tlogs s \<or> (\<exists>e. tlogs s1 = tlogs s @ [e] \<and> ev_Action e = ActionCallbackRejectedTerminal \<and> ev_ResourceID e = u)"
    using event_ok [of _ _ _ _ _ s _ s1] event_err [of _ _ _ _ _ s _ s1] i assms(2) by (cases q; fastforce)+
  show ?thesis
  proof (cases v)
    case (Inl e)
    then have "seen (snd s2) = seen (snd s1)" using keeps_errD [OF commit_seen] m by blast
    then show ?thesis using run keep by (simp add: seen_def)
  next
    case (Inr a)
    from commit_ok [OF m [unfolded Inr] pend(1)] show ?thesis using run pend assms(3,4) by auto
  qed
qed

lemma finish_effect:
  assumes run: "finish_stage rt (st_tx st) u status bs s = ((c, resp), s')" and "active (fst s)"
    and "trows s = rows (snd s)" and "tlogs s = logs (snd s)" and "rows (snd s) (key (uuid_String rt u)) = Some (WorkflowStateRunning, b)"
    and status: "status = callbackStatusCompleted \<or> status = callbackStatusFailed"
  shows "400 \<le> resp_Code resp \<and> seen (snd s') = seen (snd s) \<or>
    resp_Code resp = 204 \<and> (\<exists>q. terminal_state q \<and>
      moves (key (uuid_String rt u)) u WorkflowStateRunning q (seen (snd s)) (seen (snd s')))"
proof -
  define q where "q = (if status = callbackStatusCompleted then WorkflowStateCompleted else WorkflowStateFailed)"
  define a where "a = (if status = callbackStatusCompleted then ActionWorkflowCompleted else ActionWorkflowFailedCallback)"
  let ?i = "uuid_String rt u" and ?tx = "st_tx st"
  have q: "terminal_state q" "IsValidTransition WorkflowStateRunning q" "a = transition_action WorkflowStateRunning q"
    by (auto simp: q_def a_def IsValidTransition_iff terminal_states transition_action_def workflow_states_distinct)
  have safe: "safe_stage seen (finish_stage rt ?tx u status bs)" "answers (\<lambda>r. 400 \<le> resp_Code r) (finish_stage rt ?tx u status bs)"
    unfolding finish_stage_def Let_def using commit_seen
    by (intro stage_intros tx_seen event_seen safe_commit_last; simp)+
  show ?thesis
  proof (cases c)
    case False
    with run have "finish_stage rt ?tx u status bs s = ((False, resp), s')" by simp
    then show ?thesis using safe_stageD [OF safe(1)] safe(2) [unfolded answers_def] by blast
  next
    case True
    with run obtain s1 s2 s3 where u1: "tx_UpdateWorkflowState ?tx ?i q s = (Inr (), s1)"
      and u2: "tx_UpdateWorkflowResult ?tx ?i (Some bs) s1 = (Inr (), s2)"
      and e: "insert_event (time_Now rt) (tx_InsertAuditLog ?tx) a ''workflow'' u DefaultUserID None s2 = (Inr (), s3)"
      and m: "tx_Commit ?tx s3 = (Inr (), s')" and resp: "resp = callback_done"
      by (auto simp: finish_stage_def Let_def q_def [symmetric] a_def [symmetric])
    have 1: "active (fst s1)" "tlogs s1 = logs (snd s)" "trows s1 = (rows (snd s))(key ?i \<mapsto> (q, b))"
      using state_ok [OF u1 assms(2), of WorkflowStateRunning b] assms(3-5) by auto
    obtain b' where 2: "active (fst s2)" "tlogs s2 = logs (snd s)" "trows s2 = (rows (snd s))(key ?i \<mapsto> (q, b'))"
      using result_ok [OF u2 1(1), of q b] 1(2,3) by auto
    from event_ok [OF e 2(1)] commit_ok [OF m] 2 assms(5) q show ?thesis
      by (auto simp: resp moves_def seen_def)
  qed
qed

lemma callback_effect:
  assumes run: "handleCallback rt \<lparr>ch_store = st\<rparr> r w = (resp, w')"
  shows "400 \<le> resp_Code resp \<and> seen w' = seen w \<or>
    (\<exists>u. uuid_Parse rt (req_PathID r) = Some u \<and>
       callback_outcome (key (uuid_String rt u)) u (resp_Code resp) (seen w) (seen w'))"
proof (cases "400 \<le> resp_Code resp \<and> seen w' = seen w")
  case False
  let ?tx = "st_tx st"
  from run False obtain u status bs where u: "uuid_Parse rt (req_PathID r) = Some u"
    and status: "status = callbackStatusCompleted \<or> status = callbackStatusFailed"
    and d: "with_defer (st_BeginTx st) (\<lambda>e. writeCallbackErr 500 ''INTERNAL'' ''begin failed'')
      (tx_Rollback ?tx) (callback_stage rt ?tx u status bs) w = (resp, w')"
    by (auto simp: handleCallback_def Let_def split: option.splits sum.splits if_splits)
  obtain t w1 where b: "st_BeginTx st w = (Inr t, w1)"
    using d False begin_err_seen [of w _ w'] by (cases "st_BeginTx st w"; cases "fst (st_BeginTx st w)") (auto simp: with_defer_def)
  have w1: "seen w1 = seen w" by (rule keepsD [OF begin_seen b])
  obtain c s where stage: "callback_stage rt ?tx u status bs (t, w1) = ((c, resp), s)"
    and w': "seen w' = seen (snd s)"
    using d b keeps_snd [OF tx_seen(6)] by (auto simp: with_defer_def split: prod.splits)
  obtain y s1 where gy: "tx_GetWorkflow ?tx (uuid_String rt u) (t, w1) = (y, s1)" by (rule prod.exhaust)
  have "y = Inl e \<Longrightarrow> False" for e
  proof -
    assume "y = Inl e"
    then have "s = s1" "400 \<le> resp_Code resp"
      using stage gy by (auto simp: callback_stage_def attempt_def refuse_def split: if_splits)
    moreover have "seen (snd s1) = seen w1" using keepsD [OF tx_seen(4) gy] by simp
    ultimately show False using False w1 w' by simp
  qed
  then obtain x where g: "tx_GetWorkflow ?tx (uuid_String rt u) (t, w1) = (Inr x, s1)" using gy by (cases y) auto
  note 0 = get_first [OF b g]
  have s1: "seen (snd s1) = seen w" using keepsD [OF tx_seen(4) g] w1 by simp
  then have pend: "trows s1 = rows (snd s1)" "tlogs s1 = logs (snd s1)" using 0 by (simp_all add: seen_def)
  let ?k = "key (uuid_String rt u)"
  show ?thesis
  proof (cases "wf_State x = WorkflowStateRunning")
    case True
    then have "finish_stage rt ?tx u status bs s1 = ((c, resp), s)"
      using stage g by (simp add: callback_stage_def attempt_def)
    from finish_effect [OF this 0(1) pend _ status] 0(4) True s1 w' False u show ?thesis
      by (auto simp: callback_outcome_def seen_def)
  next
    case False': False
    then have "reject_stage rt ?tx u (wf_State x) status s1 = ((c, resp), s)"
      using stage g by (simp add: callback_stage_def attempt_def)
    from reject_effect [OF this 0(1) pend] 0(4) False' s1 w' False u show ?thesis
      by (auto simp: callback_outcome_def seen_def)
  qed
qed simp

end

end
