(* ===== verification/Uuid_Instance.thy ===== *)
theory Uuid_Instance
  imports Prelude
begin

text \<open>
  A concrete pair of functions for the parameters that stand for github.com/google/uuid: the
  canonical text of RFC 4122 (32 lower-case hexadecimal digits in groups of 8, 4, 4, 4 and 12) and
  its parser. The model never uses it; it shows that the hypothesis on the library can hold, and
  the witnesses compute with it.
\<close>

definition hex_digit :: "nat \<Rightarrow> char" where
  "hex_digit d = ''0123456789abcdef'' ! d"

fun to_hex :: "nat \<Rightarrow> nat \<Rightarrow> string" where
  "to_hex 0 n = []"
| "to_hex (Suc k) n = to_hex k (n div 16) @ [hex_digit (n mod 16)]"

definition hex_value :: "char \<Rightarrow> nat option" where
  "hex_value c = map_of (zip ''0123456789abcdef'' [0..<16]) c"

fun of_hex :: "string \<Rightarrow> nat \<Rightarrow> nat option" where
  "of_hex [] acc = Some acc"
| "of_hex (c # cs) acc = (case hex_value c of None \<Rightarrow> None | Some d \<Rightarrow> of_hex cs (16 * acc + d))"

definition dashed :: "string \<Rightarrow> string" where
  "dashed h = take 8 h @ ''-'' @ take 4 (drop 8 h) @ ''-'' @ take 4 (drop 12 h) @ ''-'' @
     take 4 (drop 16 h) @ ''-'' @ drop 20 h"

definition canonical_String :: "uuid \<Rightarrow> string" where
  "canonical_String u = dashed (to_hex 32 (unat u))"

definition canonical_Parse :: "string \<Rightarrow> uuid option" where
  "canonical_Parse s =
     (if length s = 36 \<and> s ! 8 = CHR ''-'' \<and> s ! 13 = CHR ''-'' \<and> s ! 18 = CHR ''-'' \<and> s ! 23 = CHR ''-''
      then map_option word_of_nat (of_hex (List.filter (\<lambda>c. c \<noteq> CHR ''-'') s) 0)
      else None)"

text \<open>A stand-in for uuid.NewSHA1: the name's length added to the namespace.\<close>

definition sample_SHA1 :: "uuid \<Rightarrow> string \<Rightarrow> uuid" where
  "sample_SHA1 ns nm = ns + word_of_nat (length nm)"

lemma less_16_cases: "d < 16 \<Longrightarrow> d \<in> {0, 1, 2, 3, 4, 5, 6, 7, 8, 9, 10, 11, 12, 13, 14, 15 :: nat}"
  by (simp only: insert_iff empty_iff) presburger

lemma hex_value_digit: "d < 16 \<Longrightarrow> hex_value (hex_digit d) = Some d"
  by (drule less_16_cases) (auto simp: hex_value_def hex_digit_def upt_rec nth_Cons')

lemma hex_digit_not_dash: "d < 16 \<Longrightarrow> hex_digit d \<noteq> CHR ''-''"
  by (drule less_16_cases) (auto simp: hex_digit_def nth_Cons')

lemma length_to_hex [simp]: "length (to_hex k n) = k"
  by (induction k arbitrary: n) auto

lemma to_hex_not_dash: "c \<in> set (to_hex k n) \<Longrightarrow> c \<noteq> CHR ''-''"
proof (induction k arbitrary: n)
  case (Suc k)
  then show ?case using hex_digit_not_dash [of "n mod 16"] by fastforce
qed simp

lemma of_hex_append:
  "of_hex (xs @ ys) acc = (case of_hex xs acc of None \<Rightarrow> None | Some a \<Rightarrow> of_hex ys a)"
  by (induction xs arbitrary: acc) (auto split: option.splits)

lemma of_hex_to_hex: "n < 16 ^ k \<Longrightarrow> of_hex (to_hex k n) acc = Some (16 ^ k * acc + n)"
proof (induction k arbitrary: n)
  case 0
  then show ?case by simp
next
  case (Suc k)
  have "n div 16 < 16 ^ k" using Suc.prems by (simp add: less_mult_imp_div_less)
  from Suc.IH [OF this] show ?case
    by (simp add: of_hex_append hex_value_digit algebra_simps)
qed

lemma filter_dashed:
  assumes "\<forall>c\<in>set h. c \<noteq> CHR ''-''" and "length h = 32"
  shows "List.filter (\<lambda>c. c \<noteq> CHR ''-'') (dashed h) = h"
proof -
  let ?P = "\<lambda>c. c \<noteq> CHR ''-''"
  have "drop 16 h = take 4 (drop 16 h) @ drop 20 h"
    using append_take_drop_id [of 4 "drop 16 h"] by simp
  moreover have "drop 12 h = take 4 (drop 12 h) @ drop 16 h"
    using append_take_drop_id [of 4 "drop 12 h"] by simp
  moreover have "drop 8 h = take 4 (drop 8 h) @ drop 12 h"
    using append_take_drop_id [of 4 "drop 8 h"] by simp
  ultimately have parts:
    "take 8 h @ take 4 (drop 8 h) @ take 4 (drop 12 h) @ take 4 (drop 16 h) @ drop 20 h = h"
    by (metis append_take_drop_id)
  have "List.filter ?P (dashed h) = List.filter ?P
      (take 8 h @ take 4 (drop 8 h) @ take 4 (drop 12 h) @ take 4 (drop 16 h) @ drop 20 h)"
    by (simp add: dashed_def)
  also have "\<dots> = List.filter ?P h" by (simp only: parts)
  also have "\<dots> = h" using assms(1) by (simp add: filter_id_conv)
  finally show ?thesis .
qed

theorem canonical_roundtrip: "canonical_Parse (canonical_String u) = Some u"
proof -
  let ?h = "to_hex 32 (unat u)"
  have len: "length ?h = 32" by (rule length_to_hex)
  have f: "List.filter (\<lambda>c. c \<noteq> CHR ''-'') (dashed ?h) = ?h"
    by (rule filter_dashed [OF _ len]) (blast dest: to_hex_not_dash)
  have pos: "length (dashed ?h) = 36" "dashed ?h ! 8 = CHR ''-''" "dashed ?h ! 13 = CHR ''-''"
    "dashed ?h ! 18 = CHR ''-''" "dashed ?h ! 23 = CHR ''-''"
    using len by (simp_all add: dashed_def nth_append)
  have "unat u < 16 ^ 32" using unsigned_less [of u] by simp
  then have "of_hex ?h 0 = Some (unat u)" by (simp add: of_hex_to_hex)
  then show ?thesis unfolding canonical_Parse_def canonical_String_def using f pos by simp
qed

end
