(* ===== verification/Workflow_History.thy ===== *)
theory Workflow_History
  imports Workflow_Callback Fake_Store Uuid_Instance
begin

text \<open>
  Sequences of calls on one store: what the process does to its workflows over its life time. Each
  call runs to its end, whatever it returns, and the next one starts from the state it left. A
  callback of a worker is one of the calls; its answer is no error of a method, so it counts as done.
\<close>

datatype wf_call =
    CallCreate workflow string string
  | CallStart string
  | CallComplete string "bytes option"
  | CallFail string string
  | CallCallback callback_request

definition exec_call ::
  "('t \<times> 'w) runtime \<Rightarrow> ('t, 'w) StateMachine \<Rightarrow> wf_call \<Rightarrow> ('w \<times> transition_counter, unit) eff" where
  "exec_call rt sm c = (case c of
     CallCreate x documentID userID \<Rightarrow> (\<lambda>(w, m).
       case ExecuteWorkflowCreate rt (sm_coordinator sm) x documentID userID w of (r, w') \<Rightarrow> (r, (w', m)))
   | CallStart i \<Rightarrow> StateMachine_Start rt sm i
   | CallComplete i b \<Rightarrow> StateMachine_Complete rt sm i b
   | CallFail i reason \<Rightarrow> StateMachine_Fail rt sm i reason
   | CallCallback r \<Rightarrow> (\<lambda>(w, m).
       case handleCallback rt \<lparr>ch_store = tc_store (sm_coordinator sm)\<rparr> r w of (resp, w') \<Rightarrow> (Inr (), (w', m))))"

fun run_calls ::
  "('t \<times> 'w) runtime \<Rightarrow> ('t, 'w) StateMachine \<Rightarrow> wf_call list \<Rightarrow> 'w \<times> transition_counter \<Rightarrow>
   'w \<times> transition_counter" where
  "run_calls rt sm [] s = s"
| "run_calls rt sm (c # cs) s = run_calls rt sm cs (snd (exec_call rt sm c s))"

text \<open>
  The server creates a workflow in PENDING under an id it has just drawn, so the ids of the
  creations of a history are distinct.
\<close>

fun created_ids :: "wf_call list \<Rightarrow> uuid list" where
  "created_ids [] = []"
| "created_ids (CallCreate x d u # cs) = wf_ID x # created_ids cs"
| "created_ids (c # cs) = created_ids cs"

fun creates_pending :: "wf_call list \<Rightarrow> bool" where
  "creates_pending [] = True"
| "creates_pending (CallCreate x d u # cs) = (wf_State x = WorkflowStatePending \<and> creates_pending cs)"
| "creates_pending (c # cs) = creates_pending cs"

locale history = store_client st key id_key rows logs active fresh trows tlogs kept rt rec
  for st :: "('t, 'w) WorkflowStore" and key :: "string \<Rightarrow> 'k" and id_key :: "uuid \<Rightarrow> 'k"
    and rows :: "'w \<Rightarrow> 'k rows" and logs :: "'w \<Rightarrow> audit_event list"
    and active :: "'t \<Rightarrow> bool" and fresh :: "'t \<Rightarrow> bool"
    and trows :: "'t \<times> 'w \<Rightarrow> 'k rows" and tlogs :: "'t \<times> 'w \<Rightarrow> audit_event list"
    and kept :: "'t \<times> 'w \<Rightarrow> bytes option \<Rightarrow> bytes option \<Rightarrow> bool"
    and rt :: "('t \<times> 'w) runtime" and rec :: "('t \<times> 'w) Recorder" +
  fixes res :: "'k \<Rightarrow> uuid"
  assumes res_key: "parseResourceID rt i = res (key i)"
    and res_id: "parseResourceID rt (uuid_String rt u) = res (id_key u)"
    and res_inj: "inj_on res (range id_key)"
    and id_inj: "inj id_key"
    and parse_print: "uuid_Parse rt (uuid_String rt u) = Some u"
begin

text \<open>A callback is a step of the specification too, or a stutter.\<close>

lemma callback_step:
  assumes "handleCallback rt \<lparr>ch_store = st\<rparr> r w = (resp, w')"
  shows "seen w' = seen w \<or> wf_step (range id_key) res (seen w) (seen w')"
proof -
  have key_res: "res (key (uuid_String rt u)) = u" for u
    using res_key [of "uuid_String rt u"] by (simp add: parseResourceID_def parse_print)
  from callback_effect [OF assms] show ?thesis
  proof
    assume "\<exists>u. uuid_Parse rt (req_PathID r) = Some u \<and>
      callback_outcome (key (uuid_String rt u)) u (resp_Code resp) (seen w) (seen w')"
    then obtain u where "callback_outcome (key (uuid_String rt u)) u (resp_Code resp) (seen w) (seen w')" by blast
    then show ?thesis
      using callback_rejected_no_state key_res [of u]
        wf_step.noted [of _ "range id_key" res "rows w" "logs w"]
        wf_step.moved [of "key (uuid_String rt u)" res _ _ "rows w" "logs w" "rows w'" "logs w'" "range id_key"]
      by (auto simp: callback_outcome_def seen_def)
  qed simp
qed

text \<open>It adds no row.\<close>

lemma callback_new_rows:
  assumes "handleCallback rt \<lparr>ch_store = st\<rparr> r w = (resp, w')" and "rows w j = None"
  shows "rows w' j = None"
  using callback_effect [OF assms(1)] assms(2) by (auto simp: callback_outcome_def seen_def moves_def split: if_splits)


text \<open>A call that fails is a stutter of the specification, one that succeeds a step.\<close>

lemma exec_call_step:
  assumes "exec_call rt machine c (w, m) = (r, (w', m'))"
    and "\<And>x d u. c = CallCreate x d u \<Longrightarrow> wf_State x = WorkflowStatePending \<and> rows w (id_key (wf_ID x)) = None"
  shows "seen w' = seen w \<or> wf_step (range id_key) res (seen w) (seen w')"
proof (cases r)
  case (Inl e)
  then show ?thesis using assms(1) start_err complete_err fail_err create_err
    by (cases c) (auto simp: exec_call_def seen_def machine_def split: prod.splits)
next
  case (Inr v)
  note run = assms(1) [unfolded Inr]
  show ?thesis
  proof (cases c)
    case (CallCreate x d u)
    have ok: "ExecuteWorkflowCreate rt \<lparr>tc_store = st, tc_recorder = rec\<rparr> x d u w = (Inr v, w')"
      using run by (auto simp: exec_call_def CallCreate machine_def split: prod.splits)
    show ?thesis using create_ok [OF ok] assms(2) [OF CallCreate] res_id
      by (auto simp: seen_def intro!: wf_step.created)
  next
    case (CallStart i)
    then show ?thesis using run start_ok(1) [of i w m v w' m'] res_key
      by (auto simp: exec_call_def seen_def intro: wf_step.moved)
  next
    case (CallComplete i b)
    then show ?thesis using run complete_ok(1) [of i b w m v w' m'] res_key
      by (auto simp: exec_call_def seen_def intro: wf_step.moved)
  next
    case (CallFail i reason)
    then show ?thesis using run fail_ok [of i reason w m v w' m'] res_key
      by (auto simp: exec_call_def seen_def intro: wf_step.moved)
  next
    case (CallCallback q)
    then show ?thesis using run callback_step by (auto simp: exec_call_def split: prod.splits)
  qed
qed

text \<open>Only a creation adds a row, and it adds the row of the id it names.\<close>

lemma exec_call_new_rows:
  assumes "exec_call rt machine c (w, m) = (r, (w', m'))"
    and "rows w j = None" and "\<And>x d u. c = CallCreate x d u \<Longrightarrow> j \<noteq> id_key (wf_ID x)"
  shows "rows w' j = None"
proof (cases r)
  case (Inl e)
  then show ?thesis using assms start_err complete_err fail_err create_err
    by (cases c) (auto simp: exec_call_def seen_def machine_def split: prod.splits)
next
  case (Inr v)
  note run = assms(1) [unfolded Inr]
  show ?thesis
  proof (cases c)
    case (CallCreate x d u)
    have ok: "ExecuteWorkflowCreate rt \<lparr>tc_store = st, tc_recorder = rec\<rparr> x d u w = (Inr v, w')"
      using run by (auto simp: exec_call_def CallCreate machine_def split: prod.splits)
    show ?thesis using create_ok [OF ok] assms(2) assms(3) [OF CallCreate] by auto
  next
    case (CallStart i)
    then show ?thesis using run start_ok(1) [of i w m v w' m'] assms(2)
      by (auto simp: exec_call_def moves_def)
  next
    case (CallComplete i b)
    then show ?thesis using run complete_ok(1) [of i b w m v w' m'] assms(2)
      by (auto simp: exec_call_def moves_def)
  next
    case (CallFail i reason)
    then show ?thesis using run fail_ok [of i reason w m v w' m'] assms(2)
      by (auto simp: exec_call_def moves_def)
  next
    case (CallCallback q)
    then show ?thesis using run callback_new_rows assms(2) by (auto simp: exec_call_def split: prod.splits)
  qed
qed

lemma run_calls_refines:
  assumes "creates_pending cs" and "distinct (created_ids cs)"
    and "\<forall>u\<in>set (created_ids cs). rows (fst s) (id_key u) = None"
  shows "wf_run (range id_key) res (seen (fst s)) (seen (fst (run_calls rt machine cs s)))"
  using assms
proof (induction cs arbitrary: s)
  case Nil
  then show ?case by simp
next
  case (Cons c cs)
  obtain w m where s: "s = (w, m)" by fastforce
  obtain r w' m' where x: "exec_call rt machine c (w, m) = (r, (w', m'))" by (metis prod.exhaust)
  have step: "wf_run (range id_key) res (seen w) (seen w')"
    using exec_call_step [OF x] Cons.prems by (cases c) (fastforce simp: s)+
  have new: "rows w' (id_key u) = None" if u: "u \<in> set (created_ids cs)" for u
    using Cons.prems u id_inj
    by (intro exec_call_new_rows [OF x]) (cases c; auto simp: s dest: injD)+
  have pend: "creates_pending cs" "distinct (created_ids cs)"
    using Cons.prems by (cases c; simp)+
  from Cons.IH [OF pend, of "(w', m')"] new step show ?case by (simp add: s x)
qed

lemma run_calls_replay:
  assumes "creates_pending cs" and "distinct (created_ids cs)" and "rows w = Map.empty" and "logs w = []"
  shows "replay (logs (fst (run_calls rt machine cs (w, m)))) Map.empty (res (id_key u)) =
     map_option fst (rows (fst (run_calls rt machine cs (w, m))) (id_key u))"
proof -
  have "replay_agrees (range id_key) res (seen w)"
    using assms(3,4) by (simp add: replay_agrees_def seen_def)
  from replay_agrees_run [OF run_calls_refines [OF assms(1,2), of "(w, m)"] res_inj] this assms(3)
  have "replay_agrees (range id_key) res (seen (fst (run_calls rt machine cs (w, m))))" by simp
  then show ?thesis by (simp add: replay_agrees_def seen_def)
qed

lemma run_calls_bound:
  assumes "creates_pending cs" and "distinct (created_ids cs)" and "rows w = Map.empty" and "logs w = []"
  shows "length (transitions_of (res (id_key u)) (logs (fst (run_calls rt machine cs (w, m))))) \<le> 2"
proof -
  have "rank_bound (range id_key) res (seen w)"
    using assms(3,4) by (simp add: rank_bound_def seen_def transitions_of_def)
  from rank_bound_run [OF run_calls_refines [OF assms(1,2), of "(w, m)"] res_inj] this assms(3)
  have "rank_bound (range id_key) res (seen (fst (run_calls rt machine cs (w, m))))" by simp
  then show ?thesis by (auto simp: rank_bound_def seen_def split: option.splits dest!: spec [of _ u])
qed

text \<open>Without creations of its own id, a terminal workflow keeps its state and result for ever.\<close>

lemma run_calls_terminal:
  assumes "creates_pending cs" and "distinct (created_ids cs)"
    and "\<forall>u\<in>set (created_ids cs). rows w (id_key u) = None"
    and "rows w k = Some (p, b)" and "terminal_state p"
  shows "rows (fst (run_calls rt machine cs (w, m))) k = Some (p, b)"
  using terminal_run [OF run_calls_refines [OF assms(1,2), of "(w, m)"], of k p b] assms(3-5)
  by (simp add: seen_def)

end

section \<open>Histories on the fake store\<close>

text \<open>
  The runtime of a process on the fake store: the clock is read from the surroundings, the UUID
  functions are those of the library, of which only the round trip of a printed UUID is used.
\<close>

definition fake_runtime ::
  "(string \<Rightarrow> uuid option) \<Rightarrow> (uuid \<Rightarrow> string) \<Rightarrow> (uuid \<Rightarrow> string \<Rightarrow> uuid) \<Rightarrow> fake_state runtime" where
  "fake_runtime parse toString sha1 =
     \<lparr>time_Now = (\<lambda>(tx, s). case read_clock s of (ts, s') \<Rightarrow> (ts, (tx, s'))),
      uuid_Parse = parse, uuid_String = toString, uuid_NewSHA1 = sha1\<rparr>"

interpretation fake_client: store_client "FakeStore_methods toString" "\<lambda>i. i" toString
  fake_rows fs_AuditLogs fake_active fake_fresh "fake_trows toString" fake_tlogs "\<lambda>s. fake_kept"
  "fake_runtime parse toString sha1" rec
  for toString :: "uuid \<Rightarrow> string" and parse :: "string \<Rightarrow> uuid option"
    and sha1 :: "uuid \<Rightarrow> string \<Rightarrow> uuid" and rec :: "fake_state Recorder"
  by unfold_locales
    (auto simp: clock_keeps_def fake_runtime_def read_clock_def fake_rows_def fake_trows_def
      fake_tlogs_def committed_rows_def)

text \<open>A UUID library is sound when parsing what it prints gives the UUID back.\<close>

definition uuid_roundtrip :: "(string \<Rightarrow> uuid option) \<Rightarrow> (uuid \<Rightarrow> string) \<Rightarrow> bool" where
  "uuid_roundtrip parse toString \<longleftrightarrow> (\<forall>u. parse (toString u) = Some u)"

lemma uuid_roundtrip_inj: "uuid_roundtrip parse toString \<Longrightarrow> inj toString"
  unfolding uuid_roundtrip_def inj_def by (metis option.inject)

lemma fake_history:
  assumes "uuid_roundtrip parse toString"
  shows "history (FakeStore_methods toString) (\<lambda>i. i) toString fake_rows fs_AuditLogs fake_active
    fake_fresh (fake_trows toString) fake_tlogs (\<lambda>s. fake_kept) (fake_runtime parse toString sha1)
    (parseResourceID (fake_runtime parse toString sha1))"
  using assms uuid_roundtrip_inj [OF assms]
  by unfold_locales
    (auto simp: parseResourceID_def fake_runtime_def inj_on_def uuid_roundtrip_def)

lemma canonical_uuid_roundtrip: "uuid_roundtrip canonical_Parse canonical_String"
  by (simp add: uuid_roundtrip_def canonical_roundtrip)

interpretation fake_history: history "FakeStore_methods canonical_String" "\<lambda>i. i" canonical_String
  fake_rows fs_AuditLogs fake_active fake_fresh "fake_trows canonical_String" fake_tlogs "\<lambda>s. fake_kept"
  "fake_runtime canonical_Parse canonical_String sha1" rec
  "parseResourceID (fake_runtime canonical_Parse canonical_String sha1)"
  for sha1 :: "uuid \<Rightarrow> string \<Rightarrow> uuid" and rec :: "fake_state Recorder"
  by (rule fake_history [OF canonical_uuid_roundtrip])

text \<open>The state machine of a process whose store is the fake store.\<close>

definition fake_machine :: "(uuid \<Rightarrow> string) \<Rightarrow> fake_state Recorder \<Rightarrow> (FakeTx, FakeStore) StateMachine" where
  "fake_machine toString rec =
     \<lparr>sm_coordinator = \<lparr>tc_store = FakeStore_methods toString, tc_recorder = rec\<rparr>\<rparr>"

lemma fake_client_machine: "fake_client.machine toString rec = fake_machine toString rec"
  by (simp add: fake_client.machine_def fake_machine_def)

section \<open>The transitions on the fake store, as equations\<close>

text \<open>A transaction on the fake store whose injected faults are off.\<close>

definition fake_healthy :: "FakeStore \<Rightarrow> bool" where
  "fake_healthy s \<longleftrightarrow> \<not> fs_NextTxFailOnAudit s \<and> \<not> fs_NextTxFailOnWorkflow s \<and> \<not> fs_NextTxFailOnGetWorkflow s"

lemmas fake_run_defs =
  with_tx_def FakeStore_methods_def FakeTx_methods_def FakeStore_BeginTx_def fake_tx_defs
  fake_machine_def fake_healthy_def insert_event_def call_def callw_def always_def
  fake_runtime_def read_clock_def retn_def throw_def Let_def then_count_def

lemma fake_start_succeeds:
  assumes "fake_healthy s" and "map_of (fs_Workflows s) i = Some x"
    and "wf_State x = WorkflowStatePending"
  shows "\<exists>s'. StateMachine_Start (fake_runtime parse toString sha1) (fake_machine toString rec) i (s, m) =
    (Inr (), (s', IncWorkflowTransition WorkflowStatePending WorkflowStateRunning m))"
  using assms
  by (simp add: StateMachine_Start_def fake_run_defs RecordTransitionedToRunning_def IsValidTransition_iff)

lemma fake_complete_succeeds:
  assumes "fake_healthy s" and "map_of (fs_Workflows s) i = Some x"
    and "wf_State x = WorkflowStateRunning"
  shows "\<exists>s'. StateMachine_Complete (fake_runtime parse toString sha1) (fake_machine toString rec) i b (s, m) =
    (Inr (), (s', IncWorkflowTransition WorkflowStateRunning WorkflowStateCompleted m))"
  using assms
  by (simp add: StateMachine_Complete_def fake_run_defs RecordCompleted_def IsValidTransition_iff)

lemma fake_invalid_refused:
  assumes "fake_healthy s" and "map_of (fs_Workflows s) i = Some x"
  shows "\<not> IsValidTransition (wf_State x) WorkflowStateRunning \<Longrightarrow>
      \<exists>s'. StateMachine_Start (fake_runtime parse toString sha1) (fake_machine toString rec) i (s, m) =
        (Inl (wrap1 ''state machine start'' (Sentinel ErrInvalidTransition)), (s', m))"
    and "\<not> IsValidTransition (wf_State x) WorkflowStateCompleted \<Longrightarrow>
      \<exists>s'. StateMachine_Complete (fake_runtime parse toString sha1) (fake_machine toString rec) i b (s, m) =
        (Inl (wrap1 ''state machine complete'' (Sentinel ErrInvalidTransition)), (s', m))"
    and "\<not> IsValidTransition (wf_State x) WorkflowStateFailed \<Longrightarrow>
      \<exists>s'. StateMachine_Fail (fake_runtime parse toString sha1) (fake_machine toString rec) i reason (s, m) =
        (Inl (wrap1 ''state machine fail'' (Sentinel ErrInvalidTransition)), (s', m))"
  using assms by (simp_all add: state_machine_defs fake_run_defs)

end
