(* ===== verification/Pg_Workflow.thy ===== *)
theory Pg_Workflow
  imports Database Workflow_History
begin

text \<open>
  internal/store/pg_store.go and audit_query.go: the WorkflowStore on PostgreSQL. The texts of the
  errors are given in English; the code has them in Korean.
\<close>

section \<open>The statements\<close>

definition workflow_status_enum :: "string list" where
  "workflow_status_enum = [''PENDING'', ''RUNNING'', ''COMPLETED'', ''FAILED'']"

text \<open>
  The row of a workflow: status is an enum, result_json is JSONB, document_id and report_id are
  foreign keys.
\<close>

definition insert_workflow_stmt :: "workflow_row \<Rightarrow> nat statement" where
  "insert_workflow_stmt r = (\<lambda>now u d.
     if wr_status r \<notin> set workflow_status_enum then Inl (PgError ''22P02'')
     else case jsonb_opt d (wr_result_json r) of Inl e \<Rightarrow> Inl e | Inr kept \<Rightarrow>
     if wr_id r \<in> wr_id ` set (db_workflows d) then Inl (PgError ''23505'')
     else if (case wr_document_id r of None \<Rightarrow> False | Some i \<Rightarrow> i \<notin> set (db_documents d)) \<or>
             (case wr_report_id r of None \<Rightarrow> False | Some i \<Rightarrow> i \<notin> set (db_reports d))
     then Inl (PgError ''23503'')
     else Inr (1, d\<lparr>db_workflows := db_workflows d @ [r\<lparr>wr_result_json := kept,
       wr_created_at := micros (wr_created_at r), wr_updated_at := micros (wr_updated_at r)\<rparr>]\<rparr>))"

text \<open>UPDATE workflows ... WHERE id = i, with the number of rows affected.\<close>

definition update_workflow :: "uuid \<Rightarrow> (workflow_row \<Rightarrow> workflow_row) \<Rightarrow> nat statement" where
  "update_workflow i f = (\<lambda>now u d.
     Inr (length (List.filter (\<lambda>r. wr_id r = i) (db_workflows d)),
          d\<lparr>db_workflows := row_update wr_id i f (db_workflows d)\<rparr>))"

definition update_status_stmt :: "uuid \<Rightarrow> string \<Rightarrow> nat statement" where
  "update_status_stmt i q = (\<lambda>now u d.
     if q \<notin> set workflow_status_enum then Inl (PgError ''22P02'')
     else update_workflow i (\<lambda>r. r\<lparr>wr_status := q, wr_updated_at := now\<rparr>) now u d)"

definition update_result_stmt :: "uuid \<Rightarrow> bytes option \<Rightarrow> nat statement" where
  "update_result_stmt i b = (\<lambda>now u d. case jsonb_opt d b of Inl e \<Rightarrow> Inl e | Inr kept \<Rightarrow>
     update_workflow i (\<lambda>r. r\<lparr>wr_result_json := kept, wr_updated_at := now\<rparr>) now u d)"

lemma update_result_Inr:
  "update_result_stmt i b now u d = Inr x \<longleftrightarrow> (\<exists>kept. jsonb_opt d b = Inr kept \<and>
     update_workflow i (\<lambda>r. r\<lparr>wr_result_json := kept, wr_updated_at := now\<rparr>) now u d = Inr x)"
  by (auto simp: update_result_stmt_def split: sum.splits)

section \<open>PgWorkflowTx\<close>

definition PgWorkflowStore_BeginTx :: "(pg_world, pg_tx) eff" where
  "PgWorkflowStore_BeginTx =
     callw pool_BeginTx (\<lambda>e. wrap1 ''BeginTx failed'' (Sentinel ErrPgxPoolExhausted)) retn"

definition PgWorkflowTx_InsertWorkflow :: "workflow \<Rightarrow> (pg_state, unit) eff" where
  "PgWorkflowTx_InsertWorkflow x =
     (let docID = (if wf_DocumentID x \<noteq> uuid_Nil then Some (wf_DocumentID x) else None)
      in callw (pg_run (insert_workflow_stmt
             \<lparr>wr_id = wf_ID x, wr_status = wf_State x, wr_document_id = docID,
              wr_report_id = wf_ReportID x, wr_result_json = wf_ResultJSON x,
              wr_created_at = wf_CreatedAt x, wr_updated_at = wf_UpdatedAt x\<rparr>))
           (\<lambda>e. if e = PgError ''23505'' then wrap1 ''duplicate workflow id (SQLSTATE 23505)'' e
                else wrap1 ''InsertWorkflow failed'' e)
           (\<lambda>_. retn ()))"

definition scan_workflow :: "workflow_row \<Rightarrow> workflow" where
  "scan_workflow r =
     \<lparr>wf_CreatedAt = wr_created_at r, wf_UpdatedAt = wr_updated_at r, wf_ReportID = wr_report_id r,
      wf_State = wr_status r, wf_ResultJSON = wr_result_json r, wf_ID = wr_id r,
      wf_DocumentID = (case wr_document_id r of None \<Rightarrow> uuid_Nil | Some i \<Rightarrow> i)\<rparr>"

definition PgWorkflowTx_GetWorkflow :: "(string \<Rightarrow> uuid option) \<Rightarrow> string \<Rightarrow> (pg_state, workflow) eff" where
  "PgWorkflowTx_GetWorkflow parse i =
     (case parse i of
        None \<Rightarrow> throw (wrap1 ''workflow id parse failed'' (LibError ''invalid UUID''))
      | Some parsedID \<Rightarrow>
          callw (pg_query_row (\<lambda>d. row_lookup wr_id (db_workflows d) parsedID))
            (\<lambda>e. if e = Sentinel pgx_ErrNoRows then wrap1 ''GetWorkflow id'' (Sentinel ErrWorkflowNotFound)
                 else wrap1 ''GetWorkflow failed'' e)
            (\<lambda>r. retn (scan_workflow r)))"

definition PgWorkflowTx_UpdateWorkflowState ::
  "(string \<Rightarrow> uuid option) \<Rightarrow> string \<Rightarrow> workflow_state \<Rightarrow> (pg_state, unit) eff" where
  "PgWorkflowTx_UpdateWorkflowState parse i q =
     (case parse i of
        None \<Rightarrow> throw (wrap1 ''workflow id parse failed'' (LibError ''invalid UUID''))
      | Some parsedID \<Rightarrow>
          callw (pg_run (update_status_stmt parsedID q)) (wrap1 ''UpdateWorkflowState failed'') (\<lambda>n.
            if n = 0 then throw (wrap1 ''UpdateWorkflowState id'' (Sentinel ErrWorkflowNotFound))
            else retn ()))"

definition PgWorkflowTx_UpdateWorkflowResult ::
  "(string \<Rightarrow> uuid option) \<Rightarrow> string \<Rightarrow> bytes option \<Rightarrow> (pg_state, unit) eff" where
  "PgWorkflowTx_UpdateWorkflowResult parse i b =
     (case parse i of
        None \<Rightarrow> throw (wrap1 ''workflow id parse failed'' (LibError ''invalid UUID''))
      | Some parsedID \<Rightarrow>
          callw (pg_run (update_result_stmt parsedID b)) (wrap1 ''UpdateWorkflowResult failed'') (\<lambda>n.
            if n = 0 then throw (wrap1 ''UpdateWorkflowResult id'' (Sentinel ErrWorkflowNotFound))
            else retn ()))"

definition PgWorkflowTx_InsertAuditLog :: "audit_event \<Rightarrow> (pg_state, unit) eff" where
  "PgWorkflowTx_InsertAuditLog e =
     insert_audit ''InsertAuditLog failed'' e"

definition PgWorkflowTx_Commit :: "(pg_state, unit) eff" where
  "PgWorkflowTx_Commit = callw pg_commit (wrap1 ''Commit failed'') (\<lambda>_. retn ())"

definition PgWorkflowTx_Rollback :: "(pg_state, unit) eff" where
  "PgWorkflowTx_Rollback s =
     (case pg_rollback s of
        (Inl e, s') \<Rightarrow> if e = Sentinel pgx_ErrTxClosed then (Inr (), s')
                      else (Inl (wrap1 ''Rollback failed'' e), s')
      | (Inr u, s') \<Rightarrow> (Inr (), s'))"

definition PgWorkflowStore_ListWorkflows :: "int \<Rightarrow> int \<Rightarrow> (pg_world, workflow list) eff" where
  "PgWorkflowStore_ListWorkflows limit offset w =
     (case read_fault w of
        (Some msg, w') \<Rightarrow> (Inl (wrap1 ''ListWorkflows failed'' (LibError msg)), w')
      | (None, w') \<Rightarrow>
          (case limit_offset limit offset
                  (sort_key (\<lambda>r. - wr_created_at r) (db_workflows (pg_committed w'))) of
             Inl e \<Rightarrow> (Inl (wrap1 ''ListWorkflows failed'' e), w')
           | Inr rs \<Rightarrow> (Inr (map scan_workflow rs), w')))"

text \<open>
  QueryAuditLogs builds a list of conditions and of arguments; a condition here is its meaning on
  a row. COUNT(star) OVER() is a column of the returned rows: with no row returned, total stays 0.
\<close>

definition audit_conditions :: "AuditLogFilter \<Rightarrow> (audit_row \<Rightarrow> bool) list" where
  "audit_conditions flt =
     [\<lambda>r. True]
     @ (case flt_Action flt of None \<Rightarrow> [] | Some a \<Rightarrow> [\<lambda>r. ar_action r = a])
     @ (case flt_ResourceType flt of None \<Rightarrow> [] | Some a \<Rightarrow> [\<lambda>r. ar_resource_type r = a])
     @ (case flt_ResourceID flt of None \<Rightarrow> [] | Some a \<Rightarrow> [\<lambda>r. ar_resource_id r = a])
     @ (case flt_UserID flt of None \<Rightarrow> [] | Some a \<Rightarrow> [\<lambda>r. ar_user_id r = a])
     @ (case flt_Since flt of None \<Rightarrow> [] | Some a \<Rightarrow> [\<lambda>r. ar_timestamp r \<ge> micros a])
     @ (case flt_Until flt of None \<Rightarrow> [] | Some a \<Rightarrow> [\<lambda>r. ar_timestamp r \<le> micros a])"

definition audit_select :: "AuditLogFilter \<Rightarrow> int \<Rightarrow> int \<Rightarrow> (audit_row \<times> int) list statement" where
  "audit_select flt limit offset = (\<lambda>now u d.
     if \<not> list_all (\<lambda>x. case x of None \<Rightarrow> True | Some a \<Rightarrow> text_ok a) [flt_Action flt, flt_ResourceType flt, flt_UserID flt]
     then Inl (PgError ''22021'')
     else let matched = List.filter (\<lambda>r. list_all (\<lambda>c. c r) (audit_conditions flt)) (db_audit_logs d);
         sorted = sort_key (\<lambda>r. - ar_timestamp r) matched
     in case limit_offset limit offset sorted of
          Inl e \<Rightarrow> Inl e
        | Inr page \<Rightarrow> Inr (map (\<lambda>r. (r, int (length matched))) page, d))"

text \<open>The scan loop: each row sets total and appends its event.\<close>

fun scan_audit_rows :: "(audit_row \<times> int) list \<Rightarrow> audit_event list \<Rightarrow> int \<Rightarrow> audit_event list \<times> int" where
  "scan_audit_rows [] events n = (events, n)"
| "scan_audit_rows ((r, m) # rs) events n = scan_audit_rows rs (events @ [audit_row_event r]) m"

definition PgWorkflowTx_QueryAuditLogs ::
  "AuditLogFilter \<Rightarrow> int \<Rightarrow> int \<Rightarrow> (pg_state, audit_event list \<times> int) eff" where
  "PgWorkflowTx_QueryAuditLogs flt limit offset =
     callw (pg_run (audit_select flt limit offset)) (wrap1 ''QueryAuditLogs failed'') (\<lambda>rows.
       retn (scan_audit_rows rows [] 0))"

definition PgWorkflowTx_methods :: "(string \<Rightarrow> uuid option) \<Rightarrow> pg_state WorkflowTx" where
  "PgWorkflowTx_methods parse =
     \<lparr>tx_InsertWorkflow = PgWorkflowTx_InsertWorkflow, tx_InsertAuditLog = PgWorkflowTx_InsertAuditLog,
      tx_UpdateWorkflowState = PgWorkflowTx_UpdateWorkflowState parse,
      tx_GetWorkflow = PgWorkflowTx_GetWorkflow parse,
      tx_UpdateWorkflowResult = PgWorkflowTx_UpdateWorkflowResult parse,
      tx_QueryAuditLogs = PgWorkflowTx_QueryAuditLogs,
      tx_Commit = PgWorkflowTx_Commit, tx_Rollback = PgWorkflowTx_Rollback\<rparr>"

definition PgWorkflowStore_methods :: "(string \<Rightarrow> uuid option) \<Rightarrow> (pg_tx, pg_world) WorkflowStore" where
  "PgWorkflowStore_methods parse =
     \<lparr>st_BeginTx = PgWorkflowStore_BeginTx, st_ListWorkflows = PgWorkflowStore_ListWorkflows,
      st_tx = PgWorkflowTx_methods parse\<rparr>"

section \<open>The store on PostgreSQL meets the contract\<close>

definition pg_rows :: "db \<Rightarrow> uuid option rows" where
  "pg_rows d k = (case k of None \<Rightarrow> None
     | Some i \<Rightarrow> map_option (\<lambda>r. (wr_status r, wr_result_json r)) (row_lookup wr_id (db_workflows d) i))"

definition pg_kept :: "pg_state \<Rightarrow> bytes option \<Rightarrow> bytes option \<Rightarrow> bool" where
  "pg_kept s c c' \<longleftrightarrow> jsonb_opt (ptx_work (fst s)) c = Inr c'"

definition pg_live :: "pg_tx \<Rightarrow> bool" where
  "pg_live t \<longleftrightarrow> \<not> ptx_closed t"

lemma pg_rows_simps [simp]:
  "pg_rows d None = None"
  "pg_rows (d\<lparr>db_audit_logs := l\<rparr>) = pg_rows d"
  by (auto simp: pg_rows_def fun_eq_iff split: option.splits)

lemma pg_logs_workflows [simp]: "pg_logs (d\<lparr>db_workflows := x\<rparr>) = pg_logs d"
  by (simp add: pg_logs_def)

lemma pg_rows_update:
  assumes "\<And>r. wr_id (f r) = wr_id r" and "pg_rows d (Some i) = Some (p, b)"
    and "\<And>r. wr_status r = p \<Longrightarrow> wr_result_json r = b \<Longrightarrow> (wr_status (f r), wr_result_json (f r)) = v"
  shows "pg_rows (d\<lparr>db_workflows := row_update wr_id i f (db_workflows d)\<rparr>) = (pg_rows d)(Some i \<mapsto> v)"
  using assms by (auto simp: pg_rows_def fun_eq_iff split: option.splits)

lemma pg_rows_insert:
  "wr_id r \<notin> wr_id ` set (db_workflows d) \<Longrightarrow>
   pg_rows (d\<lparr>db_workflows := db_workflows d @ [r]\<rparr>) =
     (pg_rows d)(Some (wr_id r) \<mapsto> (wr_status r, wr_result_json r))"
  by (auto simp: pg_rows_def fun_eq_iff row_lookup_None_iff [THEN iffD2] split: option.splits)

lemma PgWorkflowTx_Rollback_keeps: "keeps published PgWorkflowTx_Rollback"
  using pg_rollback_keeps
  by (auto simp: keeps_def PgWorkflowTx_Rollback_def split: prod.splits sum.splits)
    (metis snd_conv)+

lemma PgWorkflowTx_keeps [eff_intros]:
  "keeps published (PgWorkflowTx_InsertWorkflow x)"
  "keeps published (PgWorkflowTx_InsertAuditLog e)"
  "keeps published (PgWorkflowTx_UpdateWorkflowState parse i q)"
  "keeps published (PgWorkflowTx_GetWorkflow parse i)"
  "keeps published (PgWorkflowTx_UpdateWorkflowResult parse i b)"
  "keeps published (PgWorkflowTx_QueryAuditLogs flt l n)"
  unfolding PgWorkflowTx_InsertWorkflow_def PgWorkflowTx_InsertAuditLog_def Let_def
    PgWorkflowTx_UpdateWorkflowState_def PgWorkflowTx_GetWorkflow_def
    PgWorkflowTx_UpdateWorkflowResult_def PgWorkflowTx_QueryAuditLogs_def
  by (intro eff_intros)+

lemma PgWorkflowTx_Commit_keeps_err: "keeps_err published PgWorkflowTx_Commit"
  unfolding PgWorkflowTx_Commit_def by (rule keeps_err_last [OF pg_commit_keeps_err])

lemma keeps_published: "keeps published m \<Longrightarrow>
    keeps (\<lambda>s. (pg_rows (pg_committed (snd s)), pg_logs (pg_committed (snd s)))) m"
  by (simp add: keeps_def published_def)

lemma keeps_err_published: "keeps_err published m \<Longrightarrow>
    keeps_err (\<lambda>s. (pg_rows (pg_committed (snd s)), pg_logs (pg_committed (snd s)))) m"
  by (auto simp: keeps_err_def published_def)

lemma PgWorkflowStore_BeginTx_keeps: "keeps pg_committed PgWorkflowStore_BeginTx"
  unfolding PgWorkflowStore_BeginTx_def by (intro eff_intros pool_BeginTx_keeps)

lemma PgWorkflowStore_ListWorkflows_keeps: "keeps pg_committed (PgWorkflowStore_ListWorkflows n m)"
  by (auto simp: keeps_def PgWorkflowStore_ListWorkflows_def read_fault_def split: option.splits sum.splits)

lemmas pg_workflow_defs =
  PgWorkflowStore_methods_def PgWorkflowTx_methods_def PgWorkflowStore_BeginTx_def
  PgWorkflowTx_InsertWorkflow_def PgWorkflowTx_GetWorkflow_def PgWorkflowTx_UpdateWorkflowState_def
  PgWorkflowTx_UpdateWorkflowResult_def PgWorkflowTx_InsertAuditLog_def PgWorkflowTx_Commit_def

lemma pg_get_ok:
  assumes "PgWorkflowTx_GetWorkflow parse i s = (Inr x, s')"
  shows "fst s' = fst s" "\<not> ptx_closed (fst s)"
    and "pg_rows (ptx_work (fst s)) (parse i) = Some (wf_State x, wf_ResultJSON x)"
proof -
  from assms obtain u r where "parse i = Some u" "row_lookup wr_id (db_workflows (ptx_work (fst s))) u = Some r"
    "x = scan_workflow r" "fst s' = fst s" "\<not> ptx_closed (fst s)"
    by (auto simp: PgWorkflowTx_GetWorkflow_def eff_simps pg_query_row_Inr_iff split: option.splits)
  then show "fst s' = fst s" "\<not> ptx_closed (fst s)"
    "pg_rows (ptx_work (fst s)) (parse i) = Some (wf_State x, wf_ResultJSON x)"
    by (simp_all add: pg_rows_def scan_workflow_def)
qed

interpretation pg: workflow_store "PgWorkflowStore_methods parse" parse Some
  "\<lambda>w. pg_rows (pg_committed w)" "\<lambda>w. pg_logs (pg_committed w)" pg_live pg_live
  "\<lambda>s. pg_rows (ptx_work (fst s))" "\<lambda>s. pg_logs (ptx_work (fst s))" pg_kept
  for parse :: "string \<Rightarrow> uuid option"
proof (unfold_locales, goal_cases)
  case 1
  show ?case using PgWorkflowStore_BeginTx_keeps by (simp add: keeps_def PgWorkflowStore_methods_def)
next
  case (17 n m)
  show ?case using PgWorkflowStore_ListWorkflows_keeps by (simp add: keeps_def PgWorkflowStore_methods_def)
next
  case (2 w t w')
  then show ?case
    by (auto simp: PgWorkflowStore_methods_def PgWorkflowStore_BeginTx_def eff_simps
        pool_BeginTx_Inr_iff pg_live_def)
next
  case (10 s u s')
  then show ?case
    by (auto simp: PgWorkflowStore_methods_def PgWorkflowTx_methods_def PgWorkflowTx_Commit_def
        eff_simps pg_commit_Inr_iff)
next
  case (11 i s x s')
  then have "PgWorkflowTx_GetWorkflow parse i s = (Inr x, s')"
    by (simp add: PgWorkflowStore_methods_def PgWorkflowTx_methods_def)
  from pg_get_ok [OF this] show ?case by (auto simp: pg_live_def)
next
  case (12 x s u s')
  then show ?case
    by (auto simp: PgWorkflowStore_methods_def PgWorkflowTx_methods_def PgWorkflowTx_InsertWorkflow_def
        Let_def eff_simps pg_run_Inr_iff insert_workflow_stmt_def pg_live_def pg_rows_insert pg_kept_def
        split: if_splits sum.splits)
next
  case (13 e s u s')
  then have "insert_audit ''InsertAuditLog failed'' e s = (Inr u, s')"
    by (simp add: PgWorkflowStore_methods_def PgWorkflowTx_methods_def PgWorkflowTx_InsertAuditLog_def)
  then show ?case by (rule insert_audit_ok) (auto simp: pg_live_def audit_row_event_def intro!: exI [of _ "micros (ev_Timestamp e)"])
next
  case (14 e s er s')
  then have "insert_audit ''InsertAuditLog failed'' e s = (Inl er, s')"
    by (simp add: PgWorkflowStore_methods_def PgWorkflowTx_methods_def PgWorkflowTx_InsertAuditLog_def)
  then show ?case using 14(2) insert_audit_err by (auto simp: pg_live_def)
next
  case (15 i q s u s' p b)
  then show ?case
    by (auto simp: PgWorkflowStore_methods_def PgWorkflowTx_methods_def PgWorkflowTx_UpdateWorkflowState_def
        eff_simps pg_run_Inr_iff update_status_stmt_def update_workflow_def pg_live_def
        intro!: pg_rows_update [where p = p and b = b] split: if_splits option.splits)
next
  case (16 i c s u s' p b)
  then show ?case
    by (auto simp: PgWorkflowStore_methods_def PgWorkflowTx_methods_def PgWorkflowTx_UpdateWorkflowResult_def
        eff_simps pg_run_Inr_iff update_result_Inr update_workflow_def pg_live_def pg_kept_def
        intro!: exI conjI pg_rows_update [where p = p and b = b] split: if_splits option.splits)
qed (auto simp: PgWorkflowStore_methods_def PgWorkflowTx_methods_def
      intro!: keeps_published keeps_err_published PgWorkflowTx_keeps PgWorkflowTx_Rollback_keeps
        PgWorkflowTx_Commit_keeps_err)

interpretation pg_client: store_client "PgWorkflowStore_methods parse" parse Some
  "\<lambda>w. pg_rows (pg_committed w)" "\<lambda>w. pg_logs (pg_committed w)" pg_live pg_live
  "\<lambda>s. pg_rows (ptx_work (fst s))" "\<lambda>s. pg_logs (ptx_work (fst s))" pg_kept
  "pg_runtime parse toString sha1" rec
  for parse :: "string \<Rightarrow> uuid option" and toString :: "uuid \<Rightarrow> string"
    and sha1 :: "uuid \<Rightarrow> string \<Rightarrow> uuid" and rec :: "pg_state Recorder"
  by unfold_locales (auto simp: clock_keeps_def pg_runtime_def read_clock_def)

lemma pg_history:
  assumes "uuid_roundtrip parse toString"
  shows "history (PgWorkflowStore_methods parse) parse Some
    (\<lambda>w. pg_rows (pg_committed w)) (\<lambda>w. pg_logs (pg_committed w)) pg_live pg_live
    (\<lambda>s. pg_rows (ptx_work (fst s))) (\<lambda>s. pg_logs (ptx_work (fst s))) pg_kept
    (pg_runtime parse toString sha1) (\<lambda>k. case k of None \<Rightarrow> uuid_Nil | Some u \<Rightarrow> u)"
  using assms
  by unfold_locales (auto simp: parseResourceID_def pg_runtime_def inj_on_def uuid_roundtrip_def)

interpretation pg_history: history "PgWorkflowStore_methods canonical_Parse" canonical_Parse Some
  "\<lambda>w. pg_rows (pg_committed w)" "\<lambda>w. pg_logs (pg_committed w)" pg_live pg_live
  "\<lambda>s. pg_rows (ptx_work (fst s))" "\<lambda>s. pg_logs (ptx_work (fst s))" pg_kept
  "pg_runtime canonical_Parse canonical_String sha1" rec "\<lambda>k. case k of None \<Rightarrow> uuid_Nil | Some u \<Rightarrow> u"
  for sha1 :: "uuid \<Rightarrow> string \<Rightarrow> uuid" and rec :: "pg_state Recorder"
  by (rule pg_history [OF canonical_uuid_roundtrip])

end
