(* ===== verification/Samples.thy ===== *)
theory Samples
  imports Database Http
begin

text \<open>
  The concrete values at which the properties are applied: surroundings without faults whose clock
  and id generator count, a database world and an open transaction over given tables, and a codec
  that is exact.
\<close>

definition sample_env :: env where
  "sample_env = \<lparr>env_clock = (\<lambda>n. int n), env_ids = (\<lambda>n. 1000 + word_of_nat n),
     env_faults = (\<lambda>n. None), env_pos = 0\<rparr>"

definition sample_pg :: "db \<Rightarrow> pg_world" where
  "sample_pg d = env.extend sample_env \<lparr>pg_committed = d\<rparr>"

lemma sample_pg_simps [simp]:
  "pg_committed (sample_pg d) = d" "env_faults (sample_pg d) n = None" "env_pos (sample_pg d) = 0"
  "no_faults (sample_pg d)" "env_ids (sample_pg d) n = 1000 + word_of_nat n"
  "env_clock (sample_pg d) n = int n"
  by (simp_all add: sample_pg_def env.defs sample_env_def no_faults_def)

definition sample_tx :: "db \<Rightarrow> pg_state" where
  "sample_tx d = (\<lparr>ptx_work = d, ptx_now = 9, ptx_aborted = False, ptx_closed = False\<rparr>, sample_pg d)"

lemma sample_tx_simps [simp]:
  "ptx_work (fst (sample_tx d)) = d" "ptx_now (fst (sample_tx d)) = 9"
  "\<not> ptx_aborted (fst (sample_tx d))" "\<not> ptx_closed (fst (sample_tx d))" "snd (sample_tx d) = sample_pg d"
  by (simp_all add: sample_tx_def)

definition exact_codec :: num_codec where
  "exact_codec =
     \<lparr>to_numeric = (\<lambda>p s x. case x of
        Fin a \<Rightarrow> num_cast p s (Num a) | NaN \<Rightarrow> Inr NumNaN | _ \<Rightarrow> Inl (PgError ''22003'')),
      of_numeric = (\<lambda>n. case n of Num a \<Rightarrow> Fin a | NumNaN \<Rightarrow> NaN)\<rparr>"

text \<open>An open transaction without faults, whose generated ids are not in use in the audit log.\<close>

definition live :: "pg_state \<Rightarrow> bool" where
  "live s \<longleftrightarrow> no_faults (snd s) \<and> \<not> ptx_aborted (fst s) \<and> \<not> ptx_closed (fst s) \<and>
     (\<forall>n. env_ids (snd s) n \<notin> ar_id ` set (db_audit_logs (ptx_work (fst s))))"

lemma live_sample [simp]: "live (sample_tx d) \<longleftrightarrow> (\<forall>n. 1000 + word_of_nat n \<notin> ar_id ` set (db_audit_logs d))"
  by (simp add: live_def)

text \<open>The begin and the commit of a store, without faults.\<close>

lemma live_begin:
  assumes "no_faults w" and "\<forall>n. env_ids w n \<notin> ar_id ` set (db_audit_logs (pg_committed w))"
  shows "\<exists>t w1. callw pool_BeginTx f retn w = (Inr t, w1) \<and> live (t, w1) \<and> ptx_work t = pg_committed w"
  using assms by (simp add: pool_BeginTx_def live_def pg_statements)

lemma live_commit:
  "no_faults (snd s) \<Longrightarrow> \<not> ptx_aborted (fst s) \<Longrightarrow> \<not> ptx_closed (fst s) \<Longrightarrow>
   \<exists>s'. callw pg_commit f (\<lambda>u. retn ()) s = (Inr (), s') \<and> pg_committed (snd s') = ptx_work (fst s)"
  by (cases s) (simp add: pg_commit_def pg_statements)

text \<open>A request as its handler sees it.\<close>

definition plain_request :: "string \<Rightarrow> json option \<Rightarrow> User option \<Rightarrow> request" where
  "plain_request i body u = \<lparr>req_Method = ''POST'', req_Path = ''/api/v1'', req_Authorization = [],
     req_PathID = i, req_Query = (\<lambda>_. []), req_ContentLength = (case body of None \<Rightarrow> 0 | Some _ \<Rightarrow> 64),
     req_Body = body, req_User = u, req_Granted = None\<rparr>"

lemma plain_request_simps [simp]:
  "req_PathID (plain_request i body u) = i" "req_Body (plain_request i body u) = body"
  "UserFromContext (plain_request i body u) = u" "req_Query (plain_request i body u) k = []"
  "req_ContentLength (plain_request i body u) = (case body of None \<Rightarrow> 0 | Some _ \<Rightarrow> 64)"
  by (simp_all add: plain_request_def UserFromContext_def)

end
