(* ===== verification/Workflow_Properties.thy ===== *)
theory Workflow_Properties
  imports Pg_Workflow Samples
begin

text \<open>
  The properties of workflows: their life cycle on both stores, the atomicity of every operation
  and what the audit log says about them, and the search of the audit log.
\<close>

section \<open>The state machine on PostgreSQL\<close>

definition pg_machine :: "(string \<Rightarrow> uuid option) \<Rightarrow> pg_state Recorder \<Rightarrow> (pg_tx, pg_world) StateMachine" where
  "pg_machine parse rec =
     \<lparr>sm_coordinator = \<lparr>tc_store = PgWorkflowStore_methods parse, tc_recorder = rec\<rparr>\<rparr>"

lemma pg_client_machine: "pg_client.machine parse rec = pg_machine parse rec"
  by (simp add: pg_client.machine_def pg_machine_def)

text \<open>A database as the migrations leave it: no workflow and no audit row.\<close>

definition pg_empty :: "pg_world \<Rightarrow> bool" where
  "pg_empty w \<longleftrightarrow> db_workflows (pg_committed w) = [] \<and> db_audit_logs (pg_committed w) = []"

lemma pg_empty_view:
  "pg_empty w \<Longrightarrow> pg_rows (pg_committed w) = Map.empty \<and> pg_logs (pg_committed w) = []"
  by (auto simp: pg_empty_def pg_rows_def pg_logs_def fun_eq_iff split: option.splits)

lemma pg_rows_Some: "map_option fst (pg_rows d (Some u)) = map_option wr_status (row_lookup wr_id (db_workflows d) u)"
  by (simp add: pg_rows_def option.map_comp comp_def)

text \<open>A sample workflow for the witnesses.\<close>

definition sample_workflow :: "workflow_state \<Rightarrow> workflow" where
  "sample_workflow q = \<lparr>wf_CreatedAt = 5, wf_UpdatedAt = 5, wf_ReportID = None, wf_State = q,
     wf_ResultJSON = None, wf_ID = 7, wf_DocumentID = 0\<rparr>"

lemma sample_workflow_simps [simp]:
  "wf_ID (sample_workflow q) = 7" "wf_State (sample_workflow q) = q"
  by (simp_all add: sample_workflow_def)

lemma sample_pg_empty [simp]: "pg_empty (sample_pg empty_db)"
  by (simp add: pg_empty_def empty_db_def)

definition sample_callback :: callback_request where
  "sample_callback = request.extend (plain_request (canonical_String 7) (Some (JObject [(''status'', JString ''completed'')])) None)
     \<lparr>cr_ResultText = []\<rparr>"

definition sample_calls :: "wf_call list" where
  "sample_calls =
     [CallCreate (sample_workflow WorkflowStatePending) ''doc'' '''',
      CallStart (canonical_String 7), CallStart (canonical_String 7),
      CallCallback sample_callback, CallComplete (canonical_String 7) (Some [])]"

lemma sample_calls_ok [simp]: "creates_pending sample_calls" "distinct (created_ids sample_calls)"
  by (simp_all add: sample_calls_def)

section \<open>Life cycle\<close>

text \<open>
  C1: The audit log is a complete record of every workflow. Start from a database without
  workflows and run any sequence of ExecuteWorkflowCreate (in PENDING, under distinct ids), Start,
  Complete, Fail and callbacks of workers over the REST interface on the PostgreSQL store, with any
  arguments and any faults of the connection in between: replaying the audit log gives for every id exactly the status that the workflows
  table has, and no status for an id the table does not have.
\<close>

theorem audit_log_replays_workflows:
  fixes rec :: "pg_state Recorder" and m :: transition_counter and sha1 :: "uuid \<Rightarrow> string \<Rightarrow> uuid"
  assumes "uuid_roundtrip parse toString" and "creates_pending cs" and "distinct (created_ids cs)"
    and "pg_empty w"
  defines "w' \<equiv> fst (run_calls (pg_runtime parse toString sha1) (pg_machine parse rec) cs (w, m))"
  shows "replay (pg_logs (pg_committed w')) Map.empty u =
     map_option wr_status (row_lookup wr_id (db_workflows (pg_committed w')) u)"
  using history.run_calls_replay [OF pg_history [OF assms(1)], of cs w sha1 rec m u] assms(2,3)
    pg_empty_view [OF assms(4)]
  by (simp add: w'_def pg_client_machine pg_rows_Some)

theorem audit_log_replays_workflows_witness:
  "let w' = fst (run_calls (pg_runtime canonical_Parse canonical_String sample_SHA1)
        (pg_machine canonical_Parse \<lparr>rec_clock = None, rec_authEnabled = False\<rparr>)
        sample_calls (sample_pg empty_db, (\<lambda>x. 0)))
   in replay (pg_logs (pg_committed w')) Map.empty 7 =
        map_option wr_status (row_lookup wr_id (db_workflows (pg_committed w')) 7)"
  using audit_log_replays_workflows [OF canonical_uuid_roundtrip sample_calls_ok sample_pg_empty]
  by (simp add: Let_def)

text \<open>
  A workflow changes state at most twice in its life: under the same conditions the log never
  holds more than two transition events for one id.
\<close>

lemma at_most_two_transitions:
  fixes rec :: "pg_state Recorder" and m :: transition_counter and sha1 :: "uuid \<Rightarrow> string \<Rightarrow> uuid"
  assumes "uuid_roundtrip parse toString" and "creates_pending cs" and "distinct (created_ids cs)"
    and "pg_empty w"
  defines "w' \<equiv> fst (run_calls (pg_runtime parse toString sha1) (pg_machine parse rec) cs (w, m))"
  shows "length (transitions_of u (pg_logs (pg_committed w'))) \<le> 2"
  using history.run_calls_bound [OF pg_history [OF assms(1)], of cs w u sha1 rec m] assms(2,3)
    pg_empty_view [OF assms(4)]
  by (simp add: w'_def pg_client_machine)

text \<open>
  C3: COMPLETED and FAILED are final. Whatever calls follow, with whatever outcome, a workflow of
  the table in a terminal status keeps its status and its result.
\<close>

theorem terminal_status_is_final:
  fixes rec :: "pg_state Recorder" and m :: transition_counter and sha1 :: "uuid \<Rightarrow> string \<Rightarrow> uuid"
  assumes "uuid_roundtrip parse toString" and "creates_pending cs" and "distinct (created_ids cs)"
    and "\<forall>i\<in>set (created_ids cs). row_lookup wr_id (db_workflows (pg_committed w)) i = None"
    and "row_lookup wr_id (db_workflows (pg_committed w)) u = Some r" and "terminal_state (wr_status r)"
  defines "w' \<equiv> fst (run_calls (pg_runtime parse toString sha1) (pg_machine parse rec) cs (w, m))"
  shows "\<exists>r'. row_lookup wr_id (db_workflows (pg_committed w')) u = Some r' \<and>
     wr_status r' = wr_status r \<and> wr_result_json r' = wr_result_json r"
proof -
  have "pg_rows (pg_committed w') (Some u) = Some (wr_status r, wr_result_json r)"
    using history.run_calls_terminal [OF pg_history [OF assms(1)], of cs w "Some u"
        "wr_status r" "wr_result_json r" sha1 rec m] assms(2-6)
    by (simp add: w'_def pg_client_machine pg_rows_def)
  then show ?thesis by (auto simp: pg_rows_def)
qed

definition sample_row :: "workflow_state \<Rightarrow> workflow_row" where
  "sample_row q = \<lparr>wr_id = 7, wr_status = q, wr_document_id = None, wr_report_id = None,
     wr_result_json = None, wr_created_at = 1, wr_updated_at = 1\<rparr>"

theorem terminal_status_is_final_witness:
  "\<exists>r'. row_lookup wr_id (db_workflows (pg_committed (fst
      (run_calls (pg_runtime canonical_Parse canonical_String sample_SHA1)
        (pg_machine canonical_Parse \<lparr>rec_clock = None, rec_authEnabled = False\<rparr>)
        [CallFail (canonical_String 7) ''late callback'', CallStart (canonical_String 7)]
        (sample_pg (empty_db\<lparr>db_workflows := [sample_row WorkflowStateCompleted]\<rparr>), (\<lambda>x. 0)))))) 7 = Some r' \<and>
     wr_status r' = WorkflowStateCompleted \<and> wr_result_json r' = None"
  using terminal_status_is_final [OF canonical_uuid_roundtrip,
      where u = 7 and r = "sample_row WorkflowStateCompleted" and m = "\<lambda>x. 0"
        and w = "sample_pg (empty_db\<lparr>db_workflows := [sample_row WorkflowStateCompleted]\<rparr>)"
        and cs = "[CallFail (canonical_String 7) ''late callback'', CallStart (canonical_String 7)]"
        and ?sha1.0 = sample_SHA1 and rec = "\<lparr>rec_clock = None, rec_authEnabled = False\<rparr>"]
  by (simp add: sample_row_def)

section \<open>Atomicity\<close>

lemma pg_methods_simps [simp]:
  "st_BeginTx (PgWorkflowStore_methods parse) = PgWorkflowStore_BeginTx"
  "st_tx (PgWorkflowStore_methods parse) = PgWorkflowTx_methods parse"
  "tx_Rollback (PgWorkflowTx_methods parse) = PgWorkflowTx_Rollback"
  "tx_Commit (PgWorkflowTx_methods parse) = PgWorkflowTx_Commit"
  "tx_GetWorkflow (PgWorkflowTx_methods parse) = PgWorkflowTx_GetWorkflow parse"
  "tx_InsertWorkflow (PgWorkflowTx_methods parse) = PgWorkflowTx_InsertWorkflow"
  "tx_InsertAuditLog (PgWorkflowTx_methods parse) = PgWorkflowTx_InsertAuditLog"
  "tx_UpdateWorkflowState (PgWorkflowTx_methods parse) = PgWorkflowTx_UpdateWorkflowState parse"
  "tx_UpdateWorkflowResult (PgWorkflowTx_methods parse) = PgWorkflowTx_UpdateWorkflowResult parse"
  "tc_store (sm_coordinator (pg_machine parse rec)) = PgWorkflowStore_methods parse"
  "tc_recorder (sm_coordinator (pg_machine parse rec)) = rec"
  by (simp_all add: PgWorkflowStore_methods_def PgWorkflowTx_methods_def pg_machine_def)

lemma pg_event_keeps [eff_intros]:
  "keeps published (insert_event (time_Now (pg_runtime parse toString sha1)) PgWorkflowTx_InsertAuditLog a ty r u d)"
  by (intro keeps_insert_event PgWorkflowTx_keeps)
    (auto simp: pg_runtime_def published_def read_clock_def)

lemma pg_commit_last:
  "keeps_err published (callw PgWorkflowTx_Commit wr (\<lambda>a. retn (g a)))"
  by (rule keeps_err_last [OF PgWorkflowTx_Commit_keeps_err])

lemma pg_with_tx_err:
  assumes "with_tx PgWorkflowStore_BeginTx wr PgWorkflowTx_Rollback body w = (Inl e, w')"
    and "keeps_err published body"
  shows "pg_committed w' = pg_committed w"
  by (rule with_tx_err_keeps [OF PgWorkflowStore_BeginTx_keeps _ _ assms(1)])
    (use PgWorkflowTx_Rollback_keeps assms(2) in \<open>simp_all add: published_def [abs_def]\<close>)

lemmas record_workflow_defs =
  RecordCreated_def RecordTransition_def RecordTransitionedToRunning_def RecordCompleted_def
  RecordFailedDispatch_def RecordFailedCallback_def marshal_then_run

text \<open>
  C4: All or nothing. If ExecuteWorkflowCreate, Start, Complete or Fail returns an error on the
  PostgreSQL store, whatever the error and wherever it occurred, every table of the database is as
  it was before the call, and the transition counter too.
\<close>

theorem failed_call_changes_nothing:
  assumes "exec_call (pg_runtime parse toString sha1) (pg_machine parse rec) c (w, m) = (Inl e, (w', m'))"
  shows "pg_committed w' = pg_committed w \<and> m' = m"
proof (cases c)
  case (CallCreate x d u)
  have run: "with_tx PgWorkflowStore_BeginTx (wrap1 ''workflow create: begin tx'') PgWorkflowTx_Rollback
      (callw (PgWorkflowTx_InsertWorkflow x) (wrap1 ''workflow create: insert workflow'') (\<lambda>_.
       callw (RecordCreated (pg_runtime parse toString sha1) rec PgWorkflowTx_InsertAuditLog
           (uuid_String (pg_runtime parse toString sha1) (wf_ID x)) d u)
         (wrap1 ''workflow create: record audit'') (\<lambda>_.
       callw PgWorkflowTx_Commit (wrap1 ''workflow create: commit'') (\<lambda>_. retn ())))) w = (Inl e, w')"
    and m: "m' = m"
    using assms by (auto simp: CallCreate exec_call_def ExecuteWorkflowCreate_def Let_def split: prod.splits)
  have "pg_committed w' = pg_committed w" using run unfolding record_workflow_defs
    by (rule pg_with_tx_err) (rule pg_commit_last | rule eff_intros)+
  with m show ?thesis by simp
next
  case (CallStart i)
  show ?thesis using assms
    unfolding CallStart exec_call_def wf_call.case StateMachine_Start_def then_count_Inl Let_def
      pg_methods_simps record_workflow_defs
    by (elim conjE) (rule conjI, erule pg_with_tx_err,
      (rule pg_commit_last keeps_err_throw | rule eff_intros)+, assumption)
next
  case (CallComplete i b)
  show ?thesis using assms
    unfolding CallComplete exec_call_def wf_call.case StateMachine_Complete_def then_count_Inl Let_def
      pg_methods_simps record_workflow_defs
    by (elim conjE) (rule conjI, erule pg_with_tx_err,
      (rule pg_commit_last keeps_err_throw | rule eff_intros)+, assumption)
next
  case (CallFail i reason)
  show ?thesis using assms
    unfolding CallFail exec_call_def wf_call.case StateMachine_Fail_def then_count_Inl Let_def
      pg_methods_simps record_workflow_defs
    by (elim conjE) (rule conjI, erule pg_with_tx_err,
      (rule pg_commit_last keeps_err_throw | rule eff_intros)+, assumption)
qed (use assms in \<open>auto simp: exec_call_def split: prod.splits\<close>)

section \<open>Runs without faults\<close>

lemmas pg_workflow_run =
  with_tx_def PgWorkflowStore_BeginTx_def pool_BeginTx_def read_fault_def read_clock_def read_id_def
  callw_def call_def retn_def throw_def PgWorkflowTx_GetWorkflow_def pg_query_row_def pg_query_def
  pg_run_def scan_workflow_def PgWorkflowTx_UpdateWorkflowState_def PgWorkflowTx_UpdateWorkflowResult_def
  update_status_stmt_def update_result_stmt_def update_workflow_def insert_event_def always_def
  PgWorkflowTx_InsertAuditLog_def insert_audit_def uuid_New_def insert_audit_stmt_def varchar_def
  PgWorkflowTx_Commit_def pg_commit_def PgWorkflowTx_Rollback_def pg_rollback_def no_faults_def
  pg_runtime_def then_count_def Let_def

theorem failed_call_changes_nothing_witness:
  "\<exists>e w' m'. exec_call (pg_runtime canonical_Parse canonical_String sample_SHA1)
      (pg_machine canonical_Parse \<lparr>rec_clock = None, rec_authEnabled = False\<rparr>)
      (CallStart (canonical_String 7)) (sample_pg empty_db, (\<lambda>x. 0)) = (Inl e, (w', m')) \<and>
    pg_committed w' = empty_db \<and> m' = (\<lambda>x. 0)"
proof -
  obtain e w' m' where run: "exec_call (pg_runtime canonical_Parse canonical_String sample_SHA1)
      (pg_machine canonical_Parse \<lparr>rec_clock = None, rec_authEnabled = False\<rparr>)
      (CallStart (canonical_String 7)) (sample_pg empty_db, (\<lambda>x. 0)) = (Inl e, (w', m'))"
    by (simp add: exec_call_def StateMachine_Start_def pg_workflow_run canonical_roundtrip empty_db_def)
  from failed_call_changes_nothing [OF run] run show ?thesis by auto
qed

text \<open>An id generator whose answers are not yet in use as ids of audit rows.\<close>

definition fresh_ids :: "pg_world \<Rightarrow> bool" where
  "fresh_ids w \<longleftrightarrow> (\<forall>n. env_ids w n \<notin> ar_id ` set (db_audit_logs (pg_committed w)))"

lemma short_transition_actions [simp]:
  "length ActionWorkflowTransitionedToRunning \<le> 64" "length ActionWorkflowCompleted \<le> 64"
  "length ActionWorkflowFailedDispatch \<le> 64" "length ActionWorkflowFailedCallback \<le> 64"
  "length ActionWorkflowCreated \<le> 64" "length DefaultUserID \<le> 64"
  by (simp_all add: workflow_action_defs DefaultUserID_def)

lemma transition_action_texts [simp]:
  "text_ok ActionWorkflowTransitionedToRunning" "text_ok ActionWorkflowCompleted"
  "text_ok ActionWorkflowFailedDispatch" "text_ok ActionWorkflowFailedCallback"
  "text_ok ActionWorkflowCreated" "text_ok DefaultUserID"
  by (simp_all add: workflow_action_defs DefaultUserID_def)

lemma states_in_enum [simp]:
  "WorkflowStatePending \<in> set workflow_status_enum" "WorkflowStateRunning \<in> set workflow_status_enum"
  "WorkflowStateCompleted \<in> set workflow_status_enum" "WorkflowStateFailed \<in> set workflow_status_enum"
  by (simp_all add: workflow_status_enum_def workflow_state_defs)

lemma row_present: "row_lookup key rs k = Some r \<Longrightarrow> List.filter (\<lambda>r. key r = k) rs \<noteq> []"
  by (induction rs) (auto split: if_splits)

text \<open>
  Start works. Without faults of the connection, for an id that parses and whose row is
  PENDING, Start returns nil, the row is RUNNING afterwards and no other row changed, the log has
  one more event (WORKFLOW_TRANSITIONED_TO_RUNNING by cli-anonymous, from PENDING to RUNNING), and
  the counter for (PENDING, RUNNING) is one higher.
\<close>

lemma start_succeeds:
  assumes "no_faults w" and "fresh_ids w" and "parse i = Some u"
    and "row_lookup wr_id (db_workflows (pg_committed w)) u = Some r"
    and "wr_status r = WorkflowStatePending"
  shows "\<exists>w' e. StateMachine_Start (pg_runtime parse toString sha1) (pg_machine parse rec) i (w, m) =
      (Inr (), (w', m((WorkflowStatePending, WorkflowStateRunning) :=
                      Suc (m (WorkflowStatePending, WorkflowStateRunning))))) \<and>
    pg_rows (pg_committed w') = (pg_rows (pg_committed w))(Some u \<mapsto> (WorkflowStateRunning, wr_result_json r)) \<and>
    pg_logs (pg_committed w') = pg_logs (pg_committed w) @ [e] \<and>
    ev_Action e = ActionWorkflowTransitionedToRunning \<and> ev_ResourceID e = u \<and>
    ev_UserID e = DefaultUserID"
proof -
  have "\<exists>w' m'. StateMachine_Start (pg_runtime parse toString sha1) (pg_machine parse rec) i (w, m) =
      (Inr (), (w', m'))"
    using assms row_present [OF assms(4)]
    by (simp add: StateMachine_Start_def RecordTransitionedToRunning_def pg_workflow_run
        IsValidTransition_iff fresh_ids_def Recorder_resolveUserID_def)
  then obtain w' m' where run: "StateMachine_Start (pg_runtime parse toString sha1)
      (pg_machine parse rec) i (w, m) = (Inr (), (w', m'))" by blast
  note ok = pg_client.start_ok [where rec = rec, unfolded pg_client_machine, OF run]
  have "parseResourceID (pg_runtime parse toString sha1) i = u"
    using assms(3) by (simp add: parseResourceID_def pg_runtime_def)
  with ok run assms(3,4,5) show ?thesis
    by (auto simp: moves_def transition_action_def IncWorkflowTransition_def pg_rows_def)
qed

text \<open>
  Nothing but a valid transition happens. Without faults, for a row whose status has no valid
  transition to the target of Start, Complete or Fail, the call returns an error for which
  errors.Is(err, ErrInvalidTransition) holds.
\<close>

lemma invalid_transition_refused:
  assumes "no_faults w" and "parse i = Some u"
    and "row_lookup wr_id (db_workflows (pg_committed w)) u = Some r"
    and "c = CallStart i \<and> q = WorkflowStateRunning \<or> c = CallComplete i b \<and> q = WorkflowStateCompleted \<or>
         c = CallFail i reason \<and> q = WorkflowStateFailed"
    and "\<not> IsValidTransition (wr_status r) q"
  shows "\<exists>e w'. exec_call (pg_runtime parse toString sha1) (pg_machine parse rec) c (w, m) = (Inl e, (w', m)) \<and>
    errors_Is e ErrInvalidTransition"
  using assms
  by (elim disjE conjE) (simp_all add: exec_call_def state_machine_defs pg_workflow_run)

text \<open>
  The coordinator itself checks nothing. Without faults ExecuteWorkflowTransition moves a row
  of any status to any of the four statuses, whatever its argument from says: also out of
  COMPLETED or FAILED. The event it writes has the action names, not the states, as from and to.
\<close>

lemma coordinator_moves_unchecked:
  assumes "no_faults w" and "fresh_ids w" and "parse i = Some u"
    and "row_lookup wr_id (db_workflows (pg_committed w)) u = Some r"
    and "q \<in> set workflow_status_enum" and "length userID \<le> 64" "text_ok userID"
  shows "\<exists>w' r' e. ExecuteWorkflowTransition (pg_runtime parse toString sha1)
      (sm_coordinator (pg_machine parse rec)) i p q userID w = (Inr (), w') \<and>
    row_lookup wr_id (db_workflows (pg_committed w')) u = Some r' \<and> wr_status r' = q \<and>
    pg_logs (pg_committed w') = pg_logs (pg_committed w) @ [e] \<and>
    ev_Details e = Some [''from'' \<mapsto> workflowStateToAction p, ''to'' \<mapsto> workflowStateToAction q]"
proof -
  have "length (workflowStateToAction q) \<le> 64" "text_ok (workflowStateToAction q)"
    by (simp_all add: workflowStateToAction_def)
  then show ?thesis
    using assms row_present [OF assms(4)]
    by (simp add: ExecuteWorkflowTransition_def RecordTransition_def pg_workflow_run fresh_ids_def
        Recorder_resolveUserID_def audit_row_event_def pg_logs_def)
qed

end
