(* ===== verification/Review_Store.thy ===== *)
theory Review_Store
  imports Database
begin

text \<open>
  internal/store/score_review_request.go: the review requests of a score, from SUBMITTED over
  UNDER_REVIEW to APPROVED or REJECTED. Every mutation writes its row and one audit event in the
  same transaction. The entity and the interface are those of store.go.
\<close>

record ScoreReviewRequest =
  rq_Metadata :: metadata
  rq_CreatedAt :: time
  rq_UpdatedAt :: time
  rq_AssignedReviewerID :: "string option"
  rq_RejectionReason :: "string option"
  rq_Comment :: "string option"
  rq_Status :: string
  rq_CreatedBy :: string
  rq_UpdatedBy :: string
  rq_ID :: uuid
  rq_ScoreID :: uuid

record 's ScoreReviewRequestTx =
  rtx_Insert :: "uuid \<Rightarrow> string \<Rightarrow> metadata \<Rightarrow> string \<Rightarrow> ('s, uuid) eff"
  rtx_GetByID :: "uuid \<Rightarrow> ('s, ScoreReviewRequest) eff"
  rtx_List :: "string \<Rightarrow> int \<Rightarrow> int \<Rightarrow> ('s, ScoreReviewRequest list) eff"
  rtx_Count :: "string \<Rightarrow> ('s, int) eff"
  rtx_AssignReviewer :: "uuid \<Rightarrow> string \<Rightarrow> string \<Rightarrow> ('s, unit) eff"
  rtx_ApproveRequest :: "uuid \<Rightarrow> string \<Rightarrow> string \<Rightarrow> ('s, unit) eff"
  rtx_RejectRequest :: "uuid \<Rightarrow> string \<Rightarrow> string \<Rightarrow> string \<Rightarrow> ('s, unit) eff"
  rtx_InsertAuditLog :: "audit_event \<Rightarrow> ('s, unit) eff"
  rtx_Commit :: "('s, unit) eff"
  rtx_Rollback :: "('s, unit) eff"

section \<open>The state machine\<close>

definition reviewStatusSubmitted :: string where
  "reviewStatusSubmitted = ''SUBMITTED''"

definition reviewStatusUnderReview :: string where
  "reviewStatusUnderReview = ''UNDER_REVIEW''"

definition reviewStatusApproved :: string where
  "reviewStatusApproved = ''APPROVED''"

definition reviewStatusRejected :: string where
  "reviewStatusRejected = ''REJECTED''"

lemmas review_status_defs =
  reviewStatusSubmitted_def reviewStatusUnderReview_def reviewStatusApproved_def reviewStatusRejected_def

lemma review_status_distinct [simp]:
  "reviewStatusSubmitted \<noteq> reviewStatusUnderReview" "reviewStatusUnderReview \<noteq> reviewStatusSubmitted"
  "reviewStatusSubmitted \<noteq> reviewStatusApproved" "reviewStatusApproved \<noteq> reviewStatusSubmitted"
  "reviewStatusSubmitted \<noteq> reviewStatusRejected" "reviewStatusRejected \<noteq> reviewStatusSubmitted"
  "reviewStatusUnderReview \<noteq> reviewStatusApproved" "reviewStatusApproved \<noteq> reviewStatusUnderReview"
  "reviewStatusUnderReview \<noteq> reviewStatusRejected" "reviewStatusRejected \<noteq> reviewStatusUnderReview"
  "reviewStatusApproved \<noteq> reviewStatusRejected" "reviewStatusRejected \<noteq> reviewStatusApproved"
  by (simp_all add: review_status_defs)

definition fallbackUserID :: string where
  "fallbackUserID = ''cli-anonymous''"

text \<open>A Go map of sets: a missing key is \<^verbatim>\<open>None\<close>.\<close>

definition allowedReviewTransitions :: "string \<rightharpoonup> string list" where
  "allowedReviewTransitions =
     [reviewStatusSubmitted \<mapsto> [reviewStatusUnderReview],
      reviewStatusUnderReview \<mapsto> [reviewStatusApproved, reviewStatusRejected],
      reviewStatusApproved \<mapsto> [],
      reviewStatusRejected \<mapsto> []]"

definition validateReviewRequestInput :: "uuid \<Rightarrow> goerr + unit" where
  "validateReviewRequestInput scoreID =
     (if scoreID = uuid_Nil
      then Inl (wrap1 ''score_id is empty (uuid.Nil)'' (Sentinel ErrScoreReviewRequestInvalidInput))
      else Inr ())"

definition validateRejectionReason :: "string \<Rightarrow> goerr + unit" where
  "validateRejectionReason reason =
     (if blank reason
      then Inl (wrap1 ''REJECTED needs rejection_reason'' (Sentinel ErrScoreReviewRequestInvalidInput))
      else Inr ())"

definition validateReviewStatusTransition :: "string \<Rightarrow> string \<Rightarrow> goerr + unit" where
  "validateReviewStatusTransition p q =
     (case allowedReviewTransitions p of
        None \<Rightarrow> Inl (wrap1 ''status not allowed as current status'' (Sentinel ErrScoreReviewRequestInvalidStatus))
      | Some qs \<Rightarrow>
          if q \<notin> set qs
          then Inl (wrap1 ''status transition not allowed'' (Sentinel ErrScoreReviewRequestInvalidStatus))
          else Inr ())"

text \<open>json.Marshal of a map[string]any that came from JSON does not fail.\<close>

definition marshalReviewMetadata :: "metadata \<Rightarrow> goerr + metadata option" where
  "marshalReviewMetadata md = (if md = [] then Inr None else Inr (Some md))"

definition resolveUserID :: "string \<Rightarrow> string" where
  "resolveUserID userID = (if blank userID then fallbackUserID else userID)"

section \<open>The statements\<close>

text \<open>The constraints of score_review_requests on one row: 22001 for a long text, else 23514.\<close>

definition review_row_error :: "review_row \<Rightarrow> goerr option" where
  "review_row_error r =
     (if \<not> varchar 32 (rr_status r) \<or> (\<exists>s. rr_assigned_reviewer_id r = Some s \<and> \<not> varchar 128 s) \<or>
         \<not> varchar 128 (rr_created_by r) \<or> \<not> varchar 128 (rr_updated_by r)
      then Some (PgError ''22001'')
      else if rr_status r \<notin> set [''SUBMITTED'', ''UNDER_REVIEW'', ''APPROVED'', ''REJECTED'']
      then Some (PgError ''23514'')
      else if rr_status r = ''REJECTED'' \<and> (case rr_rejection_reason r of None \<Rightarrow> True | Some s \<Rightarrow> s = [])
      then Some (PgError ''23514'')
      else None)"

definition insert_review_stmt ::
  "uuid \<Rightarrow> string option \<Rightarrow> metadata option \<Rightarrow> string \<Rightarrow> uuid statement" where
  "insert_review_stmt scoreID commentArg metaJSON actor = (\<lambda>now u d.
     let r = \<lparr>rr_id = u, rr_score_id = scoreID, rr_status = ''SUBMITTED'', rr_assigned_reviewer_id = None,
              rr_rejection_reason = None, rr_comment = commentArg, rr_metadata = metaJSON,
              rr_created_at = now, rr_created_by = actor, rr_updated_at = now, rr_updated_by = actor\<rparr>
     in case review_row_error r of
          Some e \<Rightarrow> Inl e
        | None \<Rightarrow> if u \<in> rr_id ` set (db_reviews d) then Inl (PgError ''23505'')
                  else Inr (u, d\<lparr>db_reviews := db_reviews d @ [r]\<rparr>))"

text \<open>UPDATE ... WHERE id = i: the constraints are checked on the new row.\<close>

definition update_review_stmt :: "uuid \<Rightarrow> (time \<Rightarrow> review_row \<Rightarrow> review_row) \<Rightarrow> unit statement" where
  "update_review_stmt i f = (\<lambda>now u d.
     case row_lookup rr_id (db_reviews d) i of
       None \<Rightarrow> Inr ((), d)
     | Some r \<Rightarrow> (case review_row_error (f now r) of
          Some e \<Rightarrow> Inl e
        | None \<Rightarrow> Inr ((), d\<lparr>db_reviews := row_update rr_id i (f now) (db_reviews d)\<rparr>)))"

text \<open>COALESCE(x, old)\<close>

definition coalesce :: "'a option \<Rightarrow> 'a option \<Rightarrow> 'a option" where
  "coalesce x y = (case x of None \<Rightarrow> y | Some a \<Rightarrow> Some a)"

definition assign_row :: "string \<Rightarrow> string \<Rightarrow> time \<Rightarrow> review_row \<Rightarrow> review_row" where
  "assign_row reviewerID actor now r = r\<lparr>rr_status := ''UNDER_REVIEW'',
     rr_assigned_reviewer_id := Some reviewerID, rr_updated_at := now, rr_updated_by := actor\<rparr>"

definition approve_row :: "string option \<Rightarrow> string \<Rightarrow> time \<Rightarrow> review_row \<Rightarrow> review_row" where
  "approve_row commentArg actor now r = r\<lparr>rr_status := ''APPROVED'',
     rr_comment := coalesce commentArg (rr_comment r), rr_updated_at := now, rr_updated_by := actor\<rparr>"

definition reject_row :: "string \<Rightarrow> string option \<Rightarrow> string \<Rightarrow> time \<Rightarrow> review_row \<Rightarrow> review_row" where
  "reject_row reason commentArg actor now r = r\<lparr>rr_status := ''REJECTED'',
     rr_rejection_reason := Some reason, rr_comment := coalesce commentArg (rr_comment r),
     rr_updated_at := now, rr_updated_by := actor\<rparr>"

section \<open>PgScoreReviewRequestTx\<close>

text \<open>
  The transaction carries the recorder that BeginScoreReviewRequestTx gives it. \<^verbatim>\<open>rt\<close> is the
  runtime, \<^verbatim>\<open>rec\<close> that recorder.
\<close>

definition PgStore_BeginScoreReviewRequestTx :: "(pg_world, pg_tx) eff" where
  "PgStore_BeginScoreReviewRequestTx =
     callw pool_BeginTx
       (\<lambda>e. wrap1 ''BeginScoreReviewRequestTx failed'' (Sentinel ErrPgxPoolExhausted)) retn"

definition review_recorder :: "pg_state runtime \<Rightarrow> pg_state Recorder" where
  "review_recorder rt = NewRecorder rt True []"

definition PgReviewTx_InsertAuditLog :: "audit_event \<Rightarrow> (pg_state, unit) eff" where
  "PgReviewTx_InsertAuditLog e = insert_audit ''InsertAuditLog(score_review_request) failed'' e"

definition InsertScoreReviewRequest ::
  "pg_state runtime \<Rightarrow> uuid \<Rightarrow> string \<Rightarrow> metadata \<Rightarrow> string \<Rightarrow> (pg_state, uuid) eff" where
  "InsertScoreReviewRequest rt scoreID commentText md userID =
     call (lift (validateReviewRequestInput scoreID)) (\<lambda>_.
     call (lift (marshalReviewMetadata md)) (\<lambda>metaJSON.
     let commentArg = (if \<not> blank commentText then Some commentText else None);
         actor = resolveUserID userID
     in callw (pg_run (insert_review_stmt scoreID commentArg metaJSON actor))
          (wrap1 ''InsertScoreReviewRequest failed'') (\<lambda>i.
        callw (RecordScoreReviewRequestCreated rt (review_recorder rt) PgReviewTx_InsertAuditLog i scoreID actor)
          (\<lambda>e. Wrap ''InsertScoreReviewRequest audit failed''
                 [Sentinel ErrScoreReviewRequestAuditWriteFailed, e]) (\<lambda>_.
        retn i))))"

text \<open>A row that cannot be scanned is not modelled: the columns have the types of the variables.\<close>

definition scanReviewRequestRow :: "review_row \<Rightarrow> ScoreReviewRequest" where
  "scanReviewRequestRow r =
     \<lparr>rq_Metadata = (case rr_metadata r of None \<Rightarrow> [] | Some m \<Rightarrow> m),
      rq_CreatedAt = rr_created_at r, rq_UpdatedAt = rr_updated_at r,
      rq_AssignedReviewerID = rr_assigned_reviewer_id r, rq_RejectionReason = rr_rejection_reason r,
      rq_Comment = rr_comment r, rq_Status = rr_status r, rq_CreatedBy = rr_created_by r,
      rq_UpdatedBy = rr_updated_by r, rq_ID = rr_id r, rq_ScoreID = rr_score_id r\<rparr>"

definition GetScoreReviewRequestByID :: "uuid \<Rightarrow> (pg_state, ScoreReviewRequest) eff" where
  "GetScoreReviewRequestByID i =
     callw (pg_query_row (\<lambda>d. map_option scanReviewRequestRow (row_lookup rr_id (db_reviews d) i)))
       (\<lambda>e. if errors_Is e pgx_ErrNoRows
            then wrap1 ''GetScoreReviewRequestByID id'' (Sentinel ErrScoreReviewRequestNotFound)
            else wrap1 ''GetScoreReviewRequestByID scan failed'' e) retn"

definition review_page :: "(review_row \<Rightarrow> bool) \<Rightarrow> int \<Rightarrow> int \<Rightarrow> review_row list statement" where
  "review_page c limit offset = (\<lambda>now u d.
     case limit_offset limit offset (sort_key (\<lambda>r. - rr_created_at r) (List.filter c (db_reviews d))) of
       Inl e \<Rightarrow> Inl e | Inr rs \<Rightarrow> Inr (rs, d))"

definition ListScoreReviewRequests :: "string \<Rightarrow> int \<Rightarrow> int \<Rightarrow> (pg_state, ScoreReviewRequest list) eff" where
  "ListScoreReviewRequests status limit offset =
     callw (if blank status then pg_run (review_page (\<lambda>r. True) limit offset)
            else pg_run (review_page (\<lambda>r. rr_status r = status) limit offset))
       (wrap1 ''ListScoreReviewRequests failed'') (\<lambda>rows. retn (map scanReviewRequestRow rows))"

definition CountScoreReviewRequests :: "string \<Rightarrow> (pg_state, int) eff" where
  "CountScoreReviewRequests status =
     (if blank status
      then callw (pg_query (\<lambda>d. int (length (db_reviews d)))) (wrap1 ''CountScoreReviewRequests failed'') retn
      else callw (pg_query (\<lambda>d. int (length (List.filter (\<lambda>r. rr_status r = status) (db_reviews d)))))
             (wrap1 ''CountScoreReviewRequests failed'') retn)"

definition lockAndCheckStatus :: "uuid \<Rightarrow> (pg_state, string) eff" where
  "lockAndCheckStatus i =
     callw (pg_query_row (\<lambda>d. map_option rr_status (row_lookup rr_id (db_reviews d) i)))
       (\<lambda>e. if errors_Is e pgx_ErrNoRows
            then wrap1 ''score_review_request id'' (Sentinel ErrScoreReviewRequestNotFound)
            else wrap1 ''SELECT FOR UPDATE failed'' e) retn"

definition fetchScoreID :: "uuid \<Rightarrow> (pg_state, uuid) eff" where
  "fetchScoreID i =
     callw (pg_query_row (\<lambda>d. map_option rr_score_id (row_lookup rr_id (db_reviews d) i)))
       (wrap1 ''score_id lookup failed'') retn"

definition AssignReviewer ::
  "pg_state runtime \<Rightarrow> uuid \<Rightarrow> string \<Rightarrow> string \<Rightarrow> (pg_state, unit) eff" where
  "AssignReviewer rt i reviewerID userID =
     (if blank reviewerID
      then throw (wrap1 ''reviewer_id is empty'' (Sentinel ErrScoreReviewRequestInvalidInput))
      else call (lockAndCheckStatus i) (\<lambda>currentStatus.
        if currentStatus \<noteq> reviewStatusSubmitted
        then throw (wrap1 ''AssignReviewer: SUBMITTED needed'' (Sentinel ErrScoreReviewRequestNotSubmitted))
        else call (lift (validateReviewStatusTransition currentStatus reviewStatusUnderReview)) (\<lambda>_.
        call (fetchScoreID i) (\<lambda>scoreID.
        let actor = resolveUserID userID in
        callw (pg_run (update_review_stmt i (assign_row reviewerID actor)))
          (wrap1 ''AssignReviewer UPDATE failed'') (\<lambda>_.
        callw (RecordScoreReviewRequestReviewerAssigned rt (review_recorder rt) PgReviewTx_InsertAuditLog
                 i scoreID reviewerID actor)
          (\<lambda>e. Wrap ''AssignReviewer audit failed'' [Sentinel ErrScoreReviewRequestAuditWriteFailed, e])
          (\<lambda>_. retn ()))))))"

definition ApproveRequest ::
  "pg_state runtime \<Rightarrow> uuid \<Rightarrow> string \<Rightarrow> string \<Rightarrow> (pg_state, unit) eff" where
  "ApproveRequest rt i commentText userID =
     call (lockAndCheckStatus i) (\<lambda>currentStatus.
     if currentStatus \<noteq> reviewStatusUnderReview
     then throw (wrap1 ''ApproveRequest: UNDER_REVIEW needed'' (Sentinel ErrScoreReviewRequestNotUnderReview))
     else call (lift (validateReviewStatusTransition currentStatus reviewStatusApproved)) (\<lambda>_.
     call (fetchScoreID i) (\<lambda>scoreID.
     let commentArg = (if \<not> blank commentText then Some commentText else None);
         actor = resolveUserID userID in
     callw (pg_run (update_review_stmt i (approve_row commentArg actor)))
       (wrap1 ''ApproveRequest UPDATE failed'') (\<lambda>_.
     callw (RecordScoreReviewRequestApproved rt (review_recorder rt) PgReviewTx_InsertAuditLog
              i scoreID commentText actor)
       (\<lambda>e. Wrap ''ApproveRequest audit failed'' [Sentinel ErrScoreReviewRequestAuditWriteFailed, e])
       (\<lambda>_. retn ())))))"

definition RejectRequest ::
  "pg_state runtime \<Rightarrow> uuid \<Rightarrow> string \<Rightarrow> string \<Rightarrow> string \<Rightarrow> (pg_state, unit) eff" where
  "RejectRequest rt i rejectionReason commentText userID =
     call (lift (validateRejectionReason rejectionReason)) (\<lambda>_.
     call (lockAndCheckStatus i) (\<lambda>currentStatus.
     if currentStatus \<noteq> reviewStatusUnderReview
     then throw (wrap1 ''RejectRequest: UNDER_REVIEW needed'' (Sentinel ErrScoreReviewRequestNotUnderReview))
     else call (lift (validateReviewStatusTransition currentStatus reviewStatusRejected)) (\<lambda>_.
     call (fetchScoreID i) (\<lambda>scoreID.
     let commentArg = (if \<not> blank commentText then Some commentText else None);
         actor = resolveUserID userID in
     callw (pg_run (update_review_stmt i (reject_row rejectionReason commentArg actor)))
       (wrap1 ''RejectRequest UPDATE failed'') (\<lambda>_.
     callw (RecordScoreReviewRequestRejected rt (review_recorder rt) PgReviewTx_InsertAuditLog
              i scoreID rejectionReason commentText actor)
       (\<lambda>e. Wrap ''RejectRequest audit failed'' [Sentinel ErrScoreReviewRequestAuditWriteFailed, e])
       (\<lambda>_. retn ()))))))"

definition PgReviewTx_Commit :: "(pg_state, unit) eff" where
  "PgReviewTx_Commit = callw pg_commit (wrap1 ''Commit(score_review_request) failed'') (\<lambda>_. retn ())"

definition PgReviewTx_Rollback :: "(pg_state, unit) eff" where
  "PgReviewTx_Rollback s =
     (case pg_rollback s of
        (Inl e, s') \<Rightarrow> if errors_Is e pgx_ErrTxClosed then (Inr (), s')
                      else (Inl (wrap1 ''Rollback(score_review_request) failed'' e), s')
      | (Inr u, s') \<Rightarrow> (Inr (), s'))"

definition PgReviewTx_methods :: "pg_state runtime \<Rightarrow> pg_state ScoreReviewRequestTx" where
  "PgReviewTx_methods rt =
     \<lparr>rtx_Insert = InsertScoreReviewRequest rt, rtx_GetByID = GetScoreReviewRequestByID,
      rtx_List = ListScoreReviewRequests, rtx_Count = CountScoreReviewRequests,
      rtx_AssignReviewer = AssignReviewer rt, rtx_ApproveRequest = ApproveRequest rt,
      rtx_RejectRequest = RejectRequest rt, rtx_InsertAuditLog = PgReviewTx_InsertAuditLog,
      rtx_Commit = PgReviewTx_Commit, rtx_Rollback = PgReviewTx_Rollback\<rparr>"

end
