(* ===== verification/Review_Properties.thy ===== *)
theory Review_Properties
  imports Review_Store Uuid_Instance Samples
begin

text \<open>
  What the review store guarantees: each mutation that succeeds is one step of the review state
  machine with one audit event, the rows stay well-formed, terminal reviews never change, and the
  error of every refused mutation.
\<close>

text \<open>The transitions of the table, as sets.\<close>

lemma review_transition_Inr [simp]:
  "validateReviewStatusTransition p q = Inr u \<longleftrightarrow>
     p = reviewStatusSubmitted \<and> q = reviewStatusUnderReview \<or>
     p = reviewStatusUnderReview \<and> (q = reviewStatusApproved \<or> q = reviewStatusRejected)"
  by (auto simp: validateReviewStatusTransition_def allowedReviewTransitions_def split: option.splits)

lemma validate_Inr [simp]:
  "validateReviewRequestInput i = Inr u \<longleftrightarrow> i \<noteq> uuid_Nil"
  "validateRejectionReason s = Inr u \<longleftrightarrow> \<not> blank s"
  by (simp_all add: validateReviewRequestInput_def validateRejectionReason_def)

lemma resolveUserID_not_blank [simp]: "\<not> blank (resolveUserID u)" "resolveUserID u \<noteq> []"
  by (auto simp: resolveUserID_def fallbackUserID_def blank_iff is_space_def)

lemma recorder_user [simp]:
  "u \<noteq> [] \<Longrightarrow> Recorder_resolveUserID (review_recorder rt) u = u"
  by (simp add: Recorder_resolveUserID_def review_recorder_def)

lemma review_clock [simp]: "nowUTC rt (review_recorder rt) = time_Now rt"
  unfolding review_recorder_def by (rule nowUTC_pg)

section \<open>The steps\<close>

text \<open>
  The specification: what one mutation by an actor does to the tables. \<^verbatim>\<open>now\<close> is the
  instant of the transaction.
\<close>

inductive review_step :: "string \<Rightarrow> db \<Rightarrow> db \<Rightarrow> bool" where
  submit: "i \<notin> rr_id ` set (db_reviews d) \<Longrightarrow>
    r = \<lparr>rr_id = i, rr_score_id = sid, rr_status = reviewStatusSubmitted, rr_assigned_reviewer_id = None,
         rr_rejection_reason = None, rr_comment = c, rr_metadata = md, rr_created_at = now,
         rr_created_by = actor, rr_updated_at = now, rr_updated_by = actor\<rparr> \<Longrightarrow> sid \<noteq> uuid_Nil \<Longrightarrow>
    adds_event ActionScoreReviewRequestCreated ''score_review_request'' i actor det
      (d\<lparr>db_reviews := db_reviews d @ [r]\<rparr>) d' \<Longrightarrow> review_step actor d d'"
| assign: "row_lookup rr_id (db_reviews d) i = Some r \<Longrightarrow> rr_status r = reviewStatusSubmitted \<Longrightarrow>
    \<not> blank reviewer \<Longrightarrow>
    adds_event ActionScoreReviewRequestReviewerAssigned ''score_review_request'' i actor det
      (d\<lparr>db_reviews := row_update rr_id i (assign_row reviewer actor now) (db_reviews d)\<rparr>) d' \<Longrightarrow>
    review_step actor d d'"
| approve: "row_lookup rr_id (db_reviews d) i = Some r \<Longrightarrow> rr_status r = reviewStatusUnderReview \<Longrightarrow>
    adds_event ActionScoreReviewRequestApproved ''score_review_request'' i actor det
      (d\<lparr>db_reviews := row_update rr_id i (approve_row c actor now) (db_reviews d)\<rparr>) d' \<Longrightarrow>
    review_step actor d d'"
| reject: "row_lookup rr_id (db_reviews d) i = Some r \<Longrightarrow> rr_status r = reviewStatusUnderReview \<Longrightarrow>
    \<not> blank reason \<Longrightarrow>
    adds_event ActionScoreReviewRequestRejected ''score_review_request'' i actor det
      (d\<lparr>db_reviews := row_update rr_id i (reject_row reason c actor now) (db_reviews d)\<rparr>) d' \<Longrightarrow>
    review_step actor d d'"

inductive_cases review_stepE: "review_step actor d d'"

lemma update_review_Inr:
  "update_review_stmt i f now u d = Inr (v, d') \<Longrightarrow> row_lookup rr_id (db_reviews d) i = Some r \<Longrightarrow>
   d' = d\<lparr>db_reviews := row_update rr_id i (f now) (db_reviews d)\<rparr> \<and> review_row_error (f now r) = None"
  by (auto simp: update_review_stmt_def split: option.splits)

lemma reviewDetails_Inr: "\<exists>d. reviewRequestDetails rt i s x = Inr d"
  by (rule details_Inr)

lemma call_reviewDetails:
  "call (lift (reviewRequestDetails rt i s x)) k = k (projr (reviewRequestDetails rt i s x))"
  using reviewDetails_Inr [of rt i s x] by auto

lemmas review_audit_defs =
  RecordScoreReviewRequestCreated_def RecordScoreReviewRequestReviewerAssigned_def
  RecordScoreReviewRequestApproved_def RecordScoreReviewRequestRejected_def
  call_reviewDetails PgReviewTx_InsertAuditLog_def [abs_def]

datatype review_op =
    OpInsert uuid string metadata
  | OpAssign uuid string
  | OpApprove uuid string
  | OpReject uuid string string

text \<open>A mutation of the store, called with a user.\<close>

definition exec_review :: "pg_state runtime \<Rightarrow> review_op \<Rightarrow> string \<Rightarrow> (pg_state, unit) eff" where
  "exec_review rt c userID = (case c of
     OpInsert sid cm md \<Rightarrow> call (InsertScoreReviewRequest rt sid cm md userID) (\<lambda>i. retn ())
   | OpAssign i rv \<Rightarrow> AssignReviewer rt i rv userID
   | OpApprove i cm \<Rightarrow> ApproveRequest rt i cm userID
   | OpReject i reason cm \<Rightarrow> RejectRequest rt i reason cm userID)"

text \<open>The four mutations, each as one step of the specification.\<close>

lemma insert_review_ok:
  assumes "InsertScoreReviewRequest (pg_runtime parse toString sha1) sid cm md userID s = (Inr i, s')"
  shows "review_step (resolveUserID userID) (ptx_work (fst s)) (ptx_work (fst s'))"
proof -
  let ?rt = "pg_runtime parse toString sha1" and ?actor = "resolveUserID userID"
  from assms obtain md' s1 where v: "sid \<noteq> uuid_Nil" and
    q: "pg_run (insert_review_stmt sid (if \<not> blank cm then Some cm else None) md' ?actor) s = (Inr i, s1)" and
    e: "insert_event (time_Now ?rt) (insert_audit ''InsertAuditLog(score_review_request) failed'')
          ActionScoreReviewRequestCreated ''score_review_request'' i ?actor
          (Some (projr (reviewRequestDetails ?rt i sid Map.empty))) s1 = (Inr (), s')"
    by (auto simp: InsertScoreReviewRequest_def eff_simps Let_def review_audit_defs)
  from q show ?thesis
    using pg_event_ok(1) [OF e] v
    by (auto simp: pg_run_Inr_iff insert_review_stmt_def Let_def reviewStatusSubmitted_def
        split: option.splits if_splits intro!: review_step.submit)
qed

lemma assign_review_ok:
  assumes "AssignReviewer (pg_runtime parse toString sha1) i rv userID s = (Inr u, s')"
  shows "review_step (resolveUserID userID) (ptx_work (fst s)) (ptx_work (fst s'))"
proof -
  let ?rt = "pg_runtime parse toString sha1" and ?actor = "resolveUserID userID"
  from assms obtain r s1 s2 s3 sid where v: "\<not> blank rv" and
    r: "row_lookup rr_id (db_reviews (ptx_work (fst s))) i = Some r" "rr_status r = reviewStatusSubmitted" and
    w: "ptx_work (fst s2) = ptx_work (fst s)" and
    q: "pg_run (update_review_stmt i (assign_row rv ?actor)) s2 = (Inr (), s3)" and
    e: "insert_event (time_Now ?rt) (insert_audit ''InsertAuditLog(score_review_request) failed'')
          ActionScoreReviewRequestReviewerAssigned ''score_review_request'' i ?actor
          (Some (projr (reviewRequestDetails ?rt i sid [''reviewer_id'' \<mapsto> rv]))) s3 = (Inr (), s')"
    by (auto simp: AssignReviewer_def eff_simps Let_def review_audit_defs lockAndCheckStatus_def
        fetchScoreID_def pg_query_row_Inr_iff split: if_splits)
  from q obtain u where "update_review_stmt i (assign_row rv ?actor) (ptx_now (fst s2)) u (ptx_work (fst s)) =
      Inr ((), ptx_work (fst s3))"
    using w by (auto simp: pg_run_Inr_iff)
  from update_review_Inr [OF this r(1)] show ?thesis
    using pg_event_ok(1) [OF e] v r by (auto intro!: review_step.assign)
qed

lemma approve_review_ok:
  assumes "ApproveRequest (pg_runtime parse toString sha1) i cm userID s = (Inr u, s')"
  shows "review_step (resolveUserID userID) (ptx_work (fst s)) (ptx_work (fst s'))"
proof -
  let ?rt = "pg_runtime parse toString sha1" and ?actor = "resolveUserID userID"
  let ?c = "if \<not> blank cm then Some cm else None"
  from assms obtain r s2 s3 sid x where
    r: "row_lookup rr_id (db_reviews (ptx_work (fst s))) i = Some r" "rr_status r = reviewStatusUnderReview" and
    w: "ptx_work (fst s2) = ptx_work (fst s)" and
    q: "pg_run (update_review_stmt i (approve_row ?c ?actor)) s2 = (Inr (), s3)" and
    e: "insert_event (time_Now ?rt) (insert_audit ''InsertAuditLog(score_review_request) failed'')
          ActionScoreReviewRequestApproved ''score_review_request'' i ?actor
          (Some (projr (reviewRequestDetails ?rt i sid x))) s3 = (Inr (), s')"
    by (auto simp: ApproveRequest_def eff_simps Let_def review_audit_defs lockAndCheckStatus_def
        fetchScoreID_def pg_query_row_Inr_iff split: if_splits)
  from q obtain u where "update_review_stmt i (approve_row ?c ?actor) (ptx_now (fst s2)) u (ptx_work (fst s)) =
      Inr ((), ptx_work (fst s3))"
    using w by (auto simp: pg_run_Inr_iff)
  from update_review_Inr [OF this r(1)] show ?thesis
    using pg_event_ok(1) [OF e] r by (auto intro!: review_step.approve)
qed

lemma reject_review_ok:
  assumes "RejectRequest (pg_runtime parse toString sha1) i reason cm userID s = (Inr u, s')"
  shows "review_step (resolveUserID userID) (ptx_work (fst s)) (ptx_work (fst s'))"
proof -
  let ?rt = "pg_runtime parse toString sha1" and ?actor = "resolveUserID userID"
  let ?c = "if \<not> blank cm then Some cm else None"
  from assms obtain r s2 s3 sid x where v: "\<not> blank reason" and
    r: "row_lookup rr_id (db_reviews (ptx_work (fst s))) i = Some r" "rr_status r = reviewStatusUnderReview" and
    w: "ptx_work (fst s2) = ptx_work (fst s)" and
    q: "pg_run (update_review_stmt i (reject_row reason ?c ?actor)) s2 = (Inr (), s3)" and
    e: "insert_event (time_Now ?rt) (insert_audit ''InsertAuditLog(score_review_request) failed'')
          ActionScoreReviewRequestRejected ''score_review_request'' i ?actor
          (Some (projr (reviewRequestDetails ?rt i sid x))) s3 = (Inr (), s')"
    by (auto simp: RejectRequest_def eff_simps Let_def review_audit_defs lockAndCheckStatus_def
        fetchScoreID_def pg_query_row_Inr_iff split: if_splits)
  from q obtain u where "update_review_stmt i (reject_row reason ?c ?actor) (ptx_now (fst s2)) u (ptx_work (fst s)) =
      Inr ((), ptx_work (fst s3))"
    using w by (auto simp: pg_run_Inr_iff)
  from update_review_Inr [OF this r(1)] show ?thesis
    using pg_event_ok(1) [OF e] r v by (auto intro!: review_step.reject)
qed

lemma exec_review_ok:
  assumes "exec_review (pg_runtime parse toString sha1) c userID s = (Inr u, s')"
  shows "review_step (resolveUserID userID) (ptx_work (fst s)) (ptx_work (fst s'))"
  using assms
  by (cases c) (auto simp: exec_review_def eff_simps
    dest: insert_review_ok assign_review_ok approve_review_ok reject_review_ok)


section \<open>The history of a review in the audit log\<close>

text \<open>
  The audit log read as the history of the reviews: one event of a review moves its status along
  the state machine, any other event of a review is illegal, and the events of other resources
  are skipped.
\<close>

definition trail_status :: "action \<Rightarrow> (string option \<times> string) option" where
  "trail_status a =
     (if a = ActionScoreReviewRequestCreated then Some (None, reviewStatusSubmitted)
      else if a = ActionScoreReviewRequestReviewerAssigned
        then Some (Some reviewStatusSubmitted, reviewStatusUnderReview)
      else if a = ActionScoreReviewRequestApproved
        then Some (Some reviewStatusUnderReview, reviewStatusApproved)
      else if a = ActionScoreReviewRequestRejected
        then Some (Some reviewStatusUnderReview, reviewStatusRejected)
      else None)"

definition trail_event :: "audit_event \<Rightarrow> (uuid \<rightharpoonup> string) \<Rightarrow> (uuid \<rightharpoonup> string) option" where
  "trail_event e m =
     (if ev_ResourceType e \<noteq> ''score_review_request'' then Some m
      else case trail_status (ev_Action e) of
        None \<Rightarrow> None
      | Some (p, q) \<Rightarrow> if m (ev_ResourceID e) = p then Some (m(ev_ResourceID e \<mapsto> q)) else None)"

primrec review_trail :: "audit_event list \<Rightarrow> (uuid \<rightharpoonup> string) \<Rightarrow> (uuid \<rightharpoonup> string) option" where
  "review_trail [] m = Some m"
| "review_trail (e # es) m = (case trail_event e m of None \<Rightarrow> None | Some m' \<Rightarrow> review_trail es m')"

lemma review_trail_append:
  "review_trail (es @ fs) m = (case review_trail es m of None \<Rightarrow> None | Some m' \<Rightarrow> review_trail fs m')"
  by (induction es arbitrary: m) (auto split: option.splits)

lemma trail_status_actions [simp]:
  "trail_status ActionScoreReviewRequestCreated = Some (None, reviewStatusSubmitted)"
  "trail_status ActionScoreReviewRequestReviewerAssigned = Some (Some reviewStatusSubmitted, reviewStatusUnderReview)"
  "trail_status ActionScoreReviewRequestApproved = Some (Some reviewStatusUnderReview, reviewStatusApproved)"
  "trail_status ActionScoreReviewRequestRejected = Some (Some reviewStatusUnderReview, reviewStatusRejected)"
  by (simp_all add: trail_status_def ActionScoreReviewRequestCreated_def
      ActionScoreReviewRequestReviewerAssigned_def ActionScoreReviewRequestApproved_def
      ActionScoreReviewRequestRejected_def)

section \<open>The invariant of the table\<close>

definition review_statuses :: "db \<Rightarrow> uuid \<rightharpoonup> string" where
  "review_statuses d i = map_option rr_status (row_lookup rr_id (db_reviews d) i)"

text \<open>What each status says of the other columns.\<close>

definition review_row_ok :: "review_row \<Rightarrow> bool" where
  "review_row_ok r \<longleftrightarrow>
     rr_status r \<in> set [reviewStatusSubmitted, reviewStatusUnderReview, reviewStatusApproved, reviewStatusRejected] \<and>
     (rr_status r = reviewStatusSubmitted \<longleftrightarrow> rr_assigned_reviewer_id r = None) \<and>
     (case rr_assigned_reviewer_id r of None \<Rightarrow> True | Some s \<Rightarrow> \<not> blank s) \<and>
     (rr_status r = reviewStatusRejected \<longleftrightarrow> rr_rejection_reason r \<noteq> None) \<and>
     (case rr_rejection_reason r of None \<Rightarrow> True | Some s \<Rightarrow> \<not> blank s) \<and>
     rr_score_id r \<noteq> uuid_Nil"

definition review_inv :: "db \<Rightarrow> bool" where
  "review_inv d \<longleftrightarrow> distinct (map rr_id (db_reviews d)) \<and> (\<forall>r\<in>set (db_reviews d). review_row_ok r) \<and>
     review_trail (pg_logs d) Map.empty = Some (review_statuses d)"

lemma row_functions_id [simp]:
  "rr_id (assign_row rv a now r) = rr_id r" "rr_id (approve_row c a now r) = rr_id r"
  "rr_id (reject_row reason c a now r) = rr_id r"
  by (simp_all add: assign_row_def approve_row_def reject_row_def)

lemma row_functions_status [simp]:
  "rr_status (assign_row rv a now r) = reviewStatusUnderReview"
  "rr_status (approve_row c a now r) = reviewStatusApproved"
  "rr_status (reject_row reason c a now r) = reviewStatusRejected"
  by (simp_all add: assign_row_def approve_row_def reject_row_def review_status_defs)

lemma row_functions_ok:
  "review_row_ok r \<Longrightarrow> rr_status r = reviewStatusSubmitted \<Longrightarrow> \<not> blank rv \<Longrightarrow>
     review_row_ok (assign_row rv a now r)"
  "review_row_ok r \<Longrightarrow> rr_status r = reviewStatusUnderReview \<Longrightarrow> review_row_ok (approve_row c a now r)"
  "review_row_ok r \<Longrightarrow> rr_status r = reviewStatusUnderReview \<Longrightarrow> \<not> blank reason \<Longrightarrow>
     review_row_ok (reject_row reason c a now r)"
  unfolding review_row_ok_def row_functions_status
  by (auto simp: assign_row_def approve_row_def reject_row_def split: option.splits)

text \<open>One move of one row, with its event, keeps the invariant.\<close>

lemma review_move_inv:
  assumes inv: "review_inv d" and r: "row_lookup rr_id (db_reviews d) i = Some r"
    and ok: "review_row_ok (f r)" and id: "\<And>r. rr_id (f r) = rr_id r"
    and t: "trail_status a = Some (Some (rr_status r), rr_status (f r))"
    and e: "adds_event a ''score_review_request'' i u det
      (d\<lparr>db_reviews := row_update rr_id i f (db_reviews d)\<rparr>) d'"
  shows "review_inv d'"
proof -
  let ?d = "d\<lparr>db_reviews := row_update rr_id i f (db_reviews d)\<rparr>"
  have tab: "db_reviews d' = row_update rr_id i f (db_reviews d)" using adds_event_tables(1) [OF e] by simp
  have dist: "distinct (map rr_id (db_reviews d))" using inv by (simp add: review_inv_def)
  have uniq: "q = r" if "q \<in> set (db_reviews d)" "rr_id q = i" for q
    using dist that row_lookup_key [OF r] row_lookup_in_set [OF r] by (metis distinct_map inj_onD)
  have rows: "\<forall>q\<in>set (db_reviews d'). review_row_ok q"
    using inv uniq ok by (auto simp: tab set_row_update review_inv_def)
  obtain x where x: "pg_logs d' = pg_logs ?d @ [x]" "ev_Action x = a"
      "ev_ResourceType x = ''score_review_request''" "ev_ResourceID x = i"
    using adds_event_logs [OF e] by blast
  have "review_statuses d' = (review_statuses d)(i \<mapsto> rr_status (f r))"
    by (auto simp: fun_eq_iff review_statuses_def tab id r)
  moreover have "pg_logs ?d = pg_logs d" by (simp add: pg_logs_def)
  ultimately have "review_trail (pg_logs d') Map.empty = Some (review_statuses d')"
    using inv r by (simp add: x t review_trail_append review_inv_def trail_event_def review_statuses_def)
  with rows dist show ?thesis by (simp add: review_inv_def tab id)
qed

lemma review_step_inv:
  assumes "review_step actor d d'" and inv: "review_inv d"
  shows "review_inv d'"
  using assms(1)
proof cases
  case (submit i r sid c md now det)
  let ?d = "d\<lparr>db_reviews := db_reviews d @ [r]\<rparr>"
  note e = submit(4)
  obtain x where x: "pg_logs d' = pg_logs ?d @ [x]" "ev_Action x = ActionScoreReviewRequestCreated"
      "ev_ResourceType x = ''score_review_request''" "ev_ResourceID x = i"
    using adds_event_logs [OF e] by blast
  have new: "row_lookup rr_id (db_reviews d) i = None" using submit(1) by (simp add: row_lookup_None_iff)
  have tab: "db_reviews d' = db_reviews d @ [r]" using adds_event_tables(1) [OF e] by simp
  have st: "review_statuses d' = (review_statuses d)(i \<mapsto> reviewStatusSubmitted)"
    using new by (auto simp: fun_eq_iff review_statuses_def tab submit(2) split: option.splits)
  have st0: "review_statuses d i = None" using new by (simp add: review_statuses_def)
  have "pg_logs ?d = pg_logs d" by (simp add: pg_logs_def)
  then have "review_trail (pg_logs d') Map.empty = Some (review_statuses d')"
    using inv st0 by (simp add: x review_trail_append review_inv_def trail_event_def st)
  moreover have "review_row_ok r" using submit(2,3) by (simp add: review_row_ok_def)
  ultimately show ?thesis using inv submit(1) by (auto simp: review_inv_def tab submit(2))
next
  case (assign i r reviewer det now)
  show ?thesis
    by (rule review_move_inv [OF inv assign(1) _ _ _ assign(4)])
      (use assign inv in \<open>auto simp: review_inv_def dest: row_lookup_in_set intro: row_functions_ok\<close>)
next
  case (approve i r det c now)
  show ?thesis
    by (rule review_move_inv [OF inv approve(1) _ _ _ approve(3)])
      (use approve inv in \<open>auto simp: review_inv_def dest: row_lookup_in_set intro: row_functions_ok\<close>)
next
  case (reject i r reason det c now)
  show ?thesis
    by (rule review_move_inv [OF inv reject(1) _ _ _ reject(4)])
      (use reject inv in \<open>auto simp: review_inv_def dest: row_lookup_in_set intro: row_functions_ok\<close>)
qed

text \<open>A decided review is never touched by a step.\<close>

definition review_decided :: "review_row \<Rightarrow> bool" where
  "review_decided r \<longleftrightarrow> rr_status r = reviewStatusApproved \<or> rr_status r = reviewStatusRejected"

lemma review_step_decided:
  assumes "review_step actor d d'" and "row_lookup rr_id (db_reviews d) i = Some r" and "review_decided r"
  shows "row_lookup rr_id (db_reviews d') i = Some r"
  using assms by cases (auto simp: review_decided_def)

section \<open>Properties\<close>

lemma review_step_event: "review_step actor d d' \<Longrightarrow> adds_user_events 1 actor d d'"
  by (elim review_step.cases) (auto simp: pg_logs_def simp del: One_nat_def intro: adds_user_events_from [OF adds_user_events_one])

text \<open>
  C25: The reviews follow their state machine and the log tells it. From tables that satisfy the
  invariant (well-formed rows, and an audit log that replays to exactly the statuses of the
  reviews), each of the four mutations, when it succeeds, leaves tables that satisfy it; approved
  and rejected reviews keep their row, and the log grows by one event of the acting user.
\<close>

theorem review_mutation_sound:
  assumes "exec_review (pg_runtime parse toString sha1) x userID s = (Inr u, s')"
    and "review_inv (ptx_work (fst s))"
  shows "review_inv (ptx_work (fst s')) \<and>
    adds_user_events 1 (resolveUserID userID) (ptx_work (fst s)) (ptx_work (fst s')) \<and>
    (\<forall>i r. row_lookup rr_id (db_reviews (ptx_work (fst s))) i = Some r \<longrightarrow> review_decided r \<longrightarrow>
       row_lookup rr_id (db_reviews (ptx_work (fst s'))) i = Some r)"
  using exec_review_ok [OF assms(1)] assms(2)
  by (auto dest: review_step_inv review_step_event review_step_decided)

lemmas pg_review_run = pg_statements lockAndCheckStatus_def fetchScoreID_def

definition review_db :: "review_row list \<Rightarrow> db" where
  "review_db rs = empty_db\<lparr>db_reviews := rs\<rparr>"

lemma review_db_simps [simp]: "db_reviews (review_db rs) = rs" "db_audit_logs (review_db rs) = []"
  by (simp_all add: review_db_def empty_db_def)

lemma review_actions_short [simp]:
  "length ActionScoreReviewRequestCreated \<le> 64" "length ActionScoreReviewRequestReviewerAssigned \<le> 64"
  "length ActionScoreReviewRequestApproved \<le> 64" "length ActionScoreReviewRequestRejected \<le> 64"
  "text_ok ActionScoreReviewRequestCreated" "text_ok ActionScoreReviewRequestReviewerAssigned"
  "text_ok ActionScoreReviewRequestApproved" "text_ok ActionScoreReviewRequestRejected"
  by (simp_all add: ActionScoreReviewRequestCreated_def ActionScoreReviewRequestReviewerAssigned_def
      ActionScoreReviewRequestApproved_def ActionScoreReviewRequestRejected_def)

lemma insert_review_runs:
  assumes "live s" and "\<forall>n. env_ids (snd s) n \<notin> rr_id ` set (db_reviews (ptx_work (fst s)))"
    and "sid \<noteq> uuid_Nil" and "length (resolveUserID userID) \<le> 64" "text_ok (resolveUserID userID)"
  shows "\<exists>i s'. InsertScoreReviewRequest (pg_runtime parse toString sha1) sid cm md userID s = (Inr i, s')"
proof -
  obtain t w where s: "s = (t, w)" by fastforce
  show ?thesis
    using assms
    by (simp add: s live_def InsertScoreReviewRequest_def validateReviewRequestInput_def marshalReviewMetadata_def
        Let_def insert_review_stmt_def review_row_error_def varchar_def RecordScoreReviewRequestCreated_def
        reviewRequestDetails_def PgReviewTx_InsertAuditLog_def [abs_def] pg_review_run)
qed

theorem review_mutation_sound_witness:
  "\<exists>s'. exec_review (pg_runtime canonical_Parse canonical_String sample_SHA1) (OpInsert 5 '''' []) ''kim''
      (sample_tx (review_db [])) = (Inr (), s') \<and> review_inv (ptx_work (fst s')) \<and>
    length (db_audit_logs (ptx_work (fst s'))) = 1"
proof -
  let ?rt = "pg_runtime canonical_Parse canonical_String sample_SHA1"
  have "resolveUserID ''kim'' = ''kim''" by (simp add: resolveUserID_def blank_iff is_space_def)
  then obtain i s' where run: "InsertScoreReviewRequest ?rt 5 '''' [] ''kim'' (sample_tx (review_db [])) = (Inr i, s')"
    using insert_review_runs [where s = "sample_tx (review_db [])" and sid = 5 and userID = "''kim''" and cm = "''''"
        and md = "[]" and parse = canonical_Parse and toString = canonical_String and ?sha1.0 = sample_SHA1]
    by (auto simp: uuid_Nil_def)
  have inv: "review_inv (ptx_work (fst (sample_tx (review_db []))))"
    by (simp add: review_inv_def pg_logs_def review_statuses_def fun_eq_iff)
  have exec: "exec_review ?rt (OpInsert 5 '''' []) ''kim'' (sample_tx (review_db [])) = (Inr (), s')"
    using run by (simp add: exec_review_def)
  from review_mutation_sound [OF exec inv] exec show ?thesis
    by (auto simp: adds_user_events_def pg_logs_def)
qed

text \<open>What the state machine refuses, as a function of the operation and of the status of the row.\<close>

definition review_refusal :: "review_op \<Rightarrow> string option \<Rightarrow> sentinel option" where
  "review_refusal x status = (case x of
     OpInsert sid cm md \<Rightarrow> if sid = uuid_Nil then Some ErrScoreReviewRequestInvalidInput else None
   | OpAssign i rv \<Rightarrow>
       if blank rv then Some ErrScoreReviewRequestInvalidInput
       else (case status of None \<Rightarrow> Some ErrScoreReviewRequestNotFound
             | Some q \<Rightarrow> if q = reviewStatusSubmitted then None else Some ErrScoreReviewRequestNotSubmitted)
   | OpApprove i cm \<Rightarrow>
       (case status of None \<Rightarrow> Some ErrScoreReviewRequestNotFound
        | Some q \<Rightarrow> if q = reviewStatusUnderReview then None else Some ErrScoreReviewRequestNotUnderReview)
   | OpReject i reason cm \<Rightarrow>
       if blank reason then Some ErrScoreReviewRequestInvalidInput
       else (case status of None \<Rightarrow> Some ErrScoreReviewRequestNotFound
             | Some q \<Rightarrow> if q = reviewStatusUnderReview then None else Some ErrScoreReviewRequestNotUnderReview))"

fun review_target :: "review_op \<Rightarrow> uuid" where
  "review_target (OpInsert sid cm md) = sid"
| "review_target (OpAssign i rv) = i"
| "review_target (OpApprove i cm) = i"
| "review_target (OpReject i reason cm) = i"

lemma review_lock:
  assumes "live s"
  shows "\<exists>s'. ptx_work (fst s') = ptx_work (fst s) \<and>
    lockAndCheckStatus i s = (case review_statuses (ptx_work (fst s)) i of
      None \<Rightarrow> (Inl (wrap1 ''score_review_request id'' (Sentinel ErrScoreReviewRequestNotFound)), s')
    | Some q \<Rightarrow> (Inr q, s'))"
proof -
  obtain t w where s: "s = (t, w)" by fastforce
  show ?thesis
    using assms
    by (auto simp: s live_def pg_review_run review_statuses_def split: option.splits)
qed

text \<open>
  C26: The refusals of the review store. Without faults, an operation that the state machine or the
  validation refuses (a nil score id, a blank reviewer or reason, an unknown review, an assignment
  of a review that is not SUBMITTED, a decision on one that is not UNDER_REVIEW) returns the error
  of its cause, as errors.Is tells it, and changes nothing.
\<close>

theorem review_refusals:
  assumes "live s" and "review_refusal x (review_statuses (ptx_work (fst s)) (review_target x)) = Some k"
  shows "\<exists>e s'. exec_review rt x userID s = (Inl e, s') \<and> errors_Is e k \<and> ptx_work (fst s') = ptx_work (fst s)"
proof -
  obtain t w where s: "s = (t, w)" by fastforce
  obtain t' w' where "ptx_work t' = ptx_work t" and
    "lockAndCheckStatus (review_target x) (t, w) = (case review_statuses (ptx_work t) (review_target x) of
      None \<Rightarrow> (Inl (wrap1 ''score_review_request id'' (Sentinel ErrScoreReviewRequestNotFound)), (t', w'))
    | Some q \<Rightarrow> (Inr q, (t', w')))"
    using review_lock [OF assms(1), of "review_target x"] by (fastforce simp: s)
  then show ?thesis
    using assms(2) unfolding s
    by (cases x) (auto simp: exec_review_def review_refusal_def InsertScoreReviewRequest_def AssignReviewer_def
        ApproveRequest_def RejectRequest_def validateReviewRequestInput_def validateRejectionReason_def
        call_def callw_def lift_def throw_def split: option.splits if_splits)
qed

definition sample_review :: "uuid \<Rightarrow> string \<Rightarrow> review_row" where
  "sample_review i q = \<lparr>rr_id = i, rr_score_id = 5, rr_status = q, rr_assigned_reviewer_id = Some ''lee'',
     rr_rejection_reason = None, rr_comment = None, rr_metadata = None, rr_created_at = 1, rr_created_by = ''kim'',
     rr_updated_at = 1, rr_updated_by = ''kim''\<rparr>"

theorem review_refusals_witness:
  "\<exists>e s'. exec_review (pg_runtime canonical_Parse canonical_String sample_SHA1) (OpApprove 7 '''') ''kim''
      (sample_tx (review_db [sample_review 7 ''APPROVED''])) = (Inl e, s') \<and>
    errors_Is e ErrScoreReviewRequestNotUnderReview"
  using review_refusals [where s = "sample_tx (review_db [sample_review 7 ''APPROVED''])" and x = "OpApprove 7 ''''"
      and k = ErrScoreReviewRequestNotUnderReview and userID = "''kim''"
      and rt = "pg_runtime canonical_Parse canonical_String sample_SHA1"]
  by (auto simp: review_refusal_def review_statuses_def sample_review_def reviewStatusUnderReview_def)

text \<open>
  The column of the actor in score_review_requests is wider (128) than the user column of the
  audit log (64). A user id of 65 to 128 characters therefore passes the store, and the audit event
  of the same transaction fails: without faults, the approval of a review under review by such a
  user always returns ErrScoreReviewRequestAuditWriteFailed.
\<close>

lemma long_actor_cannot_decide:
  assumes "live s" and "row_lookup rr_id (db_reviews (ptx_work (fst s))) i = Some r"
    and "rr_status r = reviewStatusUnderReview" and "review_row_error r = None"
    and "64 < length userID" and "length userID \<le> 128" and "\<not> blank userID"
  shows "\<exists>e s'. ApproveRequest (pg_runtime parse toString sha1) i cm userID s = (Inl e, s') \<and>
    errors_Is e ErrScoreReviewRequestAuditWriteFailed"
proof -
  obtain t w where s: "s = (t, w)" by fastforce
  have ok: "review_row_error (approve_row c userID now r) = None" for c now
    using assms(4,6) by (auto simp: review_row_error_def approve_row_def varchar_def split: if_splits)
  have u: "resolveUserID userID = userID" "userID \<noteq> []" using assms(5,7) by (auto simp: resolveUserID_def)
  have tr: "validateReviewStatusTransition reviewStatusUnderReview reviewStatusApproved = Inr ()" by simp
  show ?thesis
    using assms(1-3,5) ok u
    by (simp add: s live_def ApproveRequest_def tr update_review_stmt_def Let_def RecordScoreReviewRequestApproved_def
        reviewRequestDetails_def PgReviewTx_InsertAuditLog_def [abs_def] varchar_def pg_review_run)
qed

end
