(* ===== verification/Score_Store.thy ===== *)
theory Score_Store
  imports Database Recorder
begin

text \<open>
  internal/store/score.go: the scores of evaluation items, from DRAFT over CONFIRMED to SUPERSEDED,
  the weighted sum of the raw scores, and the grade of a value. Each mutation writes its row and
  one audit event in one transaction; the entities are those of store.go. The codec between
  float64 and NUMERIC is the argument \<^verbatim>\<open>c\<close>.
\<close>

record Score =
  sco_CreatedAt :: time
  sco_UpdatedAt :: time
  sco_Metadata :: metadata
  sco_EvidenceID :: "uuid option"
  sco_ScoreValue :: "float64 option"
  sco_Weight :: "float64 option"
  sco_EvaluationItemID :: string
  sco_Level :: string
  sco_Grade :: string
  sco_Status :: string
  sco_CreatedBy :: string
  sco_ID :: uuid

record ScoreUpdate =
  su_ScoreValue :: "float64 option"
  su_Weight :: "float64 option"
  su_Grade :: "string option"
  su_Status :: "string option"
  su_Metadata :: "metadata option"

definition maxScoreEvalItemIDLen :: nat where
  "maxScoreEvalItemIDLen = 64"

definition allowedScoreLevel :: "string list" where
  "allowedScoreLevel = [''raw'', ''item'', ''category'']"

definition allowedScoreStatus :: "string list" where
  "allowedScoreStatus = [''DRAFT'', ''CONFIRMED'', ''SUPERSEDED'']"

definition not_finite :: "float64 \<Rightarrow> bool" where
  "not_finite x \<longleftrightarrow> x = NaN \<or> x = PosInf \<or> x = NegInf"

definition validateScoreInput :: "string \<Rightarrow> string \<Rightarrow> float64 \<Rightarrow> goerr + unit" where
  "validateScoreInput evaluationItemID level scoreValue =
     (if blank evaluationItemID
      then Inl (wrap1 ''evaluation_item_id is empty'' (Sentinel ErrScoreInvalidInput))
      else if length evaluationItemID > maxScoreEvalItemIDLen
      then Inl (wrap1 ''evaluation_item_id too long'' (Sentinel ErrScoreInvalidInput))
      else if level \<notin> set allowedScoreLevel
      then Inl (wrap1 ''level not allowed'' (Sentinel ErrScoreInvalidInput))
      else if not_finite scoreValue
      then Inl (wrap1 ''score_value is not a number'' (Sentinel ErrScoreInvalidInput))
      else Inr ())"

definition validateScoreStatusTransition :: "string \<Rightarrow> string \<Rightarrow> goerr + unit" where
  "validateScoreStatusTransition p q =
     (if q \<notin> set allowedScoreStatus
      then Inl (wrap1 ''status not allowed'' (Sentinel ErrScoreInvalidStatus))
      else let allowed = (if p = ''DRAFT'' then [''CONFIRMED'', ''SUPERSEDED'']
                          else if p = ''CONFIRMED'' then [''SUPERSEDED''] else [])
           in if q \<notin> set allowed
              then Inl (wrap1 ''status transition not allowed'' (Sentinel ErrScoreInvalidStatus))
              else Inr ())"

definition marshalScoreMetadata :: "metadata \<Rightarrow> goerr + metadata option" where
  "marshalScoreMetadata md = (if md = [] then Inr None else Inr (Some md))"

section \<open>The statements\<close>

definition score_row_error :: "score_row \<Rightarrow> goerr option" where
  "score_row_error r =
     (if \<not> varchar 64 (so_evaluation_item_id r) \<or> \<not> varchar 16 (so_level r) \<or> \<not> varchar 32 (so_status r) \<or>
         \<not> varchar 64 (so_created_by r) \<or> (case so_grade r of None \<Rightarrow> False | Some g \<Rightarrow> \<not> varchar 2 g)
      then Some (PgError ''22001'')
      else if so_level r \<notin> set [''raw'', ''item'', ''category''] \<or>
         so_status r \<notin> set [''DRAFT'', ''CONFIRMED'', ''SUPERSEDED''] \<or>
         (case so_grade r of None \<Rightarrow> False | Some g \<Rightarrow> g \<notin> set [''S'', ''A'', ''B'', ''C'', ''D''])
      then Some (PgError ''23514'')
      else None)"

definition insert_score_stmt ::
  "num_codec \<Rightarrow> string \<Rightarrow> uuid option \<Rightarrow> string \<Rightarrow> float64 \<Rightarrow> float64 option \<Rightarrow> string \<Rightarrow> metadata option \<Rightarrow>
   uuid statement" where
  "insert_score_stmt c item ev level v w status md = (\<lambda>now u d.
     case to_numeric c 6 2 v of Inl e \<Rightarrow> Inl e | Inr nv \<Rightarrow>
     (case to_numeric_opt c 5 4 w of Inl e \<Rightarrow> Inl e | Inr nw \<Rightarrow>
      let r = \<lparr>so_id = u, so_evaluation_item_id = item, so_evidence_id = ev, so_level = level,
               so_score_value = Some nv, so_weight = nw, so_grade = None, so_status = status,
               so_metadata = md, so_created_at = now, so_created_by = ''cli-anonymous'',
               so_updated_at = now\<rparr>
      in case score_row_error r of
           Some e \<Rightarrow> Inl e
         | None \<Rightarrow> if u \<in> so_id ` set (db_scores d) then Inl (PgError ''23505'')
                   else Inr (u, d\<lparr>db_scores := db_scores d @ [r]\<rparr>)))"

text \<open>The SET clauses that buildScoreUpdateSet collects, with their arguments.\<close>

datatype score_set =
    SetScoreValue float64 | SetWeight float64 | SetGrade string | SetStatus string
  | SetMetadata "metadata option"

definition buildScoreUpdateSet :: "ScoreUpdate \<Rightarrow> goerr + score_set list" where
  "buildScoreUpdateSet upd =
     (let head_sets = opt_list SetScoreValue (su_ScoreValue upd) @ opt_list SetWeight (su_Weight upd) @
                      opt_list SetGrade (su_Grade upd) @ opt_list SetStatus (su_Status upd)
      in case su_Metadata upd of
           None \<Rightarrow> Inr head_sets
         | Some md \<Rightarrow> (case marshalScoreMetadata md of
             Inl e \<Rightarrow> Inl e | Inr j \<Rightarrow> Inr (head_sets @ [SetMetadata j])))"

fun apply_score_set :: "num_codec \<Rightarrow> score_set \<Rightarrow> score_row \<Rightarrow> goerr + score_row" where
  "apply_score_set c (SetScoreValue v) r =
     (case to_numeric c 6 2 v of Inl e \<Rightarrow> Inl e | Inr n \<Rightarrow> Inr (r\<lparr>so_score_value := Some n\<rparr>))"
| "apply_score_set c (SetWeight w) r =
     (case to_numeric c 5 4 w of Inl e \<Rightarrow> Inl e | Inr n \<Rightarrow> Inr (r\<lparr>so_weight := Some n\<rparr>))"
| "apply_score_set c (SetGrade g) r = Inr (r\<lparr>so_grade := Some g\<rparr>)"
| "apply_score_set c (SetStatus q) r = Inr (r\<lparr>so_status := q\<rparr>)"
| "apply_score_set c (SetMetadata md) r = Inr (r\<lparr>so_metadata := md\<rparr>)"

primrec apply_score_sets :: "num_codec \<Rightarrow> score_set list \<Rightarrow> score_row \<Rightarrow> goerr + score_row" where
  "apply_score_sets c [] r = Inr r"
| "apply_score_sets c (x # xs) r =
     (case apply_score_set c x r of Inl e \<Rightarrow> Inl e | Inr r' \<Rightarrow> apply_score_sets c xs r')"

text \<open>The number of updated rows is the result, as RowsAffected has it.\<close>

definition update_score_stmt :: "num_codec \<Rightarrow> uuid \<Rightarrow> score_set list \<Rightarrow> nat statement" where
  "update_score_stmt c i sets = (\<lambda>now u d.
     case row_lookup so_id (db_scores d) i of
       None \<Rightarrow> Inr (0, d)
     | Some r \<Rightarrow> (case apply_score_sets c sets r of
         Inl e \<Rightarrow> Inl e
       | Inr r' \<Rightarrow> let r'' = r'\<lparr>so_updated_at := now\<rparr> in (case score_row_error r'' of
           Some e \<Rightarrow> Inl e
         | None \<Rightarrow> Inr (1, d\<lparr>db_scores := row_update so_id i (\<lambda>q. r'') (db_scores d)\<rparr>))))"

definition supersede_row :: "time \<Rightarrow> score_row \<Rightarrow> score_row" where
  "supersede_row now r = r\<lparr>so_status := ''SUPERSEDED'', so_updated_at := now\<rparr>"

definition supersede_stmt :: "uuid \<Rightarrow> nat statement" where
  "supersede_stmt i = (\<lambda>now u d.
     case row_lookup so_id (db_scores d) i of
       None \<Rightarrow> Inr (0, d)
     | Some r \<Rightarrow> if so_status r \<noteq> ''CONFIRMED'' then Inr (0, d)
         else Inr (1, d\<lparr>db_scores := row_update so_id i (supersede_row now) (db_scores d)\<rparr>))"

section \<open>PgScoreTx\<close>

definition PgStore_BeginScoreTx :: "(pg_world, pg_tx) eff" where
  "PgStore_BeginScoreTx =
     callw pool_BeginTx (\<lambda>e. wrap1 ''BeginScoreTx failed'' (Sentinel ErrPgxPoolExhausted)) retn"

definition score_recorder :: "pg_state runtime \<Rightarrow> pg_state Recorder" where
  "score_recorder rt = NewRecorder rt False []"

definition PgScoreTx_InsertAuditLog :: "audit_event \<Rightarrow> (pg_state, unit) eff" where
  "PgScoreTx_InsertAuditLog e = insert_audit ''InsertAuditLog(score) failed'' e"

definition score_audit_failed :: "string \<Rightarrow> goerr \<Rightarrow> goerr" where
  "score_audit_failed msg e = Wrap msg [Sentinel ErrScoreAuditWriteFailed, e]"

definition insertScoreRow ::
  "num_codec \<Rightarrow> string \<Rightarrow> uuid option \<Rightarrow> string \<Rightarrow> float64 \<Rightarrow> float64 option \<Rightarrow> string \<Rightarrow> metadata \<Rightarrow>
   (pg_state, uuid) eff" where
  "insertScoreRow c item ev level v w status md =
     call (lift (marshalScoreMetadata md)) (\<lambda>metaJSON.
     callw (pg_run (insert_score_stmt c item ev level v w status metaJSON))
       (sql_failed ''InsertScore failed'') retn)"

definition InsertScore ::
  "pg_state runtime \<Rightarrow> num_codec \<Rightarrow> string \<Rightarrow> uuid option \<Rightarrow> string \<Rightarrow> float64 \<Rightarrow> float64 option \<Rightarrow> metadata \<Rightarrow>
   (pg_state, uuid) eff" where
  "InsertScore rt c item ev level v w md =
     call (lift (validateScoreInput item level v)) (\<lambda>_.
     call (insertScoreRow c item ev level v w ''DRAFT'' md) (\<lambda>i.
     callw (RecordScoreCreated rt (score_recorder rt) PgScoreTx_InsertAuditLog i item level [])
       (score_audit_failed ''InsertScore audit failed'') (\<lambda>_. retn i)))"

definition scanScoreRow :: "num_codec \<Rightarrow> score_row \<Rightarrow> Score" where
  "scanScoreRow c r =
     \<lparr>sco_CreatedAt = so_created_at r, sco_UpdatedAt = so_updated_at r,
      sco_Metadata = (case so_metadata r of None \<Rightarrow> [] | Some m \<Rightarrow> m),
      sco_EvidenceID = so_evidence_id r, sco_ScoreValue = map_option (of_numeric c) (so_score_value r),
      sco_Weight = map_option (of_numeric c) (so_weight r), sco_EvaluationItemID = so_evaluation_item_id r,
      sco_Level = so_level r, sco_Grade = (case so_grade r of None \<Rightarrow> [] | Some g \<Rightarrow> g),
      sco_Status = so_status r, sco_CreatedBy = so_created_by r, sco_ID = so_id r\<rparr>"

definition GetScoreByID :: "num_codec \<Rightarrow> uuid \<Rightarrow> (pg_state, Score) eff" where
  "GetScoreByID c i =
     callw (pg_query_row (\<lambda>d. map_option (scanScoreRow c) (row_lookup so_id (db_scores d) i)))
       (\<lambda>e. if errors_Is e pgx_ErrNoRows then wrap1 ''GetScoreByID id'' (Sentinel ErrScoreNotFound)
            else wrap1 ''GetScoreByID scan failed'' e) retn"

definition GetScoresByEvaluationItem :: "num_codec \<Rightarrow> string \<Rightarrow> (pg_state, Score list) eff" where
  "GetScoresByEvaluationItem c item =
     callw (pg_query (\<lambda>d. map (scanScoreRow c) (sort_key (\<lambda>r. - so_created_at r)
              (List.filter (\<lambda>r. so_evaluation_item_id r = item) (db_scores d)))))
       (wrap1 ''GetScoresByEvaluationItem failed'') retn"

definition UpdateScore :: "pg_state runtime \<Rightarrow> num_codec \<Rightarrow> uuid \<Rightarrow> ScoreUpdate \<Rightarrow> (pg_state, unit) eff" where
  "UpdateScore rt c i upd =
     call (GetScoreByID c i) (\<lambda>current.
     if sco_Status current = ''CONFIRMED'' \<and>
        (su_ScoreValue upd \<noteq> None \<or> su_Weight upd \<noteq> None \<or> su_Grade upd \<noteq> None)
     then throw (wrap1 ''UpdateScore: CONFIRMED row is immutable'' (Sentinel ErrScoreImmutable))
     else call (lift (case su_Status upd of
                  None \<Rightarrow> Inr () | Some q \<Rightarrow> validateScoreStatusTransition (sco_Status current) q)) (\<lambda>_.
     call (lift (buildScoreUpdateSet upd)) (\<lambda>sets.
     if sets = [] then retn ()
     else callw (pg_run (update_score_stmt c i sets)) (sql_failed ''UpdateScore failed'') (\<lambda>n.
     if n = 0 then throw (wrap1 ''UpdateScore id'' (Sentinel ErrScoreNotFound))
     else callw (RecordScoreUpdated rt (score_recorder rt) PgScoreTx_InsertAuditLog i
                   (sco_EvaluationItemID current) (sco_Level current) [])
       (score_audit_failed ''UpdateScore audit failed'') (\<lambda>_. retn ())))))"

definition SupersedeAndReplaceScore ::
  "pg_state runtime \<Rightarrow> num_codec \<Rightarrow> uuid \<Rightarrow> float64 \<Rightarrow> float64 option \<Rightarrow> metadata \<Rightarrow> (pg_state, uuid) eff" where
  "SupersedeAndReplaceScore rt c oldID v w md =
     (if not_finite v
      then throw (wrap1 ''score_value of the correction is not a number'' (Sentinel ErrScoreInvalidInput))
      else call (GetScoreByID c oldID) (\<lambda>old.
        if sco_Status old \<noteq> ''CONFIRMED''
        then throw (wrap1 ''SupersedeAndReplaceScore: CONFIRMED needed'' (Sentinel ErrScoreNotConfirmed))
        else call (insertScoreRow c (sco_EvaluationItemID old) (sco_EvidenceID old) (sco_Level old)
                     v w ''CONFIRMED'' md) (\<lambda>newID.
        callw (RecordScoreCreated rt (score_recorder rt) PgScoreTx_InsertAuditLog newID
                 (sco_EvaluationItemID old) (sco_Level old) [])
          (score_audit_failed ''audit of the new row failed'') (\<lambda>_.
        callw (pg_run (supersede_stmt oldID)) (sql_failed ''transition to SUPERSEDED failed'') (\<lambda>n.
        if n = 0
        then throw (wrap1 ''SupersedeAndReplaceScore: old row not CONFIRMED'' (Sentinel ErrScoreNotConfirmed))
        else callw (RecordScoreUpdated rt (score_recorder rt) PgScoreTx_InsertAuditLog oldID
                      (sco_EvaluationItemID old) (sco_Level old) [])
          (score_audit_failed ''audit of the old row failed'') (\<lambda>_. retn newID))))))"

text \<open>SUM(score_value * weight) over the raw rows with both values, cast to NUMERIC(12, 4).\<close>

definition weighted_sum :: "string \<Rightarrow> db \<Rightarrow> numeric" where
  "weighted_sum item d =
     foldr num_add
       (List.map_filter (\<lambda>r. case (so_score_value r, so_weight r) of
            (Some v, Some w) \<Rightarrow> Some (num_mul v w) | _ \<Rightarrow> None)
          (List.filter (\<lambda>r. so_evaluation_item_id r = item \<and> so_level r = ''raw'') (db_scores d)))
       (Num 0)"

definition SumWeightedByEvaluationItem :: "string \<Rightarrow> (pg_state, numeric) eff" where
  "SumWeightedByEvaluationItem item =
     callw (pg_run (\<lambda>now u d. case num_cast 12 4 (weighted_sum item d) of
              Inl e \<Rightarrow> Inl e | Inr n \<Rightarrow> Inr (n, d)))
       (wrap1 ''SumWeightedByEvaluationItem failed'') retn"

record gradeThreshold =
  th_Letter :: string
  th_BoundaryRule :: string
  th_MinValue :: float64

definition scan_threshold :: "num_codec \<Rightarrow> threshold_row \<Rightarrow> gradeThreshold" where
  "scan_threshold c r = \<lparr>th_Letter = gt_letter r, th_BoundaryRule = gt_boundary_rule r,
     th_MinValue = of_numeric c (gt_min_value r)\<rparr>"

definition threshold_matches :: "float64 \<Rightarrow> gradeThreshold \<Rightarrow> bool" where
  "threshold_matches score gt =
     (if th_BoundaryRule gt = ''gte'' then f64_ge score (th_MinValue gt)
      else if th_BoundaryRule gt = ''gt'' then f64_gt score (th_MinValue gt)
      else False)"

definition DetermineGrade :: "num_codec \<Rightarrow> string \<Rightarrow> float64 \<Rightarrow> (pg_state, string) eff" where
  "DetermineGrade c scope score =
     callw (pg_query (\<lambda>d. map (scan_threshold c) (rev (sort_key gt_min_value
              (List.filter (\<lambda>r. gt_scope r = scope) (db_thresholds d))))))
       (wrap1 ''DetermineGrade query failed'') (\<lambda>thresholds.
     if thresholds = []
     then throw (wrap1 ''DetermineGrade scope'' (Sentinel ErrGradeThresholdsUnavailable))
     else case find (threshold_matches score) thresholds of
       Some gt \<Rightarrow> retn (th_Letter gt)
     | None \<Rightarrow> throw (wrap1 ''DetermineGrade: below all thresholds'' (Sentinel ErrGradeThresholdsUnavailable)))"

definition PgScoreTx_Commit :: "(pg_state, unit) eff" where
  "PgScoreTx_Commit = callw pg_commit (wrap1 ''Commit(score) failed'') (\<lambda>_. retn ())"

definition PgScoreTx_Rollback :: "(pg_state, unit) eff" where
  "PgScoreTx_Rollback s =
     (case pg_rollback s of
        (Inl e, s') \<Rightarrow> if errors_Is e pgx_ErrTxClosed then (Inr (), s')
                      else (Inl (wrap1 ''Rollback(score) failed'' e), s')
      | (Inr u, s') \<Rightarrow> (Inr (), s'))"

end
