(* ===== verification/Score_Properties.thy ===== *)
theory Score_Properties
  imports Score_Store Uuid_Instance Samples
begin

text \<open>
  What the score store guarantees: no row disappears, the status only moves forward, a CONFIRMED
  row keeps its value, weight and grade, every mutation that succeeds has its audit events, and the
  grade of a value is that of the highest threshold it reaches.
\<close>

section \<open>How a row may change\<close>

definition status_moves :: "string \<Rightarrow> string \<Rightarrow> bool" where
  "status_moves p q \<longleftrightarrow> q = p \<or> p = ''DRAFT'' \<and> (q = ''CONFIRMED'' \<or> q = ''SUPERSEDED'') \<or>
     p = ''CONFIRMED'' \<and> q = ''SUPERSEDED''"

definition score_evolves :: "score_row \<Rightarrow> score_row \<Rightarrow> bool" where
  "score_evolves r r' \<longleftrightarrow>
     so_id r' = so_id r \<and> so_evaluation_item_id r' = so_evaluation_item_id r \<and>
     so_level r' = so_level r \<and> so_evidence_id r' = so_evidence_id r \<and>
     so_created_at r' = so_created_at r \<and> so_created_by r' = so_created_by r \<and>
     status_moves (so_status r) (so_status r') \<and>
     (so_status r = ''CONFIRMED'' \<longrightarrow> so_score_value r' = so_score_value r \<and>
        so_weight r' = so_weight r \<and> so_grade r' = so_grade r)"

lemma status_moves_refl [simp]: "status_moves p p"
  by (simp add: status_moves_def)

lemma score_evolves_refl [simp]: "score_evolves r r"
  by (simp add: score_evolves_def)

lemma score_transition_Inr:
  "validateScoreStatusTransition p q = Inr u \<longleftrightarrow>
     p = ''DRAFT'' \<and> (q = ''CONFIRMED'' \<or> q = ''SUPERSEDED'') \<or> p = ''CONFIRMED'' \<and> q = ''SUPERSEDED''"
  by (auto simp: validateScoreStatusTransition_def Let_def allowedScoreStatus_def)

lemma sets_frame:
  assumes "apply_score_sets c xs r = Inr r'"
  shows "so_id r' = so_id r \<and> so_evaluation_item_id r' = so_evaluation_item_id r \<and>
    so_level r' = so_level r \<and> so_evidence_id r' = so_evidence_id r \<and>
    so_created_at r' = so_created_at r \<and> so_created_by r' = so_created_by r"
  using assms
proof (induction xs arbitrary: r)
  case (Cons x xs)
  then show ?case by (cases x) (fastforce split: sum.splits)+
qed simp

lemma sets_fields:
  assumes "apply_score_sets c xs r = Inr r'"
  shows "(\<forall>v. SetScoreValue v \<notin> set xs) \<Longrightarrow> so_score_value r' = so_score_value r"
    and "(\<forall>v. SetWeight v \<notin> set xs) \<Longrightarrow> so_weight r' = so_weight r"
    and "(\<forall>v. SetGrade v \<notin> set xs) \<Longrightarrow> so_grade r' = so_grade r"
    and "so_status r' = so_status r \<or> SetStatus (so_status r') \<in> set xs"
  using assms
proof (induction xs arbitrary: r)
  case (Cons x xs)
  { case 1 with Cons show ?case by (cases x) (fastforce split: sum.splits)+ }
  { case 2 with Cons show ?case by (cases x) (fastforce split: sum.splits)+ }
  { case 3 with Cons show ?case by (cases x) (fastforce split: sum.splits)+ }
  { case 4 with Cons(4) show ?case by (cases x) (fastforce split: sum.splits)+ }
qed simp_all

lemma build_sets:
  assumes "buildScoreUpdateSet upd = Inr xs"
  shows "SetScoreValue v \<in> set xs \<longleftrightarrow> su_ScoreValue upd = Some v"
    and "SetWeight v \<in> set xs \<longleftrightarrow> su_Weight upd = Some v"
    and "SetGrade g \<in> set xs \<longleftrightarrow> su_Grade upd = Some g"
    and "SetStatus q \<in> set xs \<longleftrightarrow> su_Status upd = Some q"
  using assms
  by (auto simp: buildScoreUpdateSet_def Let_def opt_list_def split: option.splits sum.splits)

text \<open>The update of one row, under the guards of UpdateScore.\<close>

lemma update_evolves:
  assumes sets: "buildScoreUpdateSet upd = Inr xs" and r': "apply_score_sets c xs r = Inr r'"
    and guard: "\<not> (so_status r = ''CONFIRMED'' \<and>
      (su_ScoreValue upd \<noteq> None \<or> su_Weight upd \<noteq> None \<or> su_Grade upd \<noteq> None))"
    and st: "case su_Status upd of None \<Rightarrow> True | Some q \<Rightarrow> validateScoreStatusTransition (so_status r) q = Inr ()"
  shows "score_evolves r (r'\<lparr>so_updated_at := now\<rparr>)"
proof -
  have "status_moves (so_status r) (so_status r')"
    using sets_fields(4) [OF r'] st build_sets(4) [OF sets]
    by (auto simp: status_moves_def score_transition_Inr)
  moreover have "so_score_value r' = so_score_value r \<and> so_weight r' = so_weight r \<and> so_grade r' = so_grade r"
    if "so_status r = ''CONFIRMED''"
    using that guard sets_fields(1-3) [OF r'] build_sets(1-3) [OF sets] by auto
  ultimately show ?thesis using sets_frame [OF r'] by (simp add: score_evolves_def)
qed

section \<open>The mutations\<close>

datatype score_op =
    OpInsertScore string "uuid option" string float64 "float64 option" metadata
  | OpUpdateScore uuid ScoreUpdate
  | OpSupersede uuid float64 "float64 option" metadata

definition exec_score :: "pg_state runtime \<Rightarrow> num_codec \<Rightarrow> score_op \<Rightarrow> (pg_state, unit) eff" where
  "exec_score rt c x = (case x of
     OpInsertScore item ev level v w md \<Rightarrow> call (InsertScore rt c item ev level v w md) (\<lambda>i. retn ())
   | OpUpdateScore i upd \<Rightarrow> UpdateScore rt c i upd
   | OpSupersede i v w md \<Rightarrow> call (SupersedeAndReplaceScore rt c i v w md) (\<lambda>i. retn ()))"

text \<open>
  The specification of a mutation: every row stays and evolves, new rows have new ids, and n audit
  events of the user cli-anonymous are appended.
\<close>

definition rows_evolve :: "score_row list \<Rightarrow> score_row list \<Rightarrow> bool" where
  "rows_evolve rs rs' \<longleftrightarrow> (\<forall>i r. row_lookup so_id rs i = Some r \<longrightarrow>
     (\<exists>r'. row_lookup so_id rs' i = Some r' \<and> score_evolves r r'))"

definition score_effect :: "nat \<Rightarrow> db \<Rightarrow> db \<Rightarrow> bool" where
  "score_effect n d d' \<longleftrightarrow>
     rows_evolve (db_scores d) (db_scores d') \<and> adds_user_events n DefaultUserID d d'"

lemma rows_evolve_refl [simp]: "rows_evolve rs rs"
  by (simp add: rows_evolve_def)

lemma rows_evolve_append [simp]: "rows_evolve rs (rs @ [r])"
  by (auto simp: rows_evolve_def)

lemma lookup_replace:
  "so_id q = i \<Longrightarrow> row_lookup so_id (row_update so_id i (\<lambda>r. q) rs) j =
     (if j = i then map_option (\<lambda>r. q) (row_lookup so_id rs i) else row_lookup so_id rs j)"
  by (induction rs) auto

lemma rows_evolve_replace:
  assumes "row_lookup so_id rs i = Some r" and "score_evolves r q"
  shows "rows_evolve rs (row_update so_id i (\<lambda>r. q) rs)"
proof -
  have "so_id q = i" using assms row_lookup_key by (fastforce simp: score_evolves_def)
  then show ?thesis using assms by (auto simp: rows_evolve_def lookup_replace)
qed

lemma rows_evolve_supersede:
  assumes "row_lookup so_id rs i = Some r" and "so_status r = ''CONFIRMED''"
  shows "rows_evolve rs (row_update so_id i (supersede_row now) (rs @ [q]))"
proof -
  have "score_evolves r (supersede_row now r)"
    using assms(2) by (simp add: score_evolves_def supersede_row_def status_moves_def score_transition_Inr)
  then show ?thesis using assms(1) by (auto simp: rows_evolve_def supersede_row_def)
qed

lemma pg_logs_scores [simp]: "pg_logs (d\<lparr>db_scores := x\<rparr>) = pg_logs d"
  by (simp add: pg_logs_def)

lemma score_effect_step:
  assumes "adds_event a ty i DefaultUserID det d1 d'" and "rows_evolve (db_scores d) (db_scores d1)"
    and "pg_logs d1 = pg_logs d"
  shows "score_effect 1 d d'"
  unfolding score_effect_def
  using assms(2) adds_user_events_from [OF adds_user_events_one [OF assms(1)] assms(3)] adds_event_tables [OF assms(1)]
  by simp

lemma score_recorder_user [simp]: "Recorder_resolveUserID (score_recorder rt) u = DefaultUserID"
  by (simp add: Recorder_resolveUserID_def score_recorder_def)

lemma score_clock [simp]: "nowUTC rt (score_recorder rt) = time_Now rt"
  unfolding score_recorder_def by (rule nowUTC_pg)

lemma call_scoreDetails: "call (lift (scoreDetails rt i item lv)) k = k (projr (scoreDetails rt i item lv))"
  using details_Inr(2) [of rt i item lv] by auto

lemmas score_audit_defs =
  RecordScoreCreated_def RecordScoreUpdated_def call_scoreDetails PgScoreTx_InsertAuditLog_def [abs_def]

lemma insert_score_Inr:
  "insert_score_stmt c item ev level v w status md now u d = Inr (i, d') \<Longrightarrow>
   \<exists>r. d' = d\<lparr>db_scores := db_scores d @ [r]\<rparr> \<and> i = u \<and> so_id r = u \<and> u \<notin> so_id ` set (db_scores d) \<and>
     so_status r = status \<and> so_evaluation_item_id r = item \<and> so_level r = level \<and> so_evidence_id r = ev \<and>
     score_row_error r = None"
  by (auto simp: insert_score_stmt_def Let_def split: option.splits sum.splits if_splits)

lemma supersede_Inr:
  "supersede_stmt i now u d = Inr (n, d') \<Longrightarrow> n \<noteq> 0 \<Longrightarrow>
   d' = d\<lparr>db_scores := row_update so_id i (supersede_row now) (db_scores d)\<rparr>"
  by (auto simp: supersede_stmt_def split: option.splits if_splits)

lemma insert_score_ok:
  assumes "InsertScore (pg_runtime parse toString sha1) c item ev level v w md s = (Inr i, s')"
  shows "score_effect 1 (ptx_work (fst s)) (ptx_work (fst s'))"
proof -
  let ?rt = "pg_runtime parse toString sha1"
  from assms obtain s1 j st where
    q: "pg_run (insert_score_stmt c item ev level v w ''DRAFT'' st) s = (Inr j, s1)" and
    e: "insert_event (time_Now ?rt) (insert_audit ''InsertAuditLog(score) failed'')
          ActionScoreCreated ''score'' j DefaultUserID (Some (projr (scoreDetails ?rt j item level))) s1 = (Inr (), s')"
    by (auto simp: InsertScore_def insertScoreRow_def eff_simps score_audit_defs)
  obtain r where "ptx_work (fst s1) = (ptx_work (fst s))\<lparr>db_scores := db_scores (ptx_work (fst s)) @ [r]\<rparr>"
    using insert_score_Inr [OF pg_run_work [OF q]] by blast
  then show ?thesis
    by (intro score_effect_step [OF pg_event_ok(1) [OF e]]) simp_all
qed

lemma scan_score_simps [simp]:
  "sco_Status (scanScoreRow c r) = so_status r"
  "sco_EvaluationItemID (scanScoreRow c r) = so_evaluation_item_id r"
  "sco_Level (scanScoreRow c r) = so_level r" "sco_EvidenceID (scanScoreRow c r) = so_evidence_id r"
  by (simp_all add: scanScoreRow_def)

lemma get_score_Inr:
  "GetScoreByID c i s = (Inr x, s') \<Longrightarrow>
   \<exists>r. row_lookup so_id (db_scores (ptx_work (fst s))) i = Some r \<and> x = scanScoreRow c r \<and> fst s' = fst s"
  by (auto simp: GetScoreByID_def eff_simps pg_query_row_Inr_iff)

lemma update_score_Inr:
  assumes "update_score_stmt c i sets now u d = Inr (n, d')" and "row_lookup so_id (db_scores d) i = Some r"
  obtains r' where "apply_score_sets c sets r = Inr r'" "n = 1"
    "d' = d\<lparr>db_scores := row_update so_id i (\<lambda>q. r'\<lparr>so_updated_at := now\<rparr>) (db_scores d)\<rparr>"
    "score_row_error (r'\<lparr>so_updated_at := now\<rparr>) = None"
  using assms by (auto simp: update_score_stmt_def Let_def split: sum.splits option.splits)

lemma update_score_run:
  assumes "UpdateScore (pg_runtime parse toString sha1) c i upd s = (Inr u, s')"
  obtains (nothing) "ptx_work (fst s') = ptx_work (fst s)"
  | (row) r sets r' now s2 where "row_lookup so_id (db_scores (ptx_work (fst s))) i = Some r"
      "buildScoreUpdateSet upd = Inr sets" "apply_score_sets c sets r = Inr r'"
      "\<not> (so_status r = ''CONFIRMED'' \<and> (su_ScoreValue upd \<noteq> None \<or> su_Weight upd \<noteq> None \<or> su_Grade upd \<noteq> None))"
      "case su_Status upd of None \<Rightarrow> True | Some q \<Rightarrow> validateScoreStatusTransition (so_status r) q = Inr ()"
      "ptx_work (fst s2) = (ptx_work (fst s))\<lparr>db_scores :=
         row_update so_id i (\<lambda>q. r'\<lparr>so_updated_at := now\<rparr>) (db_scores (ptx_work (fst s)))\<rparr>"
      "insert_event (time_Now (pg_runtime parse toString sha1)) (insert_audit ''InsertAuditLog(score) failed'')
         ActionScoreUpdated ''score'' i DefaultUserID
         (Some (projr (scoreDetails (pg_runtime parse toString sha1) i (so_evaluation_item_id r) (so_level r)))) s2 = (Inr (), s')"
proof -
  let ?rt = "pg_runtime parse toString sha1" and ?d = "ptx_work (fst s)"
  from assms obtain cur s1 sets where get: "GetScoreByID c i s = (Inr cur, s1)" and
    guard: "\<not> (sco_Status cur = ''CONFIRMED'' \<and>
      (su_ScoreValue upd \<noteq> None \<or> su_Weight upd \<noteq> None \<or> su_Grade upd \<noteq> None))" and
    st: "case su_Status upd of None \<Rightarrow> True | Some q \<Rightarrow> validateScoreStatusTransition (sco_Status cur) q = Inr ()" and
    sets: "buildScoreUpdateSet upd = Inr sets" and
    rest: "(if sets = [] then retn ()
      else callw (pg_run (update_score_stmt c i sets)) (sql_failed ''UpdateScore failed'') (\<lambda>n.
       if n = 0 then throw (wrap1 ''UpdateScore id'' (Sentinel ErrScoreNotFound))
       else callw (RecordScoreUpdated ?rt (score_recorder ?rt) PgScoreTx_InsertAuditLog i
                   (sco_EvaluationItemID cur) (sco_Level cur) [])
         (score_audit_failed ''UpdateScore audit failed'') (\<lambda>_. retn ()))) s1 = (Inr u, s')"
    by (auto simp: UpdateScore_def eff_simps split: if_splits option.splits)
  from get_score_Inr [OF get] obtain r where r: "row_lookup so_id (db_scores ?d) i = Some r"
    and cur: "cur = scanScoreRow c r" and s1: "fst s1 = fst s" by blast
  show ?thesis
  proof (cases "sets = []")
    case True
    then have "ptx_work (fst s') = ptx_work (fst s)" using rest s1 by simp
    then show ?thesis by (rule nothing)
  next
    case False
    with rest obtain n s2 where q: "pg_run (update_score_stmt c i sets) s1 = (Inr n, s2)" and
      e: "insert_event (time_Now ?rt) (insert_audit ''InsertAuditLog(score) failed'') ActionScoreUpdated ''score'' i
            DefaultUserID (Some (projr (scoreDetails ?rt i (so_evaluation_item_id r) (so_level r)))) s2 = (Inr (), s')"
      by (auto simp: eff_simps score_audit_defs cur split: if_splits)
    from q obtain now u where "update_score_stmt c i sets now u ?d = Inr (n, ptx_work (fst s2))"
      using s1 by (auto simp: pg_run_Inr_iff)
    then obtain r' where a: "apply_score_sets c sets r = Inr r'" and
      d: "ptx_work (fst s2) = ?d\<lparr>db_scores := row_update so_id i (\<lambda>q. r'\<lparr>so_updated_at := now\<rparr>) (db_scores ?d)\<rparr>"
      by (rule update_score_Inr [OF _ r])
    show ?thesis
      by (rule row [OF r sets a _ _ d e]) (use guard st in \<open>auto simp: cur split: option.splits\<close>)
  qed
qed

lemma update_score_ok:
  assumes "UpdateScore (pg_runtime parse toString sha1) c i upd s = (Inr u, s')"
  shows "\<exists>n\<le>1. score_effect n (ptx_work (fst s)) (ptx_work (fst s'))"
proof (rule update_score_run [OF assms], goal_cases)
  case 1
  then have "score_effect 0 (ptx_work (fst s)) (ptx_work (fst s'))" by (simp add: score_effect_def)
  then show ?case by blast
next
  case (2 r sets r' now s2)
  have "score_evolves r (r'\<lparr>so_updated_at := now\<rparr>)" by (rule update_evolves [OF 2(2,3,4,5)])
  then have "score_effect 1 (ptx_work (fst s)) (ptx_work (fst s'))"
    using 2(1,6) by (intro score_effect_step [OF pg_event_ok(1) [OF 2(7)]]) (simp_all add: rows_evolve_replace)
  then show ?case by blast
qed

text \<open>Without a status in the update, the row keeps its own; a correction needs a CONFIRMED row.\<close>

definition none_confirmed :: "db \<Rightarrow> bool" where
  "none_confirmed d \<longleftrightarrow> (\<forall>r\<in>set (db_scores d). so_status r \<noteq> ''CONFIRMED'')"

definition same_status :: "db \<Rightarrow> db \<Rightarrow> bool" where
  "same_status d d' \<longleftrightarrow> (\<forall>i r. row_lookup so_id (db_scores d) i = Some r \<longrightarrow>
     (\<exists>r'. row_lookup so_id (db_scores d') i = Some r' \<and> so_status r' = so_status r))"

lemma same_status_refl [simp]: "same_status d d"
  by (simp add: same_status_def)

lemma same_status_trans: "same_status d d1 \<Longrightarrow> same_status d1 d2 \<Longrightarrow> same_status d d2"
  unfolding same_status_def by metis

lemma row_update_set: "set (row_update key i f rs) \<subseteq> set rs \<union> f ` set rs"
  by (induction rs) auto

lemma update_none_confirmed:
  assumes "UpdateScore (pg_runtime parse toString sha1) c i upd s = (Inr u, s')" and "su_Status upd = None"
    and inv: "none_confirmed (ptx_work (fst s))"
  shows "none_confirmed (ptx_work (fst s')) \<and> same_status (ptx_work (fst s)) (ptx_work (fst s'))"
proof (rule update_score_run [OF assms(1)], goal_cases)
  case 1
  then show ?case using inv by simp
next
  case (2 r sets r' now s2)
  have st: "so_status r' = so_status r"
    using sets_fields(4) [OF 2(3)] build_sets(4) [OF 2(2)] assms(2) by auto
  have "so_id r' = i" using sets_frame [OF 2(3)] row_lookup_key [OF 2(1)] by simp
  then have same: "same_status (ptx_work (fst s)) (ptx_work (fst s2))"
    using 2(1) st by (auto simp: same_status_def 2(6) lookup_replace)
  have "r \<in> set (db_scores (ptx_work (fst s)))" by (rule row_lookup_in_set [OF 2(1)])
  then have "none_confirmed (ptx_work (fst s2))"
    using inv row_update_set [of so_id i "\<lambda>q. r'\<lparr>so_updated_at := now\<rparr>" "db_scores (ptx_work (fst s))"]
    by (fastforce simp: none_confirmed_def 2(6) st)
  then show ?case
    using same adds_event_tables [OF pg_event_ok(1) [OF 2(7)]] by (simp add: none_confirmed_def same_status_def)
qed

lemma supersede_ok:
  assumes "SupersedeAndReplaceScore (pg_runtime parse toString sha1) c i v w md s = (Inr j, s')"
  shows "score_effect 2 (ptx_work (fst s)) (ptx_work (fst s'))"
proof -
  let ?rt = "pg_runtime parse toString sha1" and ?d = "ptx_work (fst s)"
  from assms obtain old s1 s2 s3 s4 md' n where get: "GetScoreByID c i s = (Inr old, s1)" and
    st: "sco_Status old = ''CONFIRMED''" and
    ins: "pg_run (insert_score_stmt c (sco_EvaluationItemID old) (sco_EvidenceID old) (sco_Level old)
            v w ''CONFIRMED'' md') s1 = (Inr j, s2)" and
    e1: "insert_event (time_Now ?rt) (insert_audit ''InsertAuditLog(score) failed'') ActionScoreCreated ''score'' j
           DefaultUserID (Some (projr (scoreDetails ?rt j (sco_EvaluationItemID old) (sco_Level old)))) s2 = (Inr (), s3)" and
    q: "pg_run (supersede_stmt i) s3 = (Inr n, s4)" "n \<noteq> 0" and
    e2: "insert_event (time_Now ?rt) (insert_audit ''InsertAuditLog(score) failed'') ActionScoreUpdated ''score'' i
           DefaultUserID (Some (projr (scoreDetails ?rt i (sco_EvaluationItemID old) (sco_Level old)))) s4 = (Inr (), s')"
    by (auto simp: SupersedeAndReplaceScore_def insertScoreRow_def eff_simps score_audit_defs split: if_splits)
  from get_score_Inr [OF get] st obtain r where r: "row_lookup so_id (db_scores ?d) i = Some r"
    "so_status r = ''CONFIRMED''" and s1: "fst s1 = fst s" by auto
  obtain r1 where d2: "ptx_work (fst s2) = ?d\<lparr>db_scores := db_scores ?d @ [r1]\<rparr>"
    using insert_score_Inr [OF pg_run_work [OF ins]] s1 by auto
  note a1 = pg_event_ok(1) [OF e1]
  have d3: "db_scores (ptx_work (fst s3)) = db_scores ?d @ [r1]" using adds_event_tables [OF a1] d2 by simp
  obtain now where d4: "ptx_work (fst s4) = (ptx_work (fst s3))\<lparr>db_scores :=
      row_update so_id i (supersede_row now) (db_scores ?d @ [r1])\<rparr>"
    using supersede_Inr [OF pg_run_work [OF q(1)] q(2)] d3 by auto
  note a2 = pg_event_ok(1) [OF e2]
  have "rows_evolve (db_scores ?d) (db_scores (ptx_work (fst s')))"
    using adds_event_tables [OF a2] rows_evolve_supersede [OF r] by (simp add: d4)
  moreover have "adds_user_events (1 + 1) DefaultUserID ?d (ptx_work (fst s'))"
    by (rule adds_user_events_add [OF _ _ adds_user_events_one [OF a2]],
        rule adds_user_events_from [OF adds_user_events_one [OF a1]]) (simp_all add: d4 d2)
  ultimately show ?thesis by (simp add: score_effect_def numeral_2_eq_2)
qed

lemma insert_none_confirmed:
  assumes "InsertScore (pg_runtime parse toString sha1) c item ev level v w md s = (Inr i, s')"
    and inv: "none_confirmed (ptx_work (fst s))"
  shows "none_confirmed (ptx_work (fst s')) \<and> same_status (ptx_work (fst s)) (ptx_work (fst s'))"
proof -
  let ?rt = "pg_runtime parse toString sha1"
  from assms(1) obtain s1 j st where
    q: "pg_run (insert_score_stmt c item ev level v w ''DRAFT'' st) s = (Inr j, s1)" and
    e: "insert_event (time_Now ?rt) (insert_audit ''InsertAuditLog(score) failed'')
          ActionScoreCreated ''score'' j DefaultUserID (Some (projr (scoreDetails ?rt j item level))) s1 = (Inr (), s')"
    by (auto simp: InsertScore_def insertScoreRow_def eff_simps score_audit_defs)
  obtain r where "ptx_work (fst s1) = (ptx_work (fst s))\<lparr>db_scores := db_scores (ptx_work (fst s)) @ [r]\<rparr>"
    "so_status r = ''DRAFT''"
    using insert_score_Inr [OF pg_run_work [OF q]] by blast
  then show ?thesis
    using inv adds_event_tables [OF pg_event_ok(1) [OF e]] by (simp add: none_confirmed_def same_status_def)
qed

lemma supersede_needs_confirmed:
  assumes "SupersedeAndReplaceScore rt c i v w md s = (Inr j, s')"
  shows "\<not> none_confirmed (ptx_work (fst s))"
proof -
  from assms obtain old s1 where "GetScoreByID c i s = (Inr old, s1)" "sco_Status old = ''CONFIRMED''"
    by (auto simp: SupersedeAndReplaceScore_def eff_simps split: if_splits)
  then obtain r where "row_lookup so_id (db_scores (ptx_work (fst s))) i = Some r" "so_status r = ''CONFIRMED''"
    using get_score_Inr by fastforce
  then show ?thesis using row_lookup_in_set unfolding none_confirmed_def by metis
qed

lemma exec_score_ok:
  assumes "exec_score (pg_runtime parse toString sha1) c x s = (Inr u, s')"
  shows "\<exists>n. score_effect n (ptx_work (fst s)) (ptx_work (fst s')) \<and>
    (case x of OpInsertScore item ev level v w md \<Rightarrow> n = 1 | OpUpdateScore i upd \<Rightarrow> n \<le> 1
     | OpSupersede i v w md \<Rightarrow> n = 2)"
proof (cases x)
  case (OpUpdateScore i upd)
  then have "UpdateScore (pg_runtime parse toString sha1) c i upd s = (Inr u, s')"
    using assms by (simp add: exec_score_def)
  from update_score_ok [OF this] OpUpdateScore show ?thesis by auto
qed (use assms in \<open>auto simp: exec_score_def eff_simps dest: insert_score_ok supersede_ok\<close>)

section \<open>Properties\<close>

text \<open>
  C17: A score mutation that succeeds (InsertScore, UpdateScore or SupersedeAndReplaceScore) never
  removes a row and never changes its item, level, evidence or creation; the status of a row stays, or
  moves from DRAFT to CONFIRMED or SUPERSEDED or from CONFIRMED to SUPERSEDED; a row that was
  CONFIRMED keeps its value, weight and grade; and the audit log grows by one event for an insert,
  by two for a correction and by at most one for an update, all of them by cli-anonymous.
\<close>

theorem score_mutation_effect:
  assumes "exec_score (pg_runtime parse toString sha1) c x s = (Inr u, s')"
  shows "(\<forall>i r. row_lookup so_id (db_scores (ptx_work (fst s))) i = Some r \<longrightarrow>
      (\<exists>r'. row_lookup so_id (db_scores (ptx_work (fst s'))) i = Some r' \<and> score_evolves r r' \<and>
        (so_status r' = so_status r \<or> so_status r = ''DRAFT'' \<and> so_status r' \<in> {''CONFIRMED'', ''SUPERSEDED''} \<or>
         so_status r = ''CONFIRMED'' \<and> so_status r' = ''SUPERSEDED''))) \<and>
    (\<exists>es. pg_logs (ptx_work (fst s')) = pg_logs (ptx_work (fst s)) @ es \<and>
      (\<forall>e\<in>set es. ev_UserID e = DefaultUserID) \<and>
      (case x of OpInsertScore item ev level v w md \<Rightarrow> length es = 1 | OpUpdateScore i upd \<Rightarrow> length es \<le> 1
       | OpSupersede i v w md \<Rightarrow> length es = 2))"
proof -
  obtain n where n: "score_effect n (ptx_work (fst s)) (ptx_work (fst s'))"
    and c: "case x of OpInsertScore item ev level v w md \<Rightarrow> n = 1 | OpUpdateScore i upd \<Rightarrow> n \<le> 1
     | OpSupersede i v w md \<Rightarrow> n = 2"
    using exec_score_ok [OF assms] by blast
  from n obtain es where "pg_logs (ptx_work (fst s')) = pg_logs (ptx_work (fst s)) @ es" "length es = n"
    "\<forall>e\<in>set es. ev_UserID e = DefaultUserID"
    by (auto simp: score_effect_def adds_user_events_def)
  moreover have "\<forall>i r. row_lookup so_id (db_scores (ptx_work (fst s))) i = Some r \<longrightarrow>
      (\<exists>r'. row_lookup so_id (db_scores (ptx_work (fst s'))) i = Some r' \<and> score_evolves r r' \<and>
        (so_status r' = so_status r \<or> so_status r = ''DRAFT'' \<and> so_status r' \<in> {''CONFIRMED'', ''SUPERSEDED''} \<or>
         so_status r = ''CONFIRMED'' \<and> so_status r' = ''SUPERSEDED''))"
    using n by (fastforce simp: score_effect_def rows_evolve_def score_evolves_def status_moves_def)
  ultimately show ?thesis using c by (cases x) (auto intro!: exI [of _ es])
qed

definition sample_score :: "string \<Rightarrow> score_row" where
  "sample_score q = \<lparr>so_id = 7, so_evaluation_item_id = ''KPI-1'', so_evidence_id = None, so_level = ''raw'',
     so_score_value = Some (Num 80), so_weight = Some (Num (1/2)), so_grade = None, so_status = q,
     so_metadata = None, so_created_at = 1, so_created_by = ''cli-anonymous'', so_updated_at = 1\<rparr>"

definition score_edit :: "float64 \<Rightarrow> ScoreUpdate" where
  "score_edit v = \<lparr>su_ScoreValue = Some v, su_Weight = None, su_Grade = None, su_Status = None, su_Metadata = None\<rparr>"

lemmas pg_score_run = pg_statements GetScoreByID_def varchar_def

lemma score_action_short [simp]: "length ActionScoreUpdated \<le> 64" "length ActionScoreCreated \<le> 64"
    "length DefaultUserID \<le> 64" "text_ok ActionScoreUpdated" "text_ok ActionScoreCreated" "text_ok DefaultUserID"
  by (simp_all add: ActionScoreUpdated_def ActionScoreCreated_def DefaultUserID_def)

text \<open>An update of a row whose guards pass succeeds.\<close>

lemma update_score_runs:
  assumes "live s" and "row_lookup so_id (db_scores (ptx_work (fst s))) i = Some r"
    and "so_status r \<noteq> ''CONFIRMED''" and "to_numeric c 6 2 v = Inr n" and "score_row_error r = None"
  shows "\<exists>s'. UpdateScore (pg_runtime parse toString sha1) c i (score_edit v) s = (Inr (), s') \<and>
    row_lookup so_id (db_scores (ptx_work (fst s'))) i =
      Some (r\<lparr>so_score_value := Some n, so_updated_at := ptx_now (fst s)\<rparr>)"
proof -
  obtain t w where s: "s = (t, w)" by fastforce
  have i: "so_id r = i" using assms(2) row_lookup_key by fastforce
  have "score_row_error (r\<lparr>so_score_value := Some n, so_updated_at := ptx_now t\<rparr>) = score_row_error r"
    by (simp add: score_row_error_def)
  then have e: "score_row_error (r\<lparr>so_score_value := Some n, so_updated_at := ptx_now t\<rparr>) = None"
    using assms(5) by simp
  show ?thesis
    using assms e
    by (simp add: s live_def UpdateScore_def score_edit_def buildScoreUpdateSet_def opt_list_def Let_def
        update_score_stmt_def RecordScoreUpdated_def scoreDetails_def json_Marshal_def
        PgScoreTx_InsertAuditLog_def [abs_def] pg_score_run lookup_replace i)
qed

text \<open>
  The history of scores is not protected once it is superseded. Without faults, UpdateScore
  with a new score value on a SUPERSEDED row succeeds for every value the column can hold, and the
  row has that value afterwards: the guard of the state machine covers CONFIRMED rows only. A NaN
  goes in this way too where the driver accepts it, though InsertScore refuses it.
\<close>

lemma superseded_score_editable:
  assumes "live s" and "row_lookup so_id (db_scores (ptx_work (fst s))) i = Some r"
    and "so_status r = ''SUPERSEDED''" and "to_numeric c 6 2 v = Inr n" and "score_row_error r = None"
  shows "\<exists>s' r'. UpdateScore (pg_runtime parse toString sha1) c i (score_edit v) s = (Inr (), s') \<and>
    row_lookup so_id (db_scores (ptx_work (fst s'))) i = Some r' \<and> so_score_value r' = Some n \<and>
    so_status r' = ''SUPERSEDED''"
  using update_score_runs [OF assms(1,2) _ assms(4,5), of parse toString sha1] assms(3) by fastforce

theorem score_mutation_effect_witness:
  "\<exists>s'. exec_score (pg_runtime canonical_Parse canonical_String sample_SHA1) exact_codec
      (OpUpdateScore 7 (score_edit (Fin 90))) (sample_tx (empty_db\<lparr>db_scores := [sample_score ''DRAFT'']\<rparr>)) = (Inr (), s') \<and>
    (\<exists>r'. row_lookup so_id (db_scores (ptx_work (fst s'))) 7 = Some r' \<and> score_evolves (sample_score ''DRAFT'') r')"
proof -
  let ?s = "sample_tx (empty_db\<lparr>db_scores := [sample_score ''DRAFT'']\<rparr>)"
  have "to_numeric exact_codec 6 2 (Fin 90) = Inr (Num 90)"
    using num_cast_int [of 90 2 6] by (simp add: exact_codec_def del: num_cast.simps)
  moreover have lk: "row_lookup so_id (db_scores (ptx_work (fst ?s))) 7 = Some (sample_score ''DRAFT'')"
    by (simp add: empty_db_def sample_score_def)
  moreover have "live ?s"
    "so_status (sample_score ''DRAFT'') \<noteq> ''CONFIRMED''" "score_row_error (sample_score ''DRAFT'') = None"
    by (simp_all add: empty_db_def sample_score_def score_row_error_def varchar_def)
  ultimately obtain s' where run: "UpdateScore (pg_runtime canonical_Parse canonical_String sample_SHA1) exact_codec 7
      (score_edit (Fin 90)) ?s = (Inr (), s')"
    using update_score_runs by blast
  then have "exec_score (pg_runtime canonical_Parse canonical_String sample_SHA1) exact_codec
      (OpUpdateScore 7 (score_edit (Fin 90))) ?s = (Inr (), s')"
    by (simp add: exec_score_def)
  with score_mutation_effect [OF this, THEN conjunct1, rule_format, OF lk] show ?thesis by blast
qed

text \<open>
  C19: A CONFIRMED score is immutable. Without faults, UpdateScore on a CONFIRMED row that asks for
  a new value, weight or grade returns ErrScoreImmutable, whatever else it asks for, and the
  pending tables stay as they are.
\<close>

theorem confirmed_score_immutable:
  assumes "live s" and "row_lookup so_id (db_scores (ptx_work (fst s))) i = Some r"
    and "so_status r = ''CONFIRMED''" and "su_ScoreValue upd \<noteq> None \<or> su_Weight upd \<noteq> None \<or> su_Grade upd \<noteq> None"
  shows "\<exists>e s'. UpdateScore rt c i upd s = (Inl e, s') \<and> errors_Is e ErrScoreImmutable \<and>
    ptx_work (fst s') = ptx_work (fst s)"
  using assms
  by (cases s) (auto simp add: live_def UpdateScore_def pg_score_run)

theorem confirmed_score_immutable_witness:
  "\<exists>e s'. UpdateScore (pg_runtime canonical_Parse canonical_String sample_SHA1) exact_codec 7 (score_edit (Fin 90))
      (sample_tx (empty_db\<lparr>db_scores := [sample_score ''CONFIRMED'']\<rparr>)) = (Inl e, s') \<and> errors_Is e ErrScoreImmutable"
  using confirmed_score_immutable [where s = "sample_tx (empty_db\<lparr>db_scores := [sample_score ''CONFIRMED'']\<rparr>)"
      and i = 7 and r = "sample_score ''CONFIRMED''" and upd = "score_edit (Fin 90)" and c = exact_codec
      and rt = "pg_runtime canonical_Parse canonical_String sample_SHA1"]
  by (auto simp: empty_db_def sample_score_def score_edit_def)

section \<open>Grades\<close>

lemma find_descending:
  assumes "find P (rev (sort_key f xs)) = Some t"
  shows "t \<in> set xs \<and> P t \<and> (\<forall>q\<in>set xs. f t < f q \<longrightarrow> \<not> P q)"
proof -
  let ?ys = "sort_key f xs"
  from assms obtain i where i: "i < length xs" "P (rev ?ys ! i)" "t = rev ?ys ! i"
    and before: "\<And>j. j < i \<Longrightarrow> \<not> P (rev ?ys ! j)"
    by (auto simp: find_Some_iff)
  have t: "t \<in> set xs" using i by (metis length_rev length_sort nth_mem set_rev set_sort)
  have "\<not> P q" if q: "q \<in> set xs" "f t < f q" for q
  proof
    assume P: "P q"
    from q(1) obtain j where j: "j < length xs" "rev ?ys ! j = q"
      by (metis in_set_conv_nth length_rev length_sort set_rev set_sort)
    have "i \<le> j" using before [of j] P j by (metis not_le_imp_less)
    have "f q \<le> f t"
      using sorted_nth_mono [OF sorted_sort_key [of f xs], of "length xs - 1 - j" "length xs - 1 - i"] i j \<open>i \<le> j\<close>
      by (simp add: rev_nth)
    with q(2) show False by simp
  qed
  with t i show ?thesis by simp
qed

lemma find_map: "find P (map h xs) = map_option h (find (\<lambda>x. P (h x)) xs)"
  by (induction xs) auto

text \<open>
  C20: The grade of a score. Without faults, for a scope with thresholds, DetermineGrade returns
  the letter of a threshold of that scope which the score reaches (it is at least the minimum when the
  rule of the row is gte, above it when the rule is gt, and reached by no score under another rule) such
  that it reaches no higher one; if it reaches none, or the scope has no thresholds, the error is
  ErrGradeThresholdsUnavailable and no grade is made up. The tables do not change.
\<close>

theorem determine_grade_highest:
  assumes "live s"
  shows "\<exists>res s'. DetermineGrade c scope score s = (res, s') \<and> ptx_work (fst s') = ptx_work (fst s) \<and>
    (let ts = List.filter (\<lambda>r. gt_scope r = scope) (db_thresholds (ptx_work (fst s)));
         reached = (\<lambda>r. gt_boundary_rule r = ''gte'' \<and> f64_ge score (of_numeric c (gt_min_value r)) \<or>
                        gt_boundary_rule r = ''gt'' \<and> f64_gt score (of_numeric c (gt_min_value r)))
     in case res of
          Inr g \<Rightarrow> \<exists>t\<in>set ts. gt_letter t = g \<and> reached t \<and> (\<forall>q\<in>set ts. gt_min_value t < gt_min_value q \<longrightarrow> \<not> reached q)
        | Inl e \<Rightarrow> errors_Is e ErrGradeThresholdsUnavailable \<and> (\<forall>t\<in>set ts. \<not> reached t))"
proof -
  have rule: "(\<lambda>r. gt_boundary_rule r = ''gte'' \<and> f64_ge score (of_numeric c (gt_min_value r)) \<or>
      gt_boundary_rule r = ''gt'' \<and> f64_gt score (of_numeric c (gt_min_value r))) =
    (\<lambda>r. threshold_matches score (scan_threshold c r))"
    by (rule ext) (auto simp: threshold_matches_def scan_threshold_def)
  obtain tx w where s: "s = (tx, w)" by fastforce
  let ?ts = "List.filter (\<lambda>r. gt_scope r = scope) (db_thresholds (ptx_work tx))"
  let ?f = "\<lambda>r. threshold_matches score (scan_threshold c r)"
  let ?rs = "rev (sort_key gt_min_value ?ts)"
  have run: "DetermineGrade c scope score s =
     ((if ?ts = [] then Inl (wrap1 ''DetermineGrade scope'' (Sentinel ErrGradeThresholdsUnavailable))
       else case find ?f ?rs of
         Some t \<Rightarrow> Inr (gt_letter t)
       | None \<Rightarrow> Inl (wrap1 ''DetermineGrade: below all thresholds'' (Sentinel ErrGradeThresholdsUnavailable))),
      (tx, w\<lparr>env_pos := Suc (Suc (env_pos w))\<rparr>))"
  proof -
    have "(sort_key gt_min_value ?ts = []) = (?ts = [])" by (metis length_0_conv length_sort)
    then show ?thesis
      using assms
      by (auto simp: s live_def DetermineGrade_def pg_score_run find_map scan_threshold_def split: option.splits)
  qed
  show ?thesis
  proof (cases "find ?f ?rs")
    case None
    then have "\<forall>t\<in>set ?ts. \<not> ?f t" unfolding find_None_iff by simp
    then show ?thesis unfolding rule using run None by (auto simp: s Let_def)
  next
    case (Some t)
    from find_descending [OF this] show ?thesis unfolding rule using run Some by (auto simp: s Let_def)
  qed
qed

definition sample_threshold :: "string \<Rightarrow> rat \<Rightarrow> threshold_row" where
  "sample_threshold l m = \<lparr>gt_scope = ''default'', gt_letter = l, gt_min_value = Num m, gt_boundary_rule = ''gte''\<rparr>"

theorem determine_grade_highest_witness:
  "\<exists>s'. DetermineGrade exact_codec ''default'' (Fin 95)
     (sample_tx (empty_db\<lparr>db_thresholds := [sample_threshold ''B'' 80, sample_threshold ''A'' 90]\<rparr>)) = (Inr ''A'', s')"
proof -
  let ?s = "sample_tx (empty_db\<lparr>db_thresholds := [sample_threshold ''B'' 80, sample_threshold ''A'' 90]\<rparr>)"
  have "live ?s" by (simp add: empty_db_def)
  note spec_at = determine_grade_highest [OF this, of exact_codec "''default''" "Fin 95"]
  then obtain res s' where run: "DetermineGrade exact_codec ''default'' (Fin 95) ?s = (res, s')" and
    spec: "let ts = List.filter (\<lambda>r. gt_scope r = ''default'') (db_thresholds (ptx_work (fst ?s)));
         reached = (\<lambda>r. gt_boundary_rule r = ''gte'' \<and> f64_ge (Fin 95) (of_numeric exact_codec (gt_min_value r)) \<or>
                        gt_boundary_rule r = ''gt'' \<and> f64_gt (Fin 95) (of_numeric exact_codec (gt_min_value r)))
     in case res of
          Inr g \<Rightarrow> \<exists>t\<in>set ts. gt_letter t = g \<and> reached t \<and> (\<forall>q\<in>set ts. gt_min_value t < gt_min_value q \<longrightarrow> \<not> reached q)
        | Inl e \<Rightarrow> errors_Is e ErrGradeThresholdsUnavailable \<and> (\<forall>t\<in>set ts. \<not> reached t)"
    by (elim exE conjE) (rule that)
  have "res = Inr ''A''"
    using spec
    by (cases res) (auto simp: Let_def sample_threshold_def empty_db_def exact_codec_def f64_ge_def)
  with run show ?thesis by blast
qed

end
