(* ===== verification/Rubric_Store.thy ===== *)
theory Rubric_Store
  imports Database Recorder
begin

text \<open>
  internal/store/rubric.go: grade rubrics, from draft over active to archived, with their criteria
  and bands, and the grading of a score by the bands. Each mutation writes its row and one audit
  event in the same transaction. The entities and the interface are those of store.go; the codec
  between float64 and NUMERIC is the argument \<^verbatim>\<open>c\<close>.
\<close>

record Rubric =
  rub_Metadata :: metadata
  rub_CreatedAt :: time
  rub_UpdatedAt :: time
  rub_Name :: string
  rub_Scope :: string
  rub_Status :: string
  rub_ArchiveReason :: string
  rub_CreatedBy :: string
  rub_UpdatedBy :: string
  rub_Version :: int
  rub_ID :: uuid

record RubricCriterion =
  rcr_CreatedAt :: time
  rcr_EvaluationItemID :: uuid
  rcr_ID :: uuid
  rcr_RubricID :: uuid
  rcr_Weight :: float64

record RubricBand =
  rbd_CreatedAt :: time
  rbd_Letter :: string
  rbd_ID :: uuid
  rbd_RubricID :: uuid
  rbd_MinScore :: float64
  rbd_MaxScore :: float64

record 's RubricTx =
  btx_InsertRubric :: "string \<Rightarrow> string \<Rightarrow> metadata \<Rightarrow> string \<Rightarrow> ('s, uuid) eff"
  btx_GetRubricByID :: "uuid \<Rightarrow> ('s, Rubric) eff"
  btx_ListRubrics :: "string \<Rightarrow> string \<Rightarrow> int \<Rightarrow> int \<Rightarrow> ('s, Rubric list) eff"
  btx_CountRubrics :: "string \<Rightarrow> string \<Rightarrow> ('s, int) eff"
  btx_UpdateRubric :: "uuid \<Rightarrow> string \<Rightarrow> string \<Rightarrow> string \<Rightarrow> metadata \<Rightarrow> string \<Rightarrow> ('s, unit) eff"
  btx_ArchiveRubric :: "uuid \<Rightarrow> string \<Rightarrow> string \<Rightarrow> ('s, unit) eff"
  btx_AddCriterion :: "uuid \<Rightarrow> uuid \<Rightarrow> float64 \<Rightarrow> string \<Rightarrow> ('s, uuid) eff"
  btx_AddBand :: "uuid \<Rightarrow> string \<Rightarrow> float64 \<Rightarrow> float64 \<Rightarrow> string \<Rightarrow> ('s, uuid) eff"
  btx_GetCriteriaByRubric :: "uuid \<Rightarrow> ('s, RubricCriterion list) eff"
  btx_GetBandsByRubric :: "uuid \<Rightarrow> ('s, RubricBand list) eff"
  btx_ApplyRubric :: "uuid \<Rightarrow> float64 \<Rightarrow> ('s, string \<times> RubricBand) eff"
  btx_InsertAuditLog :: "audit_event \<Rightarrow> ('s, unit) eff"
  btx_Commit :: "('s, unit) eff"
  btx_Rollback :: "('s, unit) eff"

section \<open>The state machine and the input checks\<close>

definition rubricStatusDraft :: string where
  "rubricStatusDraft = ''draft''"

definition rubricStatusActive :: string where
  "rubricStatusActive = ''active''"

definition rubricStatusArchived :: string where
  "rubricStatusArchived = ''archived''"

lemmas rubric_status_defs = rubricStatusDraft_def rubricStatusActive_def rubricStatusArchived_def

lemma rubric_status_distinct [simp]:
  "rubricStatusDraft \<noteq> rubricStatusActive" "rubricStatusActive \<noteq> rubricStatusDraft"
  "rubricStatusDraft \<noteq> rubricStatusArchived" "rubricStatusArchived \<noteq> rubricStatusDraft"
  "rubricStatusActive \<noteq> rubricStatusArchived" "rubricStatusArchived \<noteq> rubricStatusActive"
  by (simp_all add: rubric_status_defs)

definition maxRubricNameLen :: nat where
  "maxRubricNameLen = 64"

definition rubricFallbackUserID :: string where
  "rubricFallbackUserID = ''cli-anonymous''"

definition allowedRubricTransitions :: "string \<rightharpoonup> string list" where
  "allowedRubricTransitions =
     [rubricStatusDraft \<mapsto> [rubricStatusActive], rubricStatusActive \<mapsto> [rubricStatusArchived],
      rubricStatusArchived \<mapsto> []]"

definition validateRubricInput :: "string \<Rightarrow> goerr + unit" where
  "validateRubricInput name =
     (if blank name then Inl (wrap1 ''name is empty'' (Sentinel ErrRubricInvalidInput))
      else if length name > maxRubricNameLen
      then Inl (wrap1 ''name too long'' (Sentinel ErrRubricInvalidInput))
      else Inr ())"

definition validateCriterionInput :: "float64 \<Rightarrow> goerr + unit" where
  "validateCriterionInput weight =
     (if f64_lt weight (Fin 0) \<or> f64_gt weight (Fin 1)
      then Inl (wrap1 ''weight out of 0.0-1.0'' (Sentinel ErrRubricWeightOutOfBounds))
      else Inr ())"

definition validateBandInput :: "float64 \<Rightarrow> float64 \<Rightarrow> goerr + unit" where
  "validateBandInput minScore maxScore =
     (if f64_ge minScore maxScore
      then Inl (wrap1 ''min_score >= max_score'' (Sentinel ErrRubricInvalidInput))
      else Inr ())"

definition validateRubricStatusTransition :: "string \<Rightarrow> string \<Rightarrow> goerr + unit" where
  "validateRubricStatusTransition p q =
     (case allowedRubricTransitions p of
        None \<Rightarrow> Inl (wrap1 ''status not allowed as current status'' (Sentinel ErrRubricInvalidStatus))
      | Some qs \<Rightarrow>
          if q \<notin> set qs then Inl (wrap1 ''status transition not allowed'' (Sentinel ErrRubricInvalidStatus))
          else Inr ())"

definition marshalRubricMetadata :: "metadata \<Rightarrow> goerr + metadata option" where
  "marshalRubricMetadata md = (if md = [] then Inr None else Inr (Some md))"

definition resolveRubricUserID :: "string \<Rightarrow> string" where
  "resolveRubricUserID userID = (if blank userID then rubricFallbackUserID else userID)"

section \<open>The statements\<close>

definition rubric_row_error :: "rubric_row \<Rightarrow> goerr option" where
  "rubric_row_error r =
     (if \<not> varchar 64 (ub_name r) \<or> (case ub_scope r of None \<Rightarrow> False | Some s \<Rightarrow> \<not> varchar 64 s) \<or>
         \<not> varchar 32 (ub_status r) \<or> \<not> varchar 64 (ub_created_by r) \<or>
         (case ub_updated_by r of None \<Rightarrow> False | Some s \<Rightarrow> \<not> varchar 64 s)
      then Some (PgError ''22001'')
      else if ub_status r \<notin> set [''draft'', ''active'', ''archived'']
      then Some (PgError ''23514'')
      else if ub_status r = ''archived'' \<and> (case ub_archive_reason r of None \<Rightarrow> True | Some s \<Rightarrow> s = [])
      then Some (PgError ''23514'')
      else None)"

text \<open>The partial unique index on (name, scope) of the active rubrics; NULL equals nothing.\<close>

definition active_conflict :: "rubric_row \<Rightarrow> rubric_row list \<Rightarrow> bool" where
  "active_conflict r rs \<longleftrightarrow> ub_status r = ''active'' \<and> ub_scope r \<noteq> None \<and>
     list_ex (\<lambda>q. ub_id q \<noteq> ub_id r \<and> ub_status q = ''active'' \<and> ub_name q = ub_name r \<and> ub_scope q = ub_scope r) rs"

definition insert_rubric_stmt :: "string \<Rightarrow> string option \<Rightarrow> metadata option \<Rightarrow> string \<Rightarrow> uuid statement" where
  "insert_rubric_stmt name scopeArg metaJSON actor = (\<lambda>now u d.
     let r = \<lparr>ub_id = u, ub_name = name, ub_version = 1, ub_scope = scopeArg, ub_status = ''draft'',
              ub_archive_reason = None, ub_metadata = metaJSON, ub_created_at = now, ub_created_by = actor,
              ub_updated_at = now, ub_updated_by = Some actor\<rparr>
     in case rubric_row_error r of
          Some e \<Rightarrow> Inl e
        | None \<Rightarrow> if u \<in> ub_id ` set (db_rubrics d) \<or> active_conflict r (db_rubrics d)
                  then Inl (PgError ''23505'')
                  else Inr (u, d\<lparr>db_rubrics := db_rubrics d @ [r]\<rparr>))"

definition update_rubric_stmt :: "uuid \<Rightarrow> (time \<Rightarrow> rubric_row \<Rightarrow> rubric_row) \<Rightarrow> unit statement" where
  "update_rubric_stmt i f = (\<lambda>now u d.
     case row_lookup ub_id (db_rubrics d) i of
       None \<Rightarrow> Inr ((), d)
     | Some r \<Rightarrow> (case rubric_row_error (f now r) of
         Some e \<Rightarrow> Inl e
       | None \<Rightarrow> if active_conflict (f now r) (db_rubrics d) then Inl (PgError ''23505'')
                 else Inr ((), d\<lparr>db_rubrics := row_update ub_id i (f now) (db_rubrics d)\<rparr>)))"

definition edit_rubric_row ::
  "string \<Rightarrow> string option \<Rightarrow> string \<Rightarrow> metadata option \<Rightarrow> string \<Rightarrow> time \<Rightarrow> rubric_row \<Rightarrow> rubric_row" where
  "edit_rubric_row name scopeArg status metaJSON actor now r =
     r\<lparr>ub_name := name, ub_scope := scopeArg, ub_status := status, ub_metadata := metaJSON,
       ub_updated_at := now, ub_updated_by := Some actor\<rparr>"

definition archive_rubric_row :: "string \<Rightarrow> string \<Rightarrow> time \<Rightarrow> rubric_row \<Rightarrow> rubric_row" where
  "archive_rubric_row reason actor now r =
     r\<lparr>ub_status := ''archived'', ub_archive_reason := Some reason, ub_updated_at := now,
       ub_updated_by := Some actor\<rparr>"

definition insert_criterion_stmt :: "num_codec \<Rightarrow> uuid \<Rightarrow> uuid \<Rightarrow> float64 \<Rightarrow> uuid statement" where
  "insert_criterion_stmt c rubricID itemID weight = (\<lambda>now u d.
     case to_numeric c 5 4 weight of Inl e \<Rightarrow> Inl e | Inr w \<Rightarrow>
       if \<not> (Num 0 \<le> w \<and> w \<le> Num 1) then Inl (PgError ''23514'')
       else if u \<in> cr_id ` set (db_criteria d) then Inl (PgError ''23505'')
       else if rubricID \<notin> ub_id ` set (db_rubrics d) then Inl (PgError ''23503'')
       else Inr (u, d\<lparr>db_criteria := db_criteria d @
         [\<lparr>cr_id = u, cr_rubric_id = rubricID, cr_evaluation_item_id = itemID, cr_weight = w,
           cr_created_at = now\<rparr>]\<rparr>))"

text \<open>The exclusion constraint: closed ranges of one rubric do not meet.\<close>

definition bands_overlap :: "band_row \<Rightarrow> band_row \<Rightarrow> bool" where
  "bands_overlap a b \<longleftrightarrow> bd_rubric_id a = bd_rubric_id b \<and>
     bd_min_score a \<le> bd_max_score b \<and> bd_min_score b \<le> bd_max_score a"

definition insert_band_stmt :: "num_codec \<Rightarrow> uuid \<Rightarrow> string \<Rightarrow> float64 \<Rightarrow> float64 \<Rightarrow> uuid statement" where
  "insert_band_stmt c rubricID letter minScore maxScore = (\<lambda>now u d.
     case both (to_numeric c 8 4 minScore) (to_numeric c 8 4 maxScore) of Inl e \<Rightarrow> Inl e | Inr lohi \<Rightarrow>
       let b = \<lparr>bd_id = u, bd_rubric_id = rubricID, bd_letter = letter, bd_min_score = fst lohi,
                bd_max_score = snd lohi, bd_created_at = now\<rparr>
       in if \<not> varchar 8 letter then Inl (PgError ''22001'')
          else if \<not> bd_min_score b < bd_max_score b then Inl (PgError ''23514'')
          else if u \<in> bd_id ` set (db_bands d) then Inl (PgError ''23505'')
          else if list_ex (bands_overlap b) (db_bands d) then Inl (PgError ''23P01'')
          else if rubricID \<notin> ub_id ` set (db_rubrics d) then Inl (PgError ''23503'')
          else Inr (u, d\<lparr>db_bands := db_bands d @ [b]\<rparr>))"

section \<open>PgRubricTx\<close>

definition PgStore_BeginRubricTx :: "(pg_world, pg_tx) eff" where
  "PgStore_BeginRubricTx =
     callw pool_BeginTx (\<lambda>e. wrap1 ''BeginRubricTx failed'' (Sentinel ErrPgxPoolExhausted)) retn"

definition rubric_recorder :: "pg_state runtime \<Rightarrow> pg_state Recorder" where
  "rubric_recorder rt = NewRecorder rt True []"

definition PgRubricTx_InsertAuditLog :: "audit_event \<Rightarrow> (pg_state, unit) eff" where
  "PgRubricTx_InsertAuditLog e = insert_audit ''InsertAuditLog(rubric) failed'' e"

definition rubric_audit_failed :: "string \<Rightarrow> goerr \<Rightarrow> goerr" where
  "rubric_audit_failed msg e = Wrap msg [Sentinel ErrRubricAuditWriteFailed, e]"

definition scope_arg :: "string \<Rightarrow> string option" where
  "scope_arg s = (if \<not> blank s then Some s else None)"

definition InsertRubric ::
  "pg_state runtime \<Rightarrow> string \<Rightarrow> string \<Rightarrow> metadata \<Rightarrow> string \<Rightarrow> (pg_state, uuid) eff" where
  "InsertRubric rt name scope md userID =
     call (lift (validateRubricInput name)) (\<lambda>_.
     call (lift (marshalRubricMetadata md)) (\<lambda>metaJSON.
     let actor = resolveRubricUserID userID in
     callw (pg_run (insert_rubric_stmt name (scope_arg scope) metaJSON actor))
       (wrap1 ''InsertRubric failed'') (\<lambda>i.
     callw (RecordRubricCreated rt (rubric_recorder rt) PgRubricTx_InsertAuditLog i name 1 actor)
       (rubric_audit_failed ''InsertRubric audit failed'') (\<lambda>_. retn i))))"

definition scanRubricRow :: "rubric_row \<Rightarrow> Rubric" where
  "scanRubricRow r =
     (let text = (\<lambda>x. case x of None \<Rightarrow> [] | Some s \<Rightarrow> s) in
      \<lparr>rub_Metadata = (case ub_metadata r of None \<Rightarrow> [] | Some m \<Rightarrow> m),
       rub_CreatedAt = ub_created_at r, rub_UpdatedAt = ub_updated_at r, rub_Name = ub_name r,
       rub_Scope = text (ub_scope r), rub_Status = ub_status r,
       rub_ArchiveReason = text (ub_archive_reason r), rub_CreatedBy = ub_created_by r,
       rub_UpdatedBy = text (ub_updated_by r), rub_Version = ub_version r, rub_ID = ub_id r\<rparr>)"

definition GetRubricByID :: "uuid \<Rightarrow> (pg_state, Rubric) eff" where
  "GetRubricByID i =
     callw (pg_query_row (\<lambda>d. map_option scanRubricRow (row_lookup ub_id (db_rubrics d) i)))
       (\<lambda>e. if errors_Is e pgx_ErrNoRows then wrap1 ''GetRubricByID id'' (Sentinel ErrRubricNotFound)
            else wrap1 ''GetRubricByID scan failed'' e) retn"

definition rubric_where :: "string \<Rightarrow> string \<Rightarrow> rubric_row \<Rightarrow> bool" where
  "rubric_where statusFilter scopeFilter r \<longleftrightarrow>
     (blank statusFilter \<or> ub_status r = statusFilter) \<and>
     (blank scopeFilter \<or> ub_scope r = Some scopeFilter)"

definition ListRubrics :: "string \<Rightarrow> string \<Rightarrow> int \<Rightarrow> int \<Rightarrow> (pg_state, Rubric list) eff" where
  "ListRubrics statusFilter scopeFilter limit offset =
     callw (pg_run (\<lambda>now u d. case limit_offset limit offset (sort_key (\<lambda>r. - ub_created_at r)
              (List.filter (rubric_where statusFilter scopeFilter) (db_rubrics d))) of
          Inl e \<Rightarrow> Inl e | Inr rs \<Rightarrow> Inr (map scanRubricRow rs, d)))
       (wrap1 ''ListRubrics failed'') retn"

definition CountRubrics :: "string \<Rightarrow> string \<Rightarrow> (pg_state, int) eff" where
  "CountRubrics statusFilter scopeFilter =
     callw (pg_query (\<lambda>d. int (length (List.filter (rubric_where statusFilter scopeFilter) (db_rubrics d)))))
       (wrap1 ''CountRubrics failed'') retn"

definition lockAndCheckRubricStatus :: "uuid \<Rightarrow> (pg_state, string) eff" where
  "lockAndCheckRubricStatus i =
     callw (pg_query_row (\<lambda>d. map_option ub_status (row_lookup ub_id (db_rubrics d) i)))
       (\<lambda>e. if errors_Is e pgx_ErrNoRows then wrap1 ''rubric id'' (Sentinel ErrRubricNotFound)
            else wrap1 ''SELECT FOR UPDATE rubric failed'' e) retn"

definition UpdateRubric ::
  "pg_state runtime \<Rightarrow> uuid \<Rightarrow> string \<Rightarrow> string \<Rightarrow> string \<Rightarrow> metadata \<Rightarrow> string \<Rightarrow> (pg_state, unit) eff" where
  "UpdateRubric rt i name scope newStatus md userID =
     call (lift (validateRubricInput name)) (\<lambda>_.
     call (lockAndCheckRubricStatus i) (\<lambda>currentStatus.
     if currentStatus = rubricStatusArchived
     then throw (wrap1 ''UpdateRubric: archived rubric'' (Sentinel ErrRubricArchived))
     else let keep = blank newStatus \<or> newStatus = currentStatus;
              effectiveStatus = (if keep then currentStatus else newStatus)
       in call (lift (if keep then Inr () else validateRubricStatusTransition currentStatus newStatus)) (\<lambda>_.
          call (lift (marshalRubricMetadata md)) (\<lambda>metaJSON.
          let actor = resolveRubricUserID userID in
          callw (pg_run (update_rubric_stmt i
                   (edit_rubric_row name (scope_arg scope) effectiveStatus metaJSON actor)))
            (wrap1 ''UpdateRubric UPDATE failed'') (\<lambda>_.
          callw (RecordRubricUpdated rt (rubric_recorder rt) PgRubricTx_InsertAuditLog i actor)
            (rubric_audit_failed ''UpdateRubric audit failed'') (\<lambda>_. retn ()))))))"

definition ArchiveRubric :: "pg_state runtime \<Rightarrow> uuid \<Rightarrow> string \<Rightarrow> string \<Rightarrow> (pg_state, unit) eff" where
  "ArchiveRubric rt i archiveReason userID =
     (if blank archiveReason
      then throw (wrap1 ''archive_reason is empty'' (Sentinel ErrRubricInvalidInput))
      else call (lockAndCheckRubricStatus i) (\<lambda>currentStatus.
        if currentStatus = rubricStatusArchived
        then throw (wrap1 ''ArchiveRubric: already archived'' (Sentinel ErrRubricInvalidStatus))
        else call (lift (validateRubricStatusTransition currentStatus rubricStatusArchived)) (\<lambda>_.
        let actor = resolveRubricUserID userID in
        callw (pg_run (update_rubric_stmt i (archive_rubric_row archiveReason actor)))
          (wrap1 ''ArchiveRubric UPDATE failed'') (\<lambda>_.
        callw (RecordRubricArchived rt (rubric_recorder rt) PgRubricTx_InsertAuditLog i archiveReason actor)
          (rubric_audit_failed ''ArchiveRubric audit failed'') (\<lambda>_. retn ())))))"

definition AddCriterion ::
  "pg_state runtime \<Rightarrow> num_codec \<Rightarrow> uuid \<Rightarrow> uuid \<Rightarrow> float64 \<Rightarrow> string \<Rightarrow> (pg_state, uuid) eff" where
  "AddCriterion rt c rubricID itemID weight userID =
     call (lift (validateCriterionInput weight)) (\<lambda>_.
     call (lockAndCheckRubricStatus rubricID) (\<lambda>currentStatus.
     if currentStatus = rubricStatusArchived
     then throw (wrap1 ''AddCriterion: archived rubric'' (Sentinel ErrRubricArchived))
     else let actor = resolveRubricUserID userID in
       callw (pg_run (insert_criterion_stmt c rubricID itemID weight)) (wrap1 ''AddCriterion INSERT failed'') (\<lambda>j.
       callw (RecordRubricCriterionAdded rt (rubric_recorder rt) PgRubricTx_InsertAuditLog j rubricID itemID actor)
         (rubric_audit_failed ''AddCriterion audit failed'') (\<lambda>_. retn j))))"

definition AddBand ::
  "pg_state runtime \<Rightarrow> num_codec \<Rightarrow> uuid \<Rightarrow> string \<Rightarrow> float64 \<Rightarrow> float64 \<Rightarrow> string \<Rightarrow> (pg_state, uuid) eff" where
  "AddBand rt c rubricID letter minScore maxScore userID =
     (if blank letter then throw (wrap1 ''letter is empty'' (Sentinel ErrRubricInvalidInput))
      else call (lift (validateBandInput minScore maxScore)) (\<lambda>_.
      call (lockAndCheckRubricStatus rubricID) (\<lambda>currentStatus.
      if currentStatus = rubricStatusArchived
      then throw (wrap1 ''AddBand: archived rubric'' (Sentinel ErrRubricArchived))
      else let actor = resolveRubricUserID userID in
        callw (pg_run (insert_band_stmt c rubricID letter minScore maxScore)) (wrap1 ''AddBand INSERT failed'') (\<lambda>j.
        callw (RecordRubricBandAdded rt (rubric_recorder rt) PgRubricTx_InsertAuditLog j rubricID letter actor)
          (rubric_audit_failed ''AddBand audit failed'') (\<lambda>_. retn j)))))"

definition scan_criterion :: "num_codec \<Rightarrow> criterion_row \<Rightarrow> RubricCriterion" where
  "scan_criterion c r = \<lparr>rcr_CreatedAt = cr_created_at r, rcr_EvaluationItemID = cr_evaluation_item_id r,
     rcr_ID = cr_id r, rcr_RubricID = cr_rubric_id r, rcr_Weight = of_numeric c (cr_weight r)\<rparr>"

definition scan_band :: "num_codec \<Rightarrow> band_row \<Rightarrow> RubricBand" where
  "scan_band c r = \<lparr>rbd_CreatedAt = bd_created_at r, rbd_Letter = bd_letter r, rbd_ID = bd_id r,
     rbd_RubricID = bd_rubric_id r, rbd_MinScore = of_numeric c (bd_min_score r),
     rbd_MaxScore = of_numeric c (bd_max_score r)\<rparr>"

definition GetCriteriaByRubric :: "num_codec \<Rightarrow> uuid \<Rightarrow> (pg_state, RubricCriterion list) eff" where
  "GetCriteriaByRubric c rubricID =
     callw (pg_query (\<lambda>d. map (scan_criterion c) (sort_key cr_created_at
              (List.filter (\<lambda>r. cr_rubric_id r = rubricID) (db_criteria d)))))
       (wrap1 ''GetCriteriaByRubric failed'') retn"

definition GetBandsByRubric :: "num_codec \<Rightarrow> uuid \<Rightarrow> (pg_state, RubricBand list) eff" where
  "GetBandsByRubric c rubricID =
     callw (pg_query (\<lambda>d. map (scan_band c) (sort_key bd_min_score
              (List.filter (\<lambda>r. bd_rubric_id r = rubricID) (db_bands d)))))
       (wrap1 ''GetBandsByRubric failed'') retn"

definition band_contains :: "float64 \<Rightarrow> RubricBand \<Rightarrow> bool" where
  "band_contains x b \<longleftrightarrow> f64_ge x (rbd_MinScore b) \<and> f64_le x (rbd_MaxScore b)"

definition ApplyRubric :: "num_codec \<Rightarrow> uuid \<Rightarrow> float64 \<Rightarrow> (pg_state, string \<times> RubricBand) eff" where
  "ApplyRubric c rubricID scoreValue =
     call (GetRubricByID rubricID) (\<lambda>_.
     call (GetBandsByRubric c rubricID) (\<lambda>bands.
     case find (band_contains scoreValue) bands of
       Some b \<Rightarrow> retn (rbd_Letter b, b)
     | None \<Rightarrow> throw (wrap1 ''ApplyRubric scoreValue'' (Sentinel ErrRubricInvalidInput))))"

definition PgRubricTx_Commit :: "(pg_state, unit) eff" where
  "PgRubricTx_Commit = callw pg_commit (wrap1 ''Commit(rubric) failed'') (\<lambda>_. retn ())"

definition PgRubricTx_Rollback :: "(pg_state, unit) eff" where
  "PgRubricTx_Rollback s =
     (case pg_rollback s of
        (Inl e, s') \<Rightarrow> if errors_Is e pgx_ErrTxClosed then (Inr (), s')
                      else (Inl (wrap1 ''Rollback(rubric) failed'' e), s')
      | (Inr u, s') \<Rightarrow> (Inr (), s'))"

definition PgRubricTx_methods :: "pg_state runtime \<Rightarrow> num_codec \<Rightarrow> pg_state RubricTx" where
  "PgRubricTx_methods rt c =
     \<lparr>btx_InsertRubric = InsertRubric rt, btx_GetRubricByID = GetRubricByID, btx_ListRubrics = ListRubrics,
      btx_CountRubrics = CountRubrics, btx_UpdateRubric = UpdateRubric rt, btx_ArchiveRubric = ArchiveRubric rt,
      btx_AddCriterion = AddCriterion rt c, btx_AddBand = AddBand rt c,
      btx_GetCriteriaByRubric = GetCriteriaByRubric c, btx_GetBandsByRubric = GetBandsByRubric c,
      btx_ApplyRubric = ApplyRubric c, btx_InsertAuditLog = PgRubricTx_InsertAuditLog,
      btx_Commit = PgRubricTx_Commit, btx_Rollback = PgRubricTx_Rollback\<rparr>"

end
