(* ===== verification/Rubric_Properties.thy ===== *)
theory Rubric_Properties
  imports Rubric_Store Uuid_Instance Samples
begin

text \<open>
  What the rubric store guarantees: its tables stay well-formed, an archived rubric never changes,
  every mutation that succeeds has its audit event, and the grade of a score is that of the only
  band that contains it.
\<close>

section \<open>What the codec must satisfy\<close>

text \<open>
  The values a NUMERIC(p, s) column holds. A codec is sound if it writes such values, and if the
  float64 readings of two values of a NUMERIC(8, 4) column compare as the values do: they have at
  most eight digits, fewer than a float64 distinguishes.
\<close>

definition fits :: "nat \<Rightarrow> nat \<Rightarrow> numeric \<Rightarrow> bool" where
  "fits p s n \<longleftrightarrow> n = NumNaN \<or> (\<exists>k::int. n = Num (of_int k / 10 ^ s) \<and> \<bar>k\<bar> < 10 ^ p)"

definition codec_sound :: "num_codec \<Rightarrow> bool" where
  "codec_sound c \<longleftrightarrow> (\<forall>p s x n. to_numeric c p s x = Inr n \<longrightarrow> fits p s n) \<and>
     (\<forall>a b. fits 8 4 a \<longrightarrow> fits 8 4 b \<longrightarrow> f64_le (of_numeric c a) (of_numeric c b) \<longrightarrow> a \<le> b)"

lemma num_cast_fits: "num_cast p s x = Inr n \<Longrightarrow> fits p s n"
  by (cases x) (auto simp: fits_def Let_def split: if_splits)

lemma exact_codec_sound: "codec_sound exact_codec"
proof -
  have "fits p s n" if "to_numeric exact_codec p s x = Inr n" for p s x n
    using that by (cases x) (auto simp: exact_codec_def fits_def [of p s NumNaN] dest: num_cast_fits simp del: num_cast.simps)
  moreover have "a \<le> b" if "f64_le (of_numeric exact_codec a) (of_numeric exact_codec b)" for a b
    using that by (cases a; cases b) (auto simp: exact_codec_def)
  ultimately show ?thesis by (simp add: codec_sound_def)
qed

lemma f64_le_trans: "f64_le x y \<Longrightarrow> f64_le y z \<Longrightarrow> f64_le x z"
  by (cases x; cases y; cases z) auto

section \<open>The invariant\<close>

definition rubric_row_ok :: "rubric_row \<Rightarrow> bool" where
  "rubric_row_ok r \<longleftrightarrow>
     ub_status r \<in> set [rubricStatusDraft, rubricStatusActive, rubricStatusArchived] \<and>
     (ub_status r = rubricStatusArchived \<longleftrightarrow> ub_archive_reason r \<noteq> None) \<and>
     (case ub_archive_reason r of None \<Rightarrow> True | Some s \<Rightarrow> \<not> blank s) \<and>
     \<not> blank (ub_name r) \<and> length (ub_name r) \<le> 64 \<and> ub_version r = 1"

definition one_active :: "rubric_row list \<Rightarrow> bool" where
  "one_active rs \<longleftrightarrow> (\<forall>r\<in>set rs. \<forall>q\<in>set rs. ub_status r = rubricStatusActive \<longrightarrow>
     ub_status q = rubricStatusActive \<longrightarrow> ub_name q = ub_name r \<longrightarrow> ub_scope r \<noteq> None \<longrightarrow>
     ub_scope q = ub_scope r \<longrightarrow> ub_id q = ub_id r)"

definition band_ok :: "db \<Rightarrow> band_row \<Rightarrow> bool" where
  "band_ok d b \<longleftrightarrow> bd_rubric_id b \<in> ub_id ` set (db_rubrics d) \<and> bd_min_score b < bd_max_score b \<and>
     fits 8 4 (bd_min_score b) \<and> fits 8 4 (bd_max_score b) \<and> \<not> blank (bd_letter b)"

definition criterion_ok :: "db \<Rightarrow> criterion_row \<Rightarrow> bool" where
  "criterion_ok d k \<longleftrightarrow> cr_rubric_id k \<in> ub_id ` set (db_rubrics d) \<and> Num 0 \<le> cr_weight k \<and> cr_weight k \<le> Num 1"

definition rubric_inv :: "db \<Rightarrow> bool" where
  "rubric_inv d \<longleftrightarrow> distinct (map ub_id (db_rubrics d)) \<and> (\<forall>r\<in>set (db_rubrics d). rubric_row_ok r) \<and>
     one_active (db_rubrics d) \<and> (\<forall>b\<in>set (db_bands d). band_ok d b) \<and>
     sorted_wrt (\<lambda>a b. \<not> bands_overlap a b) (db_bands d) \<and> (\<forall>k\<in>set (db_criteria d). criterion_ok d k)"

text \<open>What a rubric consists of, for the claim that an archived one is frozen.\<close>

definition rubric_parts :: "db \<Rightarrow> uuid \<Rightarrow> criterion_row list \<times> band_row list" where
  "rubric_parts d i = (List.filter (\<lambda>k. cr_rubric_id k = i) (db_criteria d),
     List.filter (\<lambda>b. bd_rubric_id b = i) (db_bands d))"

definition archived_frozen :: "db \<Rightarrow> db \<Rightarrow> bool" where
  "archived_frozen d d' \<longleftrightarrow> (\<forall>i r. row_lookup ub_id (db_rubrics d) i = Some r \<longrightarrow>
     ub_status r = rubricStatusArchived \<longrightarrow>
     row_lookup ub_id (db_rubrics d') i = Some r \<and> rubric_parts d' i = rubric_parts d i)"

section \<open>The steps\<close>

inductive rubric_step :: "string \<Rightarrow> db \<Rightarrow> db \<Rightarrow> bool" where
  create: "i \<notin> ub_id ` set (db_rubrics d) \<Longrightarrow> rubric_row_ok r \<Longrightarrow> ub_id r = i \<Longrightarrow>
    ub_status r = rubricStatusDraft \<Longrightarrow>
    adds_event ActionRubricCreated ''rubric'' i actor det (d\<lparr>db_rubrics := db_rubrics d @ [r]\<rparr>) d' \<Longrightarrow>
    rubric_step actor d d'"
| edit: "row_lookup ub_id (db_rubrics d) i = Some r \<Longrightarrow> ub_status r \<noteq> rubricStatusArchived \<Longrightarrow>
    q = ub_status r \<or> ub_status r = rubricStatusDraft \<and> q = rubricStatusActive \<Longrightarrow>
    \<not> blank name \<Longrightarrow> length name \<le> 64 \<Longrightarrow>
    \<not> active_conflict (edit_rubric_row name sc q md actor now r) (db_rubrics d) \<Longrightarrow>
    adds_event ActionRubricUpdated ''rubric'' i actor det
      (d\<lparr>db_rubrics := row_update ub_id i (edit_rubric_row name sc q md actor now) (db_rubrics d)\<rparr>) d' \<Longrightarrow>
    rubric_step actor d d'"
| archive: "row_lookup ub_id (db_rubrics d) i = Some r \<Longrightarrow> ub_status r = rubricStatusActive \<Longrightarrow>
    \<not> blank reason \<Longrightarrow>
    adds_event ActionRubricArchived ''rubric'' i actor det
      (d\<lparr>db_rubrics := row_update ub_id i (archive_rubric_row reason actor now) (db_rubrics d)\<rparr>) d' \<Longrightarrow>
    rubric_step actor d d'"
| criterion: "row_lookup ub_id (db_rubrics d) i = Some r \<Longrightarrow> ub_status r \<noteq> rubricStatusArchived \<Longrightarrow>
    cr_rubric_id k = i \<Longrightarrow> Num 0 \<le> cr_weight k \<Longrightarrow> cr_weight k \<le> Num 1 \<Longrightarrow>
    adds_event ActionRubricCriterionAdded ''rubric_criterion'' (cr_id k) actor det
      (d\<lparr>db_criteria := db_criteria d @ [k]\<rparr>) d' \<Longrightarrow> rubric_step actor d d'"
| band: "row_lookup ub_id (db_rubrics d) i = Some r \<Longrightarrow> ub_status r \<noteq> rubricStatusArchived \<Longrightarrow>
    bd_rubric_id b = i \<Longrightarrow> bd_min_score b < bd_max_score b \<Longrightarrow> fits 8 4 (bd_min_score b) \<Longrightarrow>
    fits 8 4 (bd_max_score b) \<Longrightarrow> \<not> blank (bd_letter b) \<Longrightarrow> \<forall>q\<in>set (db_bands d). \<not> bands_overlap b q \<Longrightarrow>
    adds_event ActionRubricBandAdded ''rubric_band'' (bd_id b) actor det
      (d\<lparr>db_bands := db_bands d @ [b]\<rparr>) d' \<Longrightarrow> rubric_step actor d d'"

lemma bands_overlap_sym: "bands_overlap a b = bands_overlap b a"
  by (auto simp: bands_overlap_def)

lemma rubric_rows_id [simp]:
  "ub_id (edit_rubric_row name sc q md actor now r) = ub_id r"
  "ub_id (archive_rubric_row reason actor now r) = ub_id r"
  by (simp_all add: edit_rubric_row_def archive_rubric_row_def)

lemma rubric_ids_update [simp]:
  "(\<And>r. ub_id (f r) = ub_id r) \<Longrightarrow> ub_id ` set (row_update ub_id i f rs) = ub_id ` set rs"
  by (metis list.set_map row_update_keys)

text \<open>Changing one row of the rubrics.\<close>

lemma rubric_update_inv:
  assumes inv: "rubric_inv d" and r: "row_lookup ub_id (db_rubrics d) i = Some r"
    and ok: "rubric_row_ok (f r)" and id: "\<And>r. ub_id (f r) = ub_id r"
    and nc: "ub_status (f r) = rubricStatusActive \<Longrightarrow> \<not> active_conflict (f r) (db_rubrics d)"
  shows "rubric_inv (d\<lparr>db_rubrics := row_update ub_id i f (db_rubrics d)\<rparr>)"
proof -
  have uniq: "q = r" if "q \<in> set (db_rubrics d)" "ub_id q = i" for q
    using inv that row_lookup_key [OF r] row_lookup_in_set [OF r]
    by (metis distinct_map inj_onD rubric_inv_def)
  have fid: "ub_id (f r) = i" using id row_lookup_key [OF r] by simp
  have clash: "ub_id q = i" if "q \<in> set (db_rubrics d)" "ub_status (f r) = rubricStatusActive"
    "ub_status q = rubricStatusActive" "ub_name q = ub_name (f r)" "ub_scope (f r) = Some s"
    "ub_scope q = Some s" for q s
  proof (rule ccontr)
    assume "ub_id q \<noteq> i"
    then have "active_conflict (f r) (db_rubrics d)"
      unfolding active_conflict_def list_ex_iff using that fid
      by (intro conjI bexI [of _ q]) (simp_all add: rubricStatusActive_def)
    with nc that(2) show False by simp
  qed
  have one: "one_active (db_rubrics d)" using inv by (simp add: rubric_inv_def)
  have "one_active (row_update ub_id i f (db_rubrics d))"
    unfolding one_active_def
  proof (intro ballI impI)
    fix a b assume ab: "a \<in> set (row_update ub_id i f (db_rubrics d))" "b \<in> set (row_update ub_id i f (db_rubrics d))"
      "ub_status a = rubricStatusActive" "ub_status b = rubricStatusActive" "ub_name b = ub_name a"
      "ub_scope a \<noteq> None" "ub_scope b = ub_scope a"
    then obtain s where s: "ub_scope a = Some s" "ub_scope b = Some s" by auto
    have cases: "x \<in> set (db_rubrics d) \<and> ub_id x \<noteq> i \<or> x = f r" if "x \<in> set (row_update ub_id i f (db_rubrics d))" for x
      using that uniq by (auto simp: set_row_update)
    from cases [OF ab(1)] cases [OF ab(2)] show "ub_id b = ub_id a"
    proof (elim disjE conjE)
      assume "a \<in> set (db_rubrics d)" "b \<in> set (db_rubrics d)"
      with one [unfolded one_active_def, rule_format, of a b] ab show ?thesis by simp
    next
      assume "a \<in> set (db_rubrics d)" "ub_id a \<noteq> i" "b = f r"
      with clash [of a s] ab s show ?thesis by simp
    next
      assume "b \<in> set (db_rubrics d)" "ub_id b \<noteq> i" "a = f r"
      with clash [of b s] ab s show ?thesis by simp
    qed simp
  qed
  then show ?thesis
    using inv uniq ok id
    by (auto simp: rubric_inv_def band_ok_def criterion_ok_def set_row_update)
qed

lemma one_active_append: "ub_status r \<noteq> rubricStatusActive \<Longrightarrow> one_active (rs @ [r]) \<longleftrightarrow> one_active rs"
  by (simp add: one_active_def)

lemma rubric_inv_event [simp]: "adds_event a ty i u det d d' \<Longrightarrow> rubric_inv d' \<longleftrightarrow> rubric_inv d"
  by (simp add: rubric_inv_def band_ok_def criterion_ok_def)

lemma lookup_has_id: "row_lookup ub_id rs i = Some r \<Longrightarrow> i \<in> ub_id ` set rs"
  using row_lookup_in_set [of ub_id rs i r] row_lookup_key [of ub_id rs i r] by auto

lemma rubric_step_inv:
  assumes "rubric_step actor d d'" and inv: "rubric_inv d"
  shows "rubric_inv d'"
  using assms(1)
proof cases
  case (create i r det)
  have "one_active (db_rubrics d @ [r])"
    using inv create(4) by (simp add: rubric_inv_def one_active_append)
  then show ?thesis
    using create inv by (auto simp: rubric_inv_def band_ok_def criterion_ok_def)
next
  case (edit i r q name sc md now det)
  have "rubric_row_ok r" using inv edit(1) by (auto simp: rubric_inv_def dest: row_lookup_in_set)
  then have "rubric_row_ok (edit_rubric_row name sc q md actor now r)"
    using edit by (auto simp: rubric_row_ok_def edit_rubric_row_def)
  with edit inv show ?thesis by (simp add: rubric_update_inv)
next
  case (archive i r reason det now)
  have "rubric_row_ok r" using inv archive(1) by (auto simp: rubric_inv_def dest: row_lookup_in_set)
  then have "rubric_row_ok (archive_rubric_row reason actor now r)"
    using archive by (auto simp: rubric_row_ok_def archive_rubric_row_def rubricStatusArchived_def)
  moreover have "ub_status (archive_rubric_row reason actor now r) \<noteq> rubricStatusActive"
    by (simp add: archive_rubric_row_def rubricStatusActive_def)
  ultimately show ?thesis
    using rubric_update_inv [OF inv archive(1), of "archive_rubric_row reason actor now"] archive(4) by simp
next
  case (criterion i r k det)
  then show ?thesis
    using inv lookup_has_id [OF criterion(1)]
    by (auto simp: rubric_inv_def band_ok_def criterion_ok_def)
next
  case (band i r b det)
  have "sorted_wrt (\<lambda>a b. \<not> bands_overlap a b) (db_bands d @ [b])"
    using inv band(8) by (auto simp: rubric_inv_def sorted_wrt_append bands_overlap_sym [of _ b])
  then show ?thesis
    using inv band lookup_has_id [OF band(1)]
    by (auto simp: rubric_inv_def band_ok_def criterion_ok_def)
qed

lemma rubric_step_frozen:
  assumes "rubric_step actor d d'"
  shows "archived_frozen d d'"
  using assms
  by cases (auto simp: archived_frozen_def rubric_parts_def)


section \<open>The mutations\<close>

datatype rubric_op =
    OpInsertRubric string string metadata
  | OpUpdateRubric uuid string string string metadata
  | OpArchive uuid string
  | OpAddCriterion uuid uuid float64
  | OpAddBand uuid string float64 float64

definition exec_rubric ::
  "pg_state runtime \<Rightarrow> num_codec \<Rightarrow> rubric_op \<Rightarrow> string \<Rightarrow> (pg_state, unit) eff" where
  "exec_rubric rt c x userID = (case x of
     OpInsertRubric name scope md \<Rightarrow> call (InsertRubric rt name scope md userID) (\<lambda>i. retn ())
   | OpUpdateRubric i name scope st md \<Rightarrow> UpdateRubric rt i name scope st md userID
   | OpArchive i reason \<Rightarrow> ArchiveRubric rt i reason userID
   | OpAddCriterion i item w \<Rightarrow> call (AddCriterion rt c i item w userID) (\<lambda>j. retn ())
   | OpAddBand i letter lo hi \<Rightarrow> call (AddBand rt c i letter lo hi userID) (\<lambda>j. retn ()))"

lemma resolveRubricUserID_not_blank [simp]: "\<not> blank (resolveRubricUserID u)" "resolveRubricUserID u \<noteq> []"
  by (auto simp: resolveRubricUserID_def rubricFallbackUserID_def blank_iff is_space_def)

lemma rubric_recorder_user [simp]: "u \<noteq> [] \<Longrightarrow> Recorder_resolveUserID (rubric_recorder rt) u = u"
  by (simp add: Recorder_resolveUserID_def rubric_recorder_def)

lemma rubric_clock [simp]: "nowUTC rt (rubric_recorder rt) = time_Now rt"
  unfolding rubric_recorder_def by (rule nowUTC_pg)

lemma call_rubricDetails: "call (lift (rubricDetails rt i x)) k = k (projr (rubricDetails rt i x))"
  using details_Inr(4) [of rt i x] by auto

lemmas rubric_audit_defs =
  RecordRubricCreated_def RecordRubricUpdated_def RecordRubricArchived_def RecordRubricCriterionAdded_def
  RecordRubricBandAdded_def call_rubricDetails PgRubricTx_InsertAuditLog_def [abs_def]

lemma rubric_validate_Inr [simp]:
  "validateRubricInput n = Inr u \<longleftrightarrow> \<not> blank n \<and> length n \<le> 64"
  "validateRubricStatusTransition p q = Inr u \<longleftrightarrow>
     p = rubricStatusDraft \<and> q = rubricStatusActive \<or> p = rubricStatusActive \<and> q = rubricStatusArchived"
  by (auto simp: validateRubricInput_def maxRubricNameLen_def validateRubricStatusTransition_def
      allowedRubricTransitions_def split: option.splits)

lemma lock_rubric_Inr:
  "lockAndCheckRubricStatus i s = (Inr q, s') \<Longrightarrow>
   \<exists>r. row_lookup ub_id (db_rubrics (ptx_work (fst s))) i = Some r \<and> ub_status r = q \<and> fst s' = fst s"
  by (auto simp: lockAndCheckRubricStatus_def eff_simps pg_query_row_Inr_iff)

lemma insert_rubric_Inr:
  "insert_rubric_stmt name sc md actor now u d = Inr (i, d') \<Longrightarrow>
   \<exists>r. d' = d\<lparr>db_rubrics := db_rubrics d @ [r]\<rparr> \<and> i \<notin> ub_id ` set (db_rubrics d) \<and> ub_id r = i \<and>
     ub_name r = name \<and> ub_version r = 1 \<and> ub_status r = rubricStatusDraft \<and> ub_archive_reason r = None"
  by (auto simp: insert_rubric_stmt_def Let_def rubricStatusDraft_def split: option.splits if_splits)

lemma update_rubric_Inr:
  "update_rubric_stmt i f now u d = Inr (v, d') \<Longrightarrow> row_lookup ub_id (db_rubrics d) i = Some r \<Longrightarrow>
   d' = d\<lparr>db_rubrics := row_update ub_id i (f now) (db_rubrics d)\<rparr> \<and> rubric_row_error (f now r) = None \<and>
   \<not> active_conflict (f now r) (db_rubrics d)"
  by (auto simp: update_rubric_stmt_def split: option.splits if_splits)

lemma insert_criterion_Inr:
  "insert_criterion_stmt c i item w now u d = Inr (j, d') \<Longrightarrow>
   \<exists>k. d' = d\<lparr>db_criteria := db_criteria d @ [k]\<rparr> \<and> cr_id k = j \<and> cr_rubric_id k = i \<and>
     Num 0 \<le> cr_weight k \<and> cr_weight k \<le> Num 1"
  by (auto simp: insert_criterion_stmt_def split: sum.splits if_splits)

lemma insert_band_Inr:
  assumes "insert_band_stmt c i letter lo hi now u d = Inr (j, d')"
  shows "\<exists>b. d' = d\<lparr>db_bands := db_bands d @ [b]\<rparr> \<and> bd_id b = j \<and> bd_rubric_id b = i \<and> bd_letter b = letter \<and>
     bd_min_score b < bd_max_score b \<and> to_numeric c 8 4 lo = Inr (bd_min_score b) \<and>
     to_numeric c 8 4 hi = Inr (bd_max_score b) \<and> (\<forall>q\<in>set (db_bands d). \<not> bands_overlap b q)"
  using assms
  by (auto simp: insert_band_stmt_def Let_def list_ex_iff split: sum.splits if_splits)

lemma insert_rubric_ok:
  assumes "InsertRubric (pg_runtime parse toString sha1) name scope md userID s = (Inr i, s')"
  shows "rubric_step (resolveRubricUserID userID) (ptx_work (fst s)) (ptx_work (fst s'))"
proof -
  let ?rt = "pg_runtime parse toString sha1" and ?actor = "resolveRubricUserID userID"
  from assms obtain mj s1 x where v: "\<not> blank name" "length name \<le> 64" and
    q: "pg_run (insert_rubric_stmt name (scope_arg scope) mj ?actor) s = (Inr i, s1)" and
    e: "insert_event (time_Now ?rt) (insert_audit ''InsertAuditLog(rubric) failed'') ActionRubricCreated ''rubric'' i
          ?actor (Some (projr (rubricDetails ?rt i x))) s1 = (Inr (), s')"
    by (auto simp: InsertRubric_def eff_simps Let_def rubric_audit_defs)
  from insert_rubric_Inr [OF pg_run_work [OF q]] obtain r where
    r: "ptx_work (fst s1) = (ptx_work (fst s))\<lparr>db_rubrics := db_rubrics (ptx_work (fst s)) @ [r]\<rparr>"
      "i \<notin> ub_id ` set (db_rubrics (ptx_work (fst s)))" "ub_id r = i" "ub_name r = name" "ub_version r = 1"
      "ub_status r = rubricStatusDraft" "ub_archive_reason r = None" by blast
  have "rubric_row_ok r" using r v by (simp add: rubric_row_ok_def)
  with r pg_event_ok(1) [OF e] show ?thesis by (auto intro: rubric_step.create)
qed

lemma update_rubric_ok:
  assumes "UpdateRubric (pg_runtime parse toString sha1) i name scope st md userID s = (Inr u, s')"
    and inv: "rubric_inv (ptx_work (fst s))"
  shows "rubric_step (resolveRubricUserID userID) (ptx_work (fst s)) (ptx_work (fst s'))"
proof -
  let ?rt = "pg_runtime parse toString sha1" and ?actor = "resolveRubricUserID userID"
  from assms(1) obtain cur mj s1 s2 where v: "\<not> blank name" "length name \<le> 64" and
    lock: "lockAndCheckRubricStatus i s = (Inr cur, s1)" and na: "cur \<noteq> rubricStatusArchived" and
    tr: "(if blank st \<or> st = cur then Inr () else validateRubricStatusTransition cur st) = Inr ()" and
    upd: "pg_run (update_rubric_stmt i (edit_rubric_row name (scope_arg scope)
        (if blank st \<or> st = cur then cur else st) mj ?actor)) s1 = (Inr (), s2)" and
    e: "insert_event (time_Now ?rt) (insert_audit ''InsertAuditLog(rubric) failed'') ActionRubricUpdated ''rubric'' i
          ?actor (Some (projr (rubricDetails ?rt i Map.empty))) s2 = (Inr (), s')"
    by (auto simp: UpdateRubric_def eff_simps Let_def rubric_audit_defs)
  let ?q = "if blank st \<or> st = cur then cur else st"
  from lock_rubric_Inr [OF lock] obtain r where r: "row_lookup ub_id (db_rubrics (ptx_work (fst s))) i = Some r"
    "ub_status r = cur" "fst s1 = fst s" by blast
  from update_rubric_Inr [OF pg_run_work [OF upd, unfolded r(3)] r(1)] obtain now where
    d: "ptx_work (fst s2) = (ptx_work (fst s))\<lparr>db_rubrics :=
        row_update ub_id i (edit_rubric_row name (scope_arg scope) ?q mj ?actor now) (db_rubrics (ptx_work (fst s)))\<rparr>"
      "rubric_row_error (edit_rubric_row name (scope_arg scope) ?q mj ?actor now r) = None"
      "\<not> active_conflict (edit_rubric_row name (scope_arg scope) ?q mj ?actor now r) (db_rubrics (ptx_work (fst s)))"
    by blast
  have "ub_archive_reason r = None"
    using inv r na by (auto simp: rubric_inv_def rubric_row_ok_def dest: row_lookup_in_set)
  then have "?q \<noteq> rubricStatusArchived"
    using d(2) by (auto simp: rubric_row_error_def edit_rubric_row_def rubricStatusArchived_def split: if_splits)
  then have "?q = ub_status r \<or> ub_status r = rubricStatusDraft \<and> ?q = rubricStatusActive"
    using tr r(2) by (auto split: if_splits)
  then show ?thesis
    using pg_event_ok(1) [OF e] r v na d by (auto intro: rubric_step.edit)
qed

lemma archive_rubric_ok:
  assumes "ArchiveRubric (pg_runtime parse toString sha1) i reason userID s = (Inr u, s')"
  shows "rubric_step (resolveRubricUserID userID) (ptx_work (fst s)) (ptx_work (fst s'))"
proof -
  let ?rt = "pg_runtime parse toString sha1" and ?actor = "resolveRubricUserID userID"
  from assms obtain s1 s2 x where v: "\<not> blank reason" and
    lock: "lockAndCheckRubricStatus i s = (Inr rubricStatusActive, s1)" and
    upd: "pg_run (update_rubric_stmt i (archive_rubric_row reason ?actor)) s1 = (Inr (), s2)" and
    e: "insert_event (time_Now ?rt) (insert_audit ''InsertAuditLog(rubric) failed'') ActionRubricArchived ''rubric'' i
          ?actor (Some (projr (rubricDetails ?rt i x))) s2 = (Inr (), s')"
    by (auto simp: ArchiveRubric_def eff_simps Let_def rubric_audit_defs)
  from lock_rubric_Inr [OF lock] obtain r where r: "row_lookup ub_id (db_rubrics (ptx_work (fst s))) i = Some r"
    "ub_status r = rubricStatusActive" "fst s1 = fst s" by blast
  from update_rubric_Inr [OF pg_run_work [OF upd, unfolded r(3)] r(1)] r v pg_event_ok(1) [OF e]
  show ?thesis by (auto intro: rubric_step.archive)
qed

lemma add_criterion_ok:
  assumes "AddCriterion (pg_runtime parse toString sha1) c i item w userID s = (Inr j, s')"
  shows "rubric_step (resolveRubricUserID userID) (ptx_work (fst s)) (ptx_work (fst s'))"
proof -
  let ?rt = "pg_runtime parse toString sha1" and ?actor = "resolveRubricUserID userID"
  from assms obtain cur s1 s2 x where
    lock: "lockAndCheckRubricStatus i s = (Inr cur, s1)" and na: "cur \<noteq> rubricStatusArchived" and
    ins: "pg_run (insert_criterion_stmt c i item w) s1 = (Inr j, s2)" and
    e: "insert_event (time_Now ?rt) (insert_audit ''InsertAuditLog(rubric) failed'') ActionRubricCriterionAdded
          ''rubric_criterion'' j ?actor (Some (projr (rubricDetails ?rt i x))) s2 = (Inr (), s')"
    by (auto simp: AddCriterion_def eff_simps Let_def rubric_audit_defs)
  from lock_rubric_Inr [OF lock] obtain r where r: "row_lookup ub_id (db_rubrics (ptx_work (fst s))) i = Some r"
    "ub_status r = cur" "fst s1 = fst s" by blast
  from insert_criterion_Inr [OF pg_run_work [OF ins, unfolded r(3)]] r na pg_event_ok(1) [OF e]
  show ?thesis by (auto intro: rubric_step.criterion)
qed

lemma add_band_ok:
  assumes "AddBand (pg_runtime parse toString sha1) c i letter lo hi userID s = (Inr j, s')" and c: "codec_sound c"
  shows "rubric_step (resolveRubricUserID userID) (ptx_work (fst s)) (ptx_work (fst s'))"
proof -
  let ?rt = "pg_runtime parse toString sha1" and ?actor = "resolveRubricUserID userID"
  from assms(1) obtain cur s1 s2 x where v: "\<not> blank letter" and
    lock: "lockAndCheckRubricStatus i s = (Inr cur, s1)" and na: "cur \<noteq> rubricStatusArchived" and
    ins: "pg_run (insert_band_stmt c i letter lo hi) s1 = (Inr j, s2)" and
    e: "insert_event (time_Now ?rt) (insert_audit ''InsertAuditLog(rubric) failed'') ActionRubricBandAdded
          ''rubric_band'' j ?actor (Some (projr (rubricDetails ?rt i x))) s2 = (Inr (), s')"
    by (auto simp: AddBand_def eff_simps Let_def rubric_audit_defs)
  from lock_rubric_Inr [OF lock] obtain r where r: "row_lookup ub_id (db_rubrics (ptx_work (fst s))) i = Some r"
    "ub_status r = cur" "fst s1 = fst s" by blast
  from insert_band_Inr [OF pg_run_work [OF ins, unfolded r(3)]] obtain b where
    b: "ptx_work (fst s2) = (ptx_work (fst s))\<lparr>db_bands := db_bands (ptx_work (fst s)) @ [b]\<rparr>" "bd_id b = j"
      "bd_rubric_id b = i" "bd_letter b = letter" "bd_min_score b < bd_max_score b"
      "to_numeric c 8 4 lo = Inr (bd_min_score b)" "to_numeric c 8 4 hi = Inr (bd_max_score b)"
      "\<forall>q\<in>set (db_bands (ptx_work (fst s))). \<not> bands_overlap b q" by blast
  have "fits 8 4 (bd_min_score b)" "fits 8 4 (bd_max_score b)"
    using c b(6,7) by (auto simp: codec_sound_def)
  with b r na v pg_event_ok(1) [OF e] show ?thesis by (auto intro: rubric_step.band)
qed

lemma exec_rubric_ok:
  assumes "exec_rubric (pg_runtime parse toString sha1) c x userID s = (Inr u, s')"
    and "rubric_inv (ptx_work (fst s))" and "codec_sound c"
  shows "rubric_step (resolveRubricUserID userID) (ptx_work (fst s)) (ptx_work (fst s'))"
  using assms
  by (cases x) (auto simp: exec_rubric_def eff_simps
    dest: insert_rubric_ok update_rubric_ok archive_rubric_ok add_criterion_ok add_band_ok)

section \<open>Properties\<close>

lemma rubric_step_event: "rubric_step actor d d' \<Longrightarrow> adds_user_events 1 actor d d'"
  by (elim rubric_step.cases) (auto simp: pg_logs_def simp del: One_nat_def intro: adds_user_events_from [OF adds_user_events_one])

text \<open>
  C21: The rubric tables stay well-formed. From tables that satisfy the invariant, each of the five
  mutations, when it succeeds, leaves tables that satisfy it: statuses of the enumeration, a reason
  exactly on the archived rubrics, one active rubric for a name and a scope, weights between 0 and
  1, and bands that belong to a rubric, are not empty and do not meet. Rubrics that were archived
  keep their row, their criteria and their bands, and the log grows by one event of the user.
\<close>

theorem rubric_mutation_sound:
  assumes "exec_rubric (pg_runtime parse toString sha1) c x userID s = (Inr u, s')"
    and "rubric_inv (ptx_work (fst s))" and "codec_sound c"
  shows "rubric_inv (ptx_work (fst s')) \<and> archived_frozen (ptx_work (fst s)) (ptx_work (fst s')) \<and>
    adds_user_events 1 (resolveRubricUserID userID) (ptx_work (fst s)) (ptx_work (fst s'))"
  using exec_rubric_ok [OF assms] assms(2)
  by (auto dest: rubric_step_inv rubric_step_frozen rubric_step_event)

definition sample_rubric :: "uuid \<Rightarrow> string \<Rightarrow> rubric_row" where
  "sample_rubric i q = \<lparr>ub_id = i, ub_name = ''KPI'', ub_version = 1, ub_scope = None, ub_status = q,
     ub_archive_reason = None, ub_metadata = None, ub_created_at = 1, ub_created_by = ''kim'',
     ub_updated_at = 1, ub_updated_by = None\<rparr>"

definition sample_band :: "string \<Rightarrow> rat \<Rightarrow> rat \<Rightarrow> band_row" where
  "sample_band l lo hi = \<lparr>bd_id = 50, bd_rubric_id = 7, bd_letter = l, bd_min_score = Num lo,
     bd_max_score = Num hi, bd_created_at = 1\<rparr>"

lemmas pg_rubric_run =
  pg_statements lockAndCheckRubricStatus_def
  GetRubricByID_def GetBandsByRubric_def

lemma rubric_action_short [simp]: "length ActionRubricUpdated \<le> 64" "length ActionRubricArchived \<le> 64"
    "text_ok ActionRubricUpdated" "text_ok ActionRubricArchived"
  by (simp_all add: ActionRubricUpdated_def ActionRubricArchived_def)

lemma update_rubric_runs:
  assumes "live s" and "row_lookup ub_id (db_rubrics (ptx_work (fst s))) i = Some r"
    and "ub_status r = rubricStatusDraft" and "\<not> blank name" and "length name \<le> 64"
    and "length (resolveRubricUserID userID) \<le> 64" "text_ok (resolveRubricUserID userID)" and "rubric_row_error r = None" and "blank scope"
  shows "\<exists>s'. UpdateRubric (pg_runtime parse toString sha1) i name scope ''active'' md userID s = (Inr (), s') \<and>
    db_rubrics (ptx_work (fst s')) = row_update ub_id i (edit_rubric_row name None ''active''
      (if md = [] then None else Some md) (resolveRubricUserID userID) (ptx_now (fst s))) (db_rubrics (ptx_work (fst s)))"
proof -
  obtain t w where s: "s = (t, w)" by fastforce
  have ok: "rubric_row_error (edit_rubric_row name None ''active'' mj (resolveRubricUserID userID) now r) = None"
    "\<not> active_conflict (edit_rubric_row name None ''active'' mj (resolveRubricUserID userID) now r) rs" for mj now rs
    using assms(5-8)
    by (auto simp: rubric_row_error_def edit_rubric_row_def varchar_def active_conflict_def split: if_splits)
  show ?thesis
    using assms ok [unfolded edit_rubric_row_def]
    by (simp add: s live_def UpdateRubric_def validateRubricInput_def maxRubricNameLen_def rubricStatusDraft_def
        rubricStatusArchived_def blank_iff is_space_def validateRubricStatusTransition_def allowedRubricTransitions_def
        rubricStatusActive_def marshalRubricMetadata_def scope_arg_def update_rubric_stmt_def Let_def
        RecordRubricUpdated_def rubricDetails_def PgRubricTx_InsertAuditLog_def [abs_def] varchar_def
        edit_rubric_row_def pg_rubric_run)
qed


definition rubric_db :: "rubric_row list \<Rightarrow> band_row list \<Rightarrow> db" where
  "rubric_db rs bs = empty_db\<lparr>db_rubrics := rs, db_bands := bs\<rparr>"

lemma rubric_db_simps [simp]:
  "db_rubrics (rubric_db rs bs) = rs" "db_bands (rubric_db rs bs) = bs" "db_criteria (rubric_db rs bs) = []"
  "db_audit_logs (rubric_db rs bs) = []"
  by (simp_all add: rubric_db_def empty_db_def)

lemma sample_rubric_ok [simp]:
  "ub_id (sample_rubric i q) = i" "ub_status (sample_rubric i q) = q" "ub_scope (sample_rubric i q) = None"
  "ub_name (sample_rubric i q) = ''KPI''" "ub_archive_reason (sample_rubric i q) = None"
  "rubric_row_error (sample_rubric i ''draft'') = None"
  "q \<in> set [rubricStatusDraft, rubricStatusActive] \<Longrightarrow> rubric_row_ok (sample_rubric i q)"
  by (auto simp: sample_rubric_def rubric_row_error_def rubric_row_ok_def varchar_def blank_iff is_space_def)

theorem rubric_mutation_sound_witness:
  "\<exists>s'. exec_rubric (pg_runtime canonical_Parse canonical_String sample_SHA1) exact_codec
      (OpUpdateRubric 7 ''KPI'' '''' ''active'' []) ''kim'' (sample_tx (rubric_db [sample_rubric 7 ''draft''] [])) =
      (Inr (), s') \<and> rubric_inv (ptx_work (fst s'))"
proof -
  let ?d = "rubric_db [sample_rubric 7 ''draft''] []"
  have "resolveRubricUserID ''kim'' = ''kim''"
    by (simp add: resolveRubricUserID_def blank_iff is_space_def)
  moreover have "\<not> blank ''KPI''" by (simp add: blank_iff is_space_def)
  ultimately obtain s' where run: "UpdateRubric (pg_runtime canonical_Parse canonical_String sample_SHA1) 7 ''KPI'' ''''
      ''active'' [] ''kim'' (sample_tx ?d) = (Inr (), s')"
    using update_rubric_runs [where s = "sample_tx ?d" and i = 7 and r = "sample_rubric 7 ''draft''"
        and name = "''KPI''" and userID = "''kim''" and scope = "''''" and md = "[]"
        and parse = canonical_Parse and toString = canonical_String and ?sha1.0 = sample_SHA1]
    by (auto simp: rubricStatusDraft_def)
  have inv: "rubric_inv (ptx_work (fst (sample_tx ?d)))"
    by (simp add: rubric_inv_def one_active_def rubricStatusActive_def rubricStatusDraft_def)
  show ?thesis
    using rubric_mutation_sound [OF _ inv exact_codec_sound, where x = "OpUpdateRubric 7 ''KPI'' '''' ''active'' []"
        and userID = "''kim''"] run
    by (auto simp: exec_rubric_def)
qed

lemma band_unique:
  assumes "rubric_inv d" and "codec_sound c"
    and "q \<in> set (db_bands d)" "b \<in> set (db_bands d)" and "bd_rubric_id q = bd_rubric_id b"
    and "band_contains x (scan_band c q)" "band_contains x (scan_band c b)"
  shows "q = b"
proof (rule ccontr)
  assume ne: "q \<noteq> b"
  have inv: "sorted_wrt (\<lambda>a b. \<not> bands_overlap a b) (db_bands d)" "\<forall>b\<in>set (db_bands d). band_ok d b"
    using assms(1) by (simp_all add: rubric_inv_def)
  have le: "bd_min_score q \<le> bd_max_score b"
    if qb: "q \<in> set (db_bands d)" "b \<in> set (db_bands d)" "band_contains x (scan_band c q)" "band_contains x (scan_band c b)"
    for q b
  proof -
    have "f64_le (of_numeric c (bd_min_score q)) (of_numeric c (bd_max_score b))"
      using qb f64_le_trans by (auto simp: band_contains_def scan_band_def f64_ge_def)
    then show ?thesis using assms(2) inv(2) qb(1,2) by (auto simp: codec_sound_def band_ok_def)
  qed
  have ov: "bands_overlap q b" "bands_overlap b q"
    using assms(3-7) le [of q b] le [of b q] by (auto simp: bands_overlap_def)
  obtain j k where jk: "j < length (db_bands d)" "k < length (db_bands d)" "db_bands d ! j = q" "db_bands d ! k = b"
    using assms(3,4) by (metis in_set_conv_nth)
  then have "j \<noteq> k" using ne by auto
  then consider "j < k" | "k < j" by linarith
  then show False
    using sorted_wrt_nth_less [OF inv(1), of j k] sorted_wrt_nth_less [OF inv(1), of k j] jk ov
    by cases simp_all
qed

text \<open>
  C22: One grade per score. For a rubric in tables that satisfy the invariant, without faults,
  ApplyRubric returns the letter of the only band of the rubric that contains the score, that is, whose
  minimum is at most the score and whose maximum is at least the score (both ends included); if no band contains it the error is ErrRubricInvalidInput. The tables do not change
  and no audit event is written.
\<close>

theorem apply_rubric_unique:
  assumes "live s" and "rubric_inv (ptx_work (fst s))" and "codec_sound c"
    and "row_lookup ub_id (db_rubrics (ptx_work (fst s))) i = Some r"
  shows "\<exists>res s'. ApplyRubric c i x s = (res, s') \<and> ptx_work (fst s') = ptx_work (fst s) \<and>
    (let bs = List.filter (\<lambda>b. bd_rubric_id b = i) (db_bands (ptx_work (fst s)));
         inside = (\<lambda>b. f64_le (of_numeric c (bd_min_score b)) x \<and> f64_le x (of_numeric c (bd_max_score b)))
     in case res of
          Inr (g, b) \<Rightarrow> \<exists>b'\<in>set bs. inside b' \<and> g = bd_letter b' \<and> b = scan_band c b' \<and> (\<forall>q\<in>set bs. inside q \<longrightarrow> q = b')
        | Inl e \<Rightarrow> errors_Is e ErrRubricInvalidInput \<and> (\<forall>q\<in>set bs. \<not> inside q))"
proof -
  have ends: "(\<lambda>b. f64_le (of_numeric c (bd_min_score b)) x \<and> f64_le x (of_numeric c (bd_max_score b))) =
      (\<lambda>b. band_contains x (scan_band c b))"
    by (rule ext) (simp add: band_contains_def scan_band_def f64_ge_def)
  obtain t w where s: "s = (t, w)" by fastforce
  let ?bs = "List.filter (\<lambda>b. bd_rubric_id b = i) (db_bands (ptx_work t))"
  let ?f = "\<lambda>b. band_contains x (scan_band c b)"
  have run: "ApplyRubric c i x s =
     ((case find (band_contains x) (map (scan_band c) (sort_key bd_min_score ?bs)) of
         Some b \<Rightarrow> Inr (rbd_Letter b, b)
       | None \<Rightarrow> Inl (wrap1 ''ApplyRubric scoreValue'' (Sentinel ErrRubricInvalidInput))),
      (t, w\<lparr>env_pos := Suc (Suc (Suc (Suc (env_pos w))))\<rparr>))"
    using assms(1,4) by (auto simp: s live_def ApplyRubric_def pg_rubric_run split: option.splits)
  have uniq: "q = b" if "q \<in> set ?bs" "b \<in> set ?bs" "?f q" "?f b" for q b
    using band_unique [OF assms(2,3), of q b x] that by (auto simp: s)
  show ?thesis
  proof (cases "find (band_contains x) (map (scan_band c) (sort_key bd_min_score ?bs))")
    case None
    then have "\<forall>q\<in>set ?bs. \<not> ?f q" unfolding find_None_iff by auto
    then show ?thesis unfolding ends using run None by (auto simp: s Let_def)
  next
    case (Some b)
    then have "b \<in> set (map (scan_band c) (sort_key bd_min_score ?bs))" "band_contains x b"
      unfolding find_Some_iff by (metis nth_mem)+
    then obtain b' where b': "b' \<in> set ?bs" "?f b'" "b = scan_band c b'" by auto
    have "\<forall>q\<in>set ?bs. ?f q \<longrightarrow> q = b'" using uniq b'(1,2) by blast
    moreover have "rbd_Letter b = bd_letter b'" by (simp add: b'(3) scan_band_def)
    ultimately have one: "\<exists>b'\<in>set ?bs. ?f b' \<and> rbd_Letter b = bd_letter b' \<and> b = scan_band c b' \<and>
      (\<forall>q\<in>set ?bs. ?f q \<longrightarrow> q = b')"
      using b' by blast
    have run': "ApplyRubric c i x (t, w) =
        (Inr (rbd_Letter b, b), (t, w\<lparr>env_pos := Suc (Suc (Suc (Suc (env_pos w))))\<rparr>))"
      using run Some by (simp add: s)
    show ?thesis
      unfolding ends s by (intro exI conjI, rule run', simp, simp only: sum.case prod.case Let_def fst_conv, rule one)
  qed
qed

theorem apply_rubric_unique_witness:
  "\<exists>b s'. ApplyRubric exact_codec 7 (Fin 90)
     (sample_tx (rubric_db [sample_rubric 7 ''active''] [sample_band ''A'' 90 100])) = (Inr (''A'', b), s')"
proof -
  let ?s = "sample_tx (rubric_db [sample_rubric 7 ''active''] [sample_band ''A'' 90 100])"
  have "fits 8 4 (Num 90)" "fits 8 4 (Num 100)"
    unfolding fits_def by (auto intro: exI [of _ 900000] exI [of _ 1000000])
  then have inv: "rubric_inv (ptx_work (fst ?s))"
    by (simp add: rubric_inv_def one_active_def rubricStatusActive_def band_ok_def sample_band_def
        blank_iff is_space_def)
  have "live ?s" "row_lookup ub_id (db_rubrics (ptx_work (fst ?s))) 7 = Some (sample_rubric 7 ''active'')"
    by simp_all
  note spec = apply_rubric_unique [OF this(1) inv exact_codec_sound this(2), of "Fin 90"]
  then obtain res s' where run: "ApplyRubric exact_codec 7 (Fin 90) ?s = (res, s')" and
    res: "let bs = List.filter (\<lambda>b. bd_rubric_id b = 7) (db_bands (ptx_work (fst ?s)));
         inside = (\<lambda>b. f64_le (of_numeric exact_codec (bd_min_score b)) (Fin 90) \<and>
                       f64_le (Fin 90) (of_numeric exact_codec (bd_max_score b)))
     in case res of
          Inr (g, b) \<Rightarrow> \<exists>b'\<in>set bs. inside b' \<and> g = bd_letter b' \<and> b = scan_band exact_codec b' \<and> (\<forall>q\<in>set bs. inside q \<longrightarrow> q = b')
        | Inl e \<Rightarrow> errors_Is e ErrRubricInvalidInput \<and> (\<forall>q\<in>set bs. \<not> inside q)"
    by (elim exE conjE) (rule that)
  then show ?thesis
    by (cases res) (auto simp: Let_def sample_band_def exact_codec_def)
qed

text \<open>
  UpdateRubric cannot archive. The state machine admits active to archived, but the statement
  of UpdateRubric leaves archive_reason empty: without faults, asking UpdateRubric to archive an
  active rubric passes every check of the code and then fails in the database with a check
  violation (23514), which no error value of the program stands for.
\<close>

lemma update_rubric_cannot_archive:
  assumes "live s" and "row_lookup ub_id (db_rubrics (ptx_work (fst s))) i = Some r"
    and "ub_status r = rubricStatusActive" and "rubric_row_ok r" and "\<not> blank name" and "length name \<le> 64"
    and "length scope \<le> 64" and "length (resolveRubricUserID userID) \<le> 64" and "length (ub_created_by r) \<le> 64"
  shows "\<exists>e s'. UpdateRubric rt i name scope rubricStatusArchived md userID s = (Inl e, s') \<and>
    errors_As_Pg e = Some ''23514'' \<and> \<not> errors_Is e ErrRubricInvalidStatus \<and> \<not> errors_Is e ErrRubricInvalidInput"
proof -
  obtain t w where s: "s = (t, w)" by fastforce
  have "ub_archive_reason r = None" using assms(3,4) by (auto simp: rubric_row_ok_def)
  then have e: "rubric_row_error (edit_rubric_row name (scope_arg scope) rubricStatusArchived mj (resolveRubricUserID userID) now r) =
      Some (PgError ''23514'')" for mj now
    using assms(5-9)
    by (auto simp: rubric_row_error_def edit_rubric_row_def varchar_def scope_arg_def rubricStatusArchived_def)
  have nb: "\<not> blank rubricStatusArchived" "rubricStatusArchived \<noteq> []"
    by (simp_all add: rubricStatusArchived_def blank_iff is_space_def)
  have tr: "validateRubricStatusTransition rubricStatusActive rubricStatusArchived = Inr ()"
    by (simp add: validateRubricStatusTransition_def allowedRubricTransitions_def rubric_status_defs)
  show ?thesis
    using assms e nb
    by (simp add: s live_def UpdateRubric_def validateRubricInput_def maxRubricNameLen_def Let_def
        marshalRubricMetadata_def update_rubric_stmt_def pg_rubric_run tr)
qed

text \<open>
  One active rubric per name holds only for rubrics with a scope. Without faults, a draft
  rubric is activated with the name of an active one when both have no scope: the unique index does
  not compare the missing scopes, and two active rubrics share the name.
\<close>

lemma two_active_without_scope:
  assumes "live s" and "row_lookup ub_id (db_rubrics (ptx_work (fst s))) i = Some r" and "i \<noteq> j"
    and "ub_status r = rubricStatusActive" and "ub_scope r = None"
    and "row_lookup ub_id (db_rubrics (ptx_work (fst s))) j = Some q" and "ub_status q = rubricStatusDraft"
    and "rubric_row_error q = None" and "\<not> blank (ub_name r)" and "length (ub_name r) \<le> 64"
    and "length (resolveRubricUserID userID) \<le> 64" and "text_ok (resolveRubricUserID userID)"
  shows "\<exists>s' q'. UpdateRubric (pg_runtime parse toString sha1) j (ub_name r) '''' ''active'' md userID s = (Inr (), s') \<and>
    row_lookup ub_id (db_rubrics (ptx_work (fst s'))) i = Some r \<and>
    row_lookup ub_id (db_rubrics (ptx_work (fst s'))) j = Some q' \<and>
    ub_status q' = rubricStatusActive \<and> ub_name q' = ub_name r \<and> ub_scope q' = ub_scope r"
  using update_rubric_runs [OF assms(1) assms(6,7,9,10,11,12,8), of "''''" parse toString sha1 md] assms(2-6)
  by (fastforce simp: edit_rubric_row_def rubricStatusActive_def)

end
