(* ===== verification/Rbac.thy ===== *)
theory Rbac
  imports Http
begin

text \<open>
  internal/auth/rbac.go: roles from the scope claim, the permission matrix and the decision
  Authorize. A Go map with missing keys is a total function here.
\<close>

type_synonym Role = string
type_synonym Permission = string

definition RoleAdmin :: Role where
  "RoleAdmin = ''admin''"

definition RoleAnalyst :: Role where
  "RoleAnalyst = ''analyst''"

definition RoleViewer :: Role where
  "RoleViewer = ''viewer''"

lemmas role_defs = RoleAdmin_def RoleAnalyst_def RoleViewer_def

lemma roles_distinct [simp]:
  "RoleAdmin \<noteq> RoleAnalyst" "RoleAnalyst \<noteq> RoleAdmin" "RoleAdmin \<noteq> RoleViewer"
  "RoleViewer \<noteq> RoleAdmin" "RoleAnalyst \<noteq> RoleViewer" "RoleViewer \<noteq> RoleAnalyst"
  by (simp_all add: role_defs)

definition rolePrefix :: string where
  "rolePrefix = ''iroum-ax:''"

text \<open>The match of the regular expression ^iroum-ax:(admin|analyst|viewer)$ with its group.\<close>

definition roleRegex :: "string \<Rightarrow> Role option" where
  "roleRegex token =
     (case CutPrefix token rolePrefix of
        None \<Rightarrow> None
      | Some r \<Rightarrow> if r = RoleAdmin \<or> r = RoleAnalyst \<or> r = RoleViewer then Some r else None)"

definition permissionMatrix :: "Role \<Rightarrow> Permission list" where
  "permissionMatrix r =
     (if r = RoleAdmin then
        [''read:workflow'', ''write:workflow'', ''delete:workflow'', ''read:recommendation'',
         ''write:recommendation'', ''read:audit'', ''audit:read'']
      else if r = RoleAnalyst then
        [''read:workflow'', ''write:workflow'', ''read:recommendation'', ''write:recommendation'', ''read:audit'']
      else if r = RoleViewer then [''read:workflow'', ''read:recommendation'']
      else [])"

definition ParseRolesFromScope :: "string \<Rightarrow> Role list" where
  "ParseRolesFromScope scope =
     (if scope = [] then [] else List.map_filter roleRegex (Fields scope))"

definition EffectivePermissions :: "Role list \<Rightarrow> Permission \<Rightarrow> bool" where
  "EffectivePermissions roles p = list_ex (\<lambda>r. p \<in> set (permissionMatrix r)) roles"

definition Authorize :: "request \<Rightarrow> Permission \<Rightarrow> goerr + unit" where
  "Authorize r requiredPerm =
     (case UserFromContext r of
        None \<Rightarrow> Inl (wrap1 ''no user in the context'' (Sentinel ErrInsufficientPermission))
      | Some user \<Rightarrow>
          if \<not> EffectivePermissions (ParseRolesFromScope (join_space (usr_Scopes user))) requiredPerm
          then Inl (wrap1 ''required permission not granted'' (Sentinel ErrInsufficientPermission))
          else Inr ())"

section \<open>Facts\<close>

text \<open>The roles of a user, read off the tokens of the scopes.\<close>

definition user_roles :: "User \<Rightarrow> Role list" where
  "user_roles u = ParseRolesFromScope (join_space (usr_Scopes u))"

lemma map_filter_append [simp]: "List.map_filter f (xs @ ys) = List.map_filter f xs @ List.map_filter f ys"
  by (simp add: List.map_filter_def)

lemma map_filter_concat: "List.map_filter f (concat xss) = concat (map (List.map_filter f) xss)"
  by (induction xss) (simp_all add: List.map_filter_simps)

lemma Fields_Nil [simp]: "Fields [] = []"
  by (simp add: Fields_def)

lemma ParseRoles_Fields: "ParseRolesFromScope s = List.map_filter roleRegex (Fields s)"
  by (simp add: ParseRolesFromScope_def List.map_filter_simps)

lemma user_roles_tokens: "set (user_roles u) = {r. \<exists>s\<in>set (usr_Scopes u). r \<in> set (ParseRolesFromScope s)}"
  by (auto simp: user_roles_def ParseRoles_Fields Fields_join map_filter_concat)

lemma roleRegex_iff:
  "roleRegex t = Some r \<longleftrightarrow> t = rolePrefix @ r \<and> (r = RoleAdmin \<or> r = RoleAnalyst \<or> r = RoleViewer)"
  by (cases "CutPrefix t rolePrefix") (auto simp: roleRegex_def CutPrefix_Some)

lemma set_map_filter: "r \<in> set (List.map_filter f xs) \<longleftrightarrow> (\<exists>x\<in>set xs. f x = Some r)"
  by (induction xs) (auto simp: List.map_filter_simps split: option.splits)

lemma user_roles_cases: "r \<in> set (user_roles u) \<Longrightarrow> r = RoleAdmin \<or> r = RoleAnalyst \<or> r = RoleViewer"
  by (auto simp: user_roles_def ParseRoles_Fields set_map_filter roleRegex_iff)

lemma Authorize_Inr_iff:
  "Authorize r p = Inr v \<longleftrightarrow> (\<exists>u. req_User r = Some u \<and> EffectivePermissions (user_roles u) p)"
  by (auto simp: Authorize_def UserFromContext_def user_roles_def split: option.splits)

lemma Authorize_error: "Authorize r p = Inl e \<Longrightarrow> errors_Is e ErrInsufficientPermission"
  by (auto simp: Authorize_def split: option.splits if_splits)

lemma EffectivePermissions_iff: "EffectivePermissions rs p \<longleftrightarrow> (\<exists>r\<in>set rs. p \<in> set (permissionMatrix r))"
  by (simp add: EffectivePermissions_def list_ex_iff)

text \<open>More roles never take a permission away.\<close>

lemma EffectivePermissions_mono: "set rs \<subseteq> set qs \<Longrightarrow> EffectivePermissions rs p \<Longrightarrow> EffectivePermissions qs p"
  by (auto simp: EffectivePermissions_iff)

end
