(* ===== verification/Authz.thy ===== *)
theory Authz
  imports Rbac
begin

text \<open>
  internal/auth/authz_mapping.go, middleware.go, authz_middleware.go, abac.go and chain.go: the
  mapping from routes to permissions, the middlewares for authentication, authorization and
  attribute conditions, and the chains that compose them. The token validator and the audit
  recorder are injected values, absent when nil; a validator is its method Verify.
\<close>

section \<open>The mapping\<close>

record restEntry =
  re_method :: string
  re_pathPrefix :: string
  re_perm :: string
  re_isPrefix :: bool
  re_bypass :: bool

definition rest_exact :: "string \<Rightarrow> string \<Rightarrow> string \<Rightarrow> restEntry" where
  "rest_exact m p perm =
     \<lparr>re_method = m, re_pathPrefix = p, re_perm = perm, re_isPrefix = False, re_bypass = False\<rparr>"

definition rest_prefix :: "string \<Rightarrow> string \<Rightarrow> string \<Rightarrow> restEntry" where
  "rest_prefix m p perm =
     \<lparr>re_method = m, re_pathPrefix = p, re_perm = perm, re_isPrefix = True, re_bypass = False\<rparr>"

definition restPermissionTable :: "restEntry list" where
  "restPermissionTable =
     [(rest_exact ''GET'' ''/health'' [])\<lparr>re_bypass := True\<rparr>,
      (rest_prefix ''HEAD'' [] [])\<lparr>re_bypass := True\<rparr>,
      (rest_prefix ''OPTIONS'' [] [])\<lparr>re_bypass := True\<rparr>,
      rest_exact ''POST'' ''/api/v1/workflows'' ''write:workflow'',
      rest_exact ''GET'' ''/api/v1/workflows'' ''read:workflow'',
      rest_prefix ''DELETE'' ''/api/v1/workflows/'' ''delete:workflow'',
      rest_prefix ''GET'' ''/api/v1/workflows/'' ''read:workflow'',
      rest_prefix ''POST'' ''/api/v1/recommendations/'' ''write:recommendation'',
      rest_exact ''POST'' ''/api/v1/documents/upload'' ''write:workflow'',
      rest_exact ''GET'' ''/metrics'' ''read:metrics'']"

definition grpcPermissionTable :: "string \<rightharpoonup> string" where
  "grpcPermissionTable =
     [''/iroum.ax.v1.WorkflowService/CreateWorkflow'' \<mapsto> ''write:workflow'',
      ''/iroum.ax.v1.WorkflowService/GetWorkflow'' \<mapsto> ''read:workflow'',
      ''/iroum.ax.v1.WorkflowService/ListWorkflows'' \<mapsto> ''read:workflow'']"

definition grpcBypassMethods :: "string list" where
  "grpcBypassMethods = [''/grpc.health.v1.Health/Check'']"

definition entry_matches :: "string \<Rightarrow> string \<Rightarrow> restEntry \<Rightarrow> bool" where
  "entry_matches m path e \<longleftrightarrow>
     \<not> (re_isPrefix e \<and> re_pathPrefix e = []) \<and> re_method e = m \<and>
     (if re_isPrefix e then HasPrefix path (re_pathPrefix e) else path = re_pathPrefix e)"

text \<open>The result is (perm, bypass, found).\<close>

definition LookupRESTPermission :: "string \<Rightarrow> string \<Rightarrow> string \<times> bool \<times> bool" where
  "LookupRESTPermission m path =
     (if m = ''HEAD'' \<or> m = ''OPTIONS'' then ([], True, True)
      else case find (entry_matches m path) restPermissionTable of
             None \<Rightarrow> ([], False, False)
           | Some e \<Rightarrow> (re_perm e, re_bypass e, True))"

definition LookupGRPCPermission :: "string \<Rightarrow> string \<times> bool \<times> bool" where
  "LookupGRPCPermission fullMethod =
     (if fullMethod \<in> set grpcBypassMethods then ([], True, True)
      else case grpcPermissionTable fullMethod of
             None \<Rightarrow> ([], False, False)
           | Some perm \<Rightarrow> (perm, False, True))"

section \<open>Authentication\<close>

record ValidatedToken =
  vt_ExpiresAt :: time
  vt_Claims :: "string \<rightharpoonup> json"
  vt_Subject :: string
  vt_Issuer :: string
  vt_Audience :: "string list"
  vt_Scopes :: "string list"

type_synonym 's verifier = "string \<Rightarrow> ('s, ValidatedToken) eff"

text \<open>The strings of a JSON array, and a key of a map[string]any.\<close>

definition json_strings :: "json option \<Rightarrow> string list" where
  "json_strings v = (case v of
     Some (JArray xs) \<Rightarrow> List.map_filter (\<lambda>x. case x of JString s \<Rightarrow> Some s | _ \<Rightarrow> None) xs
   | _ \<Rightarrow> [])"

definition validatedTokenToUser :: "ValidatedToken \<Rightarrow> User" where
  "validatedTokenToUser vt =
     (let roles = json_strings (vt_Claims vt ''roles'');
          realm = (case vt_Claims vt ''realm_access'' of
                     Some (JObject ra) \<Rightarrow> json_strings (map_of ra ''roles'') | _ \<Rightarrow> [])
      in \<lparr>usr_UID = vt_Subject vt, usr_Issuer = vt_Issuer vt,
          usr_Roles = (if roles = [] then realm else roles), usr_Scopes = vt_Scopes vt\<rparr>)"

definition writeAuthError :: "nat \<Rightarrow> string \<Rightarrow> string \<Rightarrow> response" where
  "writeAuthError code errCode wwwAuth =
     \<lparr>resp_Code = code,
      resp_Header = [(''WWW-Authenticate'', wwwAuth), (''Content-Type'', ''application/json'')],
      resp_Body = JObject [(''error'', JString errCode)]\<rparr>"

definition RESTMiddleware :: "'s verifier option \<Rightarrow> 's handler \<Rightarrow> 's handler" where
  "RESTMiddleware validator next r s =
     (if req_Path r = ''/health'' then next r s
      else case validator of
        None \<Rightarrow> next r s
      | Some verify \<Rightarrow>
          if req_Authorization r = [] then
            (writeAuthError 401 ''missing_authorization'' ''Bearer realm=\"iroum-ax\"'', s)
          else case CutPrefix (req_Authorization r) ''Bearer '' of
            None \<Rightarrow> (writeAuthError 401 ''invalid_request''
                       ''Bearer realm=\"iroum-ax\", error=\"invalid_request\"'', s)
          | Some token \<Rightarrow> (case verify token s of
              (Inl e, s') \<Rightarrow>
                (writeAuthError 401 ''invalid_token''
                   (if errors_Is e ErrTokenExpired
                    then ''Bearer realm=\"iroum-ax\", error=\"invalid_token\", error_description=\"token expired\"''
                    else ''Bearer realm=\"iroum-ax\", error=\"invalid_token\"''), s')
            | (Inr vt, s') \<Rightarrow> next (WithUser (validatedTokenToUser vt) r) s'))"

section \<open>Authorization\<close>

text \<open>LogForbiddenEvent of the injected recorder: method, path, required, user id, roles.\<close>

type_synonym 's auditRecorder = "string \<Rightarrow> string \<Rightarrow> string \<Rightarrow> string \<Rightarrow> Role list \<Rightarrow> ('s, unit) eff"

definition json_header :: "(string \<times> string) list" where
  "json_header = [(''Content-Type'', ''application/json'')]"

definition error_object :: "string \<Rightarrow> string \<Rightarrow> (string \<times> json) list \<Rightarrow> json" where
  "error_object code msg rest =
     JObject [(''error'', JObject ([(''code'', JString code), (''message'', JString msg)] @ rest))]"

definition forbidden_details :: "string \<Rightarrow> string list \<Rightarrow> (string \<times> json) list" where
  "forbidden_details required granted =
     [(''details'', JObject [(''required'', JString required), (''granted'', JArray (map JString granted))])]"

definition writeForbidden :: "string \<Rightarrow> Role list \<Rightarrow> response" where
  "writeForbidden required grantedRoles =
     \<lparr>resp_Code = 403,
      resp_Header = json_header @ [(''WWW-Authenticate'',
        ''Bearer realm=\"iroum-ax\", error=\"insufficient_scope\", scope=\"'' @ required @ ''\"'')],
      resp_Body = error_object ''PERMISSION_DENIED'' ''insufficient scope''
        (forbidden_details required grantedRoles)\<rparr>"

definition writeMappingMissing :: response where
  "writeMappingMissing =
     \<lparr>resp_Code = 503, resp_Header = json_header,
      resp_Body = error_object ''AUTHZ_MAPPING_MISSING'' ''authorization mapping not defined for this method'' []\<rparr>"

definition writeUserMissing :: response where
  "writeUserMissing =
     \<lparr>resp_Code = 500, resp_Header = json_header,
      resp_Body = error_object ''AUTHZ_USER_MISSING'' ''authenticated user context not propagated'' []\<rparr>"

definition WithGrantedPermission :: "string \<Rightarrow> request \<Rightarrow> request" where
  "WithGrantedPermission perm r = r\<lparr>req_Granted := Some perm\<rparr>"

definition GrantedPermissionFromContext :: "request \<Rightarrow> string option" where
  "GrantedPermissionFromContext r =
     (case req_Granted r of None \<Rightarrow> None | Some p \<Rightarrow> if p = [] then None else Some p)"

text \<open>The recorder runs after the answer is written, and its error is dropped.\<close>

definition log_forbidden ::
  "'s auditRecorder option \<Rightarrow> string \<Rightarrow> string \<Rightarrow> string \<Rightarrow> User \<Rightarrow> 's \<Rightarrow> 's" where
  "log_forbidden recorder m path required u s =
     (case recorder of None \<Rightarrow> s
      | Some lf \<Rightarrow> snd (lf m path required (usr_UID u) (ParseRolesFromScope (join_space (usr_Scopes u))) s))"

definition RESTAuthzMiddleware :: "'s auditRecorder option \<Rightarrow> bool \<Rightarrow> 's handler \<Rightarrow> 's handler" where
  "RESTAuthzMiddleware recorder authEnabled next r s =
     (if \<not> authEnabled then next r s
      else case LookupRESTPermission (req_Method r) (req_Path r) of (perm, bypass, found) \<Rightarrow>
        if bypass then next r s
        else if \<not> found then (writeMappingMissing, s)
        else case UserFromContext r of
          None \<Rightarrow> (writeUserMissing, s)
        | Some user \<Rightarrow> (case Authorize r perm of
            Inl e \<Rightarrow>
              if errors_Is e ErrInsufficientPermission
              then (writeForbidden perm (ParseRolesFromScope (join_space (usr_Scopes user))),
                    log_forbidden recorder (req_Method r) (req_Path r) perm user s)
              else (writeUserMissing, s)
          | Inr _ \<Rightarrow> next (WithGrantedPermission perm r) s))"

section \<open>Attribute conditions\<close>

definition ErrCodeABACDenied :: string where
  "ErrCodeABACDenied = ''ABAC_CONDITION_DENIED''"

definition orgScopePrefix :: string where
  "orgScopePrefix = ''iroum-ax-org:''"

text \<open>A condition is its method Evaluate: allow, and the reason when not.\<close>

type_synonym 's ABACCondition = "User \<Rightarrow> request \<Rightarrow> 's \<Rightarrow> (bool \<times> string) \<times> 's"

record 's ABACPolicy =
  pol_PathPrefix :: string
  pol_Conditions :: "'s ABACCondition list"

record 's ABACEvaluator =
  ev_recorder :: "'s auditRecorder option"
  ev_policies :: "'s ABACPolicy list"

definition NewABACEvaluator :: "'s ABACPolicy list \<Rightarrow> 's auditRecorder option \<Rightarrow> 's ABACEvaluator" where
  "NewABACEvaluator policies recorder = \<lparr>ev_recorder = recorder, ev_policies = policies\<rparr>"

definition hasAdminRole :: "User \<Rightarrow> bool" where
  "hasAdminRole user = list_ex (\<lambda>role. role = RoleAdmin) (ParseRolesFromScope (join_space (usr_Scopes user)))"

primrec eval_conditions :: "'s ABACCondition list \<Rightarrow> User \<Rightarrow> request \<Rightarrow> 's \<Rightarrow> (bool \<times> string) \<times> 's" where
  "eval_conditions [] u r s = ((True, []), s)"
| "eval_conditions (c # cs) u r s =
     (case c u r s of ((ok, reason), s') \<Rightarrow>
        if \<not> ok then ((False, reason), s') else eval_conditions cs u r s')"

primrec eval_policies :: "'s ABACPolicy list \<Rightarrow> User \<Rightarrow> request \<Rightarrow> 's \<Rightarrow> (bool \<times> string) \<times> 's" where
  "eval_policies [] u r s = ((True, []), s)"
| "eval_policies (p # ps) u r s =
     (if \<not> HasPrefix (req_Path r) (pol_PathPrefix p) then eval_policies ps u r s
      else case eval_conditions (pol_Conditions p) u r s of ((ok, reason), s') \<Rightarrow>
        if \<not> ok then ((False, reason), s') else eval_policies ps u r s')"

definition ABACEvaluator_Evaluate ::
  "'s ABACEvaluator \<Rightarrow> User option \<Rightarrow> request \<Rightarrow> 's \<Rightarrow> (bool \<times> string) \<times> 's" where
  "ABACEvaluator_Evaluate e user r s =
     (case user of
        None \<Rightarrow> ((True, []), s)
      | Some u \<Rightarrow> if hasAdminRole u then ((True, []), s) else eval_policies (ev_policies e) u r s)"

definition OrgUnitFromUser :: "User option \<Rightarrow> string" where
  "OrgUnitFromUser user =
     (case user of None \<Rightarrow> []
      | Some u \<Rightarrow> (case List.map_filter (\<lambda>s. CutPrefix s orgScopePrefix) (usr_Scopes u) of
          [] \<Rightarrow> [] | unit # _ \<Rightarrow> unit))"

text \<open>OwnershipCondition; its field is a function that may be nil and that may find no owner.\<close>

definition OwnershipCondition :: "(request \<Rightarrow> string option) option \<Rightarrow> 's ABACCondition" where
  "OwnershipCondition ownerFromRequest u r s =
     (case ownerFromRequest of
        None \<Rightarrow> ((True, []), s)
      | Some f \<Rightarrow> (case f r of
          None \<Rightarrow> ((True, []), s)
        | Some owner \<Rightarrow>
            if usr_UID u \<noteq> owner then ((False, ''ownership:mismatch''), s) else ((True, []), s)))"

definition OrgUnitCondition :: "(request \<Rightarrow> string) option \<Rightarrow> 's ABACCondition" where
  "OrgUnitCondition resourceOrg u r s =
     (let userOrg = OrgUnitFromUser (Some u) in
      if userOrg = [] then ((True, []), s)
      else case resourceOrg of
        None \<Rightarrow> ((True, []), s)
      | Some f \<Rightarrow>
          if f r = [] then ((True, []), s)
          else if userOrg \<noteq> f r then ((False, ''org_unit:cross-org''), s)
          else ((True, []), s))"

definition TimeWindowCondition :: "('s \<Rightarrow> time \<times> 's) \<Rightarrow> int \<Rightarrow> int \<Rightarrow> 's ABACCondition" where
  "TimeWindowCondition now startHour endHour u r s =
     (case now s of (ts, s') \<Rightarrow>
        let hour = Hour_in (9 * 3600) ts in
        if hour < startHour \<or> hour \<ge> endHour then ((False, ''time_window:outside_hours''), s')
        else ((True, []), s'))"

definition writeABACDenied :: "string \<Rightarrow> response" where
  "writeABACDenied reason =
     \<lparr>resp_Code = 403, resp_Header = json_header,
      resp_Body = error_object ErrCodeABACDenied ''ABAC condition denied'' (forbidden_details reason [])\<rparr>"

definition ABACMiddleware :: "'s ABACEvaluator \<Rightarrow> bool \<Rightarrow> 's handler \<Rightarrow> 's handler" where
  "ABACMiddleware e authEnabled next r s =
     (if \<not> authEnabled then next r s
      else let user = UserFromContext r in
        case ABACEvaluator_Evaluate e user r s of ((allow, reason), s') \<Rightarrow>
          if allow then next r s'
          else (writeABACDenied reason,
                case user of None \<Rightarrow> s'
                | Some u \<Rightarrow> log_forbidden (ev_recorder e) (req_Method r) (req_Path r) reason u s'))"

definition DefaultABACPolicies :: "'s ABACPolicy list" where
  "DefaultABACPolicies = []"

section \<open>The chains\<close>

text \<open>
  The options that replace a middleware in the tests are arguments; a missing one is
  \<^verbatim>\<open>None\<close>. Options that are given apply in order, so the last one counts.
\<close>

record 's chainBuildOptions =
  co_authn :: "('s handler \<Rightarrow> 's handler) option"
  co_authz :: "('s handler \<Rightarrow> 's handler) option"

definition WithMiddlewareOverride ::
  "('s handler \<Rightarrow> 's handler) option \<Rightarrow> ('s handler \<Rightarrow> 's handler) option \<Rightarrow>
   's chainBuildOptions \<Rightarrow> 's chainBuildOptions" where
  "WithMiddlewareOverride authn authz o' = o'\<lparr>co_authn := authn, co_authz := authz\<rparr>"

definition BuildRESTChain ::
  "'s handler \<Rightarrow> 's verifier option \<Rightarrow> 's auditRecorder option \<Rightarrow> bool \<Rightarrow>
   ('s chainBuildOptions \<Rightarrow> 's chainBuildOptions) list \<Rightarrow> 's handler" where
  "BuildRESTChain handler validator recorder authEnabled opts =
     (let o' = List.fold (\<lambda>opt x. opt x) opts \<lparr>co_authn = None, co_authz = None\<rparr> in
      if \<not> authEnabled then handler
      else let authzMW = (case co_authz o' of None \<Rightarrow> RESTAuthzMiddleware recorder authEnabled | Some f \<Rightarrow> f);
               authnMW = (case co_authn o' of None \<Rightarrow> RESTMiddleware validator | Some f \<Rightarrow> f)
           in authnMW (authzMW handler))"

section \<open>gRPC\<close>

text \<open>A unary call: its full method, the metadata of the context (if any), the user, the request.\<close>

datatype grpc_code =
    Unauthenticated | Unavailable | PermissionDenied | InvalidArgument | NotFound | Internal | Canceled | AlreadyExists

record 'q grpc_call =
  gc_FullMethod :: string
  gc_Metadata :: "(string \<Rightarrow> string list) option"
  gc_User :: "User option"
  gc_Req :: 'q

type_synonym ('s, 'q, 'p) grpc_handler = "'q grpc_call \<Rightarrow> 's \<Rightarrow> (grpc_code \<times> string + 'p) \<times> 's"

definition UnaryServerInterceptor ::
  "'s verifier option \<Rightarrow> ('s, 'q, 'p) grpc_handler \<Rightarrow> ('s, 'q, 'p) grpc_handler" where
  "UnaryServerInterceptor validator handler c s =
     (if gc_FullMethod c = ''/grpc.health.v1.Health/Check'' then handler c s
      else case validator of
        None \<Rightarrow> handler c s
      | Some verify \<Rightarrow> (case gc_Metadata c of
          None \<Rightarrow> (Inl (Unauthenticated, ''no authentication metadata''), s)
        | Some md \<Rightarrow> (case md ''authorization'' of
            [] \<Rightarrow> (Inl (Unauthenticated, ''Authorization header needed''), s)
          | header # _ \<Rightarrow> (case CutPrefix header ''Bearer '' of
              None \<Rightarrow> (Inl (Unauthenticated, ''Authorization scheme is not Bearer''), s)
            | Some token \<Rightarrow> (case verify token s of
                (Inl e, s') \<Rightarrow> (Inl (Unauthenticated, ''token verification failed''), s')
              | (Inr vt, s') \<Rightarrow> handler (c\<lparr>gc_User := Some (validatedTokenToUser vt)\<rparr>) s')))))"

definition grpc_Authorize :: "'q grpc_call \<Rightarrow> Permission \<Rightarrow> goerr + unit" where
  "grpc_Authorize c requiredPerm =
     (case gc_User c of
        None \<Rightarrow> Inl (wrap1 ''no user in the context'' (Sentinel ErrInsufficientPermission))
      | Some user \<Rightarrow>
          if \<not> EffectivePermissions (ParseRolesFromScope (join_space (usr_Scopes user))) requiredPerm
          then Inl (wrap1 ''required permission not granted'' (Sentinel ErrInsufficientPermission))
          else Inr ())"

definition UnaryAuthzInterceptor ::
  "'s auditRecorder option \<Rightarrow> bool \<Rightarrow> ('s, 'q, 'p) grpc_handler \<Rightarrow> ('s, 'q, 'p) grpc_handler" where
  "UnaryAuthzInterceptor recorder authEnabled handler c s =
     (if \<not> authEnabled then handler c s
      else case LookupGRPCPermission (gc_FullMethod c) of (perm, bypass, found) \<Rightarrow>
        if bypass then handler c s
        else if \<not> found
        then (Inl (Unavailable, ''authorization mapping not defined for this method: '' @ gc_FullMethod c), s)
        else case grpc_Authorize c perm of
          Inl e \<Rightarrow> (Inl (PermissionDenied, ''insufficient scope: required='' @ perm),
                    case gc_User c of None \<Rightarrow> s
                    | Some user \<Rightarrow> log_forbidden recorder (gc_FullMethod c) [] perm user s)
        | Inr _ \<Rightarrow> handler c s)"

text \<open>The interceptors that are handed to grpc.ChainUnaryInterceptor, in order.\<close>

definition BuildGRPCInterceptorChain ::
  "'s verifier option \<Rightarrow> 's auditRecorder option \<Rightarrow> bool \<Rightarrow>
   (('s, 'q, 'p) grpc_handler \<Rightarrow> ('s, 'q, 'p) grpc_handler) list" where
  "BuildGRPCInterceptorChain validator recorder authEnabled =
     (if \<not> authEnabled then []
      else [UnaryServerInterceptor validator, UnaryAuthzInterceptor recorder authEnabled])"

end
