(* ===== verification/Authz_Properties.thy ===== *)
theory Authz_Properties
  imports Authz
begin

text \<open>
  What the authentication and authorization chain guarantees: which requests reach a handler,
  what each role may do, which routes are refused, and that attribute conditions only narrow.
\<close>

lemma lookup_rest_cases:
  assumes "LookupRESTPermission m path = (p, b, True)"
  obtains "b" "m = ''HEAD'' \<or> m = ''OPTIONS'' \<or> m = ''GET'' \<and> path = ''/health''"
  | "\<not> b" "m = ''POST''" "path = ''/api/v1/workflows'' \<or> path = ''/api/v1/documents/upload''" "p = ''write:workflow''"
  | t where "\<not> b" "m = ''GET''" "path = ''/api/v1/workflows'' \<or> path = ''/api/v1/workflows/'' @ t" "p = ''read:workflow''"
  | t where "\<not> b" "m = ''DELETE''" "path = ''/api/v1/workflows/'' @ t" "p = ''delete:workflow''"
  | t where "\<not> b" "m = ''POST''" "path = ''/api/v1/recommendations/'' @ t" "p = ''write:recommendation''"
  | "\<not> b" "m = ''GET''" "path = ''/metrics''" "p = ''read:metrics''"
proof (cases "m = ''HEAD'' \<or> m = ''OPTIONS''")
  case True
  with assms that(1) show ?thesis by (auto simp: LookupRESTPermission_def)
next
  case False
  then obtain e where e: "find (entry_matches m path) restPermissionTable = Some e"
    and pe: "p = re_perm e" "b = re_bypass e"
    using assms by (auto simp: LookupRESTPermission_def split: option.splits)
  from e have "e \<in> set restPermissionTable" "entry_matches m path e"
    by (auto simp: find_Some_iff)
  then show ?thesis
    using that pe False unfolding restPermissionTable_def
    by (auto simp: entry_matches_def rest_exact_def rest_prefix_def HasPrefix_iff)
qed

lemma lookup_found_bypass: "LookupRESTPermission m path = (p, True, f) \<Longrightarrow> f"
  by (auto simp: LookupRESTPermission_def split: option.splits if_splits)


lemma lookup_bypass [simp]:
  "LookupRESTPermission ''HEAD'' path = ([], True, True)"
  "LookupRESTPermission ''OPTIONS'' path = ([], True, True)"
  "LookupRESTPermission ''GET'' ''/health'' = ([], True, True)"
  by (simp_all add: LookupRESTPermission_def restPermissionTable_def entry_matches_def rest_exact_def)

lemma lookup_bypass_only:
  assumes "LookupRESTPermission m path = (p, True, f)"
  shows "m = ''HEAD'' \<or> m = ''OPTIONS'' \<or> m = ''GET'' \<and> path = ''/health''"
proof -
  have "LookupRESTPermission m path = (p, True, True)" using assms lookup_found_bypass [OF assms] by simp
  then show ?thesis by (rule lookup_rest_cases) simp_all
qed

section \<open>Who reaches a handler\<close>

lemma authz_pass:
  assumes "RESTAuthzMiddleware rec True h1 r s \<noteq> RESTAuthzMiddleware rec True h2 r s"
  shows "req_Method r = ''HEAD'' \<or> req_Method r = ''OPTIONS'' \<or> req_Method r = ''GET'' \<and> req_Path r = ''/health'' \<or>
    (\<exists>p u. LookupRESTPermission (req_Method r) (req_Path r) = (p, False, True) \<and> req_User r = Some u \<and>
       EffectivePermissions (user_roles u) p)"
  using assms
  by (auto simp: RESTAuthzMiddleware_def UserFromContext_def Authorize_Inr_iff
      dest: lookup_bypass_only split: prod.splits option.splits sum.splits if_splits)

lemma authn_pass:
  assumes ne: "RESTMiddleware (Some verify) k1 r s \<noteq> RESTMiddleware (Some verify) k2 r s"
    and path: "req_Path r \<noteq> ''/health''"
  obtains token vt s' where "req_Authorization r = ''Bearer '' @ token" "verify token s = (Inr vt, s')"
    "k1 (WithUser (validatedTokenToUser vt) r) s' \<noteq> k2 (WithUser (validatedTokenToUser vt) r) s'"
proof (cases "CutPrefix (req_Authorization r) ''Bearer ''")
  case None
  with ne path show ?thesis by (simp add: RESTMiddleware_def split: if_splits)
next
  case (Some token)
  obtain res s' where v: "verify token s = (res, s')" by fastforce
  show ?thesis
  proof (cases res)
    case (Inl e)
    with ne path Some v show ?thesis by (simp add: RESTMiddleware_def split: if_splits)
  next
    case (Inr vt)
    have "req_Authorization r = ''Bearer '' @ token" using Some by (simp only: CutPrefix_Some)
    then show ?thesis
      using that [of token vt s'] ne path Some v Inr by (simp add: RESTMiddleware_def split: if_splits)
  qed
qed

definition sample_user :: "string list \<Rightarrow> User" where
  "sample_user scopes = \<lparr>usr_UID = ''kim'', usr_Issuer = ''https://idp'', usr_Roles = [], usr_Scopes = scopes\<rparr>"

definition sample_request :: "string \<Rightarrow> string \<Rightarrow> string \<Rightarrow> request" where
  "sample_request m path auth =
     \<lparr>req_Method = m, req_Path = path, req_Authorization = auth, req_PathID = [], req_Query = (\<lambda>k. []),
      req_ContentLength = 0, req_Body = None, req_User = None, req_Granted = None\<rparr>"

text \<open>A validator for the witnesses: the token is the scope of the user.\<close>

definition sample_verify :: "nat verifier" where
  "sample_verify token n = (if token = ''bad'' then (Inl (Sentinel ErrTokenExpired), n)
     else (Inr \<lparr>vt_ExpiresAt = 0, vt_Claims = Map.empty, vt_Subject = ''kim'', vt_Issuer = ''https://idp'',
                vt_Audience = [], vt_Scopes = [token]\<rparr>, Suc n))"

definition sample_handler :: "nat \<Rightarrow> nat handler" where
  "sample_handler code r n = (\<lparr>resp_Code = code, resp_Header = [], resp_Body = JNull\<rparr>, n)"

lemma sample_request_simps [simp]:
  "req_Method (sample_request m path a) = m" "req_Path (sample_request m path a) = path"
  "req_Authorization (sample_request m path a) = a" "req_User (sample_request m path a) = None"
  by (simp_all add: sample_request_def)

text \<open>
  C8: With authentication enabled and a validator, what a handler behind the REST chain does
  matters only for GET, HEAD and OPTIONS on /health, and for requests whose bearer token the
  validator accepts, where besides (the method being HEAD or OPTIONS) the mapping names a
  permission for method and path and a role of the user's scopes has that permission. So no
  request reaches a handler without a token, and none outside the mapping.
\<close>

theorem rest_chain_gate:
  assumes "BuildRESTChain h1 (Some verify) rec True [] r s \<noteq> BuildRESTChain h2 (Some verify) rec True [] r s"
  shows "req_Path r = ''/health'' \<and> req_Method r \<in> set [''GET'', ''HEAD'', ''OPTIONS''] \<or>
    (\<exists>token vt s'. req_Authorization r = ''Bearer '' @ token \<and> verify token s = (Inr vt, s') \<and>
       (req_Method r \<in> set [''HEAD'', ''OPTIONS''] \<or>
        (\<exists>p. LookupRESTPermission (req_Method r) (req_Path r) = (p, False, True) \<and>
             EffectivePermissions (user_roles (validatedTokenToUser vt)) p)))"
proof (cases "req_Path r = ''/health''")
  case True
  have unmapped: "\<not> p" if "LookupRESTPermission m ''/health'' = (q, False, p)" for m p q
    using that lookup_rest_cases [of m "''/health''" q False] by (cases p) auto
  from assms True have "RESTAuthzMiddleware rec True h1 r s \<noteq> RESTAuthzMiddleware rec True h2 r s"
    by (simp add: BuildRESTChain_def RESTMiddleware_def)
  from authz_pass [OF this] unmapped True show ?thesis by auto
next
  case False
  from assms have "RESTMiddleware (Some verify) (RESTAuthzMiddleware rec True h1) r s \<noteq>
      RESTMiddleware (Some verify) (RESTAuthzMiddleware rec True h2) r s"
    by (simp add: BuildRESTChain_def)
  from authn_pass [OF this False] obtain token vt s' where
    t: "req_Authorization r = ''Bearer '' @ token" "verify token s = (Inr vt, s')"
    and ne: "RESTAuthzMiddleware rec True h1 (WithUser (validatedTokenToUser vt) r) s' \<noteq>
      RESTAuthzMiddleware rec True h2 (WithUser (validatedTokenToUser vt) r) s'" .
  from authz_pass [OF ne] t False show ?thesis by (auto simp: WithUser_def)
qed


lemma sample_viewer_chain:
  "BuildRESTChain h (Some sample_verify) None True []
     (sample_request ''GET'' ''/api/v1/workflows'' ''Bearer iroum-ax:viewer'') 0 =
   h (WithGrantedPermission ''read:workflow'' (WithUser (sample_user [''iroum-ax:viewer''])
     (sample_request ''GET'' ''/api/v1/workflows'' ''Bearer iroum-ax:viewer''))) 1"
  by (simp add: BuildRESTChain_def RESTMiddleware_def CutPrefix_def HasPrefix_def sample_verify_def
      RESTAuthzMiddleware_def LookupRESTPermission_def restPermissionTable_def entry_matches_def
      rest_exact_def rest_prefix_def UserFromContext_def WithUser_def Authorize_def ParseRoles_Fields Fields_def
      is_space_def roleRegex_def rolePrefix_def role_defs List.map_filter_simps EffectivePermissions_def
      permissionMatrix_def validatedTokenToUser_def Let_def sample_user_def json_strings_def)

theorem rest_chain_gate_witness:
  "let r = sample_request ''GET'' ''/api/v1/workflows'' ''Bearer iroum-ax:viewer'' in
   req_Path r = ''/health'' \<and> req_Method r \<in> set [''GET'', ''HEAD'', ''OPTIONS''] \<or>
    (\<exists>token vt s'. req_Authorization r = ''Bearer '' @ token \<and> sample_verify token 0 = (Inr vt, s') \<and>
       (req_Method r \<in> set [''HEAD'', ''OPTIONS''] \<or>
        (\<exists>p. LookupRESTPermission (req_Method r) (req_Path r) = (p, False, True) \<and>
             EffectivePermissions (user_roles (validatedTokenToUser vt)) p)))"
proof -
  let ?r = "sample_request ''GET'' ''/api/v1/workflows'' ''Bearer iroum-ax:viewer''"
  have "BuildRESTChain (sample_handler 200) (Some sample_verify) None True [] ?r 0 \<noteq>
      BuildRESTChain (sample_handler 201) (Some sample_verify) None True [] ?r 0"
    by (simp add: sample_viewer_chain sample_handler_def)
  from rest_chain_gate [OF this] show ?thesis by (simp only: Let_def)
qed

section \<open>What the chain answers\<close>

lemma health_exact: "req_Path r \<noteq> ''/health'' \<Longrightarrow> req_Authorization r = ''Bearer '' @ token \<Longrightarrow>
   verify token s = (Inr vt, s') \<Longrightarrow>
   BuildRESTChain h (Some verify) rec True [] r s =
   RESTAuthzMiddleware rec True h (WithUser (validatedTokenToUser vt) r) s'"
  by (simp add: BuildRESTChain_def RESTMiddleware_def CutPrefix_def HasPrefix_def)

text \<open>
  The answer to every authenticated request outside /health. When the validator accepts the
  bearer token: a HEAD or OPTIONS request and a request whose permission a role of the token has
  are answered by the handler, which sees the user of the token; a mapped request without the
  permission gets 403 with the permission in the challenge, and the recorder is called once; an
  unmapped one gets 503 AUTHZ_MAPPING_MISSING. In the last two cases the handler does not run.
\<close>

lemma rest_chain_answers:
  assumes "req_Path r \<noteq> ''/health''" and "req_Authorization r = ''Bearer '' @ token"
    and "verify token s = (Inr vt, s')"
  defines "u \<equiv> validatedTokenToUser vt"
  shows "BuildRESTChain h (Some verify) rec True [] r s =
    (case LookupRESTPermission (req_Method r) (req_Path r) of (p, bypass, found) \<Rightarrow>
       if bypass then h (WithUser u r) s'
       else if \<not> found then (writeMappingMissing, s')
       else if EffectivePermissions (user_roles u) p then h (WithGrantedPermission p (WithUser u r)) s'
       else (writeForbidden p (user_roles u), log_forbidden rec (req_Method r) (req_Path r) p u s'))"
  using health_exact [of r token verify s vt s' h rec] assms(1-3)
  by (auto simp: RESTAuthzMiddleware_def WithUser_def UserFromContext_def Authorize_def user_roles_def
      u_def split: prod.splits)

text \<open>
  The role matrix of the mapped routes. A user whose only role is viewer is granted nothing
  but GET requests for read:workflow; one without the role admin is granted no DELETE; and
  GET /metrics (read:metrics) is granted to nobody.
\<close>

lemma role_matrix:
  assumes "LookupRESTPermission m path = (p, False, True)" and "EffectivePermissions (user_roles u) p"
  shows "p \<noteq> ''read:metrics'' \<and> (m = ''DELETE'' \<longrightarrow> RoleAdmin \<in> set (user_roles u)) \<and>
    (set (user_roles u) \<subseteq> set [RoleViewer] \<longrightarrow> m = ''GET'' \<and> p = ''read:workflow'')"
  using assms(2)
  by (rule_tac lookup_rest_cases [OF assms(1)])
    (auto simp: EffectivePermissions_iff permissionMatrix_def split: if_splits)

lemma lookup_not_found:
  assumes "\<not> snd (snd (LookupRESTPermission m path))"
  shows "LookupRESTPermission m path = ([], False, False)"
  using assms by (auto simp: LookupRESTPermission_def split: option.splits if_splits)

text \<open>
  The subtrees that cmd/server/server.go mounts on the inner mux beside the REST handler, and the
  paths of the callback pattern /api/v1/workflows/{id}/callback.
\<close>

definition innerMux_subtrees :: "string list" where
  "innerMux_subtrees =
     [''/api/v1/evidences'', ''/api/v1/scores'', ''/api/v1/reports'', ''/api/v1/reviews'',
      ''/api/v1/rubrics'', ''/api/v1/audit-logs'', ''/api/v1/eval-items'']"

definition callback_path :: "string \<Rightarrow> string" where
  "callback_path i = ''/api/v1/workflows/'' @ i @ ''/callback''"

lemma subtree_unmapped:
  assumes "base \<in> set innerMux_subtrees" and "m \<noteq> ''HEAD''" and "m \<noteq> ''OPTIONS''"
  shows "LookupRESTPermission m (base @ t) = ([], False, False)"
proof (rule lookup_not_found, rule notI)
  assume "snd (snd (LookupRESTPermission m (base @ t)))"
  then obtain p b where l: "LookupRESTPermission m (base @ t) = (p, b, True)"
    by (metis prod.collapse)
  show False
    using assms unfolding innerMux_subtrees_def
    by (rule_tac lookup_rest_cases [OF l]) auto
qed

lemma callback_unmapped: "LookupRESTPermission ''POST'' (callback_path i) = ([], False, False)"
proof (rule lookup_not_found, rule notI)
  assume "snd (snd (LookupRESTPermission ''POST'' (callback_path i)))"
  then obtain p b where l: "LookupRESTPermission ''POST'' (callback_path i) = (p, b, True)"
    by (metis prod.collapse)
  show False
    by (rule lookup_rest_cases [OF l]) (auto simp: callback_path_def)
qed

text \<open>
  The mapping leaves out most of the mounted routes. With authentication enabled every
  request but HEAD and OPTIONS to the evidence, score, report, review, rubric, audit-log and
  evaluation-item subtrees, and every POST to the workflow callback, is answered 503
  AUTHZ_MAPPING_MISSING for any accepted token, administrators included; no handler runs.
\<close>

lemma unmapped_routes_unavailable:
  assumes "req_Path r = base @ t \<and> base \<in> set innerMux_subtrees \<and>
      req_Method r \<noteq> ''HEAD'' \<and> req_Method r \<noteq> ''OPTIONS'' \<or>
    req_Path r = callback_path i \<and> req_Method r = ''POST''"
    and "req_Authorization r = ''Bearer '' @ token" and "verify token s = (Inr vt, s')"
  shows "BuildRESTChain h (Some verify) rec True [] r s = (writeMappingMissing, s')"
proof -
  have l: "LookupRESTPermission (req_Method r) (req_Path r) = ([], False, False)"
    using assms(1) subtree_unmapped callback_unmapped by auto
  then have "req_Path r \<noteq> ''/health''"
    using assms(1) by (auto simp: innerMux_subtrees_def callback_path_def)
  then show ?thesis
    using l health_exact [of r token verify s vt s' h rec] assms(2,3)
    by (simp add: RESTAuthzMiddleware_def WithUser_def)
qed

text \<open>
  The bypass of the mapping for HEAD and OPTIONS is not a bypass of authentication: on any
  path but /health such a request without a bearer token is answered 401, though the mapping says
  it passes without authentication and authorization.
\<close>

lemma preflight_needs_token:
  assumes "req_Path r \<noteq> ''/health''" and "\<not> HasPrefix (req_Authorization r) ''Bearer ''"
    and "req_Method r = ''OPTIONS'' \<or> req_Method r = ''HEAD''"
  shows "fst (snd (LookupRESTPermission (req_Method r) (req_Path r))) \<and>
    resp_Code (fst (BuildRESTChain h (Some verify) rec True [] r s)) = 401 \<and>
    snd (BuildRESTChain h (Some verify) rec True [] r s) = s"
  using assms by (auto simp: BuildRESTChain_def RESTMiddleware_def CutPrefix_def writeAuthError_def)

section \<open>Attribute conditions\<close>

lemma hasAdminRole_iff: "hasAdminRole u \<longleftrightarrow> RoleAdmin \<in> set (user_roles u)"
  by (auto simp: hasAdminRole_def user_roles_def list_ex_iff)

text \<open>
  The conditions in force for a request, in the order of the policies: none without authentication,
  without a user and for an administrator, else those of every policy whose prefix the path has. Each
  condition sees the state that the ones before it left.
\<close>

definition conditions_in_force :: "'s ABACEvaluator \<Rightarrow> bool \<Rightarrow> request \<Rightarrow> 's ABACCondition list" where
  "conditions_in_force e b r = (case req_User r of None \<Rightarrow> [] | Some u \<Rightarrow>
     if b \<and> RoleAdmin \<notin> set (user_roles u)
     then concat (map pol_Conditions (List.filter (\<lambda>p. HasPrefix (req_Path r) (pol_PathPrefix p)) (ev_policies e)))
     else [])"

definition state_after :: "User \<Rightarrow> request \<Rightarrow> 's ABACCondition list \<Rightarrow> 's \<Rightarrow> 's" where
  "state_after u r cs s = fold (\<lambda>c s. snd (c u r s)) cs s"

lemma state_after_simps [simp]:
  "state_after u r [] s = s" "state_after u r (c # cs) s = state_after u r cs (snd (c u r s))"
  by (simp_all add: state_after_def)

lemma eval_conditions_append:
  "eval_conditions (cs @ ds) u r s = (case eval_conditions cs u r s of ((ok, reason), s') \<Rightarrow>
     if \<not> ok then ((False, reason), s') else eval_conditions ds u r s')"
  by (induction cs arbitrary: s) (auto split: prod.splits)

lemma eval_policies_concat:
  "eval_policies ps u r s = eval_conditions
     (concat (map pol_Conditions (List.filter (\<lambda>p. HasPrefix (req_Path r) (pol_PathPrefix p)) ps))) u r s"
  by (induction ps arbitrary: s) (auto simp: eval_conditions_append split: prod.splits)

lemma eval_conditions_allow:
  "\<forall>k<length cs. fst (fst ((cs ! k) u r (state_after u r (take k cs) s))) \<Longrightarrow>
   eval_conditions cs u r s = ((True, []), state_after u r cs s)"
proof (induction cs arbitrary: s)
  case (Cons c cs)
  have "fst (fst (c u r s))" using Cons.prems [rule_format, of 0] by simp
  moreover have "\<forall>k<length cs. fst (fst ((cs ! k) u r (state_after u r (take k cs) (snd (c u r s)))))"
    using Cons.prems [rule_format, of "Suc _"] by simp
  ultimately show ?case using Cons.IH [of "snd (c u r s)"] by (cases "c u r s"; cases "fst (c u r s)") simp
qed simp

lemma eval_conditions_deny:
  "k < length cs \<Longrightarrow> \<forall>j<k. fst (fst ((cs ! j) u r (state_after u r (take j cs) s))) \<Longrightarrow>
   \<not> fst (fst ((cs ! k) u r (state_after u r (take k cs) s))) \<Longrightarrow>
   eval_conditions cs u r s = ((False, snd (fst ((cs ! k) u r (state_after u r (take k cs) s)))),
     state_after u r (take (Suc k) cs) s)"
proof (induction cs arbitrary: k s)
  case (Cons c cs)
  show ?case
  proof (cases k)
    case 0
    then show ?thesis using Cons.prems(3) by (cases "c u r s"; cases "fst (c u r s)") simp
  next
    case (Suc m)
    have "fst (fst (c u r s))" using Cons.prems(2) [rule_format, of 0] Suc by simp
    moreover have "\<forall>j<m. fst (fst ((cs ! j) u r (state_after u r (take j cs) (snd (c u r s)))))"
      using Cons.prems(2) [rule_format, of "Suc _"] Suc by simp
    ultimately show ?thesis using Cons.IH [of m "snd (c u r s)"] Cons.prems(1,3) Suc by (cases "c u r s"; cases "fst (c u r s)") simp
  qed
qed simp

text \<open>
  C13: Attribute conditions only narrow. No condition is in force without authentication, for a request
  without a user, for a user with the role admin and without a policy for the path. If every condition
  in force allows the request, each in the state the ones before it left, the middleware is the inner
  handler, on the same request and in the state they leave. If one refuses, the first that does gives
  the answer, 403 ABAC_CONDITION_DENIED with its reason: the conditions after it and the inner handler
  do not run, and the refusal is noted.
\<close>

theorem abac_only_narrows:
  fixes e :: "'s ABACEvaluator" and b :: bool and r :: request and s :: 's and h :: "'s handler"
  defines "cs \<equiv> conditions_in_force e b r" and "u \<equiv> the (req_User r)"
  defines "before \<equiv> \<lambda>k. state_after u r (take k cs) s"
  defines "allows \<equiv> \<lambda>k. fst (fst ((cs ! k) u r (before k)))"
    and "reason \<equiv> \<lambda>k. snd (fst ((cs ! k) u r (before k)))"
  shows "((\<forall>k<length cs. allows k) \<longrightarrow> ABACMiddleware e b h r s = h r (before (length cs))) \<and>
    (\<forall>k<length cs. (\<forall>j<k. allows j) \<and> \<not> allows k \<longrightarrow>
       ABACMiddleware e b h r s = (writeABACDenied (reason k),
         log_forbidden (ev_recorder e) (req_Method r) (req_Path r) (reason k) u (before (Suc k))) \<and>
       resp_Code (writeABACDenied (reason k)) = 403)"
proof -
  have ev: "ABACEvaluator_Evaluate e (req_User r) r s = eval_conditions cs u r s" if b
    using that by (auto simp: ABACEvaluator_Evaluate_def cs_def u_def conditions_in_force_def hasAdminRole_iff
        eval_policies_concat split: option.splits)
  have off: "ABACMiddleware e b h r s = h r s" "cs = []" if "\<not> b"
    using that by (simp_all add: ABACMiddleware_def cs_def conditions_in_force_def split: option.splits)
  have user: "req_User r = Some u" if "cs \<noteq> []"
    using that by (auto simp: cs_def u_def conditions_in_force_def split: option.splits)
  show ?thesis
  proof (intro conjI impI allI)
    assume "\<forall>k<length cs. allows k"
    from eval_conditions_allow [OF this [unfolded allows_def before_def]] ev off
    show "ABACMiddleware e b h r s = h r (before (length cs))"
      by (cases b) (simp_all add: ABACMiddleware_def UserFromContext_def Let_def before_def)
  next
    fix k assume k: "k < length cs" and first: "(\<forall>j<k. allows j) \<and> \<not> allows k"
    then have b using off(2) by (cases b) auto
    have "req_User r = Some u" using user k by (cases "cs = []") simp_all
    with eval_conditions_deny [OF k] first ev [OF \<open>b\<close>] \<open>b\<close>
    show "ABACMiddleware e b h r s = (writeABACDenied (reason k),
         log_forbidden (ev_recorder e) (req_Method r) (req_Path r) (reason k) u (before (Suc k)))"
      by (simp add: ABACMiddleware_def UserFromContext_def Let_def before_def allows_def reason_def)
  qed (simp add: writeABACDenied_def)
qed


text \<open>
  Three conditions, the second of which refuses all but the owner: the third and the handler, which would
  add 100 and 1000 to the state, do not run.
\<close>

definition owner_only :: "nat ABACPolicy" where
  "owner_only = \<lparr>pol_PathPrefix = ''/api/v1'', pol_Conditions = [\<lambda>u r n. ((True, []), n + 1),
     \<lambda>u r n. (fst (OwnershipCondition (Some (\<lambda>r. Some ''lee'')) u r n), n + 10), \<lambda>u r n. ((True, []), n + 100)]\<rparr>"

theorem abac_only_narrows_witness:
  "ABACMiddleware (NewABACEvaluator [owner_only] None) True (\<lambda>r n. (writeABACDenied [], n + 1000))
     (WithUser (sample_user [''guest'']) (sample_request ''GET'' ''/api/v1/workflows'' [])) 0 =
   (writeABACDenied ''ownership:mismatch'', 11)"
proof -
  let ?r = "WithUser (sample_user [''guest'']) (sample_request ''GET'' ''/api/v1/workflows'' [])"
  have cs: "conditions_in_force (NewABACEvaluator [owner_only] None) True ?r = pol_Conditions owner_only"
    by (simp add: conditions_in_force_def NewABACEvaluator_def owner_only_def sample_request_def WithUser_def HasPrefix_def
        sample_user_def user_roles_def ParseRoles_Fields Fields_def is_space_def roleRegex_def rolePrefix_def role_defs CutPrefix_def
        List.map_filter_simps)
  have "\<forall>j<1. fst (fst ((pol_Conditions owner_only ! j) (the (req_User ?r)) ?r
      (state_after (the (req_User ?r)) ?r (take j (pol_Conditions owner_only)) 0)))"
    by (simp add: owner_only_def)
  with abac_only_narrows [where e = "NewABACEvaluator [owner_only] None" and b = True and s = 0 and r = ?r
      and h = "\<lambda>r n. (writeABACDenied [], n + 1000)", THEN conjunct2, rule_format, of 1, unfolded cs]
  show ?thesis
    by (simp add: owner_only_def OwnershipCondition_def WithUser_def sample_user_def NewABACEvaluator_def log_forbidden_def)
qed

text \<open>
  The chain that the server builds, with the default policies and no recorder, is the chain
  without attribute conditions, with and without authentication.
\<close>

lemma default_abac_transparent:
  "BuildRESTChain (ABACMiddleware (NewABACEvaluator DefaultABACPolicies None) b h) v None b [] =
   BuildRESTChain h v None b []"
proof -
  have "ABACMiddleware (NewABACEvaluator DefaultABACPolicies None) b h = h"
    by (rule ext, rule ext) (auto simp: ABACMiddleware_def NewABACEvaluator_def DefaultABACPolicies_def
        ABACEvaluator_Evaluate_def Let_def split: option.splits)
  then show ?thesis by simp
qed

text \<open>
  A window of business hours admits exactly the hours from start to before end of the day in
  Korea (UTC+9): over any day-crossing window (start after or at end) it refuses every instant.
\<close>

lemma time_window_hours:
  "(fst (fst (TimeWindowCondition (\<lambda>s. (ts, s)) startHour endHour u r s)) \<longleftrightarrow>
      startHour \<le> Hour_in 32400 ts \<and> Hour_in 32400 ts < endHour) \<and>
   0 \<le> Hour_in 32400 ts \<and> Hour_in 32400 ts < 24"
  by (auto simp: TimeWindowCondition_def Let_def Hour_in_def)

section \<open>gRPC\<close>

lemma grpc_authz_pass:
  assumes "UnaryAuthzInterceptor rec True h1 c s \<noteq> UnaryAuthzInterceptor rec True h2 c s"
  shows "gc_FullMethod c \<in> set grpcBypassMethods \<or>
    (\<exists>p u. grpcPermissionTable (gc_FullMethod c) = Some p \<and> gc_User c = Some u \<and>
       EffectivePermissions (user_roles u) p)"
  using assms
  by (auto simp: UnaryAuthzInterceptor_def LookupGRPCPermission_def grpc_Authorize_def user_roles_def
      split: option.splits if_splits)

lemma grpc_authn_pass:
  assumes ne: "UnaryServerInterceptor (Some verify) k1 c s \<noteq> UnaryServerInterceptor (Some verify) k2 c s"
    and m: "gc_FullMethod c \<notin> set grpcBypassMethods"
  obtains md header rest token vt s' where "gc_Metadata c = Some md" "md ''authorization'' = header # rest"
    "header = ''Bearer '' @ token" "verify token s = (Inr vt, s')"
    "k1 (c\<lparr>gc_User := Some (validatedTokenToUser vt)\<rparr>) s' \<noteq> k2 (c\<lparr>gc_User := Some (validatedTokenToUser vt)\<rparr>) s'"
proof -
  have m': "gc_FullMethod c \<noteq> ''/grpc.health.v1.Health/Check''" using m by (simp add: grpcBypassMethods_def)
  obtain md where md: "gc_Metadata c = Some md"
    using ne m' by (cases "gc_Metadata c") (simp_all add: UnaryServerInterceptor_def)
  obtain header rest where h: "md ''authorization'' = header # rest"
    using ne m' md by (cases "md ''authorization''") (simp_all add: UnaryServerInterceptor_def)
  obtain token where t: "CutPrefix header ''Bearer '' = Some token"
    using ne m' md h by (cases "CutPrefix header ''Bearer ''") (simp_all add: UnaryServerInterceptor_def)
  obtain vt s' where v: "verify token s = (Inr vt, s')"
    using ne m' md h t
    by (cases "verify token s"; cases "fst (verify token s)") (simp_all add: UnaryServerInterceptor_def)
  have "header = ''Bearer '' @ token" using t by (simp only: CutPrefix_Some)
  then show ?thesis using that [of md header rest token vt s'] ne m' md h t v
    by (simp add: UnaryServerInterceptor_def)
qed

text \<open>
  C16: The same gate for gRPC. With authentication enabled, and interceptors run in the order in
  which grpc.ChainUnaryInterceptor gets them (its documented law), what a service method does
  matters only for the health check, and for calls whose first authorization value is a bearer
  token the validator accepts, whose method is in the table and whose permission a role of the
  token has.
\<close>

theorem grpc_chain_gate:
  assumes law: "\<And>i is h. chain (i # is) h = i (chain is h)" "\<And>h. chain [] h = h"
    and ne: "chain (BuildGRPCInterceptorChain (Some verify) rec True) h1 c s \<noteq>
      chain (BuildGRPCInterceptorChain (Some verify) rec True) h2 c s"
  shows "gc_FullMethod c \<in> set grpcBypassMethods \<or>
    (\<exists>md rest token vt s' p. gc_Metadata c = Some md \<and> md ''authorization'' = (''Bearer '' @ token) # rest \<and>
       verify token s = (Inr vt, s') \<and> grpcPermissionTable (gc_FullMethod c) = Some p \<and>
       EffectivePermissions (user_roles (validatedTokenToUser vt)) p)"
proof (cases "gc_FullMethod c \<in> set grpcBypassMethods")
  case True
  then show ?thesis ..
next
  case False
  from ne have "UnaryServerInterceptor (Some verify) (UnaryAuthzInterceptor rec True h1) c s \<noteq>
      UnaryServerInterceptor (Some verify) (UnaryAuthzInterceptor rec True h2) c s"
    by (simp add: BuildGRPCInterceptorChain_def law)
  from grpc_authn_pass [OF this False] obtain md header rest token vt s' where
    t: "gc_Metadata c = Some md" "md ''authorization'' = header # rest" "header = ''Bearer '' @ token"
      "verify token s = (Inr vt, s')"
    and ne': "UnaryAuthzInterceptor rec True h1 (c\<lparr>gc_User := Some (validatedTokenToUser vt)\<rparr>) s' \<noteq>
      UnaryAuthzInterceptor rec True h2 (c\<lparr>gc_User := Some (validatedTokenToUser vt)\<rparr>) s'" .
  from grpc_authz_pass [OF ne'] t False show ?thesis by simp
qed

definition sample_call :: "string \<Rightarrow> unit grpc_call" where
  "sample_call m = \<lparr>gc_FullMethod = m, gc_Metadata = Some (\<lambda>k. [''Bearer iroum-ax:viewer'']),
     gc_User = None, gc_Req = ()\<rparr>"

theorem grpc_chain_gate_witness:
  "\<exists>vt s' p. sample_verify ''iroum-ax:viewer'' 0 = (Inr vt, s') \<and>
     grpcPermissionTable ''/iroum.ax.v1.WorkflowService/GetWorkflow'' = Some p \<and>
     EffectivePermissions (user_roles (validatedTokenToUser vt)) p"
proof -
  let ?c = "sample_call ''/iroum.ax.v1.WorkflowService/GetWorkflow''"
  let ?h = "\<lambda>k c s. (Inr k, s) :: (grpc_code \<times> string + nat) \<times> nat"
  have "foldr (\<lambda>i h. i h) (BuildGRPCInterceptorChain (Some sample_verify) None True) (?h 1) ?c 0 \<noteq>
      foldr (\<lambda>i h. i h) (BuildGRPCInterceptorChain (Some sample_verify) None True) (?h 2) ?c 0"
    by (simp add: BuildGRPCInterceptorChain_def UnaryServerInterceptor_def sample_call_def CutPrefix_def
        HasPrefix_def sample_verify_def UnaryAuthzInterceptor_def LookupGRPCPermission_def
        grpcBypassMethods_def grpcPermissionTable_def grpc_Authorize_def ParseRoles_Fields Fields_def
        is_space_def roleRegex_def rolePrefix_def role_defs List.map_filter_simps EffectivePermissions_def
        permissionMatrix_def validatedTokenToUser_def Let_def)
  from grpc_chain_gate [where chain = "foldr (\<lambda>i h. i h)", OF _ _ this]
  show ?thesis by (auto simp: sample_call_def grpcBypassMethods_def)
qed

end
