(* ===== verification/Review_Handlers.thy ===== *)
theory Review_Handlers
  imports Handler_Frame Review_Store Score_Store Rbac
begin

text \<open>
  cmd/server/review_handlers.go: the REST interface of the review requests. A handler owns two
  stores, given by their Begin methods and the methods of their transactions; the UUID functions
  are those of the runtime \<^verbatim>\<open>rt\<close>. Log lines are not modelled. A JSON object is read up to the
  order of its keys. The routes are those of Routes: a request arrives here with its path value.
\<close>

record ('t, 'u, 'w) ReviewHandler =
  rh_Begin :: "('w, 't) eff"
  rh_Tx :: "('t \<times> 'w) ScoreReviewRequestTx"
  rh_ScoreBegin :: "('w, 'u) eff"
  rh_GetScoreByID :: "uuid \<Rightarrow> ('u \<times> 'w, Score) eff"
  rh_ScoreRollback :: "('u \<times> 'w, unit) eff"

definition maxReviewListLimit :: "64 word" where
  "maxReviewListLimit = 500"

definition defaultReviewListLimit :: "64 word" where
  "defaultReviewListLimit = 50"

section \<open>Answers\<close>

definition writeReviewJSON :: "nat \<Rightarrow> json \<Rightarrow> response" where
  "writeReviewJSON code v =
     \<lparr>resp_Code = code, resp_Header = [(''Content-Type'', ''application/json'')], resp_Body = v\<rparr>"

definition writeReviewErr :: "nat \<Rightarrow> string \<Rightarrow> string \<Rightarrow> string \<Rightarrow> response" where
  "writeReviewErr code errCode msg field =
     writeReviewJSON code (JObject [(''error'',
       JObject ([(''code'', JString errCode), (''message'', JString msg)] @ text_field ''field'' field))])"

definition mapReviewStoreErr :: "goerr \<Rightarrow> nat \<times> string \<times> string" where
  "mapReviewStoreErr e =
     (if errors_Is e ErrScoreReviewRequestNotFound then (404, ''NOT_FOUND'', ''review not found'')
      else if errors_Is e ErrScoreNotFound then (404, ''NOT_FOUND'', ''score of the review not found'')
      else if errors_Is e ErrScoreReviewRequestInvalidInput then (400, ''INVALID_ARGUMENT'', ''invalid review input'')
      else if errors_Is e ErrScoreReviewRequestInvalidStatus then (409, ''CONFLICT'', ''status transition not allowed'')
      else if errors_Is e ErrScoreReviewRequestNotSubmitted then (409, ''CONFLICT'', ''assignment needs SUBMITTED'')
      else if errors_Is e ErrScoreReviewRequestNotUnderReview then (409, ''CONFLICT'', ''decision needs UNDER_REVIEW'')
      else if errors_Is e ErrScoreReviewRequestAuditWriteFailed then (500, ''INTERNAL'', ''review failed'')
      else (500, ''INTERNAL'', ''review failed''))"

definition writeReviewStoreErr :: "goerr \<Rightarrow> response" where
  "writeReviewStoreErr e = (case mapReviewStoreErr e of (code, errCode, msg) \<Rightarrow> writeReviewErr code errCode msg [])"

definition clampReviewPagination :: "string \<Rightarrow> string \<Rightarrow> 64 word \<times> 64 word" where
  "clampReviewPagination rawLimit rawOffset =
     (let v = parseIntDefault rawLimit 0;
          limit0 = (if 0 <s v then v else defaultReviewListLimit);
          limit = (if maxReviewListLimit <s limit0 then maxReviewListLimit else limit0);
          o1 = parseIntDefault rawOffset 0
      in (limit, if 0 <s o1 then o1 else 0))"

section \<open>Who may do what\<close>

definition requireReviewSubmitRole :: "string \<Rightarrow> bool" where
  "requireReviewSubmitRole scope = any_role (\<lambda>r. r = RoleAdmin \<or> r = RoleAnalyst) (ParseRolesFromScope scope)"

definition requireReviewAdminRole :: "string \<Rightarrow> bool" where
  "requireReviewAdminRole scope = any_role (\<lambda>r. r = RoleAdmin) (ParseRolesFromScope scope)"

text \<open>A guard is \<^verbatim>\<open>None\<close> when the request may go on, or the answer it wrote.\<close>

definition guardReviewSubmit :: "request \<Rightarrow> response option" where
  "guardReviewSubmit r = (case UserFromContext r of
     None \<Rightarrow> None
   | Some u \<Rightarrow> if requireReviewSubmitRole (join_space (usr_Scopes u)) then None
       else Some (writeReviewErr 403 ''ABAC_CONDITION_DENIED'' ''no right to submit'' []))"

definition guardReviewAdmin :: "request \<Rightarrow> response option" where
  "guardReviewAdmin r = (case UserFromContext r of
     None \<Rightarrow> None
   | Some u \<Rightarrow> if requireReviewAdminRole (join_space (usr_Scopes u)) then None
       else Some (writeReviewErr 403 ''ABAC_CONDITION_DENIED'' ''no administrator'' []))"

section \<open>Bodies\<close>

record reviewCreateBody =
  rcb_Metadata :: metadata
  rcb_ScoreID :: string
  rcb_Comment :: string

record reviewRejectBody =
  rrb_RejectionReason :: string
  rrb_Comment :: string

definition decode_reviewCreateBody :: "json option \<Rightarrow> goerr + reviewCreateBody" where
  "decode_reviewCreateBody b = (case decode_object b of
     Inl e \<Rightarrow> Inl e
   | Inr kvs \<Rightarrow>
       (case both (decode_field ''metadata'' set_map kvs [])
          (both (decode_field ''score_id'' set_string kvs []) (decode_field ''comment'' set_string kvs [])) of
          Inl e \<Rightarrow> Inl e
        | Inr (md, sid, cm) \<Rightarrow> Inr \<lparr>rcb_Metadata = md, rcb_ScoreID = sid, rcb_Comment = cm\<rparr>))"

definition decode_reviewAssignBody :: "json option \<Rightarrow> goerr + string" where
  "decode_reviewAssignBody b = (case decode_object b of
     Inl e \<Rightarrow> Inl e | Inr kvs \<Rightarrow> decode_field ''reviewer_id'' set_string kvs [])"

definition decode_reviewApproveBody :: "json option \<Rightarrow> goerr + string" where
  "decode_reviewApproveBody b = (case decode_object b of
     Inl e \<Rightarrow> Inl e | Inr kvs \<Rightarrow> decode_field ''comment'' set_string kvs [])"

definition decode_reviewRejectBody :: "json option \<Rightarrow> goerr + reviewRejectBody" where
  "decode_reviewRejectBody b = (case decode_object b of
     Inl e \<Rightarrow> Inl e
   | Inr kvs \<Rightarrow>
       (case both (decode_field ''rejection_reason'' set_string kvs []) (decode_field ''comment'' set_string kvs []) of
          Inl e \<Rightarrow> Inl e
        | Inr (reason, cm) \<Rightarrow> Inr \<lparr>rrb_RejectionReason = reason, rrb_Comment = cm\<rparr>))"

definition toReviewResponse :: "'x runtime \<Rightarrow> ScoreReviewRequest \<Rightarrow> json" where
  "toReviewResponse rt q = JObject (
     map_field ''metadata'' (rq_Metadata q) @
     opt_field ''assigned_reviewer_id'' (rq_AssignedReviewerID q) @
     opt_field ''rejection_reason'' (rq_RejectionReason q) @
     opt_field ''comment'' (rq_Comment q) @
     [(''id'', JString (uuid_String rt (rq_ID q))), (''score_id'', JString (uuid_String rt (rq_ScoreID q))),
      (''status'', JString (rq_Status q)), (''created_at'', JString (Format_RFC3339 (rq_CreatedAt q))),
      (''created_by'', JString (rq_CreatedBy q)), (''updated_at'', JString (Format_RFC3339 (rq_UpdatedAt q))),
      (''updated_by'', JString (rq_UpdatedBy q))])"

definition parseReviewID :: "'x runtime \<Rightarrow> request \<Rightarrow> response + uuid" where
  "parseReviewID rt r = (case uuid_Parse rt (req_PathID r) of
     None \<Rightarrow> Inl (writeReviewErr 400 ''INVALID_ARGUMENT'' ''malformed review id'' ''id'')
   | Some i \<Rightarrow> Inr i)"

definition bad_review_json :: response where
  "bad_review_json = writeReviewErr 400 ''INVALID_ARGUMENT'' ''malformed JSON body'' []"

definition review_internal :: "string \<Rightarrow> goerr \<Rightarrow> response" where
  "review_internal msg e = writeReviewErr 500 ''INTERNAL'' msg []"

section \<open>The handlers\<close>

definition executeMutation ::
  "'x runtime \<Rightarrow> ('t, 'u, 'w) ReviewHandler \<Rightarrow> (('t \<times> 'w) ScoreReviewRequestTx \<Rightarrow> ('t \<times> 'w, unit) eff) \<Rightarrow>
   uuid \<Rightarrow> 'w \<Rightarrow> response \<times> 'w" where
  "executeMutation rt h fn i =
     mutate (rh_Begin h) (review_internal ''begin failed'') (rtx_Rollback (rh_Tx h))
       (rtx_Commit (rh_Tx h)) (review_internal ''review update failed'')
       (fn (rh_Tx h)) writeReviewStoreErr
       (\<lambda>_. rtx_GetByID (rh_Tx h) i) writeReviewStoreErr
       (\<lambda>_ updated. writeReviewJSON 200 (toReviewResponse rt updated))"

definition handleCreateReview :: "'x runtime \<Rightarrow> ('t, 'u, 'w) ReviewHandler \<Rightarrow> 'w handler" where
  "handleCreateReview rt h r w = (case guardReviewSubmit r of Some resp \<Rightarrow> (resp, w) | None \<Rightarrow>
     (case decode_reviewCreateBody (req_Body r) of
        Inl e \<Rightarrow> (bad_review_json, w)
      | Inr body \<Rightarrow>
     (case uuid_Parse rt (TrimSpace (rcb_ScoreID body)) of
        None \<Rightarrow> (writeReviewErr 400 ''INVALID_ARGUMENT'' ''malformed score id'' ''score_id'', w)
      | Some scoreID \<Rightarrow>
     if scoreID = uuid_Nil
     then (writeReviewErr 400 ''INVALID_ARGUMENT'' ''malformed score id'' ''score_id'', w)
     else with_handle (rh_ScoreBegin h) (review_internal ''begin of the score check failed'') (rh_ScoreRollback h)
       (attempt (rh_GetScoreByID h scoreID) writeReviewStoreErr (\<lambda>_. inside (
          let actor = resolveCreatedBy r in
          mutate (rh_Begin h) (review_internal ''begin failed'') (rtx_Rollback (rh_Tx h))
            (rtx_Commit (rh_Tx h)) (review_internal ''review insert failed'')
            (rtx_Insert (rh_Tx h) scoreID (rcb_Comment body) (rcb_Metadata body) actor) writeReviewStoreErr
            (\<lambda>_. retn ()) writeReviewStoreErr
            (\<lambda>newID _. writeReviewJSON 201 (JObject
               [(''created_by'', JString actor), (''id'', JString (uuid_String rt newID)),
                (''score_id'', JString (uuid_String rt scoreID)), (''status'', JString ''SUBMITTED''),
                (''updated_by'', JString actor)]))))) w)))"

definition handleGetReview :: "'x runtime \<Rightarrow> ('t, 'u, 'w) ReviewHandler \<Rightarrow> 'w handler" where
  "handleGetReview rt h r w = (case parseReviewID rt r of Inl resp \<Rightarrow> (resp, w) | Inr i \<Rightarrow>
     with_handle (rh_Begin h) (review_internal ''begin failed'') (rtx_Rollback (rh_Tx h))
       (attempt (rtx_GetByID (rh_Tx h) i) writeReviewStoreErr
          (\<lambda>r1. refuse (writeReviewJSON 200 (toReviewResponse rt r1)))) w)"

definition handleListReviews :: "'x runtime \<Rightarrow> ('t, 'u, 'w) ReviewHandler \<Rightarrow> 'w handler" where
  "handleListReviews rt h r w =
     (let statusFilter = TrimSpace (req_Query r ''status'');
          (limit, offset) = clampReviewPagination (req_Query r ''limit'') (req_Query r ''offset'')
      in with_handle (rh_Begin h) (review_internal ''begin failed'') (rtx_Rollback (rh_Tx h))
           (attempt (rtx_List (rh_Tx h) statusFilter (sint limit) (sint offset)) writeReviewStoreErr (\<lambda>items.
            attempt (rtx_Count (rh_Tx h) statusFilter) writeReviewStoreErr (\<lambda>total.
            refuse (writeReviewJSON 200 (JObject
              [(''items'', JArray (map (toReviewResponse rt) items)), (''total'', JNumber (strconv_Itoa total))]))))) w)"

definition handleAssignReviewer :: "'x runtime \<Rightarrow> ('t, 'u, 'w) ReviewHandler \<Rightarrow> 'w handler" where
  "handleAssignReviewer rt h r w = (case guardReviewAdmin r of Some resp \<Rightarrow> (resp, w) | None \<Rightarrow>
     (case parseReviewID rt r of Inl resp \<Rightarrow> (resp, w) | Inr i \<Rightarrow>
     (case decode_reviewAssignBody (req_Body r) of Inl e \<Rightarrow> (bad_review_json, w) | Inr reviewerID \<Rightarrow>
     if blank reviewerID
     then (writeReviewErr 400 ''INVALID_ARGUMENT'' ''reviewer id missing'' ''reviewer_id'', w)
     else executeMutation rt h (\<lambda>tx. rtx_AssignReviewer tx i reviewerID (resolveCreatedBy r)) i w)))"

definition handleApprove :: "'x runtime \<Rightarrow> ('t, 'u, 'w) ReviewHandler \<Rightarrow> 'w handler" where
  "handleApprove rt h r w = (case guardReviewAdmin r of Some resp \<Rightarrow> (resp, w) | None \<Rightarrow>
     (case parseReviewID rt r of Inl resp \<Rightarrow> (resp, w) | Inr i \<Rightarrow>
     (case (if 0 < req_ContentLength r then decode_reviewApproveBody (req_Body r) else Inr []) of
        Inl e \<Rightarrow> (bad_review_json, w)
      | Inr commentText \<Rightarrow>
          executeMutation rt h (\<lambda>tx. rtx_ApproveRequest tx i commentText (resolveCreatedBy r)) i w)))"

definition handleReject :: "'x runtime \<Rightarrow> ('t, 'u, 'w) ReviewHandler \<Rightarrow> 'w handler" where
  "handleReject rt h r w = (case guardReviewAdmin r of Some resp \<Rightarrow> (resp, w) | None \<Rightarrow>
     (case parseReviewID rt r of Inl resp \<Rightarrow> (resp, w) | Inr i \<Rightarrow>
     (case decode_reviewRejectBody (req_Body r) of Inl e \<Rightarrow> (bad_review_json, w) | Inr body \<Rightarrow>
     if blank (rrb_RejectionReason body)
     then (writeReviewErr 400 ''INVALID_ARGUMENT'' ''rejection reason missing'' ''rejection_reason'', w)
     else executeMutation rt h (\<lambda>tx. rtx_RejectRequest tx i (rrb_RejectionReason body) (rrb_Comment body)
            (resolveCreatedBy r)) i w)))"

end
