(* ===== verification/Review_Handler_Properties.thy ===== *)
theory Review_Handler_Properties
  imports Review_Handlers Review_Properties
begin

text \<open>
  What a client of the review interface can rely on, on the PostgreSQL store: each request is one
  step of the review state machine by its user or changes nothing, for every fault of the
  connection, and every sequence of requests leaves a history that the audit log tells.
\<close>

section \<open>The stores behind the handlers\<close>

definition pg_review_handler :: "pg_state runtime \<Rightarrow> num_codec \<Rightarrow> (pg_tx, pg_tx, pg_world) ReviewHandler" where
  "pg_review_handler rt c =
     \<lparr>rh_Begin = PgStore_BeginScoreReviewRequestTx, rh_Tx = PgReviewTx_methods rt,
      rh_ScoreBegin = PgStore_BeginScoreTx, rh_GetScoreByID = GetScoreByID c,
      rh_ScoreRollback = PgScoreTx_Rollback\<rparr>"

lemma pg_review_handler_simps [simp]:
  "rh_Begin (pg_review_handler rt c) = PgStore_BeginScoreReviewRequestTx"
  "rh_Tx (pg_review_handler rt c) = PgReviewTx_methods rt"
  "rh_ScoreBegin (pg_review_handler rt c) = PgStore_BeginScoreTx"
  "rh_GetScoreByID (pg_review_handler rt c) = GetScoreByID c"
  "rh_ScoreRollback (pg_review_handler rt c) = PgScoreTx_Rollback"
  by (simp_all add: pg_review_handler_def)

lemma PgReviewTx_simps [simp]:
  "rtx_Insert (PgReviewTx_methods rt) = InsertScoreReviewRequest rt"
  "rtx_GetByID (PgReviewTx_methods rt) = GetScoreReviewRequestByID"
  "rtx_List (PgReviewTx_methods rt) = ListScoreReviewRequests"
  "rtx_Count (PgReviewTx_methods rt) = CountScoreReviewRequests"
  "rtx_AssignReviewer (PgReviewTx_methods rt) = AssignReviewer rt"
  "rtx_ApproveRequest (PgReviewTx_methods rt) = ApproveRequest rt"
  "rtx_RejectRequest (PgReviewTx_methods rt) = RejectRequest rt"
  "rtx_Commit (PgReviewTx_methods rt) = PgReviewTx_Commit"
  "rtx_Rollback (PgReviewTx_methods rt) = PgReviewTx_Rollback"
  by (simp_all add: PgReviewTx_methods_def)

text \<open>The transactions of the two stores keep the contract of the frame.\<close>

interpretation review_txs: transactional PgStore_BeginScoreReviewRequestTx PgReviewTx_Commit PgReviewTx_Rollback
  pg_committed "\<lambda>s. ptx_work (fst s)"
  unfolding PgStore_BeginScoreReviewRequestTx_def PgReviewTx_Commit_def
  by (rule pg_transactional, rule rollback_wrap_keeps, rule PgReviewTx_Rollback_def)

lemma review_reads_keep [eff_intros]:
  "keeps published (GetScoreReviewRequestByID i)" "keeps work (GetScoreReviewRequestByID i)"
  "keeps published (ListScoreReviewRequests st l o1)" "keeps published (CountScoreReviewRequests st)"
  unfolding GetScoreReviewRequestByID_def ListScoreReviewRequests_def CountScoreReviewRequests_def
  by (intro eff_intros)+

lemma review_mutations_keep:
  "keeps published (InsertScoreReviewRequest (pg_runtime parse toString sha1) sid cm md u)"
  "keeps published (AssignReviewer (pg_runtime parse toString sha1) i rv u)"
  "keeps published (ApproveRequest (pg_runtime parse toString sha1) i cm u)"
  "keeps published (RejectRequest (pg_runtime parse toString sha1) i reason cm u)"
  unfolding InsertScoreReviewRequest_def AssignReviewer_def ApproveRequest_def RejectRequest_def Let_def
    review_audit_defs lockAndCheckStatus_def fetchScoreID_def review_clock
  by (intro eff_intros)+

section \<open>One request\<close>

datatype review_api = ApiCreate | ApiGet | ApiList | ApiAssign | ApiApprove | ApiReject

definition review_api :: "'x runtime \<Rightarrow> ('t, 'u, 'w) ReviewHandler \<Rightarrow> review_api \<Rightarrow> 'w handler" where
  "review_api rt h x = (case x of
     ApiCreate \<Rightarrow> handleCreateReview rt h | ApiGet \<Rightarrow> handleGetReview rt h | ApiList \<Rightarrow> handleListReviews rt h
   | ApiAssign \<Rightarrow> handleAssignReviewer rt h | ApiApprove \<Rightarrow> handleApprove rt h | ApiReject \<Rightarrow> handleReject rt h)"

text \<open>The guard of an endpoint, as a condition on the request: reads have none.\<close>

definition review_allowed :: "review_api \<Rightarrow> request \<Rightarrow> bool" where
  "review_allowed x r = (case UserFromContext r of None \<Rightarrow> True | Some u \<Rightarrow>
     (case x of
        ApiGet \<Rightarrow> True | ApiList \<Rightarrow> True
      | ApiCreate \<Rightarrow> RoleAdmin \<in> set (user_roles u) \<or> RoleAnalyst \<in> set (user_roles u)
      | _ \<Rightarrow> RoleAdmin \<in> set (user_roles u)))"

lemma guard_submit_None: "guardReviewSubmit r = None \<longleftrightarrow> review_allowed ApiCreate r"
  by (auto simp: guardReviewSubmit_def review_allowed_def requireReviewSubmitRole_def user_roles_def
      split: option.splits)

lemma guard_admin_None:
  "x \<in> set [ApiAssign, ApiApprove, ApiReject] \<Longrightarrow> guardReviewAdmin r = None \<longleftrightarrow> review_allowed x r"
  by (auto simp: guardReviewAdmin_def review_allowed_def requireReviewAdminRole_def user_roles_def
      split: option.splits)

lemma guard_codes [simp]:
  "guardReviewSubmit r = Some resp \<Longrightarrow> resp_Code resp = 403"
  "guardReviewAdmin r = Some resp \<Longrightarrow> resp_Code resp = 403"
  by (auto simp: guardReviewSubmit_def guardReviewAdmin_def writeReviewErr_def writeReviewJSON_def
      split: option.splits if_splits)

lemma review_codes [simp]:
  "resp_Code (writeReviewErr c e m f) = c" "resp_Code (writeReviewJSON c v) = c"
  "resp_Code bad_review_json = 400" "resp_Code (review_internal m err) = 500"
  by (simp_all add: writeReviewErr_def writeReviewJSON_def bad_review_json_def review_internal_def)

lemma review_store_code [simp]: "400 \<le> resp_Code (writeReviewStoreErr e)"
  by (simp add: writeReviewStoreErr_def mapReviewStoreErr_def)

lemma parse_id_code: "parseReviewID rt r = Inl resp \<Longrightarrow> resp_Code resp = 400"
  by (auto simp: parseReviewID_def split: option.splits)

text \<open>What one request did: nothing, answered by an error, or one step, answered by success.\<close>

definition review_outcome :: "review_api \<Rightarrow> request \<Rightarrow> response \<Rightarrow> db \<Rightarrow> db \<Rightarrow> bool" where
  "review_outcome x r resp d d' \<longleftrightarrow>
     400 \<le> resp_Code resp \<and> d' = d \<or>
     x \<in> set [ApiGet, ApiList] \<and> resp_Code resp = 200 \<and> d' = d \<or>
     x \<notin> set [ApiGet, ApiList] \<and> review_allowed x r \<and> resp_Code resp = (if x = ApiCreate then 201 else 200) \<and>
       review_step (resolveUserID (resolveCreatedBy r)) d d'"

lemma execute_mutation_effect:
  assumes run: "executeMutation rt0 (pg_review_handler (pg_runtime parse toString sha1) c) fn i w = (resp, w')"
    and keep: "keeps published (fn (PgReviewTx_methods (pg_runtime parse toString sha1)))"
    and ok: "\<And>s u s'. fn (PgReviewTx_methods (pg_runtime parse toString sha1)) s = (Inr u, s') \<Longrightarrow>
      review_step actor (ptx_work (fst s)) (ptx_work (fst s'))"
  shows "400 \<le> resp_Code resp \<and> pg_committed w' = pg_committed w \<or>
    resp_Code resp = 200 \<and> review_step actor (pg_committed w) (pg_committed w')"
proof (rule review_txs.mutate_cases [OF keep [unfolded published_def [abs_def]] _ _
      run [unfolded executeMutation_def pg_review_handler_simps PgReviewTx_simps]], goal_cases)
  case (4 t w1 a s1 b s2)
  then have "ptx_work (fst (t, w1)) = pg_committed w" by (intro review_txs.begin_pending)
  with 4 ok [OF 4(2)] show ?case by simp
qed (use review_reads_keep(1,2) in \<open>auto simp: published_def [abs_def] work_def [abs_def]\<close>)

interpretation score_txs: transactional PgStore_BeginScoreTx PgScoreTx_Commit PgScoreTx_Rollback
  pg_committed "\<lambda>s. ptx_work (fst s)"
  unfolding PgStore_BeginScoreTx_def PgScoreTx_Commit_def
  by (rule pg_transactional, rule rollback_wrap_keeps, rule PgScoreTx_Rollback_def)

lemma score_read_keeps [eff_intros]: "keeps published (GetScoreByID c i)"
  unfolding GetScoreByID_def by (intro eff_intros)

lemma create_review_effect:
  assumes "handleCreateReview rt0 (pg_review_handler (pg_runtime parse toString sha1) c) r w = (resp, w')"
  shows "review_outcome ApiCreate r resp (pg_committed w) (pg_committed w')"
proof (cases "guardReviewSubmit r")
  case (Some q)
  then show ?thesis using assms by (simp add: handleCreateReview_def review_outcome_def)
next
  case None
  note allowed = None [unfolded guard_submit_None]
  show ?thesis
  proof (cases "400 \<le> resp_Code resp \<and> w' = w")
    case True
    then show ?thesis by (simp add: review_outcome_def)
  next
    case False
    then obtain body sid where "decode_reviewCreateBody (req_Body r) = Inr body"
      "uuid_Parse rt0 (TrimSpace (rcb_ScoreID body)) = Some sid" "sid \<noteq> uuid_Nil"
      using assms None by (auto simp: handleCreateReview_def split: sum.splits option.splits if_splits)
    with assms None have run: "with_handle PgStore_BeginScoreTx (review_internal ''begin of the score check failed'')
        PgScoreTx_Rollback (attempt (GetScoreByID c sid) writeReviewStoreErr (\<lambda>_. inside (
          mutate PgStore_BeginScoreReviewRequestTx (review_internal ''begin failed'') PgReviewTx_Rollback
            PgReviewTx_Commit (review_internal ''review insert failed'')
            (InsertScoreReviewRequest (pg_runtime parse toString sha1) sid (rcb_Comment body) (rcb_Metadata body)
               (resolveCreatedBy r)) writeReviewStoreErr
            (\<lambda>_. retn ()) writeReviewStoreErr
            (\<lambda>newID _. writeReviewJSON 201 (JObject
               [(''created_by'', JString (resolveCreatedBy r)), (''id'', JString (uuid_String rt0 newID)),
                (''score_id'', JString (uuid_String rt0 sid)), (''status'', JString ''SUBMITTED''),
                (''updated_by'', JString (resolveCreatedBy r))]))))) w = (resp, w')"
      by (simp add: handleCreateReview_def Let_def)
    note keep = review_mutations_keep(1) [unfolded published_def [abs_def]]
    show ?thesis
    proof (rule score_txs.nested_cases [OF score_read_keeps [unfolded published_def [abs_def]] run], goal_cases)
      case (1 e)
      then show ?case by (auto simp: review_outcome_def)
    next
      case (2 a w1 w2)
      show ?case
      proof (rule review_txs.mutate_cases [OF keep _ _ 2(2)], goal_cases)
        case (4 t w3 a s1 b s2)
        have "ptx_work (fst (t, w3)) = pg_committed w1" using 4(1) by (rule review_txs.begin_pending)
        with 2 4 insert_review_ok [OF 4(2)] allowed show ?case by (simp add: review_outcome_def)
      qed (use 2 in \<open>auto simp: review_outcome_def keeps_def\<close>)
    qed
  qed
qed

text \<open>What a stage made of reads answers.\<close>

lemma attempt_stage:
  assumes "attempt m f k s = ((co, q), s')"
  shows "(\<exists>e. m s = (Inl e, s') \<and> \<not> co \<and> q = f e) \<or> (\<exists>a s1. m s = (Inr a, s1) \<and> k a s1 = ((co, q), s'))"
  using assms by (auto simp: attempt_def refuse_def split: prod.splits sum.splits)

lemma read_review_effect:
  assumes "x \<in> set [ApiGet, ApiList]"
    and "review_api rt0 (pg_review_handler (pg_runtime parse toString sha1) c) x r w = (resp, w')"
  shows "review_outcome x r resp (pg_committed w) (pg_committed w')"
proof -
  note reads = review_reads_keep(1,3,4) [unfolded published_def [abs_def]]
  show ?thesis
  proof (cases "x = ApiGet")
    case True
    show ?thesis
    proof (cases "parseReviewID rt0 r")
      case (Inl q)
      then show ?thesis using assms True
        by (auto simp: review_api_def handleGetReview_def review_outcome_def dest: parse_id_code)
    next
      case (Inr i)
      let ?stage = "attempt (GetScoreReviewRequestByID i) writeReviewStoreErr
        (\<lambda>r1. refuse (writeReviewJSON 200 (toReviewResponse rt0 r1)))"
      have st: "\<not> co \<and> pg_committed (snd s') = pg_committed (snd s)" if "?stage s = ((co, q), s')" for s co q s'
        using attempt_stage [OF that] by (auto simp: refuse_def dest: keepsD [OF reads(1)])
      have run: "with_handle PgStore_BeginScoreReviewRequestTx (review_internal ''begin failed'') PgReviewTx_Rollback
          ?stage w = (resp, w')"
        using assms True Inr by (simp add: review_api_def handleGetReview_def)
      have "pg_committed w' = pg_committed w \<and> ((\<exists>e. resp = review_internal ''begin failed'' e) \<or>
          (\<exists>s s'. ?stage s = ((False, resp), s')))"
        by (rule review_txs.read_cases [OF _ run]) (rule st)
      with True show ?thesis
        by (auto simp: review_outcome_def refuse_def dest!: attempt_stage)
    qed
  next
    case False
    then have x: "x = ApiList" using assms(1) by simp
    obtain l o1 where lo: "clampReviewPagination (req_Query r ''limit'') (req_Query r ''offset'') = (l, o1)"
      by fastforce
    let ?st = "TrimSpace (req_Query r ''status'')"
    let ?stage = "attempt (ListScoreReviewRequests ?st (sint l) (sint o1)) writeReviewStoreErr (\<lambda>items.
       attempt (CountScoreReviewRequests ?st) writeReviewStoreErr (\<lambda>total.
       refuse (writeReviewJSON 200 (JObject
         [(''items'', JArray (map (toReviewResponse rt0) items)), (''total'', JNumber (strconv_Itoa total))]))))"
    have st: "\<not> co \<and> pg_committed (snd s') = pg_committed (snd s)" if "?stage s = ((co, q), s')" for s co q s'
      using attempt_stage [OF that]
      by (auto simp: refuse_def dest!: attempt_stage keepsD [OF reads(2)] keepsD [OF reads(3)])
    have run: "with_handle PgStore_BeginScoreReviewRequestTx (review_internal ''begin failed'') PgReviewTx_Rollback
        ?stage w = (resp, w')"
      using assms x lo by (simp add: review_api_def handleListReviews_def Let_def)
    have "pg_committed w' = pg_committed w \<and> ((\<exists>e. resp = review_internal ''begin failed'' e) \<or>
        (\<exists>s s'. ?stage s = ((False, resp), s')))"
      by (rule review_txs.read_cases [OF _ run]) (rule st)
    with x show ?thesis
      by (auto simp: review_outcome_def refuse_def dest!: attempt_stage)
  qed
qed

lemma decide_review_effect:
  assumes "x \<in> set [ApiAssign, ApiApprove, ApiReject]"
    and "review_api rt0 (pg_review_handler (pg_runtime parse toString sha1) c) x r w = (resp, w')"
  shows "review_outcome x r resp (pg_committed w) (pg_committed w')"
proof (cases "guardReviewAdmin r")
  case (Some q)
  then show ?thesis using assms
    by (auto simp: review_api_def handleAssignReviewer_def handleApprove_def handleReject_def review_outcome_def)
next
  case None
  note allowed = None [unfolded guard_admin_None [OF assms(1)]]
  let ?h = "pg_review_handler (pg_runtime parse toString sha1) c"
  let ?actor = "resolveUserID (resolveCreatedBy r)"
  show ?thesis
  proof (cases "400 \<le> resp_Code resp \<and> w' = w")
    case True
    then show ?thesis by (simp add: review_outcome_def)
  next
    case False
    then consider (assign) i rv where
        "executeMutation rt0 ?h (\<lambda>tx. rtx_AssignReviewer tx i rv (resolveCreatedBy r)) i w = (resp, w')"
      | (approve) i cm where
        "executeMutation rt0 ?h (\<lambda>tx. rtx_ApproveRequest tx i cm (resolveCreatedBy r)) i w = (resp, w')"
      | (reject) i reason cm where
        "executeMutation rt0 ?h (\<lambda>tx. rtx_RejectRequest tx i reason cm (resolveCreatedBy r)) i w = (resp, w')"
      using assms None parse_id_code [of rt0 r resp]
      by (auto simp: review_api_def handleAssignReviewer_def handleApprove_def handleReject_def
          split: sum.splits if_splits)
    then have "400 \<le> resp_Code resp \<and> pg_committed w' = pg_committed w \<or>
        resp_Code resp = 200 \<and> review_step ?actor (pg_committed w) (pg_committed w')"
    proof cases
      case assign
      then show ?thesis
        by (rule execute_mutation_effect) (auto intro: review_mutations_keep assign_review_ok)
    next
      case approve
      then show ?thesis
        by (rule execute_mutation_effect) (auto intro: review_mutations_keep approve_review_ok)
    next
      case reject
      then show ?thesis
        by (rule execute_mutation_effect) (auto intro: review_mutations_keep reject_review_ok)
    qed
    then show ?thesis using allowed assms(1) by (auto simp: review_outcome_def)
  qed
qed

lemma review_api_effect:
  assumes "review_api rt0 (pg_review_handler (pg_runtime parse toString sha1) c) x r w = (resp, w')"
  shows "review_outcome x r resp (pg_committed w) (pg_committed w')"
  using assms create_review_effect [of rt0 parse toString sha1 c r w resp w']
    read_review_effect [of x] decide_review_effect [of x]
  by (cases x) (auto simp: review_api_def)

section \<open>Properties of the interface\<close>

text \<open>
  C28: One request, one step. Whatever the request, the tables and the faults of the connection, a
  request to one of the six endpoints either is answered by an error (400 or above) and publishes
  nothing, or is a read answered by 200 that publishes nothing, or passes the guard of its endpoint,
  is answered by 201 (creation) or 200, and has published exactly one step of the review state
  machine with its audit event, made by the user of the request.
\<close>

theorem review_request_effect:
  assumes "review_api rt0 (pg_review_handler (pg_runtime parse toString sha1) c) x r w = (resp, w')"
  shows "400 \<le> resp_Code resp \<and> pg_committed w' = pg_committed w \<or>
    x \<in> {ApiGet, ApiList} \<and> resp_Code resp = 200 \<and> pg_committed w' = pg_committed w \<or>
    x \<notin> {ApiGet, ApiList} \<and> review_allowed x r \<and> resp_Code resp = (if x = ApiCreate then 201 else 200) \<and>
      review_step (resolveUserID (resolveCreatedBy r)) (pg_committed w) (pg_committed w')"
  using review_api_effect [OF assms] by (simp add: review_outcome_def)

lemma approve_request_runs:
  assumes "uuid_Parse rt0 i = Some j"
  shows "\<exists>resp w'. review_api rt0 (pg_review_handler (pg_runtime parse toString sha1) c) ApiApprove
     (plain_request i None None) (sample_pg (review_db [sample_review j ''UNDER_REVIEW''])) = (resp, w') \<and>
     resp_Code resp = 200"
proof -
  have st: "reviewStatusUnderReview = ''UNDER_REVIEW''" by (simp add: reviewStatusUnderReview_def)
  have tr: "validateReviewStatusTransition ''UNDER_REVIEW'' reviewStatusApproved = Inr ()"
    using review_transition_Inr [of reviewStatusUnderReview reviewStatusApproved "()"] by (simp add: st)
  show ?thesis
    by (simp add: assms review_api_def handleApprove_def guardReviewAdmin_def parseReviewID_def executeMutation_def
        mutate_def with_handle_def attempt_def answer_def refuse_def PgStore_BeginScoreReviewRequestTx_def
        pool_BeginTx_def ApproveRequest_def GetScoreReviewRequestByID_def PgReviewTx_Commit_def pg_commit_def
        st tr sample_review_def update_review_stmt_def approve_row_def review_row_error_def varchar_def
        RecordScoreReviewRequestApproved_def reviewRequestDetails_def PgReviewTx_InsertAuditLog_def [abs_def]
        resolveCreatedBy_def resolveUserID_def blank_iff is_space_def Let_def pg_review_run)
qed

theorem review_request_effect_witness:
  "\<exists>resp w'. review_api (pg_runtime (\<lambda>_. Some 7) canonical_String sample_SHA1)
      (pg_review_handler (pg_runtime (\<lambda>_. Some 7) canonical_String sample_SHA1) exact_codec) ApiApprove
      (plain_request ''7'' None None) (sample_pg (review_db [sample_review 7 ''UNDER_REVIEW''])) = (resp, w') \<and>
    review_step ''cli-anonymous'' (review_db [sample_review 7 ''UNDER_REVIEW'']) (pg_committed w')"
proof -
  let ?rt = "pg_runtime (\<lambda>_. Some (7 :: uuid)) canonical_String sample_SHA1"
  have "uuid_Parse ?rt ''7'' = Some 7" by (simp add: pg_runtime_def)
  from approve_request_runs [OF this, of "\<lambda>_. Some 7" canonical_String sample_SHA1 exact_codec] obtain resp w' where
    run: "review_api ?rt (pg_review_handler ?rt exact_codec) ApiApprove (plain_request ''7'' None None)
      (sample_pg (review_db [sample_review 7 ''UNDER_REVIEW''])) = (resp, w')" and "resp_Code resp = 200" by blast
  with review_request_effect [OF run] show ?thesis
    by (auto simp: resolveCreatedBy_def resolveUserID_def blank_iff is_space_def)
qed

text \<open>A sequence of requests, served one after the other.\<close>

primrec serve_reviews ::
  "'x runtime \<Rightarrow> ('t, 'u, 'w) ReviewHandler \<Rightarrow> (review_api \<times> request) list \<Rightarrow> 'w \<Rightarrow> 'w" where
  "serve_reviews rt h [] w = w"
| "serve_reviews rt h (q # qs) w = serve_reviews rt h qs (snd (review_api rt h (fst q) (snd q) w))"

text \<open>
  C29: The audit log is the history of the reviews. Start from tables that satisfy the invariant
  (for instance empty ones) and serve any sequence of requests of any users, with any faults of the
  connection in between: the rows stay well-formed, replaying the audit log along the state machine
  gives exactly the statuses of the table, and a review once approved or rejected keeps its row.
\<close>

theorem review_history:
  assumes "review_inv (pg_committed w)"
  shows "let w' = serve_reviews rt0 (pg_review_handler (pg_runtime parse toString sha1) c) qs w in
    review_inv (pg_committed w') \<and>
    (\<forall>i r. row_lookup rr_id (db_reviews (pg_committed w)) i = Some r \<longrightarrow> review_decided r \<longrightarrow>
       row_lookup rr_id (db_reviews (pg_committed w')) i = Some r)"
  using assms
proof (induction qs arbitrary: w)
  case (Cons q qs)
  obtain resp w1 where run: "review_api rt0 (pg_review_handler (pg_runtime parse toString sha1) c) (fst q) (snd q) w = (resp, w1)"
    by fastforce
  from review_api_effect [OF run] consider "pg_committed w1 = pg_committed w"
    | "review_step (resolveUserID (resolveCreatedBy (snd q))) (pg_committed w) (pg_committed w1)"
    by (auto simp: review_outcome_def)
  then have "review_inv (pg_committed w1)" and
    "\<forall>i r. row_lookup rr_id (db_reviews (pg_committed w)) i = Some r \<longrightarrow> review_decided r \<longrightarrow>
       row_lookup rr_id (db_reviews (pg_committed w1)) i = Some r"
    using Cons.prems by (cases; auto dest: review_step_inv review_step_decided)+
  with Cons.IH [of w1] run show ?case by (simp add: Let_def)
qed simp

theorem review_history_witness:
  "review_inv (pg_committed (serve_reviews (pg_runtime canonical_Parse canonical_String sample_SHA1)
     (pg_review_handler (pg_runtime canonical_Parse canonical_String sample_SHA1) exact_codec)
     [(ApiApprove, plain_request ''x'' None None)] (sample_pg (review_db []))))"
proof -
  have "review_inv (pg_committed (sample_pg (review_db [])))"
    by (simp add: review_inv_def pg_logs_def review_statuses_def fun_eq_iff)
  from review_history [OF this, unfolded Let_def] show ?thesis by blast
qed

text \<open>
  C30: The roles of the interface. A request of a user who has neither the role admin nor the role
  analyst changes no table on any of the six endpoints: creation, assignment, approval and rejection
  are answered 403 before a transaction is opened, and the two reads write nothing. An analyst who is no
  administrator is answered 403 by assignment, approval and rejection, likewise before a transaction.
  Without a user in the context (authentication disabled) every guard lets the request through.
\<close>

theorem review_roles:
  assumes "UserFromContext r = Some u" and "RoleAdmin \<notin> set (user_roles u)"
    and "review_api rt0 (pg_review_handler (pg_runtime parse toString sha1) c) x r w = (resp, w')"
  shows "(x \<in> {ApiAssign, ApiApprove, ApiReject} \<longrightarrow> w' = w \<and> resp_Code resp = 403) \<and>
    (RoleAnalyst \<notin> set (user_roles u) \<longrightarrow>
       pg_committed w' = pg_committed w \<and> (x \<notin> {ApiGet, ApiList} \<longrightarrow> w' = w \<and> resp_Code resp = 403)) \<and>
    guardReviewAdmin (r\<lparr>req_User := None\<rparr>) = None \<and> guardReviewSubmit (r\<lparr>req_User := None\<rparr>) = None"
proof -
  have admin: "w' = w \<and> resp_Code resp = 403" if "x \<in> {ApiAssign, ApiApprove, ApiReject}"
  proof -
    have "guardReviewAdmin r \<noteq> None" using that guard_admin_None [of x r] assms(1,2) by (auto simp: review_allowed_def)
    then show ?thesis using that assms(3)
      by (auto simp: review_api_def handleAssignReviewer_def handleApprove_def handleReject_def)
  qed
  have submit: "w' = w \<and> resp_Code resp = 403" if "x = ApiCreate" "RoleAnalyst \<notin> set (user_roles u)"
  proof -
    have "guardReviewSubmit r \<noteq> None" using that guard_submit_None [of r] assms(1,2) by (simp add: review_allowed_def)
    then show ?thesis using that assms(3) by (auto simp: review_api_def handleCreateReview_def)
  qed
  have "pg_committed w' = pg_committed w" if "x \<in> {ApiGet, ApiList}"
    using review_api_effect [OF assms(3)] that by (auto simp: review_outcome_def)
  moreover have "x \<in> {ApiAssign, ApiApprove, ApiReject} \<or> x = ApiCreate \<or> x \<in> {ApiGet, ApiList}" by (cases x) simp_all
  ultimately show ?thesis using admin submit
    by (auto simp: guardReviewAdmin_def [of "r\<lparr>req_User := None\<rparr>"] guardReviewSubmit_def [of "r\<lparr>req_User := None\<rparr>"] UserFromContext_def)
qed

theorem review_roles_witness:
  "\<exists>resp. review_api (pg_runtime canonical_Parse canonical_String sample_SHA1)
     (pg_review_handler (pg_runtime canonical_Parse canonical_String sample_SHA1) exact_codec) ApiReject
     (plain_request ''x'' None (Some \<lparr>usr_UID = ''kim'', usr_Issuer = [], usr_Roles = [], usr_Scopes = []\<rparr>))
     (sample_pg (review_db [])) = (resp, sample_pg (review_db [])) \<and> resp_Code resp = 403"
proof -
  let ?u = "\<lparr>usr_UID = ''kim'', usr_Issuer = [], usr_Roles = [], usr_Scopes = []\<rparr>"
  let ?run = "review_api (pg_runtime canonical_Parse canonical_String sample_SHA1)
     (pg_review_handler (pg_runtime canonical_Parse canonical_String sample_SHA1) exact_codec) ApiReject
     (plain_request ''x'' None (Some ?u)) (sample_pg (review_db []))"
  have u: "UserFromContext (plain_request ''x'' None (Some ?u)) = Some ?u" by simp
  have roles: "RoleAdmin \<notin> set (user_roles ?u)"
    by (simp add: user_roles_def ParseRoles_Fields Fields_def List.map_filter_simps)
  have "?run = (fst ?run, snd ?run)" by simp
  from review_roles [OF u roles this] this show ?thesis by auto
qed

section \<open>The numbers of a list request\<close>

lemma parse_digits_value:
  "\<forall>c\<in>set s. is_digit c \<Longrightarrow>
   parse_digits s (word_of_nat n) = Some (word_of_nat (foldl (\<lambda>n c. n * 10 + (of_char c - 48)) n s))"
proof (induction s arbitrary: n)
  case (Cons c s)
  have "word_of_nat n * 10 + word_of_nat (of_char c - 48) = (word_of_nat (n * 10 + (of_char c - 48)) :: 64 word)"
    by (simp only: of_nat_add of_nat_mult of_nat_numeral)
  moreover have "parse_digits (c # s) (word_of_nat n) = parse_digits s (word_of_nat n * 10 + word_of_nat (of_char c - 48))"
    using Cons.prems by (simp add: Let_def not_less is_digit_def)
  ultimately show ?case using Cons.IH [of "n * 10 + (of_char c - 48)"] Cons.prems by simp
qed simp

text \<open>
  Paging. Whatever the texts of limit and offset, the limit handed to the store is between 1
  and 500 and the offset is not negative (as signed 64-bit numbers). A number that fits is taken as
  it is, up to the maximum of 500. A number that does not fit is taken modulo 2 to the 64, without an
  error: the digits of 2 to the 64 plus 1 are read as 1.
\<close>

lemma review_paging_bounds:
  assumes "clampReviewPagination l q = (limit, offset)"
  shows "1 \<le> sint limit \<and> sint limit \<le> 500 \<and> 0 \<le> sint offset \<and>
    (is_decimal l \<longrightarrow> parseIntDefault l 0 = word_of_nat (decimal_value l) \<and>
      (decimal_value l < 2 ^ 63 \<longrightarrow> 0 < decimal_value l \<longrightarrow> sint limit = int (min 500 (decimal_value l))))"
proof -
  have dec: "parseIntDefault l 0 = word_of_nat (decimal_value l)" if "is_decimal l"
    using that parse_digits_value [of l 0]
    by (cases l) (auto simp: is_decimal_def is_digit_def parseIntDefault_def decimal_value_def HasPrefix_def)
  have small: "sint (word_of_nat n :: 64 word) = int n" if "n < 2 ^ 63" for n
    using that by (simp add: signed_of_nat signed_take_bit_int_eq_self)
  show ?thesis
    using assms dec small [of "decimal_value l"]
    by (auto simp: clampReviewPagination_def Let_def word_sless_alt maxReviewListLimit_def defaultReviewListLimit_def
        split: if_splits)
qed

end
