(* ===== verification/Token_Validator.thy ===== *)
theory Token_Validator
  imports Authz Numbers
begin

text \<open>
  internal/auth/validator.go: the verification of a bearer token. The cryptography and the parsing
  of a JWT (github.com/golang-jwt), the decoding of a JSON text and the machine's conversion of a
  float64 out of range are the record \<^verbatim>\<open>token_library\<close>; the provider of keys and the list
  of revoked tokens are the interfaces of the code. Claims come from a JSON document, whose numbers
  the JWT library decodes as float64; the other cases of the type switches (json.Number, int64,
  []string) do not occur in such claims. The observer counts the rejections.
\<close>

record ('s, 'k) token_library =
  tl_Now :: "'s \<Rightarrow> time \<times> 's"
  tl_Unmarshal :: "bytes \<Rightarrow> json option"
  tl_ParseWithClaims :: "string \<Rightarrow> 'k \<Rightarrow> goerr + bool \<times> (string \<times> json) list"
  tl_int64 :: "float64 \<Rightarrow> int"

record ('s, 'k) TokenValidator =
  tv_GetKey :: "string \<Rightarrow> ('s, 'k \<times> string \<times> string) eff"
  tv_IsBlacklisted :: "string \<Rightarrow> ('s, bool) eff"
  tv_observer :: "(string \<Rightarrow> 's \<Rightarrow> 's) option"
  tv_allowedAlgorithms :: "string list"
  tv_expectedIssuer :: string
  tv_expectedAudience :: string
  tv_clockSkew :: int

definition defaultAllowedAlgorithms :: "string list" where
  "defaultAllowedAlgorithms = [''RS256'', ''ES256'', ''EdDSA'']"

definition noopBlacklist_IsBlacklisted :: "string \<Rightarrow> ('s, bool) eff" where
  "noopBlacklist_IsBlacklisted jti = retn False"

text \<open>
  New without options; the default provider of keys holds no key.
\<close>

definition inlineJWKSProvider_GetKey :: "(string \<rightharpoonup> 'k \<times> string \<times> string) \<Rightarrow> string \<Rightarrow> ('s, 'k \<times> string \<times> string) eff" where
  "inlineJWKSProvider_GetKey entries kid = (case entries kid of
     None \<Rightarrow> throw (wrap1 ''kid'' (Sentinel ErrJWKSUnavailable))
   | Some (key, alg, kty) \<Rightarrow>
       if kty = ''RSA'' \<or> kty = ''EC'' then retn (key, alg, kty)
       else throw (wrap1 ''unsupported kty'' (Sentinel ErrAlgorithmNotAllowed)))"

definition TokenValidator_New :: "string \<Rightarrow> string \<Rightarrow> goerr + ('s, 'k) TokenValidator" where
  "TokenValidator_New oidcIssuer audience =
     (if oidcIssuer = [] then Inl (LibError ''OIDC issuer URL is empty'')
      else Inr \<lparr>tv_GetKey = inlineJWKSProvider_GetKey Map.empty, tv_IsBlacklisted = noopBlacklist_IsBlacklisted,
        tv_observer = None, tv_allowedAlgorithms = defaultAllowedAlgorithms, tv_expectedIssuer = oidcIssuer,
        tv_expectedAudience = audience, tv_clockSkew = 30 * nanosecond\<rparr>)"

section \<open>The header\<close>

text \<open>strings.SplitN(s, ".", 3): at most two cuts.\<close>

definition cut_dot :: "string \<Rightarrow> string \<times> string option" where
  "cut_dot s =
     (let p = takeWhile (\<lambda>c. c \<noteq> CHR ''.'') s; q = dropWhile (\<lambda>c. c \<noteq> CHR ''.'') s
      in (p, case q of [] \<Rightarrow> None | c # r \<Rightarrow> Some r))"

text \<open>
  base64.RawURLEncoding.DecodeString: line ends are skipped, four letters are three bytes, two are
  one, three are two, and one letter that is left over is an error. Spare bits are ignored.
\<close>

definition base64url_value :: "char \<Rightarrow> nat option" where
  "base64url_value c =
     (let n = of_char c in
      if 65 \<le> n \<and> n \<le> 90 then Some (n - 65)
      else if 97 \<le> n \<and> n \<le> 122 then Some (n - 71)
      else if 48 \<le> n \<and> n \<le> 57 then Some (n + 4)
      else if n = 45 then Some 62
      else if n = 95 then Some 63
      else None)"

fun sextets :: "string \<Rightarrow> nat list option" where
  "sextets [] = Some []"
| "sextets (c # cs) =
     (if c = CHR 0x0A \<or> c = CHR 0x0D then sextets cs
      else case base64url_value c of None \<Rightarrow> None
           | Some v \<Rightarrow> (case sextets cs of None \<Rightarrow> None | Some vs \<Rightarrow> Some (v # vs)))"

fun sextets_bytes :: "nat list \<Rightarrow> bytes option" where
  "sextets_bytes [] = Some []"
| "sextets_bytes [a] = None"
| "sextets_bytes [a, b] = Some [word_of_nat (a * 4 + b div 16)]"
| "sextets_bytes [a, b, c] = Some [word_of_nat (a * 4 + b div 16), word_of_nat (b mod 16 * 16 + c div 4)]"
| "sextets_bytes (a # b # c # d # rest) = (case sextets_bytes rest of None \<Rightarrow> None
     | Some bs \<Rightarrow> Some (word_of_nat (a * 4 + b div 16) # word_of_nat (b mod 16 * 16 + c div 4) #
         word_of_nat (c mod 4 * 64 + d) # bs))"

definition RawURL_DecodeString :: "string \<Rightarrow> bytes option" where
  "RawURL_DecodeString s = (case sextets s of None \<Rightarrow> None | Some vs \<Rightarrow> sextets_bytes vs)"

text \<open>A string of a map[string]any, or the empty one; the last of equal keys counts.\<close>

definition string_claim :: "(string \<rightharpoonup> json) \<Rightarrow> string \<Rightarrow> string" where
  "string_claim m k = (case m k of Some (JString s) \<Rightarrow> s | _ \<Rightarrow> [])"

definition object_map :: "(string \<times> json) list \<Rightarrow> string \<rightharpoonup> json" where
  "object_map kvs = map_of (rev kvs)"

definition extractHeader :: "('s, 'k) token_library \<Rightarrow> string \<Rightarrow> goerr + string \<times> string" where
  "extractHeader lib tokenString = (case cut_dot tokenString of (p, rest) \<Rightarrow>
     if rest = None then Inl (LibError ''malformed JWT'')
     else case RawURL_DecodeString p of
       None \<Rightarrow> Inl (LibError ''JWT header: base64'')
     | Some bs \<Rightarrow> (case tl_Unmarshal lib bs of
         Some (JObject kvs) \<Rightarrow>
           Inr (string_claim (object_map kvs) ''alg'', string_claim (object_map kvs) ''kid'')
       | Some JNull \<Rightarrow> Inr ([], [])
       | _ \<Rightarrow> Inl (LibError ''JWT header: JSON'')))"

section \<open>Algorithm and key\<close>

primrec containsString :: "string list \<Rightarrow> string \<Rightarrow> bool" where
  "containsString [] target = False"
| "containsString (s # ss) target = (if s = target then True else containsString ss target)"

definition isAllowedAlg :: "('s, 'k) TokenValidator \<Rightarrow> string \<Rightarrow> bool" where
  "isAllowedAlg v alg = containsString (tv_allowedAlgorithms v) alg"

definition checkAlgKTYConsistency :: "string \<Rightarrow> string \<Rightarrow> goerr + unit" where
  "checkAlgKTYConsistency alg kty =
     (case (if HasPrefix alg ''RS'' \<or> HasPrefix alg ''PS'' then Some ''RSA''
            else if HasPrefix alg ''ES'' then Some ''EC''
            else if alg = ''EdDSA'' then Some ''OKP'' else None) of
        None \<Rightarrow> Inl (wrap1 ''unknown alg'' (Sentinel ErrAlgorithmNotAllowed))
      | Some expectedKTY \<Rightarrow>
          if kty \<noteq> expectedKTY then Inl (wrap1 ''alg needs another kty'' (Sentinel ErrAlgorithmKeyMismatch))
          else Inr ())"

section \<open>Claims\<close>

definition getTimeClaimUnix :: "('s, 'k) token_library \<Rightarrow> (string \<rightharpoonup> json) \<Rightarrow> string \<Rightarrow> time option" where
  "getTimeClaimUnix lib claims key = (case claims key of
     Some (JNumber s) \<Rightarrow> (case ParseFloat s of None \<Rightarrow> None
        | Some x \<Rightarrow> Some (time_Unix (int64_of_f64 (tl_int64 lib) x)))
   | _ \<Rightarrow> None)"

definition zero_time :: time where
  "zero_time = - epoch_offset * nanosecond"

definition getExpTime :: "('s, 'k) token_library \<Rightarrow> (string \<rightharpoonup> json) \<Rightarrow> time" where
  "getExpTime lib claims = (case getTimeClaimUnix lib claims ''exp'' of None \<Rightarrow> zero_time | Some t \<Rightarrow> t)"

definition extractAudience :: "(string \<rightharpoonup> json) \<Rightarrow> string list" where
  "extractAudience claims = (case claims ''aud'' of
     Some (JString s) \<Rightarrow> [s] | Some (JArray xs) \<Rightarrow> json_strings (Some (JArray xs)) | _ \<Rightarrow> [])"

text \<open>The loop over scp and scope: an empty text and another type go on with the next key.\<close>

fun scopes_of :: "(string \<rightharpoonup> json) \<Rightarrow> string list \<Rightarrow> string list" where
  "scopes_of claims [] = []"
| "scopes_of claims (key # keys) = (case claims key of
     Some (JString s) \<Rightarrow> if s = [] then scopes_of claims keys else Fields s
   | Some (JArray xs) \<Rightarrow> json_strings (Some (JArray xs))
   | _ \<Rightarrow> scopes_of claims keys)"

definition extractScopes :: "(string \<rightharpoonup> json) \<Rightarrow> string list" where
  "extractScopes claims = scopes_of claims [''scp'', ''scope'']"

section \<open>Verify\<close>

definition recordRejection :: "('s, 'k) TokenValidator \<Rightarrow> string \<Rightarrow> 's \<Rightarrow> 's" where
  "recordRejection v reason s = (case tv_observer v of None \<Rightarrow> s | Some inc \<Rightarrow> inc reason s)"

definition reject :: "('s, 'k) TokenValidator \<Rightarrow> string \<Rightarrow> goerr \<Rightarrow> ('s, 'a) eff" where
  "reject v reason e s = (Inl e, recordRejection v reason s)"

text \<open>The three tests on the time claims: the reason of the refusal, if there is one.\<close>

definition time_claims_error :: "('s, 'k) token_library \<Rightarrow> int \<Rightarrow> (string \<rightharpoonup> json) \<Rightarrow> time \<Rightarrow> goerr option" where
  "time_claims_error lib skew claims now =
     (if (case getTimeClaimUnix lib claims ''exp'' of None \<Rightarrow> False | Some t \<Rightarrow> time_Add t skew < now)
      then Some (wrap1 [] (Sentinel ErrTokenExpired))
      else if (case getTimeClaimUnix lib claims ''iat'' of None \<Rightarrow> False | Some t \<Rightarrow> now < time_Add t (- skew))
      then Some (wrap1 ''iat in the future'' (Sentinel ErrTokenExpired))
      else if (case getTimeClaimUnix lib claims ''nbf'' of None \<Rightarrow> False | Some t \<Rightarrow> now < time_Add t (- skew))
      then Some (wrap1 ''before nbf'' (Sentinel ErrTokenExpired))
      else None)"

text \<open>The part of Verify after the signature, on the claims.\<close>

definition check_claims :: "('s, 'k) token_library \<Rightarrow> ('s, 'k) TokenValidator \<Rightarrow> (string \<rightharpoonup> json) \<Rightarrow> ('s, ValidatedToken) eff" where
  "check_claims lib v claims =
     call (always (tl_Now lib)) (\<lambda>now.
     case time_claims_error lib (tv_clockSkew v) claims now of
       Some e \<Rightarrow> reject v ''expired'' e
     | None \<Rightarrow>
     let aud = extractAudience claims; iss = string_claim claims ''iss''; jti = string_claim claims ''jti''
     in if \<not> containsString aud (tv_expectedAudience v)
        then reject v ''invalid_audience'' (wrap1 ''aud'' (Sentinel ErrTokenInvalidAudience))
        else if iss \<noteq> tv_expectedIssuer v
        then reject v ''invalid_issuer'' (wrap1 ''iss'' (Sentinel ErrTokenInvalidIssuer))
        else callw (if jti \<noteq> [] then tv_IsBlacklisted v jti else retn False) (wrap1 ''blacklist lookup failed'')
          (\<lambda>blacklisted.
           if blacklisted then reject v ''blacklisted'' (wrap1 ''jti'' (Sentinel ErrTokenBlacklisted))
           else retn \<lparr>vt_ExpiresAt = getExpTime lib claims, vt_Claims = claims,
                  vt_Subject = string_claim claims ''sub'', vt_Issuer = iss, vt_Audience = aud,
                  vt_Scopes = extractScopes claims\<rparr>))"

definition Verify :: "('s, 'k) token_library \<Rightarrow> ('s, 'k) TokenValidator \<Rightarrow> 's verifier" where
  "Verify lib v tokenString = (case extractHeader lib tokenString of
     Inl e \<Rightarrow> reject v ''invalid_signature'' (Wrap [] [Sentinel ErrTokenInvalidSignature, e])
   | Inr (alg, kid) \<Rightarrow>
       if \<not> isAllowedAlg v alg
       then reject v ''algorithm_not_allowed'' (wrap1 ''alg'' (Sentinel ErrAlgorithmNotAllowed))
       else (\<lambda>s. case tv_GetKey v kid s of
         (Inl e, s1) \<Rightarrow> reject v ''jwks_unavailable'' (wrap1 ''JWKS lookup failed'' e) s1
       | (Inr (pubKey, jwksAlg, kty), s1) \<Rightarrow>
           (case checkAlgKTYConsistency alg kty of
              Inl e \<Rightarrow> reject v ''alg_mismatch'' e s1
            | Inr _ \<Rightarrow>
                (case tl_ParseWithClaims lib tokenString pubKey of
                   Inr (True, kvs) \<Rightarrow> check_claims lib v (object_map kvs) s1
                 | _ \<Rightarrow> reject v ''invalid_signature'' (wrap1 ''parse'' (Sentinel ErrTokenInvalidSignature)) s1))))"

end
