(* ===== verification/Jwks_Cache.thy ===== *)
theory Jwks_Cache
  imports Token_Validator
begin

text \<open>
  internal/auth/jwks_cache.go: the provider of public keys. A key is fetched from the issuer as a
  JWK set and kept for a time; when the time is over it is still served for a while, and a
  goroutine refreshes the cache in the background. The clock and the HTTP exchange (the error of
  Do, or the status with the JSON of the body) are the record \<^verbatim>\<open>jwks_source\<close>. What other
  goroutines do to the cache while GetKey waits for its lock is the argument \<^verbatim>\<open>others\<close>.
\<close>

datatype public_key = RSAKey nat int | ECKey string nat nat

record CachedKey =
  ck_Key :: public_key
  ck_Alg :: string
  ck_Kty :: string
  ck_Kid :: string

record jwkJSON =
  jk_Kid :: string
  jk_Kty :: string
  jk_Alg :: string
  jk_Use :: string
  jk_N :: string
  jk_E :: string
  jk_Crv :: string
  jk_X :: string
  jk_Y :: string

record JWKSCache =
  jc_cache :: "string \<rightharpoonup> CachedKey"
  jc_lastSuccessAt :: "time option"
  jc_ttl :: int
  jc_staleMaxAge :: int
  jc_refreshing :: bool

record 'w jwks_source =
  js_Now :: "'w \<Rightarrow> time \<times> 'w"
  js_Do :: "'w \<Rightarrow> (goerr + nat \<times> json option) \<times> 'w"

definition NewJWKSCache :: JWKSCache where
  "NewJWKSCache = \<lparr>jc_cache = Map.empty, jc_lastSuccessAt = None, jc_ttl = 3600 * nanosecond,
     jc_staleMaxAge = 4 * 3600 * nanosecond, jc_refreshing = False\<rparr>"

definition WithCacheTTL :: "int \<Rightarrow> JWKSCache \<Rightarrow> JWKSCache" where
  "WithCacheTTL d c = c\<lparr>jc_ttl := d\<rparr>"

definition WithStaleMaxAge :: "int \<Rightarrow> JWKSCache \<Rightarrow> JWKSCache" where
  "WithStaleMaxAge d c = c\<lparr>jc_staleMaxAge := d\<rparr>"

section \<open>Reading a JWK set\<close>

definition empty_jwk :: jwkJSON where
  "empty_jwk = \<lparr>jk_Kid = [], jk_Kty = [], jk_Alg = [], jk_Use = [], jk_N = [], jk_E = [],
     jk_Crv = [], jk_X = [], jk_Y = []\<rparr>"

definition decode_jwk :: "json \<Rightarrow> goerr + jwkJSON" where
  "decode_jwk v = (case decode_object (Some v) of
     Inl e \<Rightarrow> Inl e
   | Inr kvs \<Rightarrow>
       (let get = (\<lambda>name. decode_field name set_string kvs [])
        in case both (get ''kid'') (both (get ''kty'') (both (get ''alg'') (both (get ''use'')
             (both (get ''n'') (both (get ''e'') (both (get ''crv'') (both (get ''x'') (get ''y'')))))))) of
             Inl e \<Rightarrow> Inl e
           | Inr (kid, kty, alg, us, n, ex, crv, x, y) \<Rightarrow>
               Inr \<lparr>jk_Kid = kid, jk_Kty = kty, jk_Alg = alg, jk_Use = us, jk_N = n, jk_E = ex,
                 jk_Crv = crv, jk_X = x, jk_Y = y\<rparr>))"

primrec decode_all :: "json list \<Rightarrow> goerr + jwkJSON list" where
  "decode_all [] = Inr []"
| "decode_all (v # vs) = (case both (decode_jwk v) (decode_all vs) of Inl e \<Rightarrow> Inl e | Inr (k, ks) \<Rightarrow> Inr (k # ks))"

definition set_keys :: "jwkJSON list \<Rightarrow> json \<Rightarrow> goerr + jwkJSON list" where
  "set_keys old v = (case v of JArray xs \<Rightarrow> decode_all xs | JNull \<Rightarrow> Inr [] | _ \<Rightarrow> Inl decode_error)"

definition decode_jwks :: "json option \<Rightarrow> goerr + jwkJSON list" where
  "decode_jwks b = (case decode_object b of Inl e \<Rightarrow> Inl e | Inr kvs \<Rightarrow> decode_field ''keys'' set_keys kvs [])"

section \<open>Keys\<close>

text \<open>big.Int.SetBytes: big-endian.\<close>

definition SetBytes :: "bytes \<Rightarrow> nat" where
  "SetBytes bs = foldl (\<lambda>n b. n * 256 + unat b) 0 bs"

definition parseRSAKey :: "jwkJSON \<Rightarrow> goerr + public_key" where
  "parseRSAKey k =
     (if jk_N k = [] \<or> jk_E k = [] then Inl (LibError ''RSA JWK: n or e is empty'')
      else case RawURL_DecodeString (jk_N k) of
        None \<Rightarrow> Inl (LibError ''RSA JWK: n'')
      | Some nBytes \<Rightarrow> (case RawURL_DecodeString (jk_E k) of
          None \<Rightarrow> Inl (LibError ''RSA JWK: e'')
        | Some eBytes \<Rightarrow> Inr (RSAKey (SetBytes nBytes) (sint (word_of_nat (SetBytes eBytes) :: 64 word)))))"

definition parseECKey :: "jwkJSON \<Rightarrow> goerr + public_key" where
  "parseECKey k =
     (if jk_Crv k = [] \<or> jk_X k = [] \<or> jk_Y k = [] then Inl (LibError ''EC JWK: crv, x or y is empty'')
      else if jk_Crv k \<notin> set [''P-256'', ''P-384'', ''P-521''] then Inl (LibError ''EC JWK: crv'')
      else case RawURL_DecodeString (jk_X k) of
        None \<Rightarrow> Inl (LibError ''EC JWK: x'')
      | Some xBytes \<Rightarrow> (case RawURL_DecodeString (jk_Y k) of
          None \<Rightarrow> Inl (LibError ''EC JWK: y'')
        | Some yBytes \<Rightarrow> Inr (ECKey (jk_Crv k) (SetBytes xBytes) (SetBytes yBytes))))"

definition parseJWKKey :: "jwkJSON \<Rightarrow> goerr + public_key" where
  "parseJWKKey k =
     (if jk_Kty k = ''RSA'' then parseRSAKey k
      else if jk_Kty k = ''EC'' then parseECKey k
      else Inl (LibError ''unsupported kty''))"

text \<open>The loop of refresh: a key that does not parse is skipped, a later kid replaces an earlier one.\<close>

fun new_cache :: "jwkJSON list \<Rightarrow> (string \<rightharpoonup> CachedKey) \<Rightarrow> (string \<rightharpoonup> CachedKey)" where
  "new_cache [] m = m"
| "new_cache (k # ks) m = (case parseJWKKey k of
     Inl e \<Rightarrow> new_cache ks m
   | Inr parsed \<Rightarrow> new_cache ks
       (m(jk_Kid k \<mapsto> \<lparr>ck_Key = parsed, ck_Alg = jk_Alg k, ck_Kty = jk_Kty k, ck_Kid = jk_Kid k\<rparr>)))"

section \<open>The cache\<close>

type_synonym 'w jwks_state = "JWKSCache \<times> 'w"

definition jwks_refresh :: "'w jwks_source \<Rightarrow> ('w jwks_state, unit) eff" where
  "jwks_refresh src = (\<lambda>(c, w). case js_Do src w of
     (Inl e, w1) \<Rightarrow> (Inl (wrap1 ''JWKS fetch failed'' e), (c, w1))
   | (Inr (status, body), w1) \<Rightarrow>
       if status \<noteq> 200 then (Inl (LibError ''JWKS non-200 answer''), (c, w1))
       else (case decode_jwks body of
          Inl e \<Rightarrow> (Inl (wrap1 ''JWKS JSON'' e), (c, w1))
        | Inr ks \<Rightarrow> (case js_Now src w1 of (now, w2) \<Rightarrow>
            (Inr (), (c\<lparr>jc_cache := new_cache ks Map.empty, jc_lastSuccessAt := Some now\<rparr>, w2)))))"

definition cacheAge :: "'w jwks_source \<Rightarrow> 'w jwks_state \<Rightarrow> int \<times> 'w jwks_state" where
  "cacheAge src = (\<lambda>(c, w). case jc_lastSuccessAt c of
     None \<Rightarrow> (jc_staleMaxAge c + 1, (c, w))
   | Some t \<Rightarrow> (case js_Now src w of (now, w1) \<Rightarrow> (now - t, (c, w1))))"

definition JWKSCache_Reachable :: "'w jwks_source \<Rightarrow> 'w jwks_state \<Rightarrow> bool \<times> 'w jwks_state" where
  "JWKSCache_Reachable src s =
     (if jc_lastSuccessAt (fst s) = None then (False, s)
      else case cacheAge src s of (age, s1) \<Rightarrow> (age < jc_staleMaxAge (fst s1), s1))"

text \<open>The goroutine that a stale hit starts: it runs later, on its own.\<close>

definition background_refresh :: "'w jwks_source \<Rightarrow> 'w jwks_state \<Rightarrow> 'w jwks_state" where
  "background_refresh src s =
     (case snd (jwks_refresh src s) of (c, w) \<Rightarrow> (c\<lparr>jc_refreshing := False\<rparr>, w))"

definition cached_answer :: "CachedKey \<Rightarrow> public_key \<times> string \<times> string" where
  "cached_answer k = (ck_Key k, ck_Alg k, ck_Kty k)"

definition fetch_key ::
  "'w jwks_source \<Rightarrow> string \<Rightarrow> bool \<Rightarrow> ('w jwks_state, public_key \<times> string \<times> string) eff" where
  "fetch_key src kid found s = (case jwks_refresh src s of
     (Inl e, s1) \<Rightarrow> (Inl (if found then wrap1 ''fetch failed and stale expired'' (Sentinel ErrJWKSUnavailable)
                         else wrap1 ''fetch failed'' (Sentinel ErrJWKSUnavailable)), s1)
   | (Inr _, s1) \<Rightarrow> (case jc_cache (fst s1) kid of
       None \<Rightarrow> (Inl (LibError ''kid not in the JWKS''), s1) | Some q \<Rightarrow> (Inr (cached_answer q), s1)))"

definition JWKSCache_fetch ::
  "'w jwks_source \<Rightarrow> ('w jwks_state \<Rightarrow> 'w jwks_state) \<Rightarrow> string \<Rightarrow> bool \<Rightarrow>
   ('w jwks_state, public_key \<times> string \<times> string) eff" where
  "JWKSCache_fetch src others kid found s =
     (case cacheAge src (others s) of (newAge, s1) \<Rightarrow>
        case jc_cache (fst s1) kid of
          Some k \<Rightarrow> if newAge < jc_ttl (fst s1) then (Inr (cached_answer k), s1) else fetch_key src kid found s1
        | None \<Rightarrow> fetch_key src kid found s1)"

definition JWKSCache_GetKey ::
  "'w jwks_source \<Rightarrow> ('w jwks_state \<Rightarrow> 'w jwks_state) \<Rightarrow> string \<Rightarrow>
   ('w jwks_state, public_key \<times> string \<times> string) eff" where
  "JWKSCache_GetKey src others kid s =
     (if kid = [] then (Inl (LibError ''kid is empty''), s)
      else case cacheAge src s of (age, s1) \<Rightarrow>
        case jc_cache (fst s1) kid of
          None \<Rightarrow> JWKSCache_fetch src others kid False s1
        | Some k \<Rightarrow>
            if age < jc_ttl (fst s1) then (Inr (cached_answer k), s1)
            else if age < jc_staleMaxAge (fst s1)
            then (Inr (cached_answer k), ((fst s1)\<lparr>jc_refreshing := True\<rparr>, snd s1))
            else JWKSCache_fetch src others kid True s1)"

end
