(* ===== verification/Token_Properties.thy ===== *)
theory Token_Properties
  imports Jwks_Cache
begin

text \<open>
  What an accepted token implies, what the validator does not ask for, and which keys the cache
  serves.
\<close>

lemma containsString_iff [simp]: "containsString ss t \<longleftrightarrow> t \<in> set ss"
  by (induction ss) auto

lemma reject_iff [simp]: "reject v reason e s = (Inr a, s') \<longleftrightarrow> False"
  by (simp add: reject_def)

lemma time_claims_ok:
  "time_claims_error lib skew claims now = None \<longleftrightarrow>
     (\<forall>t. getTimeClaimUnix lib claims ''exp'' = Some t \<longrightarrow> now \<le> time_Add t skew) \<and>
     (\<forall>t. getTimeClaimUnix lib claims ''iat'' = Some t \<longrightarrow> time_Add t (- skew) \<le> now) \<and>
     (\<forall>t. getTimeClaimUnix lib claims ''nbf'' = Some t \<longrightarrow> time_Add t (- skew) \<le> now)"
  by (auto simp: time_claims_error_def not_less split: option.splits)

lemma check_claims_Inr:
  assumes "check_claims lib v claims s = (Inr vt, s')"
  shows "\<exists>now s1. tl_Now lib s = (now, s1) \<and> time_claims_error lib (tv_clockSkew v) claims now = None \<and>
    tv_expectedAudience v \<in> set (extractAudience claims) \<and> string_claim claims ''iss'' = tv_expectedIssuer v \<and>
    (string_claim claims ''jti'' \<noteq> [] \<longrightarrow> tv_IsBlacklisted v (string_claim claims ''jti'') s1 = (Inr False, s')) \<and>
    vt = \<lparr>vt_ExpiresAt = getExpTime lib claims, vt_Claims = claims, vt_Subject = string_claim claims ''sub'',
      vt_Issuer = tv_expectedIssuer v, vt_Audience = extractAudience claims, vt_Scopes = extractScopes claims\<rparr>"
  using assms
  by (auto simp: check_claims_def eff_simps Let_def split: option.splits if_splits)

lemma verify_core:
  assumes "Verify lib v tok s = (Inr vt, s')"
  shows "\<exists>alg kid key jalg kty kvs s1 now s2.
    extractHeader lib tok = Inr (alg, kid) \<and> alg \<in> set (tv_allowedAlgorithms v) \<and>
    tv_GetKey v kid s = (Inr (key, jalg, kty), s1) \<and> checkAlgKTYConsistency alg kty = Inr () \<and>
    tl_ParseWithClaims lib tok key = Inr (True, kvs) \<and> tl_Now lib s1 = (now, s2) \<and>
    time_claims_error lib (tv_clockSkew v) (object_map kvs) now = None \<and>
    tv_expectedAudience v \<in> set (extractAudience (object_map kvs)) \<and>
    string_claim (object_map kvs) ''iss'' = tv_expectedIssuer v \<and>
    (string_claim (object_map kvs) ''jti'' \<noteq> [] \<longrightarrow>
       tv_IsBlacklisted v (string_claim (object_map kvs) ''jti'') s2 = (Inr False, s')) \<and>
    vt = \<lparr>vt_ExpiresAt = getExpTime lib (object_map kvs), vt_Claims = object_map kvs,
      vt_Subject = string_claim (object_map kvs) ''sub'', vt_Issuer = tv_expectedIssuer v,
      vt_Audience = extractAudience (object_map kvs), vt_Scopes = extractScopes (object_map kvs)\<rparr>"
proof -
  from assms obtain alg kid key jalg kty kvs s1 where h: "extractHeader lib tok = Inr (alg, kid)"
    "alg \<in> set (tv_allowedAlgorithms v)" "tv_GetKey v kid s = (Inr (key, jalg, kty), s1)" "checkAlgKTYConsistency alg kty = Inr ()"
    "tl_ParseWithClaims lib tok key = Inr (True, kvs)" "check_claims lib v (object_map kvs) s1 = (Inr vt, s')"
    by (auto simp: Verify_def isAllowedAlg_def split: sum.splits if_splits prod.splits bool.splits)
  from check_claims_Inr [OF h(6)] h(1-5) show ?thesis by blast
qed

section \<open>What an accepted token implies\<close>

text \<open>The claims as the signed object says them, without the functions of the code.\<close>

definition claim_text :: "(string \<rightharpoonup> json) \<Rightarrow> string \<Rightarrow> string" where
  "claim_text m k = (case m k of Some (JString t) \<Rightarrow> t | _ \<Rightarrow> [])"

definition texts_among :: "json list \<Rightarrow> string list" where
  "texts_among xs = List.map_filter (\<lambda>x. case x of JString t \<Rightarrow> Some t | _ \<Rightarrow> None) xs"

definition scopes_under :: "(string \<rightharpoonup> json) \<Rightarrow> string \<Rightarrow> string list option" where
  "scopes_under m k = (case m k of
     Some (JString t) \<Rightarrow> if t = [] then None else Some (Fields t)
   | Some (JArray xs) \<Rightarrow> Some (texts_among xs)
   | _ \<Rightarrow> None)"

definition claim_instant :: "('s, 'k) token_library \<Rightarrow> (string \<rightharpoonup> json) \<Rightarrow> string \<Rightarrow> time \<Rightarrow> bool" where
  "claim_instant lib m k t \<longleftrightarrow> (\<exists>num x. m k = Some (JNumber num) \<and> ParseFloat num = Some x \<and>
     t = time_Unix (int64_of_f64 (tl_int64 lib) x))"

lemma claim_instant_iff: "getTimeClaimUnix lib m k = Some t \<longleftrightarrow> claim_instant lib m k t"
  by (auto simp: getTimeClaimUnix_def claim_instant_def split: option.splits json.splits)

lemma scopes_under_eq:
  "extractScopes m = (case scopes_under m ''scp'' of Some ss \<Rightarrow> ss | None \<Rightarrow>
     (case scopes_under m ''scope'' of Some ss \<Rightarrow> ss | None \<Rightarrow> []))"
  by (auto simp: extractScopes_def scopes_under_def texts_among_def json_strings_def split: option.splits json.splits)

lemma header_segment:
  assumes "extractHeader lib tok = Inr (alg, kid)" and "alg \<noteq> []"
  obtains p q bs hdr where "tok = p @ CHR ''.'' # q" "CHR ''.'' \<notin> set p" "RawURL_DecodeString p = Some bs"
    "tl_Unmarshal lib bs = Some (JObject hdr)" "alg = claim_text (map_of (rev hdr)) ''alg''" "kid = claim_text (map_of (rev hdr)) ''kid''"
proof -
  let ?p = "takeWhile (\<lambda>c. c \<noteq> CHR ''.'') tok"
  obtain c q where d: "dropWhile (\<lambda>c. c \<noteq> CHR ''.'') tok = c # q"
    using assms(1) by (cases "dropWhile (\<lambda>c. c \<noteq> CHR ''.'') tok") (auto simp: extractHeader_def cut_dot_def Let_def)
  then have "c = CHR ''.''" by (metis (mono_tags) hd_dropWhile list.discI list.sel(1))
  then have tok: "tok = ?p @ CHR ''.'' # q" using d by (metis takeWhile_dropWhile_id)
  have "CHR ''.'' \<notin> set ?p" by (auto dest: set_takeWhileD)
  with tok assms d show thesis
    by (auto simp: extractHeader_def cut_dot_def Let_def object_map_def string_claim_def claim_text_def
        split: option.splits json.splits intro: that)
qed

text \<open>
  C32: What an accepted token implies. If Verify accepts a token, then the part before its first dot is
  base64url of a JSON object whose alg is an allowed algorithm and whose kid names a key the provider
  returned, of the type that algorithm needs (RSA for RS and PS, EC for ES, OKP for EdDSA); the JWT
  library accepted the signature under exactly that key; the clock, read after the signature, lies
  within exp, iat and nbf of the signed claims up to the skew; the expected audience is the text aud of
  those claims or one of the texts of the list aud; the issuer is the expected one; a token with an id
  was looked up and not revoked; and the expiry, audience, issuer, subject, scopes (of scp, or else of
  scope) and claims handed on are those of the signed claims.
\<close>

theorem verify_sound:
  assumes "Verify lib v tok s = (Inr vt, s')"
  shows "\<exists>p q bs hdr alg key jalg kty kvs s1 now s2.
    tok = p @ CHR ''.'' # q \<and> CHR ''.'' \<notin> set p \<and> RawURL_DecodeString p = Some bs \<and>
    tl_Unmarshal lib bs = Some (JObject hdr) \<and>
    alg = claim_text (map_of (rev hdr)) ''alg'' \<and> alg \<in> set (tv_allowedAlgorithms v) \<and>
    tv_GetKey v (claim_text (map_of (rev hdr)) ''kid'') s = (Inr (key, jalg, kty), s1) \<and>
    (kty = ''RSA'' \<and> take 2 alg \<in> {''RS'', ''PS''} \<or> kty = ''EC'' \<and> take 2 alg = ''ES'' \<or> kty = ''OKP'' \<and> alg = ''EdDSA'') \<and>
    tl_ParseWithClaims lib tok key = Inr (True, kvs) \<and> tl_Now lib s1 = (now, s2) \<and>
    (let m = map_of (rev kvs) in
      (\<forall>t. claim_instant lib m ''exp'' t \<longrightarrow> now \<le> time_Add t (tv_clockSkew v)) \<and>
      (\<forall>t. claim_instant lib m ''iat'' t \<longrightarrow> time_Add t (- tv_clockSkew v) \<le> now) \<and>
      (\<forall>t. claim_instant lib m ''nbf'' t \<longrightarrow> time_Add t (- tv_clockSkew v) \<le> now) \<and>
      (m ''aud'' = Some (JString (tv_expectedAudience v)) \<and> vt_Audience vt = [tv_expectedAudience v] \<or>
       (\<exists>xs. m ''aud'' = Some (JArray xs) \<and> JString (tv_expectedAudience v) \<in> set xs \<and> vt_Audience vt = texts_among xs)) \<and>
      claim_text m ''iss'' = tv_expectedIssuer v \<and> vt_Issuer vt = tv_expectedIssuer v \<and>
      (claim_text m ''jti'' \<noteq> [] \<longrightarrow> tv_IsBlacklisted v (claim_text m ''jti'') s2 = (Inr False, s')) \<and>
      vt_Claims vt = m \<and> vt_Subject vt = claim_text m ''sub'' \<and>
      (\<forall>t. claim_instant lib m ''exp'' t \<longrightarrow> vt_ExpiresAt vt = t) \<and>
      vt_Scopes vt = (case scopes_under m ''scp'' of Some ss \<Rightarrow> ss | None \<Rightarrow>
        (case scopes_under m ''scope'' of Some ss \<Rightarrow> ss | None \<Rightarrow> [])))"
proof -
  from verify_core [OF assms] obtain alg kid key jalg kty kvs s1 now s2 where
    h: "extractHeader lib tok = Inr (alg, kid)" and a: "alg \<in> set (tv_allowedAlgorithms v)"
    and k: "tv_GetKey v kid s = (Inr (key, jalg, kty), s1)" and ty: "checkAlgKTYConsistency alg kty = Inr ()"
    and pc: "tl_ParseWithClaims lib tok key = Inr (True, kvs)" and now: "tl_Now lib s1 = (now, s2)"
    and t: "time_claims_error lib (tv_clockSkew v) (object_map kvs) now = None"
    and aud: "tv_expectedAudience v \<in> set (extractAudience (object_map kvs))"
    and iss: "string_claim (object_map kvs) ''iss'' = tv_expectedIssuer v"
    and jti: "string_claim (object_map kvs) ''jti'' \<noteq> [] \<longrightarrow>
       tv_IsBlacklisted v (string_claim (object_map kvs) ''jti'') s2 = (Inr False, s')"
    and vt': "vt = \<lparr>vt_ExpiresAt = getExpTime lib (object_map kvs), vt_Claims = object_map kvs,
      vt_Subject = string_claim (object_map kvs) ''sub'', vt_Issuer = tv_expectedIssuer v,
      vt_Audience = extractAudience (object_map kvs), vt_Scopes = extractScopes (object_map kvs)\<rparr>"
    by blast
  have vt: "vt_Claims vt = object_map kvs" "vt_Subject vt = string_claim (object_map kvs) ''sub''"
      "vt_Scopes vt = extractScopes (object_map kvs)" "vt_Audience vt = extractAudience (object_map kvs)"
      "vt_Issuer vt = tv_expectedIssuer v" "vt_ExpiresAt vt = getExpTime lib (object_map kvs)"
    by (simp_all add: vt')
  have expiry: "\<forall>t. claim_instant lib (map_of (rev kvs)) ''exp'' t \<longrightarrow> vt_ExpiresAt vt = t"
    by (simp add: vt(6) getExpTime_def object_map_def flip: claim_instant_iff)
  have m: "object_map kvs = map_of (rev kvs)" and texts: "string_claim = claim_text"
    by (simp add: object_map_def, intro ext, simp add: string_claim_def claim_text_def)
  have ty': "kty = ''RSA'' \<and> take 2 alg \<in> {''RS'', ''PS''} \<or> kty = ''EC'' \<and> take 2 alg = ''ES'' \<or> kty = ''OKP'' \<and> alg = ''EdDSA''"
    using ty by (auto simp: checkAlgKTYConsistency_def HasPrefix_def numeral_2_eq_2 split: if_splits option.splits)
  then have "alg \<noteq> []" by auto
  from header_segment [OF h this] obtain p q bs hdr where seg: "tok = p @ CHR ''.'' # q" "CHR ''.'' \<notin> set p"
    "RawURL_DecodeString p = Some bs" "tl_Unmarshal lib bs = Some (JObject hdr)"
    "alg = claim_text (map_of (rev hdr)) ''alg''" "kid = claim_text (map_of (rev hdr)) ''kid''" .
  have audience: "map_of (rev kvs) ''aud'' = Some (JString (tv_expectedAudience v)) \<and> vt_Audience vt = [tv_expectedAudience v] \<or>
      (\<exists>xs. map_of (rev kvs) ''aud'' = Some (JArray xs) \<and> JString (tv_expectedAudience v) \<in> set xs \<and> vt_Audience vt = texts_among xs)"
    using aud vt(4) unfolding m
    by (auto simp: extractAudience_def texts_among_def json_strings_def map_filter_def split: option.splits json.splits)
  note t' = t [unfolded time_claims_ok claim_instant_iff m]
  show ?thesis
    using seg a k [unfolded seg(6)] ty' pc now t' [THEN conjunct1] t' [THEN conjunct2, THEN conjunct1]
      t' [THEN conjunct2, THEN conjunct2] audience iss jti vt(1-3,5) expiry
    unfolding m texts Let_def scopes_under_eq
    by (intro exI conjI) assumption+
qed

section \<open>A library and a validator for the witnesses\<close>

definition sample_claims :: "(string \<times> json) list" where
  "sample_claims = [(''iss'', JString ''https://idp''), (''aud'', JArray [JString ''iroum-ax'']),
     (''sub'', JString ''kim''), (''jti'', JString ''t1''), (''exp'', JNumber ''100''),
     (''scp'', JString ''iroum-ax:viewer'')]"

definition sample_library :: "string \<Rightarrow> (string \<times> json) list \<Rightarrow> (int, public_key) token_library" where
  "sample_library alg claims = \<lparr>tl_Now = (\<lambda>n. (n, n + 1)),
     tl_Unmarshal = (\<lambda>_. Some (JObject [(''alg'', JString alg), (''kid'', JString ''k1'')])),
     tl_ParseWithClaims = (\<lambda>_ _. Inr (True, claims)), tl_int64 = (\<lambda>_. 0)\<rparr>"

definition sample_validator :: "(int, public_key) TokenValidator" where
  "sample_validator = \<lparr>tv_GetKey = (\<lambda>kid. retn (RSAKey 3233 17, ''RS256'', ''RSA'')),
     tv_IsBlacklisted = noopBlacklist_IsBlacklisted, tv_observer = None,
     tv_allowedAlgorithms = defaultAllowedAlgorithms, tv_expectedIssuer = ''https://idp'',
     tv_expectedAudience = ''iroum-ax'', tv_clockSkew = 30 * nanosecond\<rparr>"

lemma sample_header: "extractHeader (sample_library alg claims) ''e30.x'' = Inr (alg, ''k1'')"
  by (simp add: extractHeader_def cut_dot_def RawURL_DecodeString_def base64url_value_def sample_library_def
      string_claim_def object_map_def Let_def)

lemma ParseFloat_100: "ParseFloat ''100'' = Some (Fin 100)"
proof -
  have "number_value ''100'' = 100"
    by (simp add: number_value_def is_digit_def decimal_value_def ten_power_def Let_def)
  with f64_of_int [of 100] show ?thesis by (simp add: ParseFloat_def)
qed

lemma sample_exp: "getTimeClaimUnix (sample_library alg claims) (object_map sample_claims) ''exp'' = Some (100 * nanosecond)"
  using time_Unix_small [of 100]
  by (simp add: getTimeClaimUnix_def object_map_def sample_claims_def ParseFloat_100 int64_of_f64_def trunc_rat_def)

lemma sample_simps [simp]:
  "tl_Now (sample_library alg claims) n = (n, n + 1)"
  "tl_ParseWithClaims (sample_library alg claims) tok key = Inr (True, claims)"
  "tv_GetKey sample_validator kid = retn (RSAKey 3233 17, ''RS256'', ''RSA'')"
  "tv_IsBlacklisted sample_validator jti = retn False" "tv_clockSkew sample_validator = 30 * nanosecond"
  "tv_expectedAudience sample_validator = ''iroum-ax''" "tv_expectedIssuer sample_validator = ''https://idp''"
  "tv_allowedAlgorithms sample_validator = defaultAllowedAlgorithms"
  by (simp_all add: sample_library_def sample_validator_def noopBlacklist_IsBlacklisted_def)

lemma sample_claim_values [simp]:
  "object_map sample_claims ''aud'' = Some (JArray [JString ''iroum-ax''])"
  "object_map sample_claims ''iss'' = Some (JString ''https://idp'')"
  "object_map sample_claims ''sub'' = Some (JString ''kim'')"
  "object_map sample_claims ''jti'' = Some (JString ''t1'')"
  "object_map sample_claims ''scp'' = Some (JString ''iroum-ax:viewer'')"
  "object_map sample_claims ''iat'' = None" "object_map sample_claims ''nbf'' = None"
  by (simp_all add: object_map_def sample_claims_def)

lemma sample_verify_token:
  "Verify (sample_library ''RS256'' sample_claims) sample_validator ''e30.x'' 0 =
     (Inr \<lparr>vt_ExpiresAt = 100 * nanosecond, vt_Claims = object_map sample_claims, vt_Subject = ''kim'',
        vt_Issuer = ''https://idp'', vt_Audience = [''iroum-ax''], vt_Scopes = [''iroum-ax:viewer'']\<rparr>, 1)"
proof -
  let ?lib = "sample_library ''RS256'' sample_claims"
  have t: "time_claims_error ?lib (30 * nanosecond) (object_map sample_claims) 0 = None"
    using sample_exp by (auto simp: time_claims_ok time_Add_def nanosecond_def epoch_offset_def
        getTimeClaimUnix_def [of _ _ "''iat''"] getTimeClaimUnix_def [of _ _ "''nbf''"])
  have "check_claims ?lib sample_validator (object_map sample_claims) 0 =
     (Inr \<lparr>vt_ExpiresAt = 100 * nanosecond, vt_Claims = object_map sample_claims, vt_Subject = ''kim'',
        vt_Issuer = ''https://idp'', vt_Audience = [''iroum-ax''], vt_Scopes = [''iroum-ax:viewer'']\<rparr>, 1)"
    by (simp add: check_claims_def call_def callw_def always_def t Let_def extractAudience_def json_strings_def
        string_claim_def getExpTime_def sample_exp extractScopes_def Fields_def is_space_def List.map_filter_simps
        retn_def)
  then show ?thesis
    by (simp add: Verify_def sample_header isAllowedAlg_def defaultAllowedAlgorithms_def
        checkAlgKTYConsistency_def HasPrefix_def retn_def)
qed

theorem verify_sound_witness:
  "\<exists>vt s'. Verify (sample_library ''RS256'' sample_claims) sample_validator ''e30.x'' 0 = (Inr vt, s') \<and>
     (\<exists>p bs hdr. RawURL_DecodeString p = Some bs \<and>
        tl_Unmarshal (sample_library ''RS256'' sample_claims) bs = Some (JObject hdr) \<and>
        claim_text (map_of (rev hdr)) ''alg'' \<in> {''RS256'', ''ES256'', ''EdDSA''}) \<and>
     vt_Audience vt = [''iroum-ax''] \<and> vt_Subject vt = ''kim''"
proof -
  have allowed: "set (tv_allowedAlgorithms sample_validator) = {''RS256'', ''ES256'', ''EdDSA''}"
    by (simp add: defaultAllowedAlgorithms_def)
  show ?thesis
    using verify_sound [OF sample_verify_token] sample_verify_token unfolding allowed by fastforce
qed

text \<open>
  A token needs no expiry. If the header, the key, the signature, the audience and the issuer
  are right and the signed claims have no exp, iat, nbf and jti, Verify accepts the token at every
  time: the token never expires, cannot be revoked by its id, and ExpiresAt is the zero time.
\<close>

lemma token_without_exp_accepted:
  assumes "extractHeader lib tok = Inr (alg, kid)" and "alg \<in> set (tv_allowedAlgorithms v)"
    and "tv_GetKey v kid s = (Inr (key, jalg, kty), s1)" and "checkAlgKTYConsistency alg kty = Inr ()"
    and "tl_ParseWithClaims lib tok key = Inr (True, kvs)"
    and "\<forall>k\<in>{''exp'', ''iat'', ''nbf'', ''jti''}. object_map kvs k = None"
    and "tv_expectedAudience v \<in> set (extractAudience (object_map kvs))"
    and "string_claim (object_map kvs) ''iss'' = tv_expectedIssuer v"
  shows "\<exists>vt s'. Verify lib v tok s = (Inr vt, s') \<and> vt_ExpiresAt vt = zero_time"
proof -
  have "time_claims_error lib (tv_clockSkew v) (object_map kvs) now = None" for now
    using assms(6) by (simp add: time_claims_ok getTimeClaimUnix_def)
  moreover have "string_claim (object_map kvs) ''jti'' = []" using assms(6) by (simp add: string_claim_def)
  moreover have "getExpTime lib (object_map kvs) = zero_time"
    using assms(6) by (simp add: getExpTime_def getTimeClaimUnix_def)
  ultimately have "\<exists>vt s'. check_claims lib v (object_map kvs) s1 = (Inr vt, s') \<and> vt_ExpiresAt vt = zero_time"
    using assms(7,8)
    by (cases "tl_Now lib s1") (simp add: check_claims_def call_def callw_def always_def Let_def retn_def)
  then show ?thesis using assms(1-5) by (simp add: Verify_def isAllowedAlg_def)
qed

section \<open>The cache of keys\<close>

text \<open>Every key of the cache has the type its entry says, and without a fetch there is no key.\<close>

definition key_fits :: "public_key \<Rightarrow> string \<Rightarrow> bool" where
  "key_fits key kty \<longleftrightarrow> (case key of RSAKey n e \<Rightarrow> kty = ''RSA'' | ECKey crv x y \<Rightarrow> kty = ''EC'')"

definition jwks_inv :: "JWKSCache \<Rightarrow> bool" where
  "jwks_inv c \<longleftrightarrow> (\<forall>k\<in>ran (jc_cache c). key_fits (ck_Key k) (ck_Kty k)) \<and>
     (jc_lastSuccessAt c = None \<longrightarrow> jc_cache c = Map.empty)"

lemma NewJWKSCache_inv: "jwks_inv NewJWKSCache"
  by (simp add: jwks_inv_def NewJWKSCache_def)

lemma parse_key_fits: "parseJWKKey k = Inr key \<Longrightarrow> key_fits key (jk_Kty k)"
  by (auto simp: parseJWKKey_def parseRSAKey_def parseECKey_def key_fits_def split: option.splits if_splits)

lemma new_cache_fits:
  "\<forall>k\<in>ran m. key_fits (ck_Key k) (ck_Kty k) \<Longrightarrow> \<forall>k\<in>ran (new_cache ks m). key_fits (ck_Key k) (ck_Kty k)"
proof (induction ks m rule: new_cache.induct)
  case (2 k ks m)
  show ?case
  proof (cases "parseJWKKey k")
    case (Inr key)
    have "\<forall>q\<in>ran (m(jk_Kid k \<mapsto> \<lparr>ck_Key = key, ck_Alg = jk_Alg k, ck_Kty = jk_Kty k, ck_Kid = jk_Kid k\<rparr>)).
        key_fits (ck_Key q) (ck_Kty q)"
      using 2(3) parse_key_fits [OF Inr] by (auto simp: ran_def)
    from 2(2) [OF Inr this] show ?thesis by (simp only: new_cache.simps Inr sum.case)
  qed (use 2 in simp)
qed simp

lemma cacheAge_same: "fst (snd (cacheAge src s)) = fst s"
  by (auto simp: cacheAge_def split: prod.splits option.splits)

lemma cacheAge_value:
  assumes "cacheAge src s = (age, s1)"
  shows "fst s1 = fst s \<and> (case jc_lastSuccessAt (fst s) of None \<Rightarrow> age = jc_staleMaxAge (fst s) + 1
    | Some t \<Rightarrow> (\<exists>now w w'. js_Now src w = (now, w') \<and> age = now - t))"
  using assms by (auto simp: cacheAge_def split: prod.splits option.splits)

lemma refresh_cases:
  assumes "jwks_refresh src s = (r, s1)"
  shows "(\<exists>e. r = Inl e) \<and> fst s1 = fst s \<or>
    (\<exists>ks now w w'. r = Inr () \<and> js_Now src w = (now, w') \<and>
       fst s1 = (fst s)\<lparr>jc_cache := new_cache ks Map.empty, jc_lastSuccessAt := Some now\<rparr>)"
proof -
  obtain c w where s: "s = (c, w)" by fastforce
  obtain q w1 where d: "js_Do src w = (q, w1)" by (cases "js_Do src w")
  obtain now w2 where n: "js_Now src w1 = (now, w2)" by (cases "js_Now src w1")
  show ?thesis
  proof (cases "\<exists>body ks. q = Inr (200, body) \<and> decode_jwks body = Inr ks")
    case True
    then obtain body ks where "q = Inr (200, body)" "decode_jwks body = Inr ks" by blast
    with assms d n have "r = Inr ()" "fst s1 = c\<lparr>jc_cache := new_cache ks Map.empty, jc_lastSuccessAt := Some now\<rparr>"
      by (auto simp: jwks_refresh_def s)
    with n show ?thesis unfolding s fst_conv by blast
  next
    case False
    then show ?thesis using assms d by (auto simp: jwks_refresh_def s split: sum.splits if_splits)
  qed
qed

lemma refresh_inv: "jwks_inv (fst s) \<Longrightarrow> jwks_refresh src s = (r, s1) \<Longrightarrow> jwks_inv (fst s1)"
  using refresh_cases [of src s r s1] new_cache_fits [of Map.empty] by (auto simp: jwks_inv_def)

lemma background_refresh_inv:
  assumes "jwks_inv (fst s)"
  shows "jwks_inv (fst (background_refresh src s))"
proof -
  obtain r c w where r: "jwks_refresh src s = (r, (c, w))" by (metis prod.exhaust)
  from refresh_inv [OF assms r] show ?thesis by (simp add: background_refresh_def r jwks_inv_def)
qed

text \<open>
  Where a key can come from: an entry of a cache that is younger than a limit at a reading of the
  clock, or a member of a JWK set that was just fetched. Of the members with one kid the last one
  that parses counts.
\<close>

definition held_younger ::
  "string \<Rightarrow> public_key \<times> string \<times> string \<Rightarrow> int \<Rightarrow> time \<Rightarrow> JWKSCache \<Rightarrow> bool" where
  "held_younger kid answer limit now c \<longleftrightarrow>
     (\<exists>k t. jc_cache c kid = Some k \<and> answer = (ck_Key k, ck_Alg k, ck_Kty k) \<and>
        jc_lastSuccessAt c = Some t \<and> now - t < limit)"

definition published :: "string \<Rightarrow> public_key \<times> string \<times> string \<Rightarrow> jwkJSON list \<Rightarrow> bool" where
  "published kid answer ks \<longleftrightarrow>
     (\<exists>before j after key. ks = before @ j # after \<and> jk_Kid j = kid \<and> parseJWKKey j = Inr key \<and>
        answer = (key, jk_Alg j, jk_Kty j) \<and> (\<forall>i\<in>set after. jk_Kid i = kid \<longrightarrow> (\<exists>e. parseJWKKey i = Inl e)))"

definition just_fetched ::
  "'w jwks_source \<Rightarrow> string \<Rightarrow> public_key \<times> string \<times> string \<Rightarrow> 'w \<Rightarrow> JWKSCache \<Rightarrow> bool" where
  "just_fetched src kid answer w c \<longleftrightarrow>
     (\<exists>body ks w1. js_Do src w = (Inr (200, body), w1) \<and> decode_jwks body = Inr ks \<and>
        published kid answer ks \<and> jc_lastSuccessAt c = Some (fst (js_Now src w1)))"

lemma new_cache_published:
  "new_cache ks m kid = Some k \<Longrightarrow> published kid (ck_Key k, ck_Alg k, ck_Kty k) ks \<or>
     m kid = Some k \<and> (\<forall>i\<in>set ks. jk_Kid i = kid \<longrightarrow> (\<exists>e. parseJWKKey i = Inl e))"
proof (induction ks m rule: new_cache.induct)
  case (2 j ks m)
  have skip: "published kid q (j # ks)" if "published kid q ks" for q
    using that unfolding published_def by (metis append_Cons)
  show ?case
  proof (cases "parseJWKKey j")
    case (Inl e)
    with 2(1) [OF Inl] 2(3) skip show ?thesis by auto
  next
    case (Inr key)
    let ?q = "\<lparr>ck_Key = key, ck_Alg = jk_Alg j, ck_Kty = jk_Kty j, ck_Kid = jk_Kid j\<rparr>"
    have "new_cache ks (m(jk_Kid j \<mapsto> ?q)) kid = Some k" using 2(3) by (simp only: new_cache.simps Inr sum.case)
    from 2(2) [OF Inr this] consider "published kid (ck_Key k, ck_Alg k, ck_Kty k) ks"
      | "jk_Kid j = kid" "k = ?q" "\<forall>i\<in>set ks. jk_Kid i = kid \<longrightarrow> (\<exists>e. parseJWKKey i = Inl e)"
      | "jk_Kid j \<noteq> kid" "m kid = Some k" "\<forall>i\<in>set ks. jk_Kid i = kid \<longrightarrow> (\<exists>e. parseJWKKey i = Inl e)"
      by (cases "jk_Kid j = kid") auto
    then show ?thesis
    proof cases
      case 2
      have "published kid (ck_Key k, ck_Alg k, ck_Kty k) (j # ks)" unfolding published_def
        by (rule exI [of _ "[]"], rule exI [of _ j], rule exI [of _ ks], rule exI [of _ key]) (use 2 Inr in simp)
      then show ?thesis ..
    qed (use skip in auto)
  qed
qed simp

lemma jwks_hit:
  assumes "jwks_inv (fst s)" and "cacheAge src s = (age, s1)" and "jc_cache (fst s1) kid = Some k" and "age < limit"
  shows "held_younger kid (cached_answer k) limit (fst (js_Now src (snd s))) (fst s)"
  using assms by (cases s; cases "js_Now src (snd s)")
    (auto simp: held_younger_def jwks_inv_def cached_answer_def cacheAge_def split: option.splits prod.splits)

lemma held_fits:
  assumes "jwks_inv c" and "held_younger kid (key, alg, kty) limit now c"
  shows "key_fits key kty"
  using assms by (auto simp: held_younger_def jwks_inv_def ranI)

lemma fetched_key:
  assumes "fetch_key src kid found s = (Inr answer, s')"
  shows "just_fetched src kid answer (snd s) (fst s')"
proof -
  obtain c w where s: "s = (c, w)" by (rule prod.exhaust)
  obtain k where r: "jwks_refresh src (c, w) = (Inr (), s')" "jc_cache (fst s') kid = Some k" "answer = cached_answer k"
    using assms by (auto simp: fetch_key_def s split: prod.splits sum.splits option.splits)
  obtain q w1 where d: "js_Do src w = (q, w1)" by (rule prod.exhaust)
  obtain body ks where q: "q = Inr (200, body)" "decode_jwks body = Inr ks"
    using r(1) d by (auto simp: jwks_refresh_def split: sum.splits if_splits prod.splits)
  have s': "fst s' = c\<lparr>jc_cache := new_cache ks Map.empty, jc_lastSuccessAt := Some (fst (js_Now src w1))\<rparr>"
    using r(1) d q by (auto simp: jwks_refresh_def split: prod.splits)
  have "published kid answer ks"
    using new_cache_published [of ks Map.empty kid k] r(2,3) s' by (auto simp: cached_answer_def)
  with d q s' show ?thesis unfolding just_fetched_def s by auto
qed

lemma published_fits: "published kid (key, alg, kty) ks \<Longrightarrow> key_fits key kty"
  by (auto simp: published_def parse_key_fits)

text \<open>The two ways out of the blocking fetch: another goroutine had fetched meanwhile, or this one fetches.\<close>

lemma fetch_served:
  assumes "jwks_inv (fst (others s))" and "JWKSCache_fetch src others kid found s = (Inr answer, s')"
  defines "s1 \<equiv> others s"
  shows "jwks_inv (fst s') \<and>
    (held_younger kid answer (jc_ttl (fst s1)) (fst (js_Now src (snd s1))) (fst s1) \<or>
     just_fetched src kid answer (snd (snd (cacheAge src s1))) (fst s'))"
proof -
  obtain age s2 where b: "cacheAge src s1 = (age, s2)" by (rule prod.exhaust)
  have s2: "fst s2 = fst s1" "jwks_inv (fst s2)" using cacheAge_same [of src s1] b assms(1) by (simp_all add: s1_def)
  have "(\<exists>k. jc_cache (fst s2) kid = Some k \<and> age < jc_ttl (fst s1) \<and> s' = s2 \<and> answer = cached_answer k) \<or>
      fetch_key src kid found s2 = (Inr answer, s')"
    using assms(2) unfolding JWKSCache_fetch_def s1_def [symmetric] b prod.case s2(1)
    by (cases "jc_cache (fst s1) kid"; cases "age < jc_ttl (fst s1)") simp_all
  then consider k where "jc_cache (fst s2) kid = Some k" "age < jc_ttl (fst s1)" "s' = s2" "answer = cached_answer k"
    | "fetch_key src kid found s2 = (Inr answer, s')" by blast
  then show ?thesis
  proof cases
    case 1
    then show ?thesis using jwks_hit [OF _ b 1(1,2)] assms(1) s2(2) by (simp add: s1_def)
  next
    case 2
    then have "jwks_inv (fst s')" using refresh_inv [OF s2(2)]
      by (auto simp: fetch_key_def split: prod.splits sum.splits option.splits)
    with fetched_key [OF 2] show ?thesis by (simp add: b)
  qed
qed

lemma get_key_served:
  assumes "jwks_inv (fst s)" and "\<And>s. jwks_inv (fst s) \<Longrightarrow> jwks_inv (fst (others s))"
    and "JWKSCache_GetKey src others kid s = (Inr answer, s')"
  defines "s1 \<equiv> others (snd (cacheAge src s))"
  shows "jwks_inv (fst s') \<and>
    (held_younger kid answer (max (jc_ttl (fst s)) (jc_staleMaxAge (fst s))) (fst (js_Now src (snd s))) (fst s) \<or>
     held_younger kid answer (jc_ttl (fst s1)) (fst (js_Now src (snd s1))) (fst s1) \<or>
     just_fetched src kid answer (snd (snd (cacheAge src s1))) (fst s'))"
proof -
  obtain age s0 where a: "cacheAge src s = (age, s0)" by (rule prod.exhaust)
  have s0: "fst s0 = fst s" "jwks_inv (fst s0)" using cacheAge_same [of src s] a assms(1) by simp_all
  have s1: "s1 = others s0" "jwks_inv (fst (others s0))" using a assms(2) [OF s0(2)] by (simp_all add: s1_def)
  have "(\<exists>k. jc_cache (fst s0) kid = Some k \<and> age < max (jc_ttl (fst s)) (jc_staleMaxAge (fst s)) \<and>
      answer = cached_answer k \<and> (s' = s0 \<or> s' = ((fst s0)\<lparr>jc_refreshing := True\<rparr>, snd s0))) \<or>
    (\<exists>found. JWKSCache_fetch src others kid found s0 = (Inr answer, s'))"
  proof (cases "jc_cache (fst s0) kid")
    case None
    with assms(3) show ?thesis unfolding JWKSCache_GetKey_def a prod.case by (cases "kid = []") auto
  next
    case (Some k)
    with assms(3) show ?thesis unfolding JWKSCache_GetKey_def a prod.case s0(1)
      by (cases "kid = []"; cases "age < jc_ttl (fst s)"; cases "age < jc_staleMaxAge (fst s)") auto
  qed
  then consider k where "jc_cache (fst s0) kid = Some k" "age < max (jc_ttl (fst s)) (jc_staleMaxAge (fst s))"
      "answer = cached_answer k" "s' = s0 \<or> s' = ((fst s0)\<lparr>jc_refreshing := True\<rparr>, snd s0)"
    | found where "JWKSCache_fetch src others kid found s0 = (Inr answer, s')" by blast
  then show ?thesis
  proof cases
    case 1
    have "jwks_inv (c\<lparr>jc_refreshing := b\<rparr>) = jwks_inv c" for c b by (simp add: jwks_inv_def)
    with 1(4) s0(2) have "jwks_inv (fst s')" by auto
    with jwks_hit [OF assms(1) a 1(1,2)] 1(3) show ?thesis by simp
  next
    case 2
    show ?thesis using fetch_served [OF s1(2) 2] s1(1) by simp
  qed
qed

lemma served_key_fits:
  assumes "jwks_inv (fst s)" and "\<And>s. jwks_inv (fst s) \<Longrightarrow> jwks_inv (fst (others s))"
    and "JWKSCache_GetKey src others kid s = (Inr (key, alg, kty), s')"
  shows "key_fits key kty"
proof -
  have "jwks_inv (fst (others (snd (cacheAge src s))))" using assms(1,2) by (simp add: cacheAge_same)
  then show ?thesis using get_key_served [OF assms] held_fits [of _ kid key alg kty] published_fits [of kid key alg kty]
    assms(1) by (auto simp: just_fetched_def)
qed

text \<open>
  C34: The cache serves recent keys of the right type. Take a cache that satisfies the invariant
  (for instance a new one), and let the other goroutines keep it. A key that GetKey returns is an
  RSA or an EC key as its kty says, and has one of three origins. It is the entry of the asked kid
  in the cache as the call found it, and by the clock as the call read it the fetch of that cache
  succeeded less than the larger of the two ages ago; or it is the entry of the cache as another
  goroutine left it while the call waited for its turn, and by the call's second reading of the
  clock that fetch is younger than the time to live; or the call itself fetched, the issuer
  answered 200, and the key is the last one of that kid that parses in the answer, which the cache
  keeps with the time at which the answer was read.
\<close>

theorem jwks_serves_recent_keys:
  assumes "jwks_inv (fst s)" and "\<And>s. jwks_inv (fst s) \<Longrightarrow> jwks_inv (fst (others s))"
    and "JWKSCache_GetKey src others kid s = (Inr (key, alg, kty), s')"
  defines "found \<equiv> fst s" and "waited \<equiv> others (snd (cacheAge src s))"
  shows "jwks_inv (fst s') \<and> (case key of RSAKey n e \<Rightarrow> kty = ''RSA'' | ECKey crv x y \<Rightarrow> kty = ''EC'') \<and>
    ((\<exists>k t. jc_cache found kid = Some k \<and> (key, alg, kty) = (ck_Key k, ck_Alg k, ck_Kty k) \<and>
        jc_lastSuccessAt found = Some t \<and>
        fst (js_Now src (snd s)) - t < max (jc_ttl found) (jc_staleMaxAge found)) \<or>
     (\<exists>k t. jc_cache (fst waited) kid = Some k \<and> (key, alg, kty) = (ck_Key k, ck_Alg k, ck_Kty k) \<and>
        jc_lastSuccessAt (fst waited) = Some t \<and>
        fst (js_Now src (snd waited)) - t < jc_ttl (fst waited)) \<or>
     (\<exists>body ks w1. js_Do src (snd (snd (cacheAge src waited))) = (Inr (200, body), w1) \<and>
        decode_jwks body = Inr ks \<and> published kid (key, alg, kty) ks \<and>
        jc_lastSuccessAt (fst s') = Some (fst (js_Now src w1))))"
  using get_key_served [OF assms(1-3)] served_key_fits [OF assms(1-3)]
  unfolding assms(4,5) held_younger_def just_fetched_def key_fits_def by blast

definition sample_jwks :: json where
  "sample_jwks = JObject [(''keys'', JArray [JObject [(''kid'', JString ''k1''), (''kty'', JString ''RSA''),
     (''alg'', JString ''RS256''), (''n'', JString ''DKE''), (''e'', JString ''EQ'')]])]"

text \<open>A clock that advances by two hours at each reading, and an issuer that answers once.\<close>

definition sample_source :: "int jwks_source" where
  "sample_source = \<lparr>js_Now = (\<lambda>n. (n, n + 7200 * nanosecond)),
     js_Do = (\<lambda>n. (if n = 0 then Inr (200, Some sample_jwks) else Inl (LibError ''the issuer is down''), n))\<rparr>"

definition sample_filled :: JWKSCache where
  "sample_filled = NewJWKSCache\<lparr>jc_cache := [''k1'' \<mapsto> \<lparr>ck_Key = RSAKey 3233 17, ck_Alg = ''RS256'',
     ck_Kty = ''RSA'', ck_Kid = ''k1''\<rparr>], jc_lastSuccessAt := Some 0\<rparr>"

lemma sample_fetch:
  "JWKSCache_GetKey sample_source id ''k1'' (NewJWKSCache, 0) =
     (Inr (RSAKey 3233 17, ''RS256'', ''RSA''), (sample_filled, 7200 * nanosecond))"
proof -
  have "SetBytes [12, 161] = 3233" "SetBytes [17] = 17" by (simp_all add: SetBytes_def)
  moreover have "RawURL_DecodeString ''DKE'' = Some [12, 161]" "RawURL_DecodeString ''EQ'' = Some [17]"
    by (simp_all add: RawURL_DecodeString_def base64url_value_def)
  ultimately have "parseRSAKey \<lparr>jk_Kid = ''k1'', jk_Kty = ''RSA'', jk_Alg = ''RS256'', jk_Use = [],
      jk_N = ''DKE'', jk_E = ''EQ'', jk_Crv = [], jk_X = [], jk_Y = []\<rparr> = Inr (RSAKey 3233 17)"
    by (simp add: parseRSAKey_def)
  moreover have "decode_jwks (Some sample_jwks) = Inr [\<lparr>jk_Kid = ''k1'', jk_Kty = ''RSA'', jk_Alg = ''RS256'',
      jk_Use = [], jk_N = ''DKE'', jk_E = ''EQ'', jk_Crv = [], jk_X = [], jk_Y = []\<rparr>]"
    by (simp add: decode_jwks_def decode_object_def sample_jwks_def set_keys_def decode_jwk_def set_string_def
        to_lower_def both_def Let_def)
  ultimately show ?thesis
    by (simp add: JWKSCache_GetKey_def cacheAge_def NewJWKSCache_def JWKSCache_fetch_def fetch_key_def
        jwks_refresh_def sample_source_def parseJWKKey_def cached_answer_def sample_filled_def)
qed

lemma sample_stale_hit:
  "JWKSCache_GetKey sample_source id ''k1'' (sample_filled, 7200 * nanosecond) =
     (Inr (RSAKey 3233 17, ''RS256'', ''RSA''), (sample_filled\<lparr>jc_refreshing := True\<rparr>, 14400 * nanosecond))"
  by (simp add: JWKSCache_GetKey_def cacheAge_def sample_filled_def NewJWKSCache_def sample_source_def
      cached_answer_def nanosecond_def)

text \<open>A first call fetches the key; two hours later, with the issuer down, the cache still serves it.\<close>

theorem jwks_serves_recent_keys_witness:
  "jwks_inv sample_filled \<and> jwks_inv (sample_filled\<lparr>jc_refreshing := True\<rparr>) \<and>
   (\<exists>ks. decode_jwks (Some sample_jwks) = Inr ks \<and> published ''k1'' (RSAKey 3233 17, ''RS256'', ''RSA'') ks) \<and>
   (\<exists>t. jc_lastSuccessAt sample_filled = Some t \<and> 7200 * nanosecond - t < 4 * 3600 * nanosecond)"
proof -
  have start: "jwks_inv (fst (NewJWKSCache, 0 :: int))" by (simp add: NewJWKSCache_inv)
  have first: "jwks_inv sample_filled"
    "\<exists>ks. decode_jwks (Some sample_jwks) = Inr ks \<and> published ''k1'' (RSAKey 3233 17, ''RS256'', ''RSA'') ks"
    using jwks_serves_recent_keys [OF start _ sample_fetch]
    by (auto simp: sample_source_def cacheAge_def NewJWKSCache_def)
  from first(1) have "jwks_inv (fst (sample_filled, 7200 * nanosecond))" by simp
  from jwks_serves_recent_keys [OF this _ sample_stale_hit]
  have "jwks_inv (sample_filled\<lparr>jc_refreshing := True\<rparr>)"
    "\<exists>t. jc_lastSuccessAt sample_filled = Some t \<and> 7200 * nanosecond - t < 4 * 3600 * nanosecond"
    by (auto simp: sample_source_def cacheAge_def sample_filled_def NewJWKSCache_def nanosecond_def)
  with first show ?thesis by blast
qed

text \<open>
  EdDSA never works. The validator allows the algorithm EdDSA and asks for a key of type OKP,
  but the cache, its provider in production, reads RSA and EC keys only: with it every token whose
  header says EdDSA is refused, whatever the issuer publishes and whatever the list of allowed
  algorithms.
\<close>

lemma eddsa_never_accepted:
  assumes "jwks_inv (fst s)" and "\<And>s. jwks_inv (fst s) \<Longrightarrow> jwks_inv (fst (others s))"
    and "tv_GetKey v = JWKSCache_GetKey src others" and "extractHeader lib tok = Inr (''EdDSA'', kid)"
  shows "\<exists>e s'. Verify lib v tok s = (Inl e, s')"
proof (rule ccontr)
  assume "\<not> ?thesis"
  moreover obtain r s' where run: "Verify lib v tok s = (r, s')" by (cases "Verify lib v tok s")
  ultimately obtain vt where "r = Inr vt" by (cases r) auto
  with verify_core [of lib v tok s vt s'] run assms(4) obtain key jalg kty s1 where
    k: "tv_GetKey v kid s = (Inr (key, jalg, kty), s1)" and kty: "checkAlgKTYConsistency ''EdDSA'' kty = Inr ()"
    by auto
  have "kty = ''OKP''" using kty by (auto simp: checkAlgKTYConsistency_def HasPrefix_def split: if_splits)
  moreover have "key_fits key kty" using served_key_fits [OF assms(1,2) k [unfolded assms(3)]] .
  ultimately show False by (simp add: key_fits_def split: public_key.splits)
qed

end
