(* ===== verification/Refresh.thy ===== *)
theory Refresh
  imports Authz Audit_Events
begin

text \<open>
  internal/auth/refresh.go: the rotation of refresh tokens and the logout. The store of revoked
  ids and of token families is an interface; its implementation in the code, RedisRefreshStore, is
  a stub. The verifier of tokens is that of Token_Validator (or none, the stub mode), the issuer of
  new tokens an interface. A log entry is an audit event without resource.
\<close>

record 's RefreshTokenStore =
  rs_BlacklistJTI :: "string \<Rightarrow> time \<Rightarrow> ('s, unit) eff"
  rs_IsBlacklisted :: "string \<Rightarrow> ('s, bool) eff"
  rs_InvalidateFamily :: "string \<Rightarrow> ('s, unit) eff"
  rs_AddToFamily :: "string \<Rightarrow> string \<Rightarrow> time \<Rightarrow> ('s, unit) eff"
  rs_GetFamilyMembers :: "string \<Rightarrow> ('s, string list) eff"

text \<open>FamilyFinder is an optional interface of the store.\<close>

type_synonym 's FamilyFinder = "string \<Rightarrow> ('s, string) eff"

record RefreshTokenPair =
  rp_AccessToken :: string
  rp_RefreshToken :: string

record 's RefreshService =
  sv_store :: "'s RefreshTokenStore"
  sv_finder :: "'s FamilyFinder option"
  sv_validator :: "'s verifier option"
  sv_IssueTokenPair :: "string \<Rightarrow> string \<Rightarrow> ('s, RefreshTokenPair) eff"
  sv_LogEvent :: "(audit_event \<Rightarrow> ('s, unit) eff) option"
  sv_Now :: "'s \<Rightarrow> time \<times> 's"

definition RedisRefreshStore :: "'s RefreshTokenStore" where
  "RedisRefreshStore = \<lparr>rs_BlacklistJTI = (\<lambda>jti expiry. retn ()), rs_IsBlacklisted = (\<lambda>jti. retn False),
     rs_InvalidateFamily = (\<lambda>familyID. retn ()), rs_AddToFamily = (\<lambda>familyID jti expiry. retn ()),
     rs_GetFamilyMembers = (\<lambda>familyID. retn [])\<rparr>"

definition claim_string :: "ValidatedToken \<Rightarrow> string \<Rightarrow> string" where
  "claim_string vt k = (case vt_Claims vt k of Some (JString s) \<Rightarrow> s | _ \<Rightarrow> [])"

section \<open>Rotation\<close>

text \<open>The loop over the members of the family.\<close>

fun check_members :: "'s RefreshTokenStore \<Rightarrow> string \<Rightarrow> string \<Rightarrow> string list \<Rightarrow> ('s, unit) eff" where
  "check_members st jti familyID [] = retn ()"
| "check_members st jti familyID (memberJTI # ms) =
     (if memberJTI = jti then check_members st jti familyID ms
      else callw (rs_IsBlacklisted st memberJTI) (wrap1 ''blacklist lookup of a member failed'') (\<lambda>bl.
        if bl
        then callw (rs_InvalidateFamily st familyID) (wrap1 ''invalidation of the family failed'') (\<lambda>_.
          throw (wrap1 ''refresh token reuse'' (Sentinel ErrRefreshTokenReuseDetected)))
        else check_members st jti familyID ms))"

definition doRefresh ::
  "'s RefreshService \<Rightarrow> string \<Rightarrow> string \<Rightarrow> string \<Rightarrow> string list \<Rightarrow> time \<Rightarrow> ('s, RefreshTokenPair) eff" where
  "doRefresh sv jti familyID userID scopes expiry =
     (let st = sv_store sv in
      callw (rs_IsBlacklisted st jti) (wrap1 ''blacklist lookup failed'') (\<lambda>blacklisted.
      if blacklisted then throw (wrap1 ''blacklisted refresh token'' (Sentinel ErrTokenBlacklisted))
      else callw (rs_GetFamilyMembers st familyID) (wrap1 ''family lookup failed'') (\<lambda>members.
      call (check_members st jti familyID members) (\<lambda>_.
      callw (rs_AddToFamily st familyID jti expiry) (wrap1 ''family registration failed'') (\<lambda>_.
      callw (sv_IssueTokenPair sv userID familyID) (wrap1 ''token issue failed'') retn)))))"

definition stub_prefix :: string where
  "stub_prefix = ''reused.refresh.token.''"

definition extractFamilyAndJTIFromStubToken :: "string \<Rightarrow> string \<times> string" where
  "extractFamilyAndJTIFromStubToken tokenString =
     (if length tokenString \<le> length stub_prefix \<or> take (length stub_prefix) tokenString \<noteq> stub_prefix then ([], [])
      else let rest = drop (length stub_prefix) tokenString;
               p = takeWhile (\<lambda>c. c \<noteq> CHR ''.'') rest; q = dropWhile (\<lambda>c. c \<noteq> CHR ''.'') rest
           in case q of [] \<Rightarrow> ([], rest) | d # r \<Rightarrow> (p, r))"

definition detectReuseOrError :: "'s RefreshService \<Rightarrow> string \<Rightarrow> ('s, RefreshTokenPair) eff" where
  "detectReuseOrError sv tokenString = (case extractFamilyAndJTIFromStubToken tokenString of (familyID, jti) \<Rightarrow>
     if jti = [] then throw (wrap1 ''refresh token'' (Sentinel ErrTokenInvalidSignature))
     else callw (rs_IsBlacklisted (sv_store sv) jti) (wrap1 ''blacklist lookup failed'') (\<lambda>blacklisted.
       if \<not> blacklisted then throw (wrap1 ''invalid refresh token'' (Sentinel ErrTokenInvalidSignature))
       else callw (case sv_finder sv of Some finder \<Rightarrow> if familyID = [] then finder jti else retn familyID
                   | None \<Rightarrow> retn familyID) (wrap1 ''reverse lookup of the family failed'') (\<lambda>resolved.
         callw (if resolved \<noteq> [] then rs_InvalidateFamily (sv_store sv) resolved else retn ())
           (wrap1 ''invalidation of the family failed'') (\<lambda>_.
         throw (wrap1 ''blacklisted refresh token'' (Sentinel ErrRefreshTokenReuseDetected))))))"

definition refreshSessionStub :: "'s RefreshService \<Rightarrow> string \<Rightarrow> ('s, RefreshTokenPair) eff" where
  "refreshSessionStub sv tokenString =
     (if tokenString = ''valid.refresh.token''
      then callw (sv_IssueTokenPair sv ''test-user'' ''test-family'') (wrap1 ''token issue failed'') retn
      else detectReuseOrError sv tokenString)"

definition RefreshSession :: "'s RefreshService \<Rightarrow> string \<Rightarrow> ('s, RefreshTokenPair) eff" where
  "RefreshSession sv oldRefreshToken = (case sv_validator sv of
     None \<Rightarrow> refreshSessionStub sv oldRefreshToken
   | Some verify \<Rightarrow>
       callw (verify oldRefreshToken) (wrap1 ''refresh token verification failed'') (\<lambda>vt.
       let jti = claim_string vt ''jti''; familyID = claim_string vt ''family_id''
       in if jti = [] \<or> familyID = []
          then throw (wrap1 ''refresh token without jti or family_id'' (Sentinel ErrTokenInvalidSignature))
          else doRefresh sv jti familyID (vt_Subject vt) (vt_Scopes vt) (vt_ExpiresAt vt)))"

section \<open>Logout\<close>

definition log_logout :: "'s RefreshService \<Rightarrow> string \<Rightarrow> ('s, unit) eff" where
  "log_logout sv user = (case sv_LogEvent sv of None \<Rightarrow> retn ()
   | Some write \<Rightarrow> call (always (sv_Now sv)) (\<lambda>now.
       callw (write \<lparr>ev_Timestamp = now, ev_Action = ActionAuthLogout, ev_ResourceType = [], ev_UserID = user,
                ev_Details = None, ev_ResourceID = uuid_Nil\<rparr>) (wrap1 ''audit event failed'') (\<lambda>_. retn ())))"

definition isValidStubToken :: "string \<Rightarrow> bool" where
  "isValidStubToken token \<longleftrightarrow> 2 \<le> length (List.filter (\<lambda>c. c = CHR ''.'') token)"

definition logoutStub :: "'s RefreshService \<Rightarrow> string \<Rightarrow> string \<Rightarrow> ('s, unit) eff" where
  "logoutStub sv accessToken refreshToken =
     (if \<not> isValidStubToken refreshToken
      then throw (wrap1 ''refresh token format'' (Sentinel ErrTokenInvalidSignature))
      else log_logout sv ''test-user'')"

definition doLogout :: "'s RefreshService \<Rightarrow> ValidatedToken \<Rightarrow> ValidatedToken \<Rightarrow> ('s, unit) eff" where
  "doLogout sv access refresh =
     (let accessJTI = claim_string access ''jti''; refreshJTI = claim_string refresh ''jti''
      in callw (if accessJTI \<noteq> [] then rs_BlacklistJTI (sv_store sv) accessJTI (vt_ExpiresAt access) else retn ())
           (wrap1 ''blacklisting of the access token failed'') (\<lambda>_.
         callw (if refreshJTI \<noteq> [] then rs_BlacklistJTI (sv_store sv) refreshJTI (vt_ExpiresAt refresh) else retn ())
           (wrap1 ''blacklisting of the refresh token failed'') (\<lambda>_.
         log_logout sv (vt_Subject access))))"

definition Logout :: "'s RefreshService \<Rightarrow> string \<Rightarrow> string \<Rightarrow> ('s, unit) eff" where
  "Logout sv accessToken refreshToken = (case sv_validator sv of
     None \<Rightarrow> logoutStub sv accessToken refreshToken
   | Some verify \<Rightarrow>
       callw (verify accessToken) (wrap1 ''access token verification failed'') (\<lambda>access.
       callw (verify refreshToken) (wrap1 ''refresh token verification failed'') (\<lambda>refresh.
       doLogout sv access refresh)))"

section \<open>The contract of the store\<close>

text \<open>
  What the documentation of the interface promises, over the set of revoked ids: a lookup tells
  whether the id is revoked, lookups and registrations revoke nothing, and each of the two
  revocations revokes at most what it is asked for.
\<close>

locale refresh_store =
  fixes st :: "'s RefreshTokenStore" and revoked :: "'s \<Rightarrow> string set"
  assumes lookup_answer: "rs_IsBlacklisted st jti s = (Inr b, s') \<Longrightarrow> b \<longleftrightarrow> jti \<in> revoked s"
    and lookup_keeps: "keeps revoked (rs_IsBlacklisted st jti)"
    and members_keeps: "keeps revoked (rs_GetFamilyMembers st familyID)"
    and add_keeps: "keeps revoked (rs_AddToFamily st familyID jti expiry)"
begin

text \<open>A rotation that gets as far as issuing a token found no other member of the family revoked.\<close>

lemma members_clean:
  "check_members st jti familyID ms s = (Inr u, s') \<Longrightarrow> \<forall>m\<in>set ms. m \<noteq> jti \<longrightarrow> m \<notin> revoked s"
proof (induction ms arbitrary: s)
  case (Cons m ms)
  show ?case
  proof (cases "m = jti")
    case True
    with Cons show ?thesis by simp
  next
    case False
    with Cons.prems obtain s1 where l: "rs_IsBlacklisted st m s = (Inr False, s1)" and
      r: "check_members st jti familyID ms s1 = (Inr u, s')"
      by (auto simp: eff_simps split: if_splits)
    have "m \<notin> revoked s" using lookup_answer [OF l] by simp
    moreover have "revoked s1 = revoked s" using keepsD [OF lookup_keeps l] .
    ultimately show ?thesis using Cons.IH [OF r] by auto
  qed
qed simp

lemma members_keep: "check_members st jti familyID ms s = (Inr u, s') \<Longrightarrow> revoked s' = revoked s"
proof (induction ms arbitrary: s)
  case (Cons m ms)
  show ?case
  proof (cases "m = jti")
    case True
    with Cons show ?thesis by simp
  next
    case False
    with Cons.prems obtain s1 where l: "rs_IsBlacklisted st m s = (Inr False, s1)" and
      r: "check_members st jti familyID ms s1 = (Inr u, s')"
      by (auto simp: eff_simps split: if_splits)
    show ?thesis using Cons.IH [OF r] keepsD [OF lookup_keeps l] by simp
  qed
qed simp

text \<open>What a rotation that succeeds has checked, and that it revokes nothing.\<close>

lemma refresh_ok:
  assumes "sv_store sv = st" and "keeps revoked (sv_IssueTokenPair sv userID familyID)"
    and "doRefresh sv jti familyID userID scopes expiry s = (Inr p, s')"
  shows "jti \<notin> revoked s \<and> revoked s' = revoked s \<and>
    (\<exists>s1 ms s2. rs_IsBlacklisted st jti s = (Inr False, s1) \<and>
       rs_GetFamilyMembers st familyID s1 = (Inr ms, s2) \<and> (\<forall>m\<in>set ms. m \<notin> revoked s))"
proof -
  from assms(1,3) obtain s1 ms s2 s3 s4 where l: "rs_IsBlacklisted st jti s = (Inr False, s1)"
    and m: "rs_GetFamilyMembers st familyID s1 = (Inr ms, s2)" and c: "check_members st jti familyID ms s2 = (Inr (), s3)"
    and a: "rs_AddToFamily st familyID jti expiry s3 = (Inr (), s4)" and i: "sv_IssueTokenPair sv userID familyID s4 = (Inr p, s')"
    by (auto simp: doRefresh_def Let_def eff_simps split: if_splits)
  have "revoked s2 = revoked s" using keepsD [OF lookup_keeps l] keepsD [OF members_keeps m] by simp
  moreover have "revoked s' = revoked s2"
    using members_keep [OF c] keepsD [OF add_keeps a] keepsD [OF assms(2) i] by simp
  ultimately show ?thesis using lookup_answer [OF l] members_clean [OF c] l m by auto
qed

end

text \<open>The store of the code: nothing is ever revoked.\<close>

interpretation redis: refresh_store RedisRefreshStore "\<lambda>_. {}"
  by unfold_locales (auto simp: RedisRefreshStore_def intro: eff_intros)

end
