(* ===== verification/Refresh_Properties.thy ===== *)
theory Refresh_Properties
  imports Refresh Token_Properties
begin

text \<open>
  What a rotation of a refresh token checks, and what it leaves undone.
\<close>

text \<open>
  C36: What a rotation that succeeds has checked. For every store that keeps the contract of its
  interface (a lookup tells whether an id is revoked; lookups and registrations revoke nothing) and
  an issuer that revokes nothing: if doRefresh returns a token pair, then the id of the token was not
  revoked when it was called, nor was any member of the family that the store names to this call,
  right after its lookup of the id; and the revoked ids are the same afterwards, so the old token
  is not revoked by the rotation and can be presented again.
\<close>

theorem refresh_checks_family:
  assumes "\<And>j s b s'. rs_IsBlacklisted (sv_store sv) j s = (Inr b, s') \<Longrightarrow> b \<longleftrightarrow> j \<in> revoked s"
    and "\<And>j. keeps revoked (rs_IsBlacklisted (sv_store sv) j)"
    and "\<And>f. keeps revoked (rs_GetFamilyMembers (sv_store sv) f)"
    and "\<And>f j t. keeps revoked (rs_AddToFamily (sv_store sv) f j t)"
    and "keeps revoked (sv_IssueTokenPair sv userID familyID)"
    and "doRefresh sv jti familyID userID scopes expiry s = (Inr p, s')"
  shows "jti \<notin> revoked s \<and> jti \<notin> revoked s' \<and> revoked s' = revoked s \<and>
    (\<exists>s1 ms s2. rs_IsBlacklisted (sv_store sv) jti s = (Inr False, s1) \<and>
       rs_GetFamilyMembers (sv_store sv) familyID s1 = (Inr ms, s2) \<and> (\<forall>m\<in>set ms. m \<notin> revoked s))"
proof -
  have "refresh_store (sv_store sv) revoked" by unfold_locales (use assms(1-4) in auto)
  from refresh_store.refresh_ok [OF this refl assms(5,6)] show ?thesis by auto
qed

definition sample_pair :: RefreshTokenPair where
  "sample_pair = \<lparr>rp_AccessToken = ''a'', rp_RefreshToken = ''r''\<rparr>"

lemma redis_refresh:
  assumes "sv_store sv = RedisRefreshStore"
  shows "doRefresh sv jti familyID userID scopes expiry s =
    callw (sv_IssueTokenPair sv userID familyID) (wrap1 ''token issue failed'') retn s"
  by (simp add: doRefresh_def assms RedisRefreshStore_def Let_def callw_def call_def retn_def)

text \<open>A store that keeps its contract: the revoked ids and the members of its one family.\<close>

definition sample_store :: "(string list \<times> string list) RefreshTokenStore" where
  "sample_store = \<lparr>rs_BlacklistJTI = (\<lambda>jti expiry (rs, ms). (Inr (), (jti # rs, ms))),
     rs_IsBlacklisted = (\<lambda>jti (rs, ms). (Inr (jti \<in> set rs), (rs, ms))),
     rs_InvalidateFamily = (\<lambda>familyID (rs, ms). (Inr (), (ms @ rs, []))),
     rs_AddToFamily = (\<lambda>familyID jti expiry (rs, ms). (Inr (), (rs, List.insert jti ms))),
     rs_GetFamilyMembers = (\<lambda>familyID (rs, ms). (Inr ms, (rs, ms)))\<rparr>"

definition sample_service :: "(string list \<times> string list) RefreshService" where
  "sample_service = \<lparr>sv_store = sample_store, sv_finder = None, sv_validator = None,
     sv_IssueTokenPair = (\<lambda>u f. retn sample_pair), sv_LogEvent = None, sv_Now = (\<lambda>s. (0, s))\<rparr>"

text \<open>
  With the member t0 in the family and t9 revoked, t1 is rotated; with t0 revoked, the rotation of
  t1 is refused as a reuse, and the whole family is revoked.
\<close>

theorem refresh_checks_family_witness:
  "''t0'' \<notin> set [''t9''] \<and>
   doRefresh sample_service ''t1'' ''f1'' ''kim'' [] 0 ([''t9''], [''t0'', ''t1'']) =
     (Inr sample_pair, ([''t9''], [''t0'', ''t1''])) \<and>
   doRefresh sample_service ''t1'' ''f1'' ''kim'' [] 0 ([''t0''], [''t0'', ''t1'']) =
     (Inl (wrap1 ''refresh token reuse'' (Sentinel ErrRefreshTokenReuseDetected)), ([''t0'', ''t1'', ''t0''], []))"
proof -
  have run: "doRefresh sample_service ''t1'' ''f1'' ''kim'' [] 0 ([''t9''], [''t0'', ''t1'']) =
      (Inr sample_pair, ([''t9''], [''t0'', ''t1'']))"
    "doRefresh sample_service ''t1'' ''f1'' ''kim'' [] 0 ([''t0''], [''t0'', ''t1'']) =
      (Inl (wrap1 ''refresh token reuse'' (Sentinel ErrRefreshTokenReuseDetected)), ([''t0'', ''t1'', ''t0''], []))"
    by (simp_all add: doRefresh_def sample_service_def sample_store_def Let_def callw_def call_def retn_def throw_def)
  have "''t0'' \<notin> set [''t9'']"
    using refresh_checks_family [where revoked = "\<lambda>s. set (fst s)", OF _ _ _ _ _ run(1)]
    by (auto simp: sample_service_def sample_store_def keeps_def retn_def)
  with run show ?thesis by blast
qed

text \<open>
  A refresh token can be used again and again, and after a logout. With the store of the code,
  as long as the verifier accepts the token and the issuer issues, RefreshSession with the same
  token succeeds after any number of earlier rotations of it and after a Logout with it.
\<close>

lemma refresh_token_replayable:
  assumes "sv_store sv = RedisRefreshStore" and "sv_validator sv = Some verify"
    and "\<And>s. \<exists>vt s'. verify tok s = (Inr vt, s') \<and> claim_string vt ''jti'' \<noteq> [] \<and> claim_string vt ''family_id'' \<noteq> []"
    and "\<And>u f s. \<exists>p s'. sv_IssueTokenPair sv u f s = (Inr p, s')"
  shows "\<exists>p s'. RefreshSession sv tok (((\<lambda>s. snd (RefreshSession sv tok s)) ^^ n) s) = (Inr p, s') \<and>
    (\<exists>p s'. RefreshSession sv tok (snd (Logout sv access tok s)) = (Inr p, s'))"
proof -
  have "\<exists>p s'. RefreshSession sv tok s = (Inr p, s')" for s
  proof -
    obtain vt s1 where v: "verify tok s = (Inr vt, s1)" "claim_string vt ''jti'' \<noteq> []" "claim_string vt ''family_id'' \<noteq> []"
      using assms(3) by blast
    obtain p s2 where "sv_IssueTokenPair sv (vt_Subject vt) (claim_string vt ''family_id'') s1 = (Inr p, s2)"
      using assms(4) by blast
    with v assms(1,2) show ?thesis
      by (simp add: RefreshSession_def Let_def redis_refresh retn_def)
  qed
  then show ?thesis by blast
qed

end
