(* ===== verification/Eval_Item_Store.thy ===== *)
theory Eval_Item_Store
  imports Database Recorder
begin

text \<open>
  internal/store/eval_item.go: the tree of evaluation items, kept as rows with a parent. The store
  checks that a parent exists, that the status is a known one, and that an item with children keeps
  its parent and level; the audit event is written by the caller. The entities are those of
  store.go. \<^verbatim>\<open>c\<close> is the codec between float64 and NUMERIC, \<^verbatim>\<open>coll\<close> the rank of a text in the
  collation of the database.
\<close>

record EvalItem =
  evi_Metadata :: metadata
  evi_CreatedAt :: time
  evi_UpdatedAt :: time
  evi_ParentID :: "string option"
  evi_Level :: "int option"
  evi_Weight :: "float64 option"
  evi_MaxScore :: "int option"
  evi_ID :: string
  evi_DisplayName :: string
  evi_Description :: string
  evi_HierarchyCode :: string
  evi_Status :: string
  evi_CreatedBy :: string

text \<open>A field of type **string is an option of an option: no request, NULL, or a parent.\<close>

record EvalItemUpdate =
  eiu_ParentID :: "string option option"
  eiu_Level :: "int option"
  eiu_DisplayName :: "string option"
  eiu_Description :: "string option"
  eiu_Weight :: "float64 option"
  eiu_MaxScore :: "int option"
  eiu_Status :: "string option"
  eiu_Metadata :: "metadata option"

record 's EvalItemTx =
  etx_InsertEvalItem :: "string \<Rightarrow> string option \<Rightarrow> string \<Rightarrow> string \<Rightarrow> int option \<Rightarrow> string \<Rightarrow>
    float64 option \<Rightarrow> int option \<Rightarrow> metadata \<Rightarrow> ('s, string) eff"
  etx_GetEvalItemByID :: "string \<Rightarrow> ('s, EvalItem) eff"
  etx_GetEvalItemsByParentID :: "string \<Rightarrow> ('s, EvalItem list) eff"
  etx_UpdateEvalItem :: "string \<Rightarrow> EvalItemUpdate \<Rightarrow> ('s, unit) eff"
  etx_InsertAuditLog :: "audit_event \<Rightarrow> ('s, unit) eff"
  etx_Commit :: "('s, unit) eff"
  etx_Rollback :: "('s, unit) eff"

definition maxEvalItemIDLen :: nat where
  "maxEvalItemIDLen = 64"

definition validateEvalItemInput :: "string \<Rightarrow> string \<Rightarrow> string \<Rightarrow> goerr + unit" where
  "validateEvalItemInput i displayName hierarchyCode =
     (if i = [] then Inl (wrap1 ''id is empty'' (Sentinel ErrEvalItemInvalidInput))
      else if length i > maxEvalItemIDLen then Inl (wrap1 ''id too long'' (Sentinel ErrEvalItemInvalidInput))
      else if displayName = [] then Inl (wrap1 ''display_name is empty'' (Sentinel ErrEvalItemInvalidInput))
      else if hierarchyCode = [] then Inl (wrap1 ''hierarchy_code is empty'' (Sentinel ErrEvalItemInvalidInput))
      else Inr ())"

definition allowedEvalItemStatus :: "string list" where
  "allowedEvalItemStatus = [''ACTIVE'', ''DEPRECATED'', ''ARCHIVED'']"

definition validateStatusTransition :: "EvalItemUpdate \<Rightarrow> goerr + unit" where
  "validateStatusTransition upd = (case eiu_Status upd of
     None \<Rightarrow> Inr ()
   | Some q \<Rightarrow> if q \<in> set allowedEvalItemStatus then Inr ()
       else Inl (wrap1 ''status not allowed'' (Sentinel ErrEvalItemInvalidStatus)))"

definition marshalEvalItemMetadata :: "metadata \<Rightarrow> goerr + metadata option" where
  "marshalEvalItemMetadata md = (if md = [] then Inr None else Inr (Some md))"

definition nullIfEmpty :: "string \<Rightarrow> string option" where
  "nullIfEmpty s = (if s = [] then None else Some s)"

section \<open>The statements\<close>

definition opt_varchar :: "nat \<Rightarrow> string option \<Rightarrow> bool" where
  "opt_varchar n x = (case x of None \<Rightarrow> True | Some s \<Rightarrow> varchar n s)"

definition eval_item_row_error :: "eval_item_row \<Rightarrow> goerr option" where
  "eval_item_row_error r =
     (if \<not> varchar 64 (ei_id r) \<or> \<not> opt_varchar 64 (ei_parent_id r) \<or> \<not> varchar 256 (ei_display_name r) \<or>
         \<not> varchar 128 (ei_hierarchy_code r) \<or> \<not> varchar 32 (ei_status r) \<or> \<not> varchar 64 (ei_created_by r)
      then Some (PgError ''22001'')
      else if ei_status r \<notin> set [''ACTIVE'', ''DEPRECATED'', ''ARCHIVED''] then Some (PgError ''23514'')
      else None)"

text \<open>The foreign key of parent_id, checked on the table after the statement.\<close>

definition parent_exists :: "eval_item_row \<Rightarrow> eval_item_row list \<Rightarrow> bool" where
  "parent_exists r rs = (case ei_parent_id r of None \<Rightarrow> True | Some p \<Rightarrow> p \<in> ei_id ` set rs)"

definition insert_eval_item_stmt ::
  "num_codec \<Rightarrow> string \<Rightarrow> string option \<Rightarrow> string \<Rightarrow> string option \<Rightarrow> int option \<Rightarrow> string \<Rightarrow> float64 option \<Rightarrow>
   int option \<Rightarrow> metadata option \<Rightarrow> string statement" where
  "insert_eval_item_stmt c i parentID displayName description level hierarchyCode weight maxScore metaJSON =
     (\<lambda>now u d. case to_numeric_opt c 5 4 weight of Inl e \<Rightarrow> Inl e | Inr nw \<Rightarrow>
      let r = \<lparr>ei_id = i, ei_parent_id = parentID, ei_display_name = displayName, ei_description = description,
               ei_level = level, ei_hierarchy_code = hierarchyCode, ei_weight = nw, ei_max_score = maxScore,
               ei_status = ''ACTIVE'', ei_metadata = metaJSON, ei_created_at = now,
               ei_created_by = ''cli-anonymous'', ei_updated_at = now\<rparr>
      in case eval_item_row_error r of
           Some e \<Rightarrow> Inl e
         | None \<Rightarrow>
             if i \<in> ei_id ` set (db_eval_items d) \<or> hierarchyCode \<in> ei_hierarchy_code ` set (db_eval_items d)
             then Inl (PgError ''23505'')
             else if \<not> parent_exists r (db_eval_items d @ [r]) then Inl (PgError ''23503'')
             else Inr (i, d\<lparr>db_eval_items := db_eval_items d @ [r]\<rparr>))"

text \<open>The SET clauses of buildEvalItemUpdateSet with their arguments.\<close>

datatype eval_item_set =
    ItemParent "string option" | ItemLevel int | ItemDisplayName string | ItemDescription string
  | ItemWeight float64 | ItemMaxScore int | ItemStatus string | ItemMetadata "metadata option"

definition buildEvalItemUpdateSet :: "EvalItemUpdate \<Rightarrow> goerr + eval_item_set list" where
  "buildEvalItemUpdateSet upd =
     (let head_sets = opt_list ItemParent (eiu_ParentID upd) @ opt_list ItemLevel (eiu_Level upd) @
            opt_list ItemDisplayName (eiu_DisplayName upd) @ opt_list ItemDescription (eiu_Description upd) @
            opt_list ItemWeight (eiu_Weight upd) @ opt_list ItemMaxScore (eiu_MaxScore upd) @
            opt_list ItemStatus (eiu_Status upd)
      in case eiu_Metadata upd of
           None \<Rightarrow> Inr head_sets
         | Some md \<Rightarrow> (case marshalEvalItemMetadata md of
             Inl e \<Rightarrow> Inl e | Inr j \<Rightarrow> Inr (head_sets @ [ItemMetadata j])))"

text \<open>The driver encodes the arguments before the statement is sent.\<close>

primrec encode_item_sets :: "eval_item_set list \<Rightarrow> goerr + unit" where
  "encode_item_sets [] = Inr ()"
| "encode_item_sets (x # xs) =
     (case (case x of ItemLevel n \<Rightarrow> encode_int4 n | ItemMaxScore n \<Rightarrow> encode_int4 n | _ \<Rightarrow> Inr ()) of
        Inl e \<Rightarrow> Inl e | Inr _ \<Rightarrow> encode_item_sets xs)"

fun apply_item_set :: "num_codec \<Rightarrow> eval_item_set \<Rightarrow> eval_item_row \<Rightarrow> goerr + eval_item_row" where
  "apply_item_set c (ItemParent p) r = Inr (r\<lparr>ei_parent_id := p\<rparr>)"
| "apply_item_set c (ItemLevel n) r = Inr (r\<lparr>ei_level := Some n\<rparr>)"
| "apply_item_set c (ItemDisplayName s) r = Inr (r\<lparr>ei_display_name := s\<rparr>)"
| "apply_item_set c (ItemDescription s) r = Inr (r\<lparr>ei_description := Some s\<rparr>)"
| "apply_item_set c (ItemWeight w) r =
     (case to_numeric c 5 4 w of Inl e \<Rightarrow> Inl e | Inr n \<Rightarrow> Inr (r\<lparr>ei_weight := Some n\<rparr>))"
| "apply_item_set c (ItemMaxScore n) r = Inr (r\<lparr>ei_max_score := Some n\<rparr>)"
| "apply_item_set c (ItemStatus q) r = Inr (r\<lparr>ei_status := q\<rparr>)"
| "apply_item_set c (ItemMetadata md) r = Inr (r\<lparr>ei_metadata := md\<rparr>)"

primrec apply_item_sets :: "num_codec \<Rightarrow> eval_item_set list \<Rightarrow> eval_item_row \<Rightarrow> goerr + eval_item_row" where
  "apply_item_sets c [] r = Inr r"
| "apply_item_sets c (x # xs) r =
     (case apply_item_set c x r of Inl e \<Rightarrow> Inl e | Inr r' \<Rightarrow> apply_item_sets c xs r')"

definition update_eval_item_stmt :: "num_codec \<Rightarrow> string \<Rightarrow> eval_item_set list \<Rightarrow> nat statement" where
  "update_eval_item_stmt c i sets = (\<lambda>now u d.
     case row_lookup ei_id (db_eval_items d) i of
       None \<Rightarrow> Inr (0, d)
     | Some r \<Rightarrow> (case apply_item_sets c sets r of
         Inl e \<Rightarrow> Inl e
       | Inr r' \<Rightarrow> let r'' = r'\<lparr>ei_updated_at := now\<rparr> in (case eval_item_row_error r'' of
           Some e \<Rightarrow> Inl e
         | None \<Rightarrow> if \<not> parent_exists r'' (db_eval_items d) then Inl (PgError ''23503'')
             else Inr (1, d\<lparr>db_eval_items := row_update ei_id i (\<lambda>q. r'') (db_eval_items d)\<rparr>))))"

section \<open>PgEvalItemTx\<close>

definition PgStore_BeginEvalItemTx :: "(pg_world, pg_tx) eff" where
  "PgStore_BeginEvalItemTx =
     callw pool_BeginTx (\<lambda>e. wrap1 ''BeginEvalItemTx failed'' (Sentinel ErrPgxPoolExhausted)) retn"

definition scanEvalItemRow :: "num_codec \<Rightarrow> eval_item_row \<Rightarrow> EvalItem" where
  "scanEvalItemRow c r =
     \<lparr>evi_Metadata = (case ei_metadata r of None \<Rightarrow> [] | Some m \<Rightarrow> m),
      evi_CreatedAt = ei_created_at r, evi_UpdatedAt = ei_updated_at r, evi_ParentID = ei_parent_id r,
      evi_Level = ei_level r, evi_Weight = map_option (of_numeric c) (ei_weight r),
      evi_MaxScore = ei_max_score r, evi_ID = ei_id r, evi_DisplayName = ei_display_name r,
      evi_Description = (case ei_description r of None \<Rightarrow> [] | Some s \<Rightarrow> s),
      evi_HierarchyCode = ei_hierarchy_code r, evi_Status = ei_status r, evi_CreatedBy = ei_created_by r\<rparr>"

definition GetEvalItemByID :: "num_codec \<Rightarrow> string \<Rightarrow> (pg_state, EvalItem) eff" where
  "GetEvalItemByID c i =
     callw (pg_query_row (\<lambda>d. map_option (scanEvalItemRow c) (row_lookup ei_id (db_eval_items d) i)))
       (\<lambda>e. if errors_Is e pgx_ErrNoRows then wrap1 ''GetEvalItemByID id'' (Sentinel ErrEvalItemNotFound)
            else wrap1 ''GetEvalItemByID scan failed'' e) retn"

definition GetEvalItemsByParentID ::
  "(string \<Rightarrow> rat) \<Rightarrow> num_codec \<Rightarrow> string \<Rightarrow> (pg_state, EvalItem list) eff" where
  "GetEvalItemsByParentID coll c parentID =
     callw (pg_query (\<lambda>d. map (scanEvalItemRow c) (sort_key (\<lambda>r. coll (ei_id r))
              (List.filter (\<lambda>r. ei_parent_id r = Some parentID) (db_eval_items d)))))
       (wrap1 ''GetEvalItemsByParentID failed'') retn"

definition check_parent :: "num_codec \<Rightarrow> string option \<Rightarrow> (pg_state, unit) eff" where
  "check_parent c parentID = (case parentID of
     None \<Rightarrow> retn ()
   | Some p \<Rightarrow> callw (GetEvalItemByID c p)
       (\<lambda>e. if errors_Is e ErrEvalItemNotFound then wrap1 ''parent_id missing'' (Sentinel ErrEvalItemParentNotFound)
            else wrap1 ''InsertEvalItem parent lookup failed'' e) (\<lambda>_. retn ()))"

definition InsertEvalItem ::
  "num_codec \<Rightarrow> string \<Rightarrow> string option \<Rightarrow> string \<Rightarrow> string \<Rightarrow> int option \<Rightarrow> string \<Rightarrow> float64 option \<Rightarrow>
   int option \<Rightarrow> metadata \<Rightarrow> (pg_state, string) eff" where
  "InsertEvalItem c i parentID displayName description level hierarchyCode weight maxScore md =
     call (lift (validateEvalItemInput i displayName hierarchyCode)) (\<lambda>_.
     call (check_parent c parentID) (\<lambda>_.
     call (lift (marshalEvalItemMetadata md)) (\<lambda>metaJSON.
     callw (call (lift (encode_int4_opt level)) (\<lambda>_. call (lift (encode_int4_opt maxScore)) (\<lambda>_.
         pg_run (insert_eval_item_stmt c i parentID displayName (nullIfEmpty description) level
                   hierarchyCode weight maxScore metaJSON))))
       (sql_failed ''InsertEvalItem failed'') retn)))"

definition child_count :: "string \<Rightarrow> db \<Rightarrow> nat" where
  "child_count i d = length (List.filter (\<lambda>r. ei_parent_id r = Some i) (db_eval_items d))"

definition checkHierarchyMutationGuard :: "string \<Rightarrow> EvalItemUpdate \<Rightarrow> (pg_state, unit) eff" where
  "checkHierarchyMutationGuard i upd =
     (if eiu_ParentID upd = None \<and> eiu_Level upd = None then retn ()
      else callw (pg_query (child_count i)) (wrap1 ''UpdateEvalItem successor check failed'') (\<lambda>n.
        if 0 < n then throw (wrap1 ''UpdateEvalItem: has children'' (Sentinel ErrEvalItemHierarchyImmutable))
        else retn ()))"

definition UpdateEvalItem :: "num_codec \<Rightarrow> string \<Rightarrow> EvalItemUpdate \<Rightarrow> (pg_state, unit) eff" where
  "UpdateEvalItem c i upd =
     call (GetEvalItemByID c i) (\<lambda>_.
     call (lift (validateStatusTransition upd)) (\<lambda>_.
     call (checkHierarchyMutationGuard i upd) (\<lambda>_.
     call (lift (buildEvalItemUpdateSet upd)) (\<lambda>sets.
     if sets = [] then retn ()
     else callw (call (lift (encode_item_sets sets)) (\<lambda>_. pg_run (update_eval_item_stmt c i sets)))
            (sql_failed ''UpdateEvalItem failed'') (\<lambda>n.
       if n = 0 then throw (wrap1 ''UpdateEvalItem id'' (Sentinel ErrEvalItemNotFound))
       else retn ())))))"

definition PgEvalItemTx_InsertAuditLog :: "audit_event \<Rightarrow> (pg_state, unit) eff" where
  "PgEvalItemTx_InsertAuditLog e = insert_audit ''InsertAuditLog(eval_item) failed'' e"

definition PgEvalItemTx_Commit :: "(pg_state, unit) eff" where
  "PgEvalItemTx_Commit = callw pg_commit (wrap1 ''Commit(eval_item) failed'') (\<lambda>_. retn ())"

definition PgEvalItemTx_Rollback :: "(pg_state, unit) eff" where
  "PgEvalItemTx_Rollback s =
     (case pg_rollback s of
        (Inl e, s') \<Rightarrow> if errors_Is e pgx_ErrTxClosed then (Inr (), s')
                      else (Inl (wrap1 ''Rollback(eval_item) failed'' e), s')
      | (Inr u, s') \<Rightarrow> (Inr (), s'))"

definition PgEvalItemTx_methods :: "(string \<Rightarrow> rat) \<Rightarrow> num_codec \<Rightarrow> pg_state EvalItemTx" where
  "PgEvalItemTx_methods coll c =
     \<lparr>etx_InsertEvalItem = InsertEvalItem c, etx_GetEvalItemByID = GetEvalItemByID c,
      etx_GetEvalItemsByParentID = GetEvalItemsByParentID coll c, etx_UpdateEvalItem = UpdateEvalItem c,
      etx_InsertAuditLog = PgEvalItemTx_InsertAuditLog, etx_Commit = PgEvalItemTx_Commit,
      etx_Rollback = PgEvalItemTx_Rollback\<rparr>"

end
