(* ===== verification/Eval_Item_Handlers.thy ===== *)
theory Eval_Item_Handlers
  imports Handler_Frame Eval_Item_Store Rbac
begin

text \<open>
  cmd/server/eval_item_handlers.go: the REST interface of the evaluation items. The store is given
  by its Begin method and the methods of its transactions; \<^verbatim>\<open>rec\<close> is the recorder of the server,
  which writes the audit event of a mutation in the same transaction. Log lines are not modelled.
\<close>

record ('t, 'w) EvalItemHandler =
  eh_Begin :: "('w, 't) eff"
  eh_Tx :: "('t \<times> 'w) EvalItemTx"
  eh_recorder :: "('t \<times> 'w) Recorder"

definition writeEvalItemJSON :: "nat \<Rightarrow> json \<Rightarrow> response" where
  "writeEvalItemJSON code v =
     \<lparr>resp_Code = code, resp_Header = [(''Content-Type'', ''application/json'')], resp_Body = v\<rparr>"

definition writeEvalItemErr :: "nat \<Rightarrow> string \<Rightarrow> string \<Rightarrow> string \<Rightarrow> response" where
  "writeEvalItemErr code errCode msg field =
     writeEvalItemJSON code (JObject [(''error'',
       JObject ([(''code'', JString errCode), (''message'', JString msg)] @ text_field ''field'' field))])"

definition requireEvalItemAdminRole :: "string \<Rightarrow> bool" where
  "requireEvalItemAdminRole scope = any_role (\<lambda>r. r = RoleAdmin) (ParseRolesFromScope scope)"

definition guardEvalItemAdmin :: "request \<Rightarrow> response option" where
  "guardEvalItemAdmin r = (case UserFromContext r of
     None \<Rightarrow> None
   | Some u \<Rightarrow> if requireEvalItemAdminRole (join_space (usr_Scopes u)) then None
       else Some (writeEvalItemErr 403 ''ABAC_CONDITION_DENIED'' ''no administrator'' []))"

definition mapEvalItemStoreErr :: "goerr \<Rightarrow> nat \<times> string \<times> string" where
  "mapEvalItemStoreErr e =
     (if errors_Is e ErrEvalItemNotFound then (404, ''NOT_FOUND'', ''item not found'')
      else if errors_Is e ErrEvalItemParentNotFound then (404, ''NOT_FOUND'', ''parent not found'')
      else if errors_Is e ErrEvalItemInvalidInput then (400, ''INVALID_ARGUMENT'', ''invalid item input'')
      else if errors_Is e ErrEvalItemHierarchyImmutable then (409, ''HIERARCHY_IMMUTABLE'', ''item has children'')
      else if errors_Is e ErrEvalItemInvalidStatus then (400, ''INVALID_ARGUMENT'', ''invalid status'')
      else (500, ''INTERNAL'', ''internal error''))"

definition writeEvalItemStoreErr :: "goerr \<Rightarrow> response" where
  "writeEvalItemStoreErr e =
     (case mapEvalItemStoreErr e of (code, errCode, msg) \<Rightarrow> writeEvalItemErr code errCode msg [])"

definition eval_item_internal :: "string \<Rightarrow> goerr \<Rightarrow> response" where
  "eval_item_internal msg e = writeEvalItemErr 500 ''INTERNAL'' msg []"

definition bad_eval_item :: "string \<Rightarrow> string \<Rightarrow> response" where
  "bad_eval_item msg field = writeEvalItemErr 400 ''INVALID_ARGUMENT'' msg field"

section \<open>Bodies\<close>

record evalItemCreateBody =
  icb_Metadata :: metadata
  icb_ID :: string
  icb_ParentID :: "string option"
  icb_DisplayName :: string
  icb_Description :: string
  icb_HierarchyCode :: string
  icb_Level :: "int option"
  icb_Weight :: "float64 option"
  icb_MaxScore :: "int option"

record evalItemUpdateBody =
  iub_ParentIDRaw :: "json option"
  iub_Metadata :: "metadata option"
  iub_DisplayName :: "string option"
  iub_Description :: "string option"
  iub_Status :: "string option"
  iub_Level :: "int option"
  iub_Weight :: "float64 option"
  iub_MaxScore :: "int option"

definition decode_evalItemCreateBody :: "json option \<Rightarrow> goerr + evalItemCreateBody" where
  "decode_evalItemCreateBody b = (case decode_object b of
     Inl e \<Rightarrow> Inl e
   | Inr kvs \<Rightarrow>
       (case both (decode_field ''metadata'' set_map kvs [])
          (both (both (decode_field ''id'' set_string kvs [])
                  (both (decode_field ''parent_id'' (set_pointer json_string) kvs None)
                    (both (decode_field ''display_name'' set_string kvs [])
                      (decode_field ''description'' set_string kvs []))))
            (both (both (decode_field ''hierarchy_code'' set_string kvs [])
                    (decode_field ''level'' (set_pointer json_int) kvs None))
              (both (decode_field ''weight'' (set_pointer json_float64) kvs None)
                (decode_field ''max_score'' (set_pointer json_int) kvs None)))) of
          Inl e \<Rightarrow> Inl e
        | Inr (md, (i, p, dn, desc), (hc, lv), w, ms) \<Rightarrow>
            Inr \<lparr>icb_Metadata = md, icb_ID = i, icb_ParentID = p, icb_DisplayName = dn,
                 icb_Description = desc, icb_HierarchyCode = hc, icb_Level = lv, icb_Weight = w,
                 icb_MaxScore = ms\<rparr>))"

definition decode_evalItemUpdateBody :: "json option \<Rightarrow> goerr + evalItemUpdateBody" where
  "decode_evalItemUpdateBody b = (case decode_object b of
     Inl e \<Rightarrow> Inl e
   | Inr kvs \<Rightarrow>
       (case both (both (decode_field ''parent_id'' (set_pointer Some) kvs None)
                    (decode_field ''metadata'' set_map_pointer kvs None))
          (both (both (decode_field ''display_name'' (set_pointer json_string) kvs None)
                  (both (decode_field ''description'' (set_pointer json_string) kvs None)
                    (decode_field ''status'' (set_pointer json_string) kvs None)))
            (both (decode_field ''level'' (set_pointer json_int) kvs None)
              (both (decode_field ''weight'' (set_pointer json_float64) kvs None)
                (decode_field ''max_score'' (set_pointer json_int) kvs None)))) of
          Inl e \<Rightarrow> Inl e
        | Inr ((p, md), (dn, desc, st), lv, w, ms) \<Rightarrow>
            Inr \<lparr>iub_ParentIDRaw = p, iub_Metadata = md, iub_DisplayName = dn, iub_Description = desc,
                 iub_Status = st, iub_Level = lv, iub_Weight = w, iub_MaxScore = ms\<rparr>))"

text \<open>The raw text of parent_id is the text null exactly when the value is null.\<close>

definition toStoreUpdate :: "evalItemUpdateBody \<Rightarrow> goerr + EvalItemUpdate" where
  "toStoreUpdate b =
     (let upd = \<lparr>eiu_ParentID = None, eiu_Level = iub_Level b, eiu_DisplayName = iub_DisplayName b,
                eiu_Description = iub_Description b, eiu_Weight = iub_Weight b,
                eiu_MaxScore = iub_MaxScore b, eiu_Status = iub_Status b, eiu_Metadata = iub_Metadata b\<rparr>
      in case iub_ParentIDRaw b of
           None \<Rightarrow> Inr upd
         | Some v \<Rightarrow>
             if v = JNull then Inr (upd\<lparr>eiu_ParentID := Some None\<rparr>)
             else (case set_string [] v of
               Inl e \<Rightarrow> Inl e | Inr parentID \<Rightarrow> Inr (upd\<lparr>eiu_ParentID := Some (Some parentID)\<rparr>)))"

definition toEvalItemResponse :: "EvalItem \<Rightarrow> json" where
  "toEvalItemResponse q = JObject (
     map_field ''metadata'' (evi_Metadata q) @
     [(''created_at'', JString (Format_RFC3339 (evi_CreatedAt q))),
      (''updated_at'', JString (Format_RFC3339 (evi_UpdatedAt q))),
      (''parent_id'', pointer_json JString (evi_ParentID q)),
      (''level'', pointer_json (\<lambda>n. JNumber (strconv_Itoa n)) (evi_Level q)),
      (''weight'', pointer_json float_json (evi_Weight q)),
      (''max_score'', pointer_json (\<lambda>n. JNumber (strconv_Itoa n)) (evi_MaxScore q)),
      (''id'', JString (evi_ID q)), (''display_name'', JString (evi_DisplayName q)),
      (''description'', JString (evi_Description q)), (''hierarchy_code'', JString (evi_HierarchyCode q)),
      (''status'', JString (evi_Status q)), (''created_by'', JString (evi_CreatedBy q))])"

section \<open>The handlers\<close>

definition text_or_empty :: "string option \<Rightarrow> string" where
  "text_or_empty x = (case x of None \<Rightarrow> [] | Some s \<Rightarrow> s)"

definition level_or_zero :: "int option \<Rightarrow> int" where
  "level_or_zero x = (case x of None \<Rightarrow> 0 | Some n \<Rightarrow> n)"

text \<open>What the two mutations do inside their transaction.\<close>

definition create_item_stage ::
  "('t \<times> 'w) runtime \<Rightarrow> ('t, 'w) EvalItemHandler \<Rightarrow> evalItemCreateBody \<Rightarrow> string \<Rightarrow> ('t \<times> 'w) stage" where
  "create_item_stage rt h body actor =
     (let tx = eh_Tx h in
      attempt (etx_InsertEvalItem tx (icb_ID body) (icb_ParentID body) (icb_DisplayName body)
                 (icb_Description body) (icb_Level body) (icb_HierarchyCode body) (icb_Weight body)
                 (icb_MaxScore body) (icb_Metadata body)) writeEvalItemStoreErr (\<lambda>newID.
      attempt (RecordEvalItemCreated rt (eh_recorder h) (etx_InsertAuditLog tx) newID
                 (icb_HierarchyCode body) (text_or_empty (icb_ParentID body))
                 (level_or_zero (icb_Level body)) actor) (eval_item_internal ''audit failed'') (\<lambda>_.
      attempt (etx_Commit tx) (eval_item_internal ''item not stored'') (\<lambda>_.
      answer (writeEvalItemJSON 201 (JObject
        [(''created_by'', JString actor), (''display_name'', JString (icb_DisplayName body)),
         (''hierarchy_code'', JString (icb_HierarchyCode body)), (''id'', JString newID),
         (''status'', JString ''ACTIVE'')]))))))"

definition update_item_stage ::
  "('t \<times> 'w) runtime \<Rightarrow> ('t, 'w) EvalItemHandler \<Rightarrow> string \<Rightarrow> EvalItemUpdate \<Rightarrow> string \<Rightarrow> ('t \<times> 'w) stage" where
  "update_item_stage rt h i upd actor =
     (let tx = eh_Tx h in
      attempt (etx_GetEvalItemByID tx i) writeEvalItemStoreErr (\<lambda>existing.
      attempt (etx_UpdateEvalItem tx i upd) writeEvalItemStoreErr (\<lambda>_.
      attempt (RecordEvalItemUpdated rt (eh_recorder h) (etx_InsertAuditLog tx) i
                 (evi_HierarchyCode existing) (text_or_empty (evi_ParentID existing))
                 (level_or_zero (evi_Level existing)) actor) (eval_item_internal ''audit failed'') (\<lambda>_.
      attempt (etx_Commit tx) (eval_item_internal ''item not updated'') (\<lambda>_.
      answer (writeEvalItemJSON 200 (JObject
        [(''id'', JString i), (''status'', JString ''updated'')])))))))"

definition handleCreate_EvalItem ::
  "('t \<times> 'w) runtime \<Rightarrow> ('t, 'w) EvalItemHandler \<Rightarrow> 'w handler" where
  "handleCreate_EvalItem rt h r w = (case guardEvalItemAdmin r of Some resp \<Rightarrow> (resp, w) | None \<Rightarrow>
     (case decode_evalItemCreateBody (req_Body r) of
        Inl e \<Rightarrow> (bad_eval_item ''malformed JSON body'' [], w)
      | Inr body \<Rightarrow>
     if blank (icb_ID body) then (bad_eval_item ''id missing'' ''id'', w)
     else if blank (icb_DisplayName body) then (bad_eval_item ''display_name missing'' ''display_name'', w)
     else if blank (icb_HierarchyCode body) then (bad_eval_item ''hierarchy_code missing'' ''hierarchy_code'', w)
     else with_handle (eh_Begin h) (eval_item_internal ''begin failed'') (etx_Rollback (eh_Tx h))
            (create_item_stage rt h body (resolveCreatedBy r)) w))"

definition handleGetByID_EvalItem :: "('t, 'w) EvalItemHandler \<Rightarrow> 'w handler" where
  "handleGetByID_EvalItem h r w =
     (if req_PathID r = [] then (bad_eval_item ''id missing'' ''id'', w)
      else with_handle (eh_Begin h) (eval_item_internal ''begin failed'') (etx_Rollback (eh_Tx h))
        (attempt (etx_GetEvalItemByID (eh_Tx h) (req_PathID r)) writeEvalItemStoreErr (\<lambda>item.
           refuse (writeEvalItemJSON 200 (toEvalItemResponse item)))) w)"

definition handleGetChildren :: "('t, 'w) EvalItemHandler \<Rightarrow> 'w handler" where
  "handleGetChildren h r w =
     (if req_PathID r = [] then (bad_eval_item ''id missing'' ''id'', w)
      else with_handle (eh_Begin h) (eval_item_internal ''begin failed'') (etx_Rollback (eh_Tx h))
        (attempt (etx_GetEvalItemByID (eh_Tx h) (req_PathID r)) writeEvalItemStoreErr (\<lambda>_.
         attempt (etx_GetEvalItemsByParentID (eh_Tx h) (req_PathID r)) writeEvalItemStoreErr (\<lambda>children.
           refuse (writeEvalItemJSON 200 (JObject
             [(''items'', JArray (map toEvalItemResponse children)),
              (''total'', JNumber (strconv_Itoa (int (length children))))]))))) w)"

definition handleUpdate_EvalItem ::
  "('t \<times> 'w) runtime \<Rightarrow> ('t, 'w) EvalItemHandler \<Rightarrow> 'w handler" where
  "handleUpdate_EvalItem rt h r w = (case guardEvalItemAdmin r of Some resp \<Rightarrow> (resp, w) | None \<Rightarrow>
     if req_PathID r = [] then (bad_eval_item ''id missing'' ''id'', w)
     else (case decode_evalItemUpdateBody (req_Body r) of
        Inl e \<Rightarrow> (bad_eval_item ''malformed JSON body'' [], w)
      | Inr body \<Rightarrow>
     (case toStoreUpdate body of
        Inl e \<Rightarrow> (bad_eval_item ''malformed parent_id'' ''parent_id'', w)
      | Inr upd \<Rightarrow> with_handle (eh_Begin h) (eval_item_internal ''begin failed'') (etx_Rollback (eh_Tx h))
            (update_item_stage rt h (req_PathID r) upd (resolveCreatedBy r)) w)))"

end
