(* ===== verification/Eval_Item_Properties.thy ===== *)
theory Eval_Item_Properties
  imports Eval_Item_Handlers Samples Uuid_Instance
begin

text \<open>
  What a client of the evaluation items can rely on, on the PostgreSQL store: each request is one
  insertion or one update with its audit event, or changes nothing; the items stay a forest up to
  items that are their own parent; an item with children keeps its place.
\<close>

section \<open>What the operations of the store do\<close>

lemma item_reads_keep [eff_intros]:
  "keeps published (GetEvalItemByID c i)" "keeps work (GetEvalItemByID c i)"
  "keeps published (GetEvalItemsByParentID coll c p)" "keeps work (GetEvalItemsByParentID coll c p)"
  "keeps published (check_parent c q)" "keeps published (checkHierarchyMutationGuard i upd)"
  unfolding GetEvalItemByID_def GetEvalItemsByParentID_def check_parent_def checkHierarchyMutationGuard_def
  by (intro eff_intros)+

lemma item_mutations_keep [eff_intros]:
  "keeps published (InsertEvalItem c i p dn ds lv hc wt ms md)" "keeps published (UpdateEvalItem c i upd)"
  unfolding InsertEvalItem_def UpdateEvalItem_def by (intro eff_intros)+

text \<open>The rows with their ids and codes, and the items that have a child.\<close>

definition item_ids :: "db \<Rightarrow> string set" where
  "item_ids d = ei_id ` set (db_eval_items d)"

definition has_child :: "string \<Rightarrow> db \<Rightarrow> bool" where
  "has_child i d \<longleftrightarrow> (\<exists>r\<in>set (db_eval_items d). ei_parent_id r = Some i)"

lemma child_count_pos: "0 < child_count i d \<longleftrightarrow> has_child i d"
  by (auto simp: child_count_def has_child_def filter_empty_conv)

text \<open>The two changes, as relations between the tables before and after.\<close>

definition item_inserted :: "eval_item_row \<Rightarrow> db \<Rightarrow> db \<Rightarrow> bool" where
  "item_inserted r d d' \<longleftrightarrow>
     ei_id r \<notin> item_ids d \<and> ei_hierarchy_code r \<notin> ei_hierarchy_code ` set (db_eval_items d) \<and>
     (\<forall>p. ei_parent_id r = Some p \<longrightarrow> p \<in> item_ids d) \<and> ei_status r = ''ACTIVE'' \<and>
     ei_created_by r = ''cli-anonymous'' \<and> d' = d\<lparr>db_eval_items := db_eval_items d @ [r]\<rparr>"

definition item_updated :: "EvalItemUpdate \<Rightarrow> eval_item_row \<Rightarrow> eval_item_row \<Rightarrow> db \<Rightarrow> db \<Rightarrow> bool" where
  "item_updated upd r r' d d' \<longleftrightarrow>
     row_lookup ei_id (db_eval_items d) (ei_id r) = Some r \<and>
     ei_id r' = ei_id r \<and> ei_hierarchy_code r' = ei_hierarchy_code r \<and>
     ei_created_at r' = ei_created_at r \<and> ei_created_by r' = ei_created_by r \<and>
     ei_parent_id r' = (case eiu_ParentID upd of None \<Rightarrow> ei_parent_id r | Some p \<Rightarrow> p) \<and>
     ei_level r' = (case eiu_Level upd of None \<Rightarrow> ei_level r | Some n \<Rightarrow> Some n) \<and>
     ei_status r' = (case eiu_Status upd of None \<Rightarrow> ei_status r | Some q \<Rightarrow> q) \<and>
     (eiu_Status upd \<noteq> None \<longrightarrow> ei_status r' \<in> set allowedEvalItemStatus) \<and>
     (\<forall>p. ei_parent_id r' = Some p \<longrightarrow> p \<in> item_ids d) \<and>
     (has_child (ei_id r) d \<longrightarrow> eiu_ParentID upd = None \<and> eiu_Level upd = None) \<and>
     d' = d\<lparr>db_eval_items := row_update ei_id (ei_id r) (\<lambda>q. r') (db_eval_items d)\<rparr>"

lemma item_updated_lookup: "item_updated upd r r' d d' \<Longrightarrow> row_lookup ei_id (db_eval_items d) (ei_id r) = Some r"
  by (simp add: item_updated_def)

lemma get_item_ok:
  assumes "GetEvalItemByID c i s = (Inr item, s')"
  obtains r where "row_lookup ei_id (db_eval_items (work s)) i = Some r" "item = scanEvalItemRow c r" "fst s' = fst s"
  using assms by (auto simp: GetEvalItemByID_def eff_simps pg_query_row_Inr_iff work_def)

lemma check_parent_ok:
  assumes "check_parent c q s = (Inr u, s')"
  shows "fst s' = fst s \<and> (\<forall>p. q = Some p \<longrightarrow> p \<in> item_ids (work s))"
proof (cases q)
  case None
  then show ?thesis using assms by (simp add: check_parent_def)
next
  case (Some p)
  then obtain item s1 where "GetEvalItemByID c p s = (Inr item, s1)" "s' = s1"
    using assms by (auto simp: check_parent_def eff_simps)
  then show ?thesis using Some
    by (elim get_item_ok) (auto simp: item_ids_def dest: row_lookup_key row_lookup_in_set)
qed

lemma insert_item_stmt_ok:
  assumes "insert_eval_item_stmt c i p dn ds lv hc wt ms j now u d = Inr (k, d')"
    and "\<forall>x. p = Some x \<longrightarrow> x \<in> item_ids d"
  shows "k = i \<and> item_inserted (last (db_eval_items d')) d d' \<and> ei_id (last (db_eval_items d')) = i \<and>
    ei_hierarchy_code (last (db_eval_items d')) = hc \<and> ei_parent_id (last (db_eval_items d')) = p"
  using assms
  by (auto simp: insert_eval_item_stmt_def Let_def item_inserted_def item_ids_def
      split: sum.splits option.splits if_splits)

lemma insert_item_ok:
  assumes "InsertEvalItem c i p dn ds lv hc wt ms md s = (Inr j, s')"
  obtains r where "item_inserted r (work s) (work s')" "ei_id r = i" "ei_hierarchy_code r = hc" "j = i"
    "ei_parent_id r = p"
proof -
  from assms obtain s1 s2 where p: "check_parent c p s = (Inr (), s1)" and
    q: "pg_run (insert_eval_item_stmt c i p dn (nullIfEmpty ds) lv hc wt ms (if md = [] then None else Some md)) s1 =
      (Inr j, s2)" and s': "s' = s2"
    by (auto simp: InsertEvalItem_def eff_simps marshalEvalItemMetadata_def split: if_splits)
  from check_parent_ok [OF p] have w: "work s1 = work s" "\<forall>x. p = Some x \<longrightarrow> x \<in> item_ids (work s)"
    by (simp_all add: work_def)
  from insert_item_stmt_ok [OF pg_run_work [OF q]] w s' show thesis
    by (intro that [of "last (db_eval_items (work s'))"]) (auto simp: work_def)
qed

lemma apply_item_sets_fields:
  assumes "apply_item_sets c xs r = Inr r'"
  shows "ei_id r' = ei_id r \<and> ei_hierarchy_code r' = ei_hierarchy_code r \<and>
      ei_created_at r' = ei_created_at r \<and> ei_created_by r' = ei_created_by r"
    and "(\<forall>p. ItemParent p \<notin> set xs) \<Longrightarrow> ei_parent_id r' = ei_parent_id r"
    and "(\<forall>n. ItemLevel n \<notin> set xs) \<Longrightarrow> ei_level r' = ei_level r"
    and "(\<forall>q. ItemStatus q \<notin> set xs) \<Longrightarrow> ei_status r' = ei_status r"
  using assms
proof (induction xs arbitrary: r)
  case (Cons x xs)
  { case 1 with Cons show ?case by (cases x) (fastforce split: sum.splits)+ }
  { case 2 with Cons show ?case by (cases x) (fastforce split: sum.splits)+ }
  { case 3 with Cons show ?case by (cases x) (fastforce split: sum.splits)+ }
  { case 4 with Cons show ?case by (cases x) (fastforce split: sum.splits)+ }
qed simp_all

lemma apply_item_sets_Cons:
  "apply_item_sets c (x # xs) r = Inr r' \<longleftrightarrow> (\<exists>r1. apply_item_set c x r = Inr r1 \<and> apply_item_sets c xs r1 = Inr r')"
  by (auto split: sum.splits)

lemma apply_item_sets_last:
  "apply_item_sets c xs r = Inr r' \<Longrightarrow> ItemParent p \<in> set xs \<Longrightarrow> ItemParent (ei_parent_id r') \<in> set xs"
  "apply_item_sets c xs r = Inr r' \<Longrightarrow> ItemLevel n \<in> set xs \<Longrightarrow> \<exists>m. ei_level r' = Some m \<and> ItemLevel m \<in> set xs"
  "apply_item_sets c xs r = Inr r' \<Longrightarrow> ItemStatus q \<in> set xs \<Longrightarrow> ItemStatus (ei_status r') \<in> set xs"
proof (induction xs arbitrary: r p n q)
  case (Cons x xs)
  { case 1
    then obtain r1 where "apply_item_set c x r = Inr r1" "apply_item_sets c xs r1 = Inr r'"
      unfolding apply_item_sets_Cons by blast
    with 1(2) Cons.IH(1) apply_item_sets_fields(2) show ?case
      by (cases "\<exists>p. ItemParent p \<in> set xs") fastforce+ }
  { case 2
    then obtain r1 where "apply_item_set c x r = Inr r1" "apply_item_sets c xs r1 = Inr r'"
      unfolding apply_item_sets_Cons by blast
    with 2(2) Cons.IH(2) apply_item_sets_fields(3) show ?case
      by (cases "\<exists>p. ItemLevel p \<in> set xs") fastforce+ }
  { case 3
    then obtain r1 where "apply_item_set c x r = Inr r1" "apply_item_sets c xs r1 = Inr r'"
      unfolding apply_item_sets_Cons by blast
    with 3(2) Cons.IH(3) apply_item_sets_fields(4) show ?case
      by (cases "\<exists>p. ItemStatus p \<in> set xs") fastforce+ }
qed simp_all

text \<open>Each field is set at most once, so the result has the value that was asked for.\<close>

lemma build_item_sets:
  assumes "buildEvalItemUpdateSet upd = Inr xs" and "apply_item_sets c xs r = Inr r'"
  shows "ei_parent_id r' = (case eiu_ParentID upd of None \<Rightarrow> ei_parent_id r | Some p \<Rightarrow> p)"
    and "ei_level r' = (case eiu_Level upd of None \<Rightarrow> ei_level r | Some n \<Rightarrow> Some n)"
    and "ei_status r' = (case eiu_Status upd of None \<Rightarrow> ei_status r | Some q \<Rightarrow> q)"
proof -
  obtain ms where xs: "xs = opt_list ItemParent (eiu_ParentID upd) @ opt_list ItemLevel (eiu_Level upd) @
      opt_list ItemDisplayName (eiu_DisplayName upd) @ opt_list ItemDescription (eiu_Description upd) @
      opt_list ItemWeight (eiu_Weight upd) @ opt_list ItemMaxScore (eiu_MaxScore upd) @
      opt_list ItemStatus (eiu_Status upd) @ ms" and ms: "\<forall>x\<in>set ms. \<exists>j. x = ItemMetadata j"
    using assms(1) by (auto simp: buildEvalItemUpdateSet_def Let_def split: option.splits sum.splits)
  have sets: "\<And>p. ItemParent p \<in> set xs \<longleftrightarrow> eiu_ParentID upd = Some p"
    "\<And>n. ItemLevel n \<in> set xs \<longleftrightarrow> eiu_Level upd = Some n"
    "\<And>q. ItemStatus q \<in> set xs \<longleftrightarrow> eiu_Status upd = Some q"
    unfolding xs using ms by (auto simp: opt_list_def split: option.splits)
  note last_set = apply_item_sets_last [OF assms(2), unfolded sets]
  show "ei_parent_id r' = (case eiu_ParentID upd of None \<Rightarrow> ei_parent_id r | Some p \<Rightarrow> p)"
    using last_set(1) apply_item_sets_fields(2) [OF assms(2), unfolded sets] by (cases "eiu_ParentID upd") auto
  show "ei_level r' = (case eiu_Level upd of None \<Rightarrow> ei_level r | Some n \<Rightarrow> Some n)"
    using last_set(2) apply_item_sets_fields(3) [OF assms(2), unfolded sets] by (cases "eiu_Level upd") auto
  show "ei_status r' = (case eiu_Status upd of None \<Rightarrow> ei_status r | Some q \<Rightarrow> q)"
    using last_set(3) apply_item_sets_fields(4) [OF assms(2), unfolded sets] by (cases "eiu_Status upd") auto
qed

lemma update_item_stmt_ok:
  assumes "update_eval_item_stmt c i xs now u d = Inr (n, d')" and "0 < n"
    and sets: "buildEvalItemUpdateSet upd = Inr xs" and st: "validateStatusTransition upd = Inr ()"
    and guard: "has_child i d \<longrightarrow> eiu_ParentID upd = None \<and> eiu_Level upd = None"
  shows "\<exists>r r'. ei_id r = i \<and> item_updated upd r r' d d'"
proof -
  from assms(1,2) obtain r r1 where r: "row_lookup ei_id (db_eval_items d) i = Some r"
    and r1: "apply_item_sets c xs r = Inr r1" and p: "parent_exists (r1\<lparr>ei_updated_at := now\<rparr>) (db_eval_items d)"
    and d': "d' = d\<lparr>db_eval_items := row_update ei_id i (\<lambda>q. r1\<lparr>ei_updated_at := now\<rparr>) (db_eval_items d)\<rparr>"
    by (auto simp: update_eval_item_stmt_def Let_def split: option.splits sum.splits if_splits)
  have i: "ei_id r = i" using row_lookup_key [OF r] .
  have "item_updated upd r (r1\<lparr>ei_updated_at := now\<rparr>) d d'"
    using r i p d' guard st apply_item_sets_fields(1) [OF r1] build_item_sets [OF sets r1]
    by (auto simp: item_updated_def parent_exists_def item_ids_def validateStatusTransition_def
        split: option.splits if_splits)
  with i show ?thesis by blast
qed

lemma guard_ok:
  assumes "checkHierarchyMutationGuard i upd s = (Inr u, s')"
  shows "fst s' = fst s \<and> (has_child i (work s) \<longrightarrow> eiu_ParentID upd = None \<and> eiu_Level upd = None)"
  using assms child_count_pos [of i "work s"]
  by (auto simp: checkHierarchyMutationGuard_def eff_simps pg_query_def pg_run_Inr_iff work_def split: if_splits)

lemma update_item_ok:
  assumes "UpdateEvalItem c i upd s = (Inr u, s')"
  shows "i \<in> item_ids (work s) \<and>
    (work s' = work s \<or> (\<exists>r r'. ei_id r = i \<and> item_updated upd r r' (work s) (work s')))"
proof -
  from assms obtain item s1 s2 xs where g: "GetEvalItemByID c i s = (Inr item, s1)"
    and st: "validateStatusTransition upd = Inr ()" and h: "checkHierarchyMutationGuard i upd s1 = (Inr (), s2)"
    and sets: "buildEvalItemUpdateSet upd = Inr xs"
    and rest: "xs = [] \<and> s' = s2 \<or> (\<exists>n. pg_run (update_eval_item_stmt c i xs) s2 = (Inr n, s') \<and> 0 < n)"
    by (auto simp: UpdateEvalItem_def eff_simps split: if_splits)
  have i: "i \<in> item_ids (work s)" and w1: "fst s1 = fst s"
    using g by (auto elim!: get_item_ok simp: item_ids_def dest: row_lookup_key row_lookup_in_set)
  from guard_ok [OF h] w1 have w2: "fst s2 = fst s" "has_child i (work s) \<longrightarrow> eiu_ParentID upd = None \<and> eiu_Level upd = None"
    by (simp_all add: work_def)
  from rest show ?thesis
  proof
    assume "xs = [] \<and> s' = s2"
    then show ?thesis using i w2 by (simp add: work_def)
  next
    assume "\<exists>n. pg_run (update_eval_item_stmt c i xs) s2 = (Inr n, s') \<and> 0 < n"
    then obtain n where n: "pg_run (update_eval_item_stmt c i xs) s2 = (Inr n, s')" "0 < n" by blast
    from update_item_stmt_ok [OF pg_run_work [OF n(1)] n(2) sets st] w2 i show ?thesis
      by (auto simp: work_def)
  qed
qed

section \<open>The handlers on the PostgreSQL store\<close>

text \<open>server.go gives the handler the recorder of the whole server, with the flag AuthEnabled.\<close>

definition pg_eval_item_handler ::
  "pg_state runtime \<Rightarrow> bool \<Rightarrow> (string \<Rightarrow> rat) \<Rightarrow> num_codec \<Rightarrow> (pg_tx, pg_world) EvalItemHandler" where
  "pg_eval_item_handler rt auth coll c =
     \<lparr>eh_Begin = PgStore_BeginEvalItemTx, eh_Tx = PgEvalItemTx_methods coll c,
      eh_recorder = NewRecorder rt auth []\<rparr>"

lemma pg_eval_item_handler_simps [simp]:
  "eh_Begin (pg_eval_item_handler rt auth coll c) = PgStore_BeginEvalItemTx"
  "eh_Tx (pg_eval_item_handler rt auth coll c) = PgEvalItemTx_methods coll c"
  "eh_recorder (pg_eval_item_handler rt auth coll c) = NewRecorder rt auth []"
  by (simp_all add: pg_eval_item_handler_def)

lemma PgEvalItemTx_simps [simp]:
  "etx_InsertEvalItem (PgEvalItemTx_methods coll c) = InsertEvalItem c"
  "etx_GetEvalItemByID (PgEvalItemTx_methods coll c) = GetEvalItemByID c"
  "etx_GetEvalItemsByParentID (PgEvalItemTx_methods coll c) = GetEvalItemsByParentID coll c"
  "etx_UpdateEvalItem (PgEvalItemTx_methods coll c) = UpdateEvalItem c"
  "etx_InsertAuditLog (PgEvalItemTx_methods coll c) = PgEvalItemTx_InsertAuditLog"
  "etx_Commit (PgEvalItemTx_methods coll c) = PgEvalItemTx_Commit"
  "etx_Rollback (PgEvalItemTx_methods coll c) = PgEvalItemTx_Rollback"
  by (simp_all add: PgEvalItemTx_methods_def)

interpretation item_txs: transactional PgStore_BeginEvalItemTx PgEvalItemTx_Commit PgEvalItemTx_Rollback
  pg_committed "\<lambda>s. ptx_work (fst s)"
  unfolding PgStore_BeginEvalItemTx_def PgEvalItemTx_Commit_def
  by (rule pg_transactional, rule rollback_wrap_keeps, rule PgEvalItemTx_Rollback_def)

lemma item_codes [simp]:
  "resp_Code (writeEvalItemErr a b m f) = a" "resp_Code (writeEvalItemJSON a v) = a"
  "resp_Code (bad_eval_item m f) = 400" "resp_Code (eval_item_internal m e) = 500"
  by (simp_all add: writeEvalItemErr_def writeEvalItemJSON_def bad_eval_item_def eval_item_internal_def)

lemma item_store_code [simp]: "400 \<le> resp_Code (writeEvalItemStoreErr e)"
  by (simp add: writeEvalItemStoreErr_def mapEvalItemStoreErr_def)

definition item_admin :: "request \<Rightarrow> bool" where
  "item_admin r \<longleftrightarrow> (case UserFromContext r of None \<Rightarrow> True | Some u \<Rightarrow> RoleAdmin \<in> set (user_roles u))"

lemma guard_item_None: "guardEvalItemAdmin r = None \<longleftrightarrow> item_admin r"
  by (auto simp: guardEvalItemAdmin_def item_admin_def requireEvalItemAdminRole_def user_roles_def split: option.splits)

lemma guard_item_code: "guardEvalItemAdmin r = Some resp \<Longrightarrow> resp_Code resp = 403"
  by (auto simp: guardEvalItemAdmin_def split: option.splits if_splits)

section \<open>The audit events of the items\<close>

lemma item_event:
  "RecordEvalItemCreated rt (NewRecorder rt auth []) PgEvalItemTx_InsertAuditLog i hc p n u =
     insert_event (time_Now rt) (insert_audit ''InsertAuditLog(eval_item) failed'') ActionEvalItemCreated
       ''evaluation_item'' (evalItemResourceID rt hc) (Recorder_resolveUserID (NewRecorder rt auth []) u)
       (Some (projr (evalItemDetails i hc p n)))"
  "RecordEvalItemUpdated rt (NewRecorder rt auth []) PgEvalItemTx_InsertAuditLog i hc p n u =
     insert_event (time_Now rt) (insert_audit ''InsertAuditLog(eval_item) failed'') ActionEvalItemUpdated
       ''evaluation_item'' (evalItemResourceID rt hc) (Recorder_resolveUserID (NewRecorder rt auth []) u)
       (Some (projr (evalItemDetails i hc p n)))"
  using details_Inr(1) [of i hc p n]
  by (auto simp: RecordEvalItemCreated_def RecordEvalItemUpdated_def PgEvalItemTx_InsertAuditLog_def [abs_def]
      nowUTC_pg simp del: NewRecorder_plain)

lemma item_event_keeps [eff_intros]:
  "keeps published (RecordEvalItemCreated (pg_runtime parse toString sha1)
     (NewRecorder (pg_runtime parse toString sha1) auth []) PgEvalItemTx_InsertAuditLog i hc p n u)"
  "keeps published (RecordEvalItemUpdated (pg_runtime parse toString sha1)
     (NewRecorder (pg_runtime parse toString sha1) auth []) PgEvalItemTx_InsertAuditLog i hc p n u)"
  unfolding item_event by (intro eff_intros)+

section \<open>One request\<close>

datatype item_api = ApiCreateItem | ApiGetItem | ApiChildren | ApiUpdateItem

definition item_api ::
  "('t \<times> 'w) runtime \<Rightarrow> ('t, 'w) EvalItemHandler \<Rightarrow> item_api \<Rightarrow> 'w handler" where
  "item_api rt h x = (case x of
     ApiCreateItem \<Rightarrow> handleCreate_EvalItem rt h | ApiGetItem \<Rightarrow> handleGetByID_EvalItem h
   | ApiChildren \<Rightarrow> handleGetChildren h | ApiUpdateItem \<Rightarrow> handleUpdate_EvalItem rt h)"

text \<open>
  The outcome of a request: an error without effect, the answer of a read, an insertion with its
  event, or an update of one row (or of none, when no field was given) with its event. An update
  over this interface never asks for no parent.
\<close>

definition item_outcome ::
  "pg_state runtime \<Rightarrow> bool \<Rightarrow> item_api \<Rightarrow> request \<Rightarrow> response \<Rightarrow> db \<Rightarrow> db \<Rightarrow> bool" where
  "item_outcome rt auth x r resp d d' \<longleftrightarrow>
     (let u = Recorder_resolveUserID (NewRecorder rt auth []) (resolveCreatedBy r) in
     400 \<le> resp_Code resp \<and> d' = d \<or>
     x \<in> set [ApiGetItem, ApiChildren] \<and> resp_Code resp = 200 \<and> d' = d \<or>
     x = ApiCreateItem \<and> item_admin r \<and> resp_Code resp = 201 \<and>
       (\<exists>row d1 det. item_inserted row d d1 \<and> adds_event ActionEvalItemCreated ''evaluation_item''
          (evalItemResourceID rt (ei_hierarchy_code row)) u det d1 d') \<or>
     x = ApiUpdateItem \<and> item_admin r \<and> resp_Code resp = 200 \<and>
       (\<exists>row d1 det. row_lookup ei_id (db_eval_items d) (req_PathID r) = Some row \<and>
          (d1 = d \<or> (\<exists>upd row'. eiu_ParentID upd \<noteq> Some None \<and> item_updated upd row row' d d1)) \<and>
          adds_event ActionEvalItemUpdated ''evaluation_item''
            (evalItemResourceID rt (ei_hierarchy_code row)) u det d1 d'))"

text \<open>A field of type *json.RawMessage is never null, so toStoreUpdate never sees the text null.\<close>

lemma decode_field_inv:
  assumes "decode_field name f kvs x = Inr y" and "P x" and "\<And>x v y. f x v = Inr y \<Longrightarrow> P x \<Longrightarrow> P y"
  shows "P y"
  using assms(1,2)
proof (induction kvs arbitrary: x)
  case (Cons kv kvs)
  then show ?case using assms(3) by (auto split: if_splits sum.splits)
qed simp

lemma raw_parent_not_null:
  assumes "decode_evalItemUpdateBody b = Inr body" and "toStoreUpdate body = Inr upd"
  shows "eiu_ParentID upd \<noteq> Some None"
proof -
  from assms(1) obtain kvs where f: "decode_field ''parent_id'' (set_pointer Some) kvs None = Inr (iub_ParentIDRaw body)"
    by (auto simp: decode_evalItemUpdateBody_def split: sum.splits)
  have "iub_ParentIDRaw body \<noteq> Some JNull"
    by (rule decode_field_inv [OF f]) (auto simp: set_pointer_def split: if_splits)
  then show ?thesis using assms(2)
    by (auto simp: toStoreUpdate_def Let_def split: option.splits if_splits sum.splits)
qed

lemma item_stages_safe:
  fixes parse toString sha1 auth coll c
  defines "rt \<equiv> pg_runtime parse toString sha1"
  defines "h \<equiv> pg_eval_item_handler rt auth coll c"
  shows "safe_stage pg_committed (create_item_stage rt h body u)"
    and "answers (\<lambda>q. 400 \<le> resp_Code q) (create_item_stage rt h body u)"
    and "safe_stage pg_committed (update_item_stage rt h i upd u)"
    and "answers (\<lambda>q. 400 \<le> resp_Code q) (update_item_stage rt h i upd u)"
  unfolding create_item_stage_def update_item_stage_def Let_def rt_def h_def
    pg_eval_item_handler_simps PgEvalItemTx_simps
  by (intro stage_intros item_txs.safe_commit item_mutations_keep [unfolded published_def [abs_def]]
      item_reads_keep(1) [unfolded published_def [abs_def]] item_event_keeps [unfolded published_def [abs_def]]; simp)+

lemma create_item_committed:
  fixes parse toString sha1 auth coll c
  defines "rt \<equiv> pg_runtime parse toString sha1"
  assumes "create_item_stage rt (pg_eval_item_handler rt auth coll c) body u s = ((True, resp), s')"
  shows "resp_Code resp = 201 \<and> (\<exists>row d1 det. item_inserted row (work s) d1 \<and>
    adds_event ActionEvalItemCreated ''evaluation_item'' (evalItemResourceID rt (ei_hierarchy_code row))
      (Recorder_resolveUserID (NewRecorder rt auth []) u) det d1 (pg_committed (snd s')))"
proof -
  from assms(2) obtain newID s1 s2 where i: "InsertEvalItem c (icb_ID body) (icb_ParentID body) (icb_DisplayName body)
      (icb_Description body) (icb_Level body) (icb_HierarchyCode body) (icb_Weight body)
      (icb_MaxScore body) (icb_Metadata body) s = (Inr newID, s1)"
    and e: "RecordEvalItemCreated rt (NewRecorder rt auth []) PgEvalItemTx_InsertAuditLog newID
      (icb_HierarchyCode body) (text_or_empty (icb_ParentID body)) (level_or_zero (icb_Level body)) u s1 = (Inr (), s2)"
    and co: "PgEvalItemTx_Commit s2 = (Inr (), s')" and code: "resp_Code resp = 201"
    by (auto simp: create_item_stage_def Let_def simp del: NewRecorder_plain)
  from i obtain row where row: "item_inserted row (work s) (work s1)" "ei_hierarchy_code row = icb_HierarchyCode body"
    by (rule insert_item_ok)
  note event = pg_event_ok(1) [OF e [unfolded item_event rt_def row(2) [symmetric]]]
  have "pg_committed (snd s') = ptx_work (fst s2)" using item_txs.commit_publishes [OF co] .
  with code row(1) event show ?thesis unfolding rt_def work_def by metis
qed

lemma create_item_effect:
  fixes parse toString sha1
  defines "rt \<equiv> pg_runtime parse toString sha1"
  assumes "handleCreate_EvalItem rt (pg_eval_item_handler rt auth coll c) r w = (resp, w')"
  shows "item_outcome rt auth ApiCreateItem r resp (pg_committed w) (pg_committed w')"
proof (cases "400 \<le> resp_Code resp \<and> w' = w")
  case True
  then show ?thesis by (simp add: item_outcome_def Let_def)
next
  case False
  obtain body where admin: "guardEvalItemAdmin r = None" and run:
    "with_handle PgStore_BeginEvalItemTx (eval_item_internal ''begin failed'') PgEvalItemTx_Rollback
       (create_item_stage rt (pg_eval_item_handler rt auth coll c) body (resolveCreatedBy r)) w = (resp, w')"
    using assms(2) False
    by (auto simp: handleCreate_EvalItem_def dest: guard_item_code split: option.splits sum.splits if_splits)
  from admin have adm: "item_admin r" by (simp add: guard_item_None)
  show ?thesis
  proof (rule item_txs.with_handle_cases [OF item_stages_safe(1,2) _ run [unfolded rt_def]], goal_cases)
    case (3 t w1 s')
    with create_item_committed [OF 3(3), folded rt_def] adm show ?case
      by (auto simp: item_outcome_def Let_def work_def simp del: NewRecorder_plain)
  qed (auto simp: item_outcome_def Let_def)
qed

lemma update_item_committed:
  fixes parse toString sha1 auth coll c
  defines "rt \<equiv> pg_runtime parse toString sha1"
  assumes "update_item_stage rt (pg_eval_item_handler rt auth coll c) i upd u s = ((True, resp), s')"
  shows "resp_Code resp = 200 \<and> (\<exists>row d1 det. row_lookup ei_id (db_eval_items (work s)) i = Some row \<and>
    (d1 = work s \<or> (\<exists>row'. item_updated upd row row' (work s) d1)) \<and>
    adds_event ActionEvalItemUpdated ''evaluation_item'' (evalItemResourceID rt (ei_hierarchy_code row))
      (Recorder_resolveUserID (NewRecorder rt auth []) u) det d1 (pg_committed (snd s')))"
proof -
  from assms(2) obtain item s0 s1 s2 where g: "GetEvalItemByID c i s = (Inr item, s0)"
    and up: "UpdateEvalItem c i upd s0 = (Inr (), s1)"
    and e: "RecordEvalItemUpdated rt (NewRecorder rt auth []) PgEvalItemTx_InsertAuditLog i
      (evi_HierarchyCode item) (text_or_empty (evi_ParentID item)) (level_or_zero (evi_Level item)) u s1 = (Inr (), s2)"
    and co: "PgEvalItemTx_Commit s2 = (Inr (), s')" and code: "resp_Code resp = 200"
    by (auto simp: update_item_stage_def Let_def simp del: NewRecorder_plain)
  from g obtain row where row: "row_lookup ei_id (db_eval_items (work s)) i = Some row"
    "item = scanEvalItemRow c row" "fst s0 = fst s"
    by (rule get_item_ok)
  have w: "work s0 = work s" using row(3) by (simp add: work_def)
  have hc: "evi_HierarchyCode item = ei_hierarchy_code row" using row(2) by (simp add: scanEvalItemRow_def)
  note event = pg_event_ok(1) [OF e [unfolded item_event rt_def hc]]
  have pub: "pg_committed (snd s') = ptx_work (fst s2)" using item_txs.commit_publishes [OF co] .
  have "work s1 = work s \<or> (\<exists>row'. item_updated upd row row' (work s) (work s1))"
    using update_item_ok [OF up] row(1) item_updated_lookup unfolding w by (metis option.inject)
  with code row(1) event pub show ?thesis unfolding rt_def work_def by metis
qed

lemma update_item_effect:
  fixes parse toString sha1
  defines "rt \<equiv> pg_runtime parse toString sha1"
  assumes "handleUpdate_EvalItem rt (pg_eval_item_handler rt auth coll c) r w = (resp, w')"
  shows "item_outcome rt auth ApiUpdateItem r resp (pg_committed w) (pg_committed w')"
proof (cases "400 \<le> resp_Code resp \<and> w' = w")
  case True
  then show ?thesis by (simp add: item_outcome_def Let_def)
next
  case False
  obtain body upd where admin: "guardEvalItemAdmin r = None"
    and body: "decode_evalItemUpdateBody (req_Body r) = Inr body" "toStoreUpdate body = Inr upd" and run:
    "with_handle PgStore_BeginEvalItemTx (eval_item_internal ''begin failed'') PgEvalItemTx_Rollback
       (update_item_stage rt (pg_eval_item_handler rt auth coll c) (req_PathID r) upd (resolveCreatedBy r)) w = (resp, w')"
    using assms(2) False
    by (auto simp: handleUpdate_EvalItem_def dest: guard_item_code split: option.splits sum.splits if_splits)
  from admin have adm: "item_admin r" by (simp add: guard_item_None)
  note parent = raw_parent_not_null [OF body]
  show ?thesis
  proof (rule item_txs.with_handle_cases [OF item_stages_safe(3,4) _ run [unfolded rt_def]], goal_cases)
    case (3 t w1 s')
    with update_item_committed [OF 3(3), folded rt_def] adm parent show ?case
      unfolding item_outcome_def Let_def work_def by (simp del: NewRecorder_plain) metis
  qed (auto simp: item_outcome_def Let_def)
qed

lemma read_item_effect:
  assumes "x \<in> set [ApiGetItem, ApiChildren]"
    and "item_api rt (pg_eval_item_handler rt0 auth0 coll c) x r w = (resp, w')"
  shows "item_outcome rt1 auth x r resp (pg_committed w) (pg_committed w')"
proof (cases "req_PathID r = []")
  case True
  then show ?thesis using assms
    by (auto simp: item_api_def handleGetByID_EvalItem_def handleGetChildren_def item_outcome_def Let_def)
next
  case False
  define stage where "stage = (if x = ApiGetItem
     then attempt (GetEvalItemByID c (req_PathID r)) writeEvalItemStoreErr
            (\<lambda>item. refuse (writeEvalItemJSON 200 (toEvalItemResponse item)))
     else attempt (GetEvalItemByID c (req_PathID r)) writeEvalItemStoreErr (\<lambda>_.
          attempt (GetEvalItemsByParentID coll c (req_PathID r)) writeEvalItemStoreErr (\<lambda>children.
            refuse (writeEvalItemJSON 200 (JObject [(''items'', JArray (map toEvalItemResponse children)),
              (''total'', JNumber (strconv_Itoa (int (length children))))])))))"
  have run: "with_handle PgStore_BeginEvalItemTx (eval_item_internal ''begin failed'') PgEvalItemTx_Rollback stage w = (resp, w')"
    using assms False by (auto simp: item_api_def handleGetByID_EvalItem_def handleGetChildren_def stage_def)
  have safe: "safe_stage pg_committed stage" "answers (\<lambda>q. 400 \<le> resp_Code q \<or> resp_Code q = 200) stage"
    unfolding stage_def using item_reads_keep(1,3) [unfolded published_def [abs_def]]
    by (auto intro!: stage_intros)
  show ?thesis
    by (rule item_txs.with_handle_cases [OF safe _ run])
       (use assms(1) in \<open>auto simp: item_outcome_def Let_def stage_def split: if_splits\<close>)
qed

lemma item_request_outcome:
  assumes "item_api (pg_runtime parse toString sha1)
      (pg_eval_item_handler (pg_runtime parse toString sha1) auth coll c) x r w = (resp, w')"
  shows "item_outcome (pg_runtime parse toString sha1) auth x r resp (pg_committed w) (pg_committed w')"
  using assms create_item_effect update_item_effect read_item_effect
  by (cases x) (auto simp: item_api_def intro!: read_item_effect)

section \<open>The forest of the items\<close>

definition parent_edges :: "eval_item_row list \<Rightarrow> (string \<times> string) set" where
  "parent_edges rs = {(ei_id r, p) | r p. r \<in> set rs \<and> ei_parent_id r = Some p}"

definition item_inv :: "db \<Rightarrow> bool" where
  "item_inv d \<longleftrightarrow>
     distinct (map ei_id (db_eval_items d)) \<and> distinct (map ei_hierarchy_code (db_eval_items d)) \<and>
     (\<forall>r\<in>set (db_eval_items d). ei_status r \<in> set allowedEvalItemStatus) \<and>
     snd ` parent_edges (db_eval_items d) \<subseteq> item_ids d \<and> acyclic (parent_edges (db_eval_items d) - Id)"

lemma acyclic_new_edge:
  assumes "acyclic R" and "\<And>z. (z, i) \<notin> R"
  shows "acyclic (insert (i, p) R - Id)"
proof (cases "p = i")
  case True
  have "insert (i, i) R - Id \<subseteq> R" by auto
  then show ?thesis using True assms(1) by (auto intro: acyclic_subset)
next
  case False
  have "(p, i) \<notin> R\<^sup>*" using False assms(2) by (auto elim: rtranclE)
  then have "acyclic (insert (i, p) R)" using assms(1) by (simp add: acyclic_insert)
  then show ?thesis by (rule acyclic_subset) auto
qed

lemma insert_keeps_inv:
  assumes inv: "item_inv d" and ins: "item_inserted row d d'"
  shows "item_inv d'"
proof -
  let ?E = "parent_edges (db_eval_items d)"
  have edges: "parent_edges (db_eval_items d') = (case ei_parent_id row of None \<Rightarrow> ?E | Some p \<Rightarrow> insert (ei_id row, p) ?E)"
    using ins by (auto simp: item_inserted_def parent_edges_def split: option.splits)
  have no_in: "(z, ei_id row) \<notin> ?E - Id" for z
    using inv ins by (force simp: item_inv_def item_inserted_def)
  have "acyclic (parent_edges (db_eval_items d') - Id)"
  proof (cases "ei_parent_id row")
    case (Some p)
    have "insert (ei_id row, p) ?E - Id = insert (ei_id row, p) (?E - Id) - Id" by auto
    then show ?thesis using acyclic_new_edge [of "?E - Id" "ei_id row" p] inv no_in Some edges
      by (simp add: item_inv_def)
  qed (use inv edges in \<open>simp add: item_inv_def\<close>)
  moreover have "snd ` parent_edges (db_eval_items d') \<subseteq> item_ids d'"
    using inv ins edges by (auto simp: item_inv_def item_inserted_def item_ids_def split: option.splits)
  ultimately show ?thesis
    using inv ins by (auto simp: item_inv_def item_inserted_def item_ids_def allowedEvalItemStatus_def)
qed

lemma update_keeps_inv:
  assumes inv: "item_inv d" and up: "item_updated upd r r' d d'"
  shows "item_inv d'"
proof -
  let ?E = "parent_edges (db_eval_items d)" and ?E' = "parent_edges (db_eval_items d')"
  have dist: "distinct (map ei_id (db_eval_items d))" using inv by (simp add: item_inv_def)
  have r: "row_lookup ei_id (db_eval_items d) (ei_id r) = Some r" and i: "ei_id r' = ei_id r"
    and items: "db_eval_items d' = row_update ei_id (ei_id r) (\<lambda>q. r') (db_eval_items d)"
    and hc: "ei_hierarchy_code r' = ei_hierarchy_code r"
    using up by (simp_all add: item_updated_def)
  have set': "set (db_eval_items d') = insert r' (set (db_eval_items d) - {r})"
    unfolding items by (rule set_row_replace [OF dist r])
  have keys: "map ei_id (db_eval_items d') = map ei_id (db_eval_items d)"
    "map ei_hierarchy_code (db_eval_items d') = map ei_hierarchy_code (db_eval_items d)"
    unfolding items by (rule map_row_replace [where f = ei_id, OF dist r i],
        rule map_row_replace [where f = ei_hierarchy_code, OF dist r hc])
  have "item_ids d' = item_ids d" using keys(1) unfolding item_ids_def by (metis set_map)
  moreover have "acyclic (?E' - Id)"
  proof (cases "has_child (ei_id r) d")
    case True
    then have "ei_parent_id r' = ei_parent_id r" using up by (simp add: item_updated_def)
    then have "?E' \<subseteq> ?E" using i row_lookup_in_set [OF r] by (auto simp: parent_edges_def set')
    then show ?thesis using inv by (auto simp: item_inv_def intro: acyclic_subset)
  next
    case False
    then have no_in: "(z, ei_id r) \<notin> ?E - Id" for z by (auto simp: has_child_def parent_edges_def)
    have "?E' - Id \<subseteq> (case ei_parent_id r' of None \<Rightarrow> ?E - Id | Some p \<Rightarrow> insert (ei_id r, p) (?E - Id) - Id)"
      using i by (auto simp: parent_edges_def set' split: option.splits)
    then show ?thesis using acyclic_new_edge [of "?E - Id" "ei_id r", OF _ no_in] inv
      by (cases "ei_parent_id r'") (auto simp: item_inv_def intro: acyclic_subset)
  qed
  moreover have "ei_status r' \<in> set allowedEvalItemStatus"
  proof (cases "eiu_Status upd")
    case None
    then have "ei_status r' = ei_status r" using up unfolding item_updated_def by simp
    then show ?thesis using inv row_lookup_in_set [OF r] by (simp add: item_inv_def)
  qed (use up in \<open>unfold item_updated_def, blast\<close>)
  moreover have "snd ` ?E' \<subseteq> item_ids d"
  proof -
    let ?N = "{(ei_id r', p) | p. ei_parent_id r' = Some p}"
    have "\<forall>p. ei_parent_id r' = Some p \<longrightarrow> p \<in> item_ids d" using up unfolding item_updated_def by blast
    then have n: "snd ` ?N \<subseteq> item_ids d" by auto
    have e: "snd ` ?E \<subseteq> item_ids d" using inv by (simp add: item_inv_def)
    have "snd ` ?E' \<subseteq> snd ` (?N \<union> ?E)" by (rule image_mono) (auto simp: parent_edges_def set')
    then show ?thesis by (rule order_trans) (simp only: image_Un Un_subset_iff n e simp_thms)
  qed
  moreover have "\<forall>q\<in>set (db_eval_items d') - {r'}. ei_status q \<in> set allowedEvalItemStatus"
    using inv by (auto simp: item_inv_def set')
  ultimately show ?thesis using inv unfolding item_inv_def keys by blast
qed

lemma item_outcome_inv:
  assumes "item_outcome rt auth x r resp d d'" and "item_inv d"
  shows "item_inv d'"
proof -
  have ev: "item_inv d2" if "adds_event a ty i u det d1 d2" "item_inv d1" for a ty i u det d1 d2
    using that by (simp add: item_inv_def item_ids_def)
  show ?thesis
    using assms unfolding item_outcome_def Let_def by (metis ev insert_keeps_inv update_keeps_inv)
qed

section \<open>The properties\<close>

text \<open>Every item is still there, with its code; an item with children has kept its place, and no item lost its parent.\<close>

definition items_keep_place :: "db \<Rightarrow> db \<Rightarrow> bool" where
  "items_keep_place d d' \<longleftrightarrow> (\<forall>i row. row_lookup ei_id (db_eval_items d) i = Some row \<longrightarrow>
     (\<exists>row'. row_lookup ei_id (db_eval_items d') i = Some row' \<and>
        ei_hierarchy_code row' = ei_hierarchy_code row \<and> ei_created_by row' = ei_created_by row \<and>
        (has_child i d \<longrightarrow> ei_parent_id row' = ei_parent_id row \<and> ei_level row' = ei_level row) \<and>
        (ei_parent_id row \<noteq> None \<longrightarrow> ei_parent_id row' \<noteq> None)))"

lemma items_keep_place_refl: "db_eval_items d' = db_eval_items d \<Longrightarrow> items_keep_place d d'"
  by (auto simp: items_keep_place_def)

lemma lookup_item_replace:
  "ei_id r' = i \<Longrightarrow> row_lookup ei_id (row_update ei_id i (\<lambda>q. r') rs) j =
     (if j = i then map_option (\<lambda>q. r') (row_lookup ei_id rs i) else row_lookup ei_id rs j)"
  by (induction rs) auto

lemma item_updated_place:
  assumes "item_updated upd r r' d d1" and "eiu_ParentID upd \<noteq> Some None" and "db_eval_items d' = db_eval_items d1"
  shows "items_keep_place d d'"
  using assms by (auto simp: items_keep_place_def item_updated_def lookup_item_replace split: option.splits)

lemma item_outcome_place:
  assumes "item_outcome rt auth x r resp d d'"
  shows "items_keep_place d d'"
proof -
  have ev: "db_eval_items d2 = db_eval_items d1" if "adds_event a ty i u det d1 d2" for a ty i u det d1 d2
    using that by simp
  have ins: "items_keep_place d d'" if "item_inserted row d d1" "db_eval_items d' = db_eval_items d1" for row d1
    using that by (auto simp: items_keep_place_def item_inserted_def)
  show ?thesis
    using assms unfolding item_outcome_def Let_def by (metis ev ins items_keep_place_refl item_updated_place)
qed

primrec serve_items ::
  "('t \<times> 'w) runtime \<Rightarrow> ('t, 'w) EvalItemHandler \<Rightarrow> (item_api \<times> request) list \<Rightarrow> 'w \<Rightarrow> 'w" where
  "serve_items rt h [] w = w"
| "serve_items rt h (q # qs) w = serve_items rt h qs (snd (item_api rt h (fst q) (snd q) w))"

lemma serve_items_induct:
  assumes step: "\<And>x r w resp w'. item_api rt h x r w = (resp, w') \<Longrightarrow> P w \<Longrightarrow> P w'" and "P w"
  shows "P (serve_items rt h qs w)"
  using assms(2)
proof (induction qs arbitrary: w)
  case (Cons q qs)
  have "item_api rt h (fst q) (snd q) w = (fst (item_api rt h (fst q) (snd q) w), snd (item_api rt h (fst q) (snd q) w))"
    by simp
  from step [OF this Cons.prems] Cons.IH show ?case by simp
qed simp

text \<open>
  C38: The items stay a forest. Start from tables whose items have distinct ids and codes, known
  statuses, existing parents and no cycle of two or more items, and serve any sequence of requests
  of any users, with any faults of the connection: the tables are like that afterwards. Only a
  cycle of one item is possible (the last section shows that it is).
\<close>

theorem eval_items_stay_forest:
  assumes "item_inv (pg_committed w)"
  shows "item_inv (pg_committed (serve_items (pg_runtime parse toString sha1)
    (pg_eval_item_handler (pg_runtime parse toString sha1) auth coll c) qs w))"
  by (rule serve_items_induct [where P = "\<lambda>w. item_inv (pg_committed w)"])
     (use assms in \<open>auto dest: item_outcome_inv [OF item_request_outcome]\<close>)

theorem eval_items_stay_forest_witness:
  "item_inv (pg_committed (serve_items (pg_runtime canonical_Parse canonical_String sample_SHA1)
    (pg_eval_item_handler (pg_runtime canonical_Parse canonical_String sample_SHA1) True (\<lambda>_. 0) exact_codec)
    [(ApiUpdateItem, plain_request ''A'' None None)] (sample_pg empty_db)))"
  by (rule eval_items_stay_forest) (simp add: item_inv_def empty_db_def parent_edges_def acyclic_def)

text \<open>
  C39: What one request for the items does, whatever the connection does: an error and no change, a
  read and no change, or (from an administrator, or with authentication disabled) one insertion or one
  update, committed together with exactly one audit event of the user, whose resource is the name
  UUID of the hierarchy code. An item that has children keeps its parent and level, and no item
  with a parent ever becomes a root again: the answer 200 to an update with "parent_id": null does
  not change the parent, though the handler and its test say that it does.
\<close>

theorem eval_item_request_effect:
  assumes "item_api (pg_runtime parse toString sha1)
      (pg_eval_item_handler (pg_runtime parse toString sha1) auth coll c) x r w = (resp, w')"
  shows "item_outcome (pg_runtime parse toString sha1) auth x r resp (pg_committed w) (pg_committed w') \<and>
    items_keep_place (pg_committed w) (pg_committed w')"
  using item_request_outcome [OF assms] item_outcome_place by blast

section \<open>An item that is its own parent\<close>

definition parent_body :: "json \<Rightarrow> json option" where
  "parent_body v = Some (JObject [(''parent_id'', v)])"

definition parent_update :: "string option option \<Rightarrow> EvalItemUpdate" where
  "parent_update p = \<lparr>eiu_ParentID = p, eiu_Level = None, eiu_DisplayName = None, eiu_Description = None,
     eiu_Weight = None, eiu_MaxScore = None, eiu_Status = None, eiu_Metadata = None\<rparr>"

lemma decode_parent_body:
  "\<exists>body. decode_evalItemUpdateBody (parent_body (JString p)) = Inr body \<and>
     toStoreUpdate body = Inr (parent_update (Some (Some p)))"
  "\<exists>body. decode_evalItemUpdateBody (parent_body JNull) = Inr body \<and>
     toStoreUpdate body = Inr (parent_update None)"
  by (simp_all add: parent_body_def decode_evalItemUpdateBody_def decode_object_def to_lower_def set_pointer_def
      both_def toStoreUpdate_def set_string_def parent_update_def)

lemma item_action_short [simp]: "length ActionEvalItemUpdated \<le> 64" "length ActionEvalItemCreated \<le> 64"
  by (simp_all add: ActionEvalItemUpdated_def ActionEvalItemCreated_def)

lemma self_parent_update_runs:
  assumes "live s" and "row_lookup ei_id (db_eval_items (ptx_work (fst s))) i = Some row"
    and "\<not> has_child i (ptx_work (fst s))" and "eval_item_row_error (row\<lparr>ei_parent_id := Some i\<rparr>) = None"
  shows "\<exists>s'. UpdateEvalItem c i (parent_update (Some (Some i))) s = (Inr (), s') \<and> live s' \<and>
    (\<exists>row'. row_lookup ei_id (db_eval_items (ptx_work (fst s'))) i = Some row' \<and> ei_parent_id row' = Some i)"
proof -
  obtain t w where s: "s = (t, w)" by fastforce
  have i: "ei_id row = i" using row_lookup_key [OF assms(2)] .
  have child: "child_count i (ptx_work t) = 0" using assms(3) child_count_pos [of i "ptx_work t"] by (simp add: s)
  have ids: "i \<in> ei_id ` set (db_eval_items (ptx_work t))"
    using row_lookup_in_set [OF assms(2)] i by (auto simp: s)
  have err: "eval_item_row_error (row\<lparr>ei_parent_id := Some i, ei_updated_at := now\<rparr>) = None" for now
    using assms(4) by (auto simp: eval_item_row_error_def split: if_splits)
  show ?thesis
    using assms(1,2) child ids i err
    by (simp add: s live_def UpdateEvalItem_def parent_update_def validateStatusTransition_def opt_list_def
        checkHierarchyMutationGuard_def buildEvalItemUpdateSet_def Let_def update_eval_item_stmt_def
        parent_exists_def GetEvalItemByID_def lookup_item_replace pg_statements)
qed

text \<open>The whole request: begin, read, update, audit event, commit.\<close>

lemma live_get_item:
  "live s \<Longrightarrow> row_lookup ei_id (db_eval_items (ptx_work (fst s))) i = Some row \<Longrightarrow>
   \<exists>s'. GetEvalItemByID c i s = (Inr (scanEvalItemRow c row), s') \<and> live s' \<and> ptx_work (fst s') = ptx_work (fst s)"
  by (cases s) (simp add: live_def GetEvalItemByID_def pg_statements)

lemma live_item_event:
  assumes "live s" and "length (Recorder_resolveUserID (NewRecorder rt auth []) u) \<le> 64"
    and "text_ok (Recorder_resolveUserID (NewRecorder rt auth []) u)"
    and "rt = pg_runtime parse toString sha1"
  shows "\<exists>s'. RecordEvalItemUpdated rt (NewRecorder rt auth []) PgEvalItemTx_InsertAuditLog i hc p n u s = (Inr (), s') \<and>
    no_faults (snd s') \<and> \<not> ptx_aborted (fst s') \<and> \<not> ptx_closed (fst s') \<and>
    db_eval_items (ptx_work (fst s')) = db_eval_items (ptx_work (fst s))"
  unfolding item_event using assms
  by (cases s) (simp add: live_def pg_statements varchar_def ActionEvalItemUpdated_def del: NewRecorder_plain)

lemma update_request_runs:
  fixes parse toString sha1
  defines "rt \<equiv> pg_runtime parse toString sha1"
  assumes w: "no_faults w" "\<forall>n. env_ids w n \<notin> ar_id ` set (db_audit_logs (pg_committed w))"
    and item: "row_lookup ei_id (db_eval_items (pg_committed w)) i = Some row" "i \<noteq> []"
    and r: "item_admin r" "req_PathID r = i" "\<exists>body. decode_evalItemUpdateBody (req_Body r) = Inr body \<and> toStoreUpdate body = Inr upd"
      "length (Recorder_resolveUserID (NewRecorder rt auth []) (resolveCreatedBy r)) \<le> 64"
      "text_ok (Recorder_resolveUserID (NewRecorder rt auth []) (resolveCreatedBy r))"
    and up: "\<And>s. live s \<Longrightarrow> ptx_work (fst s) = pg_committed w \<Longrightarrow>
      \<exists>s'. UpdateEvalItem c i upd s = (Inr (), s') \<and> live s' \<and> P (db_eval_items (ptx_work (fst s')))"
  shows "\<exists>resp w'. item_api rt (pg_eval_item_handler rt auth coll c) ApiUpdateItem r w = (resp, w') \<and>
    resp_Code resp = 200 \<and> P (db_eval_items (pg_committed w'))"
proof -
  obtain t w1 where b: "PgStore_BeginEvalItemTx w = (Inr t, w1)" "live (t, w1)" "ptx_work t = pg_committed w"
    using live_begin [OF w] unfolding PgStore_BeginEvalItemTx_def by blast
  obtain s1 where g: "GetEvalItemByID c i (t, w1) = (Inr (scanEvalItemRow c row), s1)" "live s1"
    "ptx_work (fst s1) = pg_committed w"
    using live_get_item [OF b(2)] item(1) b(3) by fastforce
  obtain s2 where u: "UpdateEvalItem c i upd s1 = (Inr (), s2)" "live s2" "P (db_eval_items (ptx_work (fst s2)))"
    using up [OF g(2,3)] by blast
  let ?item = "scanEvalItemRow c row"
  obtain s3 where e: "RecordEvalItemUpdated rt (NewRecorder rt auth []) PgEvalItemTx_InsertAuditLog i
      (evi_HierarchyCode ?item) (text_or_empty (evi_ParentID ?item)) (level_or_zero (evi_Level ?item))
      (resolveCreatedBy r) s2 = (Inr (), s3)" "no_faults (snd s3)" "\<not> ptx_aborted (fst s3)" "\<not> ptx_closed (fst s3)"
    "db_eval_items (ptx_work (fst s3)) = db_eval_items (ptx_work (fst s2))"
    using live_item_event [OF u(2) r(4,5) rt_def [THEN meta_eq_to_obj_eq]] by blast
  obtain s4 where m: "PgEvalItemTx_Commit s3 = (Inr (), s4)" "pg_committed (snd s4) = ptx_work (fst s3)"
    using live_commit [OF e(2-4)] unfolding PgEvalItemTx_Commit_def by blast
  show ?thesis
    using r(1-3) item(2) b(1) g(1) u e(1,5) m
    by (auto simp: item_api_def handleUpdate_EvalItem_def guard_item_None [symmetric] with_handle_def update_item_stage_def
        attempt_def answer_def simp del: NewRecorder_plain)
qed

definition own_parent :: "string \<Rightarrow> db \<Rightarrow> bool" where
  "own_parent i d \<longleftrightarrow> (\<exists>row. row_lookup ei_id (db_eval_items d) i = Some row \<and> ei_parent_id row = Some i)"

lemma own_parent_stays:
  assumes "own_parent i d" and "items_keep_place d d'"
  shows "own_parent i d'"
proof -
  obtain row where row: "row_lookup ei_id (db_eval_items d) i = Some row" "ei_parent_id row = Some i"
    using assms(1) by (auto simp: own_parent_def)
  then have "has_child i d" by (auto simp: has_child_def dest: row_lookup_in_set)
  with row assms(2) show ?thesis unfolding items_keep_place_def own_parent_def by metis
qed

text \<open>
  An item can be made its own parent, for ever. Without faults an update of an item without
  children that names the item itself as the new parent is answered 200 and stored: the foreign key
  holds, and the guard looks for children only. From then on the item counts as its own child, so
  whatever requests follow, it stays its own parent.
\<close>

lemma own_parent_for_ever:
  fixes parse toString sha1
  defines "rt \<equiv> pg_runtime parse toString sha1"
  assumes "no_faults w" and "\<forall>n. env_ids w n \<notin> ar_id ` set (db_audit_logs (pg_committed w))"
    and "row_lookup ei_id (db_eval_items (pg_committed w)) i = Some row" and "\<not> has_child i (pg_committed w)"
    and "eval_item_row_error (row\<lparr>ei_parent_id := Some i\<rparr>) = None" and "i \<noteq> []"
    and "item_admin r" and "req_PathID r = i" and "req_Body r = parent_body (JString i)"
    and "length (Recorder_resolveUserID (NewRecorder rt auth []) (resolveCreatedBy r)) \<le> 64"
    and "text_ok (Recorder_resolveUserID (NewRecorder rt auth []) (resolveCreatedBy r))"
  shows "\<exists>resp w'. item_api rt (pg_eval_item_handler rt auth coll c) ApiUpdateItem r w = (resp, w') \<and>
    resp_Code resp = 200 \<and>
    (\<forall>qs. own_parent i (pg_committed (serve_items rt (pg_eval_item_handler rt auth coll c) qs w')))"
proof -
  obtain resp w' where w': "item_api rt (pg_eval_item_handler rt auth coll c) ApiUpdateItem r w = (resp, w')"
    "resp_Code resp = 200" "own_parent i (pg_committed w')"
  proof -
    let ?P = "\<lambda>rs. \<exists>row. row_lookup ei_id rs i = Some row \<and> ei_parent_id row = Some i"
    have "\<exists>resp w'. item_api rt (pg_eval_item_handler rt auth coll c) ApiUpdateItem r w = (resp, w') \<and>
        resp_Code resp = 200 \<and> ?P (db_eval_items (pg_committed w'))"
      unfolding rt_def
    proof (rule update_request_runs [where i = i and row = row and P = ?P and upd = "parent_update (Some (Some i))"], goal_cases)
      case (10 s)
      then show ?case using self_parent_update_runs [of s i row c] assms by simp
    qed (use assms decode_parent_body(1) in simp_all)
    with that show ?thesis unfolding own_parent_def by blast
  qed
  have "own_parent i (pg_committed (serve_items rt (pg_eval_item_handler rt auth coll c) qs w'))" for qs
    by (rule serve_items_induct [where P = "\<lambda>w. own_parent i (pg_committed w)"])
       (use w'(3) in \<open>auto simp: rt_def intro: own_parent_stays [OF _ item_outcome_place [OF item_request_outcome]]\<close>)
  with w'(1,2) show ?thesis by blast
qed

definition sample_item :: "string \<Rightarrow> string option \<Rightarrow> eval_item_row" where
  "sample_item i p = \<lparr>ei_id = i, ei_parent_id = p, ei_display_name = ''Safety'', ei_description = None,
     ei_level = Some 2, ei_hierarchy_code = ''AX-'' @ i, ei_weight = None, ei_max_score = None,
     ei_status = ''ACTIVE'', ei_metadata = None, ei_created_at = 1, ei_created_by = ''cli-anonymous'', ei_updated_at = 1\<rparr>"

definition item_db :: "eval_item_row list \<Rightarrow> db" where
  "item_db rs = empty_db\<lparr>db_eval_items := rs\<rparr>"

lemma item_db_simps [simp]: "db_eval_items (item_db rs) = rs" "db_audit_logs (item_db rs) = []"
  by (simp_all add: item_db_def empty_db_def)

text \<open>An update that asks for no parent is answered and leaves the parent.\<close>

theorem eval_item_request_effect_witness:
  "\<exists>resp w'. item_api (pg_runtime canonical_Parse canonical_String sample_SHA1)
      (pg_eval_item_handler (pg_runtime canonical_Parse canonical_String sample_SHA1) False (\<lambda>_. 0) exact_codec) ApiUpdateItem
      (plain_request ''B'' (parent_body JNull) None)
      (sample_pg (item_db [sample_item ''A'' None, sample_item ''B'' (Some ''A'')])) = (resp, w') \<and> resp_Code resp = 200 \<and>
    (\<exists>row'. row_lookup ei_id (db_eval_items (pg_committed w')) ''B'' = Some row' \<and> ei_parent_id row' \<noteq> None)"
proof -
  let ?rt = "pg_runtime canonical_Parse canonical_String sample_SHA1" and ?d = "item_db [sample_item ''A'' None, sample_item ''B'' (Some ''A'')]"
  let ?h = "pg_eval_item_handler ?rt False (\<lambda>_. 0) exact_codec" and ?r = "plain_request ''B'' (parent_body JNull) None"
  have "\<exists>resp w'. item_api ?rt ?h ApiUpdateItem ?r (sample_pg ?d) = (resp, w') \<and> resp_Code resp = 200 \<and> True"
  proof (rule update_request_runs [where upd = "parent_update None" and i = "''B''" and row = "sample_item ''B'' (Some ''A'')"], goal_cases)
    case (10 s)
    then show ?case
      by (cases s) (simp add: live_def UpdateEvalItem_def parent_update_def validateStatusTransition_def GetEvalItemByID_def
          checkHierarchyMutationGuard_def buildEvalItemUpdateSet_def opt_list_def pg_statements sample_item_def)
  qed (use decode_parent_body(2) in \<open>simp_all add: sample_item_def item_admin_def Recorder_resolveUserID_def DefaultUserID_def\<close>)
  then obtain resp w' where run: "item_api ?rt ?h ApiUpdateItem ?r (sample_pg ?d) = (resp, w')" and "resp_Code resp = 200" by blast
  moreover have "\<exists>row'. row_lookup ei_id (db_eval_items (pg_committed w')) ''B'' = Some row' \<and> ei_parent_id row' \<noteq> None"
  proof -
    have "items_keep_place ?d (pg_committed w')" using eval_item_request_effect [OF run] by simp
    moreover have "row_lookup ei_id (db_eval_items ?d) ''B'' = Some (sample_item ''B'' (Some ''A''))"
      by (simp add: sample_item_def)
    moreover have "ei_parent_id (sample_item ''B'' (Some ''A'')) \<noteq> None" by (simp add: sample_item_def)
    ultimately show ?thesis unfolding items_keep_place_def by blast
  qed
  ultimately show ?thesis using run by blast
qed

end
