(* ===== verification/Sha256.thy ===== *)
theory Sha256
  imports Prelude "HOL-Library.Word"
begin

text \<open>
  crypto/sha256 and encoding/hex, as the evidence handler uses them: SHA-256 of a byte string
  (FIPS 180-4) and its hexadecimal text in lower case.
\<close>

unbundle bit_operations_syntax

text \<open>
  The constants are the first 32 bits of the fractional parts of the roots of the first primes: cube
  roots for the 64 rounds, square roots for the initial state. \<^verbatim>\<open>root_bits r k acc n\<close> finds the
  largest number with k further bits whose power is at most n; the words keep its low 32 bits.
\<close>

primrec root_bits :: "nat \<Rightarrow> nat \<Rightarrow> nat \<Rightarrow> nat \<Rightarrow> nat" where
  "root_bits r 0 acc n = acc"
| "root_bits r (Suc k) acc n = root_bits r k (if (acc + 2 ^ k) ^ r \<le> n then acc + 2 ^ k else acc) n"

definition first_primes :: "nat \<Rightarrow> nat list" where
  "first_primes bound = List.filter (\<lambda>p. 1 < p \<and> (\<forall>d\<in>set [2..<p]. p mod d \<noteq> 0)) [0..<bound]"

definition sha_k :: "32 word list" where
  "sha_k = map (\<lambda>p. word_of_nat (root_bits 3 36 0 (p * 2 ^ 96))) (first_primes 312)"

definition sha_h0 :: "32 word list" where
  "sha_h0 = map (\<lambda>p. word_of_nat (root_bits 2 36 0 (p * 2 ^ 64))) (first_primes 20)"

definition ror32 :: "nat \<Rightarrow> 32 word \<Rightarrow> 32 word" where
  "ror32 n x = drop_bit n x OR push_bit (32 - n) x"

text \<open>The padding: a bit 1, zeros, and the length in bits as 64 bits.\<close>

definition be_bytes :: "nat \<Rightarrow> nat \<Rightarrow> bytes" where
  "be_bytes k n = map (\<lambda>i. word_of_nat (n div 256 ^ (k - 1 - i))) [0..<k]"

definition sha_pad :: "bytes \<Rightarrow> bytes" where
  "sha_pad m = m @ [0x80] @ replicate ((119 - length m mod 64) mod 64) 0 @ be_bytes 8 (8 * length m)"

definition be_word :: "bytes \<Rightarrow> 32 word" where
  "be_word bs = foldl (\<lambda>w b. push_bit 8 w OR ucast b) 0 bs"

primrec chunks :: "nat \<Rightarrow> nat \<Rightarrow> 'a list \<Rightarrow> 'a list list" where
  "chunks n 0 xs = []"
| "chunks n (Suc k) xs = take n xs # chunks n k (drop n xs)"

text \<open>The message schedule, extended at the end one word at a time.\<close>

primrec sha_schedule :: "nat \<Rightarrow> 32 word list \<Rightarrow> 32 word list" where
  "sha_schedule 0 ws = ws"
| "sha_schedule (Suc k) ws =
     (let n = length ws; w15 = ws ! (n - 15); w2 = ws ! (n - 2);
          s0 = ror32 7 w15 XOR ror32 18 w15 XOR drop_bit 3 w15;
          s1 = ror32 17 w2 XOR ror32 19 w2 XOR drop_bit 10 w2
      in sha_schedule k (ws @ [ws ! (n - 16) + s0 + ws ! (n - 7) + s1]))"

fun sha_round :: "32 word list \<Rightarrow> 32 word \<times> 32 word \<Rightarrow> 32 word list" where
  "sha_round [a, b, c, d, e, f, g, h] (k, w) =
     (let s1 = ror32 6 e XOR ror32 11 e XOR ror32 25 e; ch = (e AND f) XOR (NOT e AND g);
          t1 = h + s1 + ch + k + w;
          s0 = ror32 2 a XOR ror32 13 a XOR ror32 22 a; maj = (a AND b) XOR (a AND c) XOR (b AND c)
      in [t1 + s0 + maj, a, b, c, d + t1, e, f, g])"
| "sha_round st kw = st"

definition sha_block :: "32 word list \<Rightarrow> bytes \<Rightarrow> 32 word list" where
  "sha_block st blk =
     map2 (+) st (foldl sha_round st (zip sha_k (sha_schedule 48 (map be_word (chunks 4 16 blk)))))"

definition sha256 :: "bytes \<Rightarrow> bytes" where
  "sha256 m =
     (let p = sha_pad m in
      concat (map (\<lambda>w. be_bytes 4 (unat w)) (foldl sha_block sha_h0 (chunks 64 (length p div 64) p))))"

definition hex_digit :: "nat \<Rightarrow> char" where
  "hex_digit n = (if n < 10 then char_of (48 + n) else char_of (87 + n))"

definition hex_EncodeToString :: "bytes \<Rightarrow> string" where
  "hex_EncodeToString bs = concat (map (\<lambda>b. [hex_digit (unat b div 16), hex_digit (unat b mod 16)]) bs)"

lemma hex_length [simp]: "length (hex_EncodeToString bs) = 2 * length bs"
  by (induction bs) (simp_all add: hex_EncodeToString_def)

lemma sha_round_length: "length (sha_round st kw) = length st"
  by (cases "(st, kw)" rule: sha_round.cases) (simp_all add: Let_def)

lemma sha_rounds_length: "length (foldl sha_round st kws) = length st"
  by (induction kws arbitrary: st) (simp_all add: sha_round_length)

lemma sha_block_length: "length (sha_block st blk) = length st"
  by (simp add: sha_block_def sha_rounds_length)

lemma eight_primes: "first_primes 20 = [2, 3, 5, 7, 11, 13, 17, 19]"
  by code_simp

lemma sha256_length [simp]: "length (sha256 m) = 32"
proof -
  have "length (foldl sha_block st bs) = length st" for st bs
    by (induction bs arbitrary: st) (simp_all add: sha_block_length)
  then show ?thesis
    by (simp add: sha256_def Let_def length_concat be_bytes_def comp_def sum_list_triv sha_h0_def eight_primes)
qed

end
