(* ===== verification/Evidence_Store.thy ===== *)
theory Evidence_Store
  imports Database Recorder
begin

text \<open>
  internal/store/evidence.go and internal/storage/storage.go: the versions of the evidence for an
  evaluation item, each kept as a row that refers to the version before it, and the logical location
  of its bytes. The interface is that of store.go. How PostgreSQL reads a text into a column that is
  not a text (UpdateEvidenceBodyColumn sends texts) is the argument \<^verbatim>\<open>ti\<close>.
\<close>

record Evidence =
  evd_Metadata :: json_map
  evd_CreatedAt :: time
  evd_UpdatedAt :: time
  evd_PreviousVersionID :: "uuid option"
  evd_EvaluationItemID :: string
  evd_FileName :: string
  evd_FileHashSHA256 :: string
  evd_ContentType :: string
  evd_StorageStrategy :: string
  evd_StorageLocation :: string
  evd_Status :: string
  evd_CreatedBy :: string
  evd_ID :: uuid
  evd_FileSizeBytes :: int
  evd_Version :: int

record 's EvidenceTx =
  vtx_InsertEvidence :: "string \<Rightarrow> string \<Rightarrow> string \<Rightarrow> int \<Rightarrow> string \<Rightarrow> string \<Rightarrow> string \<Rightarrow> json_map \<Rightarrow> bytes \<Rightarrow>
    uuid option \<Rightarrow> ('s, uuid) eff"
  vtx_GetEvidenceByID :: "uuid \<Rightarrow> ('s, Evidence) eff"
  vtx_GetLatestVersionByEvalItem :: "string \<Rightarrow> ('s, Evidence option) eff"
  vtx_ListEvidenceByEvalItem :: "string \<Rightarrow> ('s, Evidence list) eff"
  vtx_MarkSuperseded :: "uuid \<Rightarrow> ('s, unit) eff"
  vtx_InsertAuditLog :: "audit_event \<Rightarrow> ('s, unit) eff"
  vtx_Commit :: "('s, unit) eff"
  vtx_Rollback :: "('s, unit) eff"

section \<open>The statements\<close>

definition text_of :: "string option \<Rightarrow> string" where
  "text_of x = (case x of None \<Rightarrow> [] | Some s \<Rightarrow> s)"

definition opt_text :: "nat \<Rightarrow> string option \<Rightarrow> bool" where
  "opt_text n x = (case x of None \<Rightarrow> True | Some s \<Rightarrow> varchar n s)"

text \<open>
  Every text of a row has to be a text for PostgreSQL, and a statement with all its values is one
  message of the protocol, shorter than 1 GB; the bytes of the content alone are counted here.
\<close>

definition evidence_texts :: "evidence_row \<Rightarrow> string list" where
  "evidence_texts r =
     [ew_evaluation_item_id r, ew_file_name r, text_of (ew_file_hash_sha256 r), text_of (ew_content_type r),
      text_of (ew_storage_location r), ew_storage_strategy r, ew_status r, ew_created_by r]"

definition content_bytes :: "evidence_row \<Rightarrow> nat" where
  "content_bytes r = (case ew_file_content r of None \<Rightarrow> 0 | Some bs \<Rightarrow> length bs)"

definition evidence_row_error :: "evidence_row \<Rightarrow> goerr option" where
  "evidence_row_error r =
     (if \<not> list_all text_ok (evidence_texts r) then Some (PgError ''22021'')
      else if 2 ^ 30 - 1 \<le> content_bytes r then Some (PgError ''54000'')
      else if \<not> varchar 64 (ew_evaluation_item_id r) \<or> \<not> varchar 512 (ew_file_name r) \<or>
         \<not> opt_text 64 (ew_file_hash_sha256 r) \<or> \<not> opt_text 128 (ew_content_type r) \<or>
         \<not> opt_text 255 (ew_storage_location r) \<or> \<not> varchar 32 (ew_storage_strategy r) \<or>
         \<not> varchar 32 (ew_status r) \<or> \<not> varchar 64 (ew_created_by r)
      then Some (PgError ''22001'')
      else if ew_storage_strategy r \<notin> set [''filesystem'', ''database_blob'', ''minio'']
      then Some (PgError ''23514'')
      else None)"

definition insert_evidence_stmt ::
  "uuid \<Rightarrow> string \<Rightarrow> int \<Rightarrow> uuid option \<Rightarrow> string \<Rightarrow> int \<Rightarrow> string \<Rightarrow> string \<Rightarrow> bytes \<Rightarrow> string \<Rightarrow> string \<Rightarrow>
   json_map option \<Rightarrow> uuid statement" where
  "insert_evidence_stmt i evalItemID version prev fileName size_bytes hash contentType content location strategy md =
     (\<lambda>now u d.
      let r = \<lparr>ew_id = i, ew_evaluation_item_id = evalItemID, ew_version = version, ew_previous_version_id = prev,
               ew_file_name = fileName, ew_file_size_bytes = Some size_bytes, ew_file_hash_sha256 = Some hash,
               ew_content_type = Some contentType, ew_file_content = Some content,
               ew_storage_location = Some location, ew_storage_strategy = strategy, ew_status = ''ACTIVE'',
               ew_metadata = md, ew_created_at = now, ew_created_by = ''cli-anonymous'', ew_updated_at = now\<rparr>
      in case evidence_row_error r of
           Some e \<Rightarrow> Inl e
         | None \<Rightarrow>
             if i \<in> ew_id ` set (db_evidences d) then Inl (PgError ''23505'')
             else if (case prev of None \<Rightarrow> False | Some p \<Rightarrow> p \<noteq> i \<and> p \<notin> ew_id ` set (db_evidences d))
             then Inl (PgError ''23503'')
             else Inr (i, d\<lparr>db_evidences := db_evidences d @ [r]\<rparr>))"

definition supersede_evidence_row :: "time \<Rightarrow> evidence_row \<Rightarrow> evidence_row" where
  "supersede_evidence_row now r = r\<lparr>ew_status := ''SUPERSEDED'', ew_updated_at := now\<rparr>"

definition mark_superseded_stmt :: "uuid \<Rightarrow> nat statement" where
  "mark_superseded_stmt i = (\<lambda>now u d.
     case row_lookup ew_id (db_evidences d) i of
       None \<Rightarrow> Inr (0, d)
     | Some r \<Rightarrow> if ew_status r \<noteq> ''ACTIVE'' then Inr (0, d)
         else Inr (1, d\<lparr>db_evidences := row_update ew_id i (supersede_evidence_row now) (db_evidences d)\<rparr>))"

section \<open>PgEvidenceTx\<close>

definition PgStore_BeginEvidenceTx :: "(pg_world, pg_tx) eff" where
  "PgStore_BeginEvidenceTx =
     callw pool_BeginTx (\<lambda>e. wrap1 ''BeginEvidenceTx failed'' (Sentinel ErrPgxPoolExhausted)) retn"

definition scanEvidenceRow :: "evidence_row \<Rightarrow> Evidence" where
  "scanEvidenceRow r =
     \<lparr>evd_Metadata = (case ew_metadata r of None \<Rightarrow> Map.empty | Some m \<Rightarrow> m),
      evd_CreatedAt = ew_created_at r, evd_UpdatedAt = ew_updated_at r,
      evd_PreviousVersionID = ew_previous_version_id r, evd_EvaluationItemID = ew_evaluation_item_id r,
      evd_FileName = ew_file_name r, evd_FileHashSHA256 = text_of (ew_file_hash_sha256 r),
      evd_ContentType = text_of (ew_content_type r), evd_StorageStrategy = ew_storage_strategy r,
      evd_StorageLocation = text_of (ew_storage_location r), evd_Status = ew_status r,
      evd_CreatedBy = ew_created_by r, evd_ID = ew_id r,
      evd_FileSizeBytes = (case ew_file_size_bytes r of None \<Rightarrow> 0 | Some n \<Rightarrow> n), evd_Version = ew_version r\<rparr>"

text \<open>The row that a query with these texts as parameters gives.\<close>

definition scanOne :: "string list \<Rightarrow> (db \<Rightarrow> evidence_row option) \<Rightarrow> (pg_state, Evidence) eff" where
  "scanOne ts f =
     callw (call (pg_query_texts ts f) (\<lambda>r. case r of
         None \<Rightarrow> throw (Sentinel pgx_ErrNoRows) | Some row \<Rightarrow> retn (scanEvidenceRow row)))
       (\<lambda>e. if errors_Is e pgx_ErrNoRows then wrap1 ''GetEvidence key'' (Sentinel ErrEvidenceNotFound)
            else wrap1 ''GetEvidence scan failed'' e) retn"

definition GetEvidenceByID :: "uuid \<Rightarrow> (pg_state, Evidence) eff" where
  "GetEvidenceByID i = scanOne [] (\<lambda>d. row_lookup ew_id (db_evidences d) i)"

definition evidence_of_item :: "string \<Rightarrow> db \<Rightarrow> evidence_row list" where
  "evidence_of_item e d = List.filter (\<lambda>r. ew_evaluation_item_id r = e) (db_evidences d)"

text \<open>ORDER BY version DESC; the order of equal versions, which SQL leaves open, is that of insertion.\<close>

definition by_version_desc :: "string \<Rightarrow> db \<Rightarrow> evidence_row list" where
  "by_version_desc e d = sort_key (\<lambda>r. - ew_version r) (evidence_of_item e d)"

definition GetLatestVersionByEvalItem :: "string \<Rightarrow> (pg_state, Evidence option) eff" where
  "GetLatestVersionByEvalItem evalItemID s =
     (case scanOne [evalItemID] (\<lambda>d. case by_version_desc evalItemID d of [] \<Rightarrow> None | r # _ \<Rightarrow> Some r) s of
        (Inl e, s') \<Rightarrow> if errors_Is e ErrEvidenceNotFound then (Inr None, s') else (Inl e, s')
      | (Inr ev, s') \<Rightarrow> (Inr (Some ev), s'))"

definition ListEvidenceByEvalItem :: "string \<Rightarrow> (pg_state, Evidence list) eff" where
  "ListEvidenceByEvalItem evalItemID =
     callw (pg_query_texts [evalItemID] (\<lambda>d. map scanEvidenceRow (by_version_desc evalItemID d)))
       (wrap1 ''ListEvidenceByEvalItem failed'') retn"

definition next_version :: "uuid option \<Rightarrow> (pg_state, int) eff" where
  "next_version previousVersionID = (case previousVersionID of
     None \<Rightarrow> retn 1
   | Some p \<Rightarrow> callw (GetEvidenceByID p) (wrap1 ''InsertEvidence lookup of the previous version failed'')
       (\<lambda>prev. retn (evd_Version prev + 1)))"

definition InsertEvidence ::
  "string \<Rightarrow> string \<Rightarrow> string \<Rightarrow> int \<Rightarrow> string \<Rightarrow> string \<Rightarrow> string \<Rightarrow> json_map \<Rightarrow> bytes \<Rightarrow> uuid option \<Rightarrow>
   (pg_state, uuid) eff" where
  "InsertEvidence evalItemID fileName contentType fileSizeBytes fileHashSHA256 storageStrategy storageLocation
     md fileContent previousVersionID =
     call uuid_New (\<lambda>i.
     call (next_version previousVersionID) (\<lambda>version.
     call (lift (if md = Map.empty then Inr None else
         (case json_Marshal md of Inl e \<Rightarrow> Inl (wrap1 ''InsertEvidence metadata failed'' e) | Inr j \<Rightarrow> Inr (Some j))))
       (\<lambda>metaJSON.
     callw (call (lift (encode_int4 version)) (\<lambda>_.
         pg_run (insert_evidence_stmt i evalItemID version previousVersionID fileName fileSizeBytes
           fileHashSHA256 contentType fileContent storageLocation storageStrategy metaJSON)))
       (sql_failed ''InsertEvidence failed'') retn)))"

definition MarkSuperseded :: "uuid \<Rightarrow> (pg_state, unit) eff" where
  "MarkSuperseded i =
     callw (pg_run (mark_superseded_stmt i)) (wrap1 ''MarkSuperseded failed'') (\<lambda>n.
     if n = 0 then throw (wrap1 ''MarkSuperseded id'' (Sentinel ErrEvidenceNotFound)) else retn ())"

section \<open>The body of a row\<close>

definition allowedBodyColumns :: "string list" where
  "allowedBodyColumns = [''file_name'', ''file_size_bytes'', ''file_hash_sha256'', ''content_type'',
     ''storage_location'', ''file_content'', ''metadata'']"

record text_input =
  ti_int8 :: "string \<Rightarrow> goerr + int"
  ti_bytea :: "string \<Rightarrow> goerr + bytes"
  ti_jsonb :: "string \<Rightarrow> goerr + json_map option"

definition set_body_column :: "text_input \<Rightarrow> string \<Rightarrow> string \<Rightarrow> evidence_row \<Rightarrow> goerr + evidence_row" where
  "set_body_column ti col v r =
     (if col = ''file_name'' then Inr (r\<lparr>ew_file_name := v\<rparr>)
      else if col = ''file_size_bytes'' then
        (case ti_int8 ti v of Inl e \<Rightarrow> Inl e | Inr n \<Rightarrow> Inr (r\<lparr>ew_file_size_bytes := Some n\<rparr>))
      else if col = ''file_hash_sha256'' then Inr (r\<lparr>ew_file_hash_sha256 := Some v\<rparr>)
      else if col = ''content_type'' then Inr (r\<lparr>ew_content_type := Some v\<rparr>)
      else if col = ''storage_location'' then Inr (r\<lparr>ew_storage_location := Some v\<rparr>)
      else if col = ''file_content'' then
        (case ti_bytea ti v of Inl e \<Rightarrow> Inl e | Inr b \<Rightarrow> Inr (r\<lparr>ew_file_content := Some b\<rparr>))
      else if col = ''metadata'' then
        (case ti_jsonb ti v of Inl e \<Rightarrow> Inl e | Inr m \<Rightarrow> Inr (r\<lparr>ew_metadata := m\<rparr>))
      else Inl (PgError ''42703''))"

definition update_body_stmt :: "text_input \<Rightarrow> uuid \<Rightarrow> string \<Rightarrow> string \<Rightarrow> nat statement" where
  "update_body_stmt ti i col v = (\<lambda>now u d.
     case row_lookup ew_id (db_evidences d) i of
       None \<Rightarrow> Inr (0, d)
     | Some r \<Rightarrow> (case set_body_column ti col v r of
         Inl e \<Rightarrow> Inl e
       | Inr r' \<Rightarrow> let r'' = r'\<lparr>ew_updated_at := now\<rparr> in (case evidence_row_error r'' of
           Some e \<Rightarrow> Inl e
         | None \<Rightarrow> Inr (1, d\<lparr>db_evidences := row_update ew_id i (\<lambda>q. r'') (db_evidences d)\<rparr>))))"

definition successor_count :: "uuid \<Rightarrow> db \<Rightarrow> nat" where
  "successor_count i d = length (List.filter (\<lambda>r. ew_previous_version_id r = Some i) (db_evidences d))"

definition UpdateEvidenceBodyColumn :: "text_input \<Rightarrow> uuid \<Rightarrow> string \<Rightarrow> string \<Rightarrow> (pg_state, unit) eff" where
  "UpdateEvidenceBodyColumn ti i col v =
     (if col \<notin> set allowedBodyColumns then throw (LibError ''UpdateEvidenceBodyColumn: column not allowed'')
      else callw (pg_query (successor_count i)) (wrap1 ''UpdateEvidenceBodyColumn successor check failed'') (\<lambda>n.
        if 0 < n then throw (wrap1 ''UpdateEvidenceBodyColumn'' (Sentinel ErrEvidenceImmutable))
        else callw (pg_run (update_body_stmt ti i col v)) (wrap1 ''UpdateEvidenceBodyColumn failed'') (\<lambda>k.
          if k = 0 then throw (wrap1 ''UpdateEvidenceBodyColumn id'' (Sentinel ErrEvidenceNotFound)) else retn ())))"

section \<open>The transaction and the location of the bytes\<close>

definition PgEvidenceTx_InsertAuditLog :: "audit_event \<Rightarrow> (pg_state, unit) eff" where
  "PgEvidenceTx_InsertAuditLog e = insert_audit ''InsertAuditLog(evidence) failed'' e"

definition PgEvidenceTx_Commit :: "(pg_state, unit) eff" where
  "PgEvidenceTx_Commit = callw pg_commit (wrap1 ''Commit(evidence) failed'') (\<lambda>_. retn ())"

definition PgEvidenceTx_Rollback :: "(pg_state, unit) eff" where
  "PgEvidenceTx_Rollback s =
     (case pg_rollback s of
        (Inl e, s') \<Rightarrow> if errors_Is e pgx_ErrTxClosed then (Inr (), s')
                      else (Inl (wrap1 ''Rollback(evidence) failed'' e), s')
      | (Inr u, s') \<Rightarrow> (Inr (), s'))"

definition PgEvidenceTx_methods :: "pg_state EvidenceTx" where
  "PgEvidenceTx_methods =
     \<lparr>vtx_InsertEvidence = InsertEvidence, vtx_GetEvidenceByID = GetEvidenceByID,
      vtx_GetLatestVersionByEvalItem = GetLatestVersionByEvalItem,
      vtx_ListEvidenceByEvalItem = ListEvidenceByEvalItem, vtx_MarkSuperseded = MarkSuperseded,
      vtx_InsertAuditLog = PgEvidenceTx_InsertAuditLog, vtx_Commit = PgEvidenceTx_Commit,
      vtx_Rollback = PgEvidenceTx_Rollback\<rparr>"

text \<open>dbBlobStore: the bytes stay in the row, only the location is a value.\<close>

definition dbBlobStore_Put :: "string \<Rightarrow> goerr + string" where
  "dbBlobStore_Put key =
     (if key = [] then Inl (LibError ''dbBlobStore.Put: empty key'') else Inr (''db://evidences/'' @ key))"

definition dbBlobStore_Get :: "string \<Rightarrow> goerr + bytes" where
  "dbBlobStore_Get location = Inl (LibError ''dbBlobStore.Get: not supported'')"

end
