(* ===== verification/Evidence_Handlers.thy ===== *)
theory Evidence_Handlers
  imports Handler_Frame Evidence_Store Sha256
begin

text \<open>
  cmd/server/evidence_handlers.go: the upload of evidence. A multipart request is what the reader of
  mime/multipart gives for its body: an error, or the parts with the bytes that each of them
  delivers, and whether an error of the stream follows. Numbers of bytes are int64, whose addition
  wraps. Log lines are not modelled.
\<close>

record part =
  pt_FormName :: string
  pt_FileName :: string
  pt_Data :: bytes
  pt_Error :: bool

text \<open>The parts in order, and whether the last call of NextPart failed (else it was io.EOF).\<close>

record evidence_request = request +
  er_ContentType :: string
  er_Multipart :: "string + part list \<times> bool"

record ('t, 'w) EvidenceHandler =
  vh_Begin :: "('w, 't) eff"
  vh_Tx :: "('t \<times> 'w) EvidenceTx"
  vh_recorder :: "('t \<times> 'w) Recorder"
  vh_Put :: "string \<Rightarrow> goerr + string"
  vh_NewUUID :: "('t \<times> 'w, uuid) eff"
  vh_maxFileBytes :: "64 word"
  vh_dupSignal :: bool

definition evidence_maxEvalItemIDLen :: nat where
  "evidence_maxEvalItemIDLen = 64"

definition maxFileNameLen :: nat where
  "maxFileNameLen = 512"

definition writeEvidenceJSON :: "nat \<Rightarrow> json \<Rightarrow> response" where
  "writeEvidenceJSON code v =
     \<lparr>resp_Code = code, resp_Header = [(''Content-Type'', ''application/json'')], resp_Body = v\<rparr>"

definition writeEvidenceErr :: "nat \<Rightarrow> string \<Rightarrow> string \<Rightarrow> string \<Rightarrow> response" where
  "writeEvidenceErr code errCode msg field =
     writeEvidenceJSON code (JObject [(''error'',
       JObject ([(''code'', JString errCode), (''message'', JString msg)] @ text_field ''field'' field))])"

section \<open>The multipart body\<close>

text \<open>io.LimitReader(r, n): at most n bytes, none when n is not positive, and then no error is seen.\<close>

definition limit_reader :: "int \<Rightarrow> bytes \<Rightarrow> bool \<Rightarrow> bytes \<times> bool" where
  "limit_reader n bs err =
     (if n \<le> 0 then ([], False) else if n \<le> int (length bs) then (take (nat n) bs, False) else (bs, err))"

definition oversized_msg :: string where
  "oversized_msg = ''file exceeds maximum allowed size''"

definition parseAndHashMultipart :: "bytes \<Rightarrow> bool \<Rightarrow> 64 word \<Rightarrow> string + bytes \<times> bytes" where
  "parseAndHashMultipart bs err maxBytes =
     (case limit_reader (sint (maxBytes + 1)) bs err of (got, e) \<Rightarrow>
        if e then Inl ''file read failed''
        else if sint maxBytes < int (length got) then Inl oversized_msg
        else Inr (got, sha256 got))"

definition bytes_text :: "bytes \<Rightarrow> string" where
  "bytes_text bs = map (\<lambda>b. char_of (unat b)) bs"

record evidenceFormParts =
  ef_evalItemID :: string
  ef_fileName :: string
  ef_fileHash :: string
  ef_fileBytes :: bytes
  ef_gotFile :: bool

definition no_parts :: evidenceFormParts where
  "no_parts = \<lparr>ef_evalItemID = [], ef_fileName = [], ef_fileHash = [], ef_fileBytes = [], ef_gotFile = False\<rparr>"

text \<open>A short field: the error of the read is dropped.\<close>

definition read_field :: "nat \<Rightarrow> part \<Rightarrow> string" where
  "read_field n p = TrimSpace (bytes_text (fst (limit_reader (int n + 1) (pt_Data p) (pt_Error p))))"

definition add_part :: "64 word \<Rightarrow> part \<Rightarrow> evidenceFormParts \<Rightarrow> string + evidenceFormParts" where
  "add_part maxBytes p f =
     (if pt_FormName p = ''evaluation_item_id''
      then Inr (f\<lparr>ef_evalItemID := read_field evidence_maxEvalItemIDLen p\<rparr>)
      else if pt_FormName p = ''file_name'' then Inr (f\<lparr>ef_fileName := read_field maxFileNameLen p\<rparr>)
      else if pt_FormName p = ''file'' then
        (let f1 = (if ef_fileName f = [] then f\<lparr>ef_fileName := pt_FileName p\<rparr> else f)
         in case parseAndHashMultipart (pt_Data p) (pt_Error p) maxBytes of
              Inl msg \<Rightarrow> Inl msg
            | Inr (bs, h) \<Rightarrow> Inr (f1\<lparr>ef_fileBytes := bs, ef_fileHash := hex_EncodeToString h, ef_gotFile := True\<rparr>))
      else Inr f)"

primrec add_parts :: "64 word \<Rightarrow> part list \<Rightarrow> evidenceFormParts \<Rightarrow> string + evidenceFormParts" where
  "add_parts maxBytes [] f = Inr f"
| "add_parts maxBytes (p # ps) f =
     (case add_part maxBytes p f of Inl msg \<Rightarrow> Inl msg | Inr f' \<Rightarrow> add_parts maxBytes ps f')"

definition parseMultipartForm :: "64 word \<Rightarrow> evidence_request \<Rightarrow> string + evidenceFormParts" where
  "parseMultipartForm maxBytes r = (case er_Multipart r of
     Inl msg \<Rightarrow> Inl (''multipart parsing failed: '' @ msg)
   | Inr (ps, failed) \<Rightarrow> (case add_parts maxBytes ps no_parts of
       Inl msg \<Rightarrow> Inl msg
     | Inr f \<Rightarrow> if failed then Inl ''multipart part failed'' else Inr f))"

text \<open>The field and the text of the first violation.\<close>

definition validateEvidenceParts :: "evidenceFormParts \<Rightarrow> (string \<times> string) option" where
  "validateEvidenceParts p =
     (if ef_evalItemID p = [] then Some (''evaluation_item_id'', ''evaluation_item_id missing'')
      else if evidence_maxEvalItemIDLen < length (ef_evalItemID p)
      then Some (''evaluation_item_id'', ''evaluation_item_id too long'')
      else if maxFileNameLen < length (ef_fileName p) then Some (''file_name'', ''file_name too long'')
      else if \<not> ef_gotFile p \<or> ef_fileBytes p = [] then Some (''file'', ''file missing or empty'')
      else None)"

section \<open>The transaction\<close>

record versionResolution =
  vr_prevID :: "uuid option"
  vr_dupOf :: string
  vr_version :: int

definition resolveVersion ::
  "'x runtime \<Rightarrow> ('t, 'w) EvidenceHandler \<Rightarrow> string \<Rightarrow> string \<Rightarrow> ('t \<times> 'w, versionResolution) eff" where
  "resolveVersion rt h evalItemID fileHash =
     call (vtx_GetLatestVersionByEvalItem (vh_Tx h) evalItemID) (\<lambda>latest.
     retn (case latest of
       None \<Rightarrow> \<lparr>vr_prevID = None, vr_dupOf = [], vr_version = 1\<rparr>
     | Some ev \<Rightarrow> \<lparr>vr_prevID = Some (evd_ID ev),
         vr_dupOf = (if vh_dupSignal h \<and> evd_FileHashSHA256 ev = fileHash then uuid_String rt (evd_ID ev) else []),
         vr_version = evd_Version ev + 1\<rparr>))"

definition supersede_previous :: "('t, 'w) EvidenceHandler \<Rightarrow> uuid option \<Rightarrow> ('t \<times> 'w, unit) eff" where
  "supersede_previous h prevID =
     (case prevID of None \<Rightarrow> retn () | Some p \<Rightarrow> vtx_MarkSuperseded (vh_Tx h) p)"

definition record_evidence ::
  "('t \<times> 'w) runtime \<Rightarrow> ('t, 'w) EvidenceHandler \<Rightarrow> uuid \<Rightarrow> evidenceFormParts \<Rightarrow> versionResolution \<Rightarrow>
   ('t \<times> 'w, unit) eff" where
  "record_evidence rt h insertedID p vr =
     (if vr_version vr = 1
      then RecordEvidenceCreated rt (vh_recorder h) (vtx_InsertAuditLog (vh_Tx h)) (uuid_String rt insertedID)
             (ef_evalItemID p) (ef_fileHash p) (vr_version vr) []
      else case vr_prevID vr of
        None \<Rightarrow> throw (go_panic ''nil pointer'')
      | Some prev \<Rightarrow> RecordEvidenceVersioned rt (vh_recorder h) (vtx_InsertAuditLog (vh_Tx h)) (uuid_String rt insertedID)
             (ef_evalItemID p) (ef_fileHash p) (vr_version vr) (uuid_String rt prev) [])"

definition persistEvidenceTx ::
  "('t \<times> 'w) runtime \<Rightarrow> ('t, 'w) EvidenceHandler \<Rightarrow> evidenceFormParts \<Rightarrow> versionResolution \<Rightarrow> ('t \<times> 'w, uuid) eff" where
  "persistEvidenceTx rt h p vr =
     call (vh_NewUUID h) (\<lambda>newID.
     call (lift (vh_Put h (uuid_String rt newID))) (\<lambda>storageLocation.
     call (vtx_InsertEvidence (vh_Tx h) (ef_evalItemID p) (ef_fileName p) ''application/octet-stream''
             (int (length (ef_fileBytes p))) (ef_fileHash p) ''database_blob'' storageLocation Map.empty
             (ef_fileBytes p) (vr_prevID vr)) (\<lambda>insertedID.
     call (supersede_previous h (vr_prevID vr)) (\<lambda>_.
     call (record_evidence rt h insertedID p vr) (\<lambda>_. retn insertedID)))))"

text \<open>The Commit is the last call of persistEvidenceTx, and committed is set right after it.\<close>

definition evidence_stage ::
  "('t \<times> 'w) runtime \<Rightarrow> ('t, 'w) EvidenceHandler \<Rightarrow> evidenceFormParts \<Rightarrow> ('t \<times> 'w) stage" where
  "evidence_stage rt h p =
     attempt (resolveVersion rt h (ef_evalItemID p) (ef_fileHash p))
       (\<lambda>e. writeEvidenceErr 500 ''INTERNAL'' ''version lookup failed'' []) (\<lambda>vr.
     attempt (persistEvidenceTx rt h p vr)
       (\<lambda>e. writeEvidenceErr 500 ''INTERNAL'' ''evidence not stored'' []) (\<lambda>insertedID.
     attempt (vtx_Commit (vh_Tx h))
       (\<lambda>e. writeEvidenceErr 500 ''INTERNAL'' ''evidence not stored'' []) (\<lambda>_.
     answer (writeEvidenceJSON 201 (JObject
       ([(''evidence_id'', JString (uuid_String rt insertedID))] @ text_field ''duplicate_of'' (vr_dupOf vr) @
        [(''version'', JNumber (strconv_Itoa (vr_version vr)))]))))))"

primrec contains_text :: "string \<Rightarrow> string \<Rightarrow> bool" where
  "contains_text [] t = (t = [])"
| "contains_text (c # s) t = (HasPrefix (c # s) t \<or> contains_text s t)"

definition handleCreateEvidence ::
  "('t \<times> 'w) runtime \<Rightarrow> ('t, 'w) EvidenceHandler \<Rightarrow> evidence_request \<Rightarrow> 'w \<Rightarrow> response \<times> 'w" where
  "handleCreateEvidence rt h r w =
     (if \<not> HasPrefix (er_ContentType r) ''multipart/form-data''
      then (writeEvidenceErr 400 ''INVALID_ARGUMENT'' ''Content-Type must be multipart/form-data'' [], w)
      else if 0 < req_ContentLength r \<and> sint (vh_maxFileBytes h) < req_ContentLength r
      then (writeEvidenceErr 413 ''INVALID_ARGUMENT'' oversized_msg ''file'', w)
      else case parseMultipartForm (vh_maxFileBytes h) r of
        Inl msg \<Rightarrow> (writeEvidenceErr 400 ''INVALID_ARGUMENT'' msg
                      (if contains_text msg ''exceeds maximum'' then ''file'' else []), w)
      | Inr p \<Rightarrow> (case validateEvidenceParts p of
          Some (errField, errMsg) \<Rightarrow> (writeEvidenceErr 400 ''INVALID_ARGUMENT'' errMsg errField, w)
        | None \<Rightarrow>
            let p' = (if ef_fileName p = [] then p\<lparr>ef_fileName := ''evidence.bin''\<rparr> else p)
            in with_handle (vh_Begin h) (\<lambda>e. writeEvidenceErr 500 ''INTERNAL'' ''begin failed'' []) (vtx_Rollback (vh_Tx h))
                 (evidence_stage rt h p') w))"

end
