(* ===== verification/Evidence_Properties.thy ===== *)
theory Evidence_Properties
  imports Evidence_Handlers Samples Uuid_Instance "HOL-Library.Multiset"
begin

text \<open>
  What a client of the evidence can rely on, on the PostgreSQL store: the rows of an evaluation item
  are a chain of versions, an upload appends one version whose hash is that of the bytes it stored,
  and the body of a superseded version does not change.
\<close>

section \<open>The chain of versions\<close>

text \<open>The rows of one item in the order in which they were inserted.\<close>

definition version_chain :: "evidence_row list \<Rightarrow> bool" where
  "version_chain rs \<longleftrightarrow> (\<forall>k<length rs.
     ew_version (rs ! k) = int k + 1 \<and>
     ew_previous_version_id (rs ! k) = (if k = 0 then None else Some (ew_id (rs ! (k - 1)))) \<and>
     ew_status (rs ! k) = (if Suc k = length rs then ''ACTIVE'' else ''SUPERSEDED''))"

definition evidence_inv :: "db \<Rightarrow> bool" where
  "evidence_inv d \<longleftrightarrow> distinct (map ew_id (db_evidences d)) \<and> (\<forall>e. version_chain (evidence_of_item e d))"

lemma version_chain_Nil [simp]: "version_chain []"
  by (simp add: version_chain_def)

lemma version_chain_snoc:
  assumes "version_chain (rs @ [l])" and "ew_version r = int (length rs) + 2"
    and "ew_previous_version_id r = Some (ew_id l)" and "ew_status r = ''ACTIVE''"
  shows "version_chain (rs @ [supersede_evidence_row now l, r])"
  using assms by (auto simp: version_chain_def nth_append less_Suc_eq supersede_evidence_row_def)

lemma version_chain_single:
  "ew_version r = 1 \<Longrightarrow> ew_previous_version_id r = None \<Longrightarrow> ew_status r = ''ACTIVE'' \<Longrightarrow> version_chain [r]"
  by (simp add: version_chain_def)

text \<open>The newest version first is the reverse of the insertion order.\<close>

lemma by_version_desc_chain:
  assumes "version_chain (evidence_of_item e d)"
  shows "by_version_desc e d = rev (evidence_of_item e d)"
proof -
  let ?rs = "evidence_of_item e d"
  have v: "map ew_version ?rs = map (\<lambda>k. int k + 1) [0..<length ?rs]"
    using assms by (intro nth_equalityI) (auto simp: version_chain_def)
  have "distinct (map ew_version ?rs)" unfolding v by (simp add: distinct_map inj_on_def)
  then have inj: "inj_on (\<lambda>r. - ew_version r) (set ?rs)"
    by (auto simp: distinct_map inj_on_def)
  have "sorted (map ew_version ?rs)" unfolding v by (simp add: sorted_iff_nth_mono)
  then have "sorted (map (\<lambda>r. - ew_version r) (rev ?rs))"
    by (simp add: sorted_wrt_map sorted_wrt_rev)
  then show ?thesis unfolding by_version_desc_def
    using sort_key_inj_key_eq [of ?rs "rev ?rs", OF _ inj] by simp
qed

section \<open>What the operations of the store do\<close>

lemma scanOne_keeps [eff_intros]: "keeps published (scanOne ts f)" "keeps work (scanOne ts f)"
  unfolding scanOne_def by (intro eff_intros)+

lemma evidence_reads_keep [eff_intros]:
  "keeps published (GetEvidenceByID i)" "keeps work (GetEvidenceByID i)"
  "keeps published (GetLatestVersionByEvalItem e)" "keeps work (GetLatestVersionByEvalItem e)"
  unfolding GetEvidenceByID_def using scanOne_keeps
  by (auto simp: keeps_def GetLatestVersionByEvalItem_def split: prod.splits sum.splits) (metis snd_conv)+

lemma evidence_mutations_keep [eff_intros]:
  "keeps published (InsertEvidence e fn ct n h ss sl md bs p)" "keeps published (MarkSuperseded i)"
  unfolding InsertEvidence_def MarkSuperseded_def next_version_def by (intro eff_intros)+

lemma scanOne_ok:
  assumes "scanOne ts f s = (Inr ev, s')"
  shows "\<exists>r. f (work s) = Some r \<and> ev = scanEvidenceRow r \<and> fst s' = fst s"
  using assms by (auto simp: scanOne_def eff_simps pg_query_texts_def pg_run_Inr_iff work_def split: option.splits if_splits)

lemma scanOne_none:
  assumes "scanOne ts f s = (Inl e, s')" and "errors_Is e ErrEvidenceNotFound"
  shows "f (work s) = None \<and> fst s' = fst s"
  using assms
  by (auto simp: scanOne_def eff_simps pg_query_texts_def pg_run_def work_def read_fault_def read_id_def
      split: option.splits if_splits prod.splits)

text \<open>The latest version of an item whose rows are a chain: the last row inserted.\<close>

definition latest_row :: "string \<Rightarrow> db \<Rightarrow> evidence_row option" where
  "latest_row e d = (case rev (evidence_of_item e d) of [] \<Rightarrow> None | r # _ \<Rightarrow> Some r)"

lemma latest_version_ok:
  assumes "GetLatestVersionByEvalItem e s = (Inr res, s')" and "version_chain (evidence_of_item e (work s))"
  shows "res = map_option scanEvidenceRow (latest_row e (work s)) \<and> fst s' = fst s"
  using assms by_version_desc_chain [OF assms(2)]
  by (auto simp: GetLatestVersionByEvalItem_def latest_row_def split: prod.splits sum.splits if_splits list.splits
      dest!: scanOne_ok scanOne_none)


section \<open>One insertion\<close>

definition evidence_ids :: "db \<Rightarrow> uuid set" where
  "evidence_ids d = ew_id ` set (db_evidences d)"

lemma next_version_ok:
  assumes "next_version prev s = (Inr v, s')"
  shows "fst s' = fst s \<and> (case prev of None \<Rightarrow> v = 1
    | Some p \<Rightarrow> \<exists>q. row_lookup ew_id (db_evidences (work s)) p = Some q \<and> v = ew_version q + 1)"
  using assms
  by (auto simp: next_version_def eff_simps GetEvidenceByID_def scanEvidenceRow_def split: option.splits
      dest!: scanOne_ok)

definition row_of_upload ::
  "string \<Rightarrow> string \<Rightarrow> string \<Rightarrow> bytes \<Rightarrow> string \<Rightarrow> uuid option \<Rightarrow> evidence_row \<Rightarrow> bool" where
  "row_of_upload e fileName hash bs location prev row \<longleftrightarrow>
     ew_evaluation_item_id row = e \<and> ew_file_name row = fileName \<and> ew_file_hash_sha256 row = Some hash \<and>
     ew_file_size_bytes row = Some (int (length bs)) \<and> ew_file_content row = Some bs \<and>
     ew_storage_location row = Some location \<and> ew_previous_version_id row = prev \<and>
     ew_status row = ''ACTIVE'' \<and> ew_created_by row = ''cli-anonymous''"

lemma insert_evidence_stmt_ok:
  assumes "insert_evidence_stmt i e v prev fn n h ct bs sl ss md now u d = Inr (j, d')" and "n = int (length bs)"
  shows "j = i \<and> i \<notin> evidence_ids d \<and> (\<exists>row. row_of_upload e fn h bs sl prev row \<and> ew_id row = i \<and> ew_version row = v \<and>
    d' = d\<lparr>db_evidences := db_evidences d @ [row]\<rparr>)"
  using assms
  by (intro conjI exI [of _ "last (db_evidences d')"]) (auto simp: insert_evidence_stmt_def Let_def row_of_upload_def evidence_ids_def split: option.splits if_splits)

lemma insert_evidence_ok:
  assumes "InsertEvidence e fn ct (int (length bs)) h ss sl md bs prev s = (Inr j, s')"
  obtains row where "ew_id row = env_ids (snd s) (env_pos (snd s))" "j = ew_id row"
    "ew_id row \<notin> evidence_ids (work s)" "row_of_upload e fn h bs sl prev row"
    "case prev of None \<Rightarrow> ew_version row = 1
     | Some p \<Rightarrow> \<exists>q. row_lookup ew_id (db_evidences (work s)) p = Some q \<and> ew_version row = ew_version q + 1"
    "work s' = (work s)\<lparr>db_evidences := db_evidences (work s) @ [row]\<rparr>"
proof -
  from assms obtain s1 i v s2 md' where u: "uuid_New s = (Inr i, s1)" and v: "next_version prev s1 = (Inr v, s2)"
    and q: "pg_run (insert_evidence_stmt i e v prev fn (int (length bs)) h ct bs sl ss md') s2 = (Inr j, s')"
    by (auto simp: InsertEvidence_def eff_simps)
  have w: "work s1 = work s" "i = env_ids (snd s) (env_pos (snd s))" using u by (auto simp: uuid_New_iff work_def)
  from next_version_ok [OF v] w have w2: "work s2 = work s" by (simp add: work_def)
  from insert_evidence_stmt_ok [OF pg_run_work [OF q] refl] obtain row where
    row: "j = i" "i \<notin> evidence_ids (work s2)" "row_of_upload e fn h bs sl prev row" "ew_id row = i"
      "ew_version row = v" "work s' = (work s2)\<lparr>db_evidences := db_evidences (work s2) @ [row]\<rparr>"
    by (auto simp: work_def)
  then show thesis using w w2 next_version_ok [OF v]
    by (intro that [of row]) (auto split: option.splits)
qed

lemma mark_superseded_ok:
  assumes "MarkSuperseded i s = (Inr u, s')"
  shows "\<exists>r. row_lookup ew_id (db_evidences (work s)) i = Some r \<and> ew_status r = ''ACTIVE'' \<and>
    work s' = (work s)\<lparr>db_evidences :=
      row_update ew_id i (supersede_evidence_row (ptx_now (fst s))) (db_evidences (work s))\<rparr>"
proof -
  from assms obtain n where "pg_run (mark_superseded_stmt i) s = (Inr n, s')" "n \<noteq> 0"
    by (auto simp: MarkSuperseded_def eff_simps split: if_splits)
  from pg_run_work [OF this(1)] this(2) show ?thesis
    by (auto simp: mark_superseded_stmt_def work_def split: option.splits if_splits)
qed

section \<open>One upload\<close>

text \<open>
  The tables after an upload: one more row, with a fresh id, of version 1 when the item had none, else
  the successor of the latest one, which is superseded.
\<close>

definition evidence_added :: "string \<Rightarrow> string \<Rightarrow> string \<Rightarrow> bytes \<Rightarrow> string \<Rightarrow> evidence_row \<Rightarrow> db \<Rightarrow> db \<Rightarrow> bool" where
  "evidence_added e fileName hash bs location row d d' \<longleftrightarrow>
     ew_id row \<notin> evidence_ids d \<and>
     row_of_upload e fileName hash bs location (map_option ew_id (latest_row e d)) row \<and>
     (case latest_row e d of
        None \<Rightarrow> ew_version row = 1 \<and> d' = d\<lparr>db_evidences := db_evidences d @ [row]\<rparr>
      | Some l \<Rightarrow> ew_version row = ew_version l + 1 \<and> (\<exists>now. d' = d\<lparr>db_evidences :=
          row_update ew_id (ew_id l) (supersede_evidence_row now) (db_evidences d) @ [row]\<rparr>))"

lemma latest_row_in:
  assumes "latest_row e d = Some l"
  shows "l \<in> set (db_evidences d)" "ew_evaluation_item_id l = e"
    "\<exists>rs. evidence_of_item e d = rs @ [l]"
proof -
  from assms have snoc: "\<exists>rs. evidence_of_item e d = rs @ [l]"
    by (auto simp: latest_row_def split: list.splits)
  then show "\<exists>rs. evidence_of_item e d = rs @ [l]" .
  from snoc have "l \<in> set (evidence_of_item e d)" by auto
  then show "l \<in> set (db_evidences d)" "ew_evaluation_item_id l = e"
    by (auto simp: evidence_of_item_def)
qed

lemma row_lookup_distinct:
  "distinct (map key rs) \<Longrightarrow> r \<in> set rs \<Longrightarrow> row_lookup key rs (key r) = Some r"
  by (induction rs) (auto simp: image_iff)

lemma supersede_simps [simp]:
  "ew_id (supersede_evidence_row now r) = ew_id r"
  "ew_evaluation_item_id (supersede_evidence_row now r) = ew_evaluation_item_id r"
  "ew_version (supersede_evidence_row now r) = ew_version r"
  "ew_previous_version_id (supersede_evidence_row now r) = ew_previous_version_id r"
  by (simp_all add: supersede_evidence_row_def)

lemma chain_update_other:
  assumes "ew_evaluation_item_id l \<noteq> e" and "l \<in> set (db_evidences d)" and "distinct (map ew_id (db_evidences d))"
  shows "List.filter (\<lambda>r. ew_evaluation_item_id r = e) (row_update ew_id (ew_id l) (supersede_evidence_row now) (db_evidences d)) =
    List.filter (\<lambda>r. ew_evaluation_item_id r = e) (db_evidences d)"
  using assms(2,3)
proof (induction "db_evidences d" arbitrary: d)
  case (Cons q rs)
  have "row_update ew_id (ew_id l) (supersede_evidence_row now) rs = rs" if "ew_id q = ew_id l"
    using that Cons.prems Cons.hyps(2) [symmetric] by (intro row_update_id) (auto simp: row_lookup_None_iff)
  moreover have "q = l" if "ew_id q = ew_id l"
    using that Cons.prems Cons.hyps(2) [symmetric] by (auto simp: image_iff)
  moreover note Cons.hyps(1) [of "d\<lparr>db_evidences := rs\<rparr>"]
  ultimately show ?case using Cons.prems Cons.hyps(2) [symmetric] assms(1)
    by (cases "ew_id q = ew_id l") auto
qed simp

lemma chain_update_same:
  assumes "evidence_of_item e d = rs @ [l]" and "distinct (map ew_id (db_evidences d))"
  shows "List.filter (\<lambda>r. ew_evaluation_item_id r = e)
      (row_update ew_id (ew_id l) (supersede_evidence_row now) (db_evidences d)) = rs @ [supersede_evidence_row now l]"
proof -
  let ?P = "\<lambda>r. ew_evaluation_item_id r = e" and ?f = "\<lambda>r. if ew_id r = ew_id l then supersede_evidence_row now r else r"
  have "(\<lambda>r. ?P (?f r)) = ?P" by auto
  then have "List.filter ?P (map ?f (db_evidences d)) = map ?f (rs @ [l])"
    using assms(1) by (simp add: filter_map comp_def evidence_of_item_def)
  moreover have "distinct (map ew_id (rs @ [l]))"
    using assms by (metis distinct_map_filter evidence_of_item_def)
  then have "map ?f rs = rs" by (intro map_idI) (auto simp: image_iff)
  ultimately show ?thesis by (simp add: row_update_def)
qed

lemma evidence_added_inv:
  assumes inv: "evidence_inv d" and add: "evidence_added e fn h bs sl row d d'"
  shows "evidence_inv d'"
proof (cases "latest_row e d")
  case None
  then have d': "d' = d\<lparr>db_evidences := db_evidences d @ [row]\<rparr>" and empty: "evidence_of_item e d = []"
    using add by (auto simp: evidence_added_def latest_row_def split: list.splits)
  have "version_chain (evidence_of_item x d')" for x
  proof (cases "x = e")
    case True
    then have "evidence_of_item x d' = [row]"
      using add empty None by (simp add: d' evidence_of_item_def evidence_added_def row_of_upload_def)
    then show ?thesis using add None version_chain_single by (simp add: evidence_added_def row_of_upload_def)
  next
    case False
    then have "evidence_of_item x d' = evidence_of_item x d"
      using add None by (simp add: d' evidence_of_item_def evidence_added_def row_of_upload_def)
    then show ?thesis using inv by (simp add: evidence_inv_def)
  qed
  then show ?thesis using inv add None
    by (auto simp: evidence_inv_def d' evidence_added_def evidence_ids_def row_of_upload_def)
next
  case (Some l)
  obtain now where d': "d' = d\<lparr>db_evidences :=
      row_update ew_id (ew_id l) (supersede_evidence_row now) (db_evidences d) @ [row]\<rparr>"
    using add Some by (auto simp: evidence_added_def)
  have row: "ew_version row = ew_version l + 1" "ew_previous_version_id row = Some (ew_id l)"
    "ew_status row = ''ACTIVE''" "ew_evaluation_item_id row = e" "ew_id row \<notin> evidence_ids d"
    using add Some by (simp_all add: evidence_added_def row_of_upload_def)
  have dist: "distinct (map ew_id (db_evidences d))" using inv by (simp add: evidence_inv_def)
  from latest_row_in [OF Some] obtain rs where l: "l \<in> set (db_evidences d)" "ew_evaluation_item_id l = e"
    and rs: "evidence_of_item e d = rs @ [l]" by blast
  have chain: "version_chain (rs @ [l])" using inv rs by (metis evidence_inv_def)
  then have vl: "ew_version l = int (length rs) + 1"
    unfolding version_chain_def by (elim allE [of _ "length rs"]) (simp add: nth_append)
  have "version_chain (evidence_of_item x d')" for x
  proof (cases "x = e")
    case True
    then have "evidence_of_item x d' = rs @ [supersede_evidence_row now l, row]"
      using chain_update_same [OF rs dist] row by (simp add: d' evidence_of_item_def)
    then show ?thesis using version_chain_snoc [OF chain] row vl by simp
  next
    case False
    then have "evidence_of_item x d' = evidence_of_item x d"
      using chain_update_other [OF _ l(1) dist, of x] l(2) row by (simp add: d' evidence_of_item_def)
    then show ?thesis using inv by (simp add: evidence_inv_def)
  qed
  moreover have "map ew_id (db_evidences d') = map ew_id (db_evidences d) @ [ew_id row]"
    by (simp add: d' row_update_keys)
  ultimately show ?thesis using dist row(5) by (auto simp: evidence_inv_def evidence_ids_def)
qed


section \<open>The handler on the PostgreSQL store\<close>

definition pg_evidence_handler ::
  "pg_state runtime \<Rightarrow> bool \<Rightarrow> 64 word \<Rightarrow> bool \<Rightarrow> (pg_tx, pg_world) EvidenceHandler" where
  "pg_evidence_handler rt auth maxFileBytes dupSignal =
     \<lparr>vh_Begin = PgStore_BeginEvidenceTx, vh_Tx = PgEvidenceTx_methods, vh_recorder = NewRecorder rt auth [],
      vh_Put = dbBlobStore_Put, vh_NewUUID = uuid_New, vh_maxFileBytes = maxFileBytes, vh_dupSignal = dupSignal\<rparr>"

lemma pg_evidence_handler_simps [simp]:
  "vh_Begin (pg_evidence_handler rt auth mx dup) = PgStore_BeginEvidenceTx"
  "vh_Tx (pg_evidence_handler rt auth mx dup) = PgEvidenceTx_methods"
  "vh_recorder (pg_evidence_handler rt auth mx dup) = NewRecorder rt auth []"
  "vh_Put (pg_evidence_handler rt auth mx dup) = dbBlobStore_Put"
  "vh_NewUUID (pg_evidence_handler rt auth mx dup) = uuid_New"
  "vh_maxFileBytes (pg_evidence_handler rt auth mx dup) = mx"
  "vh_dupSignal (pg_evidence_handler rt auth mx dup) = dup"
  by (simp_all add: pg_evidence_handler_def)

lemma PgEvidenceTx_simps [simp]:
  "vtx_InsertEvidence PgEvidenceTx_methods = InsertEvidence"
  "vtx_GetLatestVersionByEvalItem PgEvidenceTx_methods = GetLatestVersionByEvalItem"
  "vtx_MarkSuperseded PgEvidenceTx_methods = MarkSuperseded"
  "vtx_InsertAuditLog PgEvidenceTx_methods = PgEvidenceTx_InsertAuditLog"
  "vtx_Commit PgEvidenceTx_methods = PgEvidenceTx_Commit"
  "vtx_Rollback PgEvidenceTx_methods = PgEvidenceTx_Rollback"
  by (simp_all add: PgEvidenceTx_methods_def)

interpretation evidence_txs: transactional PgStore_BeginEvidenceTx PgEvidenceTx_Commit PgEvidenceTx_Rollback
  pg_committed "\<lambda>s. ptx_work (fst s)"
  unfolding PgStore_BeginEvidenceTx_def PgEvidenceTx_Commit_def
  by (rule pg_transactional, rule rollback_wrap_keeps, rule PgEvidenceTx_Rollback_def)

lemma evidence_codes [simp]:
  "resp_Code (writeEvidenceErr a b m f) = a" "resp_Code (writeEvidenceJSON a v) = a"
  by (simp_all add: writeEvidenceErr_def writeEvidenceJSON_def)

text \<open>The event of an upload: created for version 1, versioned with the id before it otherwise.\<close>

definition evidence_action :: "int \<Rightarrow> action" where
  "evidence_action v = (if v = 1 then ActionEvidenceCreated else ActionEvidenceVersioned)"

definition evidence_details :: "(uuid \<Rightarrow> string) \<Rightarrow> string \<Rightarrow> string \<Rightarrow> int \<Rightarrow> uuid option \<Rightarrow> json_map" where
  "evidence_details toString e hash v prev =
     (let m = [''evaluation_item_id'' \<mapsto> e, ''version'' \<mapsto> strconv_Itoa v, ''file_hash_sha256'' \<mapsto> hash] in
      if v = 1 then m else (case prev of None \<Rightarrow> m | Some p \<Rightarrow> m(''previous_version_id'' \<mapsto> toString p)))"

lemma record_evidence_event:
  assumes "record_evidence rt (pg_evidence_handler rt auth mx dup) i p vr s = (Inr u, s')"
  shows "insert_event (time_Now rt) (insert_audit ''InsertAuditLog(evidence) failed'') (evidence_action (vr_version vr))
     ''evidence'' (parseResourceID rt (uuid_String rt i)) DefaultUserID
     (Some (evidence_details (uuid_String rt) (ef_evalItemID p) (ef_fileHash p) (vr_version vr) (vr_prevID vr))) s =
       (Inr u, s')"
  using assms
  by (auto simp: record_evidence_def RecordEvidenceCreated_def RecordEvidenceVersioned_def evidence_action_def
      evidence_details_def PgEvidenceTx_InsertAuditLog_def [abs_def] nowUTC_pg Recorder_resolveUserID_def
      simp del: NewRecorder_plain split: if_splits option.splits)

lemma record_evidence_keeps [eff_intros]:
  "keeps published (record_evidence (pg_runtime parse toString sha1)
     (pg_evidence_handler (pg_runtime parse toString sha1) auth mx dup) i p vr)"
  unfolding record_evidence_def RecordEvidenceCreated_def RecordEvidenceVersioned_def marshal_then_run
    pg_evidence_handler_simps PgEvidenceTx_simps nowUTC_pg PgEvidenceTx_InsertAuditLog_def [abs_def]
  by (intro eff_intros)

lemma resolve_keeps [eff_intros]: "keeps published (resolveVersion rt (pg_evidence_handler rt0 auth mx dup) e hash)"
  unfolding resolveVersion_def pg_evidence_handler_simps PgEvidenceTx_simps by (intro eff_intros)

lemma persist_keeps [eff_intros]:
  "keeps published (persistEvidenceTx (pg_runtime parse toString sha1)
     (pg_evidence_handler (pg_runtime parse toString sha1) auth mx dup) p vr)"
  unfolding persistEvidenceTx_def supersede_previous_def pg_evidence_handler_simps PgEvidenceTx_simps
  by (intro eff_intros)

lemma evidence_stage_safe:
  fixes parse toString sha1 auth mx dup
  defines "rt \<equiv> pg_runtime parse toString sha1"
  shows "safe_stage pg_committed (evidence_stage rt (pg_evidence_handler rt auth mx dup) p)"
    and "answers (\<lambda>q. 400 \<le> resp_Code q) (evidence_stage rt (pg_evidence_handler rt auth mx dup) p)"
  unfolding evidence_stage_def rt_def pg_evidence_handler_simps(2) PgEvidenceTx_simps
  by (intro stage_intros evidence_txs.safe_commit resolve_keeps [unfolded published_def [abs_def]]
      persist_keeps [unfolded published_def [abs_def]]; simp)+

section \<open>The effect of an upload\<close>

text \<open>The text that names the latest evidence when the upload repeats its bytes.\<close>

definition duplicate_of :: "(uuid \<Rightarrow> string) \<Rightarrow> bool \<Rightarrow> string \<Rightarrow> evidence_row option \<Rightarrow> string" where
  "duplicate_of toString dup hash latest = (case latest of None \<Rightarrow> []
   | Some l \<Rightarrow> if dup \<and> text_of (ew_file_hash_sha256 l) = hash then toString (ew_id l) else [])"

lemma resolve_ok:
  assumes "resolveVersion rt (pg_evidence_handler rt0 auth mx dup) e hash s = (Inr vr, s')"
    and "version_chain (evidence_of_item e (work s))"
  shows "fst s' = fst s \<and> vr = \<lparr>vr_prevID = map_option ew_id (latest_row e (work s)),
      vr_dupOf = duplicate_of (uuid_String rt) dup hash (latest_row e (work s)),
      vr_version = (case latest_row e (work s) of None \<Rightarrow> 1 | Some l \<Rightarrow> ew_version l + 1)\<rparr>"
  using assms
  by (auto simp: resolveVersion_def eff_simps duplicate_of_def scanEvidenceRow_def dest!: latest_version_ok split: option.splits)

definition resolution_for :: "string \<Rightarrow> db \<Rightarrow> versionResolution \<Rightarrow> bool" where
  "resolution_for e d vr \<longleftrightarrow> vr_prevID vr = map_option ew_id (latest_row e d) \<and>
     vr_version vr = (case latest_row e d of None \<Rightarrow> 1 | Some l \<Rightarrow> ew_version l + 1)"

lemma supersede_evidence_ok:
  assumes "supersede_previous (pg_evidence_handler rt auth mx dup) (map_option ew_id (latest_row e d)) s = (Inr u, s')"
    and "work s = d\<lparr>db_evidences := db_evidences d @ [row]\<rparr>" and "ew_id row \<notin> evidence_ids d"
    and "distinct (map ew_id (db_evidences d))"
  shows "case latest_row e d of None \<Rightarrow> work s' = work s
    | Some l \<Rightarrow> (\<exists>now. work s' = d\<lparr>db_evidences :=
          row_update ew_id (ew_id l) (supersede_evidence_row now) (db_evidences d) @ [row]\<rparr>)"
proof (cases "latest_row e d")
  case None
  then show ?thesis using assms by (simp add: supersede_previous_def)
next
  case (Some l)
  have "ew_id row \<noteq> ew_id l" using latest_row_in(1) [OF Some] assms(3) by (auto simp: evidence_ids_def)
  then have upd: "row_update ew_id (ew_id l) f (db_evidences d @ [row]) =
      row_update ew_id (ew_id l) f (db_evidences d) @ [row]" for f
    by (simp add: row_update_def)
  from assms(1) Some obtain r where "work s' = (work s)\<lparr>db_evidences :=
      row_update ew_id (ew_id l) (supersede_evidence_row (ptx_now (fst s))) (db_evidences (work s))\<rparr>"
    by (auto simp: supersede_previous_def dest!: mark_superseded_ok)
  then show ?thesis using Some assms(2) upd by auto
qed

lemma persist_ok:
  fixes parse toString sha1 auth mx dup
  defines "rt \<equiv> pg_runtime parse toString sha1"
  assumes "persistEvidenceTx rt (pg_evidence_handler rt auth mx dup) p vr s = (Inr i, s')"
    and vr: "resolution_for (ef_evalItemID p) (work s) vr" and dist: "distinct (map ew_id (db_evidences (work s)))"
  shows "\<exists>row d1. i = ew_id row \<and> ew_version row = vr_version vr \<and>
    ew_id row = env_ids (snd s) (Suc (env_pos (snd s))) \<and>
    evidence_added (ef_evalItemID p) (ef_fileName p) (ef_fileHash p) (ef_fileBytes p)
      (''db://evidences/'' @ toString (env_ids (snd s) (env_pos (snd s)))) row (work s) d1 \<and>
    adds_event (evidence_action (ew_version row)) ''evidence'' (parseResourceID rt (toString (ew_id row))) DefaultUserID
      (Some (evidence_details toString (ef_evalItemID p) (ef_fileHash p) (ew_version row) (ew_previous_version_id row)))
      d1 (work s')"
proof -
  let ?h = "pg_evidence_handler rt auth mx dup" and ?e = "ef_evalItemID p"
  have str: "uuid_String rt = toString" by (simp add: rt_def pg_runtime_def)
  let ?loc = "''db://evidences/'' @ toString (env_ids (snd s) (env_pos (snd s)))"
  from assms(2) obtain s1 s2 s3 where w1: "fst s1 = fst s" "snd s1 = (snd s)\<lparr>env_pos := Suc (env_pos (snd s))\<rparr>"
    and ins: "InsertEvidence ?e (ef_fileName p) ''application/octet-stream'' (int (length (ef_fileBytes p)))
        (ef_fileHash p) ''database_blob'' ?loc Map.empty (ef_fileBytes p) (vr_prevID vr) s1 = (Inr i, s2)"
    and sup: "supersede_previous ?h (vr_prevID vr) s2 = (Inr (), s3)"
    and rec: "record_evidence rt ?h i p vr s3 = (Inr (), s')"
    by (auto simp: persistEvidenceTx_def eff_simps uuid_New_iff dbBlobStore_Put_def str split: if_splits)
  from ins obtain row where row: "ew_id row = env_ids (snd s1) (env_pos (snd s1))" "i = ew_id row"
    "ew_id row \<notin> evidence_ids (work s1)"
    "row_of_upload ?e (ef_fileName p) (ef_fileHash p) (ef_fileBytes p) ?loc (vr_prevID vr) row"
    "case vr_prevID vr of None \<Rightarrow> ew_version row = 1
     | Some p \<Rightarrow> \<exists>q. row_lookup ew_id (db_evidences (work s1)) p = Some q \<and> ew_version row = ew_version q + 1"
    "work s2 = (work s1)\<lparr>db_evidences := db_evidences (work s1) @ [row]\<rparr>"
    by (rule insert_evidence_ok)
  have ws: "work s1 = work s" using w1 by (simp add: work_def)
  have prev: "vr_prevID vr = map_option ew_id (latest_row ?e (work s))" using vr by (simp add: resolution_for_def)
  have "ew_version row = vr_version vr"
    using vr row(5) row_lookup_distinct [OF dist latest_row_in(1)] unfolding prev ws
    by (auto simp: resolution_for_def split: option.splits)
  moreover from this have "evidence_added ?e (ef_fileName p) (ef_fileHash p) (ef_fileBytes p) ?loc row (work s) (work s3)"
    using supersede_evidence_ok [OF sup [unfolded prev] row(6) [unfolded ws] row(3) [unfolded ws] dist] vr row(3,4,6)
    unfolding evidence_added_def resolution_for_def prev ws by (auto split: option.splits)
  moreover note pg_event_ok(1) [OF record_evidence_event [OF rec, unfolded rt_def]]
  moreover have "vr_prevID vr = ew_previous_version_id row" using row(4) by (simp add: row_of_upload_def)
  ultimately show ?thesis using row(1,2) w1(2) unfolding work_def rt_def [symmetric] str
    by (intro exI [of _ row] exI [of _ "ptx_work (fst s3)"]) simp
qed

text \<open>The generator of ids is not touched by a read.\<close>

lemma resolve_keeps_ids: "keeps (\<lambda>s. env_ids (snd s)) (resolveVersion rt (pg_evidence_handler rt0 auth mx dup) e hash)"
proof -
  have "keeps (\<lambda>s. env_ids (snd s)) (pg_query_texts ts f)" for ts and f :: "db \<Rightarrow> evidence_row option"
    by (auto simp: keeps_def pg_query_texts_def pg_run_def read_fault_def read_id_def split: option.splits if_splits)
  then have "keeps (\<lambda>s. env_ids (snd s)) (scanOne ts f)" for ts f
    unfolding scanOne_def by (intro eff_intros)
  then have "keeps (\<lambda>s. env_ids (snd s)) (GetLatestVersionByEvalItem e)"
    by (auto simp: keeps_def GetLatestVersionByEvalItem_def split: prod.splits sum.splits) (metis snd_conv)+
  then show ?thesis unfolding resolveVersion_def pg_evidence_handler_simps PgEvidenceTx_simps by (intro eff_intros)
qed

lemma evidence_stage_committed:
  fixes parse toString sha1 auth mx dup
  defines "rt \<equiv> pg_runtime parse toString sha1"
  assumes "evidence_stage rt (pg_evidence_handler rt auth mx dup) p s = ((True, resp), s')" and inv: "evidence_inv (work s)"
  shows "\<exists>row d1 j. evidence_added (ef_evalItemID p) (ef_fileName p) (ef_fileHash p) (ef_fileBytes p)
        (''db://evidences/'' @ toString j) row (work s) d1 \<and> (inj (env_ids (snd s)) \<longrightarrow> j \<noteq> ew_id row) \<and>
    resp = writeEvidenceJSON 201 (JObject ([(''evidence_id'', JString (toString (ew_id row)))] @
      text_field ''duplicate_of'' (duplicate_of toString dup (ef_fileHash p) (latest_row (ef_evalItemID p) (work s))) @
      [(''version'', JNumber (strconv_Itoa (ew_version row)))])) \<and>
    adds_event (evidence_action (ew_version row)) ''evidence'' (parseResourceID rt (toString (ew_id row))) DefaultUserID
      (Some (evidence_details toString (ef_evalItemID p) (ef_fileHash p) (ew_version row) (ew_previous_version_id row)))
      d1 (pg_committed (snd s'))"
proof -
  have str: "uuid_String rt = toString" by (simp add: rt_def pg_runtime_def)
  from assms(2) obtain vr s1 i s2 where r: "resolveVersion rt (pg_evidence_handler rt auth mx dup)
        (ef_evalItemID p) (ef_fileHash p) s = (Inr vr, s1)"
    and pe: "persistEvidenceTx rt (pg_evidence_handler rt auth mx dup) p vr s1 = (Inr i, s2)"
    and co: "PgEvidenceTx_Commit s2 = (Inr (), s')"
    and resp: "resp = writeEvidenceJSON 201 (JObject ([(''evidence_id'', JString (toString i))] @
      text_field ''duplicate_of'' (vr_dupOf vr) @ [(''version'', JNumber (strconv_Itoa (vr_version vr)))]))"
    by (auto simp: evidence_stage_def str simp del: NewRecorder_plain)
  have inv1: "version_chain (evidence_of_item (ef_evalItemID p) (work s))" "distinct (map ew_id (db_evidences (work s)))"
    using inv by (simp_all add: evidence_inv_def)
  from resolve_ok [OF r inv1(1)] have w: "work s1 = work s" and vr: "resolution_for (ef_evalItemID p) (work s) vr"
    "vr_dupOf vr = duplicate_of toString dup (ef_fileHash p) (latest_row (ef_evalItemID p) (work s))"
    by (simp_all add: work_def resolution_for_def str split: option.splits)
  have ids: "env_ids (snd s1) = env_ids (snd s)" using keepsD [OF resolve_keeps_ids r] .
  have differ: "inj (env_ids (snd s)) \<longrightarrow> env_ids (snd s) n \<noteq> env_ids (snd s) (Suc n)" for n
    by (auto dest: injD)
  from persist_ok [OF pe [unfolded rt_def], unfolded w ids, OF vr(1) inv1(2)] evidence_txs.commit_publishes [OF co] resp vr(2) differ
  show ?thesis unfolding rt_def work_def by metis
qed

text \<open>
  What a request does: an error of the interface and no change; or the parts of the body are valid,
  the file has at most maxFileBytes bytes, and one version with the hash of these bytes is committed
  together with one audit event. The hash is SHA-256, in hexadecimal.
\<close>

definition evidence_outcome ::
  "(string \<Rightarrow> uuid option) \<Rightarrow> (uuid \<Rightarrow> string) \<Rightarrow> 64 word \<Rightarrow> bool \<Rightarrow> evidence_request \<Rightarrow> response \<Rightarrow>
   (nat \<Rightarrow> uuid) \<Rightarrow> db \<Rightarrow> db \<Rightarrow> bool" where
  "evidence_outcome parse toString mx dup r resp ids d d' \<longleftrightarrow>
     400 \<le> resp_Code resp \<and> d' = d \<or>
     (\<exists>p row d1 j. parseMultipartForm mx r = Inr p \<and> validateEvidenceParts p = None \<and>
        int (length (ef_fileBytes p)) \<le> sint mx \<and> ef_fileBytes p \<noteq> [] \<and>
        evidence_added (ef_evalItemID p) (if ef_fileName p = [] then ''evidence.bin'' else ef_fileName p)
          (hex_EncodeToString (sha256 (ef_fileBytes p))) (ef_fileBytes p) (''db://evidences/'' @ toString j) row d d1 \<and>
        (inj ids \<longrightarrow> j \<noteq> ew_id row) \<and>
        resp = writeEvidenceJSON 201 (JObject ([(''evidence_id'', JString (toString (ew_id row)))] @
          text_field ''duplicate_of'' (duplicate_of toString dup (hex_EncodeToString (sha256 (ef_fileBytes p)))
            (latest_row (ef_evalItemID p) d)) @
          [(''version'', JNumber (strconv_Itoa (ew_version row)))])) \<and>
        adds_event (evidence_action (ew_version row)) ''evidence''
          (case parse (toString (ew_id row)) of None \<Rightarrow> uuid_Nil | Some u \<Rightarrow> u) DefaultUserID
          (Some (evidence_details toString (ef_evalItemID p) (hex_EncodeToString (sha256 (ef_fileBytes p)))
            (ew_version row) (ew_previous_version_id row))) d1 d')"

text \<open>The hash belongs to the bytes, which are within the limit.\<close>

definition file_part_ok :: "64 word \<Rightarrow> evidenceFormParts \<Rightarrow> bool" where
  "file_part_ok mx p \<longleftrightarrow> (ef_gotFile p \<longrightarrow>
     ef_fileHash p = hex_EncodeToString (sha256 (ef_fileBytes p)) \<and> int (length (ef_fileBytes p)) \<le> sint mx)"

lemma add_part_ok: "add_part mx q p = Inr p' \<Longrightarrow> file_part_ok mx p \<Longrightarrow> file_part_ok mx p'"
  by (auto simp: add_part_def parseAndHashMultipart_def file_part_ok_def Let_def
      split: if_splits sum.splits prod.splits)

lemma add_parts_ok: "add_parts mx ps p = Inr p' \<Longrightarrow> file_part_ok mx p \<Longrightarrow> file_part_ok mx p'"
  by (induction ps arbitrary: p) (auto split: sum.splits dest: add_part_ok)

lemma parsed_file_ok:
  "parseMultipartForm mx r = Inr p \<Longrightarrow> file_part_ok mx p"
  by (auto simp: parseMultipartForm_def split: sum.splits prod.splits if_splits elim!: add_parts_ok)
     (simp add: file_part_ok_def no_parts_def)

lemma valid_parts_file: "validateEvidenceParts p = None \<Longrightarrow> ef_gotFile p \<and> ef_fileBytes p \<noteq> []"
  by (auto simp: validateEvidenceParts_def split: if_splits)

lemma pool_BeginTx_ids: "keeps env_ids (callw pool_BeginTx f retn)"
  by (intro eff_intros) (auto simp: keeps_def pool_BeginTx_def read_fault_def read_clock_def split: option.splits)

lemma evidence_request_outcome:
  fixes parse toString sha1
  defines "rt \<equiv> pg_runtime parse toString sha1"
  assumes run: "handleCreateEvidence rt (pg_evidence_handler rt auth mx dup) r w = (resp, w')"
    and inv: "evidence_inv (pg_committed w)"
  shows "evidence_outcome parse toString mx dup r resp (env_ids w) (pg_committed w) (pg_committed w')"
proof (cases "400 \<le> resp_Code resp \<and> w' = w")
  case True
  then show ?thesis by (simp add: evidence_outcome_def)
next
  case False
  from run False obtain p where p: "parseMultipartForm mx r = Inr p" "validateEvidenceParts p = None" and
    tx: "with_handle PgStore_BeginEvidenceTx (\<lambda>e. writeEvidenceErr 500 ''INTERNAL'' ''begin failed'' [])
      PgEvidenceTx_Rollback (evidence_stage rt (pg_evidence_handler rt auth mx dup)
        (if ef_fileName p = [] then p\<lparr>ef_fileName := ''evidence.bin''\<rparr> else p)) w = (resp, w')"
    by (auto simp: handleCreateEvidence_def Let_def split: if_splits sum.splits option.splits)
  define p' where "p' = (if ef_fileName p = [] then p\<lparr>ef_fileName := ''evidence.bin''\<rparr> else p)"
  have p': "ef_evalItemID p' = ef_evalItemID p" "ef_fileBytes p' = ef_fileBytes p"
    "ef_fileHash p' = hex_EncodeToString (sha256 (ef_fileBytes p))"
    "ef_fileName p' = (if ef_fileName p = [] then ''evidence.bin'' else ef_fileName p)"
    and ok: "int (length (ef_fileBytes p)) \<le> sint mx" "ef_fileBytes p \<noteq> []"
    using parsed_file_ok [OF p(1)] valid_parts_file [OF p(2)] by (auto simp: p'_def file_part_ok_def)
  have str: "parseResourceID rt x = (case parse x of None \<Rightarrow> uuid_Nil | Some u \<Rightarrow> u)" for x
    by (simp add: parseResourceID_def rt_def pg_runtime_def)
  show ?thesis
  proof (rule evidence_txs.with_handle_cases [OF evidence_stage_safe _ tx [folded p'_def, unfolded rt_def]], goal_cases)
    case (3 t w1 s')
    have d: "work (t, w1) = pg_committed w" using 3(2) by (simp add: work_def)
    have ids: "env_ids w1 = env_ids w"
      using keepsD [OF pool_BeginTx_ids 3(1) [unfolded PgStore_BeginEvidenceTx_def]] .
    from evidence_stage_committed [OF 3(3), unfolded d snd_conv ids p', OF inv] 3(4) p ok
    show ?case unfolding evidence_outcome_def str [symmetric] rt_def by metis
  qed (auto simp: evidence_outcome_def)
qed

lemma evidence_outcome_inv:
  assumes "evidence_outcome parse toString mx dup r resp ids d d'" and "evidence_inv d"
  shows "evidence_inv d'"
proof -
  have ev: "evidence_inv d2" if "adds_event a ty i u det d1 d2" "evidence_inv d1" for a ty i u det d1 d2
    using that by (simp add: evidence_inv_def evidence_of_item_def)
  show ?thesis using assms unfolding evidence_outcome_def by (metis ev evidence_added_inv)
qed

section \<open>The properties\<close>

primrec serve_uploads ::
  "('t \<times> 'w) runtime \<Rightarrow> ('t, 'w) EvidenceHandler \<Rightarrow> evidence_request list \<Rightarrow> 'w \<Rightarrow> 'w" where
  "serve_uploads rt h [] w = w"
| "serve_uploads rt h (r # rs) w = serve_uploads rt h rs (snd (handleCreateEvidence rt h r w))"

text \<open>
  C12: The versions of an evaluation item are a chain. Start from tables in which they are (for
  instance without evidence) and serve any sequence of uploads, with any faults of the connection: for
  every item, the rows in the order of their insertion have the versions 1, 2, 3 and so on, each names
  the id of the row before it, the last one is ACTIVE and all others are SUPERSEDED; ids are unique.
\<close>

theorem evidence_versions_chain:
  assumes "evidence_inv (pg_committed w)"
  shows "evidence_inv (pg_committed (serve_uploads (pg_runtime parse toString sha1)
    (pg_evidence_handler (pg_runtime parse toString sha1) auth mx dup) rs w))"
  using assms
proof (induction rs arbitrary: w)
  case (Cons r rs)
  let ?rt = "pg_runtime parse toString sha1"
  obtain resp w1 where run: "handleCreateEvidence ?rt (pg_evidence_handler ?rt auth mx dup) r w = (resp, w1)"
    by fastforce
  show ?case using Cons.IH [OF evidence_outcome_inv [OF evidence_request_outcome [OF run Cons.prems] Cons.prems]] run
    by simp
qed simp

text \<open>
  C14: What one upload does, whatever the connection does, on tables whose versions are chains (as C12
  keeps them): an error and no change at all, or one more version of the item named in the form, with
  the bytes of the file, their number, and their SHA-256 hash computed by the server, the previous
  version superseded, and exactly one audit event by the anonymous user with the same hash and
  version, all in one commit; the file has at most maxFileBytes bytes. The stored location, though, is made from another generated id than the row's: when the
  generator never repeats itself, it is not the location db://evidences/<id> that its comments promise.
\<close>

theorem evidence_request_effect:
  assumes "handleCreateEvidence (pg_runtime parse toString sha1)
      (pg_evidence_handler (pg_runtime parse toString sha1) auth mx dup) r w = (resp, w')"
    and "evidence_inv (pg_committed w)"
  shows "evidence_outcome parse toString mx dup r resp (env_ids w) (pg_committed w) (pg_committed w')"
  using assms by (rule evidence_request_outcome)

text \<open>The body of a version that has a successor.\<close>

lemma superseded_has_successor:
  assumes inv: "evidence_inv d" and r: "row_lookup ew_id (db_evidences d) i = Some r" "ew_status r = ''SUPERSEDED''"
  shows "0 < successor_count i d"
proof -
  let ?rs = "evidence_of_item (ew_evaluation_item_id r) d"
  have "r \<in> set ?rs" using row_lookup_in_set [OF r(1)] by (simp add: evidence_of_item_def)
  then obtain k where k: "k < length ?rs" "?rs ! k = r" by (auto simp: in_set_conv_nth)
  have chain: "version_chain ?rs" using inv by (simp add: evidence_inv_def)
  have "ew_status (?rs ! k) = (if Suc k = length ?rs then ''ACTIVE'' else ''SUPERSEDED'')"
    using chain k(1) unfolding version_chain_def by blast
  then have "Suc k < length ?rs" using k r(2) by (simp split: if_splits)
  then have "ew_previous_version_id (?rs ! Suc k) = Some i" "?rs ! Suc k \<in> set (db_evidences d)"
    using chain k row_lookup_key [OF r(1)] nth_mem [of "Suc k" ?rs]
    by (auto simp: version_chain_def evidence_of_item_def)
  then show ?thesis by (auto simp: successor_count_def filter_empty_conv)
qed

text \<open>
  A superseded version is immutable. In tables whose versions are chains, UpdateEvidenceBodyColumn on
  a SUPERSEDED row always returns an error and leaves the pending tables as they are, whatever the column
  and the value; without faults, for a column of the list, the error is ErrEvidenceImmutable.
\<close>

lemma superseded_body_immutable:
  assumes "evidence_inv (ptx_work (fst s))" and "row_lookup ew_id (db_evidences (ptx_work (fst s))) i = Some r"
    and "ew_status r = ''SUPERSEDED''" and "UpdateEvidenceBodyColumn ti i col v s = (res, s')"
  shows "(\<exists>e. res = Inl e \<and> (live s \<and> col \<in> set allowedBodyColumns \<longrightarrow> errors_Is e ErrEvidenceImmutable)) \<and>
    ptx_work (fst s') = ptx_work (fst s)"
proof -
  have "0 < successor_count i (ptx_work (fst s))" using superseded_has_successor [OF assms(1-3)] .
  then show ?thesis using assms(4)
    by (cases s) (auto simp: UpdateEvidenceBodyColumn_def live_def callw_def pg_query_def pg_run_def throw_def
        read_fault_def read_id_def no_faults_def split: if_splits option.splits prod.splits)
qed

definition chain_sample :: db where
  "chain_sample = empty_db\<lparr>db_evidences :=
     [\<lparr>ew_id = 1, ew_evaluation_item_id = ''A'', ew_version = 1, ew_previous_version_id = None,
       ew_file_name = ''a'', ew_file_size_bytes = Some 1, ew_file_hash_sha256 = None, ew_content_type = None,
       ew_file_content = Some [7], ew_storage_location = None, ew_storage_strategy = ''database_blob'',
       ew_status = ''SUPERSEDED'', ew_metadata = None, ew_created_at = 0, ew_created_by = ''u'', ew_updated_at = 1\<rparr>,
      \<lparr>ew_id = 2, ew_evaluation_item_id = ''A'', ew_version = 2, ew_previous_version_id = Some 1,
       ew_file_name = ''a'', ew_file_size_bytes = Some 1, ew_file_hash_sha256 = None, ew_content_type = None,
       ew_file_content = Some [8], ew_storage_location = None, ew_storage_strategy = ''database_blob'',
       ew_status = ''ACTIVE'', ew_metadata = None, ew_created_at = 1, ew_created_by = ''u'', ew_updated_at = 1\<rparr>]\<rparr>"

lemma chain_sample_inv: "evidence_inv chain_sample"
  by (auto simp: evidence_inv_def chain_sample_def evidence_of_item_def version_chain_def less_Suc_eq)

definition text_columns :: text_input where
  "text_columns = \<lparr>ti_int8 = (\<lambda>_. Inr 0), ti_bytea = (\<lambda>_. Inr []), ti_jsonb = (\<lambda>_. Inr None)\<rparr>"

section \<open>An upload that succeeds\<close>

text \<open>Each step on a connection without faults.\<close>

lemma live_resolve:
  assumes "live s" and "evidence_inv (work s)" and "text_ok e"
  shows "\<exists>s' vr. resolveVersion rt (pg_evidence_handler rt0 auth mx dup) e hash s = (Inr vr, s') \<and> live s' \<and>
    work s' = work s \<and> env_ids (snd s') = env_ids (snd s) \<and> resolution_for e (work s) vr"
proof -
  have chain: "version_chain (evidence_of_item e (work s))" using assms(2) by (simp add: evidence_inv_def)
  obtain t w where s: "s = (t, w)" by fastforce
  have live: "\<not> ptx_closed t" "\<not> ptx_aborted t" "no_faults w" using assms(1) by (simp_all add: s live_def)
  obtain w1 where "GetLatestVersionByEvalItem e s = (Inr (map_option scanEvidenceRow (latest_row e (ptx_work t))), (t, w1))"
    "no_faults w1" "env_ids w1 = env_ids w"
    using live by_version_desc_chain [OF chain] assms(3)
    by (cases "rev (evidence_of_item e (ptx_work t))")
       (auto simp: s work_def GetLatestVersionByEvalItem_def scanOne_def latest_row_def pg_statements)
  then show ?thesis using assms(1)
    by (auto simp: resolveVersion_def call_def callw_def retn_def s live_def work_def resolution_for_def
        scanEvidenceRow_def split: option.splits)
qed

lemma latest_row_lookup:
  assumes "evidence_inv d" and "latest_row e d = Some l"
  shows "row_lookup ew_id (db_evidences d) (ew_id l) = Some l" "ew_status l = ''ACTIVE''"
proof -
  show "row_lookup ew_id (db_evidences d) (ew_id l) = Some l"
    using assms(1) latest_row_in(1) [OF assms(2)] row_lookup_distinct by (auto simp: evidence_inv_def)
  obtain rs where rs: "evidence_of_item e d = rs @ [l]" using latest_row_in(3) [OF assms(2)] by blast
  have "version_chain (rs @ [l])" using assms(1) unfolding rs [symmetric] by (simp add: evidence_inv_def)
  from this [unfolded version_chain_def, rule_format, of "length rs"] show "ew_status l = ''ACTIVE''" by simp
qed

lemma latest_row_version: "evidence_inv d \<Longrightarrow> latest_row e d = Some l \<Longrightarrow> 1 \<le> ew_version l"
proof -
  assume inv: "evidence_inv d" and l: "latest_row e d = Some l"
  obtain rs where rs: "evidence_of_item e d = rs @ [l]" using latest_row_in(3) [OF l] by blast
  have "version_chain (rs @ [l])" using inv unfolding rs [symmetric] by (simp add: evidence_inv_def)
  from this [unfolded version_chain_def, rule_format, of "length rs"] show ?thesis by simp
qed

text \<open>The texts that the server writes itself are texts for PostgreSQL.\<close>

lemma hex_text_ok: "text_ok (hex_EncodeToString bs)"
proof (rule text_ok_ascii, rule ballI)
  fix c assume "c \<in> set (hex_EncodeToString bs)"
  moreover have "unat x div 16 < 16" "unat x mod 16 < 16" for x :: "8 word"
    using unsigned_less [of x, where ?'a = nat] by simp_all
  moreover have "\<exists>x :: 8 word. c = Sha256.hex_digit (unat x div 16) \<or> c = Sha256.hex_digit (unat x mod 16)"
    if "c \<in> set (hex_EncodeToString bs)" for bs :: bytes
    using that by (auto simp: hex_EncodeToString_def)
  ultimately obtain n where "n < 16" "c = Sha256.hex_digit n" by metis
  then show "0 < (of_char c :: nat) \<and> (of_char c :: nat) < 128" by (simp add: Sha256.hex_digit_def)
qed

lemma evidence_bin_ok: "text_ok ''evidence.bin''"
  by simp

lemma to_hex_digits: "c \<in> set (to_hex k n) \<Longrightarrow> c \<in> set ''0123456789abcdef''"
proof (induction k n rule: to_hex.induct)
  case (2 k n)
  have "Uuid_Instance.hex_digit (n mod 16) \<in> set ''0123456789abcdef''"
    unfolding Uuid_Instance.hex_digit_def by (rule nth_mem) simp
  moreover have "c \<in> set (to_hex k (n div 16)) \<or> c = Uuid_Instance.hex_digit (n mod 16)" using 2(2) by auto
  ultimately show ?case using 2(1) by blast
qed simp

lemma canonical_text_ok: "text_ok (canonical_String u)"
proof (rule text_ok_ascii, rule ballI)
  fix c assume "c \<in> set (canonical_String u)"
  then have "c \<in> set ''0123456789abcdef'' \<or> c = CHR ''-''"
    by (auto simp: canonical_String_def dashed_def dest!: in_set_takeD in_set_dropD to_hex_digits)
  then show "0 < (of_char c :: nat) \<and> (of_char c :: nat) < 128" by auto
qed

definition upload_fits :: "evidenceFormParts \<Rightarrow> bool" where
  "upload_fits p \<longleftrightarrow> length (ef_evalItemID p) \<le> 64 \<and> length (ef_fileName p) \<le> 512 \<and> length (ef_fileHash p) \<le> 64 \<and>
     text_ok (ef_evalItemID p) \<and> text_ok (ef_fileName p) \<and> text_ok (ef_fileHash p) \<and> length (ef_fileBytes p) \<le> 2 ^ 29"

lemma live_insert_evidence:
  assumes "live s" and inv: "evidence_inv (work s)" and fits: "upload_fits p" and loc: "length loc \<le> 255" "text_ok loc"
    and fresh: "\<forall>n. env_ids (snd s) n \<notin> evidence_ids (work s)"
    and prev: "prev = map_option ew_id (latest_row (ef_evalItemID p) (work s))"
    and v: "\<forall>l. latest_row (ef_evalItemID p) (work s) = Some l \<longrightarrow> ew_version l + 1 < 2 ^ 31 \<and> 0 \<le> ew_version l"
  shows "\<exists>j s'. InsertEvidence (ef_evalItemID p) (ef_fileName p) ''application/octet-stream'' (int (length (ef_fileBytes p)))
      (ef_fileHash p) ''database_blob'' loc Map.empty (ef_fileBytes p) prev s = (Inr j, s') \<and> live s'"
proof -
  obtain t w where s: "s = (t, w)" by fastforce
  have fresh': "1 + n = n' \<Longrightarrow> env_ids w n \<notin> ew_id ` set (db_evidences (ptx_work t))" for n n'
    using fresh by (simp add: s evidence_ids_def work_def)
  have "prev = None \<or> (\<exists>l. prev = Some (ew_id l) \<and> row_lookup ew_id (db_evidences (ptx_work t)) (ew_id l) = Some l \<and>
      ew_version l + 1 < 2 ^ 31 \<and> 0 \<le> ew_version l \<and> ew_id l \<in> ew_id ` set (db_evidences (ptx_work t)))"
    using prev v latest_row_lookup(1) [OF inv] latest_row_in(1)
    by (cases "latest_row (ef_evalItemID p) (work s)") (auto simp: s work_def)
  then show ?thesis using assms(1) fits loc fresh'
    by (auto simp: s live_def InsertEvidence_def next_version_def GetEvidenceByID_def scanOne_def scanEvidenceRow_def
        encode_int4_def insert_evidence_stmt_def Let_def evidence_row_error_def opt_text_def varchar_def upload_fits_def
        pg_statements evidence_texts_def content_bytes_def text_of_def)
qed

lemma live_supersede:
  assumes "live s" and "prev = None \<or> (\<exists>p r. prev = Some p \<and> row_lookup ew_id (db_evidences (work s)) p = Some r \<and>
      ew_status r = ''ACTIVE'')"
  shows "\<exists>s'. supersede_previous (pg_evidence_handler rt auth mx dup) prev s = (Inr (), s') \<and> live s'"
proof -
  obtain t w where s: "s = (t, w)" by fastforce
  from assms show ?thesis
    by (auto simp: supersede_previous_def s live_def work_def MarkSuperseded_def mark_superseded_stmt_def pg_statements)
qed

lemma live_record_evidence:
  fixes parse toString sha1
  defines "rt \<equiv> pg_runtime parse toString sha1"
  assumes "live s" and "vr_version vr = 1 \<or> vr_prevID vr \<noteq> None"
  shows "\<exists>s'. record_evidence rt (pg_evidence_handler rt auth mx dup) i p vr s = (Inr (), s') \<and>
    no_faults (snd s') \<and> \<not> ptx_aborted (fst s') \<and> \<not> ptx_closed (fst s')"
  using assms
  by (cases s) (auto simp: rt_def live_def record_evidence_def RecordEvidenceCreated_def RecordEvidenceVersioned_def
      PgEvidenceTx_InsertAuditLog_def [abs_def] nowUTC_pg Recorder_resolveUserID_def DefaultUserID_def varchar_def
      ActionEvidenceCreated_def ActionEvidenceVersioned_def pg_statements simp del: NewRecorder_plain)

lemma live_persist:
  fixes parse toString sha1
  defines "rt \<equiv> pg_runtime parse toString sha1"
  assumes s: "live s" "evidence_inv (work s)" "\<forall>n. env_ids (snd s) n \<notin> evidence_ids (work s)"
    and p: "upload_fits p" and vr: "resolution_for (ef_evalItemID p) (work s) vr"
    and str: "\<forall>u. toString u \<noteq> [] \<and> length (toString u) \<le> 240 \<and> text_ok (toString u)"
    and v: "\<forall>l. latest_row (ef_evalItemID p) (work s) = Some l \<longrightarrow> ew_version l + 1 < 2 ^ 31 \<and> 0 \<le> ew_version l"
  shows "\<exists>i s'. persistEvidenceTx rt (pg_evidence_handler rt auth mx dup) p vr s = (Inr i, s') \<and>
    no_faults (snd s') \<and> \<not> ptx_aborted (fst s') \<and> \<not> ptx_closed (fst s')"
proof -
  let ?h = "pg_evidence_handler rt auth mx dup" and ?e = "ef_evalItemID p"
  have toS: "uuid_String rt = toString" by (simp add: rt_def pg_runtime_def)
  define newID where "newID = env_ids (snd s) (env_pos (snd s))"
  define s1 where "s1 = (fst s, (snd s)\<lparr>env_pos := Suc (env_pos (snd s))\<rparr>)"
  have u: "uuid_New s = (Inr newID, s1)" by (simp add: uuid_New_iff newID_def s1_def)
  have s1: "live s1" "work s1 = work s" "env_ids (snd s1) = env_ids (snd s)"
    using s(1) by (simp_all add: s1_def live_def work_def no_faults_def)
  have put: "lift (dbBlobStore_Put (toString newID)) s1 = (Inr (''db://evidences/'' @ toString newID), s1)"
    using str by (simp add: dbBlobStore_Put_def)
  have prev: "vr_prevID vr = map_option ew_id (latest_row ?e (work s1))" using vr s1(2) by (simp add: resolution_for_def)
  have loc: "length (''db://evidences/'' @ toString newID) \<le> 255" "text_ok (''db://evidences/'' @ toString newID)"
    using str by (simp_all add: add.commute)
  obtain j s2 where ins: "InsertEvidence ?e (ef_fileName p) ''application/octet-stream'' (int (length (ef_fileBytes p)))
      (ef_fileHash p) ''database_blob'' (''db://evidences/'' @ toString newID) Map.empty (ef_fileBytes p) (vr_prevID vr) s1 =
        (Inr j, s2)" and s2: "live s2"
    using live_insert_evidence [OF s1(1) _ p loc _ prev] s(2,3) v unfolding s1(2,3) by blast
  from ins obtain row where w2: "work s2 = (work s1)\<lparr>db_evidences := db_evidences (work s1) @ [row]\<rparr>"
    by (rule insert_evidence_ok)
  have "vr_prevID vr = None \<or> (\<exists>q r. vr_prevID vr = Some q \<and> row_lookup ew_id (db_evidences (work s2)) q = Some r \<and>
      ew_status r = ''ACTIVE'')"
    using latest_row_lookup [OF s(2)] unfolding prev w2 s1(2) by (cases "latest_row ?e (work s)") auto
  then obtain s3 where sup: "supersede_previous ?h (vr_prevID vr) s2 = (Inr (), s3)" and s3: "live s3"
    using live_supersede [OF s2] by blast
  have "vr_version vr = 1 \<or> vr_prevID vr \<noteq> None" using vr by (auto simp: resolution_for_def split: option.splits)
  from live_record_evidence [OF s3 this] obtain s4 where rec: "record_evidence rt ?h j p vr s3 = (Inr (), s4)"
    and s4: "no_faults (snd s4)" "\<not> ptx_aborted (fst s4)" "\<not> ptx_closed (fst s4)"
    unfolding rt_def by blast
  have "persistEvidenceTx rt ?h p vr s = (Inr j, s4)"
    unfolding persistEvidenceTx_def pg_evidence_handler_simps PgEvidenceTx_simps toS
    using u put ins sup rec by (simp add: retn_def)
  with s4 show ?thesis by blast
qed

text \<open>
  C7: An upload succeeds. Without faults of the connection, with generated ids that are not in use and
  tables whose versions are chains, a multipart request of an admissible size whose body has a valid
  evaluation item, file name and file is answered 201, for a first version and for a later one (as
  long as the column, a 32-bit integer, holds the next version). Two limits are PostgreSQL's and not
  the handler's: the item and the file name are UTF-8 without NUL bytes, and the file has at most 512 MB.
\<close>

theorem evidence_upload_succeeds:
  assumes w: "no_faults w" "\<forall>n. env_ids w n \<notin> ar_id ` set (db_audit_logs (pg_committed w)) \<and>
      env_ids w n \<notin> evidence_ids (pg_committed w)"
    and inv: "evidence_inv (pg_committed w)"
    and str: "\<forall>u. toString u \<noteq> [] \<and> length (toString u) \<le> 240 \<and> text_ok (toString u)"
    and r: "HasPrefix (er_ContentType r) ''multipart/form-data''" "req_ContentLength r \<le> sint mx"
    and p: "parseMultipartForm mx r = Inr p" "validateEvidenceParts p = None"
    and pg: "text_ok (ef_evalItemID p)" "text_ok (ef_fileName p)" "length (ef_fileBytes p) \<le> 2 ^ 29"
    and v: "\<forall>l. latest_row (ef_evalItemID p) (pg_committed w) = Some l \<longrightarrow> ew_version l < 2147483647"
  shows "resp_Code (fst (handleCreateEvidence (pg_runtime parse toString sha1)
    (pg_evidence_handler (pg_runtime parse toString sha1) auth mx dup) r w)) = 201"
proof -
  let ?rt = "pg_runtime parse toString sha1"
  let ?h = "pg_evidence_handler ?rt auth mx dup"
  define p' where "p' = (if ef_fileName p = [] then p\<lparr>ef_fileName := ''evidence.bin''\<rparr> else p)"
  have fits: "upload_fits p'"
    using p(2) parsed_file_ok [OF p(1)] pg evidence_bin_ok
    by (auto simp: p'_def upload_fits_def file_part_ok_def validateEvidenceParts_def evidence_maxEvalItemIDLen_def
        maxFileNameLen_def hex_length sha256_length hex_text_ok split: if_splits)
  obtain t w1 where b: "PgStore_BeginEvidenceTx w = (Inr t, w1)" "live (t, w1)" "ptx_work t = pg_committed w"
    using live_begin w unfolding PgStore_BeginEvidenceTx_def by blast
  have ids: "env_ids w1 = env_ids w" using keepsD [OF pool_BeginTx_ids b(1) [unfolded PgStore_BeginEvidenceTx_def]] .
  have inv1: "evidence_inv (work (t, w1))" using inv b(3) by (simp add: work_def)
  have item: "text_ok (ef_evalItemID p')" using pg(1) by (simp add: p'_def)
  obtain s1 vr where res: "resolveVersion ?rt ?h (ef_evalItemID p') (ef_fileHash p') (t, w1) = (Inr vr, s1)"
    and s1: "live s1" "work s1 = work (t, w1)" "env_ids (snd s1) = env_ids w1" "resolution_for (ef_evalItemID p') (work (t, w1)) vr"
    using live_resolve [OF b(2) inv1 item] by (metis snd_conv)
  have d: "work s1 = pg_committed w" using s1(2) b(3) by (simp add: work_def)
  have "ef_evalItemID p' = ef_evalItemID p" by (simp add: p'_def)
  then have v': "\<forall>l. latest_row (ef_evalItemID p') (work s1) = Some l \<longrightarrow> ew_version l + 1 < 2 ^ 31 \<and> 0 \<le> ew_version l"
    using v latest_row_version [OF inv] by (force simp: d)
  obtain i s2 where pe: "persistEvidenceTx ?rt ?h p' vr s1 = (Inr i, s2)"
    and s2: "no_faults (snd s2)" "\<not> ptx_aborted (fst s2)" "\<not> ptx_closed (fst s2)"
    using live_persist [OF s1(1) _ _ fits _ str v'] inv w(2) s1(2,3,4) ids d by metis
  obtain s3 where co: "PgEvidenceTx_Commit s2 = (Inr (), s3)"
    using live_commit [OF s2] unfolding PgEvidenceTx_Commit_def by blast
  have "fst (evidence_stage ?rt ?h p' (t, w1)) = (True, writeEvidenceJSON 201 (JObject
       ([(''evidence_id'', JString (uuid_String ?rt i))] @ text_field ''duplicate_of'' (vr_dupOf vr) @
        [(''version'', JNumber (strconv_Itoa (vr_version vr)))])))"
    using res pe co by (simp add: evidence_stage_def attempt_def answer_def del: NewRecorder_plain)
  then show ?thesis using r p b(1)
    by (auto simp: handleCreateEvidence_def Let_def p'_def [symmetric] with_handle_def split: prod.splits)
qed

definition upload_sample :: evidence_request where
  "upload_sample = request.extend (plain_request [] None None)
     \<lparr>er_ContentType = ''multipart/form-data; boundary=x'',
      er_Multipart = Inr ([\<lparr>pt_FormName = ''evaluation_item_id'', pt_FileName = [], pt_Data = [65], pt_Error = False\<rparr>,
        \<lparr>pt_FormName = ''file'', pt_FileName = ''a.txt'', pt_Data = [1, 2, 3], pt_Error = False\<rparr>], False)\<rparr>"

definition upload_sample_parts :: evidenceFormParts where
  "upload_sample_parts = \<lparr>ef_evalItemID = ''A'', ef_fileName = ''a.txt'',
     ef_fileHash = hex_EncodeToString (sha256 [1, 2, 3]), ef_fileBytes = [1, 2, 3], ef_gotFile = True\<rparr>"

lemma upload_sample_parses: "parseMultipartForm 1024 upload_sample = Inr upload_sample_parts"
  by (simp add: parseMultipartForm_def upload_sample_def request.defs add_part_def read_field_def limit_reader_def
      no_parts_def bytes_text_def TrimSpace_def is_space_def parseAndHashMultipart_def upload_sample_parts_def
      evidence_maxEvalItemIDLen_def char_of_eq_iff)

lemma canonical_short: "canonical_String u \<noteq> [] \<and> length (canonical_String u) \<le> 240 \<and> text_ok (canonical_String u)"
  by (simp add: canonical_text_ok, simp add: canonical_String_def dashed_def)

lemma empty_evidence_inv: "evidence_inv empty_db"
  by (simp add: evidence_inv_def empty_db_def evidence_of_item_def)

lemmas upload_sample_facts = upload_sample_parses canonical_short empty_evidence_inv

theorem evidence_upload_succeeds_witness:
  "resp_Code (fst (handleCreateEvidence (pg_runtime canonical_Parse canonical_String sample_SHA1)
    (pg_evidence_handler (pg_runtime canonical_Parse canonical_String sample_SHA1) True 1024 True)
    upload_sample (sample_pg empty_db))) = 201"
proof (rule evidence_upload_succeeds [where p = upload_sample_parts])
  show "parseMultipartForm 1024 upload_sample = Inr upload_sample_parts" by (rule upload_sample_parses)
qed (simp_all add: canonical_short empty_evidence_inv, simp_all add: empty_db_def evidence_ids_def latest_row_def
  evidence_of_item_def upload_sample_def request.defs HasPrefix_def validateEvidenceParts_def upload_sample_parts_def
  evidence_maxEvalItemIDLen_def maxFileNameLen_def)

theorem evidence_versions_chain_witness:
  "evidence_inv (pg_committed (serve_uploads (pg_runtime canonical_Parse canonical_String sample_SHA1)
    (pg_evidence_handler (pg_runtime canonical_Parse canonical_String sample_SHA1) True 1024 True) [upload_sample, upload_sample] (sample_pg empty_db)))"
  by (rule evidence_versions_chain) (simp add: evidence_inv_def empty_db_def evidence_of_item_def)

theorem evidence_request_effect_witness:
  "\<exists>resp w'. handleCreateEvidence (pg_runtime canonical_Parse canonical_String sample_SHA1)
      (pg_evidence_handler (pg_runtime canonical_Parse canonical_String sample_SHA1) True 1024 True)
      upload_sample (sample_pg empty_db) = (resp, w') \<and>
    evidence_outcome canonical_Parse canonical_String 1024 True upload_sample resp
      (env_ids (sample_pg empty_db)) empty_db (pg_committed w')"
proof -
  let ?run = "handleCreateEvidence (pg_runtime canonical_Parse canonical_String sample_SHA1)
      (pg_evidence_handler (pg_runtime canonical_Parse canonical_String sample_SHA1) True 1024 True)
      upload_sample (sample_pg empty_db)"
  have "?run = (fst ?run, snd ?run)" by simp
  from evidence_request_effect [OF this] this show ?thesis by (metis empty_evidence_inv sample_pg_simps(1))
qed

section \<open>The limit of the size\<close>

lemma sint_plus_one: "sint (m :: 64 word) < 2 ^ 63 - 1 \<Longrightarrow> sint (m + 1) = sint m + 1"
  using sint_ge [of m] by (simp add: sint_word_ariths signed_take_bit_int_eq_self)

text \<open>
  C10: The limit of the size, and where it wraps. For a limit of 0 or more, up to the largest int64 but
  one, a file part that can be read passes exactly when it has at most that many bytes, and then it is
  kept and hashed whole. With the largest int64 as the limit, which says that any size is
  welcome, the bound limit + 1 wraps to a negative number, the reader delivers nothing, and every
  request is answered 400 without a transaction.
\<close>

theorem upload_limit:
  assumes "0 \<le> sint mx" and "req_ContentLength r < 2 ^ 63"
  shows "(sint mx < 2 ^ 63 - 1 \<longrightarrow> parseAndHashMultipart bs False mx =
      (if int (length bs) \<le> sint mx then Inr (bs, sha256 bs) else Inl oversized_msg)) \<and>
    (vh_maxFileBytes h = mx \<longrightarrow> sint mx = 2 ^ 63 - 1 \<longrightarrow>
      (\<exists>resp. handleCreateEvidence rt h r w = (resp, w) \<and> resp_Code resp = 400))"
proof (intro conjI impI)
  assume "sint mx < 2 ^ 63 - 1"
  from sint_plus_one [OF this] assms(1) show "parseAndHashMultipart bs False mx =
      (if int (length bs) \<le> sint mx then Inr (bs, sha256 bs) else Inl oversized_msg)"
    by (auto simp: parseAndHashMultipart_def limit_reader_def nat_le_iff min_def)
next
  assume h: "vh_maxFileBytes h = mx" and max: "sint mx = 2 ^ 63 - 1"
  have "mx = word_of_int (sint mx)" by simp
  then have "mx + 1 = word_of_int (2 ^ 63)" by (simp add: max)
  then have neg: "sint (mx + 1) = - (2 ^ 63)" by simp
  have part: "add_part mx q p = Inr p' \<Longrightarrow> ef_fileBytes p = [] \<Longrightarrow> ef_fileBytes p' = []" for q p p'
    using neg by (auto simp: add_part_def Let_def parseAndHashMultipart_def limit_reader_def split: if_splits sum.splits)
  have parts: "add_parts mx ps p = Inr p' \<Longrightarrow> ef_fileBytes p = [] \<Longrightarrow> ef_fileBytes p' = []" for ps p p'
    by (induction ps arbitrary: p) (auto split: sum.splits dest: part)
  have "parseMultipartForm mx r = Inr p \<Longrightarrow> ef_fileBytes p = []" for p
    by (auto simp: parseMultipartForm_def no_parts_def split: sum.splits prod.splits if_splits dest: parts)
  then have "parseMultipartForm mx r = Inr p \<Longrightarrow> validateEvidenceParts p \<noteq> None" for p
    by (auto simp: validateEvidenceParts_def)
  then show "\<exists>resp. handleCreateEvidence rt h r w = (resp, w) \<and> resp_Code resp = 400"
    using assms(2) max h by (auto simp: handleCreateEvidence_def split: sum.splits option.splits)
qed

theorem upload_limit_witness:
  "parseAndHashMultipart [1, 2] False 1 = Inl oversized_msg \<and>
   (\<exists>resp. handleCreateEvidence (pg_runtime canonical_Parse canonical_String sample_SHA1)
      (pg_evidence_handler (pg_runtime canonical_Parse canonical_String sample_SHA1) True 9223372036854775807 True)
      upload_sample (sample_pg empty_db) = (resp, sample_pg empty_db) \<and> resp_Code resp = 400)"
proof -
  have len: "req_ContentLength upload_sample < 2 ^ 63" by (simp add: upload_sample_def request.defs)
  show ?thesis
    using upload_limit [of "1 :: 64 word" upload_sample "[1, 2]"] len
      upload_limit [of "9223372036854775807 :: 64 word" upload_sample _ "pg_evidence_handler
        (pg_runtime canonical_Parse canonical_String sample_SHA1) True 9223372036854775807 True"
        "pg_runtime canonical_Parse canonical_String sample_SHA1" "sample_pg empty_db"] by auto
qed

end
