(* ===== verification/Workflow_Service.thy ===== *)
theory Workflow_Service
  imports Workflow_Callback Authz
begin

text \<open>
  internal/server/grpc_server.go and rest_handler.go, with the messages of internal/proto: the
  service that creates, reads and lists workflows, and its REST interface, which calls it in the
  process. What ctx.Err() answers at the two places where it is read is part of the context; texts
  of errors that are printed into a message are left out.
\<close>

section \<open>Messages\<close>

datatype WorkflowStatus =
    WorkflowStatusUnspecified | WorkflowStatusPending | WorkflowStatusRunning
  | WorkflowStatusCompleted | WorkflowStatusFailed

definition WorkflowStatus_String :: "WorkflowStatus \<Rightarrow> string" where
  "WorkflowStatus_String s = (case s of
     WorkflowStatusPending \<Rightarrow> ''PENDING'' | WorkflowStatusRunning \<Rightarrow> ''RUNNING''
   | WorkflowStatusCompleted \<Rightarrow> ''COMPLETED'' | WorkflowStatusFailed \<Rightarrow> ''FAILED''
   | WorkflowStatusUnspecified \<Rightarrow> ''UNSPECIFIED'')"

record ProtoWorkflow =
  pw_CreatedAt :: time
  pw_UpdatedAt :: time
  pw_Status :: WorkflowStatus
  pw_ID :: string
  pw_UserID :: string
  pw_DocumentID :: string
  pw_ReportID :: string
  pw_ResultJSON :: "bytes option"

definition workflowStateToProtoStatus :: "workflow_state \<Rightarrow> WorkflowStatus" where
  "workflowStateToProtoStatus state =
     (if state = WorkflowStatePending then WorkflowStatusPending
      else if state = WorkflowStateRunning then WorkflowStatusRunning
      else if state = WorkflowStateCompleted then WorkflowStatusCompleted
      else if state = WorkflowStateFailed then WorkflowStatusFailed
      else WorkflowStatusUnspecified)"

definition workflowToProto :: "'s runtime \<Rightarrow> workflow \<Rightarrow> ProtoWorkflow" where
  "workflowToProto rt x =
     \<lparr>pw_CreatedAt = wf_CreatedAt x, pw_UpdatedAt = wf_UpdatedAt x,
      pw_Status = workflowStateToProtoStatus (wf_State x), pw_ID = uuid_String rt (wf_ID x), pw_UserID = [],
      pw_DocumentID = uuid_String rt (wf_DocumentID x),
      pw_ReportID = (case wf_ReportID x of None \<Rightarrow> [] | Some i \<Rightarrow> uuid_String rt i),
      pw_ResultJSON = wf_ResultJSON x\<rparr>"

section \<open>WorkflowService\<close>

definition defaultListLimit :: int where
  "defaultListLimit = 100"

definition maxListLimit :: int where
  "maxListLimit = 1000"

record rpc_context =
  cx_User :: "User option"
  cx_Err :: "string option"
  cx_CanceledAfter :: bool

record ('t, 'w) WorkflowService =
  sv_store :: "('t, 'w) WorkflowStore"
  sv_sm :: "('t, 'w) StateMachine"
  sv_Now :: "'w \<Rightarrow> time \<times> 'w"
  sv_NewUUID :: "'w \<Rightarrow> uuid \<times> 'w"

type_synonym rpc_error = "grpc_code \<times> string"

definition service_user :: "rpc_context \<Rightarrow> string" where
  "service_user c = (case cx_User c of
     None \<Rightarrow> DefaultUserID
   | Some u \<Rightarrow> if usr_UID u \<noteq> [] then usr_UID u else DefaultUserID)"

definition CreateWorkflow ::
  "('t \<times> 'w) runtime \<Rightarrow> ('t, 'w) WorkflowService \<Rightarrow> rpc_context \<Rightarrow> string \<Rightarrow> 'w \<Rightarrow>
   (rpc_error + ProtoWorkflow) \<times> 'w" where
  "CreateWorkflow rt sv c documentID w =
     (if cx_Err c \<noteq> None then (Inl (Canceled, ''request context cancelled''), w)
      else if documentID = [] then (Inl (InvalidArgument, ''document_id missing''), w)
      else case uuid_Parse rt documentID of
        None \<Rightarrow> (Inl (InvalidArgument, ''document_id is not a UUID''), w)
      | Some docUUID \<Rightarrow> (case sv_Now sv w of (now, w1) \<Rightarrow> (case sv_NewUUID sv w1 of (i, w2) \<Rightarrow>
          let x = \<lparr>wf_CreatedAt = now, wf_UpdatedAt = now, wf_ReportID = None, wf_State = WorkflowStatePending,
                    wf_ResultJSON = None, wf_ID = i, wf_DocumentID = docUUID\<rparr>
          in case ExecuteWorkflowCreate rt (sm_coordinator (sv_sm sv)) x documentID (service_user c) w2 of
               (Inl e, w3) \<Rightarrow> (Inl (if cx_CanceledAfter c then (Canceled, ''cancelled during creation'')
                                  else (Internal, ''workflow not created'')), w3)
             | (Inr u, w3) \<Rightarrow> (Inr (workflowToProto rt x), w3))))"

definition GetWorkflow ::
  "('t \<times> 'w) runtime \<Rightarrow> ('t, 'w) WorkflowService \<Rightarrow> string \<Rightarrow> 'w \<Rightarrow> (rpc_error + ProtoWorkflow) \<times> 'w" where
  "GetWorkflow rt sv i w =
     (if uuid_Parse rt i = None then (Inl (InvalidArgument, ''workflow_id is not a UUID''), w)
      else case st_BeginTx (sv_store sv) w of
        (Inl e, w1) \<Rightarrow> (Inl (Internal, ''begin failed''), w1)
      | (Inr t, w1) \<Rightarrow> (case tx_GetWorkflow (st_tx (sv_store sv)) i (t, w1) of (res, s) \<Rightarrow>
          ((case res of
              Inl e \<Rightarrow> Inl (if errors_Is e ErrWorkflowNotFound then (NotFound, ''no such workflow'')
                           else (Internal, ''workflow not read''))
            | Inr x \<Rightarrow> Inr (workflowToProto rt x)),
           snd (snd (tx_Rollback (st_tx (sv_store sv)) s)))))"

definition list_limit :: "int \<Rightarrow> int" where
  "list_limit limit = (if limit \<le> 0 then defaultListLimit else if limit > maxListLimit then maxListLimit else limit)"

definition ListWorkflows ::
  "('t \<times> 'w) runtime \<Rightarrow> ('t, 'w) WorkflowService \<Rightarrow> int \<Rightarrow> int \<Rightarrow> 'w \<Rightarrow>
   (rpc_error + ProtoWorkflow list \<times> 32 word) \<times> 'w" where
  "ListWorkflows rt sv limit offset w =
     (case st_ListWorkflows (sv_store sv) (list_limit limit) offset w of
        (Inl e, w') \<Rightarrow> (Inl (Internal, ''workflows not listed''), w')
      | (Inr wfs, w') \<Rightarrow>
          (let protoWFs = map (workflowToProto rt) wfs in (Inr (protoWFs, word_of_nat (length protoWFs)), w')))"

section \<open>RESTHandler\<close>

definition writeJSON :: "nat \<Rightarrow> json \<Rightarrow> response" where
  "writeJSON code v =
     \<lparr>resp_Code = code, resp_Header = [(''Content-Type'', ''application/json'')], resp_Body = v\<rparr>"

definition writeError :: "nat \<Rightarrow> string \<Rightarrow> string \<Rightarrow> response" where
  "writeError httpCode grpcCodeStr msg =
     writeJSON httpCode (JObject [(''error'', JObject ([(''code'', JString grpcCodeStr)] @ text_field ''message'' msg))])"

definition grpcCodeToHTTP :: "grpc_code \<Rightarrow> nat" where
  "grpcCodeToHTTP c = (case c of
     InvalidArgument \<Rightarrow> 400 | NotFound \<Rightarrow> 404 | Canceled \<Rightarrow> 499 | Internal \<Rightarrow> 500 | AlreadyExists \<Rightarrow> 409
   | PermissionDenied \<Rightarrow> 403 | Unauthenticated \<Rightarrow> 401 | _ \<Rightarrow> 500)"

definition grpcCodeToString :: "grpc_code \<Rightarrow> string" where
  "grpcCodeToString c = (case c of
     InvalidArgument \<Rightarrow> ''INVALID_ARGUMENT'' | NotFound \<Rightarrow> ''NOT_FOUND'' | Canceled \<Rightarrow> ''CANCELED''
   | Internal \<Rightarrow> ''INTERNAL'' | AlreadyExists \<Rightarrow> ''ALREADY_EXISTS'' | _ \<Rightarrow> ''INTERNAL'')"

definition write_status :: "rpc_error \<Rightarrow> response" where
  "write_status e = writeError (grpcCodeToHTTP (fst e)) (grpcCodeToString (fst e)) (snd e)"

definition protoWorkflowToResponse :: "ProtoWorkflow \<Rightarrow> json" where
  "protoWorkflowToResponse p =
     JObject ([(''workflow_id'', JString (pw_ID p)), (''status'', JString (WorkflowStatus_String (pw_Status p)))] @
       text_field ''document_id'' (pw_DocumentID p))"

text \<open>The context of a request: its user, and what ctx.Err() will answer.\<close>

record service_request = request +
  sr_Err :: "string option"
  sr_CanceledAfter :: bool

definition request_context :: "service_request \<Rightarrow> rpc_context" where
  "request_context r = \<lparr>cx_User = req_User r, cx_Err = sr_Err r, cx_CanceledAfter = sr_CanceledAfter r\<rparr>"

definition decode_CreateWorkflowRequest :: "json option \<Rightarrow> goerr + string" where
  "decode_CreateWorkflowRequest b = (case decode_object b of
     Inl e \<Rightarrow> Inl e | Inr kvs \<Rightarrow> decode_field ''document_id'' set_string kvs [])"

definition handleCreateWorkflow ::
  "('t \<times> 'w) runtime \<Rightarrow> ('t, 'w) WorkflowService \<Rightarrow> service_request \<Rightarrow> 'w \<Rightarrow> response \<times> 'w" where
  "handleCreateWorkflow rt sv r w = (case decode_CreateWorkflowRequest (req_Body r) of
     Inl e \<Rightarrow> (writeError 400 ''INVALID_ARGUMENT'' ''body is not JSON'', w)
   | Inr documentID \<Rightarrow>
       if documentID = [] then (writeError 400 ''INVALID_ARGUMENT'' ''document_id missing'', w)
       else (case CreateWorkflow rt sv (request_context r) documentID w of
         (Inl e, w') \<Rightarrow> (write_status e, w')
       | (Inr p, w') \<Rightarrow>
           (let resp = writeJSON 201 (protoWorkflowToResponse p)
            in (resp\<lparr>resp_Header := (''Location'', ''/api/v1/workflows/'' @ pw_ID p) # resp_Header resp\<rparr>, w'))))"

definition handleGetWorkflow ::
  "('t \<times> 'w) runtime \<Rightarrow> ('t, 'w) WorkflowService \<Rightarrow> service_request \<Rightarrow> 'w \<Rightarrow> response \<times> 'w" where
  "handleGetWorkflow rt sv r w =
     (if uuid_Parse rt (req_PathID r) = None
      then (writeError 400 ''INVALID_ARGUMENT'' (''not a UUID: '' @ req_PathID r), w)
      else case GetWorkflow rt sv (req_PathID r) w of
        (Inl e, w') \<Rightarrow> (write_status e, w')
      | (Inr p, w') \<Rightarrow> (writeJSON 200 (protoWorkflowToResponse p), w'))"

text \<open>strconv.ParseInt(raw, 10, 32), and the default for a missing parameter.\<close>

definition query_int32 :: "string \<Rightarrow> int \<Rightarrow> int option" where
  "query_int32 raw defaultValue =
     (if raw = [] then Some defaultValue
      else case strconv_ParseInt raw of None \<Rightarrow> None
        | Some n \<Rightarrow> if - (2 ^ 31) \<le> n \<and> n < 2 ^ 31 then Some n else None)"

definition handleListWorkflows ::
  "('t \<times> 'w) runtime \<Rightarrow> ('t, 'w) WorkflowService \<Rightarrow> service_request \<Rightarrow> 'w \<Rightarrow> response \<times> 'w" where
  "handleListWorkflows rt sv r w = (case query_int32 (req_Query r ''limit'') 100 of
     None \<Rightarrow> (writeError 400 ''INVALID_ARGUMENT'' (''limit is not an integer: '' @ req_Query r ''limit''), w)
   | Some limit \<Rightarrow> (case query_int32 (req_Query r ''offset'') 0 of
       None \<Rightarrow> (writeError 400 ''INVALID_ARGUMENT'' (''offset is not an integer: '' @ req_Query r ''offset''), w)
     | Some offset \<Rightarrow> (case ListWorkflows rt sv limit offset w of
         (Inl e, w') \<Rightarrow> (write_status e, w')
       | (Inr (ps, n), w') \<Rightarrow> (writeJSON 200 (JObject [(''workflows'', JArray (map protoWorkflowToResponse ps)),
           (''total'', JNumber (strconv_Itoa (sint n)))]), w'))))"

definition handleHealth :: "'w \<Rightarrow> response \<times> 'w" where
  "handleHealth w = (writeJSON 200 (JObject [(''status'', JString ''ok''),
     (''service'', JString ''iroum-ax-control-plane''), (''version'', JString ''0.1.0'')]), w)"

end
