(* ===== verification/Workflow_Service_Properties.thy ===== *)
theory Workflow_Service_Properties
  imports Workflow_Service Workflow_Properties
begin

text \<open>
  What a client of the workflow interface can rely on: the effect of one request (creation, reading,
  listing, and the callback of a worker), first on any store, then on PostgreSQL.
\<close>

datatype workflow_api =
    ApiCreateWorkflow service_request
  | ApiGetWorkflow service_request
  | ApiListWorkflows service_request
  | ApiCallback callback_request

definition workflow_api ::
  "('t \<times> 'w) runtime \<Rightarrow> ('t, 'w) WorkflowService \<Rightarrow> workflow_api \<Rightarrow> 'w \<Rightarrow> response \<times> 'w" where
  "workflow_api rt sv x = (case x of
     ApiCreateWorkflow r \<Rightarrow> handleCreateWorkflow rt sv r
   | ApiGetWorkflow r \<Rightarrow> handleGetWorkflow rt sv r
   | ApiListWorkflows r \<Rightarrow> handleListWorkflows rt sv r
   | ApiCallback r \<Rightarrow> handleCallback rt \<lparr>ch_store = sv_store sv\<rparr> r)"

text \<open>
  The effect of a request on the rows and the log: an error and no change, a read and no change, a
  creation with its event, or the outcome of a callback. \<^verbatim>\<open>text_key\<close> is the key of a printed id,
  \<^verbatim>\<open>logged\<close> the resource id of its event.
\<close>

definition creates_workflow ::
  "(uuid \<Rightarrow> 'k) \<Rightarrow> (uuid \<Rightarrow> uuid) \<Rightarrow> string \<Rightarrow> string \<Rightarrow> 'k rows \<times> audit_event list \<Rightarrow>
   'k rows \<times> audit_event list \<Rightarrow> bool" where
  "creates_workflow id_key logged user doc c c' \<longleftrightarrow> (\<exists>i e.
     fst c' = (fst c)(id_key i \<mapsto> (WorkflowStatePending, None)) \<and> snd c' = snd c @ [e] \<and>
     ev_Action e = ActionWorkflowCreated \<and> ev_ResourceID e = logged i \<and> ev_UserID e = user \<and>
     ev_Details e = Some [''document_id'' \<mapsto> doc])"

definition workflow_api_outcome ::
  "(string \<Rightarrow> uuid option) \<Rightarrow> (uuid \<Rightarrow> 'k) \<Rightarrow> (uuid \<Rightarrow> 'k) \<Rightarrow> (uuid \<Rightarrow> uuid) \<Rightarrow> (string \<Rightarrow> string) \<Rightarrow>
   workflow_api \<Rightarrow> nat \<Rightarrow> 'k rows \<times> audit_event list \<Rightarrow> 'k rows \<times> audit_event list \<Rightarrow> bool" where
  "workflow_api_outcome parse text_key id_key logged as_user x code c c' \<longleftrightarrow>
     400 \<le> code \<and> c' = c \<or>
     code = 200 \<and> c' = c \<and> (\<exists>r. x = ApiGetWorkflow r \<or> x = ApiListWorkflows r) \<or>
     code = 201 \<and> (\<exists>r doc. x = ApiCreateWorkflow r \<and> decode_CreateWorkflowRequest (req_Body r) = Inr doc \<and>
       parse doc \<noteq> None \<and>
       creates_workflow id_key logged (as_user (service_user (request_context r))) doc c c') \<or>
     (\<exists>r u. x = ApiCallback r \<and> parse (req_PathID r) = Some u \<and> callback_outcome (text_key u) u code c c')"

lemma service_codes [simp]:
  "resp_Code (writeJSON a v) = a" "resp_Code (writeError a b m) = a"
  by (simp_all add: writeJSON_def writeError_def)

lemma write_status_code [simp]: "400 \<le> resp_Code (write_status e)"
  by (simp add: write_status_def grpcCodeToHTTP_def split: grpc_code.splits)

locale service_client = store_client st key id_key rows logs active fresh trows tlogs kept rt rec
  for st :: "('t, 'w) WorkflowStore" and key :: "string \<Rightarrow> 'k" and id_key :: "uuid \<Rightarrow> 'k"
    and rows :: "'w \<Rightarrow> 'k rows" and logs :: "'w \<Rightarrow> audit_event list"
    and active :: "'t \<Rightarrow> bool" and fresh :: "'t \<Rightarrow> bool"
    and trows :: "'t \<times> 'w \<Rightarrow> 'k rows" and tlogs :: "'t \<times> 'w \<Rightarrow> audit_event list"
    and kept :: "'t \<times> 'w \<Rightarrow> bytes option \<Rightarrow> bytes option \<Rightarrow> bool"
    and rt :: "('t \<times> 'w) runtime" and rec :: "('t \<times> 'w) Recorder" +
  fixes now :: "'w \<Rightarrow> time \<times> 'w" and new_id :: "'w \<Rightarrow> uuid \<times> 'w"
  assumes now_seen: "rows (snd (now w)) = rows w \<and> logs (snd (now w)) = logs w"
    and new_id_seen: "rows (snd (new_id w)) = rows w \<and> logs (snd (new_id w)) = logs w"
begin

definition service :: "('t, 'w) WorkflowService" where
  "service = \<lparr>sv_store = st, sv_sm = machine, sv_Now = now, sv_NewUUID = new_id\<rparr>"

lemma service_simps [simp]:
  "sv_store service = st" "sv_sm service = machine" "sv_Now service = now" "sv_NewUUID service = new_id"
  by (simp_all add: service_def)

lemma list_seen: "keeps seen (st_ListWorkflows st n m)"
  using list_keeps by (simp add: keeps_def seen_def)

lemma get_workflow_seen: "seen (snd (GetWorkflow rt service i w)) = seen w"
  using keeps_snd [OF tx_seen(6)] begin_seen tx_seen(4)
  by (auto simp: GetWorkflow_def keeps_def split: prod.splits sum.splits) (metis snd_conv)+

lemma create_service:
  assumes "CreateWorkflow rt service c doc w = (res, w')"
  shows "case res of Inl e \<Rightarrow> seen w' = seen w
    | Inr p \<Rightarrow> uuid_Parse rt doc \<noteq> None \<and> creates_workflow id_key (\<lambda>i. parseResourceID rt (uuid_String rt i))
        (Recorder_resolveUserID rec (service_user c)) doc (seen w) (seen w')"
proof (cases "cx_Err c \<noteq> None \<or> doc = [] \<or> uuid_Parse rt doc = None")
  case True
  then show ?thesis using assms by (auto simp: CreateWorkflow_def split: if_splits)
next
  case False
  obtain ts w1 i w2 where n: "now w = (ts, w1)" "new_id w1 = (i, w2)" by (metis prod.exhaust)
  have w2: "seen w2 = seen w" using now_seen [of w] new_id_seen [of w1] n by (simp add: seen_def)
  obtain d where d: "uuid_Parse rt doc = Some d" using False by blast
  let ?x = "\<lparr>wf_CreatedAt = ts, wf_UpdatedAt = ts, wf_ReportID = None, wf_State = WorkflowStatePending,
    wf_ResultJSON = None, wf_ID = i, wf_DocumentID = d\<rparr>"
  obtain q w3 where q: "ExecuteWorkflowCreate rt \<lparr>tc_store = st, tc_recorder = rec\<rparr> ?x doc (service_user c) w2 = (q, w3)"
    by (rule prod.exhaust)
  show ?thesis
  proof (cases q)
    case (Inl e)
    with create_err [OF q [unfolded Inl]] w2 assms False n d q show ?thesis
      by (auto simp: CreateWorkflow_def machine_def seen_def)
  next
    case (Inr v)
    with create_ok [OF q [unfolded Inr]] w2 assms False n d q show ?thesis
      by (auto simp: CreateWorkflow_def machine_def seen_def creates_workflow_def intro!: exI [of _ i])
  qed
qed

lemma workflow_api_effect:
  assumes "workflow_api rt service x w = (resp, w')"
  shows "workflow_api_outcome (uuid_Parse rt) (\<lambda>u. key (uuid_String rt u)) id_key
    (\<lambda>i. parseResourceID rt (uuid_String rt i)) (Recorder_resolveUserID rec) x (resp_Code resp)
    (seen w) (seen w')"
proof (cases x)
  case (ApiCreateWorkflow r)
  then have run: "handleCreateWorkflow rt service r w = (resp, w')" using assms by (simp add: workflow_api_def)
  show ?thesis
  proof (cases "400 \<le> resp_Code resp \<and> w' = w")
    case True
    then show ?thesis by (simp add: workflow_api_outcome_def)
  next
    case False
    obtain doc res where d: "decode_CreateWorkflowRequest (req_Body r) = Inr doc"
      and c: "CreateWorkflow rt service (request_context r) doc w = (res, w')"
      and code: "(\<exists>e. res = Inl e \<and> resp = write_status e) \<or> (\<exists>p. res = Inr p \<and> resp_Code resp = 201)"
      using run False by (auto simp: handleCreateWorkflow_def Let_def split: sum.splits if_splits prod.splits)
    from create_service [OF c] code d show ?thesis
      by (auto simp: ApiCreateWorkflow workflow_api_outcome_def split: sum.splits)
  qed
next
  case (ApiGetWorkflow r)
  then have run: "handleGetWorkflow rt service r w = (resp, w')" using assms by (simp add: workflow_api_def)
  have "seen w' = seen w" "400 \<le> resp_Code resp \<or> resp_Code resp = 200"
    using run get_workflow_seen [of "req_PathID r" w]
    by (auto simp: handleGetWorkflow_def split: if_splits prod.splits sum.splits)
  then show ?thesis by (auto simp: ApiGetWorkflow workflow_api_outcome_def)
next
  case (ApiListWorkflows r)
  then have run: "handleListWorkflows rt service r w = (resp, w')" using assms by (simp add: workflow_api_def)
  have "seen w' = seen w" "400 \<le> resp_Code resp \<or> resp_Code resp = 200"
    using run keeps_snd [OF list_seen]
    by (auto simp: handleListWorkflows_def ListWorkflows_def Let_def split: if_splits prod.splits sum.splits option.splits)
      (metis snd_conv)+
  then show ?thesis by (auto simp: ApiListWorkflows workflow_api_outcome_def)
next
  case (ApiCallback r)
  then have run: "handleCallback rt \<lparr>ch_store = st\<rparr> r w = (resp, w')" using assms by (simp add: workflow_api_def)
  from callback_effect [OF run] show ?thesis
    by (auto simp: ApiCallback workflow_api_outcome_def)
qed

end

section \<open>On PostgreSQL\<close>

definition pg_service :: "(string \<Rightarrow> uuid option) \<Rightarrow> pg_state Recorder \<Rightarrow> (pg_tx, pg_world) WorkflowService" where
  "pg_service parse rec = \<lparr>sv_store = PgWorkflowStore_methods parse, sv_sm = pg_machine parse rec,
     sv_Now = read_clock, sv_NewUUID = read_id\<rparr>"

interpretation pg_sv: service_client "PgWorkflowStore_methods parse" parse Some
  "\<lambda>w. pg_rows (pg_committed w)" "\<lambda>w. pg_logs (pg_committed w)" pg_live pg_live
  "\<lambda>s. pg_rows (ptx_work (fst s))" "\<lambda>s. pg_logs (ptx_work (fst s))" pg_kept
  "pg_runtime parse toString sha1" rec read_clock read_id
  for parse :: "string \<Rightarrow> uuid option" and toString :: "uuid \<Rightarrow> string"
    and sha1 :: "uuid \<Rightarrow> string \<Rightarrow> uuid" and rec :: "pg_state Recorder"
  by unfold_locales (simp_all add: read_clock_def read_id_def)

lemma pg_service_eq: "pg_sv.service parse rec = pg_service parse rec"
  by (simp add: pg_sv.service_def pg_service_def pg_client_machine)

definition pg_view :: "db \<Rightarrow> uuid option rows \<times> audit_event list" where
  "pg_view d = (pg_rows d, pg_logs d)"

lemma pg_workflow_request:
  assumes "uuid_roundtrip parse toString"
    and "workflow_api (pg_runtime parse toString sha1) (pg_service parse rec) x w = (resp, w')"
  shows "workflow_api_outcome parse Some Some (\<lambda>i. i) (Recorder_resolveUserID rec) x (resp_Code resp)
    (pg_view (pg_committed w)) (pg_view (pg_committed w'))"
proof -
  have k: "(\<lambda>u. parse (toString u)) = Some" using assms(1) by (auto simp: uuid_roundtrip_def)
  have l: "(\<lambda>i. parseResourceID (pg_runtime parse toString sha1) (toString i)) = (\<lambda>i. i)"
    using assms(1) by (auto simp: uuid_roundtrip_def parseResourceID_def pg_runtime_def)
  have rt: "uuid_Parse (pg_runtime parse toString sha1) = parse" "uuid_String (pg_runtime parse toString sha1) = toString"
    by (simp_all add: pg_runtime_def)
  from pg_sv.workflow_api_effect [OF assms(2) [folded pg_service_eq]] show ?thesis
    unfolding rt k l by (simp add: pg_client.seen_def pg_view_def)
qed

primrec serve_workflows ::
  "('t \<times> 'w) runtime \<Rightarrow> ('t, 'w) WorkflowService \<Rightarrow> workflow_api list \<Rightarrow> 'w \<Rightarrow> response list \<times> 'w" where
  "serve_workflows rt sv [] w = ([], w)"
| "serve_workflows rt sv (x # xs) w = (case workflow_api rt sv x w of (resp, w1) \<Rightarrow>
     (case serve_workflows rt sv xs w1 of (resps, w2) \<Rightarrow> (resp # resps, w2)))"

definition all_pending :: "db \<Rightarrow> bool" where
  "all_pending d \<longleftrightarrow> (\<forall>u r. row_lookup wr_id (db_workflows d) u = Some r \<longrightarrow> wr_status r = WorkflowStatePending)"

lemma all_pending_view: "all_pending d \<longleftrightarrow> (\<forall>k p b. fst (pg_view d) k = Some (p, b) \<longrightarrow> p = WorkflowStatePending)"
  by (fastforce simp: all_pending_def pg_view_def pg_rows_def split: option.splits)

lemma pending_step:
  assumes "workflow_api_outcome parse text_key id_key logged as_user x code c c'"
    and "\<forall>k p b. fst c k = Some (p, b) \<longrightarrow> p = WorkflowStatePending"
  shows "code \<noteq> 204 \<and> (\<forall>k p b. fst c' k = Some (p, b) \<longrightarrow> p = WorkflowStatePending)"
proof -
  have kept: "code \<noteq> 204 \<and> fst c' = fst c" if "callback_outcome k u code c c'" for k u
  proof -
    have "\<not> moves k u WorkflowStateRunning q c c'" for q
    proof
      assume "moves k u WorkflowStateRunning q c c'"
      then obtain b where "fst c k = Some (WorkflowStateRunning, b)"
        by (cases c; cases c') (auto simp: moves_def)
      with assms(2) show False by (metis workflow_states_distinct(1))
    qed
    then show ?thesis using that by (auto simp: callback_outcome_def)
  qed
  show ?thesis
    using assms(1) kept assms(2)
    by (fastforce simp: workflow_api_outcome_def creates_workflow_def split: if_splits)
qed

text \<open>
  C2: No workflow of the interface ever starts. The server offers creation, reading, listing and the
  callback; nothing in it calls Start, Fail or the dispatcher. From a database whose workflows are all
  PENDING (for instance an empty one), whatever requests are served in whatever order, with any
  faults of the connection: every workflow is PENDING, and no callback is ever answered 204, so no
  worker can ever report a result.
\<close>

theorem workflows_never_start:
  assumes "uuid_roundtrip parse toString" and "all_pending (pg_committed w)"
    and "serve_workflows (pg_runtime parse toString sha1) (pg_service parse rec) xs w = (resps, w')"
  shows "all_pending (pg_committed w') \<and> (\<forall>resp\<in>set resps. resp_Code resp \<noteq> 204)"
  using assms(2,3)
proof (induction xs arbitrary: w resps)
  case (Cons x xs)
  let ?rt = "pg_runtime parse toString sha1" and ?sv = "pg_service parse rec"
  obtain resp w1 where x: "workflow_api ?rt ?sv x w = (resp, w1)" by (rule prod.exhaust)
  obtain rs w2 where xs: "serve_workflows ?rt ?sv xs w1 = (rs, w2)" by (rule prod.exhaust)
  from pending_step [OF pg_workflow_request [OF assms(1) x]] Cons.prems(1)
  have "resp_Code resp \<noteq> 204" "all_pending (pg_committed w1)" by (simp_all add: all_pending_view)
  moreover have "resps = resp # rs" "w' = w2" using Cons.prems(2) x xs by simp_all
  ultimately show ?case using Cons.IH [of w1 rs] xs by auto
qed simp

theorem workflows_never_start_witness:
  "all_pending (pg_committed (snd (serve_workflows (pg_runtime canonical_Parse canonical_String sample_SHA1)
    (pg_service canonical_Parse \<lparr>rec_clock = None, rec_authEnabled = True\<rparr>) [ApiCallback sample_callback]
    (sample_pg (empty_db\<lparr>db_workflows := [sample_row WorkflowStatePending]\<rparr>)))))"
  by (rule workflows_never_start [OF canonical_uuid_roundtrip _ prod.collapse [symmetric], THEN conjunct1])
    (simp add: all_pending_def sample_row_def)

text \<open>
  C24: The contract of one request to the workflow interface. On PostgreSQL, whatever the request, the
  tables and the faults of the connection: an error leaves the rows and the log as they were, and so
  does every read; a creation answered 201 adds one PENDING row and one WORKFLOW_CREATED event of the
  user; a callback answered 204 moved a RUNNING row to its final state and logged that, and one
  answered 409 at most added a CALLBACK_REJECTED event.
\<close>

theorem workflow_request_effect:
  assumes "uuid_roundtrip parse toString"
    and "workflow_api (pg_runtime parse toString sha1) (pg_service parse rec) x w = (resp, w')"
  shows "workflow_api_outcome parse Some Some (\<lambda>i. i) (Recorder_resolveUserID rec) x (resp_Code resp)
    (pg_view (pg_committed w)) (pg_view (pg_committed w'))"
  using assms by (rule pg_workflow_request)

theorem workflow_request_effect_witness:
  "workflow_api_outcome canonical_Parse Some Some (\<lambda>i. i)
     (Recorder_resolveUserID (\<lparr>rec_clock = None, rec_authEnabled = True\<rparr> :: pg_state Recorder)) (ApiCallback sample_callback)
     (resp_Code (fst (workflow_api (pg_runtime canonical_Parse canonical_String sample_SHA1)
        (pg_service canonical_Parse \<lparr>rec_clock = None, rec_authEnabled = True\<rparr>) (ApiCallback sample_callback)
        (sample_pg empty_db))))
     (pg_view empty_db)
     (pg_view (pg_committed (snd (workflow_api (pg_runtime canonical_Parse canonical_String sample_SHA1)
        (pg_service canonical_Parse \<lparr>rec_clock = None, rec_authEnabled = True\<rparr>) (ApiCallback sample_callback)
        (sample_pg empty_db)))))"
  using workflow_request_effect [OF canonical_uuid_roundtrip prod.collapse [symmetric],
      where ?sha1.0 = sample_SHA1 and rec = "\<lparr>rec_clock = None, rec_authEnabled = True\<rparr>" and x = "ApiCallback sample_callback" and w = "sample_pg empty_db"]
  by simp

text \<open>The statements of a callback on a transaction without faults.\<close>

lemma live_get_workflow:
  assumes "live s" "parse i = Some u" "row_lookup wr_id (db_workflows (ptx_work (fst s))) u = Some row"
  shows "\<exists>s'. PgWorkflowTx_GetWorkflow parse i s = (Inr (scan_workflow row), s') \<and> live s' \<and>
    ptx_work (fst s') = ptx_work (fst s)"
  using assms by (cases s) (simp add: PgWorkflowTx_GetWorkflow_def live_def pg_statements)

lemma live_update_workflow:
  assumes "live s" "row_lookup wr_id (db_workflows (ptx_work (fst s))) u = Some row"
    and "\<And>now i. stmt now i (ptx_work (fst s)) = update_workflow u (f now) now i (ptx_work (fst s))"
  shows "\<exists>s' ts. callw (pg_run stmt) g (\<lambda>n. if n = 0 then throw (h n) else retn ()) s = (Inr (), s') \<and> live s' \<and>
    ptx_work (fst s') = (ptx_work (fst s))\<lparr>db_workflows := row_update wr_id u (f ts) (db_workflows (ptx_work (fst s)))\<rparr>"
proof -
  obtain t w where s: "s = (t, w)" by (rule prod.exhaust)
  note stmt = assms(3) [unfolded s fst_conv]
  show ?thesis using assms(1,2) row_present [OF assms(2)]
    by (auto simp: s live_def pg_statements pg_run_def stmt update_workflow_def filter_empty_conv)
qed

lemma live_update_state:
  assumes "live s" "parse i = Some u" "row_lookup wr_id (db_workflows (ptx_work (fst s))) u = Some row"
    and "q \<in> set workflow_status_enum"
  obtains s' ts where "PgWorkflowTx_UpdateWorkflowState parse i q s = (Inr (), s')" "live s'"
    "ptx_work (fst s') = (ptx_work (fst s))\<lparr>db_workflows := row_update wr_id u
       (\<lambda>r. r\<lparr>wr_status := q, wr_updated_at := ts\<rparr>) (db_workflows (ptx_work (fst s)))\<rparr>"
proof -
  have stmt: "\<And>now i. update_status_stmt u q now i (ptx_work (fst s)) =
      update_workflow u (\<lambda>r. r\<lparr>wr_status := q, wr_updated_at := now\<rparr>) now i (ptx_work (fst s))"
    using assms(4) by (simp add: update_status_stmt_def)
  show thesis
    using live_update_workflow [where stmt = "update_status_stmt u q" and f = "\<lambda>now r. r\<lparr>wr_status := q, wr_updated_at := now\<rparr>", OF assms(1,3) stmt,
        of "wrap1 ''UpdateWorkflowState failed''" "\<lambda>n. wrap1 ''UpdateWorkflowState id'' (Sentinel ErrWorkflowNotFound)"]
      assms(2) that by (auto simp: PgWorkflowTx_UpdateWorkflowState_def)
qed

lemma live_update_result:
  assumes "live s" "parse i = Some u" "row_lookup wr_id (db_workflows (ptx_work (fst s))) u = Some row"
    and "jsonb_opt (ptx_work (fst s)) b = Inr kept"
  obtains s' ts where "PgWorkflowTx_UpdateWorkflowResult parse i b s = (Inr (), s')" "live s'"
    "ptx_work (fst s') = (ptx_work (fst s))\<lparr>db_workflows := row_update wr_id u
       (\<lambda>r. r\<lparr>wr_result_json := kept, wr_updated_at := ts\<rparr>) (db_workflows (ptx_work (fst s)))\<rparr>"
proof -
  have stmt: "\<And>now i. update_result_stmt u b now i (ptx_work (fst s)) =
      update_workflow u (\<lambda>r. r\<lparr>wr_result_json := kept, wr_updated_at := now\<rparr>) now i (ptx_work (fst s))"
    by (simp add: update_result_stmt_def assms(4))
  show thesis
    using live_update_workflow [where stmt = "update_result_stmt u b" and f = "\<lambda>now r. r\<lparr>wr_result_json := kept, wr_updated_at := now\<rparr>", OF assms(1,3) stmt,
        of "wrap1 ''UpdateWorkflowResult failed''" "\<lambda>n. wrap1 ''UpdateWorkflowResult id'' (Sentinel ErrWorkflowNotFound)"]
      assms(2) that by (auto simp: PgWorkflowTx_UpdateWorkflowResult_def)
qed

lemma live_result_refused:
  assumes "live s" "parse i = Some u" "jsonb_opt (ptx_work (fst s)) b = Inl e"
  shows "\<exists>e' s'. PgWorkflowTx_UpdateWorkflowResult parse i b s = (Inl e', s')"
proof -
  obtain t w where s: "s = (t, w)" by (rule prod.exhaust)
  note refused = assms(3) [unfolded s fst_conv]
  show ?thesis using assms(1,2)
    by (simp add: s PgWorkflowTx_UpdateWorkflowResult_def live_def pg_statements update_result_stmt_def refused)
qed

lemma live_workflow_event:
  assumes "live s" "length a \<le> 64" "text_ok a"
  shows "\<exists>s'. insert_event (time_Now (pg_runtime parse toString sha1)) PgWorkflowTx_InsertAuditLog a ''workflow'' u
      DefaultUserID None s = (Inr (), s') \<and> no_faults (snd s') \<and> \<not> ptx_aborted (fst s') \<and> \<not> ptx_closed (fst s') \<and>
    adds_event a ''workflow'' u DefaultUserID None (ptx_work (fst s)) (ptx_work (fst s'))"
proof -
  obtain s' where e: "insert_event (time_Now (pg_runtime parse toString sha1)) PgWorkflowTx_InsertAuditLog a ''workflow'' u
      DefaultUserID None s = (Inr (), s')" "no_faults (snd s')" "\<not> ptx_aborted (fst s')" "\<not> ptx_closed (fst s')"
    using assms by (cases s) (auto simp: live_def pg_statements PgWorkflowTx_InsertAuditLog_def pg_now_step varchar_def pg_runtime_def insert_audit_stmt_def)
  from pg_event_ok(1) [OF this(1) [unfolded PgWorkflowTx_InsertAuditLog_def]] e show ?thesis by blast
qed

lemma finish_stage_run:
  assumes "tx_UpdateWorkflowState tx (uuid_String rt u)
      (if status = callbackStatusCompleted then WorkflowStateCompleted else WorkflowStateFailed) s1 = (Inr (), s2)"
    and "tx_UpdateWorkflowResult tx (uuid_String rt u) (Some b) s2 = (Inr (), s3)"
    and "insert_event (time_Now rt) (tx_InsertAuditLog tx)
      (if status = callbackStatusCompleted then ActionWorkflowCompleted else ActionWorkflowFailedCallback)
      ''workflow'' u DefaultUserID None s3 = (Inr (), s4)"
    and "tx_Commit tx s4 = (Inr (), s5)"
  shows "finish_stage rt tx u status b s1 = ((True, callback_done), s5)"
  by (simp only: finish_stage_def Let_def attempt_def answer_def assms prod.case sum.case)

lemma callback_stage_run:
  assumes "tx_GetWorkflow tx (uuid_String rt u) s = (Inr x, s1)" and "wf_State x = WorkflowStateRunning"
    and "finish_stage rt tx u status b s1 = r"
  shows "callback_stage rt tx u status b s = r"
  by (simp add: callback_stage_def attempt_def assms)

lemma callback_kept:
  assumes "uuid_roundtrip parse toString" and "no_faults w" and "fresh_ids w"
    and "parse (req_PathID r) = Some u"
    and "decode_callbackRequest (req_Body r) = Inr (status, has_result)"
    and "status = callbackStatusCompleted \<and> q = WorkflowStateCompleted \<or>
         status = callbackStatusFailed \<and> q = WorkflowStateFailed"
    and "row_lookup wr_id (db_workflows (pg_committed w)) u = Some row"
    and "wr_status row = WorkflowStateRunning"
    and "handleCallback (pg_runtime parse toString sha1) \<lparr>ch_store = PgWorkflowStore_methods parse\<rparr> r w = (resp, w')"
    and kept: "db_jsonb (pg_committed w) (if has_result \<and> cr_ResultText r \<noteq> [] then cr_ResultText r else [123, 125]) = Inr kept"
  shows "resp_Code resp = 204 \<and>
    pg_rows (pg_committed w') = (pg_rows (pg_committed w))(Some u \<mapsto> (q, Some kept)) \<and>
    (\<exists>e. pg_logs (pg_committed w') = pg_logs (pg_committed w) @ [e] \<and> ev_ResourceID e = u \<and>
       ev_UserID e = DefaultUserID \<and> ev_Action e = transition_action WorkflowStateRunning q)"
proof -
  let ?d = "pg_committed w"
  let ?b = "if has_result \<and> cr_ResultText r \<noteq> [] then cr_ResultText r else [123, 125]"
  have k: "parse (toString u) = Some u" using assms(1) by (simp add: uuid_roundtrip_def)
  have s: "callbackStatusCompleted \<noteq> callbackStatusFailed" by (simp add: callbackStatusCompleted_def callbackStatusFailed_def)
  have run: "handleCallback (pg_runtime parse toString sha1) \<lparr>ch_store = PgWorkflowStore_methods parse\<rparr> r w =
      with_defer PgWorkflowStore_BeginTx (\<lambda>e. writeCallbackErr 500 ''INTERNAL'' ''begin failed'')
        PgWorkflowTx_Rollback (callback_stage (pg_runtime parse toString sha1) (PgWorkflowTx_methods parse) u status ?b) w"
    using assms(4,5,6) by (auto simp: handleCallback_def pg_runtime_def PgWorkflowStore_methods_def Let_def)
  obtain t w1 where b: "PgWorkflowStore_BeginTx w = (Inr t, w1)" "live (t, w1)" "ptx_work t = ?d"
    using live_begin [OF assms(2)] assms(3) unfolding fresh_ids_def PgWorkflowStore_BeginTx_def by blast
  obtain s1 where g: "PgWorkflowTx_GetWorkflow parse (toString u) (t, w1) = (Inr (scan_workflow row), s1)"
    "live s1" "ptx_work (fst s1) = ?d"
    using live_get_workflow [of "(t, w1)" parse "toString u" u row] k b(2,3) assms(7) by auto
  have row1: "row_lookup wr_id (db_workflows (ptx_work (fst s1))) u = Some row" using assms(7) g(3) by simp
  have "q \<in> set workflow_status_enum" using assms(6) by auto
  then obtain s2 ts where u1: "PgWorkflowTx_UpdateWorkflowState parse (toString u) q s1 = (Inr (), s2)" "live s2"
    "ptx_work (fst s2) = ?d\<lparr>db_workflows := row_update wr_id u (\<lambda>r. r\<lparr>wr_status := q, wr_updated_at := ts\<rparr>) (db_workflows ?d)\<rparr>"
    using live_update_state [of s1 parse "toString u" u row q, OF g(2) k row1] g(3) by metis
  have row2: "row_lookup wr_id (db_workflows (ptx_work (fst s2))) u = Some (row\<lparr>wr_status := q, wr_updated_at := ts\<rparr>)"
    using assms(7) by (simp add: u1(3))
  obtain s3 ts' where u2: "PgWorkflowTx_UpdateWorkflowResult parse (toString u) (Some ?b) s2 = (Inr (), s3)" "live s3"
    "ptx_work (fst s3) = (ptx_work (fst s2))\<lparr>db_workflows := row_update wr_id u
       (\<lambda>r. r\<lparr>wr_result_json := Some kept, wr_updated_at := ts'\<rparr>) (db_workflows (ptx_work (fst s2)))\<rparr>"
    using live_update_result [of s2 parse "toString u" u _ "Some ?b" "Some kept", OF u1(2) k row2] kept
    by (auto simp: jsonb_opt_def u1(3))
  let ?a = "if status = callbackStatusCompleted then ActionWorkflowCompleted else ActionWorkflowFailedCallback"
  have a: "length ?a \<le> 64" "text_ok ?a" by simp_all
  obtain s4 where e: "insert_event (time_Now (pg_runtime parse toString sha1)) PgWorkflowTx_InsertAuditLog ?a ''workflow'' u
      DefaultUserID None s3 = (Inr (), s4)" "no_faults (snd s4)" "\<not> ptx_aborted (fst s4)" "\<not> ptx_closed (fst s4)"
    and ad: "adds_event ?a ''workflow'' u DefaultUserID None (ptx_work (fst s3)) (ptx_work (fst s4))"
    using live_workflow_event [OF u2(2) a, of parse toString sha1 u] by blast
  obtain s5 where c: "PgWorkflowTx_Commit s4 = (Inr (), s5)" "pg_committed (snd s5) = ptx_work (fst s4)"
    using live_commit [OF e(2-4)] unfolding PgWorkflowTx_Commit_def by blast
  have q: "q = (if status = callbackStatusCompleted then WorkflowStateCompleted else WorkflowStateFailed)"
    using assms(6) s by auto
  have str: "uuid_String (pg_runtime parse toString sha1) = toString" by (simp add: pg_runtime_def)
  have fin: "finish_stage (pg_runtime parse toString sha1) (PgWorkflowTx_methods parse) u status ?b s1 =
      ((True, callback_done), s5)"
    by (rule finish_stage_run) (unfold str pg_methods_simps q [symmetric], rule u1(1), rule u2(1), rule e(1), rule c(1))
  have "callback_stage (pg_runtime parse toString sha1) (PgWorkflowTx_methods parse) u status ?b (t, w1) =
      ((True, callback_done), s5)"
    by (rule callback_stage_run [OF _ _ fin], unfold str pg_methods_simps, rule g(1))
      (simp add: scan_workflow_def assms(8))
  with assms(9) b(1) have "resp = callback_done" "w' = snd (snd (PgWorkflowTx_Rollback s5))"
    unfolding run by (simp_all add: with_defer_def)
  moreover have "pg_committed (snd (snd (PgWorkflowTx_Rollback s5))) = ptx_work (fst s4)"
    using keeps_snd [OF PgWorkflowTx_Rollback_keeps, of s5] c by (simp add: published_def)
  moreover have "pg_rows (ptx_work (fst s4)) = (pg_rows ?d)(Some u \<mapsto> (q, Some kept))"
  proof -
    have 2: "pg_rows (ptx_work (fst s2)) = (pg_rows ?d)(Some u \<mapsto> (q, wr_result_json row))"
      unfolding u1(3) by (rule pg_rows_update [where p = WorkflowStateRunning and b = "wr_result_json row"])
        (simp_all add: pg_rows_def assms(7,8))
    have 3: "pg_rows (ptx_work (fst s3)) = (pg_rows (ptx_work (fst s2)))(Some u \<mapsto> (q, Some kept))"
      unfolding u2(3) by (rule pg_rows_update [where p = q and b = "wr_result_json row"]) (simp_all add: 2)
    have "pg_rows (ptx_work (fst s4)) = pg_rows (ptx_work (fst s3))" using ad by (auto simp only: adds_event_def pg_rows_simps)
    then show ?thesis by (simp only: 3 2 fun_upd_upd)
  qed
  moreover have "\<exists>e. pg_logs (ptx_work (fst s4)) = pg_logs ?d @ [e] \<and> ev_ResourceID e = u \<and>
      ev_UserID e = DefaultUserID \<and> ev_Action e = transition_action WorkflowStateRunning q"
    using adds_event_logs [OF ad] unfolding u2(3) u1(3) q
    by (cases "status = callbackStatusCompleted") (simp_all add: transition_action_def, blast+)
  ultimately show ?thesis by simp
qed

lemma callback_refused:
  assumes "uuid_roundtrip parse toString" and "no_faults w" and "fresh_ids w"
    and "parse (req_PathID r) = Some u"
    and "decode_callbackRequest (req_Body r) = Inr (status, has_result)"
    and "status = callbackStatusCompleted \<and> q = WorkflowStateCompleted \<or>
         status = callbackStatusFailed \<and> q = WorkflowStateFailed"
    and "row_lookup wr_id (db_workflows (pg_committed w)) u = Some row"
    and "wr_status row = WorkflowStateRunning"
    and "handleCallback (pg_runtime parse toString sha1) \<lparr>ch_store = PgWorkflowStore_methods parse\<rparr> r w = (resp, w')"
    and refused: "db_jsonb (pg_committed w) (if has_result \<and> cr_ResultText r \<noteq> [] then cr_ResultText r else [123, 125]) = Inl e"
  shows "resp_Code resp = 500 \<and> pg_committed w' = pg_committed w"
proof -
  let ?d = "pg_committed w"
  let ?b = "if has_result \<and> cr_ResultText r \<noteq> [] then cr_ResultText r else [123, 125]"
  have k: "parse (toString u) = Some u" using assms(1) by (simp add: uuid_roundtrip_def)
  have s: "callbackStatusCompleted \<noteq> callbackStatusFailed" by (simp add: callbackStatusCompleted_def callbackStatusFailed_def)
  have run: "handleCallback (pg_runtime parse toString sha1) \<lparr>ch_store = PgWorkflowStore_methods parse\<rparr> r w =
      with_defer PgWorkflowStore_BeginTx (\<lambda>e. writeCallbackErr 500 ''INTERNAL'' ''begin failed'')
        PgWorkflowTx_Rollback (callback_stage (pg_runtime parse toString sha1) (PgWorkflowTx_methods parse) u status ?b) w"
    using assms(4,5,6) by (auto simp: handleCallback_def pg_runtime_def PgWorkflowStore_methods_def Let_def)
  obtain t w1 where b: "PgWorkflowStore_BeginTx w = (Inr t, w1)" "live (t, w1)" "ptx_work t = ?d"
    using live_begin [OF assms(2)] assms(3) unfolding fresh_ids_def PgWorkflowStore_BeginTx_def by blast
  obtain s1 where g: "PgWorkflowTx_GetWorkflow parse (toString u) (t, w1) = (Inr (scan_workflow row), s1)"
    "live s1" "ptx_work (fst s1) = ?d"
    using live_get_workflow [of "(t, w1)" parse "toString u" u row] k b(2,3) assms(7) by auto
  have row1: "row_lookup wr_id (db_workflows (ptx_work (fst s1))) u = Some row" using assms(7) g(3) by simp
  have "q \<in> set workflow_status_enum" using assms(6) by auto
  then obtain s2 ts where u1: "PgWorkflowTx_UpdateWorkflowState parse (toString u) q s1 = (Inr (), s2)" "live s2"
    "ptx_work (fst s2) = ?d\<lparr>db_workflows := row_update wr_id u (\<lambda>r. r\<lparr>wr_status := q, wr_updated_at := ts\<rparr>) (db_workflows ?d)\<rparr>"
    using live_update_state [of s1 parse "toString u" u row q, OF g(2) k row1] g(3) by metis
  have "jsonb_opt (ptx_work (fst s2)) (Some ?b) = Inl e" using refused by (simp add: u1(3) jsonb_opt_def)
  then obtain e' s3 where u2: "PgWorkflowTx_UpdateWorkflowResult parse (toString u) (Some ?b) s2 = (Inl e', s3)"
    using live_result_refused [where s = s2 and i = "toString u" and parse = parse] u1(2) k by blast
  have q: "q = (if status = callbackStatusCompleted then WorkflowStateCompleted else WorkflowStateFailed)"
    using assms(6) s by auto
  have str: "uuid_String (pg_runtime parse toString sha1) = toString" by (simp add: pg_runtime_def)
  have fin: "finish_stage (pg_runtime parse toString sha1) (PgWorkflowTx_methods parse) u status ?b s1 =
      ((False, writeCallbackErr 500 ''INTERNAL'' ''result not stored''), s3)"
    using u1(1) u2 unfolding q
    by (simp only: finish_stage_def Let_def attempt_def refuse_def str pg_methods_simps prod.case sum.case)
  have "callback_stage (pg_runtime parse toString sha1) (PgWorkflowTx_methods parse) u status ?b (t, w1) =
      ((False, writeCallbackErr 500 ''INTERNAL'' ''result not stored''), s3)"
    by (rule callback_stage_run [OF _ _ fin], unfold str pg_methods_simps, rule g(1))
      (simp add: scan_workflow_def assms(8))
  with assms(9) b(1) have fin: "resp = writeCallbackErr 500 ''INTERNAL'' ''result not stored''"
      "w' = snd (snd (PgWorkflowTx_Rollback s3))"
    unfolding run by (simp_all add: with_defer_def)
  have "resp_Code resp = 500" unfolding fin(1) by simp
  moreover have "pg_committed (snd s3) = pg_committed w"
    using keepsD [OF PgWorkflowTx_keeps(5) u2] keepsD [OF PgWorkflowTx_keeps(3) u1(1)] keepsD [OF PgWorkflowTx_keeps(4) g(1)]
      keepsD [OF PgWorkflowStore_BeginTx_keeps b(1)] by (simp add: published_def)
  ultimately show ?thesis unfolding fin(2)
    using keeps_snd [OF PgWorkflowTx_Rollback_keeps, of s3] by (simp add: published_def)
qed

text \<open>
  C5: A callback works. Without faults of the connection, with generated ids not in use in the log, a
  report completed or failed about a RUNNING workflow, whose result (the text of result_json as it
  stands in the body, or {} when there is none) is one that the JSONB column takes, is answered 204:
  the row is COMPLETED or FAILED and holds what JSONB keeps of that text, no other row changed, and the
  log has one more event, of cli-anonymous, with the action of that transition. A text that JSONB
  refuses is answered 500 and changes nothing.
\<close>

theorem callback_completes:
  assumes "uuid_roundtrip parse toString" and "no_faults w" and "fresh_ids w"
    and "parse (req_PathID r) = Some u"
    and "decode_callbackRequest (req_Body r) = Inr (status, has_result)"
    and "status = callbackStatusCompleted \<and> q = WorkflowStateCompleted \<or>
         status = callbackStatusFailed \<and> q = WorkflowStateFailed"
    and "row_lookup wr_id (db_workflows (pg_committed w)) u = Some row"
    and "wr_status row = WorkflowStateRunning"
    and "handleCallback (pg_runtime parse toString sha1) \<lparr>ch_store = PgWorkflowStore_methods parse\<rparr> r w = (resp, w')"
  shows "case db_jsonb (pg_committed w) (if has_result \<and> cr_ResultText r \<noteq> [] then cr_ResultText r else [123, 125]) of
      Inl e \<Rightarrow> resp_Code resp = 500 \<and> pg_committed w' = pg_committed w
    | Inr kept \<Rightarrow> resp_Code resp = 204 \<and>
        pg_rows (pg_committed w') = (pg_rows (pg_committed w))(Some u \<mapsto> (q, Some kept)) \<and>
        (\<exists>e. pg_logs (pg_committed w') = pg_logs (pg_committed w) @ [e] \<and> ev_ResourceID e = u \<and>
           ev_UserID e = DefaultUserID \<and> ev_Action e = transition_action WorkflowStateRunning q)"
  using callback_kept [OF assms] callback_refused [OF assms] by (simp only: split: sum.split) blast

theorem callback_completes_witness:
  "pg_rows (pg_committed (snd (handleCallback (pg_runtime canonical_Parse canonical_String sample_SHA1)
     \<lparr>ch_store = PgWorkflowStore_methods canonical_Parse\<rparr> sample_callback
     (sample_pg (empty_db\<lparr>db_workflows := [sample_row WorkflowStateRunning]\<rparr>))))) (Some 7) =
     Some (WorkflowStateCompleted, Some [123, 125])"
proof -
  let ?w = "sample_pg (empty_db\<lparr>db_workflows := [sample_row WorkflowStateRunning]\<rparr>)"
  have "no_faults ?w" "fresh_ids ?w" by (simp_all add: fresh_ids_def empty_db_def)
  moreover have "canonical_Parse (req_PathID sample_callback) = Some 7"
    by (simp add: sample_callback_def request.defs canonical_roundtrip)
  moreover have "decode_callbackRequest (req_Body sample_callback) = Inr (callbackStatusCompleted, False)"
    by (simp add: sample_callback_def request.defs decode_callbackRequest_def callbackStatusCompleted_def
        decode_object_def both_def set_string_def plain_request_def to_lower_def)
  ultimately show ?thesis
    using callback_completes [OF canonical_uuid_roundtrip, of ?w sample_callback 7 callbackStatusCompleted False
        WorkflowStateCompleted "sample_row WorkflowStateRunning" _ _ "snd _", OF _ _ _ _ _ _ _ prod.collapse [symmetric]]
    by (simp add: sample_row_def empty_db_def)
qed

end
