(* ===== verification/Rubric_Handlers.thy ===== *)
theory Rubric_Handlers
  imports Handler_Frame Rubric_Store Eval_Item_Store Score_Store Rbac Numbers
begin

text \<open>
  cmd/server/rubric_handlers.go: the REST interface of the grade rubrics. A handler owns three
  stores, given by their Begin methods and the methods of their transactions that it calls;
  \<^verbatim>\<open>uh_Float64Value\<close> is Float64Value of pgtype.Numeric, whose second result is None when the value is
  not valid. Log lines are not modelled, and a JSON object is read up to the order of its keys.
\<close>

record ('t, 'u, 'v, 'w) RubricHandler =
  uh_Begin :: "('w, 't) eff"
  uh_Tx :: "('t \<times> 'w) RubricTx"
  uh_ItemBegin :: "('w, 'u) eff"
  uh_ItemTx :: "('u \<times> 'w) EvalItemTx"
  uh_ScoreBegin :: "('w, 'v) eff"
  uh_GetScoreByID :: "uuid \<Rightarrow> ('v \<times> 'w, Score) eff"
  uh_SumWeighted :: "string \<Rightarrow> ('v \<times> 'w, numeric) eff"
  uh_ScoreRollback :: "('v \<times> 'w, unit) eff"
  uh_Float64Value :: "numeric \<Rightarrow> goerr + float64 option"

definition maxRubricListLimit :: "64 word" where
  "maxRubricListLimit = 500"

definition defaultRubricListLimit :: "64 word" where
  "defaultRubricListLimit = 50"

definition sqlstateUniqueViolation :: string where
  "sqlstateUniqueViolation = ''23505''"

definition sqlstateExclusionViolation :: string where
  "sqlstateExclusionViolation = ''23P01''"

section \<open>Answers\<close>

definition writeRubricJSON :: "nat \<Rightarrow> json \<Rightarrow> response" where
  "writeRubricJSON code v =
     \<lparr>resp_Code = code, resp_Header = [(''Content-Type'', ''application/json'')], resp_Body = v\<rparr>"

definition writeRubricErr :: "nat \<Rightarrow> string \<Rightarrow> string \<Rightarrow> string \<Rightarrow> response" where
  "writeRubricErr code errCode msg field =
     writeRubricJSON code (JObject [(''error'',
       JObject ([(''code'', JString errCode), (''message'', JString msg)] @ text_field ''field'' field))])"

definition mapRubricStoreErr :: "goerr \<Rightarrow> nat \<times> string \<times> string" where
  "mapRubricStoreErr e =
     (if errors_As_Pg e = Some sqlstateUniqueViolation then (409, ''CONFLICT'', ''an active rubric of this name and scope exists'')
      else if errors_As_Pg e = Some sqlstateExclusionViolation then (400, ''INVALID_ARGUMENT'', ''bands overlap'')
      else if errors_Is e ErrRubricNotFound then (404, ''NOT_FOUND'', ''rubric not found'')
      else if errors_Is e ErrEvalItemNotFound then (404, ''NOT_FOUND'', ''evaluation item not found'')
      else if errors_Is e ErrScoreNotFound then (404, ''NOT_FOUND'', ''score not found'')
      else if errors_Is e ErrRubricInvalidInput \<or> errors_Is e ErrRubricWeightOutOfBounds
      then (400, ''INVALID_ARGUMENT'', ''invalid rubric input'')
      else if errors_Is e ErrRubricBandOverlap then (400, ''INVALID_ARGUMENT'', ''bands overlap'')
      else if errors_Is e ErrRubricInvalidStatus then (409, ''CONFLICT'', ''status transition not allowed'')
      else if errors_Is e ErrRubricArchived then (409, ''CONFLICT'', ''rubric is archived'')
      else if errors_Is e ErrRubricAuditWriteFailed then (500, ''INTERNAL'', ''rubric failed'')
      else (500, ''INTERNAL'', ''rubric failed''))"

definition writeRubricStoreErr :: "goerr \<Rightarrow> response" where
  "writeRubricStoreErr e = (case mapRubricStoreErr e of (code, errCode, msg) \<Rightarrow> writeRubricErr code errCode msg [])"

definition clampRubricPagination :: "string \<Rightarrow> string \<Rightarrow> 64 word \<times> 64 word" where
  "clampRubricPagination rawLimit rawOffset =
     (let v = parseIntDefault rawLimit 0;
          limit0 = (if 0 <s v then v else defaultRubricListLimit);
          limit = (if maxRubricListLimit <s limit0 then maxRubricListLimit else limit0);
          o1 = parseIntDefault rawOffset 0
      in (limit, if 0 <s o1 then o1 else 0))"

definition requireRubricAdminRole :: "string \<Rightarrow> bool" where
  "requireRubricAdminRole scope = any_role (\<lambda>r. r = RoleAdmin) (ParseRolesFromScope scope)"

definition guardRubricAdmin :: "request \<Rightarrow> response option" where
  "guardRubricAdmin r = (case UserFromContext r of
     None \<Rightarrow> None
   | Some u \<Rightarrow> if requireRubricAdminRole (join_space (usr_Scopes u)) then None
       else Some (writeRubricErr 403 ''ABAC_CONDITION_DENIED'' ''no administrator'' []))"

definition bad_rubric :: "string \<Rightarrow> string \<Rightarrow> response" where
  "bad_rubric msg field = writeRubricErr 400 ''INVALID_ARGUMENT'' msg field"

definition rubric_internal :: "string \<Rightarrow> goerr \<Rightarrow> response" where
  "rubric_internal msg e = writeRubricErr 500 ''INTERNAL'' msg []"

section \<open>Bodies\<close>

record rubricCreateBody =
  ucb_Metadata :: metadata
  ucb_Name :: string
  ucb_Scope :: string

record rubricUpdateBody =
  uub_Metadata :: metadata
  uub_Name :: string
  uub_Scope :: string
  uub_Status :: string

record rubricCriterionBody =
  urb_EvaluationItemID :: string
  urb_Weight :: float64

record rubricBandBody =
  ubb_Letter :: string
  ubb_MinScore :: float64
  ubb_MaxScore :: float64

definition decode_rubricCreateBody :: "json option \<Rightarrow> goerr + rubricCreateBody" where
  "decode_rubricCreateBody b = (case decode_object b of
     Inl e \<Rightarrow> Inl e
   | Inr kvs \<Rightarrow>
       (case both (decode_field ''metadata'' set_map kvs [])
          (both (decode_field ''name'' set_string kvs []) (decode_field ''scope'' set_string kvs [])) of
          Inl e \<Rightarrow> Inl e
        | Inr (md, nm, sc) \<Rightarrow> Inr \<lparr>ucb_Metadata = md, ucb_Name = nm, ucb_Scope = sc\<rparr>))"

definition decode_rubricUpdateBody :: "json option \<Rightarrow> goerr + rubricUpdateBody" where
  "decode_rubricUpdateBody b = (case decode_object b of
     Inl e \<Rightarrow> Inl e
   | Inr kvs \<Rightarrow>
       (case both (both (decode_field ''metadata'' set_map kvs []) (decode_field ''name'' set_string kvs []))
          (both (decode_field ''scope'' set_string kvs []) (decode_field ''status'' set_string kvs [])) of
          Inl e \<Rightarrow> Inl e
        | Inr ((md, nm), sc, q) \<Rightarrow> Inr \<lparr>uub_Metadata = md, uub_Name = nm, uub_Scope = sc, uub_Status = q\<rparr>))"

definition decode_rubricArchiveBody :: "json option \<Rightarrow> goerr + string" where
  "decode_rubricArchiveBody b = (case decode_object b of
     Inl e \<Rightarrow> Inl e | Inr kvs \<Rightarrow> decode_field ''archive_reason'' set_string kvs [])"

definition decode_rubricCriterionBody :: "json option \<Rightarrow> goerr + rubricCriterionBody" where
  "decode_rubricCriterionBody b = (case decode_object b of
     Inl e \<Rightarrow> Inl e
   | Inr kvs \<Rightarrow>
       (case both (decode_field ''evaluation_item_id'' set_string kvs [])
          (decode_field ''weight'' (set_value json_float64) kvs (Fin 0)) of
          Inl e \<Rightarrow> Inl e
        | Inr (i, x) \<Rightarrow> Inr \<lparr>urb_EvaluationItemID = i, urb_Weight = x\<rparr>))"

definition decode_rubricBandBody :: "json option \<Rightarrow> goerr + rubricBandBody" where
  "decode_rubricBandBody b = (case decode_object b of
     Inl e \<Rightarrow> Inl e
   | Inr kvs \<Rightarrow>
       (case both (decode_field ''letter'' set_string kvs [])
          (both (decode_field ''min_score'' (set_value json_float64) kvs (Fin 0))
            (decode_field ''max_score'' (set_value json_float64) kvs (Fin 0))) of
          Inl e \<Rightarrow> Inl e
        | Inr (l, x, y) \<Rightarrow> Inr \<lparr>ubb_Letter = l, ubb_MinScore = x, ubb_MaxScore = y\<rparr>))"

definition decode_rubricApplyBody :: "json option \<Rightarrow> goerr + string" where
  "decode_rubricApplyBody b = (case decode_object b of
     Inl e \<Rightarrow> Inl e | Inr kvs \<Rightarrow> decode_field ''score_id'' set_string kvs [])"

text \<open>The answer to a read has, beside the rubric, the criteria and bands that are not empty.\<close>

definition toCriterionJSON :: "'x runtime \<Rightarrow> RubricCriterion \<Rightarrow> json" where
  "toCriterionJSON rt c = JObject
     [(''id'', JString (uuid_String rt (rcr_ID c))), (''rubric_id'', JString (uuid_String rt (rcr_RubricID c))),
      (''evaluation_item_id'', JString (uuid_String rt (rcr_EvaluationItemID c))),
      (''created_at'', JString (Format_RFC3339 (rcr_CreatedAt c))), (''weight'', float_json (rcr_Weight c))]"

definition toBandJSON :: "'x runtime \<Rightarrow> RubricBand \<Rightarrow> json" where
  "toBandJSON rt b = JObject
     [(''id'', JString (uuid_String rt (rbd_ID b))), (''rubric_id'', JString (uuid_String rt (rbd_RubricID b))),
      (''letter'', JString (rbd_Letter b)), (''created_at'', JString (Format_RFC3339 (rbd_CreatedAt b))),
      (''min_score'', float_json (rbd_MinScore b)), (''max_score'', float_json (rbd_MaxScore b))]"

definition list_field :: "string \<Rightarrow> json list \<Rightarrow> (string \<times> json) list" where
  "list_field name vs = (if vs = [] then [] else [(name, JArray vs)])"

definition toRubricResponse ::
  "'x runtime \<Rightarrow> Rubric \<Rightarrow> RubricCriterion list \<Rightarrow> RubricBand list \<Rightarrow> json" where
  "toRubricResponse rt r criteria bands = JObject (
     map_field ''metadata'' (rub_Metadata r) @
     [(''id'', JString (uuid_String rt (rub_ID r))), (''name'', JString (rub_Name r))] @
     text_field ''scope'' (rub_Scope r) @ [(''status'', JString (rub_Status r))] @
     text_field ''archive_reason'' (rub_ArchiveReason r) @
     [(''created_at'', JString (Format_RFC3339 (rub_CreatedAt r))), (''created_by'', JString (rub_CreatedBy r)),
      (''updated_at'', JString (Format_RFC3339 (rub_UpdatedAt r)))] @
     text_field ''updated_by'' (rub_UpdatedBy r) @
     list_field ''criteria'' (map (toCriterionJSON rt) criteria) @
     list_field ''bands'' (map (toBandJSON rt) bands) @
     [(''version'', JNumber (strconv_Itoa (rub_Version r)))])"

definition parseRubricID :: "'x runtime \<Rightarrow> request \<Rightarrow> response + uuid" where
  "parseRubricID rt r = (case uuid_Parse rt (req_PathID r) of
     None \<Rightarrow> Inl (bad_rubric ''malformed rubric id'' ''id'') | Some i \<Rightarrow> Inr i)"

text \<open>A UUID in a body: trimmed, parsed and not the nil UUID.\<close>

definition body_uuid :: "'x runtime \<Rightarrow> string \<Rightarrow> uuid option" where
  "body_uuid rt s = (case uuid_Parse rt (TrimSpace s) of None \<Rightarrow> None | Some i \<Rightarrow> if i = uuid_Nil then None else Some i)"

section \<open>What the handlers do inside their transactions\<close>

definition created_rubric :: "'x runtime \<Rightarrow> uuid \<Rightarrow> string \<Rightarrow> string \<Rightarrow> string \<Rightarrow> (string \<times> json) list \<Rightarrow> response" where
  "created_rubric rt newID name scope actor source = writeRubricJSON 201 (JObject (
     [(''created_by'', JString actor), (''id'', JString (uuid_String rt newID)), (''name'', JString name),
      (''scope'', JString scope)] @ source @
     [(''status'', JString ''draft''), (''updated_by'', JString actor), (''version'', JNumber ''1'')]))"

definition create_rubric_stage ::
  "'x runtime \<Rightarrow> ('t, 'u, 'v, 'w) RubricHandler \<Rightarrow> rubricCreateBody \<Rightarrow> string \<Rightarrow> ('t \<times> 'w) stage" where
  "create_rubric_stage rt h body actor =
     attempt (btx_InsertRubric (uh_Tx h) (ucb_Name body) (ucb_Scope body) (ucb_Metadata body) actor)
       writeRubricStoreErr (\<lambda>newID.
     attempt (btx_Commit (uh_Tx h)) (rubric_internal ''rubric not stored'') (\<lambda>_.
     answer (created_rubric rt newID (ucb_Name body) (ucb_Scope body) actor [])))"

definition get_rubric_stage ::
  "'x runtime \<Rightarrow> ('t, 'u, 'v, 'w) RubricHandler \<Rightarrow> uuid \<Rightarrow> ('t \<times> 'w) stage" where
  "get_rubric_stage rt h i =
     attempt (btx_GetRubricByID (uh_Tx h) i) writeRubricStoreErr (\<lambda>r1.
     attempt (btx_GetCriteriaByRubric (uh_Tx h) i) writeRubricStoreErr (\<lambda>criteria.
     attempt (btx_GetBandsByRubric (uh_Tx h) i) writeRubricStoreErr (\<lambda>bands.
     refuse (writeRubricJSON 200 (toRubricResponse rt r1 criteria bands)))))"

definition list_rubrics_stage ::
  "'x runtime \<Rightarrow> ('t, 'u, 'v, 'w) RubricHandler \<Rightarrow> string \<Rightarrow> string \<Rightarrow> 64 word \<Rightarrow> 64 word \<Rightarrow> ('t \<times> 'w) stage" where
  "list_rubrics_stage rt h statusFilter scopeFilter limit offset =
     attempt (btx_ListRubrics (uh_Tx h) statusFilter scopeFilter (sint limit) (sint offset)) writeRubricStoreErr (\<lambda>items.
     attempt (btx_CountRubrics (uh_Tx h) statusFilter scopeFilter) writeRubricStoreErr (\<lambda>n.
     refuse (writeRubricJSON 200 (JObject
       [(''items'', JArray (map (\<lambda>r. toRubricResponse rt r [] []) items)), (''total'', JNumber (strconv_Itoa n))]))))"

text \<open>The end of the two handlers that answer with the row as it is now.\<close>

definition reread_stage ::
  "'x runtime \<Rightarrow> ('t, 'u, 'v, 'w) RubricHandler \<Rightarrow> uuid \<Rightarrow> string \<Rightarrow> ('t \<times> 'w) stage" where
  "reread_stage rt h i msg =
     attempt (btx_GetRubricByID (uh_Tx h) i) writeRubricStoreErr (\<lambda>updated.
     attempt (btx_Commit (uh_Tx h)) (rubric_internal msg) (\<lambda>_.
     answer (writeRubricJSON 200 (toRubricResponse rt updated [] []))))"

definition update_rubric_stage ::
  "'x runtime \<Rightarrow> ('t, 'u, 'v, 'w) RubricHandler \<Rightarrow> uuid \<Rightarrow> rubricUpdateBody \<Rightarrow> string \<Rightarrow> ('t \<times> 'w) stage" where
  "update_rubric_stage rt h i body actor =
     (let change = attempt (btx_UpdateRubric (uh_Tx h) i (uub_Name body) (uub_Scope body) (uub_Status body)
                     (uub_Metadata body) actor) writeRubricStoreErr (\<lambda>_. reread_stage rt h i ''rubric not updated'')
      in attempt (btx_GetRubricByID (uh_Tx h) i) writeRubricStoreErr (\<lambda>cur.
         if rub_Status cur = ''draft'' \<and> uub_Status body = ''active''
         then attempt (btx_CountRubrics (uh_Tx h) ''active'' (uub_Scope body)) writeRubricStoreErr (\<lambda>dupCount.
              if 0 < dupCount
              then refuse (writeRubricErr 409 ''CONFLICT'' ''an active rubric of this name and scope exists'' ''status'')
              else change)
         else change))"

definition archive_rubric_stage ::
  "'x runtime \<Rightarrow> ('t, 'u, 'v, 'w) RubricHandler \<Rightarrow> uuid \<Rightarrow> string \<Rightarrow> string \<Rightarrow> ('t \<times> 'w) stage" where
  "archive_rubric_stage rt h i reason actor =
     attempt (btx_ArchiveRubric (uh_Tx h) i reason actor) writeRubricStoreErr (\<lambda>_.
     reread_stage rt h i ''rubric not archived'')"

primrec weight_sum :: "float64 \<Rightarrow> RubricCriterion list \<Rightarrow> float64" where
  "weight_sum s [] = s"
| "weight_sum s (c # cs) = weight_sum (f64_add s (rcr_Weight c)) cs"

definition add_criterion_stage ::
  "'x runtime \<Rightarrow> ('t, 'u, 'v, 'w) RubricHandler \<Rightarrow> uuid \<Rightarrow> uuid \<Rightarrow> float64 \<Rightarrow> string \<Rightarrow> ('t \<times> 'w) stage" where
  "add_criterion_stage rt h i item weight actor =
     attempt (btx_GetCriteriaByRubric (uh_Tx h) i) writeRubricStoreErr (\<lambda>existing.
     if f64_gt (f64_add (weight_sum (Fin 0) existing) weight) (Fin 1)
     then refuse (bad_rubric ''weights exceed 1.0'' ''weight'')
     else attempt (btx_AddCriterion (uh_Tx h) i item weight actor) writeRubricStoreErr (\<lambda>newID.
       attempt (btx_Commit (uh_Tx h)) (rubric_internal ''criterion not stored'') (\<lambda>_.
       answer (writeRubricJSON 201 (JObject
         [(''evaluation_item_id'', JString (uuid_String rt item)), (''id'', JString (uuid_String rt newID)),
          (''rubric_id'', JString (uuid_String rt i)), (''weight'', float_json weight)])))))"

definition add_band_stage ::
  "'x runtime \<Rightarrow> ('t, 'u, 'v, 'w) RubricHandler \<Rightarrow> uuid \<Rightarrow> rubricBandBody \<Rightarrow> string \<Rightarrow> ('t \<times> 'w) stage" where
  "add_band_stage rt h i body actor =
     attempt (btx_GetBandsByRubric (uh_Tx h) i) writeRubricStoreErr (\<lambda>existing.
     if list_ex (\<lambda>b. f64_le (ubb_MinScore body) (rbd_MaxScore b) \<and> f64_ge (ubb_MaxScore body) (rbd_MinScore b)) existing
     then refuse (bad_rubric ''bands overlap'' ''min_score'')
     else attempt (btx_AddBand (uh_Tx h) i (ubb_Letter body) (ubb_MinScore body) (ubb_MaxScore body) actor)
       writeRubricStoreErr (\<lambda>newID.
       attempt (btx_Commit (uh_Tx h)) (rubric_internal ''band not stored'') (\<lambda>_.
       answer (writeRubricJSON 201 (JObject
         [(''id'', JString (uuid_String rt newID)), (''letter'', JString (ubb_Letter body)),
          (''max_score'', float_json (ubb_MaxScore body)), (''min_score'', float_json (ubb_MinScore body)),
          (''rubric_id'', JString (uuid_String rt i))])))))"

definition apply_rubric_stage ::
  "'x runtime \<Rightarrow> ('t, 'u, 'v, 'w) RubricHandler \<Rightarrow> uuid \<Rightarrow> uuid \<Rightarrow> float64 \<Rightarrow> ('t \<times> 'w) stage" where
  "apply_rubric_stage rt h i scoreID scoreValue =
     attempt (btx_ApplyRubric (uh_Tx h) i scoreValue) writeRubricStoreErr (\<lambda>(letter, band).
     refuse (writeRubricJSON 200 (JObject
       [(''band'', toBandJSON rt band), (''letter'', JString letter), (''rubric_id'', JString (uuid_String rt i)),
        (''score_id'', JString (uuid_String rt scoreID)), (''score_value'', float_json scoreValue)])))"

text \<open>The transaction of the scores: two reads, an early Rollback, and the rubric is applied after it.\<close>

definition apply_score_stage ::
  "'x runtime \<Rightarrow> ('t, 'u, 'v, 'w) RubricHandler \<Rightarrow> uuid \<Rightarrow> uuid \<Rightarrow> ('v \<times> 'w) stage" where
  "apply_score_stage rt h i scoreID =
     attempt (uh_GetScoreByID h scoreID) writeRubricStoreErr (\<lambda>score.
     attempt (uh_SumWeighted h (sco_EvaluationItemID score)) writeRubricStoreErr (\<lambda>numericSum.
     ignoring (uh_ScoreRollback h)
       (case uh_Float64Value h numericSum of
          Inr (Some scoreValue) \<Rightarrow> inside (with_defer (uh_Begin h) (rubric_internal ''begin of the rubric failed'')
            (btx_Rollback (uh_Tx h)) (apply_rubric_stage rt h i scoreID scoreValue))
        | _ \<Rightarrow> refuse (rubric_internal ''score not converted'' (LibError [])))))"

definition clone_rubric_stage ::
  "'x runtime \<Rightarrow> ('t, 'u, 'v, 'w) RubricHandler \<Rightarrow> uuid \<Rightarrow> string \<Rightarrow> ('t \<times> 'w) stage" where
  "clone_rubric_stage rt h i actor =
     attempt (btx_GetRubricByID (uh_Tx h) i) writeRubricStoreErr (\<lambda>src.
     if rub_Status src = ''archived''
     then refuse (writeRubricErr 409 ''CONFLICT'' ''an archived rubric cannot be cloned'' ''id'')
     else attempt (btx_InsertRubric (uh_Tx h) (rub_Name src) (rub_Scope src) (rub_Metadata src) actor)
       writeRubricStoreErr (\<lambda>newID.
       attempt (btx_Commit (uh_Tx h)) (rubric_internal ''rubric not cloned'') (\<lambda>_.
       answer (created_rubric rt newID (rub_Name src) (rub_Scope src) actor
         [(''source_id'', JString (uuid_String rt i))]))))"

section \<open>The handlers\<close>

definition handleCreateRubric :: "'x runtime \<Rightarrow> ('t, 'u, 'v, 'w) RubricHandler \<Rightarrow> 'w handler" where
  "handleCreateRubric rt h r w = (case guardRubricAdmin r of Some resp \<Rightarrow> (resp, w) | None \<Rightarrow>
     (case decode_rubricCreateBody (req_Body r) of
        Inl e \<Rightarrow> (bad_rubric ''malformed JSON body'' [], w)
      | Inr body \<Rightarrow>
     if blank (ucb_Name body) then (bad_rubric ''name missing'' ''name'', w)
     else with_handle (uh_Begin h) (rubric_internal ''begin failed'') (btx_Rollback (uh_Tx h))
            (create_rubric_stage rt h body (resolveCreatedBy r)) w))"

definition handleGetRubric :: "'x runtime \<Rightarrow> ('t, 'u, 'v, 'w) RubricHandler \<Rightarrow> 'w handler" where
  "handleGetRubric rt h r w = (case parseRubricID rt r of Inl resp \<Rightarrow> (resp, w) | Inr i \<Rightarrow>
     with_defer (uh_Begin h) (rubric_internal ''begin failed'') (btx_Rollback (uh_Tx h)) (get_rubric_stage rt h i) w)"

definition handleListRubrics :: "'x runtime \<Rightarrow> ('t, 'u, 'v, 'w) RubricHandler \<Rightarrow> 'w handler" where
  "handleListRubrics rt h r w =
     (let statusFilter = TrimSpace (req_Query r ''status'');
          scopeFilter = TrimSpace (req_Query r ''scope'');
          (limit, offset) = clampRubricPagination (req_Query r ''limit'') (req_Query r ''offset'')
      in with_defer (uh_Begin h) (rubric_internal ''begin failed'') (btx_Rollback (uh_Tx h))
           (list_rubrics_stage rt h statusFilter scopeFilter limit offset) w)"

definition handleUpdateRubric :: "'x runtime \<Rightarrow> ('t, 'u, 'v, 'w) RubricHandler \<Rightarrow> 'w handler" where
  "handleUpdateRubric rt h r w = (case guardRubricAdmin r of Some resp \<Rightarrow> (resp, w) | None \<Rightarrow>
     (case parseRubricID rt r of Inl resp \<Rightarrow> (resp, w) | Inr i \<Rightarrow>
     (case decode_rubricUpdateBody (req_Body r) of
        Inl e \<Rightarrow> (bad_rubric ''malformed JSON body'' [], w)
      | Inr body \<Rightarrow> with_handle (uh_Begin h) (rubric_internal ''begin failed'') (btx_Rollback (uh_Tx h))
            (update_rubric_stage rt h i body (resolveCreatedBy r)) w)))"

definition handleArchiveRubric :: "'x runtime \<Rightarrow> ('t, 'u, 'v, 'w) RubricHandler \<Rightarrow> 'w handler" where
  "handleArchiveRubric rt h r w = (case guardRubricAdmin r of Some resp \<Rightarrow> (resp, w) | None \<Rightarrow>
     (case parseRubricID rt r of Inl resp \<Rightarrow> (resp, w) | Inr i \<Rightarrow>
     (case (if 0 < req_ContentLength r then decode_rubricArchiveBody (req_Body r) else Inr []) of
        Inl e \<Rightarrow> (bad_rubric ''malformed JSON body'' [], w)
      | Inr reason \<Rightarrow>
     if blank reason then (bad_rubric ''archive_reason missing'' ''archive_reason'', w)
     else with_handle (uh_Begin h) (rubric_internal ''begin failed'') (btx_Rollback (uh_Tx h))
            (archive_rubric_stage rt h i reason (resolveCreatedBy r)) w)))"

definition handleAddCriterion :: "'x runtime \<Rightarrow> ('t, 'u, 'v, 'w) RubricHandler \<Rightarrow> 'w handler" where
  "handleAddCriterion rt h r w = (case guardRubricAdmin r of Some resp \<Rightarrow> (resp, w) | None \<Rightarrow>
     (case parseRubricID rt r of Inl resp \<Rightarrow> (resp, w) | Inr i \<Rightarrow>
     (case decode_rubricCriterionBody (req_Body r) of
        Inl e \<Rightarrow> (bad_rubric ''malformed JSON body'' [], w)
      | Inr body \<Rightarrow>
     (case body_uuid rt (urb_EvaluationItemID body) of
        None \<Rightarrow> (bad_rubric ''malformed item id'' ''evaluation_item_id'', w)
      | Some item \<Rightarrow>
          with_defer (uh_ItemBegin h) (rubric_internal ''begin of the item check failed'') (etx_Rollback (uh_ItemTx h))
            (attempt (etx_GetEvalItemByID (uh_ItemTx h) (uuid_String rt item)) writeRubricStoreErr (\<lambda>_.
               inside (with_handle (uh_Begin h) (rubric_internal ''begin failed'') (btx_Rollback (uh_Tx h))
                 (add_criterion_stage rt h i item (urb_Weight body) (resolveCreatedBy r))))) w))))"

definition handleAddBand :: "'x runtime \<Rightarrow> ('t, 'u, 'v, 'w) RubricHandler \<Rightarrow> 'w handler" where
  "handleAddBand rt h r w = (case guardRubricAdmin r of Some resp \<Rightarrow> (resp, w) | None \<Rightarrow>
     (case parseRubricID rt r of Inl resp \<Rightarrow> (resp, w) | Inr i \<Rightarrow>
     (case decode_rubricBandBody (req_Body r) of
        Inl e \<Rightarrow> (bad_rubric ''malformed JSON body'' [], w)
      | Inr body \<Rightarrow>
     if blank (ubb_Letter body) then (bad_rubric ''letter missing'' ''letter'', w)
     else with_handle (uh_Begin h) (rubric_internal ''begin failed'') (btx_Rollback (uh_Tx h))
            (add_band_stage rt h i body (resolveCreatedBy r)) w)))"

definition handleApplyRubric :: "'x runtime \<Rightarrow> ('t, 'u, 'v, 'w) RubricHandler \<Rightarrow> 'w handler" where
  "handleApplyRubric rt h r w = (case parseRubricID rt r of Inl resp \<Rightarrow> (resp, w) | Inr i \<Rightarrow>
     (case decode_rubricApplyBody (req_Body r) of
        Inl e \<Rightarrow> (bad_rubric ''malformed JSON body'' [], w)
      | Inr score \<Rightarrow>
     (case body_uuid rt score of
        None \<Rightarrow> (bad_rubric ''malformed score id'' ''score_id'', w)
      | Some scoreID \<Rightarrow> with_defer (uh_ScoreBegin h) (rubric_internal ''begin of the scores failed'')
            (uh_ScoreRollback h) (apply_score_stage rt h i scoreID) w)))"

definition handleCloneNewVersion :: "'x runtime \<Rightarrow> ('t, 'u, 'v, 'w) RubricHandler \<Rightarrow> 'w handler" where
  "handleCloneNewVersion rt h r w = (case guardRubricAdmin r of Some resp \<Rightarrow> (resp, w) | None \<Rightarrow>
     (case parseRubricID rt r of Inl resp \<Rightarrow> (resp, w) | Inr i \<Rightarrow>
     with_handle (uh_Begin h) (rubric_internal ''begin failed'') (btx_Rollback (uh_Tx h))
       (clone_rubric_stage rt h i (resolveCreatedBy r)) w))"

end
