(* ===== verification/Rubric_Handler_Properties.thy ===== *)
theory Rubric_Handler_Properties
  imports Rubric_Handlers Rubric_Properties Review_Handler_Properties Eval_Item_Properties "HOL-Library.Multiset"
begin

text \<open>
  What a client of the rubric interface can rely on, on the PostgreSQL stores: each request is one
  step of the rubrics by its user or changes nothing, whatever the faults of the connection.
\<close>

section \<open>The stores behind the handlers\<close>

definition pg_rubric_handler ::
  "pg_state runtime \<Rightarrow> num_codec \<Rightarrow> (string \<Rightarrow> rat) \<Rightarrow> (pg_tx, pg_tx, pg_tx, pg_world) RubricHandler" where
  "pg_rubric_handler rt c coll =
     \<lparr>uh_Begin = PgStore_BeginRubricTx, uh_Tx = PgRubricTx_methods rt c,
      uh_ItemBegin = PgStore_BeginEvalItemTx, uh_ItemTx = PgEvalItemTx_methods coll c,
      uh_ScoreBegin = PgStore_BeginScoreTx, uh_GetScoreByID = GetScoreByID c,
      uh_SumWeighted = SumWeightedByEvaluationItem, uh_ScoreRollback = PgScoreTx_Rollback,
      uh_Float64Value = (\<lambda>n. Inr (Some (of_numeric c n)))\<rparr>"

lemma pg_rubric_handler_simps [simp]:
  "uh_Begin (pg_rubric_handler rt c coll) = PgStore_BeginRubricTx"
  "uh_Tx (pg_rubric_handler rt c coll) = PgRubricTx_methods rt c"
  "uh_ItemBegin (pg_rubric_handler rt c coll) = PgStore_BeginEvalItemTx"
  "uh_ItemTx (pg_rubric_handler rt c coll) = PgEvalItemTx_methods coll c"
  "uh_ScoreBegin (pg_rubric_handler rt c coll) = PgStore_BeginScoreTx"
  "uh_GetScoreByID (pg_rubric_handler rt c coll) = GetScoreByID c"
  "uh_SumWeighted (pg_rubric_handler rt c coll) = SumWeightedByEvaluationItem"
  "uh_ScoreRollback (pg_rubric_handler rt c coll) = PgScoreTx_Rollback"
  "uh_Float64Value (pg_rubric_handler rt c coll) n = Inr (Some (of_numeric c n))"
  by (simp_all add: pg_rubric_handler_def)

lemma PgRubricTx_simps [simp]:
  "btx_InsertRubric (PgRubricTx_methods rt c) = InsertRubric rt"
  "btx_GetRubricByID (PgRubricTx_methods rt c) = GetRubricByID"
  "btx_ListRubrics (PgRubricTx_methods rt c) = ListRubrics"
  "btx_CountRubrics (PgRubricTx_methods rt c) = CountRubrics"
  "btx_UpdateRubric (PgRubricTx_methods rt c) = UpdateRubric rt"
  "btx_ArchiveRubric (PgRubricTx_methods rt c) = ArchiveRubric rt"
  "btx_AddCriterion (PgRubricTx_methods rt c) = AddCriterion rt c"
  "btx_AddBand (PgRubricTx_methods rt c) = AddBand rt c"
  "btx_GetCriteriaByRubric (PgRubricTx_methods rt c) = GetCriteriaByRubric c"
  "btx_GetBandsByRubric (PgRubricTx_methods rt c) = GetBandsByRubric c"
  "btx_ApplyRubric (PgRubricTx_methods rt c) = ApplyRubric c"
  "btx_Commit (PgRubricTx_methods rt c) = PgRubricTx_Commit"
  "btx_Rollback (PgRubricTx_methods rt c) = PgRubricTx_Rollback"
  by (simp_all add: PgRubricTx_methods_def)

interpretation rubric_txs: transactional PgStore_BeginRubricTx PgRubricTx_Commit PgRubricTx_Rollback
  pg_committed "\<lambda>s. ptx_work (fst s)"
  unfolding PgStore_BeginRubricTx_def PgRubricTx_Commit_def
  by (rule pg_transactional, rule rollback_wrap_keeps, rule PgRubricTx_Rollback_def)

lemma rubric_reads_keep [eff_intros]:
  "keeps published (GetRubricByID i)" "keeps work (GetRubricByID i)"
  "keeps published (ListRubrics q sc l o1)" "keeps published (CountRubrics q sc)" "keeps work (CountRubrics q sc)"
  "keeps published (GetCriteriaByRubric c i)" "keeps work (GetCriteriaByRubric c i)"
  "keeps published (GetBandsByRubric c i)" "keeps work (GetBandsByRubric c i)"
  "keeps published (ApplyRubric c i x)" "keeps published (lockAndCheckRubricStatus i)"
  unfolding GetRubricByID_def ListRubrics_def CountRubrics_def GetCriteriaByRubric_def GetBandsByRubric_def
    ApplyRubric_def lockAndCheckRubricStatus_def
  by (intro eff_intros | auto intro!: eff_intros split: option.splits)+

lemma rubric_mutations_keep:
  "keeps published (InsertRubric (pg_runtime parse toString sha1) name sc md u)"
  "keeps published (UpdateRubric (pg_runtime parse toString sha1) i name sc q md u)"
  "keeps published (ArchiveRubric (pg_runtime parse toString sha1) i reason u)"
  "keeps published (AddCriterion (pg_runtime parse toString sha1) c i item x u)"
  "keeps published (AddBand (pg_runtime parse toString sha1) c i letter lo hi u)"
  unfolding InsertRubric_def UpdateRubric_def ArchiveRubric_def AddCriterion_def AddBand_def Let_def
    rubric_audit_defs rubric_clock
  by (intro eff_intros)+

lemma score_sum_keeps [eff_intros]: "keeps published (SumWeightedByEvaluationItem i)"
  unfolding SumWeightedByEvaluationItem_def by (intro eff_intros)

section \<open>One request\<close>

datatype rubric_api =
    RubricCreate | RubricGet | RubricList | RubricUpdate | RubricArchive | RubricAddCriterion
  | RubricAddBand | RubricApply | RubricClone

definition rubric_api :: "'x runtime \<Rightarrow> ('t, 'u, 'v, 'w) RubricHandler \<Rightarrow> rubric_api \<Rightarrow> 'w handler" where
  "rubric_api rt h x = (case x of
     RubricCreate \<Rightarrow> handleCreateRubric rt h | RubricGet \<Rightarrow> handleGetRubric rt h
   | RubricList \<Rightarrow> handleListRubrics rt h | RubricUpdate \<Rightarrow> handleUpdateRubric rt h
   | RubricArchive \<Rightarrow> handleArchiveRubric rt h | RubricAddCriterion \<Rightarrow> handleAddCriterion rt h
   | RubricAddBand \<Rightarrow> handleAddBand rt h | RubricApply \<Rightarrow> handleApplyRubric rt h
   | RubricClone \<Rightarrow> handleCloneNewVersion rt h)"

definition rubric_read :: "rubric_api \<Rightarrow> bool" where
  "rubric_read x \<longleftrightarrow> x \<in> {RubricGet, RubricList, RubricApply}"

definition rubric_created :: "rubric_api \<Rightarrow> bool" where
  "rubric_created x \<longleftrightarrow> x \<in> {RubricCreate, RubricAddCriterion, RubricAddBand, RubricClone}"

definition rubric_admin :: "request \<Rightarrow> bool" where
  "rubric_admin r \<longleftrightarrow> (case UserFromContext r of None \<Rightarrow> True | Some u \<Rightarrow> RoleAdmin \<in> set (user_roles u))"

text \<open>An error and no change, a read, or one step of an administrator.\<close>

definition rubric_outcome :: "rubric_api \<Rightarrow> request \<Rightarrow> db \<Rightarrow> response \<Rightarrow> db \<Rightarrow> bool" where
  "rubric_outcome x r d resp d' \<longleftrightarrow>
     400 \<le> resp_Code resp \<and> d' = d \<or>
     rubric_read x \<and> resp_Code resp = 200 \<and> d' = d \<or>
     \<not> rubric_read x \<and> rubric_admin r \<and> resp_Code resp = (if rubric_created x then 201 else 200) \<and>
       rubric_step (resolveRubricUserID (resolveCreatedBy r)) d d'"

lemma guard_rubric_None: "guardRubricAdmin r = None \<longleftrightarrow> rubric_admin r"
  by (auto simp: guardRubricAdmin_def rubric_admin_def requireRubricAdminRole_def user_roles_def split: option.splits)

lemma rubric_codes [simp]:
  "resp_Code (writeRubricErr a b m f) = a" "resp_Code (writeRubricJSON a v) = a"
  "resp_Code (bad_rubric m f) = 400" "resp_Code (rubric_internal m e) = 500"
  "resp_Code (created_rubric rt i nm sc u src) = 201"
  by (simp_all add: writeRubricErr_def writeRubricJSON_def bad_rubric_def rubric_internal_def created_rubric_def)

lemma rubric_store_code [simp]: "400 \<le> resp_Code (writeRubricStoreErr e)"
  by (simp add: writeRubricStoreErr_def mapRubricStoreErr_def)

lemma guard_rubric_code: "guardRubricAdmin r = Some resp \<Longrightarrow> resp_Code resp = 403"
  by (auto simp: guardRubricAdmin_def split: option.splits if_splits)

lemma parse_rubric_code: "parseRubricID rt r = Inl resp \<Longrightarrow> resp_Code resp = 400"
  by (auto simp: parseRubricID_def split: option.splits)

lemma rubric_refused: "400 \<le> resp_Code resp \<Longrightarrow> rubric_outcome x r d resp d"
  by (simp add: rubric_outcome_def)

lemma rubric_read_ok: "rubric_read x \<Longrightarrow> resp_Code resp = 200 \<Longrightarrow> rubric_outcome x r d resp d"
  by (simp add: rubric_outcome_def)

lemmas rubric_published =
  rubric_reads_keep [unfolded published_def [abs_def]] rubric_mutations_keep [unfolded published_def [abs_def]]

section \<open>The mutations\<close>

lemma reread_committed:
  assumes "reread_stage rt0 (pg_rubric_handler rt c coll) i msg s = ((True, resp), s')"
  shows "resp_Code resp = 200 \<and> pg_committed (snd s') = ptx_work (fst s)"
proof -
  from assms obtain q s1 where g: "GetRubricByID i s = (Inr q, s1)"
    and co: "PgRubricTx_Commit s1 = (Inr (), s')" and resp: "resp_Code resp = 200"
    by (auto simp: reread_stage_def)
  have "work s1 = work s" by (rule keepsD [OF rubric_reads_keep(2) g])
  with rubric_txs.commit_publishes [OF co] resp show ?thesis by (simp add: work_def)
qed

lemma rubric_stages_safe:
  fixes parse toString sha1 c coll
  defines "h \<equiv> pg_rubric_handler (pg_runtime parse toString sha1) c coll"
  shows "safe_stage pg_committed (create_rubric_stage rt0 h body1 u)"
    and "safe_stage pg_committed (reread_stage rt0 h i msg)"
    and "safe_stage pg_committed (update_rubric_stage rt0 h i body2 u)"
    and "safe_stage pg_committed (archive_rubric_stage rt0 h i reason u)"
    and "safe_stage pg_committed (add_criterion_stage rt0 h i item x u)"
    and "safe_stage pg_committed (add_band_stage rt0 h i body3 u)"
    and "safe_stage pg_committed (clone_rubric_stage rt0 h i u)"
  unfolding create_rubric_stage_def update_rubric_stage_def archive_rubric_stage_def add_criterion_stage_def
    add_band_stage_def clone_rubric_stage_def reread_stage_def Let_def h_def pg_rubric_handler_simps PgRubricTx_simps
  by (rule rubric_txs.safe_commit | rule stage_intros rubric_published)+

lemma rubric_stages_answer:
  fixes parse toString sha1 c coll
  defines "h \<equiv> pg_rubric_handler (pg_runtime parse toString sha1) c coll"
  shows "answers (\<lambda>q. 400 \<le> resp_Code q) (create_rubric_stage rt0 h body1 u)"
    and "answers (\<lambda>q. 400 \<le> resp_Code q) (reread_stage rt0 h i msg)"
    and "answers (\<lambda>q. 400 \<le> resp_Code q) (update_rubric_stage rt0 h i body2 u)"
    and "answers (\<lambda>q. 400 \<le> resp_Code q) (archive_rubric_stage rt0 h i reason u)"
    and "answers (\<lambda>q. 400 \<le> resp_Code q) (add_criterion_stage rt0 h i item x u)"
    and "answers (\<lambda>q. 400 \<le> resp_Code q) (add_band_stage rt0 h i body3 u)"
    and "answers (\<lambda>q. 400 \<le> resp_Code q) (clone_rubric_stage rt0 h i u)"
  unfolding create_rubric_stage_def update_rubric_stage_def archive_rubric_stage_def add_criterion_stage_def
    add_band_stage_def clone_rubric_stage_def reread_stage_def Let_def h_def pg_rubric_handler_simps PgRubricTx_simps
  by (rule stage_intros | simp)+

text \<open>A mutation that committed is one step of the rubrics.\<close>

lemma create_rubric_committed:
  assumes "create_rubric_stage rt0 (pg_rubric_handler (pg_runtime parse toString sha1) c coll) body u s = ((True, resp), s')"
  shows "resp_Code resp = 201 \<and> rubric_step (resolveRubricUserID u) (ptx_work (fst s)) (pg_committed (snd s'))"
proof -
  from assms obtain i s1 where m: "InsertRubric (pg_runtime parse toString sha1) (ucb_Name body) (ucb_Scope body)
      (ucb_Metadata body) u s = (Inr i, s1)" and co: "PgRubricTx_Commit s1 = (Inr (), s')" and "resp_Code resp = 201"
    by (auto simp: create_rubric_stage_def)
  with insert_rubric_ok [OF m] rubric_txs.commit_publishes [OF co] show ?thesis by simp
qed

lemma update_rubric_committed:
  assumes "update_rubric_stage rt0 (pg_rubric_handler (pg_runtime parse toString sha1) c coll) i body u s = ((True, resp), s')"
    and inv: "rubric_inv (ptx_work (fst s))"
  shows "resp_Code resp = 200 \<and> rubric_step (resolveRubricUserID u) (ptx_work (fst s)) (pg_committed (snd s'))"
proof -
  let ?h = "pg_rubric_handler (pg_runtime parse toString sha1) c coll"
  define change where "change = attempt (UpdateRubric (pg_runtime parse toString sha1) i (uub_Name body)
    (uub_Scope body) (uub_Status body) (uub_Metadata body) u) writeRubricStoreErr
    (\<lambda>_. reread_stage rt0 ?h i ''rubric not updated'')"
  from assms(1) obtain cur s1 where g: "GetRubricByID i s = (Inr cur, s1)"
    and rest: "change s1 = ((True, resp), s') \<or>
      (\<exists>n s2. CountRubrics ''active'' (uub_Scope body) s1 = (Inr n, s2) \<and> change s2 = ((True, resp), s'))"
    by (auto simp: update_rubric_stage_def Let_def change_def [symmetric] simp del: split_paired_Ex split: if_splits)
  from rest obtain s2 where s2: "s2 = s1 \<or> (\<exists>n. CountRubrics ''active'' (uub_Scope body) s1 = (Inr n, s2))"
    and ch: "change s2 = ((True, resp), s')" by blast
  from ch obtain s3 where m: "UpdateRubric (pg_runtime parse toString sha1) i (uub_Name body) (uub_Scope body)
      (uub_Status body) (uub_Metadata body) u s2 = (Inr (), s3)"
    and re: "reread_stage rt0 ?h i ''rubric not updated'' s3 = ((True, resp), s')"
    by (auto simp: change_def)
  have "work s1 = work s" by (rule keepsD [OF rubric_reads_keep(2) g])
  moreover have "work s2 = work s1" using s2 keepsD [OF rubric_reads_keep(5)] by metis
  ultimately have "ptx_work (fst s2) = ptx_work (fst s)" by (simp add: work_def)
  with update_rubric_ok [OF m] inv reread_committed [OF re] show ?thesis by simp
qed

lemma archive_rubric_committed:
  assumes "archive_rubric_stage rt0 (pg_rubric_handler (pg_runtime parse toString sha1) c coll) i reason u s = ((True, resp), s')"
  shows "resp_Code resp = 200 \<and> rubric_step (resolveRubricUserID u) (ptx_work (fst s)) (pg_committed (snd s'))"
proof -
  let ?h = "pg_rubric_handler (pg_runtime parse toString sha1) c coll"
  from assms obtain s1 where m: "ArchiveRubric (pg_runtime parse toString sha1) i reason u s = (Inr (), s1)"
    and re: "reread_stage rt0 ?h i ''rubric not archived'' s1 = ((True, resp), s')"
    by (auto simp: archive_rubric_stage_def)
  with archive_rubric_ok [OF m] reread_committed [OF re] show ?thesis by simp
qed

lemma add_criterion_committed:
  assumes "add_criterion_stage rt0 (pg_rubric_handler (pg_runtime parse toString sha1) c coll) i item x u s = ((True, resp), s')"
  shows "resp_Code resp = 201 \<and> rubric_step (resolveRubricUserID u) (ptx_work (fst s)) (pg_committed (snd s'))"
proof -
  from assms obtain ks s1 j s2 where g: "GetCriteriaByRubric c i s = (Inr ks, s1)"
    and m: "AddCriterion (pg_runtime parse toString sha1) c i item x u s1 = (Inr j, s2)"
    and co: "PgRubricTx_Commit s2 = (Inr (), s')" and code: "resp_Code resp = 201"
    by (auto simp: add_criterion_stage_def split: if_splits)
  have "work s1 = work s" by (rule keepsD [OF rubric_reads_keep(7) g])
  with add_criterion_ok [OF m] rubric_txs.commit_publishes [OF co] code show ?thesis by (simp add: work_def)
qed

lemma add_band_committed:
  assumes "add_band_stage rt0 (pg_rubric_handler (pg_runtime parse toString sha1) c coll) i body u s = ((True, resp), s')"
    and c: "codec_sound c"
  shows "resp_Code resp = 201 \<and> rubric_step (resolveRubricUserID u) (ptx_work (fst s)) (pg_committed (snd s'))"
proof -
  from assms(1) obtain bs s1 j s2 where g: "GetBandsByRubric c i s = (Inr bs, s1)"
    and m: "AddBand (pg_runtime parse toString sha1) c i (ubb_Letter body) (ubb_MinScore body) (ubb_MaxScore body) u s1
      = (Inr j, s2)"
    and co: "PgRubricTx_Commit s2 = (Inr (), s')" and code: "resp_Code resp = 201"
    by (auto simp: add_band_stage_def split: if_splits)
  have "work s1 = work s" by (rule keepsD [OF rubric_reads_keep(9) g])
  with add_band_ok [OF m c] rubric_txs.commit_publishes [OF co] code show ?thesis by (simp add: work_def)
qed

lemma clone_rubric_committed:
  assumes "clone_rubric_stage rt0 (pg_rubric_handler (pg_runtime parse toString sha1) c coll) i u s = ((True, resp), s')"
  shows "resp_Code resp = 201 \<and> rubric_step (resolveRubricUserID u) (ptx_work (fst s)) (pg_committed (snd s'))"
proof -
  from assms obtain src s1 j s2 where g: "GetRubricByID i s = (Inr src, s1)"
    and m: "InsertRubric (pg_runtime parse toString sha1) (rub_Name src) (rub_Scope src) (rub_Metadata src) u s1 = (Inr j, s2)"
    and co: "PgRubricTx_Commit s2 = (Inr (), s')" and code: "resp_Code resp = 201"
    by (auto simp: clone_rubric_stage_def split: if_splits)
  have "work s1 = work s" by (rule keepsD [OF rubric_reads_keep(2) g])
  with insert_rubric_ok [OF m] rubric_txs.commit_publishes [OF co] code show ?thesis by (simp add: work_def)
qed

text \<open>A handler around such a stage.\<close>

lemma rubric_mutation_effect:
  assumes "safe_stage pg_committed stage" and "answers (\<lambda>q. 400 \<le> resp_Code q) stage"
    and "\<And>s resp s'. ptx_work (fst s) = pg_committed w \<Longrightarrow> stage s = ((True, resp), s') \<Longrightarrow>
      resp_Code resp = (if rubric_created x then 201 else 200) \<and>
      rubric_step (resolveRubricUserID (resolveCreatedBy r)) (ptx_work (fst s)) (pg_committed (snd s'))"
    and "rubric_admin r" and "\<not> rubric_read x"
    and run: "with_handle PgStore_BeginRubricTx (rubric_internal msg) PgRubricTx_Rollback stage w = (resp, w')"
  shows "rubric_outcome x r (pg_committed w) resp (pg_committed w')"
proof (rule rubric_txs.with_handle_does [OF assms(1) _ _ _ run], goal_cases)
  case 1
  then show ?case using assms(2) by (auto simp: answers_def rubric_refused)
next
  case (3 s resp s')
  then show ?case using assms(3) [OF 3] assms(4,5) by (simp add: rubric_outcome_def)
qed (simp add: rubric_refused)

section \<open>The effect of a request\<close>

text \<open>What has been checked when a handler opens its transaction.\<close>

lemma rubric_handler_checks:
  assumes "\<not> (400 \<le> resp_Code resp \<and> w' = w)"
  shows "handleCreateRubric rt0 h r w = (resp, w') \<Longrightarrow>
      \<exists>body. guardRubricAdmin r = None \<and> decode_rubricCreateBody (req_Body r) = Inr body \<and> \<not> blank (ucb_Name body)"
    and "handleUpdateRubric rt0 h r w = (resp, w') \<Longrightarrow>
      \<exists>i body. guardRubricAdmin r = None \<and> parseRubricID rt0 r = Inr i \<and> decode_rubricUpdateBody (req_Body r) = Inr body"
    and "handleArchiveRubric rt0 h r w = (resp, w') \<Longrightarrow>
      \<exists>i reason. guardRubricAdmin r = None \<and> parseRubricID rt0 r = Inr i \<and> \<not> blank reason \<and>
        (if 0 < req_ContentLength r then decode_rubricArchiveBody (req_Body r) else Inr []) = Inr reason"
    and "handleAddCriterion rt0 h r w = (resp, w') \<Longrightarrow>
      \<exists>i body item. guardRubricAdmin r = None \<and> parseRubricID rt0 r = Inr i \<and>
        decode_rubricCriterionBody (req_Body r) = Inr body \<and> body_uuid rt0 (urb_EvaluationItemID body) = Some item"
    and "handleAddBand rt0 h r w = (resp, w') \<Longrightarrow>
      \<exists>i body. guardRubricAdmin r = None \<and> parseRubricID rt0 r = Inr i \<and>
        decode_rubricBandBody (req_Body r) = Inr body \<and> \<not> blank (ubb_Letter body)"
    and "handleCloneNewVersion rt0 h r w = (resp, w') \<Longrightarrow>
      \<exists>i. guardRubricAdmin r = None \<and> parseRubricID rt0 r = Inr i"
  using assms
  by (auto simp: handleCreateRubric_def handleUpdateRubric_def handleArchiveRubric_def handleAddCriterion_def
      handleAddBand_def handleCloneNewVersion_def dest: guard_rubric_code parse_rubric_code
      split: option.splits sum.splits if_splits)

lemma create_rubric_request:
  assumes "handleCreateRubric rt0 (pg_rubric_handler (pg_runtime parse toString sha1) c coll) r w = (resp, w')"
  shows "rubric_outcome RubricCreate r (pg_committed w) resp (pg_committed w')"
proof (cases "400 \<le> resp_Code resp \<and> w' = w")
  case False
  from rubric_handler_checks(1) [OF this assms] obtain body where q: "guardRubricAdmin r = None"
    "decode_rubricCreateBody (req_Body r) = Inr body" "blank (ucb_Name body) = False" by blast
  show ?thesis
    by (rule rubric_mutation_effect [OF rubric_stages_safe(1) rubric_stages_answer(1) _ _ _
        assms [unfolded handleCreateRubric_def, simplified q option.case sum.case if_False pg_rubric_handler_simps PgRubricTx_simps]])
      (use q in \<open>auto dest: create_rubric_committed simp: rubric_read_def rubric_created_def guard_rubric_None\<close>)
qed (simp add: rubric_refused)

lemma update_rubric_request:
  assumes "handleUpdateRubric rt0 (pg_rubric_handler (pg_runtime parse toString sha1) c coll) r w = (resp, w')"
    and "rubric_inv (pg_committed w)"
  shows "rubric_outcome RubricUpdate r (pg_committed w) resp (pg_committed w')"
proof (cases "400 \<le> resp_Code resp \<and> w' = w")
  case False
  from rubric_handler_checks(2) [OF this assms(1)] obtain i body where q: "guardRubricAdmin r = None"
    "parseRubricID rt0 r = Inr i" "decode_rubricUpdateBody (req_Body r) = Inr body" by blast
  show ?thesis
    by (rule rubric_mutation_effect [OF rubric_stages_safe(3) rubric_stages_answer(3) _ _ _
        assms(1) [unfolded handleUpdateRubric_def, simplified q option.case sum.case if_False pg_rubric_handler_simps PgRubricTx_simps]])
      (use q assms(2) in \<open>auto dest: update_rubric_committed simp: rubric_read_def rubric_created_def guard_rubric_None\<close>)
qed (simp add: rubric_refused)

lemma archive_rubric_request:
  assumes "handleArchiveRubric rt0 (pg_rubric_handler (pg_runtime parse toString sha1) c coll) r w = (resp, w')"
  shows "rubric_outcome RubricArchive r (pg_committed w) resp (pg_committed w')"
proof (cases "400 \<le> resp_Code resp \<and> w' = w")
  case False
  from rubric_handler_checks(3) [OF this assms] obtain i reason where q: "guardRubricAdmin r = None"
    "parseRubricID rt0 r = Inr i" "blank reason = False"
    "(if 0 < req_ContentLength r then decode_rubricArchiveBody (req_Body r) else Inr []) = Inr reason" by blast
  show ?thesis
    by (rule rubric_mutation_effect [OF rubric_stages_safe(4) rubric_stages_answer(4) _ _ _
        assms [unfolded handleArchiveRubric_def q, simplified q option.case sum.case if_False pg_rubric_handler_simps PgRubricTx_simps]])
      (use q in \<open>auto dest: archive_rubric_committed simp: rubric_read_def rubric_created_def guard_rubric_None\<close>)
qed (simp add: rubric_refused)

lemma add_band_request:
  assumes "handleAddBand rt0 (pg_rubric_handler (pg_runtime parse toString sha1) c coll) r w = (resp, w')"
    and "codec_sound c"
  shows "rubric_outcome RubricAddBand r (pg_committed w) resp (pg_committed w')"
proof (cases "400 \<le> resp_Code resp \<and> w' = w")
  case False
  from rubric_handler_checks(5) [OF this assms(1)] obtain i body where q: "guardRubricAdmin r = None"
    "parseRubricID rt0 r = Inr i" "decode_rubricBandBody (req_Body r) = Inr body" "blank (ubb_Letter body) = False" by blast
  show ?thesis
    by (rule rubric_mutation_effect [OF rubric_stages_safe(6) rubric_stages_answer(6) _ _ _
        assms(1) [unfolded handleAddBand_def, simplified q option.case sum.case if_False pg_rubric_handler_simps PgRubricTx_simps]])
      (use q assms(2) in \<open>auto dest: add_band_committed simp: rubric_read_def rubric_created_def guard_rubric_None\<close>)
qed (simp add: rubric_refused)

lemma clone_rubric_request:
  assumes "handleCloneNewVersion rt0 (pg_rubric_handler (pg_runtime parse toString sha1) c coll) r w = (resp, w')"
  shows "rubric_outcome RubricClone r (pg_committed w) resp (pg_committed w')"
proof (cases "400 \<le> resp_Code resp \<and> w' = w")
  case False
  from rubric_handler_checks(6) [OF this assms] obtain i where q: "guardRubricAdmin r = None"
    "parseRubricID rt0 r = Inr i" by blast
  show ?thesis
    by (rule rubric_mutation_effect [OF rubric_stages_safe(7) rubric_stages_answer(7) _ _ _
        assms [unfolded handleCloneNewVersion_def, simplified q option.case sum.case if_False pg_rubric_handler_simps PgRubricTx_simps]])
      (use q in \<open>auto dest: clone_rubric_committed simp: rubric_read_def rubric_created_def guard_rubric_None\<close>)
qed (simp add: rubric_refused)

lemma rubric_read_request:
  fixes parse toString sha1 c coll
  defines "h \<equiv> pg_rubric_handler (pg_runtime parse toString sha1) c coll"
  assumes "x \<in> {RubricGet, RubricList}" and "rubric_api rt0 h x r w = (resp, w')"
  shows "rubric_outcome x r (pg_committed w) resp (pg_committed w')"
proof (cases "400 \<le> resp_Code resp \<and> w' = w")
  case True
  then show ?thesis by (simp add: rubric_refused)
next
  case False
  have x: "rubric_read x" using assms(2) by (auto simp: rubric_read_def)
  obtain l o1 where lo: "clampRubricPagination (req_Query r ''limit'') (req_Query r ''offset'') = (l, o1)" by fastforce
  have "\<exists>stage. stage_does pg_committed (rubric_outcome x r) stage \<and>
    with_defer PgStore_BeginRubricTx (rubric_internal ''begin failed'') PgRubricTx_Rollback stage w = (resp, w')"
  proof (cases "x = RubricGet")
    case True
    then obtain i where "with_defer PgStore_BeginRubricTx (rubric_internal ''begin failed'') PgRubricTx_Rollback
        (get_rubric_stage rt0 h i) w = (resp, w')"
      using assms(3) False by (auto simp: rubric_api_def handleGetRubric_def h_def dest: parse_rubric_code split: sum.splits)
    moreover have "stage_does pg_committed (rubric_outcome x r) (get_rubric_stage rt0 h i)"
      unfolding get_rubric_stage_def h_def pg_rubric_handler_simps PgRubricTx_simps
      by (intro does_intros rubric_published) (simp_all add: rubric_refused rubric_read_ok x)
    ultimately show ?thesis by blast
  next
    case False
    then have "with_defer PgStore_BeginRubricTx (rubric_internal ''begin failed'') PgRubricTx_Rollback
        (list_rubrics_stage rt0 h (TrimSpace (req_Query r ''status'')) (TrimSpace (req_Query r ''scope'')) l o1) w = (resp, w')"
      using assms(2,3) lo by (simp add: rubric_api_def handleListRubrics_def h_def Let_def)
    moreover have "stage_does pg_committed (rubric_outcome x r) (list_rubrics_stage rt0 h q sc l o1)" for q sc
      unfolding list_rubrics_stage_def h_def pg_rubric_handler_simps PgRubricTx_simps
      by (intro does_intros rubric_published) (simp_all add: rubric_refused rubric_read_ok x)
    ultimately show ?thesis by blast
  qed
  then obtain stage where st: "stage_does pg_committed (rubric_outcome x r) stage"
    and run: "with_defer PgStore_BeginRubricTx (rubric_internal ''begin failed'') PgRubricTx_Rollback stage w = (resp, w')"
    by blast
  show ?thesis by (rule rubric_txs.with_defer_does [OF st _ run]) (simp add: rubric_refused)
qed

lemma apply_rubric_request:
  fixes parse toString sha1 c coll
  defines "h \<equiv> pg_rubric_handler (pg_runtime parse toString sha1) c coll"
  assumes "handleApplyRubric rt0 h r w = (resp, w')"
  shows "rubric_outcome RubricApply r (pg_committed w) resp (pg_committed w')"
proof (cases "400 \<le> resp_Code resp \<and> w' = w")
  case True
  then show ?thesis by (simp add: rubric_refused)
next
  case False
  then obtain i j where run: "with_defer PgStore_BeginScoreTx (rubric_internal ''begin of the scores failed'')
      PgScoreTx_Rollback (apply_score_stage rt0 h i j) w = (resp, w')"
    using assms(2) by (auto simp: handleApplyRubric_def h_def dest: parse_rubric_code split: sum.splits option.splits)
  have read: "rubric_read RubricApply" by (simp add: rubric_read_def)
  have inner: "stage_does pg_committed (rubric_outcome RubricApply r) (apply_rubric_stage rt0 h i j v)" for v
    unfolding apply_rubric_stage_def h_def pg_rubric_handler_simps PgRubricTx_simps
    by (intro does_intros rubric_published) (auto simp: rubric_refused rubric_read_ok read intro!: does_intros)
  have "stage_does pg_committed (rubric_outcome RubricApply r) (apply_score_stage rt0 h i j)"
    unfolding apply_score_stage_def h_def pg_rubric_handler_simps sum.case option.case PgRubricTx_simps
    by (intro does_intros score_read_keeps [unfolded published_def [abs_def]] score_txs.rollback_keeps
        score_sum_keeps [unfolded published_def [abs_def]] rubric_txs.with_defer_does [OF inner [unfolded h_def]])
      (simp_all add: rubric_refused)
  from score_txs.with_defer_does [OF this _ run] show ?thesis by (simp add: rubric_refused)
qed

lemma add_criterion_request:
  fixes parse toString sha1 c coll
  defines "h \<equiv> pg_rubric_handler (pg_runtime parse toString sha1) c coll"
  assumes "handleAddCriterion rt0 h r w = (resp, w')"
  shows "rubric_outcome RubricAddCriterion r (pg_committed w) resp (pg_committed w')"
proof (cases "400 \<le> resp_Code resp \<and> w' = w")
  case True
  then show ?thesis by (simp add: rubric_refused)
next
  case False
  let ?inner = "\<lambda>i item x. with_handle PgStore_BeginRubricTx (rubric_internal ''begin failed'') PgRubricTx_Rollback
     (add_criterion_stage rt0 h i item x (resolveCreatedBy r))"
  from rubric_handler_checks(4) [OF False assms(2)] obtain i body item where admin: "guardRubricAdmin r = None"
    and q: "parseRubricID rt0 r = Inr i" "decode_rubricCriterionBody (req_Body r) = Inr body"
      "body_uuid rt0 (urb_EvaluationItemID body) = Some item" by blast
  from assms(2) have run: "with_defer PgStore_BeginEvalItemTx (rubric_internal ''begin of the item check failed'')
      PgEvalItemTx_Rollback (attempt (GetEvalItemByID c (uuid_String rt0 item)) writeRubricStoreErr (\<lambda>_.
        inside (?inner i item (urb_Weight body)))) w = (resp, w')"
    by (simp add: handleAddCriterion_def h_def admin q)
  have adm: "rubric_admin r" using admin by (simp add: guard_rubric_None)
  have inner: "rubric_outcome RubricAddCriterion r (pg_committed w1) resp1 (pg_committed w2)"
    if "?inner i item x w1 = (resp1, w2)" for x w1 resp1 w2
    by (rule rubric_mutation_effect [OF rubric_stages_safe(5) rubric_stages_answer(5) _ adm _ that [unfolded h_def]])
      (auto dest: add_criterion_committed simp: rubric_read_def rubric_created_def)
  have "stage_does pg_committed (rubric_outcome RubricAddCriterion r)
      (attempt (GetEvalItemByID c (uuid_String rt0 item)) writeRubricStoreErr (\<lambda>_. inside (?inner i item (urb_Weight body))))"
    by (intro does_intros item_reads_keep(1) [unfolded published_def [abs_def]] inner) (simp_all add: rubric_refused)
  from item_txs.with_defer_does [OF this _ run] show ?thesis by (simp add: rubric_refused)
qed

lemma rubric_api_effect:
  assumes "rubric_api rt0 (pg_rubric_handler (pg_runtime parse toString sha1) c coll) x r w = (resp, w')"
    and "rubric_inv (pg_committed w)" and "codec_sound c"
  shows "rubric_outcome x r (pg_committed w) resp (pg_committed w')"
  using assms create_rubric_request update_rubric_request archive_rubric_request add_criterion_request add_band_request
    apply_rubric_request clone_rubric_request rubric_read_request [OF _ assms(1)]
  by (cases x) (simp_all add: rubric_api_def)

section \<open>Properties of the interface\<close>

text \<open>
  C27: One request, one step. From tables whose rubrics satisfy the invariant, whatever the request
  to one of the nine endpoints and the faults of the connection: it is answered by an error and
  publishes nothing, or it is a read (also the application of a rubric to a score) answered 200 that
  publishes nothing, or its user is an administrator (or authentication is off), it is answered 201
  or 200, and it has published exactly one step of the rubrics with its audit event.
\<close>

theorem rubric_request_effect:
  assumes "rubric_api rt0 (pg_rubric_handler (pg_runtime parse toString sha1) c coll) x r w = (resp, w')"
    and "rubric_inv (pg_committed w)" and "codec_sound c"
  shows "400 \<le> resp_Code resp \<and> pg_committed w' = pg_committed w \<or>
    rubric_read x \<and> resp_Code resp = 200 \<and> pg_committed w' = pg_committed w \<or>
    \<not> rubric_read x \<and> rubric_admin r \<and> resp_Code resp = (if rubric_created x then 201 else 200) \<and>
      rubric_step (resolveRubricUserID (resolveCreatedBy r)) (pg_committed w) (pg_committed w')"
  using rubric_api_effect [OF assms] by (simp add: rubric_outcome_def)

text \<open>A sequence of requests, served one after the other.\<close>

primrec serve_rubrics ::
  "'x runtime \<Rightarrow> ('t, 'u, 'v, 'w) RubricHandler \<Rightarrow> (rubric_api \<times> request) list \<Rightarrow> 'w \<Rightarrow> 'w" where
  "serve_rubrics rt h [] w = w"
| "serve_rubrics rt h (q # qs) w = serve_rubrics rt h qs (snd (rubric_api rt h (fst q) (snd q) w))"

lemma archived_frozen_trans: "archived_frozen d d1 \<Longrightarrow> archived_frozen d1 d2 \<Longrightarrow> archived_frozen d d2"
  unfolding archived_frozen_def by metis

text \<open>
  C23: The rubrics in the long run. Start from tables that satisfy the invariant (for instance empty
  ones) and serve any sequence of requests of any users, with any faults of the connection in
  between: the tables still satisfy it, and every rubric that was archived at the start has its row,
  its criteria and its bands unchanged.
\<close>

theorem rubric_history:
  assumes "rubric_inv (pg_committed w)" and "codec_sound c"
  shows "let w' = serve_rubrics rt0 (pg_rubric_handler (pg_runtime parse toString sha1) c coll) qs w in
    rubric_inv (pg_committed w') \<and> archived_frozen (pg_committed w) (pg_committed w')"
  using assms(1)
proof (induction qs arbitrary: w)
  case Nil
  then show ?case by (simp add: archived_frozen_def)
next
  case (Cons q qs)
  obtain resp w1 where run: "rubric_api rt0 (pg_rubric_handler (pg_runtime parse toString sha1) c coll) (fst q) (snd q) w = (resp, w1)"
    by fastforce
  from rubric_api_effect [OF run Cons.prems assms(2)] consider "pg_committed w1 = pg_committed w"
    | "rubric_step (resolveRubricUserID (resolveCreatedBy (snd q))) (pg_committed w) (pg_committed w1)"
    by (auto simp: rubric_outcome_def)
  then have "rubric_inv (pg_committed w1) \<and> archived_frozen (pg_committed w) (pg_committed w1)"
    using Cons.prems by cases (auto dest: rubric_step_inv rubric_step_frozen simp: archived_frozen_def)
  with Cons.IH [of w1] run show ?case by (auto simp: Let_def intro: archived_frozen_trans)
qed

definition sample_rubric_request :: request where
  "sample_rubric_request = plain_request (canonical_String 7) (Some (JObject
     [(''archive_reason'', JString ''done''), (''evaluation_item_id'', JString (canonical_String 8)), (''weight'', JNumber ''0.5'')])) None"

lemma sample_rubric_inv: "rubric_inv (rubric_db [sample_rubric 7 ''active''] [])"
proof -
  have "rubric_row_ok (sample_rubric 7 ''active'')" using sample_rubric_ok(7) [of "''active''" 7] by (simp add: rubric_status_defs)
  then show ?thesis by (simp add: rubric_inv_def one_active_def rubric_db_def empty_db_def)
qed

theorem rubric_request_effect_witness:
  "rubric_outcome RubricArchive sample_rubric_request (rubric_db [sample_rubric 7 ''active''] [])
     (fst (rubric_api (pg_runtime canonical_Parse canonical_String sample_SHA1)
        (pg_rubric_handler (pg_runtime canonical_Parse canonical_String sample_SHA1) exact_codec (\<lambda>_. 0)) RubricArchive
        sample_rubric_request (sample_pg (rubric_db [sample_rubric 7 ''active''] []))))
     (pg_committed (snd (rubric_api (pg_runtime canonical_Parse canonical_String sample_SHA1)
        (pg_rubric_handler (pg_runtime canonical_Parse canonical_String sample_SHA1) exact_codec (\<lambda>_. 0)) RubricArchive
        sample_rubric_request (sample_pg (rubric_db [sample_rubric 7 ''active''] [])))))"
  using rubric_request_effect [OF prod.collapse [symmetric], of "sample_pg (rubric_db [sample_rubric 7 ''active''] [])" exact_codec
      "pg_runtime canonical_Parse canonical_String sample_SHA1" canonical_Parse canonical_String sample_SHA1 "\<lambda>_. 0"
      RubricArchive sample_rubric_request]
  by (simp add: rubric_outcome_def sample_rubric_inv exact_codec_sound)

theorem rubric_history_witness:
  "rubric_inv (pg_committed (serve_rubrics (pg_runtime canonical_Parse canonical_String sample_SHA1)
     (pg_rubric_handler (pg_runtime canonical_Parse canonical_String sample_SHA1) exact_codec (\<lambda>_. 0))
     [(RubricArchive, sample_rubric_request), (RubricAddCriterion, sample_rubric_request)]
     (sample_pg (rubric_db [sample_rubric 7 ''active''] []))))"
proof -
  have "rubric_inv (pg_committed (sample_pg (rubric_db [sample_rubric 7 ''active''] [])))" by (simp add: sample_rubric_inv)
  from rubric_history [OF this exact_codec_sound, unfolded Let_def] show ?thesis by blast
qed

section \<open>The weights of a rubric\<close>

text \<open>
  The codec at weights: a value of the column is read within 2 to the power of minus 52 (the nearest
  double), and a double is written within six tenths of the last of the four digits (the driver
  prints it with the fewest digits that identify it, and PostgreSQL rounds that text).
\<close>

definition codec_near :: "num_codec \<Rightarrow> bool" where
  "codec_near c \<longleftrightarrow>
     (\<forall>n::int. 0 \<le> n \<and> n \<le> 10 ^ 4 \<longrightarrow>
        (\<exists>v. of_numeric c (Num (of_int n / 10 ^ 4)) = Fin v \<and> \<bar>v - of_int n / 10 ^ 4\<bar> \<le> 1 / 2 ^ 52)) \<and>
     (\<forall>v q. 0 \<le> v \<longrightarrow> v \<le> 1 \<longrightarrow> to_numeric c 5 4 (Fin v) = Inr (Num q) \<longrightarrow> \<bar>q - v\<bar> \<le> 6 / 10 ^ 5)"

lemma round_away_close: "\<bar>of_int (round_away r) - r\<bar> \<le> 1 / 2"
  using floor_correct [of "1 / 2 - r"] floor_correct [of "r + 1 / 2"]
  unfolding round_away_def abs_le_iff by (cases "r < 0"; simp; linarith)

lemma exact_codec_near: "codec_near exact_codec"
proof -
  have "\<bar>q - v\<bar> \<le> 6 / 10 ^ 5" if w: "to_numeric exact_codec 5 4 (Fin v) = Inr (Num q)" for v q
  proof -
    have q: "q = of_int (round_away (v * 10 ^ 4)) / 10 ^ 4"
      using w by (auto simp: exact_codec_def Let_def split: if_splits)
    have "\<bar>of_int (round_away (v * 10 ^ 4)) - v * 10 ^ 4\<bar> \<le> 1 / 2" by (rule round_away_close)
    then show ?thesis unfolding q abs_le_iff by simp
  qed
  moreover have "\<exists>v. of_numeric exact_codec (Num x) = Fin v \<and> \<bar>v - x\<bar> \<le> 1 / 2 ^ 52" for x
    by (simp add: exact_codec_def)
  ultimately show ?thesis unfolding codec_near_def by blast
qed

definition weight_of :: "criterion_row \<Rightarrow> rat" where
  "weight_of k = (case cr_weight k of Num q \<Rightarrow> q | NumNaN \<Rightarrow> 0)"

definition weight_ok :: "criterion_row \<Rightarrow> bool" where
  "weight_ok k \<longleftrightarrow> (\<exists>n::int. cr_weight k = Num (of_int n / 10 ^ 4) \<and> 0 \<le> n \<and> n \<le> 10 ^ 4)"

definition criteria_of :: "db \<Rightarrow> uuid \<Rightarrow> criterion_row list" where
  "criteria_of d i = List.filter (\<lambda>k. cr_rubric_id k = i) (db_criteria d)"

definition weight_total :: "criterion_row list \<Rightarrow> rat" where
  "weight_total ks = sum_list (map weight_of ks)"

definition weights_bounded :: "db \<Rightarrow> bool" where
  "weights_bounded d \<longleftrightarrow> (\<forall>k\<in>set (db_criteria d). weight_ok k) \<and> (\<forall>i. weight_total (criteria_of d i) \<le> 1)"

lemma weight_ok_range: "weight_ok k \<Longrightarrow> 0 \<le> weight_of k \<and> weight_of k \<le> 1"
  by (auto simp: weight_ok_def weight_of_def divide_le_eq)

lemma weight_total_nonneg: "\<forall>k\<in>set ks. weight_ok k \<Longrightarrow> 0 \<le> weight_total ks"
  unfolding weight_total_def using weight_ok_range by (intro sum_list_nonneg) auto

lemma weight_total_units: "\<forall>k\<in>set ks. weight_ok k \<Longrightarrow> \<exists>n::int. weight_total ks = of_int n / 10 ^ 4"
proof (induction ks)
  case Nil
  then show ?case by (auto simp: weight_total_def intro: exI [of _ 0])
next
  case (Cons k ks)
  then obtain n m where "weight_total ks = of_int n / 10 ^ 4" "weight_of k = of_int m / 10 ^ 4"
    by (auto simp: weight_ok_def weight_of_def)
  then have "weight_total (k # ks) = of_int (m + n) / 10 ^ 4" by (simp add: weight_total_def add_divide_distrib)
  then show ?case by blast
qed

text \<open>The sum that the handler computes in doubles is off by at most n divided by 2 to the power of 51.\<close>

lemma weight_sum_close:
  assumes "codec_near c" and "\<forall>k\<in>set ks. weight_ok k" and "\<bar>s - S\<bar> \<le> of_nat m / 2 ^ 51"
    and "0 \<le> S" and "S + weight_total ks \<le> 1" and "m + length ks \<le> 2 ^ 36"
  shows "\<exists>v. weight_sum (Fin s) (map (scan_criterion c) ks) = Fin v \<and>
    \<bar>v - (S + weight_total ks)\<bar> \<le> of_nat (m + length ks) / 2 ^ 51"
  using assms(2-6)
proof (induction ks arbitrary: s S m)
  case (Cons k ks)
  let ?q = "weight_of k"
  from Cons.prems(1) obtain n :: int where n: "cr_weight k = Num (of_int n / 10 ^ 4)" "0 \<le> n" "n \<le> 10 ^ 4"
    by (auto simp: weight_ok_def)
  have q: "?q = of_int n / 10 ^ 4" "0 \<le> ?q" "?q \<le> 1"
    using n weight_ok_range [of k] Cons.prems(1) by (simp_all add: weight_of_def)
  obtain y where y: "of_numeric c (cr_weight k) = Fin y" "\<bar>y - ?q\<bar> \<le> 1 / 2 ^ 52"
    using assms(1) n unfolding codec_near_def q(1) by metis
  have tot: "weight_total (k # ks) = ?q + weight_total ks" by (simp add: weight_total_def)
  have nn: "0 \<le> weight_total ks" using Cons.prems(1) by (intro weight_total_nonneg) simp
  have m: "(of_nat m :: rat) \<le> 2 ^ 36"
  proof -
    have "m \<le> 2 ^ 36" using Cons.prems(5) by simp
    then show ?thesis by (metis of_nat_le_iff of_nat_numeral of_nat_power)
  qed
  have "of_nat m / 2 ^ 51 \<le> (1 :: rat)" using m by (simp add: divide_le_eq)
  then have S: "S \<le> 1" "\<bar>s - S\<bar> \<le> 1" using Cons.prems(2,4) nn q(2) tot by linarith+
  have "1 / 2 ^ 52 < (1 :: rat)" by simp
  then have "\<bar>s + y\<bar> < 4" using S Cons.prems(3) y(2) q(2,3) by linarith
  then obtain v where v: "f64_of_rat (s + y) = Fin v" "\<bar>v - (s + y)\<bar> \<le> 1 / 2 ^ 52"
    by (rule f64_of_rat_close)
  have "\<bar>v - (S + ?q)\<bar> \<le> of_nat (Suc m) / 2 ^ 51"
  proof -
    have "of_nat (Suc m) / 2 ^ 51 = of_nat m / 2 ^ 51 + (1 / 2 ^ 52 + 1 / 2 ^ 52 :: rat)"
      by (simp add: add_divide_distrib)
    with v(2) y(2) Cons.prems(2) show ?thesis by linarith
  qed
  from Cons.IH [OF _ this] Cons.prems q(2) tot
  obtain u where "weight_sum (Fin v) (map (scan_criterion c) ks) = Fin u"
    "\<bar>u - (S + ?q + weight_total ks)\<bar> \<le> of_nat (Suc m + length ks) / 2 ^ 51"
    by (auto simp: add.assoc)
  moreover have "rcr_Weight (scan_criterion c k) = Fin y" using y(1) by (simp add: scan_criterion_def)
  ultimately show ?case using v(1) by (simp add: tot add.assoc)
qed (simp add: weight_total_def)

lemma weight_total_sort [simp]: "weight_total (sort_key f ks) = weight_total ks"
proof -
  have "sum_list (map weight_of xs) = sum_mset (image_mset weight_of (mset xs))" for xs
    by (simp only: sum_mset_sum_list [symmetric] mset_map)
  then show ?thesis unfolding weight_total_def by simp
qed

text \<open>A criterion that passes the check of the handler leaves the sum at most 1.\<close>

lemma criterion_keeps_bound:
  assumes c: "codec_near c" "codec_sound c" and b: "weights_bounded d" and len: "length (criteria_of d i) < 2 ^ 36"
    and check: "\<not> f64_gt (f64_add (weight_sum (Fin 0) (map (scan_criterion c) (sort_key cr_created_at (criteria_of d i))))
        (Fin x)) (Fin 1)"
    and x: "0 \<le> x" "x \<le> 1" and w: "to_numeric c 5 4 (Fin x) = Inr (cr_weight k)" "Num 0 \<le> cr_weight k" "cr_weight k \<le> Num 1"
    and k: "cr_rubric_id k = i"
  shows "weight_ok k" and "weight_total (criteria_of d i @ [k]) \<le> 1"
proof -
  let ?ks = "sort_key cr_created_at (criteria_of d i)"
  have ok: "\<forall>k\<in>set ?ks. weight_ok k" and tot: "weight_total ?ks \<le> 1"
    using b by (auto simp: weights_bounded_def criteria_of_def)
  have "fits 5 4 (cr_weight k)" using c(2) w(1) unfolding codec_sound_def by blast
  then obtain n :: int where n: "cr_weight k = Num (of_int n / 10 ^ 4)"
    using w(3) by (auto simp: fits_def)
  with w(2,3) have r: "0 \<le> n" "n \<le> 10 ^ 4" by (auto simp: zero_le_divide_iff divide_le_eq)
  with n show wk: "weight_ok k" by (auto simp: weight_ok_def)
  have q: "weight_of k = of_int n / 10 ^ 4" using n by (simp add: weight_of_def)
  have near: "\<bar>weight_of k - x\<bar> \<le> 6 / 10 ^ 5" using c(1) x w(1) unfolding n q codec_near_def by blast
  obtain v where v: "weight_sum (Fin 0) (map (scan_criterion c) ?ks) = Fin v"
    "\<bar>v - weight_total ?ks\<bar> \<le> of_nat (length ?ks) / 2 ^ 51"
    using weight_sum_close [OF c(1) ok, of 0 0 0] tot len by auto
  have "(of_nat (length ?ks) :: rat) \<le> 2 ^ 36"
    using len by (metis length_sort less_imp_le of_nat_le_iff of_nat_numeral of_nat_power)
  then have e: "of_nat (length ?ks) / 2 ^ 51 \<le> (1 / 2 ^ 15 :: rat)" by (simp add: divide_le_eq)
  have nn: "0 \<le> weight_total ?ks" by (rule weight_total_nonneg [OF ok])
  have small: "1 / 2 ^ 15 < (1 / 32000 :: rat)" "1 / 2 ^ 52 < (1 / 1000000 :: rat)" by simp_all
  have v': "\<bar>v - weight_total ?ks\<bar> \<le> 1 / 32000" using v(2) e small(1) by linarith
  then have "\<bar>v + x\<bar> < 4" using tot nn x by linarith
  then obtain u where u: "f64_of_rat (v + x) = Fin u" "\<bar>u - (v + x)\<bar> \<le> 1 / 2 ^ 52" by (rule f64_of_rat_close)
  have "u \<le> 1" using check v(1) u(1) by (simp add: f64_gt_def)
  then have "weight_total ?ks + weight_of k < 1 + 1 / 10 ^ 4"
  proof -
    have "\<bar>u - (v + x)\<bar> \<le> 1 / 1000000" using u(2) small(2) by linarith
    moreover have "\<bar>weight_of k - x\<bar> \<le> 6 / 100000" using near by simp
    ultimately have "weight_total ?ks + weight_of k \<le> 1 + 1 / 32000 + 1 / 1000000 + 6 / 100000"
      using v' \<open>u \<le> 1\<close> by linarith
    then show ?thesis by simp
  qed
  moreover obtain m :: int where "weight_total ?ks + weight_of k = of_int m / 10 ^ 4"
    using weight_total_units [OF ok] q by (metis add_divide_distrib of_int_add)
  ultimately have "weight_total ?ks + weight_of k \<le> 1" by (simp add: divide_less_eq divide_le_eq)
  moreover have "weight_total (xs @ [k]) = weight_total xs + weight_of k" for xs by (simp add: weight_total_def)
  ultimately show "weight_total (criteria_of d i @ [k]) \<le> 1" by simp
qed

lemma insert_criterion_weight:
  "insert_criterion_stmt c i item x now u d = Inr (j, d') \<Longrightarrow>
   \<exists>k. d' = d\<lparr>db_criteria := db_criteria d @ [k]\<rparr> \<and> cr_rubric_id k = i \<and> to_numeric c 5 4 x = Inr (cr_weight k) \<and>
     Num 0 \<le> cr_weight k \<and> cr_weight k \<le> Num 1"
  by (auto simp: insert_criterion_stmt_def split: sum.splits if_splits)

lemma add_criterion_weight:
  assumes "AddCriterion (pg_runtime parse toString sha1) c i item (Fin x) u s = (Inr j, s')"
  obtains k where "db_criteria (ptx_work (fst s')) = db_criteria (ptx_work (fst s)) @ [k]" "cr_rubric_id k = i"
    "0 \<le> x" "x \<le> 1" "to_numeric c 5 4 (Fin x) = Inr (cr_weight k)" "Num 0 \<le> cr_weight k" "cr_weight k \<le> Num 1"
proof -
  let ?rt = "pg_runtime parse toString sha1" and ?actor = "resolveRubricUserID u"
  from assms obtain cur s1 s2 y where v: "validateCriterionInput (Fin x) = Inr ()" and
    lock: "lockAndCheckRubricStatus i s = (Inr cur, s1)" and
    ins: "pg_run (insert_criterion_stmt c i item (Fin x)) s1 = (Inr j, s2)" and
    e: "insert_event (time_Now ?rt) (insert_audit ''InsertAuditLog(rubric) failed'') ActionRubricCriterionAdded
          ''rubric_criterion'' j ?actor (Some (projr (rubricDetails ?rt i y))) s2 = (Inr (), s')"
    by (auto simp: AddCriterion_def eff_simps Let_def rubric_audit_defs)
  have "fst s1 = fst s" using lock_rubric_Inr [OF lock] by blast
  from pg_run_work [OF ins, unfolded this] obtain k where
    k: "ptx_work (fst s2) = (ptx_work (fst s))\<lparr>db_criteria := db_criteria (ptx_work (fst s)) @ [k]\<rparr>"
      "cr_rubric_id k = i" "to_numeric c 5 4 (Fin x) = Inr (cr_weight k)" "Num 0 \<le> cr_weight k" "cr_weight k \<le> Num 1"
    using insert_criterion_weight by blast
  moreover have "0 \<le> x" "x \<le> 1"
    using v by (simp_all add: validateCriterionInput_def f64_gt_def split: if_splits)
  ultimately show thesis using that adds_event_tables(3) [OF pg_event_ok(1) [OF e]] by simp
qed

lemma criterion_body_finite:
  assumes "decode_rubricCriterionBody b = Inr body"
  obtains x where "urb_Weight body = Fin x"
proof -
  from assms obtain kvs where f: "decode_field ''weight'' (set_value json_float64) kvs (Fin 0) = Inr (urb_Weight body)"
    by (auto simp: decode_rubricCriterionBody_def split: sum.splits)
  have fin: "json_float64 v = Some y \<Longrightarrow> \<exists>a. y = Fin a" for v y
    by (cases v) (auto simp: ParseFloat_def split: float64.splits, metis)
  have "\<exists>a. urb_Weight body = Fin a"
    by (rule decode_field_inv [OF f]) (auto simp: set_value_def dest: fin split: json.splits option.splits if_splits)
  then show thesis using that by blast
qed

text \<open>
  C18: The weights of a rubric never exceed 1. The handler adds the weights in doubles and compares
  with 1.0, and the column rounds to four digits; still, for a codec that reads and writes weights to
  the nearest value and a table of fewer than 2 to the power of 36 criteria, a request to add a
  criterion (whatever its body, the user and the faults) leaves the exact sum of the stored weights of
  every rubric at most 1.
\<close>

theorem criterion_weights_bounded:
  assumes run: "handleAddCriterion rt0 (pg_rubric_handler (pg_runtime parse toString sha1) c coll) r w = (resp, w')"
    and c: "codec_near c" "codec_sound c" and b: "weights_bounded (pg_committed w)"
    and len: "length (db_criteria (pg_committed w)) < 2 ^ 36"
  shows "weights_bounded (pg_committed w')"
proof (cases "400 \<le> resp_Code resp \<and> w' = w")
  case False
  let ?h = "pg_rubric_handler (pg_runtime parse toString sha1) c coll"
  let ?R = "\<lambda>d (resp :: response) d'. length (db_criteria d) < 2 ^ 36 \<longrightarrow> weights_bounded d \<longrightarrow> weights_bounded d'"
  let ?inner = "\<lambda>i item x. with_handle PgStore_BeginRubricTx (rubric_internal ''begin failed'') PgRubricTx_Rollback
     (add_criterion_stage rt0 ?h i item x (resolveCreatedBy r))"
  from rubric_handler_checks(4) [OF False run] obtain i body item where q: "guardRubricAdmin r = None"
    "parseRubricID rt0 r = Inr i" "decode_rubricCriterionBody (req_Body r) = Inr body"
    "body_uuid rt0 (urb_EvaluationItemID body) = Some item" by blast
  obtain x where x: "urb_Weight body = Fin x" using q(3) by (rule criterion_body_finite)
  have outer: "with_defer PgStore_BeginEvalItemTx (rubric_internal ''begin of the item check failed'')
      PgEvalItemTx_Rollback (attempt (GetEvalItemByID c (uuid_String rt0 item)) writeRubricStoreErr (\<lambda>_.
        inside (?inner i item (Fin x)))) w = (resp, w')"
    using run by (simp add: handleAddCriterion_def q x)
  have stage: "?R (ptx_work (fst s)) resp1 (pg_committed (snd s'))"
    if "add_criterion_stage rt0 ?h i item (Fin x) u s = ((True, resp1), s')" for u s resp1 s'
  proof (intro impI)
    assume len: "length (db_criteria (ptx_work (fst s))) < 2 ^ 36" and b: "weights_bounded (ptx_work (fst s))"
    from that obtain ks s1 j s2 where g: "GetCriteriaByRubric c i s = (Inr ks, s1)"
      and check: "\<not> f64_gt (f64_add (weight_sum (Fin 0) ks) (Fin x)) (Fin 1)"
      and m: "AddCriterion (pg_runtime parse toString sha1) c i item (Fin x) u s1 = (Inr j, s2)"
      and co: "PgRubricTx_Commit s2 = (Inr (), s')"
      by (auto simp: add_criterion_stage_def split: if_splits)
    have w1: "ptx_work (fst s1) = ptx_work (fst s)" using keepsD [OF rubric_reads_keep(7) g] by (simp add: work_def)
    have ks: "ks = map (scan_criterion c) (sort_key cr_created_at (criteria_of (ptx_work (fst s)) i))"
      using g by (auto simp: GetCriteriaByRubric_def eff_simps pg_query_def pg_run_Inr_iff criteria_of_def)
    obtain k where k: "db_criteria (ptx_work (fst s2)) = db_criteria (ptx_work (fst s)) @ [k]" "cr_rubric_id k = i"
      "0 \<le> x" "x \<le> 1" "to_numeric c 5 4 (Fin x) = Inr (cr_weight k)" "Num 0 \<le> cr_weight k" "cr_weight k \<le> Num 1"
      using add_criterion_weight [OF m] w1 by metis
    have "length (criteria_of (ptx_work (fst s)) i) < 2 ^ 36"
      using len unfolding criteria_of_def by (rule le_less_trans [OF length_filter_le])
    note new = criterion_keeps_bound [OF c b this check [unfolded ks] k(3-7) k(2)]
    have "weights_bounded (ptx_work (fst s2))"
      using b new k(1,2) by (auto simp: weights_bounded_def criteria_of_def)
    then show "weights_bounded (pg_committed (snd s'))" using rubric_txs.commit_publishes [OF co] by simp
  qed
  have inner: "?R (pg_committed w1) resp1 (pg_committed w2)" if "?inner i item (Fin x) w1 = (resp1, w2)" for w1 resp1 w2
    by (rule rubric_txs.with_handle_does [OF rubric_stages_safe(5) _ _ _ that]) (use stage in \<open>auto simp: answers_def\<close>)
  have "stage_does pg_committed ?R (attempt (GetEvalItemByID c (uuid_String rt0 item)) writeRubricStoreErr (\<lambda>_.
      inside (?inner i item (Fin x))))"
    by (intro does_intros item_reads_keep(1) [unfolded published_def [abs_def]] inner) simp_all
  from item_txs.with_defer_does [OF this _ outer] b len show ?thesis by simp
qed (use b in simp)

theorem criterion_weights_bounded_witness:
  "weights_bounded (pg_committed (snd (handleAddCriterion (pg_runtime canonical_Parse canonical_String sample_SHA1)
     (pg_rubric_handler (pg_runtime canonical_Parse canonical_String sample_SHA1) exact_codec (\<lambda>_. 0)) sample_rubric_request
     (sample_pg ((rubric_db [sample_rubric 7 ''active''] [])\<lparr>db_criteria :=
        [\<lparr>cr_id = 9, cr_rubric_id = 7, cr_evaluation_item_id = 8, cr_weight = Num (6 / 10), cr_created_at = 1\<rparr>]\<rparr>)))))"
proof -
  let ?k = "\<lparr>cr_id = 9, cr_rubric_id = 7, cr_evaluation_item_id = 8, cr_weight = Num (6 / 10), cr_created_at = 1\<rparr> :: criterion_row"
  have "weight_ok ?k" unfolding weight_ok_def by (rule exI [of _ 6000]) simp
  then have "weights_bounded (pg_committed (sample_pg ((rubric_db [sample_rubric 7 ''active''] [])\<lparr>db_criteria := [?k]\<rparr>)))"
    by (simp add: weights_bounded_def criteria_of_def weight_total_def weight_of_def)
  from criterion_weights_bounded [OF prod.collapse [symmetric] exact_codec_near exact_codec_sound this] show ?thesis by simp
qed

end
