(* ===== verification/Json_Text.thy ===== *)
theory Json_Text
  imports Numbers "HOL-Library.Char_ord" "HOL-Library.List_Lexorder"
begin

text \<open>
  The texts that encoding/json and encoding/base64 write: json.Marshal of the values that
  \<^verbatim>\<open>json\<close> describes (map keys in byte order, HTML-safe strings, bytes that are not
  UTF-8 replaced by U+FFFD) and base64.StdEncoding, each with a reader and the lemma that the reader
  gives back what was written. A Go string is the list of its bytes.
\<close>

section \<open>base64.StdEncoding\<close>

definition base64_digit :: "nat \<Rightarrow> char" where
  "base64_digit v =
     char_of (if v < 26 then v + 65 else if v < 52 then v + 71 else if v < 62 then v - 4
              else if v = 62 then 43 else 47)"

definition base64_value :: "char \<Rightarrow> nat option" where
  "base64_value c =
     (let n = of_char c in
      if 65 \<le> n \<and> n \<le> 90 then Some (n - 65)
      else if 97 \<le> n \<and> n \<le> 122 then Some (n - 71)
      else if 48 \<le> n \<and> n \<le> 57 then Some (n + 4)
      else if n = 43 then Some 62
      else if n = 47 then Some 63
      else None)"

definition byte :: "char \<Rightarrow> nat" where
  "byte c = of_char c"

fun StdEncoding_EncodeToString :: "string \<Rightarrow> string" where
  "StdEncoding_EncodeToString [] = []"
| "StdEncoding_EncodeToString [a] =
     [base64_digit (byte a div 4), base64_digit (byte a mod 4 * 16), CHR ''='', CHR ''='']"
| "StdEncoding_EncodeToString [a, b] =
     [base64_digit (byte a div 4), base64_digit (byte a mod 4 * 16 + byte b div 16),
      base64_digit (byte b mod 16 * 4), CHR ''='']"
| "StdEncoding_EncodeToString (a # b # c # r) =
     base64_digit (byte a div 4) # base64_digit (byte a mod 4 * 16 + byte b div 16) #
     base64_digit (byte b mod 16 * 4 + byte c div 64) # base64_digit (byte c mod 64) #
     StdEncoding_EncodeToString r"

text \<open>The reader: padding only at the end, spare bits ignored.\<close>

fun base64_decode :: "string \<Rightarrow> string option" where
  "base64_decode [] = Some []"
| "base64_decode (w # x # y # z # r) =
     (case (base64_value w, base64_value x) of
        (Some a, Some b) \<Rightarrow>
          (if y = CHR ''='' \<and> z = CHR ''='' \<and> r = [] then Some [char_of (a * 4 + b div 16)]
           else (case base64_value y of
               None \<Rightarrow> None
             | Some c \<Rightarrow>
                 if z = CHR ''='' \<and> r = []
                 then Some [char_of (a * 4 + b div 16), char_of (b mod 16 * 16 + c div 4)]
                 else (case (base64_value z, base64_decode r) of
                     (Some d, Some t) \<Rightarrow>
                       Some (char_of (a * 4 + b div 16) # char_of (b mod 16 * 16 + c div 4) #
                         char_of (c mod 4 * 64 + d) # t)
                   | _ \<Rightarrow> None)))
      | _ \<Rightarrow> None)"
| "base64_decode _ = None"

lemma byte_less [simp]: "byte c < 256"
  using of_char_mod_256 [of c, where ?'a = nat] by (metis byte_def mod_less_divisor zero_less_numeral)

lemma char_of_byte [simp]: "char_of (byte c) = c"
  by (simp add: byte_def)

lemma base64_value_digit [simp]: "v < 64 \<Longrightarrow> base64_value (base64_digit v) = Some v"
  by (auto simp: base64_value_def base64_digit_def of_char_of [where ?'a = nat] Let_def)

lemma base64_digit_not_pad [simp]: "v < 64 \<Longrightarrow> base64_digit v \<noteq> CHR ''=''"
  using base64_value_digit [of v] by (auto simp: base64_value_def)

lemma digit_pair: "x < m \<Longrightarrow> (y * m + x) div m = y" "x < m \<Longrightarrow> (y * m + x) mod m = (x :: nat)"
  by simp_all

lemma base64_parts:
  assumes "a < 256" "b < 256" "c < (256 :: nat)"
  shows "a div 4 < 64" "a mod 4 * 16 < 64" "a mod 4 * 16 + b div 16 < 64" "b mod 16 * 4 < 64"
    "b mod 16 * 4 + c div 64 < 64" "c mod 64 < 64"
    "a div 4 * 4 + a mod 4 * 16 div 16 = a" "a div 4 * 4 + (a mod 4 * 16 + b div 16) div 16 = a"
    "(a mod 4 * 16 + b div 16) mod 16 * 16 + b mod 16 * 4 div 4 = b"
    "(a mod 4 * 16 + b div 16) mod 16 * 16 + (b mod 16 * 4 + c div 64) div 4 = b"
    "(b mod 16 * 4 + c div 64) mod 4 * 64 + c mod 64 = c"
proof -
  have q: "b div 16 < 16" "c div 64 < 4" "a mod 4 < 4" "b mod 16 < 16" using assms by auto
  show "a div 4 < 64" "a mod 4 * 16 < 64" "a mod 4 * 16 + b div 16 < 64" "b mod 16 * 4 < 64"
    "b mod 16 * 4 + c div 64 < 64" "c mod 64 < 64" using q assms by auto
  show "a div 4 * 4 + a mod 4 * 16 div 16 = a" "a div 4 * 4 + (a mod 4 * 16 + b div 16) div 16 = a"
    using q(1) by (simp_all only: digit_pair) simp_all
  show "(a mod 4 * 16 + b div 16) mod 16 * 16 + b mod 16 * 4 div 4 = b"
    "(a mod 4 * 16 + b div 16) mod 16 * 16 + (b mod 16 * 4 + c div 64) div 4 = b"
    "(b mod 16 * 4 + c div 64) mod 4 * 64 + c mod 64 = c"
    using q(1,2) by (simp_all only: digit_pair) simp_all
qed

lemmas base64_byte_parts = base64_parts [of "byte a" "byte b" "byte c" for a b c, simplified]

theorem base64_decode_encode: "base64_decode (StdEncoding_EncodeToString s) = Some s"
  by (induction s rule: StdEncoding_EncodeToString.induct) (simp_all add: base64_byte_parts)

section \<open>Strings\<close>

text \<open>
  The length of the UTF-8 sequence that a string begins with; 0 when the first byte begins none,
  for which utf8.DecodeRuneInString answers RuneError with width 1.
\<close>

fun conts :: "nat \<Rightarrow> string \<Rightarrow> bool" where
  "conts 0 r = True"
| "conts (Suc k) [] = False"
| "conts (Suc k) (c # r) = (128 \<le> byte c \<and> byte c < 192 \<and> conts k r)"

definition second_byte :: "nat \<Rightarrow> nat \<Rightarrow> string \<Rightarrow> bool" where
  "second_byte lo hi r = (case r of [] \<Rightarrow> False | c # _ \<Rightarrow> lo \<le> byte c \<and> byte c < hi)"

fun rune_len :: "string \<Rightarrow> nat" where
  "rune_len [] = 0"
| "rune_len (a # r) =
     (let n = byte a in
      if n < 128 then 1
      else if 194 \<le> n \<and> n < 224 then (if conts 1 r then 2 else 0)
      else if 224 \<le> n \<and> n < 240 then
        (if conts 2 r \<and> second_byte (if n = 224 then 160 else 128) (if n = 237 then 160 else 192) r then 3 else 0)
      else if 240 \<le> n \<and> n < 245 then
        (if conts 3 r \<and> second_byte (if n = 240 then 144 else 128) (if n = 244 then 144 else 192) r then 4 else 0)
      else 0)"

definition hex_digit :: "nat \<Rightarrow> char" where
  "hex_digit v = char_of (if v < 10 then v + 48 else v + 87)"

text \<open>appendString of encoding/json with escapeHTML, on one byte below 0x80.\<close>

definition escape_ascii :: "char \<Rightarrow> string" where
  "escape_ascii c =
     (let n = byte c in
      if n = 34 \<or> n = 92 then [CHR 0x5C, c]
      else if n = 8 then [CHR 0x5C, CHR ''b'']
      else if n = 12 then [CHR 0x5C, CHR ''f'']
      else if n = 10 then [CHR 0x5C, CHR ''n'']
      else if n = 13 then [CHR 0x5C, CHR ''r'']
      else if n = 9 then [CHR 0x5C, CHR ''t'']
      else if n < 32 \<or> n = 60 \<or> n = 62 \<or> n = 38
      then [CHR 0x5C, CHR ''u'', CHR ''0'', CHR ''0'', hex_digit (n div 16), hex_digit (n mod 16)]
      else [c])"

text \<open>U+2028 and U+2029 are the sequences E2 80 A8 and E2 80 A9.\<close>

definition line_separator :: "string \<Rightarrow> bool" where
  "line_separator s \<longleftrightarrow> take 3 s = [CHR 0xE2, CHR 0x80, CHR 0xA8] \<or> take 3 s = [CHR 0xE2, CHR 0x80, CHR 0xA9]"

function escape_json :: "string \<Rightarrow> string" where
  "escape_json [] = []"
| "escape_json (c # r) =
     (if byte c < 128 then escape_ascii c @ escape_json r
      else if rune_len (c # r) = 0 then CHR 0x5C # ''ufffd'' @ escape_json r
      else if line_separator (c # r)
      then CHR 0x5C # ''u202'' @ [hex_digit (byte (r ! 1) mod 16)] @ escape_json (drop 2 r)
      else take (rune_len (c # r)) (c # r) @ escape_json (drop (rune_len (c # r) - 1) r))"
  by pat_completeness auto
termination by (relation "measure length") auto

definition quoted_json :: "string \<Rightarrow> string" where
  "quoted_json s = CHR 0x22 # escape_json s @ [CHR 0x22]"

text \<open>What is left of a string when its stray bytes have become U+FFFD: EF BF BD.\<close>

function to_utf8 :: "string \<Rightarrow> string" where
  "to_utf8 [] = []"
| "to_utf8 (c # r) =
     (if byte c < 128 then c # to_utf8 r
      else if rune_len (c # r) = 0 then CHR 0xEF # CHR 0xBF # CHR 0xBD # to_utf8 r
      else take (rune_len (c # r)) (c # r) @ to_utf8 (drop (rune_len (c # r) - 1) r))"
  by pat_completeness auto
termination by (relation "measure length") auto

definition ascii :: "string \<Rightarrow> bool" where
  "ascii s \<longleftrightarrow> (\<forall>c\<in>set s. byte c < 128)"

lemma to_utf8_ascii: "ascii s \<Longrightarrow> to_utf8 s = s"
  by (induction s) (simp_all add: ascii_def)

text \<open>The reader of a string, after its opening quotation mark.\<close>

definition hex_value :: "char \<Rightarrow> nat option" where
  "hex_value c = (let n = byte c in
     if 48 \<le> n \<and> n \<le> 57 then Some (n - 48)
     else if 97 \<le> n \<and> n \<le> 102 then Some (n - 87)
     else if 65 \<le> n \<and> n \<le> 70 then Some (n - 55) else None)"

definition hex4 :: "char \<Rightarrow> char \<Rightarrow> char \<Rightarrow> char \<Rightarrow> nat option" where
  "hex4 a b c d = (case (hex_value a, hex_value b, hex_value c, hex_value d) of
     (Some w, Some x, Some y, Some z) \<Rightarrow> Some (((w * 16 + x) * 16 + y) * 16 + z) | _ \<Rightarrow> None)"

definition utf8_of :: "nat \<Rightarrow> string" where
  "utf8_of n =
     (if n < 128 then [char_of n]
      else if n < 2048 then [char_of (192 + n div 64), char_of (128 + n mod 64)]
      else [char_of (224 + n div 4096), char_of (128 + n div 64 mod 64), char_of (128 + n mod 64)])"

definition unescape :: "char \<Rightarrow> char option" where
  "unescape e =
     (if e = CHR 0x22 \<or> e = CHR 0x5C \<or> e = CHR ''/'' then Some e
      else if e = CHR ''b'' then Some (CHR 0x08) else if e = CHR ''f'' then Some (CHR 0x0C)
      else if e = CHR ''n'' then Some (CHR 0x0A) else if e = CHR ''r'' then Some (CHR 0x0D)
      else if e = CHR ''t'' then Some (CHR 0x09) else None)"

definition before :: "string \<Rightarrow> (string \<times> string) option \<Rightarrow> (string \<times> string) option" where
  "before p q = (case q of None \<Rightarrow> None | Some (a, r) \<Rightarrow> Some (p @ a, r))"

fun read_string :: "string \<Rightarrow> (string \<times> string) option" where
  "read_string [] = None"
| "read_string (c # r) =
     (if c = CHR 0x22 then Some ([], r)
      else if c = CHR 0x5C then
        (case r of [] \<Rightarrow> None
         | e # r1 \<Rightarrow>
             if e = CHR ''u'' then
               (case r1 of h1 # h2 # h3 # h4 # r2 \<Rightarrow>
                    (case hex4 h1 h2 h3 h4 of None \<Rightarrow> None
                     | Some n \<Rightarrow> before (utf8_of n) (read_string r2))
                | _ \<Rightarrow> None)
             else (case unescape e of None \<Rightarrow> None | Some x \<Rightarrow> before [x] (read_string r1)))
      else if byte c < 32 then None
      else before [c] (read_string r))"

lemma before_simps [simp]: "before p None = None" "before p (Some (a, r)) = Some (p @ a, r)"
  by (simp_all add: before_def)

lemma before_before: "before p (before q x) = before (p @ q) x"
  by (cases x) (auto simp: before_def)

lemma hex_value_of_digit [simp]: "v < 16 \<Longrightarrow> hex_value (hex_digit v) = Some v"
  by (auto simp: hex_value_def hex_digit_def byte_def of_char_of [where ?'a = nat] Let_def)

lemma byte_char_of [simp]: "n < 256 \<Longrightarrow> byte (char_of n) = n"
  by (simp add: byte_def of_char_of [where ?'a = nat])

lemma byte_eqD: "byte c = n \<Longrightarrow> c = char_of n"
  by auto

lemma hex_value_zero [simp]: "hex_value (CHR ''0'') = Some 0"
  by (simp add: hex_value_def byte_def)

lemma hex4_ascii: "n < 128 \<Longrightarrow> hex4 (CHR ''0'') (CHR ''0'') (hex_digit (n div 16)) (hex_digit (n mod 16)) = Some n"
  by (simp add: hex4_def)

lemma char_of_below: "byte c = n \<Longrightarrow> char_of n = c"
  by auto

lemma escape_hex:
  assumes "byte c \<notin> {34, 92, 8, 12, 10, 13, 9}" "byte c < 32 \<or> byte c = 60 \<or> byte c = 62 \<or> byte c = 38"
  shows "escape_ascii c = [CHR 0x5C, CHR ''u'', CHR ''0'', CHR ''0'', hex_digit (byte c div 16), hex_digit (byte c mod 16)]"
  using assms by (simp add: escape_ascii_def Let_def)

lemma escape_none:
  assumes "byte c \<notin> {34, 92, 60, 62, 38}" "\<not> byte c < 32"
  shows "escape_ascii c = [c]"
  using assms by (simp add: escape_ascii_def Let_def)

lemma special_chars:
  "char_of (34 :: nat) = CHR 0x22" "char_of (92 :: nat) = CHR 0x5C" "char_of (8 :: nat) = CHR 0x08"
  "char_of (12 :: nat) = CHR 0x0C" "char_of (10 :: nat) = CHR 0x0A" "char_of (13 :: nat) = CHR 0x0D"
  "char_of (9 :: nat) = CHR 0x09" "char_of (239 :: nat) = CHR 0xEF" "char_of (191 :: nat) = CHR 0xBF"
  "char_of (189 :: nat) = CHR 0xBD" "char_of (226 :: nat) = CHR 0xE2" "char_of (128 :: nat) = CHR 0x80"
  "char_of (168 :: nat) = CHR 0xA8" "char_of (169 :: nat) = CHR 0xA9"
  by (rule of_char_eq_iff [where ?'a = nat, THEN iffD1]; simp)+

lemma escape_short:
  assumes "byte c = n" "n \<in> {34, 92, 8, 12, 10, 13, 9}"
  shows "read_string (escape_ascii c @ t) = before [c] (read_string t)"
proof -
  have c: "c = char_of n" using assms(1) by auto
  from assms(2) show ?thesis
    by (elim insertE emptyE; simp add: c special_chars escape_ascii_def unescape_def byte_def)
qed

lemma read_ascii:
  assumes "byte c < 128"
  shows "read_string (escape_ascii c @ t) = before [c] (read_string t)"
proof -
  consider "byte c \<in> {34, 92, 8, 12, 10, 13, 9}"
    | "byte c \<notin> {34, 92, 8, 12, 10, 13, 9}" "byte c < 32 \<or> byte c = 60 \<or> byte c = 62 \<or> byte c = 38"
    | "byte c \<notin> {34, 92, 60, 62, 38}" "\<not> byte c < 32" by auto
  then show ?thesis
  proof cases
    case 1
    then show ?thesis by (rule escape_short [OF refl])
  next
    case 2
    show ?thesis unfolding escape_hex [OF 2] using assms by (simp add: hex4_ascii utf8_of_def)
  next
    case 3
    then have "c \<noteq> CHR 0x22" "c \<noteq> CHR 0x5C" by (auto simp: byte_def)
    then show ?thesis unfolding escape_none [OF 3] using 3 by simp
  qed
qed

lemma read_high: "\<forall>c\<in>set p. 128 \<le> byte c \<Longrightarrow> read_string (p @ t) = before p (read_string t)"
proof (induction p)
  case Nil
  show ?case by (cases "read_string t") auto
next
  case (Cons c p)
  then have "c \<noteq> CHR 0x22" "c \<noteq> CHR 0x5C" "\<not> byte c < 32" by (auto simp: byte_def)
  then show ?case using Cons by (simp add: before_before)
qed

lemma conts_high: "conts k r \<Longrightarrow> k \<le> length r \<and> (\<forall>x\<in>set (take k r). 128 \<le> byte x)"
  by (induction k r rule: conts.induct) auto

lemma rune_len_high:
  assumes "128 \<le> byte c"
  shows "\<forall>x\<in>set (take (rune_len (c # r)) (c # r)). 128 \<le> byte x"
  using assms conts_high [of 1 r] conts_high [of 2 r] conts_high [of 3 r]
  by (auto simp: Let_def take_Cons' simp del: take_Suc_Cons)

lemma line_separator_cases:
  assumes "line_separator (c # r)"
  obtains s where "r = CHR 0x80 # CHR 0xA8 # s" "c = CHR 0xE2" | s where "r = CHR 0x80 # CHR 0xA9 # s" "c = CHR 0xE2"
  using assms
  by (cases r; cases "tl r") (auto simp: line_separator_def)

lemma rune_len_separator [simp]:
  "rune_len (CHR 0xE2 # CHR 0x80 # CHR 0xA8 # s) = 3" "rune_len (CHR 0xE2 # CHR 0x80 # CHR 0xA9 # s) = 3"
  by (simp_all add: byte_def second_byte_def numeral_2_eq_2)

lemma escape_separator:
  "escape_json (CHR 0xE2 # CHR 0x80 # CHR 0xA8 # s) = CHR 0x5C # ''u2028'' @ escape_json s"
  "escape_json (CHR 0xE2 # CHR 0x80 # CHR 0xA9 # s) = CHR 0x5C # ''u2029'' @ escape_json s"
  by (simp_all add: line_separator_def hex_digit_def byte_def del: rune_len.simps)
     (rule of_char_eq_iff [where ?'a = nat, THEN iffD1]; simp)+

lemma to_utf8_separator:
  "to_utf8 (CHR 0xE2 # CHR 0x80 # CHR 0xA8 # s) = CHR 0xE2 # CHR 0x80 # CHR 0xA8 # to_utf8 s"
  "to_utf8 (CHR 0xE2 # CHR 0x80 # CHR 0xA9 # s) = CHR 0xE2 # CHR 0x80 # CHR 0xA9 # to_utf8 s"
  by (simp_all add: byte_def del: rune_len.simps)

lemma read_separator:
  "read_string (CHR 0x5C # ''u2028'' @ t) = before [CHR 0xE2, CHR 0x80, CHR 0xA8] (read_string t)"
  "read_string (CHR 0x5C # ''u2029'' @ t) = before [CHR 0xE2, CHR 0x80, CHR 0xA9] (read_string t)"
  by (simp_all add: hex4_def hex_value_def byte_def utf8_of_def special_chars)

theorem read_json_string: "read_string (escape_json s @ CHR 0x22 # rest) = Some (to_utf8 s, rest)"
proof (induction s rule: escape_json.induct)
  case 1
  show ?case by simp
next
  case (2 c r)
  let ?n = "rune_len (c # r)"
  show ?case
  proof (cases "byte c < 128")
    case True
    then show ?thesis using 2(1) by (simp add: read_ascii)
  next
    case high: False
    show ?thesis
    proof (cases "?n = 0")
      case True
      then show ?thesis using high 2(2) by (simp add: hex4_def hex_value_def byte_def utf8_of_def special_chars)
    next
      case rune: False
      show ?thesis
      proof (cases "line_separator (c # r)")
        case True
        note ih = 2(3) [OF high rune True]
        from True show ?thesis
        proof (cases rule: line_separator_cases)
          case (1 s)
          then have "read_string (escape_json s @ CHR 0x22 # rest) = Some (to_utf8 s, rest)"
            using ih by simp
          then show ?thesis
            unfolding 1 escape_separator to_utf8_separator append_Cons append_assoc
            using read_separator(1) by simp
        next
          case (2 s)
          then have "read_string (escape_json s @ CHR 0x22 # rest) = Some (to_utf8 s, rest)"
            using ih by simp
          then show ?thesis
            unfolding 2 escape_separator to_utf8_separator append_Cons append_assoc
            using read_separator(2) by simp
        qed
      next
        case False
        have "read_string (take ?n (c # r) @ t) = before (take ?n (c # r)) (read_string t)" for t
          by (rule read_high [OF rune_len_high]) (use high in simp)
        then show ?thesis using 2(4) [OF high rune False] high rune False by simp
      qed
    qed
  qed
qed

section \<open>Values\<close>

definition join_comma :: "string list \<Rightarrow> string" where
  "join_comma ts = (case ts of [] \<Rightarrow> [] | t # r \<Rightarrow> t @ concat (map ((#) (CHR '','')) r))"

text \<open>json.Marshal: the keys of a map are sorted.\<close>

fun json_text :: "json \<Rightarrow> string" where
  "json_text JNull = ''null''"
| "json_text (JBool b) = (if b then ''true'' else ''false'')"
| "json_text (JNumber t) = t"
| "json_text (JString s) = quoted_json s"
| "json_text (JArray vs) = CHR ''['' # join_comma (map json_text vs) @ '']''"
| "json_text (JObject kvs) = CHR ''{'' #
     join_comma (map (\<lambda>(k, t). quoted_json k @ CHR '':'' # t)
       (sort_key fst (map (\<lambda>(k, v). (k, json_text v)) kvs))) @ ''}''"

text \<open>The value that the text stands for: sorted keys, strings in UTF-8.\<close>

fun json_normal :: "json \<Rightarrow> json" where
  "json_normal (JString s) = JString (to_utf8 s)"
| "json_normal (JArray vs) = JArray (map json_normal vs)"
| "json_normal (JObject kvs) =
     JObject (map (\<lambda>(k, v). (to_utf8 k, v)) (sort_key fst (map (\<lambda>(k, v). (k, json_normal v)) kvs)))"
| "json_normal v = v"

text \<open>A reader of texts without white space. Its first argument bounds the depth of its calls.\<close>

definition number_char :: "char \<Rightarrow> bool" where
  "number_char c \<longleftrightarrow> is_digit c \<or> c \<in> {CHR ''-'', CHR ''+'', CHR ''.'', CHR ''e'', CHR ''E''}"

fun read_value :: "nat \<Rightarrow> string \<Rightarrow> (json \<times> string) option"
and read_items :: "nat \<Rightarrow> string \<Rightarrow> (json list \<times> string) option"
and read_fields :: "nat \<Rightarrow> string \<Rightarrow> ((string \<times> json) list \<times> string) option" where
  "read_value 0 s = None"
| "read_value (Suc n) s =
     (case s of [] \<Rightarrow> None
      | c # r \<Rightarrow>
          if c = CHR ''{'' then
            (if take 1 r = ''}'' then Some (JObject [], tl r)
             else (case read_fields n r of None \<Rightarrow> None | Some (kvs, t) \<Rightarrow> Some (JObject kvs, t)))
          else if c = CHR ''['' then
            (if take 1 r = '']'' then Some (JArray [], tl r)
             else (case read_items n r of None \<Rightarrow> None | Some (vs, t) \<Rightarrow> Some (JArray vs, t)))
          else if c = CHR 0x22 then
            (case read_string r of None \<Rightarrow> None | Some (x, t) \<Rightarrow> Some (JString x, t))
          else if take 4 s = ''null'' then Some (JNull, drop 4 s)
          else if take 4 s = ''true'' then Some (JBool True, drop 4 s)
          else if take 5 s = ''false'' then Some (JBool False, drop 5 s)
          else if number_char c then Some (JNumber (takeWhile number_char s), dropWhile number_char s)
          else None)"
| "read_items 0 s = None"
| "read_items (Suc n) s =
     (case read_value n s of
        Some (v, c # t) \<Rightarrow>
          if c = CHR '','' then (case read_items n t of None \<Rightarrow> None | Some (vs, u) \<Rightarrow> Some (v # vs, u))
          else if c = CHR '']'' then Some ([v], t) else None
      | _ \<Rightarrow> None)"
| "read_fields 0 s = None"
| "read_fields (Suc n) s =
     (case s of [] \<Rightarrow> None
      | q # r \<Rightarrow>
          if q \<noteq> CHR 0x22 then None
          else (case read_string r of
              Some (k, d # r1) \<Rightarrow>
                if d \<noteq> CHR '':'' then None
                else (case read_value n r1 of
                    Some (v, c # t) \<Rightarrow>
                      if c = CHR '',''
                      then (case read_fields n t of None \<Rightarrow> None | Some (kvs, u) \<Rightarrow> Some ((k, v) # kvs, u))
                      else if c = CHR ''}'' then Some ([(k, v)], t) else None
                  | _ \<Rightarrow> None)
            | _ \<Rightarrow> None))"

definition read_json :: "string \<Rightarrow> json option" where
  "read_json s = (case read_value (Suc (length s)) s of Some (v, []) \<Rightarrow> Some v | _ \<Rightarrow> None)"

fun numbers_ok :: "json \<Rightarrow> bool" where
  "numbers_ok (JNumber t) = (t \<noteq> [] \<and> (\<forall>c\<in>set t. number_char c))"
| "numbers_ok (JArray vs) = list_all numbers_ok vs"
| "numbers_ok (JObject kvs) = list_all (\<lambda>(k, v). numbers_ok v) kvs"
| "numbers_ok v = True"

lemma join_comma_simps [simp]:
  "join_comma [] = []" "join_comma [t] = t" "join_comma (t # u # r) = t @ CHR '','' # join_comma (u # r)"
  by (simp_all add: join_comma_def)

lemma insort_values:
  "insort_key fst (k, f v) (map (\<lambda>(k, v). (k, f v)) kvs) = map (\<lambda>(k, v). (k, f v)) (insort_key fst (k, v) kvs)"
  by (induction kvs) auto

lemma sort_values: "sort_key fst (map (\<lambda>(k, v). (k, f v)) kvs) = map (\<lambda>(k, v). (k, f v)) (sort_key fst kvs)"
  by (induction kvs) (auto simp: insort_values split: prod.splits)

definition stops :: "string \<Rightarrow> bool" where
  "stops r \<longleftrightarrow> r = [] \<or> \<not> number_char (hd r)"

lemma stops_punctuation [simp]: "stops (CHR '','' # r)" "stops (CHR '']'' # r)" "stops (CHR ''}'' # r)" "stops []"
  by (simp_all add: stops_def number_char_def is_digit_def)

definition readable :: "json \<Rightarrow> bool" where
  "readable v \<longleftrightarrow> (\<forall>n rest. length (json_text v) \<le> n \<longrightarrow> stops rest \<longrightarrow>
     read_value (Suc n) (json_text v @ rest) = Some (json_normal v, rest))"

lemma readableD:
  "readable v \<Longrightarrow> length (json_text v) < n \<Longrightarrow> stops rest \<Longrightarrow>
    read_value n (json_text v @ rest) = Some (json_normal v, rest)"
  by (cases n) (auto simp: readable_def)

lemma readableI:
  "(\<And>n rest. length (json_text v) \<le> n \<Longrightarrow> stops rest \<Longrightarrow>
      read_value (Suc n) (json_text v @ rest) = Some (json_normal v, rest)) \<Longrightarrow> readable v"
  by (simp only: readable_def) blast

lemma json_text_head:
  "numbers_ok v \<Longrightarrow> json_text v \<noteq> [] \<and> hd (json_text v) \<noteq> CHR '']'' \<and> hd (json_text v) \<noteq> CHR ''}''"
  by (cases v) (auto simp: quoted_json_def number_char_def is_digit_def neq_Nil_conv)

lemma read_items_join:
  assumes "vs \<noteq> []" "\<forall>v\<in>set vs. readable v \<and> numbers_ok v" "length (join_comma (map json_text vs)) + 2 \<le> n"
  shows "read_items n (join_comma (map json_text vs) @ CHR '']'' # rest) = Some (map json_normal vs, rest)"
  using assms
proof (induction vs arbitrary: n rule: induct_list012)
  case (2 v)
  then obtain m where "n = Suc m" "length (json_text v) < m" by (cases n) auto
  then show ?case using 2 readableD [of v m "CHR '']'' # rest"] by simp
next
  case (3 v u vs)
  then obtain m where m: "n = Suc m" "length (json_text v) < m" by (cases n) auto
  let ?r = "join_comma (map json_text (u # vs)) @ CHR '']'' # rest"
  have "json_text v \<noteq> []" using 3(4) json_text_head by simp
  then have "length (join_comma (map json_text (u # vs))) + 2 \<le> m"
    using 3(5) m(1) by (cases "json_text v") simp_all
  then have "read_items m ?r = Some (map json_normal (u # vs), rest)"
    using 3(2) [of m] 3(4) by simp
  then show ?case using m 3(4) readableD [of v m "CHR '','' # ?r"] by simp
qed simp

definition field_text :: "string \<times> json \<Rightarrow> string" where
  "field_text = (\<lambda>(k, v). quoted_json k @ CHR '':'' # json_text v)"

definition field_normal :: "string \<times> json \<Rightarrow> string \<times> json" where
  "field_normal = (\<lambda>(k, v). (to_utf8 k, json_normal v))"

lemma json_text_JObject:
  "json_text (JObject kvs) = CHR ''{'' # join_comma (map field_text (sort_key fst kvs)) @ ''}''"
  by (simp only: json_text.simps sort_values map_map) (simp add: comp_def field_text_def split_def)

lemma json_normal_JObject: "json_normal (JObject kvs) = JObject (map field_normal (sort_key fst kvs))"
  by (simp only: json_normal.simps sort_values map_map) (simp add: comp_def field_normal_def split_def)

lemma field_text_quote: "field_text kv @ r = CHR 0x22 # (escape_json (fst kv) @ CHR 0x22 # CHR '':'' # json_text (snd kv) @ r)"
  by (simp add: field_text_def split_def quoted_json_def)

lemma read_fields_join:
  assumes "kvs \<noteq> []" "\<forall>kv\<in>set kvs. readable (snd kv)" "length (join_comma (map field_text kvs)) + 2 \<le> n"
  shows "read_fields n (join_comma (map field_text kvs) @ CHR ''}'' # rest) = Some (map field_normal kvs, rest)"
  using assms
proof (induction kvs arbitrary: n rule: induct_list012)
  case (2 kv)
  then obtain m where m: "n = Suc m" "length (json_text (snd kv)) < m"
    by (cases n) (auto simp: field_text_def split_def)
  then show ?case
    using 2 readableD [of "snd kv" m "CHR ''}'' # rest"]
    by (simp add: field_text_quote read_json_string field_normal_def split_def)
next
  case (3 kv lv kvs)
  then obtain m where m: "n = Suc m" "length (json_text (snd kv)) < m"
    by (cases n) (auto simp: field_text_def split_def)
  let ?r = "join_comma (map field_text (lv # kvs)) @ CHR ''}'' # rest"
  have "length (join_comma (map field_text (lv # kvs))) + 2 \<le> m"
    using 3(5) m(1) by (simp add: field_text_def split_def)
  then have "read_fields m ?r = Some (map field_normal (lv # kvs), rest)"
    using 3(2) [of m] 3(4) by simp
  then show ?case
    using m 3(4) readableD [of "snd kv" m "CHR '','' # ?r"]
    by (simp add: field_text_quote read_json_string field_normal_def split_def)
qed simp

lemma takeWhile_stops:
  "\<forall>c\<in>set t. number_char c \<Longrightarrow> stops r \<Longrightarrow> takeWhile number_char (t @ r) = t \<and> dropWhile number_char (t @ r) = r"
  by (cases r) (auto simp: stops_def)

lemma readable_number:
  assumes "numbers_ok (JNumber t)"
  shows "readable (JNumber t)"
proof (rule readableI)
  fix n rest assume "stops rest"
  moreover obtain c u where "t = c # u" "number_char c" using assms by (cases t) auto
  moreover from this have "c \<notin> {CHR ''{'', CHR ''['', CHR 0x22, CHR ''n'', CHR ''t'', CHR ''f''}"
    by (auto simp: number_char_def is_digit_def)
  ultimately show "read_value (Suc n) (json_text (JNumber t) @ rest) = Some (json_normal (JNumber t), rest)"
    using assms takeWhile_stops [of t rest] by simp
qed

lemma readable_array:
  assumes "\<forall>v\<in>set vs. readable v \<and> numbers_ok v"
  shows "readable (JArray vs)"
proof (rule readableI)
  fix n rest assume n: "length (json_text (JArray vs)) \<le> n"
  show "read_value (Suc n) (json_text (JArray vs) @ rest) = Some (json_normal (JArray vs), rest)"
  proof (cases "vs = []")
    case False
    then obtain v us where vs: "vs = v # us" by (cases vs) auto
    then obtain c t where "join_comma (map json_text vs) = c # t" "c \<noteq> CHR '']''"
      using assms json_text_head [of v] by (cases us) (auto simp: neq_Nil_conv)
    then show ?thesis
      using read_items_join [OF False assms, of n rest] n by simp
  qed simp
qed

lemma readable_object:
  assumes "\<forall>kv\<in>set kvs. readable (snd kv)"
  shows "readable (JObject kvs)"
proof (rule readableI, unfold json_text_JObject json_normal_JObject)
  let ?s = "sort_key fst kvs"
  fix n rest assume n: "length (CHR ''{'' # join_comma (map field_text ?s) @ ''}'') \<le> n"
  show "read_value (Suc n) ((CHR ''{'' # join_comma (map field_text ?s) @ ''}'') @ rest) =
      Some (JObject (map field_normal ?s), rest)"
  proof (cases "?s = []")
    case False
    then obtain kv us where "?s = kv # us" by (cases ?s) auto
    then obtain t where "join_comma (map field_text ?s) = CHR 0x22 # t"
      using field_text_quote [of kv "[]"] by (cases us) simp_all
    then show ?thesis
      using read_fields_join [of ?s n rest] False assms n by simp
  qed simp
qed

lemma json_readable: "numbers_ok v \<Longrightarrow> readable v"
proof (induction v)
  case (JString s)
  show ?case by (rule readableI) (simp add: quoted_json_def read_json_string)
next
  case (JArray vs)
  then show ?case by (intro readable_array) (auto simp: list_all_iff)
next
  case (JObject kvs)
  show ?case
  proof (rule readable_object, rule ballI)
    fix kv assume kv: "kv \<in> set kvs"
    moreover from kv have "numbers_ok (snd kv)" using JObject.prems by (auto simp: list_all_iff)
    ultimately show "readable (snd kv)" using JObject.IH [of kv "snd kv"] by (simp add: snds.simps)
  qed
next
  case (JNumber t)
  then show ?case by (rule readable_number)
next
  case (JBool b)
  show ?case by (rule readableI) simp
next
  case JNull
  show ?case by (rule readableI) simp
qed

theorem read_json_text: "numbers_ok v \<Longrightarrow> read_json (json_text v) = Some (json_normal v)"
  using readableD [OF json_readable, of v "Suc (length (json_text v))" "[]"] by (simp add: read_json_def)

end
