(* ===== verification/Dispatcher.thy ===== *)
theory Dispatcher
  imports Json_Text
begin

text \<open>
  internal/scheduler/dispatcher.go: the envelope of a Celery task (Kombu protocol 2) and its RPUSH to
  the queue in Redis. The client of Redis and the counter of metrics.IncCeleryDispatch are
  parameters; redis_adapter.go only forwards to the first. What ctx.Err() answers is an argument.
\<close>

record 's CeleryDispatcher =
  cd_RPush :: "string \<Rightarrow> string \<Rightarrow> ('s, int) eff"
  cd_Inc :: "string \<Rightarrow> 's \<Rightarrow> 's"
  cd_builder :: "(string \<Rightarrow> string \<Rightarrow> goerr + string) option"
  cd_queue :: string
  cd_hostname :: string

definition NewCeleryDispatcher ::
  "(string \<Rightarrow> string \<Rightarrow> ('s, int) eff) \<Rightarrow> (string \<Rightarrow> 's \<Rightarrow> 's) \<Rightarrow> string \<Rightarrow> string \<Rightarrow> 's CeleryDispatcher" where
  "NewCeleryDispatcher push inc queue hostname =
     \<lparr>cd_RPush = push, cd_Inc = inc, cd_builder = None,
      cd_queue = (if queue = [] then ''celery'' else queue),
      cd_hostname = (if hostname = [] then ''localhost'' else hostname)\<rparr>"

definition SetBuilder :: "(string \<Rightarrow> string \<Rightarrow> goerr + string) \<Rightarrow> 's CeleryDispatcher \<Rightarrow> 's CeleryDispatcher" where
  "SetBuilder b d = d\<lparr>cd_builder := Some b\<rparr>"

definition Dispatcher_resolveUserID :: "string \<Rightarrow> string" where
  "Dispatcher_resolveUserID userID = (if userID = [] then ''cli-anonymous'' else userID)"

section \<open>Python texts\<close>

text \<open>strings.ReplaceAll of an apostrophe by a backslash and an apostrophe.\<close>

fun escape_quote :: "string \<Rightarrow> string" where
  "escape_quote [] = []"
| "escape_quote (c # r) = (if c = CHR 0x27 then CHR 0x5C # CHR 0x27 # escape_quote r else c # escape_quote r)"

definition python_quoted :: "string \<Rightarrow> string" where
  "python_quoted s = CHR 0x27 # escape_quote s @ [CHR 0x27]"

text \<open>The loop writes a comma and a space before every entry but the first.\<close>

definition python_entries :: "string list \<Rightarrow> string" where
  "python_entries ts = (case ts of [] \<Rightarrow> [] | t # r \<Rightarrow> t @ concat (map ((@) '', '') r))"

definition pythonReprList :: "string list \<Rightarrow> string" where
  "pythonReprList args =
     (if args = [] then ''[]'' else CHR ''['' # python_entries (map python_quoted args) @ '']'')"

definition pythonReprDict :: "(string \<times> string) list \<Rightarrow> string" where
  "pythonReprDict kwargs =
     (if kwargs = [] then ''{}''
      else CHR ''{'' # python_entries (map (\<lambda>(k, v). python_quoted k @ '': '' @ python_quoted v)
             (sort_key fst kwargs)) @ ''}'')"

section \<open>The envelope\<close>

definition taskName :: string where
  "taskName = ''pipelines.workers.ingestion_worker.run''"

definition envelope_body :: "string \<Rightarrow> string \<Rightarrow> json" where
  "envelope_body workflowID documentID =
     (let args = JArray [JString documentID];
          kwargs = JObject [(''workflow_id'', JString workflowID)];
          embed = JObject [(''callbacks'', JNull), (''chain'', JNull), (''chord'', JNull), (''errbacks'', JNull)]
      in JArray [args, kwargs, embed])"

definition envelope_headers :: "'s CeleryDispatcher \<Rightarrow> string \<Rightarrow> string \<Rightarrow> string \<Rightarrow> json" where
  "envelope_headers d workflowID documentID userID =
     (let argsRepr = pythonReprList [documentID];
          kwargsRepr = pythonReprDict [(''workflow_id'', workflowID)];
          origin = ''go-control-plane@'' @ cd_hostname d
      in JObject
         [(''argsrepr'', JString argsRepr), (''eta'', JNull), (''expires'', JNull), (''group'', JNull),
          (''group_index'', JNull), (''id'', JString workflowID), (''ignore_result'', JBool False),
          (''kwargsrepr'', JString kwargsRepr), (''lang'', JString ''py''), (''origin'', JString origin),
          (''parent_id'', JNull), (''retries'', JNumber ''0''), (''root_id'', JString workflowID),
          (''shadow'', JNull), (''task'', JString taskName), (''timelimit'', JArray [JNull, JNull]),
          (''user_id'', JString (Dispatcher_resolveUserID userID))])"

definition envelope_properties :: "'s CeleryDispatcher \<Rightarrow> string \<Rightarrow> string \<Rightarrow> string \<Rightarrow> json" where
  "envelope_properties d workflowID deliveryTag replyTo =
     JObject
       [(''body_encoding'', JString ''base64''), (''correlation_id'', JString workflowID),
        (''delivery_info'', JObject [(''exchange'', JString []), (''routing_key'', JString (cd_queue d))]),
        (''delivery_mode'', JNumber ''2''), (''delivery_tag'', JString deliveryTag),
        (''priority'', JNumber ''0''), (''reply_to'', JString replyTo)]"

definition envelope ::
  "'s CeleryDispatcher \<Rightarrow> string \<Rightarrow> string \<Rightarrow> string \<Rightarrow> string \<Rightarrow> string \<Rightarrow> string \<Rightarrow> json" where
  "envelope d encodedBody workflowID documentID deliveryTag replyTo userID =
     JObject
       [(''body'', JString encodedBody), (''content-encoding'', JString ''utf-8''),
        (''content-type'', JString ''application/json''),
        (''headers'', envelope_headers d workflowID documentID userID),
        (''properties'', envelope_properties d workflowID deliveryTag replyTo)]"

text \<open>json.Marshal of these values does not fail, so the two error branches are dead.\<close>

definition marshal_text :: "json \<Rightarrow> goerr + string" where
  "marshal_text v = Inr (json_text v)"

definition BuildEnvelope ::
  "'s CeleryDispatcher \<Rightarrow> string \<Rightarrow> string \<Rightarrow> string \<Rightarrow> string \<Rightarrow> string \<Rightarrow> goerr + string" where
  "BuildEnvelope d workflowID documentID deliveryTag replyTo userID =
     (case marshal_text (envelope_body workflowID documentID) of
        Inl e \<Rightarrow> Inl (Wrap ''body marshal'' [Sentinel ErrEnvelopeSerializationFailed, e])
      | Inr bodyJSON \<Rightarrow>
          (case marshal_text (envelope d (StdEncoding_EncodeToString bodyJSON)
                  workflowID documentID deliveryTag replyTo userID) of
             Inl e \<Rightarrow> Inl (Wrap ''envelope marshal'' [Sentinel ErrEnvelopeSerializationFailed, e])
           | Inr result \<Rightarrow> Inr result))"

section \<open>Dispatch\<close>

definition build_for :: "'s CeleryDispatcher \<Rightarrow> string \<Rightarrow> string \<Rightarrow> goerr + string" where
  "build_for d workflowID documentID = (case cd_builder d of
     Some b \<Rightarrow> b workflowID documentID
   | None \<Rightarrow> BuildEnvelope d workflowID documentID workflowID workflowID [])"

definition Dispatch :: "'s CeleryDispatcher \<Rightarrow> goerr option \<Rightarrow> string \<Rightarrow> string \<Rightarrow> ('s, unit) eff" where
  "Dispatch d ctx_Err workflowID documentID s =
     (case ctx_Err of
        Some e \<Rightarrow> (Inl (wrap1 ''dispatch cancelled'' e), s)
      | None \<Rightarrow>
          (case build_for d workflowID documentID of
             Inl e \<Rightarrow> (Inl (wrap1 ''dispatch envelope build failed'' e), s)
           | Inr envelopeBytes \<Rightarrow>
               (case cd_RPush d (cd_queue d) envelopeBytes s of
                  (Inl e, s1) \<Rightarrow> (Inl (Wrap ''dispatch'' [Sentinel ErrDispatchFailed, e]), cd_Inc d ''failure'' s1)
                | (Inr _, s1) \<Rightarrow> (Inr (), cd_Inc d ''success'' s1))))"

section \<open>What the worker reads\<close>

text \<open>
  A Python string literal between apostrophes, after the opening one; unknown escapes stay as they
  are. A line feed, a carriage return or a NUL byte inside it is a syntax error, and a text that is
  no UTF-8 is no source.
\<close>

fun read_python :: "string \<Rightarrow> (string \<times> string) option" where
  "read_python [] = None"
| "read_python (c # r) =
     (if c = CHR 0x27 then Some ([], r)
      else if c = CHR 0x0A \<or> c = CHR 0x0D \<or> c = CHR 0x00 then None
      else if c = CHR 0x5C then
        (case r of [] \<Rightarrow> None
         | e # t \<Rightarrow>
             if e = CHR 0x27 \<or> e = CHR 0x5C \<or> e = CHR 0x22 then before [e] (read_python t)
             else if e = CHR ''n'' then before [CHR 0x0A] (read_python t)
             else if e = CHR ''r'' then before [CHR 0x0D] (read_python t)
             else if e = CHR ''t'' then before [CHR 0x09] (read_python t)
             else before [c, e] (read_python t))
      else before [c] (read_python r))"

fun read_python_items :: "nat \<Rightarrow> string \<Rightarrow> (string list \<times> string) option" where
  "read_python_items 0 s = None"
| "read_python_items (Suc n) s =
     (case s of [] \<Rightarrow> None
      | q # r \<Rightarrow>
          if q \<noteq> CHR 0x27 then None
          else (case read_python r of
              Some (x, c # t) \<Rightarrow>
                if c = CHR '']'' then Some ([x], t)
                else if c = CHR '','' \<and> take 1 t = '' '' then
                  (case read_python_items n (tl t) of None \<Rightarrow> None | Some (xs, u) \<Rightarrow> Some (x # xs, u))
                else None
            | _ \<Rightarrow> None))"

definition read_python_list :: "string \<Rightarrow> string list option" where
  "read_python_list s =
     (if to_utf8 s \<noteq> s then None
      else if s = ''[]'' then Some []
      else if take 1 s = ''['' then
        (case read_python_items (length s) (tl s) of Some (xs, []) \<Rightarrow> Some xs | _ \<Rightarrow> None)
      else None)"

text \<open>The texts that the Go side can write: UTF-8 without the four bytes it would have to escape.\<close>

definition plain_text :: "string \<Rightarrow> bool" where
  "plain_text s \<longleftrightarrow> to_utf8 s = s \<and> (\<forall>c\<in>set s. c \<noteq> CHR 0x5C \<and> c \<noteq> CHR 0x0A \<and> c \<noteq> CHR 0x0D \<and> c \<noteq> CHR 0x00)"

lemma read_python_quoted:
  "plain_text s \<Longrightarrow> read_python (escape_quote s @ CHR 0x27 # rest) = Some (s, rest)"
proof -
  have "\<forall>c\<in>set s. c \<noteq> CHR 0x5C \<and> c \<noteq> CHR 0x0A \<and> c \<noteq> CHR 0x0D \<and> c \<noteq> CHR 0x00 \<Longrightarrow>
      read_python (escape_quote s @ CHR 0x27 # rest) = Some (s, rest)"
    by (induction s) auto
  then show "plain_text s \<Longrightarrow> ?thesis" by (simp add: plain_text_def)
qed

lemma conts_iff:
  "conts 1 r \<longleftrightarrow> (\<exists>b t. r = b # t \<and> 128 \<le> byte b \<and> byte b < 192)"
  "conts 2 r \<longleftrightarrow> (\<exists>b e t. r = b # e # t \<and> 128 \<le> byte b \<and> byte b < 192 \<and> 128 \<le> byte e \<and> byte e < 192)"
  "conts 3 r \<longleftrightarrow> (\<exists>b e f t. r = b # e # f # t \<and> 128 \<le> byte b \<and> byte b < 192 \<and> 128 \<le> byte e \<and> byte e < 192 \<and>
     128 \<le> byte f \<and> byte f < 192)"
proof -
  have step: "conts (Suc k) r \<longleftrightarrow> (\<exists>b t. r = b # t \<and> 128 \<le> byte b \<and> byte b < 192 \<and> conts k t)" for k r
    by (cases r) simp_all
  show "conts 1 r \<longleftrightarrow> (\<exists>b t. r = b # t \<and> 128 \<le> byte b \<and> byte b < 192)" by (simp add: step)
  show "conts 2 r \<longleftrightarrow> (\<exists>b e t. r = b # e # t \<and> 128 \<le> byte b \<and> byte b < 192 \<and> 128 \<le> byte e \<and> byte e < 192)"
    by (auto simp: step numeral_2_eq_2)
  show "conts 3 r \<longleftrightarrow> (\<exists>b e f t. r = b # e # f # t \<and> 128 \<le> byte b \<and> byte b < 192 \<and> 128 \<le> byte e \<and> byte e < 192 \<and>
      128 \<le> byte f \<and> byte f < 192)"
    by (auto simp: step numeral_3_eq_3)
qed

text \<open>A sequence of two to four bytes: the same before any rest, and without an apostrophe.\<close>

lemma rune_sequence:
  assumes "\<not> byte c < 128" and "rune_len (c # r) \<noteq> 0"
  obtains u v where "r = u @ v" "\<forall>b\<in>set u. 128 \<le> byte b" "\<forall>t. rune_len (c # u @ t) = Suc (length u)"
proof -
  from assms consider "194 \<le> byte c" "byte c < 224" "conts 1 r"
    | "224 \<le> byte c" "byte c < 240" "conts 2 r"
      "second_byte (if byte c = 224 then 160 else 128) (if byte c = 237 then 160 else 192) r"
    | "240 \<le> byte c" "byte c < 245" "conts 3 r"
      "second_byte (if byte c = 240 then 144 else 128) (if byte c = 244 then 144 else 192) r"
    by (simp only: rune_len.simps Let_def split: if_splits)
  then show thesis
  proof cases
    case 1
    from 1(3) [unfolded conts_iff] obtain b t where r: "r = [b] @ t" "128 \<le> byte b" "byte b < 192" by auto
    show thesis by (rule that [of "[b]" t]) (use r 1 in simp_all)
  next
    case 2
    from 2(3) obtain b e t where r: "r = [b, e] @ t" "128 \<le> byte b" "byte b < 192" "128 \<le> byte e" "byte e < 192"
      by (auto simp: conts_iff)
    show thesis by (rule that [of "[b, e]" t]) (use r 2 in \<open>simp_all add: conts_iff second_byte_def\<close>)
  next
    case 3
    from 3(3) obtain b e f t where r: "r = [b, e, f] @ t" "128 \<le> byte b" "byte b < 192" "128 \<le> byte e" "byte e < 192"
      "128 \<le> byte f" "byte f < 192"
      by (auto simp: conts_iff)
    show thesis by (rule that [of "[b, e, f]" t]) (use r 3 in \<open>simp_all add: conts_iff second_byte_def\<close>)
  qed
qed

lemma to_utf8_sequence:
  "\<not> byte c < 128 \<Longrightarrow> rune_len (c # u @ t) = Suc (length u) \<Longrightarrow> to_utf8 (c # u @ t) = c # u @ to_utf8 t"
  by (simp del: rune_len.simps)

lemma to_utf8_longer: "length s \<le> length (to_utf8 s)"
proof (induction s rule: to_utf8.induct)
  case (2 c r)
  consider "byte c < 128" | "\<not> byte c < 128" "rune_len (c # r) = 0" | "\<not> byte c < 128" "rune_len (c # r) \<noteq> 0" by blast
  then show ?case
  proof cases
    case 3
    then obtain u v where u: "r = u @ v" "\<forall>t. rune_len (c # u @ t) = Suc (length u)"
      using rune_sequence [of c r] by blast
    show ?thesis using "2.IH"(3) [OF 3] 3(1) u by (simp add: to_utf8_sequence del: to_utf8.simps rune_len.simps)
  qed (use 2 in \<open>simp_all del: rune_len.simps\<close>)
qed simp

lemma escape_sequence: "\<forall>b\<in>set u. 128 \<le> byte b \<Longrightarrow> escape_quote (u @ t) = u @ escape_quote t"
  by (induction u) (auto simp: byte_def)

lemma to_utf8_escape:
  "to_utf8 s = s \<Longrightarrow> to_utf8 (escape_quote s @ t) = escape_quote s @ to_utf8 t"
proof (induction s rule: to_utf8.induct)
  case (2 c r)
  consider "byte c < 128" | "\<not> byte c < 128" "rune_len (c # r) = 0" | "\<not> byte c < 128" "rune_len (c # r) \<noteq> 0" by blast
  then show ?case
  proof cases
    case 1
    with 2 show ?thesis by (simp, simp add: byte_def)
  next
    case 2
    with "2.prems" have "length (CHR 0xEF # CHR 0xBF # CHR 0xBD # to_utf8 r) = length (c # r)"
      by (simp del: rune_len.simps)
    with to_utf8_longer [of r] show ?thesis by simp
  next
    case 3
    then obtain u v where u: "r = u @ v" "\<forall>b\<in>set u. 128 \<le> byte b" "\<forall>t'. rune_len (c # u @ t') = Suc (length u)"
      using rune_sequence [of c r] by blast
    have "to_utf8 v = v" using "2.prems" 3(1) u(1,3) by (simp add: to_utf8_sequence del: to_utf8.simps rune_len.simps)
    moreover have "to_utf8 v = v \<Longrightarrow> to_utf8 (escape_quote v @ t) = escape_quote v @ to_utf8 t"
      using "2.IH"(3) [OF 3] u(1,3) by (simp del: to_utf8.simps rune_len.simps)
    moreover have "c \<noteq> CHR 0x27" using 3(1) by (auto simp: byte_def)
    ultimately show ?thesis using 3(1) u
      by (simp add: escape_sequence to_utf8_sequence del: to_utf8.simps rune_len.simps)
  qed
qed simp

lemma to_utf8_quoted:
  "plain_text s \<Longrightarrow> to_utf8 (python_quoted s @ t) = python_quoted s @ to_utf8 t"
  by (simp add: python_quoted_def plain_text_def to_utf8_escape byte_def)

lemma python_entries_simps [simp]:
  "python_entries [] = []" "python_entries [t] = t"
  "python_entries (t # u # r) = t @ '', '' @ python_entries (u # r)"
  by (simp_all add: python_entries_def)

lemma read_python_entries:
  assumes "xs \<noteq> []" "\<forall>x\<in>set xs. plain_text x" "length xs \<le> n"
  shows "read_python_items n (python_entries (map python_quoted xs) @ CHR '']'' # rest) = Some (xs, rest)"
  using assms
proof (induction xs arbitrary: n rule: induct_list012)
  case (2 x)
  then show ?case by (cases n) (simp_all add: python_quoted_def read_python_quoted)
next
  case (3 x y xs)
  then obtain m where "n = Suc m" "length (y # xs) \<le> m" by (cases n) auto
  with 3 show ?case by (simp add: python_quoted_def read_python_quoted)
qed simp

lemma python_entries_length: "length xs \<le> length (python_entries (map python_quoted xs))"
  by (induction xs rule: induct_list012) (simp_all add: python_quoted_def)

lemma to_utf8_entries:
  "\<forall>x\<in>set xs. plain_text x \<Longrightarrow>
     to_utf8 (python_entries (map python_quoted xs) @ t) = python_entries (map python_quoted xs) @ to_utf8 t"
proof (induction xs rule: induct_list012)
  case (3 x y xs)
  have "to_utf8 (CHR '','' # CHR '' '' # z) = CHR '','' # CHR '' '' # to_utf8 z" for z by (simp add: byte_def)
  with 3 show ?case by (simp add: to_utf8_quoted del: to_utf8.simps)
qed (simp_all add: to_utf8_quoted del: to_utf8.simps)

lemma to_utf8_list:
  assumes "\<forall>x\<in>set args. plain_text x"
  shows "to_utf8 (pythonReprList args) = pythonReprList args"
proof -
  have hd: "to_utf8 (CHR ''['' # z) = CHR ''['' # to_utf8 z" for z by (simp add: byte_def)
  have tl: "to_utf8 '']'' = '']''" "to_utf8 ''[]'' = ''[]''" by (simp_all add: to_utf8_ascii ascii_def byte_def del: to_utf8.simps)
  show ?thesis
    by (cases "args = []") (simp add: pythonReprList_def tl del: to_utf8.simps,
      simp only: pythonReprList_def if_False tl hd to_utf8_entries [OF assms])
qed

lemma python_list_reads:
  assumes "\<forall>x\<in>set args. plain_text x"
  shows "read_python_list (pythonReprList args) = Some args"
proof (cases "args = []")
  case True
  then show ?thesis by (simp add: read_python_list_def pythonReprList_def byte_def)
next
  case False
  have "pythonReprList args \<noteq> ''[]''"
    using False by (cases args; cases "tl args") (auto simp: pythonReprList_def python_quoted_def)
  moreover have "length args \<le> length (python_entries (map python_quoted args)) + 2"
    using python_entries_length [of args] by simp
  ultimately show ?thesis
    using read_python_entries [OF False assms, of _ "[]"] False
    by (simp add: read_python_list_def to_utf8_list [OF assms])
       (simp add: pythonReprList_def del: read_python_items.simps)
qed

text \<open>A backslash is not escaped, nor are the ends of lines and NUL: the text is then no Python literal.\<close>

lemma python_unread:
  assumes "c \<in> {CHR 0x5C, CHR 0x0A, CHR 0x0D, CHR 0x00}"
  shows "read_python_list (pythonReprList [[c]]) = None"
  using assms
  by (elim insertE emptyE; simp add: read_python_list_def pythonReprList_def python_quoted_def del: to_utf8.simps)

section \<open>Round trip\<close>

lemma ascii_simps [simp]: "ascii []" "ascii (c # s) \<longleftrightarrow> byte c < 128 \<and> ascii s" "ascii (s @ t) \<longleftrightarrow> ascii s \<and> ascii t"
  by (auto simp: ascii_def)

lemma ascii_base64 [simp]: "ascii (StdEncoding_EncodeToString s)"
proof -
  have [simp]: "byte (base64_digit v) < 128" if "v < 64" for v
  proof -
    have "v - 4 < 128" using that by simp
    then show ?thesis using that by (simp add: base64_digit_def)
  qed
  show ?thesis
    by (induction s rule: StdEncoding_EncodeToString.induct) (simp_all add: base64_byte_parts, simp_all add: byte_def)
qed

lemma ascii_escape [simp]: "ascii s \<Longrightarrow> ascii (escape_quote s)"
  by (induction s) (simp_all, simp add: byte_def)

lemma json_normal_body:
  "ascii w \<Longrightarrow> ascii doc \<Longrightarrow> json_normal (envelope_body w doc) = envelope_body w doc"
  by (simp add: envelope_body_def to_utf8_ascii byte_def)

lemma ascii_kwargs [simp]: "ascii w \<Longrightarrow> ascii (pythonReprDict [(''workflow_id'', w)])"
  by (simp add: pythonReprDict_def python_quoted_def) (simp add: byte_def)

lemma ascii_args [simp]: "ascii doc \<Longrightarrow> ascii (pythonReprList [doc])"
  by (simp add: pythonReprList_def python_quoted_def) (simp add: byte_def)

lemma ascii_user [simp]: "ascii u \<Longrightarrow> ascii (Dispatcher_resolveUserID u)"
  by (simp add: Dispatcher_resolveUserID_def) (simp add: byte_def)

lemma json_normal_headers:
  assumes "ascii w" "ascii doc" "ascii u" "ascii (cd_hostname d)"
  shows "json_normal (envelope_headers d w doc u) = envelope_headers d w doc u"
  using assms by (simp add: envelope_headers_def taskName_def to_utf8_ascii byte_def)

lemma json_normal_properties:
  assumes "ascii w" "ascii tag" "ascii reply" "ascii (cd_queue d)"
  shows "json_normal (envelope_properties d w tag reply) = envelope_properties d w tag reply"
  using assms by (simp add: envelope_properties_def to_utf8_ascii byte_def)

lemma json_normal_envelope:
  assumes "ascii enc" "ascii w" "ascii doc" "ascii tag" "ascii reply" "ascii u" "ascii (cd_queue d)" "ascii (cd_hostname d)"
  shows "json_normal (envelope d enc w doc tag reply u) = envelope d enc w doc tag reply u"
  unfolding envelope_def
  by (simp add: assms json_normal_headers json_normal_properties to_utf8_ascii byte_def)

lemma envelope_numbers: "numbers_ok (envelope d enc w doc tag reply u)" "numbers_ok (envelope_body w doc)"
  by (simp_all add: envelope_def envelope_headers_def envelope_properties_def envelope_body_def
      number_char_def is_digit_def)

lemma BuildEnvelope_text:
  "BuildEnvelope d w doc tag reply u =
     Inr (json_text (envelope d (StdEncoding_EncodeToString (json_text (envelope_body w doc))) w doc tag reply u))"
  by (simp add: BuildEnvelope_def marshal_text_def)

text \<open>The worker's side: the fields of the message and the arguments in its body.\<close>

definition json_field :: "string \<Rightarrow> json \<Rightarrow> json option" where
  "json_field k v = (case v of JObject kvs \<Rightarrow> map_of kvs k | _ \<Rightarrow> None)"

definition message_body :: "json \<Rightarrow> json option" where
  "message_body v = (case json_field ''body'' v of
     Some (JString enc) \<Rightarrow> (case base64_decode enc of None \<Rightarrow> None | Some b \<Rightarrow> read_json b)
   | _ \<Rightarrow> None)"

lemma message_body_envelope:
  "message_body (envelope d (StdEncoding_EncodeToString (json_text (envelope_body w doc))) w doc tag reply u) =
     Some (json_normal (envelope_body w doc))"
  by (simp add: message_body_def envelope_def json_field_def base64_decode_encode read_json_text envelope_numbers)

lemma BuildEnvelope_read:
  assumes "ascii w" "ascii doc" "ascii tag" "ascii reply" "ascii u" "ascii (cd_queue d)" "ascii (cd_hostname d)"
    "BuildEnvelope d w doc tag reply u = Inr msg"
  shows "\<exists>enc. read_json msg = Some (envelope d enc w doc tag reply u) \<and>
    message_body (envelope d enc w doc tag reply u) = Some (envelope_body w doc)"
  using assms message_body_envelope [of d w doc tag reply u]
  by (auto simp: BuildEnvelope_text read_json_text envelope_numbers json_normal_envelope json_normal_body)

text \<open>
  What Redis and its client promise of RPUSH, over the values \<^verbatim>\<open>q s k\<close> that this process has appended
  to each key so far: an answer says that the value was appended, once or more often, as the client
  repeats a command whose answer it has lost; after an error it was appended any number of times,
  or never. Nothing else is appended. The counter is no queue.
\<close>

definition redis_lists :: "('s \<Rightarrow> string \<Rightarrow> string list) \<Rightarrow> (string \<Rightarrow> string \<Rightarrow> ('s, int) eff) \<Rightarrow> bool" where
  "redis_lists q push \<longleftrightarrow> (\<forall>k v s r s'. push k v s = (r, s') \<longrightarrow>
     (\<exists>n. q s' = (q s)(k := q s k @ replicate n v) \<and> ((\<exists>len. r = Inr len) \<longrightarrow> 0 < n)))"

lemma redis_listsD:
  assumes "redis_lists q push" "push k v s = (r, s')"
  shows "\<exists>n. q s' = (q s)(k := q s k @ replicate n v) \<and> ((\<exists>len. r = Inr len) \<longrightarrow> 0 < n)"
  by (rule assms(1) [unfolded redis_lists_def, rule_format, OF assms(2)])

lemma Dispatch_pushed:
  assumes "redis_lists q push" "\<And>l s. q (inc l s) = q s"
    "Dispatch (NewCeleryDispatcher push inc queue host) None w doc s = (r, s')"
  defines "key \<equiv> if queue = [] then ''celery'' else queue"
  shows "\<exists>n msg. BuildEnvelope (NewCeleryDispatcher push inc queue host) w doc w w [] = Inr msg \<and>
    q s' = (q s)(key := q s key @ replicate n msg) \<and>
    (case r of Inr _ \<Rightarrow> 0 < n | Inl e \<Rightarrow> errors_Is e ErrDispatchFailed)"
proof -
  let ?d = "NewCeleryDispatcher push inc queue host"
  obtain msg where msg: "BuildEnvelope ?d w doc w w [] = Inr msg" by (simp add: BuildEnvelope_text)
  obtain p s1 where p: "push key msg s = (p, s1)" by (rule prod.exhaust)
  obtain n where n: "q s1 = (q s)(key := q s key @ replicate n msg)" "(\<exists>len. p = Inr len) \<longrightarrow> 0 < n"
    using redis_listsD [OF assms(1) p] by blast
  have d: "build_for ?d w doc = Inr msg" "cd_RPush ?d (cd_queue ?d) msg s = (p, s1)" "cd_Inc ?d = inc"
    using msg p by (simp_all add: build_for_def NewCeleryDispatcher_def key_def)
  have "Dispatch ?d None w doc s = (case p of
      Inl e \<Rightarrow> (Inl (Wrap ''dispatch'' [Sentinel ErrDispatchFailed, e]), inc ''failure'' s1)
    | Inr _ \<Rightarrow> (Inr (), inc ''success'' s1))"
    unfolding Dispatch_def option.case d(1) sum.case d(2) prod.case d(3) by (cases p) simp_all
  then show ?thesis using assms(2,3) msg n by (cases p) (auto simp del: BuildEnvelope_text)
qed

lemma Dispatch_cancelled: "Dispatch d (Some e) w doc s = (Inl (wrap1 ''dispatch cancelled'' e), s)"
  by (simp add: Dispatch_def)

section \<open>Properties\<close>

text \<open>
  C33: What a dispatch appends to the queue in Redis. A cancelled one changes nothing. Any other
  appends copies of one message and nothing else; when it returns no error there is at least one
  copy (RPUSH may be repeated by the client), and when it returns an error, that is ErrDispatchFailed
  and there may be none. A worker that decodes the message (JSON, then base64, then JSON) reads the
  task, the document id as its only positional argument and the workflow id as its keyword argument
  and as its task id, as they were given, and the anonymous user. (Texts are ASCII; what RPUSH does
  is a hypothesis on Redis and its client.)
\<close>

theorem dispatch_delivers:
  assumes "redis_lists q push" "\<forall>l s. q (inc l s) = q s"
    "ascii workflowID" "ascii documentID" "ascii queue" "ascii hostname"
    "Dispatch (NewCeleryDispatcher push inc queue hostname) ctx workflowID documentID s = (r, s')"
  shows "case ctx of
      Some e \<Rightarrow> r = Inl (wrap1 ''dispatch cancelled'' e) \<and> s' = s
    | None \<Rightarrow>
        (let key = if queue = [] then ''celery'' else queue in
         \<exists>n msg v h. q s' = (q s)(key := q s key @ replicate n msg) \<and>
           (case r of Inr _ \<Rightarrow> 0 < n | Inl e \<Rightarrow> errors_Is e ErrDispatchFailed) \<and>
           read_json msg = Some v \<and>
           json_field ''headers'' v = Some h \<and>
           json_field ''id'' h = Some (JString workflowID) \<and>
           json_field ''task'' h = Some (JString ''pipelines.workers.ingestion_worker.run'') \<and>
           json_field ''user_id'' h = Some (JString ''cli-anonymous'') \<and>
           message_body v = Some (JArray
             [JArray [JString documentID], JObject [(''workflow_id'', JString workflowID)],
              JObject [(''callbacks'', JNull), (''chain'', JNull), (''chord'', JNull), (''errbacks'', JNull)]]))"
proof (cases ctx)
  case (Some e)
  then show ?thesis using assms(7) by (simp add: Dispatch_cancelled)
next
  case None
  let ?d = "NewCeleryDispatcher push inc queue hostname"
  let ?key = "if queue = [] then ''celery'' else queue"
  obtain n msg where msg: "BuildEnvelope ?d workflowID documentID workflowID workflowID [] = Inr msg"
    "q s' = (q s)(?key := q s ?key @ replicate n msg)" "case r of Inr _ \<Rightarrow> 0 < n | Inl e \<Rightarrow> errors_Is e ErrDispatchFailed"
    using Dispatch_pushed [OF assms(1) assms(2) [rule_format] assms(7) [unfolded None]] by blast
  have "ascii (cd_queue ?d)" "ascii (cd_hostname ?d)"
    using assms(5,6) by (auto simp: NewCeleryDispatcher_def byte_def)
  then obtain enc where enc: "read_json msg = Some (envelope ?d enc workflowID documentID workflowID workflowID [])"
    "message_body (envelope ?d enc workflowID documentID workflowID workflowID []) = Some (envelope_body workflowID documentID)"
    using BuildEnvelope_read [OF assms(3,4,3,3) _ _ _ msg(1)] by auto
  have "json_field ''headers'' (envelope ?d enc workflowID documentID workflowID workflowID []) =
      Some (envelope_headers ?d workflowID documentID [])"
    by (simp add: json_field_def envelope_def)
  moreover have "json_field ''id'' (envelope_headers ?d workflowID documentID []) = Some (JString workflowID)"
    "json_field ''task'' (envelope_headers ?d workflowID documentID []) = Some (JString taskName)"
    "json_field ''user_id'' (envelope_headers ?d workflowID documentID []) = Some (JString ''cli-anonymous'')"
    by (simp_all add: json_field_def envelope_headers_def Dispatcher_resolveUserID_def)
  ultimately show ?thesis
    using msg(2,3) enc unfolding None option.case envelope_body_def taskName_def Let_def by blast
qed

text \<open>
  A Redis with one counter, enough to run dispatches: the answer to the first RPUSH is lost, so the
  client repeats the command; the third is refused.
\<close>

definition sample_push :: "string \<Rightarrow> string \<Rightarrow> ((string \<Rightarrow> string list) \<times> nat, int) eff" where
  "sample_push k v s =
     (if snd s = 2 then (Inl (LibError ''OOM command not allowed''), s)
      else let more = (if snd s = 0 then [v, v] else [v])
           in (Inr (int (length (fst s k @ more))), ((fst s)(k := fst s k @ more), snd s)))"

theorem dispatch_delivers_witness:
  "\<exists>s1 s2 s3 e. let d = NewCeleryDispatcher sample_push (\<lambda>l s. (fst s, Suc (snd s))) [] ''host-1'' in
    Dispatch d None ''wf-1'' ''doc-1'' ((\<lambda>k. []), 0) = (Inr (), s1) \<and> length (fst s1 ''celery'') = 2 \<and>
    Dispatch d None ''wf-2'' ''doc-2'' s1 = (Inr (), s2) \<and> length (fst s2 ''celery'') = 3 \<and>
    Dispatch d None ''wf-3'' ''doc-3'' s2 = (Inl e, s3) \<and> fst s3 = fst s2 \<and> errors_Is e ErrDispatchFailed \<and>
    (\<exists>n msg v. fst s1 ''celery'' = replicate n msg \<and> 0 < n \<and> read_json msg = Some v \<and>
      message_body v = Some (JArray
        [JArray [JString ''doc-1''], JObject [(''workflow_id'', JString ''wf-1'')],
         JObject [(''callbacks'', JNull), (''chain'', JNull), (''chord'', JNull), (''errbacks'', JNull)]]))"
proof -
  let ?d = "NewCeleryDispatcher sample_push (\<lambda>l s. (fst s, Suc (snd s))) [] ''host-1''"
  have step: "\<exists>msg. Dispatch ?d None w doc s = (case sample_push ''celery'' msg s of
      (Inl e, s1) \<Rightarrow> (Inl (Wrap ''dispatch'' [Sentinel ErrDispatchFailed, e]), (fst s1, Suc (snd s1)))
    | (Inr _, s1) \<Rightarrow> (Inr (), (fst s1, Suc (snd s1))))" for w doc s
  proof -
    obtain msg where msg: "BuildEnvelope ?d w doc w w [] = Inr msg" by (simp add: BuildEnvelope_text)
    have d: "build_for ?d w doc = Inr msg" "cd_RPush ?d (cd_queue ?d) = sample_push ''celery''"
      "cd_Inc ?d = (\<lambda>l s. (fst s, Suc (snd s)))"
      using msg by (simp_all add: build_for_def NewCeleryDispatcher_def)
    show ?thesis unfolding Dispatch_def option.case d sum.case by blast
  qed
  obtain s1 where s1: "Dispatch ?d None ''wf-1'' ''doc-1'' ((\<lambda>k. []), 0) = (Inr (), s1)" "snd s1 = 1"
    "length (fst s1 ''celery'') = 2"
    using step [of "''wf-1''" "''doc-1''" "((\<lambda>k. []), 0)"] by (auto simp: sample_push_def)
  obtain s2 where s2: "Dispatch ?d None ''wf-2'' ''doc-2'' s1 = (Inr (), s2)" "snd s2 = 2"
    "length (fst s2 ''celery'') = 3"
    using step [of "''wf-2''" "''doc-2''" s1] s1(2,3) by (auto simp: sample_push_def)
  obtain e s3 where s3: "Dispatch ?d None ''wf-3'' ''doc-3'' s2 = (Inl e, s3)" "fst s3 = fst s2"
    using step [of "''wf-3''" "''doc-3''" s2] s2(2) by (auto simp: sample_push_def)
  have redis: "redis_lists fst sample_push" unfolding redis_lists_def
  proof (intro allI impI)
    fix k v s r s' assume run: "sample_push k v s = (r, s')"
    define n :: nat where "n = (if snd s = 2 then 0 else if snd s = 0 then 2 else 1)"
    show "\<exists>n. fst s' = (fst s)(k := fst s k @ replicate n v) \<and> ((\<exists>len. r = Inr len) \<longrightarrow> 0 < n)"
      by (rule exI [of _ n]) (use run in \<open>auto simp: sample_push_def n_def numeral_2_eq_2 split: if_splits\<close>)
  qed
  have "ascii ''wf-1''" "ascii ''doc-1''" "ascii ''wf-3''" "ascii ''doc-3''" "ascii []" "ascii ''host-1''"
    by (simp_all add: byte_def)
  with dispatch_delivers [OF redis _ _ _ _ _ s1(1)] dispatch_delivers [OF redis _ _ _ _ _ s3(1)]
  have "errors_Is e ErrDispatchFailed"
    "\<exists>n msg v. fst s1 ''celery'' = replicate n msg \<and> 0 < n \<and> read_json msg = Some v \<and>
      message_body v = Some (JArray
        [JArray [JString ''doc-1''], JObject [(''workflow_id'', JString ''wf-1'')],
         JObject [(''callbacks'', JNull), (''chain'', JNull), (''chord'', JNull), (''errbacks'', JNull)]])"
    by (auto simp: Let_def)
  with s1(1,3) s2(1,3) s3 show ?thesis unfolding Let_def by blast
qed

text \<open>
  C37: The text of argsrepr is the Python literal of the list of the arguments: Python reads back
  every argument, apostrophes included, when the arguments are UTF-8 texts without a backslash, a
  line feed, a carriage return or a NUL byte. (These four are not escaped: a text of one of them
  alone gives no Python literal.)
\<close>

theorem python_list_roundtrip:
  assumes "\<forall>x\<in>set args. to_utf8 x = x \<and> set x \<inter> {CHR 0x5C, CHR 0x0A, CHR 0x0D, CHR 0x00} = {}"
  shows "read_python_list (pythonReprList args) = Some args"
  by (rule python_list_reads) (use assms in \<open>auto simp: plain_text_def\<close>)

theorem python_list_roundtrip_witness:
  "read_python_list (pythonReprList [''d'', CHR 0x27 # ''s'']) = Some [''d'', CHR 0x27 # ''s'']"
  by (rule python_list_roundtrip) (simp add: byte_def)

end
