(* ===== verification/Score_Handlers.thy ===== *)
theory Score_Handlers
  imports Handler_Frame Score_Store Rbac Numbers
begin

text \<open>
  cmd/server/score_handlers.go: the REST interface of the scores. A handler owns the score store,
  given by Begin and the methods of its transactions that it calls. \<^verbatim>\<open>sh_ParseFloat\<close> is
  strconv.ParseFloat(s, 64), whose grammar (also infinities, NaN and hexadecimal texts) is left open;
  \<^verbatim>\<open>sh_Value\<close> is Value of pgtype.Numeric, whose result is None when the value is not valid. Log lines
  are not modelled.
\<close>

record ('t, 'w) ScoreHandler =
  sh_Begin :: "('w, 't) eff"
  sh_Rollback :: "('t \<times> 'w, unit) eff"
  sh_Commit :: "('t \<times> 'w, unit) eff"
  sh_GetScoreByID :: "uuid \<Rightarrow> ('t \<times> 'w, Score) eff"
  sh_GetScoresByItem :: "string \<Rightarrow> ('t \<times> 'w, Score list) eff"
  sh_SumWeighted :: "string \<Rightarrow> ('t \<times> 'w, numeric) eff"
  sh_DetermineGrade :: "string \<Rightarrow> float64 \<Rightarrow> ('t \<times> 'w, string) eff"
  sh_InsertScore :: "string \<Rightarrow> uuid option \<Rightarrow> string \<Rightarrow> float64 \<Rightarrow> float64 option \<Rightarrow> metadata \<Rightarrow> ('t \<times> 'w, uuid) eff"
  sh_UpdateScore :: "uuid \<Rightarrow> ScoreUpdate \<Rightarrow> ('t \<times> 'w, unit) eff"
  sh_Supersede :: "uuid \<Rightarrow> float64 \<Rightarrow> float64 option \<Rightarrow> metadata \<Rightarrow> ('t \<times> 'w, uuid) eff"
  sh_Value :: "numeric \<Rightarrow> goerr + string option"
  sh_ParseFloat :: "string \<Rightarrow> float64 option"

definition handler_maxScoreEvalItemIDLen :: nat where
  "handler_maxScoreEvalItemIDLen = 64"

definition score_maxListLimit :: int where
  "score_maxListLimit = 500"

definition score_defaultListLimit :: int where
  "score_defaultListLimit = 50"

section \<open>Answers\<close>

definition writeScoreJSON :: "nat \<Rightarrow> json \<Rightarrow> response" where
  "writeScoreJSON code v =
     \<lparr>resp_Code = code, resp_Header = [(''Content-Type'', ''application/json'')], resp_Body = v\<rparr>"

definition writeScoreErr :: "nat \<Rightarrow> string \<Rightarrow> string \<Rightarrow> string \<Rightarrow> response" where
  "writeScoreErr code errCode msg field =
     writeScoreJSON code (JObject [(''error'',
       JObject ([(''code'', JString errCode), (''message'', JString msg)] @ text_field ''field'' field))])"

definition mapStoreErr :: "goerr \<Rightarrow> nat \<times> string \<times> string" where
  "mapStoreErr e =
     (if errors_Is e ErrScoreNotFound then (404, ''NOT_FOUND'', ''score not found'')
      else if errors_Is e ErrGradeThresholdsUnavailable then (404, ''NOT_FOUND'', ''no grade thresholds for the scope'')
      else if errors_Is e ErrScoreInvalidInput then (400, ''INVALID_ARGUMENT'', ''invalid score input'')
      else if errors_Is e ErrScoreImmutable then (409, ''CONFLICT'', ''a CONFIRMED score changes by a correction only'')
      else if errors_Is e ErrScoreInvalidStatus then (409, ''CONFLICT'', ''status transition not allowed'')
      else if errors_Is e ErrScoreNotConfirmed then (409, ''CONFLICT'', ''only a CONFIRMED score is corrected'')
      else (500, ''INTERNAL'', ''score failed''))"

definition writeScoreStoreErr :: "goerr \<Rightarrow> response" where
  "writeScoreStoreErr e = (case mapStoreErr e of (code, errCode, msg) \<Rightarrow> writeScoreErr code errCode msg [])"

definition bad_score :: "string \<Rightarrow> string \<Rightarrow> response" where
  "bad_score msg field = writeScoreErr 400 ''INVALID_ARGUMENT'' msg field"

definition score_internal :: "string \<Rightarrow> goerr \<Rightarrow> response" where
  "score_internal msg e = writeScoreErr 500 ''INTERNAL'' msg []"

definition clampPagination :: "string \<Rightarrow> string \<Rightarrow> int \<times> int" where
  "clampPagination rawLimit rawOffset =
     (let limit0 = (case strconv_ParseInt rawLimit of
            Some v \<Rightarrow> if 0 < v then v else score_defaultListLimit | None \<Rightarrow> score_defaultListLimit);
          limit = (if score_maxListLimit < limit0 then score_maxListLimit else limit0);
          offset = (case strconv_ParseInt rawOffset of Some v \<Rightarrow> if 0 < v then v else 0 | None \<Rightarrow> 0)
      in (limit, offset))"

definition requireScoreWriteRole :: "string \<Rightarrow> bool" where
  "requireScoreWriteRole scope = any_role (\<lambda>r. r = RoleAdmin \<or> r = RoleAnalyst) (ParseRolesFromScope scope)"

definition guardScoreWrite :: "request \<Rightarrow> response option" where
  "guardScoreWrite r = (case UserFromContext r of
     None \<Rightarrow> None
   | Some u \<Rightarrow> if requireScoreWriteRole (join_space (usr_Scopes u)) then None
       else Some (writeScoreErr 403 ''ABAC_CONDITION_DENIED'' ''no right to write'' []))"

section \<open>Bodies\<close>

record scoreCreateBody =
  scb_Metadata :: "metadata option"
  scb_ScoreValue :: "float64 option"
  scb_Weight :: "float64 option"
  scb_EvaluationItemID :: string
  scb_Level :: string
  scb_EvidenceID :: string

text \<open>A map that is nil or empty is the empty metadata, where only its entries count.\<close>

definition map_entries :: "metadata option \<Rightarrow> metadata" where
  "map_entries m = (case m of None \<Rightarrow> [] | Some kvs \<Rightarrow> kvs)"

definition decodeScoreBody :: "json option \<Rightarrow> goerr + scoreCreateBody" where
  "decodeScoreBody b = (case decode_object b of
     Inl e \<Rightarrow> Inl e
   | Inr kvs \<Rightarrow>
       (case both
          (both (decode_field ''metadata'' set_map_pointer kvs None)
            (both (decode_field ''score_value'' (set_pointer json_float64) kvs None)
              (decode_field ''weight'' (set_pointer json_float64) kvs None)))
          (both (decode_field ''evaluation_item_id'' set_string kvs [])
            (both (decode_field ''level'' set_string kvs []) (decode_field ''evidence_id'' set_string kvs []))) of
          Inl e \<Rightarrow> Inl e
        | Inr ((md, v, x), item, lv, ev) \<Rightarrow>
            Inr \<lparr>scb_Metadata = md, scb_ScoreValue = v, scb_Weight = x, scb_EvaluationItemID = item,
                 scb_Level = lv, scb_EvidenceID = ev\<rparr>))"

definition toScoreResponse :: "'x runtime \<Rightarrow> Score \<Rightarrow> json" where
  "toScoreResponse rt q = JObject (
     map_field ''metadata'' (sco_Metadata q) @
     (case sco_ScoreValue q of None \<Rightarrow> [] | Some v \<Rightarrow> [(''score_value'', float_json v)]) @
     (case sco_Weight q of None \<Rightarrow> [] | Some v \<Rightarrow> [(''weight'', float_json v)]) @
     opt_field ''evidence_id'' (map_option (uuid_String rt) (sco_EvidenceID q)) @
     [(''id'', JString (uuid_String rt (sco_ID q))), (''evaluation_item_id'', JString (sco_EvaluationItemID q)),
      (''level'', JString (sco_Level q))] @
     text_field ''grade'' (sco_Grade q) @ [(''status'', JString (sco_Status q))] @
     text_field ''created_by'' (sco_CreatedBy q))"

definition parseScoreID :: "'x runtime \<Rightarrow> request \<Rightarrow> response + uuid" where
  "parseScoreID rt r = (case uuid_Parse rt (req_PathID r) of
     None \<Rightarrow> Inl (bad_score ''malformed score id'' ''id'') | Some i \<Rightarrow> Inr i)"

definition validateCreateBody :: "'x runtime \<Rightarrow> scoreCreateBody \<Rightarrow> string \<times> string" where
  "validateCreateBody rt b =
     (if blank (scb_EvaluationItemID b) then (''evaluation_item_id'', ''evaluation_item_id missing'')
      else if handler_maxScoreEvalItemIDLen < length (scb_EvaluationItemID b)
      then (''evaluation_item_id'', ''evaluation_item_id too long'')
      else if scb_ScoreValue b = None then (''score_value'', ''score_value missing'')
      else if scb_EvidenceID b \<noteq> [] \<and> uuid_Parse rt (scb_EvidenceID b) = None
      then (''evidence_id'', ''malformed evidence_id'')
      else ([], []))"

section \<open>What the handlers do inside their transactions\<close>

definition get_score_stage :: "'x runtime \<Rightarrow> ('t, 'w) ScoreHandler \<Rightarrow> uuid \<Rightarrow> ('t \<times> 'w) stage" where
  "get_score_stage rt h i =
     attempt (sh_GetScoreByID h i) writeScoreStoreErr (\<lambda>q. refuse (writeScoreJSON 200 (toScoreResponse rt q)))"

definition score_kept :: "string \<Rightarrow> string \<Rightarrow> Score \<Rightarrow> bool" where
  "score_kept levelF statusF q \<longleftrightarrow>
     \<not> (levelF \<noteq> [] \<and> sco_Level q \<noteq> levelF) \<and> \<not> (statusF \<noteq> [] \<and> sco_Status q \<noteq> statusF)"

definition score_page :: "string \<Rightarrow> string \<Rightarrow> 'a list \<Rightarrow> 'a list" where
  "score_page rawLimit rawOffset filtered =
     (case clampPagination rawLimit rawOffset of (limit, offset0) \<Rightarrow>
        let n = int (length filtered);
            offset = (if n < offset0 then n else offset0);
            stop = (if n < offset + limit then n else offset + limit)
        in take (nat (stop - offset)) (drop (nat offset) filtered))"

definition list_scores_stage ::
  "'x runtime \<Rightarrow> ('t, 'w) ScoreHandler \<Rightarrow> request \<Rightarrow> string \<Rightarrow> ('t \<times> 'w) stage" where
  "list_scores_stage rt h r evalItem =
     attempt (sh_GetScoresByItem h evalItem) writeScoreStoreErr (\<lambda>rows.
     let filtered = map (toScoreResponse rt)
           (List.filter (score_kept (req_Query r ''level'') (req_Query r ''status'')) rows);
         page = score_page (req_Query r ''limit'') (req_Query r ''offset'') filtered
     in refuse (writeScoreJSON 200 (JObject
          [(''count'', JNumber (strconv_Itoa (int (length page)))), (''scores'', JArray page)])))"

definition rollup_stage :: "('t, 'w) ScoreHandler \<Rightarrow> string \<Rightarrow> ('t \<times> 'w) stage" where
  "rollup_stage h evalItem =
     attempt (sh_SumWeighted h evalItem) writeScoreStoreErr (\<lambda>n.
     case sh_Value h n of
       Inl e \<Rightarrow> refuse (score_internal ''sum not serialised'' e)
     | Inr decimal \<Rightarrow>
         let decStr = (case decimal of Some t \<Rightarrow> t | None \<Rightarrow> [])
         in refuse (writeScoreJSON 200 (JObject
              [(''evaluation_item_id'', JString evalItem), (''weighted_sum'', JString decStr)])))"

text \<open>An infinite score has no JSON text: the status has been written and the body stays empty.\<close>

definition grade_stage :: "('t, 'w) ScoreHandler \<Rightarrow> string \<Rightarrow> float64 \<Rightarrow> ('t \<times> 'w) stage" where
  "grade_stage h scope score =
     attempt (sh_DetermineGrade h scope score) writeScoreStoreErr (\<lambda>grade.
     refuse (writeScoreJSON 200 (case json_float score of
         None \<Rightarrow> JNull
       | Some t \<Rightarrow> JObject [(''grade'', JString grade), (''scope'', JString scope), (''score'', JNumber t)])))"

definition create_score_stage ::
  "'x runtime \<Rightarrow> ('t, 'w) ScoreHandler \<Rightarrow> scoreCreateBody \<Rightarrow> float64 \<Rightarrow> ('t \<times> 'w) stage" where
  "create_score_stage rt h b value =
     (let evidenceID = (if scb_EvidenceID b = [] then None else uuid_Parse rt (scb_EvidenceID b))
      in attempt (sh_InsertScore h (scb_EvaluationItemID b) evidenceID (scb_Level b) value (scb_Weight b)
                    (map_entries (scb_Metadata b))) writeScoreStoreErr (\<lambda>newID.
         attempt (sh_Commit h) (score_internal ''score not stored'') (\<lambda>_.
         answer (writeScoreJSON 201 (JObject
           [(''score_id'', JString (uuid_String rt newID)), (''status'', JString ''DRAFT'')])))))"

definition update_score_stage ::
  "'x runtime \<Rightarrow> ('t, 'w) ScoreHandler \<Rightarrow> uuid \<Rightarrow> scoreCreateBody \<Rightarrow> ('t \<times> 'w) stage" where
  "update_score_stage rt h i b =
     (let upd = \<lparr>su_ScoreValue = scb_ScoreValue b, su_Weight = scb_Weight b, su_Grade = None, su_Status = None,
                 su_Metadata = scb_Metadata b\<rparr>
      in attempt (sh_UpdateScore h i upd) writeScoreStoreErr (\<lambda>_.
         attempt (sh_Commit h) (score_internal ''score not updated'') (\<lambda>_.
         answer (writeScoreJSON 200 (JObject [(''score_id'', JString (uuid_String rt i))])))))"

definition supersede_score_stage ::
  "'x runtime \<Rightarrow> ('t, 'w) ScoreHandler \<Rightarrow> uuid \<Rightarrow> scoreCreateBody \<Rightarrow> float64 \<Rightarrow> ('t \<times> 'w) stage" where
  "supersede_score_stage rt h oldID b value =
     attempt (sh_Supersede h oldID value (scb_Weight b) (map_entries (scb_Metadata b))) writeScoreStoreErr (\<lambda>newID.
     attempt (sh_Commit h) (score_internal ''score not corrected'') (\<lambda>_.
     answer (writeScoreJSON 201 (JObject
       [(''score_id'', JString (uuid_String rt newID)), (''superseded_id'', JString (uuid_String rt oldID))]))))"

section \<open>The handlers\<close>

definition handleGetScore :: "'x runtime \<Rightarrow> ('t, 'w) ScoreHandler \<Rightarrow> 'w handler" where
  "handleGetScore rt h r w = (case parseScoreID rt r of Inl resp \<Rightarrow> (resp, w) | Inr i \<Rightarrow>
     with_defer (sh_Begin h) (score_internal ''begin failed'') (sh_Rollback h) (get_score_stage rt h i) w)"

definition handleListScores :: "'x runtime \<Rightarrow> ('t, 'w) ScoreHandler \<Rightarrow> 'w handler" where
  "handleListScores rt h r w =
     (let evalItem = TrimSpace (req_Query r ''evaluation_item_id'')
      in if evalItem = [] then (bad_score ''evaluation_item_id missing'' ''evaluation_item_id'', w)
         else with_defer (sh_Begin h) (score_internal ''begin failed'') (sh_Rollback h)
                (list_scores_stage rt h r evalItem) w)"

definition handleRollup :: "('t, 'w) ScoreHandler \<Rightarrow> 'w handler" where
  "handleRollup h r w =
     (let evalItem = TrimSpace (req_Query r ''evaluation_item_id'')
      in if evalItem = [] then (bad_score ''evaluation_item_id missing'' ''evaluation_item_id'', w)
         else with_defer (sh_Begin h) (score_internal ''begin failed'') (sh_Rollback h) (rollup_stage h evalItem) w)"

definition handleGrade :: "('t, 'w) ScoreHandler \<Rightarrow> 'w handler" where
  "handleGrade h r w =
     (let scope = TrimSpace (req_Query r ''scope'')
      in if scope = [] then (bad_score ''scope missing'' ''scope'', w)
         else case sh_ParseFloat h (req_Query r ''score'') of
             None \<Rightarrow> (bad_score ''score is no number'' ''score'', w)
           | Some score \<Rightarrow> with_defer (sh_Begin h) (score_internal ''begin failed'') (sh_Rollback h)
                (grade_stage h scope score) w)"

definition handleCreateScore :: "'x runtime \<Rightarrow> ('t, 'w) ScoreHandler \<Rightarrow> 'w handler" where
  "handleCreateScore rt h r w = (case guardScoreWrite r of Some resp \<Rightarrow> (resp, w) | None \<Rightarrow>
     (case decodeScoreBody (req_Body r) of
        Inl e \<Rightarrow> (bad_score ''malformed JSON body'' [], w)
      | Inr b \<Rightarrow>
          (case validateCreateBody rt b of (errField, errMsg) \<Rightarrow>
             if errField \<noteq> [] then (bad_score errMsg errField, w)
             else with_handle (sh_Begin h) (score_internal ''begin failed'') (sh_Rollback h)
                    (create_score_stage rt h b (the (scb_ScoreValue b))) w)))"

definition handleUpdateScore :: "'x runtime \<Rightarrow> ('t, 'w) ScoreHandler \<Rightarrow> 'w handler" where
  "handleUpdateScore rt h r w = (case guardScoreWrite r of Some resp \<Rightarrow> (resp, w) | None \<Rightarrow>
     (case parseScoreID rt r of Inl resp \<Rightarrow> (resp, w) | Inr i \<Rightarrow>
     (case decodeScoreBody (req_Body r) of
        Inl e \<Rightarrow> (bad_score ''malformed JSON body'' [], w)
      | Inr b \<Rightarrow> with_handle (sh_Begin h) (score_internal ''begin failed'') (sh_Rollback h)
            (update_score_stage rt h i b) w)))"

definition handleSupersedeScore :: "'x runtime \<Rightarrow> ('t, 'w) ScoreHandler \<Rightarrow> 'w handler" where
  "handleSupersedeScore rt h r w = (case guardScoreWrite r of Some resp \<Rightarrow> (resp, w) | None \<Rightarrow>
     (case parseScoreID rt r of Inl resp \<Rightarrow> (resp, w) | Inr oldID \<Rightarrow>
     (case decodeScoreBody (req_Body r) of
        Inl e \<Rightarrow> (bad_score ''malformed JSON body'' [], w)
      | Inr b \<Rightarrow>
          (case scb_ScoreValue b of
             None \<Rightarrow> (bad_score ''score_value missing'' ''score_value'', w)
           | Some value \<Rightarrow> with_handle (sh_Begin h) (score_internal ''begin failed'') (sh_Rollback h)
                 (supersede_score_stage rt h oldID b value) w))))"

end
