(* ===== verification/Score_Handler_Properties.thy ===== *)
theory Score_Handler_Properties
  imports Score_Handlers Score_Properties Rubric_Handler_Properties
begin

text \<open>
  What a client of the score interface can rely on, on the PostgreSQL store: each request is one
  mutation of the scores or changes nothing, and no request ever confirms a score.
\<close>

section \<open>The store behind the handlers\<close>

definition pg_score_handler ::
  "pg_state runtime \<Rightarrow> num_codec \<Rightarrow> (numeric \<Rightarrow> goerr + string option) \<Rightarrow> (string \<Rightarrow> float64 option) \<Rightarrow>
   (pg_tx, pg_world) ScoreHandler" where
  "pg_score_handler rt c value parse_float =
     \<lparr>sh_Begin = PgStore_BeginScoreTx, sh_Rollback = PgScoreTx_Rollback, sh_Commit = PgScoreTx_Commit,
      sh_GetScoreByID = GetScoreByID c, sh_GetScoresByItem = GetScoresByEvaluationItem c,
      sh_SumWeighted = SumWeightedByEvaluationItem, sh_DetermineGrade = DetermineGrade c,
      sh_InsertScore = InsertScore rt c, sh_UpdateScore = UpdateScore rt c,
      sh_Supersede = SupersedeAndReplaceScore rt c, sh_Value = value, sh_ParseFloat = parse_float\<rparr>"

lemma pg_score_handler_simps [simp]:
  "sh_Begin (pg_score_handler rt c v p) = PgStore_BeginScoreTx"
  "sh_Rollback (pg_score_handler rt c v p) = PgScoreTx_Rollback"
  "sh_Commit (pg_score_handler rt c v p) = PgScoreTx_Commit"
  "sh_GetScoreByID (pg_score_handler rt c v p) = GetScoreByID c"
  "sh_GetScoresByItem (pg_score_handler rt c v p) = GetScoresByEvaluationItem c"
  "sh_SumWeighted (pg_score_handler rt c v p) = SumWeightedByEvaluationItem"
  "sh_DetermineGrade (pg_score_handler rt c v p) = DetermineGrade c"
  "sh_InsertScore (pg_score_handler rt c v p) = InsertScore rt c"
  "sh_UpdateScore (pg_score_handler rt c v p) = UpdateScore rt c"
  "sh_Supersede (pg_score_handler rt c v p) = SupersedeAndReplaceScore rt c"
  "sh_Value (pg_score_handler rt c v p) = v" "sh_ParseFloat (pg_score_handler rt c v p) = p"
  by (simp_all add: pg_score_handler_def)

lemma score_lists_keep:
  "keeps published (GetScoresByEvaluationItem c i)" "keeps published (DetermineGrade c sc x)"
  unfolding GetScoresByEvaluationItem_def DetermineGrade_def
  by (intro eff_intros | auto intro!: eff_intros split: option.splits)+

lemma score_mutations_keep:
  "keeps published (InsertScore (pg_runtime parse toString sha1) c item ev level v w md)"
  "keeps published (UpdateScore (pg_runtime parse toString sha1) c i upd)"
  "keeps published (SupersedeAndReplaceScore (pg_runtime parse toString sha1) c i v w md)"
  unfolding InsertScore_def insertScoreRow_def UpdateScore_def SupersedeAndReplaceScore_def
    score_audit_defs score_clock
  by (intro eff_intros)+

lemmas score_published =
  score_read_keeps [unfolded published_def [abs_def]] score_sum_keeps [unfolded published_def [abs_def]]
  score_lists_keep [unfolded published_def [abs_def]] score_mutations_keep [unfolded published_def [abs_def]]

section \<open>One request\<close>

datatype score_api =
    ScoreGet | ScoreList | ScoreRollup | ScoreGrade | ScoreCreate | ScoreChange | ScoreSupersede

definition score_api :: "'x runtime \<Rightarrow> ('t, 'w) ScoreHandler \<Rightarrow> score_api \<Rightarrow> 'w handler" where
  "score_api rt h x = (case x of
     ScoreGet \<Rightarrow> handleGetScore rt h | ScoreList \<Rightarrow> handleListScores rt h | ScoreRollup \<Rightarrow> handleRollup h
   | ScoreGrade \<Rightarrow> handleGrade h | ScoreCreate \<Rightarrow> handleCreateScore rt h | ScoreChange \<Rightarrow> handleUpdateScore rt h
   | ScoreSupersede \<Rightarrow> handleSupersedeScore rt h)"

definition score_read :: "score_api \<Rightarrow> bool" where
  "score_read x \<longleftrightarrow> x \<in> {ScoreGet, ScoreList, ScoreRollup, ScoreGrade}"

definition score_writer :: "request \<Rightarrow> bool" where
  "score_writer r \<longleftrightarrow> (case UserFromContext r of None \<Rightarrow> True
     | Some u \<Rightarrow> RoleAdmin \<in> set (user_roles u) \<or> RoleAnalyst \<in> set (user_roles u))"

text \<open>
  The step of a mutation: its events, and, as long as no score is confirmed, no change of status and
  no correction.
\<close>

definition score_step :: "score_api \<Rightarrow> db \<Rightarrow> db \<Rightarrow> bool" where
  "score_step x d d' \<longleftrightarrow>
     (\<exists>n. score_effect n d d' \<and>
        (x = ScoreCreate \<and> n = 1 \<or> x = ScoreChange \<and> n \<le> 1 \<or> x = ScoreSupersede \<and> n = 2)) \<and>
     (none_confirmed d \<longrightarrow> x \<noteq> ScoreSupersede \<and> none_confirmed d' \<and> same_status d d')"

definition score_outcome :: "score_api \<Rightarrow> request \<Rightarrow> db \<Rightarrow> response \<Rightarrow> db \<Rightarrow> bool" where
  "score_outcome x r d resp d' \<longleftrightarrow>
     400 \<le> resp_Code resp \<and> d' = d \<or>
     score_read x \<and> resp_Code resp = 200 \<and> d' = d \<or>
     \<not> score_read x \<and> score_writer r \<and> resp_Code resp = (if x = ScoreChange then 200 else 201) \<and> score_step x d d'"

lemma guard_score_None: "guardScoreWrite r = None \<longleftrightarrow> score_writer r"
  by (auto simp: guardScoreWrite_def score_writer_def requireScoreWriteRole_def user_roles_def split: option.splits)

lemma score_codes [simp]:
  "resp_Code (writeScoreErr a b m f) = a" "resp_Code (writeScoreJSON a v) = a"
  "resp_Code (bad_score m f) = 400" "resp_Code (score_internal m e) = 500"
  by (simp_all add: writeScoreErr_def writeScoreJSON_def bad_score_def score_internal_def)

lemma score_store_code [simp]: "400 \<le> resp_Code (writeScoreStoreErr e)"
  by (simp add: writeScoreStoreErr_def mapStoreErr_def)

lemma guard_score_code: "guardScoreWrite r = Some resp \<Longrightarrow> resp_Code resp = 403"
  by (auto simp: guardScoreWrite_def split: option.splits if_splits)

lemma parse_score_code: "parseScoreID rt r = Inl resp \<Longrightarrow> resp_Code resp = 400"
  by (auto simp: parseScoreID_def split: option.splits)

lemma score_refused: "400 \<le> resp_Code resp \<Longrightarrow> score_outcome x r d resp d"
  by (simp add: score_outcome_def)

lemma score_read_ok: "score_read x \<Longrightarrow> resp_Code resp = 200 \<Longrightarrow> score_outcome x r d resp d"
  by (simp add: score_outcome_def)

section \<open>The mutations\<close>

lemma score_stages_safe:
  fixes parse toString sha1 c v p
  defines "h \<equiv> pg_score_handler (pg_runtime parse toString sha1) c v p"
  shows "safe_stage pg_committed (create_score_stage rt0 h b x)"
    and "safe_stage pg_committed (update_score_stage rt0 h i b)"
    and "safe_stage pg_committed (supersede_score_stage rt0 h i b x)"
  unfolding create_score_stage_def update_score_stage_def supersede_score_stage_def Let_def h_def pg_score_handler_simps
  by (rule score_txs.safe_commit | rule stage_intros score_published)+

lemma score_stages_answer:
  fixes parse toString sha1 c v p
  defines "h \<equiv> pg_score_handler (pg_runtime parse toString sha1) c v p"
  shows "answers (\<lambda>q. 400 \<le> resp_Code q) (create_score_stage rt0 h b x)"
    and "answers (\<lambda>q. 400 \<le> resp_Code q) (update_score_stage rt0 h i b)"
    and "answers (\<lambda>q. 400 \<le> resp_Code q) (supersede_score_stage rt0 h i b x)"
  unfolding create_score_stage_def update_score_stage_def supersede_score_stage_def Let_def h_def pg_score_handler_simps
  by (rule stage_intros | simp)+

text \<open>A mutation that committed is one step of the scores.\<close>

lemma create_score_committed:
  assumes "create_score_stage rt0 (pg_score_handler (pg_runtime parse toString sha1) c v p) b x s = ((True, resp), s')"
  shows "resp_Code resp = 201 \<and> score_step ScoreCreate (ptx_work (fst s)) (pg_committed (snd s'))"
proof -
  from assms obtain ev i s1 where m: "InsertScore (pg_runtime parse toString sha1) c (scb_EvaluationItemID b) ev
      (scb_Level b) x (scb_Weight b) (map_entries (scb_Metadata b)) s = (Inr i, s1)"
    and co: "PgScoreTx_Commit s1 = (Inr (), s')" and "resp_Code resp = 201"
    by (auto simp: create_score_stage_def Let_def)
  with insert_score_ok [OF m] insert_none_confirmed [OF m] score_txs.commit_publishes [OF co] show ?thesis
    by (auto simp: score_step_def)
qed

lemma update_score_committed:
  assumes "update_score_stage rt0 (pg_score_handler (pg_runtime parse toString sha1) c v p) i b s = ((True, resp), s')"
  shows "resp_Code resp = 200 \<and> score_step ScoreChange (ptx_work (fst s)) (pg_committed (snd s'))"
proof -
  from assms obtain upd s1 where m: "UpdateScore (pg_runtime parse toString sha1) c i upd s = (Inr (), s1)"
    and upd: "su_Status upd = None" and co: "PgScoreTx_Commit s1 = (Inr (), s')" and "resp_Code resp = 200"
    by (fastforce simp: update_score_stage_def Let_def)
  with update_score_ok [OF m] update_none_confirmed [OF m upd] score_txs.commit_publishes [OF co] show ?thesis
    by (auto simp: score_step_def)
qed

lemma supersede_score_committed:
  assumes "supersede_score_stage rt0 (pg_score_handler (pg_runtime parse toString sha1) c v p) i b x s = ((True, resp), s')"
  shows "resp_Code resp = 201 \<and> score_step ScoreSupersede (ptx_work (fst s)) (pg_committed (snd s'))"
proof -
  from assms obtain j s1 where m: "SupersedeAndReplaceScore (pg_runtime parse toString sha1) c i x (scb_Weight b)
      (map_entries (scb_Metadata b)) s = (Inr j, s1)"
    and co: "PgScoreTx_Commit s1 = (Inr (), s')" and "resp_Code resp = 201"
    by (auto simp: supersede_score_stage_def)
  with supersede_ok [OF m] supersede_needs_confirmed [OF m] score_txs.commit_publishes [OF co] show ?thesis
    by (auto simp: score_step_def)
qed

lemma score_mutation_request:
  assumes "safe_stage pg_committed stage" and "answers (\<lambda>q. 400 \<le> resp_Code q) stage"
    and "\<And>s resp s'. stage s = ((True, resp), s') \<Longrightarrow>
      resp_Code resp = (if x = ScoreChange then 200 else 201) \<and> score_step x (ptx_work (fst s)) (pg_committed (snd s'))"
    and "score_writer r" and "\<not> score_read x"
    and run: "with_handle PgStore_BeginScoreTx (score_internal msg) PgScoreTx_Rollback stage w = (resp, w')"
  shows "score_outcome x r (pg_committed w) resp (pg_committed w')"
proof (rule score_txs.with_handle_does [OF assms(1) _ _ _ run], goal_cases)
  case 1
  then show ?case using assms(2) by (auto simp: answers_def score_refused)
next
  case (3 s resp s')
  then show ?case using assms(3) [OF 3(2)] assms(4,5) by (simp add: score_outcome_def)
qed (simp add: score_refused)

section \<open>The effect of a request\<close>

text \<open>What has been checked when a handler opens its transaction.\<close>

lemma score_handler_checks:
  assumes "\<not> (400 \<le> resp_Code resp \<and> w' = w)"
  shows "handleCreateScore rt0 h r w = (resp, w') \<Longrightarrow>
      \<exists>b msg. guardScoreWrite r = None \<and> decodeScoreBody (req_Body r) = Inr b \<and> validateCreateBody rt0 b = ([], msg)"
    and "handleUpdateScore rt0 h r w = (resp, w') \<Longrightarrow>
      \<exists>i b. guardScoreWrite r = None \<and> parseScoreID rt0 r = Inr i \<and> decodeScoreBody (req_Body r) = Inr b"
    and "handleSupersedeScore rt0 h r w = (resp, w') \<Longrightarrow>
      \<exists>i b v. guardScoreWrite r = None \<and> parseScoreID rt0 r = Inr i \<and> decodeScoreBody (req_Body r) = Inr b \<and>
        scb_ScoreValue b = Some v"
  using assms
  by (auto simp: handleCreateScore_def handleUpdateScore_def handleSupersedeScore_def
      dest: guard_score_code parse_score_code split: option.splits sum.splits prod.splits if_splits)

lemma create_score_request:
  assumes "handleCreateScore rt0 (pg_score_handler (pg_runtime parse toString sha1) c v p) r w = (resp, w')"
  shows "score_outcome ScoreCreate r (pg_committed w) resp (pg_committed w')"
proof (cases "400 \<le> resp_Code resp \<and> w' = w")
  case False
  from score_handler_checks(1) [OF this assms] obtain b msg where q: "guardScoreWrite r = None"
    "decodeScoreBody (req_Body r) = Inr b" "validateCreateBody rt0 b = ([], msg)" by blast
  from assms have run: "with_handle PgStore_BeginScoreTx (score_internal ''begin failed'') PgScoreTx_Rollback
      (create_score_stage rt0 (pg_score_handler (pg_runtime parse toString sha1) c v p) b (the (scb_ScoreValue b))) w = (resp, w')"
    by (simp add: handleCreateScore_def q)
  show ?thesis
    by (rule score_mutation_request [OF score_stages_safe(1) score_stages_answer(1) _ _ _ run])
      (use q in \<open>auto dest: create_score_committed simp: score_read_def guard_score_None\<close>)
qed (simp add: score_refused)

lemma update_score_request:
  assumes "handleUpdateScore rt0 (pg_score_handler (pg_runtime parse toString sha1) c v p) r w = (resp, w')"
  shows "score_outcome ScoreChange r (pg_committed w) resp (pg_committed w')"
proof (cases "400 \<le> resp_Code resp \<and> w' = w")
  case False
  from score_handler_checks(2) [OF this assms] obtain i b where q: "guardScoreWrite r = None"
    "parseScoreID rt0 r = Inr i" "decodeScoreBody (req_Body r) = Inr b" by blast
  from assms have run: "with_handle PgStore_BeginScoreTx (score_internal ''begin failed'') PgScoreTx_Rollback
      (update_score_stage rt0 (pg_score_handler (pg_runtime parse toString sha1) c v p) i b) w = (resp, w')"
    by (simp add: handleUpdateScore_def q)
  show ?thesis
    by (rule score_mutation_request [OF score_stages_safe(2) score_stages_answer(2) _ _ _ run])
      (use q in \<open>auto dest: update_score_committed simp: score_read_def guard_score_None\<close>)
qed (simp add: score_refused)

lemma supersede_score_request:
  assumes "handleSupersedeScore rt0 (pg_score_handler (pg_runtime parse toString sha1) c v p) r w = (resp, w')"
  shows "score_outcome ScoreSupersede r (pg_committed w) resp (pg_committed w')"
proof (cases "400 \<le> resp_Code resp \<and> w' = w")
  case False
  from score_handler_checks(3) [OF this assms] obtain i b x where q: "guardScoreWrite r = None"
    "parseScoreID rt0 r = Inr i" "decodeScoreBody (req_Body r) = Inr b" "scb_ScoreValue b = Some x" by blast
  from assms have run: "with_handle PgStore_BeginScoreTx (score_internal ''begin failed'') PgScoreTx_Rollback
      (supersede_score_stage rt0 (pg_score_handler (pg_runtime parse toString sha1) c v p) i b x) w = (resp, w')"
    by (simp add: handleSupersedeScore_def q)
  show ?thesis
    by (rule score_mutation_request [OF score_stages_safe(3) score_stages_answer(3) _ _ _ run])
      (use q in \<open>auto dest: supersede_score_committed simp: score_read_def guard_score_None\<close>)
qed (simp add: score_refused)

text \<open>The reads: each opens a transaction that it rolls back.\<close>

lemma score_reads_do:
  fixes rt c v p
  defines "h \<equiv> pg_score_handler rt c v p"
  assumes x: "score_read x"
  shows "stage_does pg_committed (score_outcome x r) (get_score_stage rt0 h i)"
    and "stage_does pg_committed (score_outcome x r) (list_scores_stage rt0 h r item)"
    and "stage_does pg_committed (score_outcome x r) (grade_stage h scope g)"
    and "stage_does pg_committed (score_outcome x r) (rollup_stage h item)"
  unfolding get_score_stage_def list_scores_stage_def grade_stage_def rollup_stage_def h_def pg_score_handler_simps Let_def
  by (intro does_intros score_published | simp add: score_refused score_read_ok x
     | auto intro!: does_intros simp: score_refused score_read_ok x split: sum.splits)+

lemma score_read_request:
  fixes rt c v p
  defines "h \<equiv> pg_score_handler rt c v p"
  assumes x: "score_read x" and run: "score_api rt0 h x r w = (resp, w')"
  shows "score_outcome x r (pg_committed w) resp (pg_committed w')"
proof (cases "400 \<le> resp_Code resp \<and> w' = w")
  case True
  then show ?thesis by (simp add: score_refused)
next
  case False
  note does = score_reads_do [where rt = rt and c = c and v = v and p = p, OF x, folded h_def]
  have "\<exists>stage. stage_does pg_committed (score_outcome x r) stage \<and>
    with_defer PgStore_BeginScoreTx (score_internal ''begin failed'') PgScoreTx_Rollback stage w = (resp, w')"
  proof -
    from x consider "x = ScoreGet" | "x = ScoreList" | "x = ScoreRollup" | "x = ScoreGrade"
      by (auto simp: score_read_def)
    then show ?thesis
    proof cases
      case 1
      then show ?thesis
        using run False does(1) by (auto simp: score_api_def handleGetScore_def h_def dest: parse_score_code split: sum.splits)
    next
      case 2
      then show ?thesis
        using run False does(2) by (auto simp: score_api_def handleListScores_def h_def Let_def split: if_splits)
    next
      case 3
      then show ?thesis
        using run False does(4) by (auto simp: score_api_def handleRollup_def h_def Let_def split: if_splits)
    next
      case 4
      then show ?thesis
        using run False does(3) by (auto simp: score_api_def handleGrade_def h_def Let_def split: if_splits option.splits)
    qed
  qed
  then obtain stage where st: "stage_does pg_committed (score_outcome x r) stage"
    and d: "with_defer PgStore_BeginScoreTx (score_internal ''begin failed'') PgScoreTx_Rollback stage w = (resp, w')"
    by blast
  show ?thesis by (rule score_txs.with_defer_does [OF st _ d]) (simp add: score_refused)
qed

lemma score_api_effect:
  assumes "score_api rt0 (pg_score_handler (pg_runtime parse toString sha1) c v p) x r w = (resp, w')"
  shows "score_outcome x r (pg_committed w) resp (pg_committed w')"
  using assms create_score_request update_score_request supersede_score_request score_read_request [OF _ assms]
  by (cases x) (simp_all add: score_api_def score_read_def)

section \<open>Properties of the interface\<close>

text \<open>
  C31: One request, one mutation. Whatever the request to one of the seven endpoints, the state of the
  tables and the faults of the connection: it is answered by an error and publishes nothing, or it is
  a read answered 200 that publishes nothing, or its user is an administrator or analyst (or
  authentication is off), it is answered 201 or 200, and it has published one mutation of the scores
  with its audit events: one for a new score, two for a correction, at most one for a change.
\<close>

theorem score_request_effect:
  assumes "score_api rt0 (pg_score_handler (pg_runtime parse toString sha1) c v p) x r w = (resp, w')"
  shows "400 \<le> resp_Code resp \<and> pg_committed w' = pg_committed w \<or>
    score_read x \<and> resp_Code resp = 200 \<and> pg_committed w' = pg_committed w \<or>
    \<not> score_read x \<and> score_writer r \<and> resp_Code resp = (if x = ScoreChange then 200 else 201) \<and>
      (\<exists>n. score_effect n (pg_committed w) (pg_committed w') \<and>
        (x = ScoreCreate \<and> n = 1 \<or> x = ScoreChange \<and> n \<le> 1 \<or> x = ScoreSupersede \<and> n = 2))"
  using score_api_effect [OF assms] by (auto simp: score_outcome_def score_step_def)

text \<open>A sequence of requests, served one after the other, and their answers.\<close>

primrec serve_scores ::
  "'x runtime \<Rightarrow> ('t, 'w) ScoreHandler \<Rightarrow> (score_api \<times> request) list \<Rightarrow> 'w \<Rightarrow> nat list \<times> 'w" where
  "serve_scores rt h [] w = ([], w)"
| "serve_scores rt h (q # qs) w =
     (case score_api rt h (fst q) (snd q) w of (resp, w1) \<Rightarrow>
      case serve_scores rt h qs w1 of (codes, w2) \<Rightarrow> (resp_Code resp # codes, w2))"

text \<open>
  C40: No request confirms a score. Start from tables without a CONFIRMED score (for instance empty
  ones) and serve any sequence of requests of any users, with any faults of the connection in
  between: there is still no CONFIRMED score, every score that was there has its status unchanged, and
  every request for a correction has been answered by an error (a correction needs a CONFIRMED score).
\<close>

theorem scores_never_confirmed:
  assumes "none_confirmed (pg_committed w)"
    and "serve_scores rt0 (pg_score_handler (pg_runtime parse toString sha1) c v p) qs w = (codes, w')"
  shows "none_confirmed (pg_committed w') \<and> same_status (pg_committed w) (pg_committed w') \<and>
    length codes = length qs \<and> (\<forall>k < length qs. fst (qs ! k) = ScoreSupersede \<longrightarrow> 400 \<le> codes ! k)"
  using assms
proof (induction qs arbitrary: w codes)
  case (Cons q qs)
  let ?h = "pg_score_handler (pg_runtime parse toString sha1) c v p"
  obtain resp w1 where run: "score_api rt0 ?h (fst q) (snd q) w = (resp, w1)" by fastforce
  with Cons.prems(2) obtain codes1 where rest: "serve_scores rt0 ?h qs w1 = (codes1, w')" "codes = resp_Code resp # codes1"
    by (auto split: prod.splits)
  have one: "none_confirmed (pg_committed w1) \<and> same_status (pg_committed w) (pg_committed w1) \<and>
    (fst q = ScoreSupersede \<longrightarrow> 400 \<le> resp_Code resp)"
    using score_api_effect [OF run] Cons.prems(1) by (auto simp: score_outcome_def score_step_def score_read_def)
  with Cons.IH [OF _ rest(1)] show ?case
    by (auto simp: rest(2) nth_Cons' intro: same_status_trans)
qed simp

definition sample_score_request :: request where
  "sample_score_request = plain_request (canonical_String 7) (Some (JObject
     [(''evaluation_item_id'', JString ''KPI-1''), (''level'', JString ''raw''), (''score_value'', JNumber ''80'')])) None"

definition sample_score_handler :: "(pg_tx, pg_world) ScoreHandler" where
  "sample_score_handler = pg_score_handler (pg_runtime canonical_Parse canonical_String sample_SHA1) exact_codec
     (\<lambda>n. Inr None) ParseFloat"

theorem score_request_effect_witness:
  "score_read ScoreGet \<and>
   pg_committed (snd (score_api (pg_runtime canonical_Parse canonical_String sample_SHA1) sample_score_handler ScoreGet
      sample_score_request (sample_pg empty_db))) = pg_committed (sample_pg empty_db)"
  using score_request_effect [OF prod.collapse [symmetric], of "pg_runtime canonical_Parse canonical_String sample_SHA1"
      canonical_Parse canonical_String sample_SHA1 exact_codec "\<lambda>n. Inr None" ParseFloat ScoreGet sample_score_request
      "sample_pg empty_db"]
  by (auto simp: sample_score_handler_def score_read_def)

theorem scores_never_confirmed_witness:
  "none_confirmed (pg_committed (snd (serve_scores (pg_runtime canonical_Parse canonical_String sample_SHA1)
     sample_score_handler [(ScoreCreate, sample_score_request), (ScoreSupersede, sample_score_request)]
     (sample_pg empty_db))))"
proof -
  have "none_confirmed (pg_committed (sample_pg empty_db))" by (simp add: none_confirmed_def empty_db_def)
  from scores_never_confirmed [OF this prod.collapse [symmetric]] show ?thesis
    unfolding sample_score_handler_def by blast
qed

text \<open>An infinite score gets a grade and an answer 200 whose body is empty.\<close>

lemma infinite_grade_empty_body:
  assumes "sh_DetermineGrade h scope PosInf s = (Inr g, s')"
  shows "grade_stage h scope PosInf s = ((False, writeScoreJSON 200 JNull), s')"
  using assms by (simp add: grade_stage_def attempt_def refuse_def json_float_def)

end
