(* ===== verification/Audit_Query_Handlers.thy ===== *)
theory Audit_Query_Handlers
  imports Score_Handlers Store_Interface
begin

text \<open>
  cmd/server/audit_query_handlers.go: the search in the audit log. A handler owns the workflow store;
  \<^verbatim>\<open>ah_ParseTime\<close> is time.Parse(time.RFC3339, s), \<^verbatim>\<open>ah_Now\<close> reads the clock and \<^verbatim>\<open>ah_Details\<close> gives the
  keys of a stored object in the order in which PostgreSQL prints them. The query carries the first
  value of a key, which is trimmed. Log lines are not modelled.
\<close>

record ('t, 'w) AuditQueryHandler =
  ah_store :: "('t, 'w) WorkflowStore"
  ah_ParseTime :: "string \<Rightarrow> time option"
  ah_Now :: "'w \<Rightarrow> time \<times> 'w"
  ah_Details :: "json_map \<Rightarrow> (string \<times> json) list"

definition maxAuditQueryResourceTypeLen :: nat where
  "maxAuditQueryResourceTypeLen = 32"

definition maxAuditQueryUserIDLen :: nat where
  "maxAuditQueryUserIDLen = 64"

section \<open>Answers\<close>

definition writeAuditQueryJSON :: "nat \<Rightarrow> json \<Rightarrow> response" where
  "writeAuditQueryJSON code v =
     \<lparr>resp_Code = code, resp_Header = [(''Content-Type'', ''application/json'')], resp_Body = v\<rparr>"

definition writeAuditQueryErr :: "nat \<Rightarrow> string \<Rightarrow> string \<Rightarrow> string \<Rightarrow> response" where
  "writeAuditQueryErr code errCode msg field =
     writeAuditQueryJSON code (JObject [(''error'',
       JObject ([(''code'', JString errCode), (''message'', JString msg)] @ text_field ''field'' field))])"

definition mapAuditQueryStoreErr :: "goerr \<Rightarrow> nat \<times> string \<times> string" where
  "mapAuditQueryStoreErr e =
     (if errors_Is e ErrAuditQueryInvalidFilter then (400, ''INVALID_ARGUMENT'', ''invalid filter'')
      else if errors_Is e ErrAuditQueryInvalidTimeRange then (400, ''INVALID_ARGUMENT'', ''invalid time range'')
      else (500, ''INTERNAL'', ''search failed''))"

definition writeAuditQueryStoreErr :: "goerr \<Rightarrow> response" where
  "writeAuditQueryStoreErr e =
     (case mapAuditQueryStoreErr e of (code, errCode, msg) \<Rightarrow> writeAuditQueryErr code errCode msg [])"

definition requireAuditQueryReadRole :: "string \<Rightarrow> bool" where
  "requireAuditQueryReadRole scope = any_role (\<lambda>r. r = RoleAdmin) (ParseRolesFromScope scope)"

definition guardAuditQueryRead :: "request \<Rightarrow> response option" where
  "guardAuditQueryRead r = (case UserFromContext r of
     None \<Rightarrow> None
   | Some u \<Rightarrow> if requireAuditQueryReadRole (join_space (usr_Scopes u)) then None
       else Some (writeAuditQueryErr 403 ''ABAC_CONDITION_DENIED'' ''no right to read the audit log'' []))"

text \<open>The details of an event are a map of texts, as the recorder writes them.\<close>

definition toAuditEventResponse :: "'x runtime \<Rightarrow> (json_map \<Rightarrow> (string \<times> json) list) \<Rightarrow> audit_event \<Rightarrow> json" where
  "toAuditEventResponse rt raw e = JObject (
     (case ev_Details e of None \<Rightarrow> [] | Some m \<Rightarrow> [(''details'', JObject (raw m))]) @
     [(''timestamp'', JString (Format_RFC3339 (ev_Timestamp e))), (''action'', JString (ev_Action e)),
      (''user_id'', JString (ev_UserID e))] @
     text_field ''resource_type'' (ev_ResourceType e) @
     [(''resource_id'', JString (uuid_String rt (ev_ResourceID e)))])"

definition auditQueryListResponse :: "'x runtime \<Rightarrow> (json_map \<Rightarrow> (string \<times> json) list) \<Rightarrow> time \<Rightarrow> audit_event list \<Rightarrow> int \<Rightarrow> json" where
  "auditQueryListResponse rt raw now events n =
     (let respEvents = map (toAuditEventResponse rt raw) events
      in JObject [(''generated_at'', JString (Format_RFC3339 now)), (''events'', JArray respEvents),
           (''count'', JNumber (strconv_Itoa (int (length respEvents)))), (''total'', JNumber (strconv_Itoa n))])"

section \<open>Filters\<close>

definition firstQueryValue :: "(string \<Rightarrow> string) \<Rightarrow> string \<Rightarrow> string" where
  "firstQueryValue q key = TrimSpace (q key)"

definition bad_filter :: "string \<Rightarrow> string \<Rightarrow> response" where
  "bad_filter msg field = writeAuditQueryErr 400 ''INVALID_ARGUMENT'' msg field"

text \<open>An absent or blank value sets no filter; \<^verbatim>\<open>f\<close> gives the value or the answer.\<close>

definition query_filter :: "(string \<Rightarrow> string) \<Rightarrow> string \<Rightarrow> (string \<Rightarrow> response + 'a) \<Rightarrow> response + 'a option" where
  "query_filter q key f =
     (let v = firstQueryValue q key
      in if v = [] then Inr None else case f v of Inl resp \<Rightarrow> Inl resp | Inr a \<Rightarrow> Inr (Some a))"

definition bounded_text :: "nat \<Rightarrow> string \<Rightarrow> string \<Rightarrow> response + string" where
  "bounded_text n field v = (if n < length v then Inl (bad_filter ''too long'' field) else Inr v)"

definition parsed_by :: "(string \<Rightarrow> 'a option) \<Rightarrow> string \<Rightarrow> string \<Rightarrow> response + 'a" where
  "parsed_by parse field v = (case parse v of None \<Rightarrow> Inl (bad_filter ''malformed'' field) | Some a \<Rightarrow> Inr a)"

definition check_range :: "time \<Rightarrow> AuditLogFilter \<Rightarrow> response option" where
  "check_range now flt =
     (if (case (flt_Since flt, flt_Until flt) of (Some a, Some b) \<Rightarrow> b < a | _ \<Rightarrow> False)
      then Some (bad_filter ''since is after until'' ''since'')
      else if (case flt_Until flt of Some b \<Rightarrow> now < b | None \<Rightarrow> False)
      then Some (bad_filter ''until is in the future'' ''until'')
      else if (case flt_Since flt of Some a \<Rightarrow> now < a | None \<Rightarrow> False)
      then Some (bad_filter ''since is in the future'' ''since'')
      else None)"

definition filters_of :: "'x runtime \<Rightarrow> (string \<Rightarrow> time option) \<Rightarrow> (string \<Rightarrow> string) \<Rightarrow> response + AuditLogFilter" where
  "filters_of rt parse_time q =
     (case query_filter q ''action'' Inr of Inl resp \<Rightarrow> Inl resp | Inr action \<Rightarrow>
     (case query_filter q ''resource_type'' (bounded_text maxAuditQueryResourceTypeLen ''resource_type'') of
        Inl resp \<Rightarrow> Inl resp | Inr ty \<Rightarrow>
     (case query_filter q ''resource_id'' (parsed_by (uuid_Parse rt) ''resource_id'') of Inl resp \<Rightarrow> Inl resp | Inr i \<Rightarrow>
     (case query_filter q ''user_id'' (bounded_text maxAuditQueryUserIDLen ''user_id'') of Inl resp \<Rightarrow> Inl resp | Inr u \<Rightarrow>
     (case query_filter q ''since'' (parsed_by parse_time ''since'') of Inl resp \<Rightarrow> Inl resp | Inr since \<Rightarrow>
     (case query_filter q ''until'' (parsed_by parse_time ''until'') of Inl resp \<Rightarrow> Inl resp | Inr until \<Rightarrow>
     Inr \<lparr>flt_Action = action, flt_ResourceType = ty, flt_ResourceID = i, flt_UserID = u,
          flt_Since = since, flt_Until = until\<rparr>))))))"

text \<open>The clock is read once all values have been read.\<close>

definition parseAuditQueryFilters ::
  "'x runtime \<Rightarrow> ('t, 'w) AuditQueryHandler \<Rightarrow> (string \<Rightarrow> string) \<Rightarrow> 'w \<Rightarrow> (response + AuditLogFilter) \<times> 'w" where
  "parseAuditQueryFilters rt h q w =
     (case filters_of rt (ah_ParseTime h) q of
        Inl resp \<Rightarrow> (Inl resp, w)
      | Inr flt \<Rightarrow> (case ah_Now h w of (now, w1) \<Rightarrow>
          (case check_range now flt of Some resp \<Rightarrow> (Inl resp, w1) | None \<Rightarrow> (Inr flt, w1))))"

section \<open>The handlers\<close>

definition audit_internal :: "string \<Rightarrow> goerr \<Rightarrow> response" where
  "audit_internal msg e = writeAuditQueryErr 500 ''INTERNAL'' msg []"

definition audit_search_stage ::
  "'x runtime \<Rightarrow> ('t, 'w) AuditQueryHandler \<Rightarrow> AuditLogFilter \<Rightarrow> int \<Rightarrow> int \<Rightarrow>
   ('t \<times> 'w) stage" where
  "audit_search_stage rt h flt limit offset =
     attempt (tx_QueryAuditLogs (st_tx (ah_store h)) flt limit offset) writeAuditQueryStoreErr (\<lambda>(events, n) (t, w).
       case ah_Now h w of (now, w1) \<Rightarrow>
         refuse (writeAuditQueryJSON 200 (auditQueryListResponse rt (ah_Details h) now events n)) (t, w1))"

definition handleListAuditLogs ::
  "'x runtime \<Rightarrow> ('t, 'w) AuditQueryHandler \<Rightarrow> 'w handler" where
  "handleListAuditLogs rt h r w = (case guardAuditQueryRead r of Some resp \<Rightarrow> (resp, w) | None \<Rightarrow>
     (case parseAuditQueryFilters rt h (req_Query r) w of
        (Inl resp, w1) \<Rightarrow> (resp, w1)
      | (Inr flt, w1) \<Rightarrow>
          (case clampPagination (firstQueryValue (req_Query r) ''limit'') (firstQueryValue (req_Query r) ''offset'') of
             (limit, offset) \<Rightarrow>
               with_defer (st_BeginTx (ah_store h)) (audit_internal ''begin failed'') (tx_Rollback (st_tx (ah_store h)))
                 (audit_search_stage rt h flt limit offset) w1)))"

definition handleGetAuditLog ::
  "'x runtime \<Rightarrow> ('t, 'w) AuditQueryHandler \<Rightarrow> 'w handler" where
  "handleGetAuditLog rt h r w = (case guardAuditQueryRead r of Some resp \<Rightarrow> (resp, w) | None \<Rightarrow>
     (case uuid_Parse rt (req_PathID r) of
        None \<Rightarrow> (bad_filter ''malformed id'' ''id'', w)
      | Some i \<Rightarrow>
          with_defer (st_BeginTx (ah_store h)) (audit_internal ''begin failed'') (tx_Rollback (st_tx (ah_store h)))
            (audit_search_stage rt h
               \<lparr>flt_Action = None, flt_ResourceType = None, flt_ResourceID = Some i, flt_UserID = None,
                flt_Since = None, flt_Until = None\<rparr> score_defaultListLimit 0) w))"

end
