(* ===== verification/Audit_Query_Properties.thy ===== *)
theory Audit_Query_Properties
  imports Audit_Query_Handlers Pg_Workflow Fake_Store Samples
begin

text \<open>
  What the search in the audit log answers: on PostgreSQL, exactly the asked page of the events that
  match, newest first; and the in-memory store of the tests agrees with PostgreSQL on the pages.
\<close>

section \<open>The search on the tables\<close>

text \<open>
  A row matches the filters as the driver sends them, the instants since and until cut to the
  microseconds that the column holds.
\<close>

definition audit_matches :: "AuditLogFilter \<Rightarrow> audit_row \<Rightarrow> bool" where
  "audit_matches flt r \<longleftrightarrow>
     (\<forall>a. flt_Action flt = Some a \<longrightarrow> ar_action r = a) \<and>
     (\<forall>a. flt_ResourceType flt = Some a \<longrightarrow> ar_resource_type r = a) \<and>
     (\<forall>i. flt_ResourceID flt = Some i \<longrightarrow> ar_resource_id r = i) \<and>
     (\<forall>u. flt_UserID flt = Some u \<longrightarrow> ar_user_id r = u) \<and>
     (\<forall>a. flt_Since flt = Some a \<longrightarrow> micros a \<le> ar_timestamp r) \<and>
     (\<forall>b. flt_Until flt = Some b \<longrightarrow> ar_timestamp r \<le> micros b)"

definition audit_found :: "AuditLogFilter \<Rightarrow> db \<Rightarrow> audit_row list" where
  "audit_found flt d = sort_key (\<lambda>r. - ar_timestamp r) (List.filter (audit_matches flt) (db_audit_logs d))"

definition page_of :: "int \<Rightarrow> int \<Rightarrow> 'a list \<Rightarrow> 'a list" where
  "page_of limit offset xs = take (nat limit) (drop (nat offset) xs)"

lemma audit_conditions_iff: "list_all (\<lambda>c. c r) (audit_conditions flt) \<longleftrightarrow> audit_matches flt r"
  by (auto simp: audit_conditions_def audit_matches_def split: option.splits)

lemma scan_audit_page:
  "scan_audit_rows (map (\<lambda>r. (r, n)) rs) es m = (es @ map audit_row_event rs, if rs = [] then m else n)"
  by (induction rs arbitrary: es m) auto

lemma audit_query_Inr:
  assumes "PgWorkflowTx_QueryAuditLogs flt limit offset s = (Inr (es, n), s')"
  shows "0 \<le> limit \<and> 0 \<le> offset \<and>
    es = map audit_row_event (page_of limit offset (audit_found flt (ptx_work (fst s)))) \<and>
    n = (if es = [] then 0 else int (length (audit_found flt (ptx_work (fst s)))))"
proof -
  from assms obtain now u d rows where q: "audit_select flt limit offset now u (ptx_work (fst s)) = Inr (rows, d)"
    and r: "scan_audit_rows rows [] 0 = (es, n)"
    by (auto simp: PgWorkflowTx_QueryAuditLogs_def eff_simps pg_run_Inr_iff)
  from q have "0 \<le> limit" "0 \<le> offset"
    "rows = map (\<lambda>r. (r, int (length (audit_found flt (ptx_work (fst s))))))
       (page_of limit offset (audit_found flt (ptx_work (fst s))))"
    by (auto simp: audit_select_def Let_def limit_offset_def audit_conditions_iff audit_found_def page_of_def
        split: if_splits)
  with r show ?thesis
    by (cases "page_of limit offset (audit_found flt (ptx_work (fst s))) = []") (auto simp: scan_audit_page)
qed

lemma clamp_pagination_bounds:
  "clampPagination a b = (limit, offset) \<Longrightarrow> 1 \<le> limit \<and> limit \<le> 500 \<and> 0 \<le> offset"
  by (auto simp: clampPagination_def Let_def score_maxListLimit_def score_defaultListLimit_def
      split: option.splits if_splits)

section \<open>The handlers on PostgreSQL\<close>

definition pg_audit_handler ::
  "(string \<Rightarrow> uuid option) \<Rightarrow> (string \<Rightarrow> time option) \<Rightarrow> (json_map \<Rightarrow> (string \<times> json) list) \<Rightarrow> (pg_tx, pg_world) AuditQueryHandler" where
  "pg_audit_handler parse parse_time details =
     \<lparr>ah_store = PgWorkflowStore_methods parse, ah_ParseTime = parse_time, ah_Now = read_clock, ah_Details = details\<rparr>"

interpretation workflow_txs: transactional PgWorkflowStore_BeginTx PgWorkflowTx_Commit PgWorkflowTx_Rollback
  pg_committed "\<lambda>s. ptx_work (fst s)"
  unfolding PgWorkflowStore_BeginTx_def PgWorkflowTx_Commit_def
  by (rule pg_transactional, rule PgWorkflowTx_Rollback_keeps)

lemma pg_audit_handler_simps [simp]:
  "st_BeginTx (ah_store (pg_audit_handler p q x)) = PgWorkflowStore_BeginTx"
  "tx_Rollback (st_tx (ah_store (pg_audit_handler p q x))) = PgWorkflowTx_Rollback"
  "tx_QueryAuditLogs (st_tx (ah_store (pg_audit_handler p q x))) = PgWorkflowTx_QueryAuditLogs"
  "ah_ParseTime (pg_audit_handler p q x) = q" "ah_Now (pg_audit_handler p q x) = read_clock"
  "ah_Details (pg_audit_handler p q x) = x"
  by (simp_all add: pg_audit_handler_def PgWorkflowStore_methods_def PgWorkflowTx_methods_def)

lemma read_clock_committed [simp]: "pg_committed (snd (read_clock w)) = pg_committed (w :: pg_world)"
  by (simp add: read_clock_def)

lemma audit_codes [simp]:
  "resp_Code (writeAuditQueryErr a b m f) = a" "resp_Code (writeAuditQueryJSON a v) = a"
  "resp_Body (writeAuditQueryJSON a v) = v"
  "resp_Code (bad_filter m f) = 400" "resp_Code (audit_internal m e) = 500"
  by (simp_all add: writeAuditQueryErr_def writeAuditQueryJSON_def bad_filter_def audit_internal_def)

lemma audit_store_code [simp]: "400 \<le> resp_Code (writeAuditQueryStoreErr e)"
  by (simp add: writeAuditQueryStoreErr_def mapAuditQueryStoreErr_def)

text \<open>One search: an error, or the page.\<close>

definition audit_answer ::
  "'x runtime \<Rightarrow> (json_map \<Rightarrow> (string \<times> json) list) \<Rightarrow> AuditLogFilter \<Rightarrow> int \<Rightarrow> int \<Rightarrow> db \<Rightarrow> response \<Rightarrow> bool" where
  "audit_answer rt details flt limit offset d resp \<longleftrightarrow>
     (\<exists>now. let page = page_of limit offset (audit_found flt d) in
        resp = writeAuditQueryJSON 200 (auditQueryListResponse rt details now (map audit_row_event page)
          (if page = [] then 0 else int (length (audit_found flt d)))))"

lemma audit_stage_run:
  assumes "audit_search_stage rt0 (pg_audit_handler p q details) flt limit offset s = ((c, resp), s')"
  shows "pg_committed (snd s') = pg_committed (snd s) \<and>
    (400 \<le> resp_Code resp \<or> audit_answer rt0 details flt limit offset (ptx_work (fst s)) resp)"
proof -
  obtain qr s1 where qr: "PgWorkflowTx_QueryAuditLogs flt limit offset s = (qr, s1)" by (rule prod.exhaust)
  have pub: "pg_committed (snd s1) = pg_committed (snd s)"
    using keepsD [OF PgWorkflowTx_keeps(6) qr] by (simp add: published_def)
  show ?thesis
  proof (cases qr)
    case (Inl e)
    then show ?thesis using assms qr pub by (auto simp: audit_search_stage_def attempt_def refuse_def)
  next
    case (Inr en)
    obtain es n t w where en: "en = (es, n)" "s1 = (t, w)" by (cases en; cases s1) auto
    have ok: "es = map audit_row_event (page_of limit offset (audit_found flt (ptx_work (fst s))))"
      "n = (if es = [] then 0 else int (length (audit_found flt (ptx_work (fst s)))))"
      using audit_query_Inr [OF qr [unfolded Inr en(1)]] by auto
    have "resp = writeAuditQueryJSON 200 (auditQueryListResponse rt0 details (fst (read_clock w)) es n)"
      "s' = (t, snd (read_clock w))"
      using assms qr Inr en by (auto simp: audit_search_stage_def attempt_def refuse_def split: prod.splits)
    then show ?thesis using ok pub en by (auto simp: audit_answer_def Let_def)
  qed
qed

lemma audit_search_run:
  assumes "with_defer PgWorkflowStore_BeginTx (audit_internal msg) PgWorkflowTx_Rollback
      (audit_search_stage rt0 (pg_audit_handler p q details) flt limit offset) w = (resp, w')"
  shows "pg_committed w' = pg_committed w \<and>
    (400 \<le> resp_Code resp \<or> audit_answer rt0 details flt limit offset (pg_committed w) resp)"
  by (rule workflow_txs.with_defer_cases [OF _ assms]) (auto dest: audit_stage_run)

definition audit_reader :: "request \<Rightarrow> bool" where
  "audit_reader r \<longleftrightarrow> (case UserFromContext r of None \<Rightarrow> True | Some u \<Rightarrow> RoleAdmin \<in> set (user_roles u))"

lemma guard_audit_None: "guardAuditQueryRead r = None \<longleftrightarrow> audit_reader r"
  by (auto simp: guardAuditQueryRead_def audit_reader_def requireAuditQueryReadRole_def user_roles_def split: option.splits)

lemma guard_audit_code: "guardAuditQueryRead r = Some resp \<Longrightarrow> resp_Code resp = 403"
  by (auto simp: guardAuditQueryRead_def split: option.splits if_splits)

lemma filter_codes:
  "query_filter q k f = Inl resp \<Longrightarrow> (\<And>v r. f v = Inl r \<Longrightarrow> resp_Code r = 400) \<Longrightarrow> resp_Code resp = 400"
  by (auto simp: query_filter_def Let_def split: if_splits sum.splits)

lemma filters_code: "filters_of rt p q = Inl resp \<Longrightarrow> resp_Code resp = 400"
  by (auto simp: filters_of_def bounded_text_def parsed_by_def split: sum.splits option.splits if_splits
      elim!: filter_codes)

lemma range_code: "check_range now flt = Some resp \<Longrightarrow> resp_Code resp = 400"
  by (auto simp: check_range_def split: if_splits)

text \<open>The filters of a request that passes, at the time at which it is read.\<close>

lemma parse_filters_cases:
  assumes "parseAuditQueryFilters rt0 (pg_audit_handler p q details) qs w = (r, w1)"
  shows "pg_committed w1 = pg_committed w \<and>
    (case r of Inl resp \<Rightarrow> resp_Code resp = 400
     | Inr flt \<Rightarrow> filters_of rt0 q qs = Inr flt \<and> check_range (fst (read_clock w)) flt = None)"
proof (cases "filters_of rt0 q qs")
  case (Inl resp)
  then have "r = Inl resp" "w1 = w" using assms by (simp_all add: parseAuditQueryFilters_def)
  then show ?thesis using filters_code [OF Inl] by simp
next
  case (Inr flt)
  obtain now w2 where c: "read_clock w = (now, w2)" by fastforce
  have "pg_committed w2 = pg_committed w" using read_clock_committed [of w] c by simp
  moreover have "w1 = w2" "r = (case check_range now flt of Some resp \<Rightarrow> Inl resp | None \<Rightarrow> Inr flt)"
    using assms c Inr by (auto simp: parseAuditQueryFilters_def split: option.splits)
  ultimately show ?thesis
    using Inr c range_code [of now flt] by (cases "check_range now flt") simp_all
qed

section \<open>Properties\<close>

text \<open>
  C6: The search in the audit log. A request to it changes nothing, and it is answered by an error or
  by 200. Answered 200, its user is an administrator (or authentication is off), its values are
  filters in range at the time it is read, the page holds 1 to 500 events, and the body is exactly
  that page of the events that match every filter, newest first, with their number (0 for a page
  without events). Events of one instant, whose order PostgreSQL leaves open, stay as stored. The
  instants are compared in microseconds, as stored and sent: since and until are cut to theirs, so an
  event in the microsecond of since matches even where the text of since is some nanoseconds later.
\<close>

theorem audit_search_answer:
  assumes "handleListAuditLogs rt0 (pg_audit_handler parse parse_time details) r w = (resp, w')"
  shows "pg_committed w' = pg_committed w \<and>
    (400 \<le> resp_Code resp \<or>
     resp_Code resp = 200 \<and> audit_reader r \<and>
     (\<exists>flt limit offset now.
        filters_of rt0 parse_time (req_Query r) = Inr flt \<and> check_range (fst (read_clock w)) flt = None \<and>
        clampPagination (TrimSpace (req_Query r ''limit'')) (TrimSpace (req_Query r ''offset'')) = (limit, offset) \<and>
        1 \<le> limit \<and> limit \<le> 500 \<and> 0 \<le> offset \<and>
        (let found = sort_key (\<lambda>a. - ar_timestamp a) (List.filter (\<lambda>a.
               (\<forall>x. flt_Action flt = Some x \<longrightarrow> ar_action a = x) \<and>
               (\<forall>x. flt_ResourceType flt = Some x \<longrightarrow> ar_resource_type a = x) \<and>
               (\<forall>i. flt_ResourceID flt = Some i \<longrightarrow> ar_resource_id a = i) \<and>
               (\<forall>u. flt_UserID flt = Some u \<longrightarrow> ar_user_id a = u) \<and>
               (\<forall>t. flt_Since flt = Some t \<longrightarrow> t - t mod 1000 \<le> ar_timestamp a) \<and>
               (\<forall>t. flt_Until flt = Some t \<longrightarrow> ar_timestamp a \<le> t - t mod 1000)) (db_audit_logs (pg_committed w)));
             page = take (nat limit) (drop (nat offset) found)
         in resp_Body resp = auditQueryListResponse rt0 details now (map audit_row_event page)
              (if page = [] then 0 else int (length found)))))"
proof (cases "guardAuditQueryRead r")
  case (Some q)
  then show ?thesis using assms guard_audit_code [OF Some] by (simp add: handleListAuditLogs_def)
next
  case None
  let ?h = "pg_audit_handler parse parse_time details"
  obtain f w1 where f: "parseAuditQueryFilters rt0 ?h (req_Query r) w = (f, w1)" by fastforce
  note pf = parse_filters_cases [OF f]
  show ?thesis
  proof (cases f)
    case (Inl q)
    then show ?thesis using assms pf f None by (simp add: handleListAuditLogs_def)
  next
    case (Inr flt)
    obtain l o1 where lo: "clampPagination (TrimSpace (req_Query r ''limit'')) (TrimSpace (req_Query r ''offset'')) = (l, o1)"
      by fastforce
    have run: "with_defer PgWorkflowStore_BeginTx (audit_internal ''begin failed'') PgWorkflowTx_Rollback
        (audit_search_stage rt0 ?h flt l o1) w1 = (resp, w')"
      using assms f Inr lo None by (simp add: handleListAuditLogs_def firstQueryValue_def)
    have pub: "pg_committed w1 = pg_committed w" and flt: "filters_of rt0 parse_time (req_Query r) = Inr flt"
      "check_range (fst (read_clock w)) flt = None" using pf Inr by auto
    from audit_search_run [OF run] have w': "pg_committed w' = pg_committed w" and
      ans: "400 \<le> resp_Code resp \<or> audit_answer rt0 details flt l o1 (pg_committed w) resp" unfolding pub by auto
    have adm: "audit_reader r" using None guard_audit_None by blast
    show ?thesis
      using w' ans adm flt lo clamp_pagination_bounds [OF lo]
      unfolding audit_answer_def Let_def audit_found_def page_of_def audit_matches_def micros_def by auto
  qed
qed

lemma sort_map_key: "sort_key f (map g xs) = map g (sort_key (\<lambda>x. f (g x)) xs)"
proof -
  have "insort_key f (g x) (map g ys) = map g (insort_key (\<lambda>x. f (g x)) x ys)" for x ys
    by (induction ys) auto
  then show ?thesis by (induction xs) simp_all
qed

lemma event_timestamp [simp]: "ev_Timestamp (audit_row_event r) = ar_timestamp r"
  by (simp add: audit_row_event_def)

definition cut_instants :: "AuditLogFilter \<Rightarrow> AuditLogFilter" where
  "cut_instants flt = flt\<lparr>flt_Since := map_option micros (flt_Since flt), flt_Until := map_option micros (flt_Until flt)\<rparr>"

lemma fake_match_row: "fake_audit_match (cut_instants flt) (audit_row_event r) \<longleftrightarrow> audit_matches flt r"
  by (auto simp: fake_audit_match_def audit_matches_def audit_row_event_def cut_instants_def split: option.splits)

text \<open>
  C15: The two stores agree on the microsecond. If the in-memory store that the tests use holds the
  same log as the tables, it answers the filter whose since and until are cut to microseconds with the
  same events in the same order (events of one instant, whose order both leave open, as stored) as
  PostgreSQL answers the filter itself, and with the same total unless the page is empty: there
  PostgreSQL answers 0 whatever matches. So on filters in whole microseconds the two answer alike; for
  the others the cut is the difference between them.
\<close>

theorem audit_query_stores_agree:
  assumes "PgWorkflowTx_QueryAuditLogs flt limit offset p = (Inr (es, n), p')"
    and "fs_AuditLogs s = pg_logs (ptx_work (fst p))"
  shows "\<exists>m. FakeTx_QueryAuditLogs (flt\<lparr>flt_Since := map_option (\<lambda>t. t - t mod 1000) (flt_Since flt),
        flt_Until := map_option (\<lambda>t. t - t mod 1000) (flt_Until flt)\<rparr>) limit offset (tx, s) = (Inr (es, m), (tx, s)) \<and>
    (if es = [] then n = 0 else m = n)"
proof -
  let ?found = "audit_found flt (ptx_work (fst p))"
  from audit_query_Inr [OF assms(1)] have l: "0 \<le> limit" "0 \<le> offset"
    and es: "es = map audit_row_event (page_of limit offset ?found)"
    and n: "n = (if es = [] then 0 else int (length ?found))" by auto
  have cut: "flt\<lparr>flt_Since := map_option (\<lambda>t. t - t mod 1000) (flt_Since flt),
      flt_Until := map_option (\<lambda>t. t - t mod 1000) (flt_Until flt)\<rparr> = cut_instants flt"
    by (simp add: cut_instants_def micros_def [abs_def])
  have m: "sort_key (\<lambda>e. - ev_Timestamp e) (List.filter (fake_audit_match (cut_instants flt)) (fs_AuditLogs s)) = map audit_row_event ?found"
    by (simp add: assms(2) pg_logs_def filter_map comp_def fake_match_row audit_found_def sort_map_key)
  have len: "length (List.filter (fake_audit_match (cut_instants flt)) (fs_AuditLogs s)) = length ?found"
    using arg_cong [OF m, of length] by simp
  have "\<exists>m. FakeTx_QueryAuditLogs (cut_instants flt) limit offset (tx, s) = (Inr (es, m), (tx, s)) \<and>
    (if es = [] then n = 0 else m = n)"
  proof (cases "int (length ?found) \<le> offset")
    case True
    then have "es = []" using es l by (simp add: page_of_def)
    then show ?thesis using True l n by (simp add: FakeTx_QueryAuditLogs_def m len Let_def)
  next
    case False
    then have "slice (map audit_row_event ?found) offset
        (if int (length ?found) < offset + limit then int (length ?found) else offset + limit) = Inr es"
      using l es by (auto simp: slice_def page_of_def take_map drop_map nat_add_distrib)
    then show ?thesis using False l n by (auto simp: FakeTx_QueryAuditLogs_def m len Let_def call_def callw_def lift_def retn_def)
  qed
  then show ?thesis unfolding cut .
qed

text \<open>
  Below the microsecond they differ: with an event at 5 microseconds and since 500 nanoseconds later,
  PostgreSQL answers the event, which is older than since, and the in-memory store does not.
\<close>

lemma stores_differ_below_microsecond:
  assumes "ar_timestamp r = 5000" and "flt = \<lparr>flt_Action = None, flt_ResourceType = None, flt_ResourceID = None,
      flt_UserID = None, flt_Since = Some 5500, flt_Until = None\<rparr>"
  shows "audit_matches flt r" and "\<not> fake_audit_match flt (audit_row_event r)"
  by (simp_all add: assms audit_matches_def fake_audit_match_def micros_def)

section \<open>Witnesses\<close>

definition sample_audit_row :: audit_row where
  "sample_audit_row = \<lparr>ar_id = 1, ar_action = ActionWorkflowCreated, ar_resource_type = ''workflow'', ar_resource_id = 7,
     ar_user_id = ''u1'', ar_details = None, ar_timestamp = 5000\<rparr>"

definition sample_log_db :: db where
  "sample_log_db = empty_db\<lparr>db_audit_logs := [sample_audit_row]\<rparr>"

definition no_filter :: AuditLogFilter where
  "no_filter = \<lparr>flt_Action = None, flt_ResourceType = None, flt_ResourceID = None, flt_UserID = None,
     flt_Since = None, flt_Until = None\<rparr>"

theorem audit_search_answer_witness:
  "pg_committed (snd (handleListAuditLogs (pg_runtime canonical_Parse canonical_String sample_SHA1)
      (pg_audit_handler canonical_Parse (\<lambda>s. None) (\<lambda>m. [])) (plain_request [] None None) (sample_pg sample_log_db))) =
   sample_log_db"
  using audit_search_answer [OF prod.collapse [symmetric],
      of "pg_runtime canonical_Parse canonical_String sample_SHA1" canonical_Parse "\<lambda>s. None" "\<lambda>m. []"
        "plain_request [] None None" "sample_pg sample_log_db"]
  by simp

theorem audit_query_stores_agree_witness:
  "\<forall>tx s. \<exists>m. FakeTx_QueryAuditLogs (no_filter\<lparr>flt_Since := Some 5000\<rparr>) 50 0 (tx, s\<lparr>fs_AuditLogs := [audit_row_event sample_audit_row]\<rparr>) =
     (Inr ([audit_row_event sample_audit_row], m), (tx, s\<lparr>fs_AuditLogs := [audit_row_event sample_audit_row]\<rparr>)) \<and> m = 1"
proof -
  obtain p' where run: "PgWorkflowTx_QueryAuditLogs (no_filter\<lparr>flt_Since := Some 5500\<rparr>) 50 0 (sample_tx sample_log_db) =
      (Inr ([audit_row_event sample_audit_row], 1), p')"
    by (simp add: sample_tx_def PgWorkflowTx_QueryAuditLogs_def pg_statements audit_select_def audit_conditions_def
        no_filter_def sample_log_db_def limit_offset_def Let_def micros_def sample_audit_row_def)
  show ?thesis
  proof (intro allI, goal_cases)
    case (1 tx s)
    show ?case
      using audit_query_stores_agree [OF run, of "s\<lparr>fs_AuditLogs := [audit_row_event sample_audit_row]\<rparr>" tx]
      by (simp add: sample_log_db_def pg_logs_def no_filter_def)
  qed
qed

end
