(* ===== verification/Report_Handlers.thy ===== *)
theory Report_Handlers
  imports Handler_Frame Score_Store Eval_Item_Store Numbers
begin

text \<open>
  cmd/server/report_handlers.go: the report on a category, which reads the items in one transaction
  and the scores in a second one. A rational (big.Rat) is a \<^verbatim>\<open>rat\<close>; the values of NUMERIC arrive as
  pgtype.Numeric, an integer and a power of ten. \<^verbatim>\<open>rp_Now\<close> reads the clock. Log lines are not modelled.
\<close>

record pgtype_Numeric =
  pn_Int :: "int option"
  pn_Exp :: "32 word"
  pn_InfinityModifier :: int
  pn_NaN :: bool
  pn_Valid :: bool

record ('u, 'v, 'w) ReportHandler =
  rp_ScoreBegin :: "('w, 'v) eff"
  rp_SumWeighted :: "string \<Rightarrow> ('v \<times> 'w, pgtype_Numeric) eff"
  rp_DetermineGrade :: "string \<Rightarrow> float64 \<Rightarrow> ('v \<times> 'w, string) eff"
  rp_ScoreRollback :: "('v \<times> 'w, unit) eff"
  rp_ItemBegin :: "('w, 'u) eff"
  rp_GetEvalItemByID :: "string \<Rightarrow> ('u \<times> 'w, EvalItem) eff"
  rp_GetEvalItemsByParentID :: "string \<Rightarrow> ('u \<times> 'w, EvalItem list) eff"
  rp_ItemRollback :: "('u \<times> 'w, unit) eff"
  rp_Now :: "'w \<Rightarrow> time \<times> 'w"

definition maxReportCategoryIDLen :: nat where
  "maxReportCategoryIDLen = 64"

definition reportNumericScale :: nat where
  "reportNumericScale = 4"

section \<open>Answers\<close>

definition writeReportJSON :: "nat \<Rightarrow> json \<Rightarrow> response" where
  "writeReportJSON code v =
     \<lparr>resp_Code = code, resp_Header = [(''Content-Type'', ''application/json'')], resp_Body = v\<rparr>"

definition writeReportErr :: "nat \<Rightarrow> string \<Rightarrow> string \<Rightarrow> string \<Rightarrow> response" where
  "writeReportErr code errCode msg field =
     writeReportJSON code (JObject [(''error'',
       JObject ([(''code'', JString errCode), (''message'', JString msg)] @ text_field ''field'' field))])"

definition mapReportStoreErr :: "goerr \<Rightarrow> nat \<times> string \<times> string" where
  "mapReportStoreErr e =
     (if errors_Is e ErrEvalItemNotFound then (404, ''NOT_FOUND'', ''category not found'')
      else if errors_Is e ErrScoreNotFound then (404, ''NOT_FOUND'', ''score not found'')
      else if errors_Is e ErrScoreInvalidInput then (400, ''INVALID_ARGUMENT'', ''invalid report input'')
      else (500, ''INTERNAL'', ''report failed''))"

definition writeReportStoreErr :: "goerr \<Rightarrow> response" where
  "writeReportStoreErr e = (case mapReportStoreErr e of (code, errCode, msg) \<Rightarrow> writeReportErr code errCode msg [])"

definition parseCategoryID :: "request \<Rightarrow> response + string" where
  "parseCategoryID r =
     (let raw = TrimSpace (req_PathID r)
      in if raw = [] then Inl (writeReportErr 400 ''INVALID_ARGUMENT'' ''id missing'' ''id'')
         else if maxReportCategoryIDLen < length raw
         then Inl (writeReportErr 400 ''INVALID_ARGUMENT'' ''id too long'' ''id'')
         else Inr raw)"

section \<open>Exact decimal sums\<close>

text \<open>big.Int.Exp answers 1 for an exponent that is not positive; the int32 exponent wraps when it is negated.\<close>

definition numericToRat :: "pgtype_Numeric \<Rightarrow> rat" where
  "numericToRat n =
     (case pn_Int n of
        None \<Rightarrow> 0
      | Some i \<Rightarrow>
          if \<not> pn_Valid n \<or> pn_NaN n \<or> pn_InfinityModifier n \<noteq> 0 then 0
          else if 0 \<le> sint (pn_Exp n) then of_int (i * 10 ^ nat (sint (pn_Exp n)))
          else of_int i / of_int (10 ^ nat (sint (- pn_Exp n))))"

definition accumulateWeighted :: "rat \<Rightarrow> pgtype_Numeric \<Rightarrow> rat" where
  "accumulateWeighted acc n = acc + numericToRat n"

text \<open>Rat.FloatString: rounded to the nearest, halves away from zero.\<close>

definition FloatString :: "nat \<Rightarrow> rat \<Rightarrow> string" where
  "FloatString prec q =
     (let n = \<lfloor>\<bar>q\<bar> * 10 ^ prec + 1 / 2\<rfloor>
      in (if q < 0 then ''-'' else []) @ strconv_Itoa (n div 10 ^ prec) @
         (if prec = 0 then [] else ''.'' @ pad_digits prec (n mod 10 ^ prec)))"

definition reportItem :: "EvalItem \<Rightarrow> pgtype_Numeric \<Rightarrow> json" where
  "reportItem child s = JObject
     [(''item_id'', JString (evi_ID child)), (''item_name'', JString (evi_DisplayName child)),
      (''weighted_sum'', JString (FloatString reportNumericScale (numericToRat s)))]"

definition categoryReportResponse ::
  "EvalItem \<Rightarrow> json list \<Rightarrow> rat \<Rightarrow> string option \<Rightarrow> time \<Rightarrow> json" where
  "categoryReportResponse category items acc grade now = JObject
     [(''category_grade'', pointer_json JString grade), (''category_id'', JString (evi_ID category)),
      (''category_name'', JString (evi_DisplayName category)),
      (''category_total'', JString (FloatString reportNumericScale acc)),
      (''generated_at'', JString (Format_RFC3339 now)), (''items'', JArray items)]"

section \<open>The handler\<close>

definition report_internal :: "string \<Rightarrow> goerr \<Rightarrow> response" where
  "report_internal msg e = writeReportErr 500 ''INTERNAL'' msg []"

definition category_reads :: "('u, 'v, 'w) ReportHandler \<Rightarrow> string \<Rightarrow> 'u \<times> 'w \<Rightarrow> (response + EvalItem \<times> EvalItem list) \<times> 'u \<times> 'w" where
  "category_reads h categoryID s =
     (case rp_GetEvalItemByID h categoryID s of
        (Inl e, s1) \<Rightarrow> (Inl (writeReportStoreErr e), s1)
      | (Inr category, s1) \<Rightarrow>
          (case rp_GetEvalItemsByParentID h categoryID s1 of
             (Inl e, s2) \<Rightarrow> (Inl (writeReportStoreErr e), s2)
           | (Inr children, s2) \<Rightarrow> (Inr (category, children), s2)))"

definition enumerateCategoryChildren ::
  "('u, 'v, 'w) ReportHandler \<Rightarrow> string \<Rightarrow> 'w \<Rightarrow> (response + EvalItem \<times> EvalItem list) \<times> 'w" where
  "enumerateCategoryChildren h categoryID w =
     (case rp_ItemBegin h w of
        (Inl e, w1) \<Rightarrow> (Inl (report_internal ''begin failed'' e), w1)
      | (Inr t, w1) \<Rightarrow> (case category_reads h categoryID (t, w1) of
          (r, s) \<Rightarrow> (r, snd (snd (rp_ItemRollback h s)))))"

text \<open>The loop over the children, with the sum so far, the items so far and what follows the loop.\<close>

primrec sum_children ::
  "('u, 'v, 'w) ReportHandler \<Rightarrow> EvalItem list \<Rightarrow> rat \<Rightarrow> json list \<Rightarrow> (rat \<Rightarrow> json list \<Rightarrow> ('v \<times> 'w) stage) \<Rightarrow>
   ('v \<times> 'w) stage" where
  "sum_children h [] acc items k = k acc items"
| "sum_children h (child # children) acc items k =
     attempt (rp_SumWeighted h (evi_ID child)) writeReportStoreErr (\<lambda>s.
     sum_children h children (accumulateWeighted acc s) (items @ [reportItem child s]) k)"

definition finish_report ::
  "('u, 'v, 'w) ReportHandler \<Rightarrow> EvalItem \<Rightarrow> rat \<Rightarrow> json list \<Rightarrow> string option \<Rightarrow> ('v \<times> 'w) stage" where
  "finish_report h category acc items grade = (\<lambda>(t, w). case rp_Now h w of (now, w1) \<Rightarrow>
     refuse (writeReportJSON 200 (categoryReportResponse category items acc grade now)) (t, w1))"

definition report_stage ::
  "('u, 'v, 'w) ReportHandler \<Rightarrow> string \<Rightarrow> EvalItem \<Rightarrow> EvalItem list \<Rightarrow> ('v \<times> 'w) stage" where
  "report_stage h categoryID category children =
     sum_children h children 0 [] (\<lambda>acc items s.
       case rp_DetermineGrade h categoryID (f64_of_rat acc) s of
         (Inr g, s1) \<Rightarrow> finish_report h category acc items (Some g) s1
       | (Inl e, s1) \<Rightarrow>
           if errors_Is e ErrGradeThresholdsUnavailable then finish_report h category acc items None s1
           else refuse (writeReportStoreErr e) s1)"

definition handleCategoryReport :: "('u, 'v, 'w) ReportHandler \<Rightarrow> 'w handler" where
  "handleCategoryReport h r w =
     (case parseCategoryID r of
        Inl resp \<Rightarrow> (resp, w)
      | Inr categoryID \<Rightarrow>
          (case enumerateCategoryChildren h categoryID w of
             (Inl resp, w1) \<Rightarrow> (resp, w1)
           | (Inr (category, children), w1) \<Rightarrow>
               with_defer (rp_ScoreBegin h) (report_internal ''begin failed'') (rp_ScoreRollback h)
                 (report_stage h categoryID category children) w1))"

end
