(* ===== verification/Report_Properties.thy ===== *)
theory Report_Properties
  imports Report_Handlers Rubric_Handler_Properties Score_Handler_Properties
begin

text \<open>
  The report of a category on PostgreSQL: its total is the exact sum of the weighted sums of the
  children, and the texts of the answer stand for exactly these numbers.
\<close>

section \<open>Decimal texts\<close>

lemma decimal_value_snoc: "decimal_value (s @ [c]) = decimal_value s * 10 + (of_char c - 48)"
  by (simp add: decimal_value_def)

lemma digit_char [simp]: "n < 10 \<Longrightarrow> of_char (char_of (48 + n)) = 48 + (n :: nat)"
  by (simp add: of_char_of)

lemma is_digit_char [simp]: "n < 10 \<Longrightarrow> is_digit (char_of (48 + n :: nat))"
  by (simp add: is_digit_def)

lemma digits_decimal: "decimal_value (digits n) = n \<and> (\<forall>c\<in>set (digits n). is_digit c) \<and> digits n \<noteq> []"
proof (induction n rule: digits.induct)
  case (1 n)
  show ?case
  proof (cases "n < 10")
    case True
    have "decimal_value [char_of (48 + n)] = n"
      using True decimal_value_snoc [of "[]" "char_of (48 + n)"] by (simp add: decimal_value_def)
    then show ?thesis using True by (subst (1 2 3) digits.simps) simp
  next
    case False
    then show ?thesis using 1 by (subst (1 2 3) digits.simps) (auto simp: decimal_value_snoc)
  qed
qed

lemma pad_digits_decimal:
  "0 \<le> m \<Longrightarrow> decimal_value (s @ pad_digits k m) = decimal_value s * 10 ^ k + nat (m mod 10 ^ k)"
proof (induction k arbitrary: m)
  case (Suc k)
  have "m mod 10 ^ Suc k = 10 * (m div 10 mod 10 ^ k) + m mod 10"
    using zmod_zmult2_eq [of "10 ^ k" m 10] by simp
  moreover have "0 \<le> m div 10 mod 10 ^ k" "0 \<le> m mod 10" "m mod 10 < 10" by simp_all
  ultimately have n: "nat (m mod 10 ^ Suc k) = nat (m div 10 mod 10 ^ k) * 10 + nat (m mod 10)" by linarith
  have "nat (m mod 10) < 10" using Suc.prems by simp
  then have "decimal_value (s @ pad_digits (Suc k) m) = decimal_value (s @ pad_digits k (m div 10)) * 10 + nat (m mod 10)"
    by (simp add: decimal_value_snoc flip: append_assoc)
  then show ?case using Suc n by (simp add: algebra_simps)
qed simp

lemma pad_digits_digit: "c \<in> set (pad_digits k m) \<Longrightarrow> is_digit c"
proof (induction k arbitrary: m)
  case (Suc k)
  have "nat (m mod 10) < 10" by simp
  then show ?case using Suc by auto
qed simp

text \<open>A multiple of the last digit is written exactly: the reader of numbers gets it back.\<close>

lemma number_value_point:
  assumes "\<forall>c\<in>set a. is_digit c" "a \<noteq> []" "\<forall>c\<in>set b. is_digit c"
  shows "number_value (a @ CHR ''.'' # b) = of_nat (decimal_value (a @ b)) / 10 ^ length b"
    and "number_value (CHR ''-'' # a @ CHR ''.'' # b) = - (of_nat (decimal_value (a @ b)) / 10 ^ length b)"
proof -
  have d: "\<not> is_digit (CHR ''.'')" by (simp add: is_digit_def)
  have t: "takeWhile is_digit (a @ CHR ''.'' # b) = a" "dropWhile is_digit (a @ CHR ''.'' # b) = CHR ''.'' # b"
    "takeWhile is_digit b = b" "dropWhile is_digit b = []"
    using assms d by (auto simp: takeWhile_append)
  have h: "hd (a @ CHR ''.'' # b) \<noteq> CHR ''-''" using assms(1,2) by (cases a) (auto simp: is_digit_def)
  have e: "ten_power (- int (length b)) = 1 / 10 ^ length b" by (simp add: ten_power_def)
  show "number_value (a @ CHR ''.'' # b) = of_nat (decimal_value (a @ b)) / 10 ^ length b"
    using h by (simp add: number_value_def Let_def t e)
  show "number_value (CHR ''-'' # a @ CHR ''.'' # b) = - (of_nat (decimal_value (a @ b)) / 10 ^ length b)"
    by (simp add: number_value_def Let_def t e)
qed

lemma length_pad_digits [simp]: "length (pad_digits k m) = k"
  by (induction k arbitrary: m) simp_all

lemma floor_half: "\<lfloor>of_int m + 1 / 2 :: rat\<rfloor> = m"
  by (rule floor_unique) simp_all

lemma FloatString_value:
  assumes "0 < p"
  shows "number_value (FloatString p (of_int k / 10 ^ p)) = of_int k / 10 ^ p"
proof -
  let ?q = "of_int k / 10 ^ p :: rat"
  let ?a = "strconv_Itoa (\<bar>k\<bar> div 10 ^ p)" and ?b = "pad_digits p (\<bar>k\<bar> mod 10 ^ p)"
  have "\<bar>?q\<bar> * 10 ^ p = of_int \<bar>k\<bar>" by (simp add: abs_divide)
  then have fl: "\<lfloor>\<bar>?q\<bar> * 10 ^ p + 1 / 2\<rfloor> = \<bar>k\<bar>" by (simp only: floor_half)
  then have s: "FloatString p ?q = (if k < 0 then ''-'' else []) @ ?a @ CHR ''.'' # ?b"
    using assms by (simp add: FloatString_def Let_def fl divide_less_0_iff)
  have a: "?a = digits (nat (\<bar>k\<bar> div 10 ^ p))" by (simp add: strconv_Itoa_def pos_imp_zdiv_neg_iff)
  have dig: "\<forall>c\<in>set ?a. is_digit c" "?a \<noteq> []" "\<forall>c\<in>set ?b. is_digit c"
    unfolding a using digits_decimal by (auto dest: pad_digits_digit)
  have "decimal_value (?a @ ?b) = nat (\<bar>k\<bar> div 10 ^ p) * 10 ^ p + nat (\<bar>k\<bar> mod 10 ^ p)"
    using digits_decimal by (simp add: a pad_digits_decimal)
  also have "int \<dots> = \<bar>k\<bar>"
    using div_mult_mod_eq [of "\<bar>k\<bar>" "10 ^ p"] by (simp add: pos_imp_zdiv_nonneg_iff del: div_mult_mod_eq)
  finally have dv: "decimal_value (?a @ ?b) = nat \<bar>k\<bar>" by simp
  note nv = number_value_point [OF dig, unfolded dv length_pad_digits]
  show ?thesis
  proof (cases "k < 0")
    case True
    then have "FloatString p ?q = CHR ''-'' # ?a @ CHR ''.'' # ?b" using s by simp
    then show ?thesis using nv(2) True by (simp flip: minus_divide_left)
  next
    case False
    then have "FloatString p ?q = ?a @ CHR ''.'' # ?b" using s by simp
    then show ?thesis using nv(1) False by simp
  qed
qed

section \<open>The handler on PostgreSQL\<close>

definition pg_report_handler ::
  "num_codec \<Rightarrow> (string \<Rightarrow> rat) \<Rightarrow> (numeric \<Rightarrow> pgtype_Numeric) \<Rightarrow> (pg_tx, pg_tx, pg_world) ReportHandler" where
  "pg_report_handler c coll dec =
     \<lparr>rp_ScoreBegin = PgStore_BeginScoreTx,
      rp_SumWeighted = (\<lambda>i. call (SumWeightedByEvaluationItem i) (\<lambda>n. retn (dec n))),
      rp_DetermineGrade = DetermineGrade c, rp_ScoreRollback = PgScoreTx_Rollback,
      rp_ItemBegin = PgStore_BeginEvalItemTx, rp_GetEvalItemByID = GetEvalItemByID c,
      rp_GetEvalItemsByParentID = GetEvalItemsByParentID coll c, rp_ItemRollback = PgEvalItemTx_Rollback,
      rp_Now = read_clock\<rparr>"

text \<open>
  What the driver promises of a NUMERIC with four digits: an integer times a power of ten with that
  value, and NaN as NaN.
\<close>

definition numeric_decodes :: "(numeric \<Rightarrow> pgtype_Numeric) \<Rightarrow> bool" where
  "numeric_decodes dec \<longleftrightarrow>
     (\<forall>k. let n = dec (Num (of_int k / 10 ^ 4)) in
        pn_Valid n \<and> \<not> pn_NaN n \<and> pn_InfinityModifier n = 0 \<and> - (2 ^ 31) < sint (pn_Exp n) \<and>
        (\<exists>i. pn_Int n = Some i \<and> of_int k / 10 ^ 4 = of_int i * ten_power (sint (pn_Exp n)))) \<and>
     pn_NaN (dec NumNaN)"

lemma sint_uminus:
  assumes "- (2 ^ 31) < sint e"
  shows "sint (- e :: 32 word) = - sint e"
proof -
  have "sint e < 2 ^ 31" using sint_lt [of e] by simp
  with assms show ?thesis
    by (simp add: sint_word_ariths(4) signed_take_bit_int_eq_self)
qed

lemma numericToRat_decodes:
  assumes "numeric_decodes dec"
  shows "numericToRat (dec (Num (of_int k / 10 ^ 4))) = of_int k / 10 ^ 4" "numericToRat (dec NumNaN) = 0"
proof -
  let ?n = "dec (Num (of_int k / 10 ^ 4))"
  from assms obtain i where n: "pn_Valid ?n" "\<not> pn_NaN ?n" "pn_InfinityModifier ?n = 0"
    "- (2 ^ 31) < sint (pn_Exp ?n)" "pn_Int ?n = Some i" "of_int k / 10 ^ 4 = of_int i * ten_power (sint (pn_Exp ?n))"
    unfolding numeric_decodes_def Let_def by metis
  show "numericToRat ?n = of_int k / 10 ^ 4"
    by (rule trans [OF _ n(6) [symmetric]]) (use n(1-5) in \<open>simp add: numericToRat_def ten_power_def sint_uminus\<close>)
  show "numericToRat (dec NumNaN) = 0"
    using assms by (simp add: numericToRat_def numeric_decodes_def split: option.splits)
qed

text \<open>The weighted sum of a child, as a number: NUMERIC(12, 4), and 0 for NaN.\<close>

definition child_total :: "db \<Rightarrow> string \<Rightarrow> rat" where
  "child_total d i = (case num_cast 12 4 (weighted_sum i d) of Inr (Num q) \<Rightarrow> q | _ \<Rightarrow> 0)"

lemma num_cast_units: "num_cast p s x = Inr (Num q) \<Longrightarrow> \<exists>k::int. q = of_int k / 10 ^ s"
  by (cases x) (auto simp: Let_def split: if_splits)

lemma child_total_units: "\<exists>k::int. child_total d i = of_int k / 10 ^ 4"
proof (cases "\<exists>q. num_cast 12 4 (weighted_sum i d) = Inr (Num q)")
  case True
  then obtain q where q: "num_cast 12 4 (weighted_sum i d) = Inr (Num q)" by blast
  then have "child_total d i = q" unfolding child_total_def by (simp del: num_cast.simps)
  then show ?thesis using num_cast_units [OF q] by simp
next
  case False
  then have "child_total d i = of_int 0 / 10 ^ 4"
    by (auto simp: child_total_def simp del: num_cast.simps split: sum.splits numeric.splits)
  then show ?thesis by blast
qed

lemma sum_units:
  assumes "\<And>x. x \<in> set xs \<Longrightarrow> \<exists>k::int. f x = of_int k / (10 ^ p :: rat)"
  shows "\<exists>k::int. sum_list (map f xs) = of_int k / 10 ^ p"
  using assms
proof (induction xs)
  case (Cons x xs)
  then obtain k l where "f x = of_int k / 10 ^ p" "sum_list (map f xs) = of_int l / 10 ^ p" by fastforce
  then have "sum_list (map f (x # xs)) = of_int (k + l) / 10 ^ p" by (simp add: add_divide_distrib)
  then show ?case by blast
qed (simp add: exI [of _ 0])

text \<open>A read of a sum, and what the loop over the children leaves to what follows it.\<close>

lemma weighted_sum_run:
  assumes "SumWeightedByEvaluationItem i s = (Inr n, s')"
  shows "ptx_work (fst s') = ptx_work (fst s) \<and> num_cast 12 4 (weighted_sum i (ptx_work (fst s))) = Inr n"
  using assms
  by (cases "num_cast 12 4 (weighted_sum i (ptx_work (fst s)))")
     (auto simp: SumWeightedByEvaluationItem_def eff_simps pg_run_Inr_iff simp del: num_cast.simps)

lemma numericToRat_sum:
  assumes "numeric_decodes dec" and "num_cast 12 4 (weighted_sum i d) = Inr n"
  shows "numericToRat (dec n) = child_total d i"
proof (cases n)
  case (Num q)
  with num_cast_units [of 12 4 "weighted_sum i d" q] assms(2) obtain k :: int where k: "q = of_int k / 10 ^ 4" by blast
  have "child_total d i = q" using Num assms(2) by (simp add: child_total_def del: num_cast.simps)
  then show ?thesis using numericToRat_decodes(1) [OF assms(1), of k] by (simp only: Num k)
next
  case NumNaN
  with assms show ?thesis by (simp add: child_total_def numericToRat_decodes del: num_cast.simps)
qed

definition child_entry :: "db \<Rightarrow> EvalItem \<Rightarrow> json" where
  "child_entry d child = JObject
     [(''item_id'', JString (evi_ID child)), (''item_name'', JString (evi_DisplayName child)),
      (''weighted_sum'', JString (FloatString 4 (child_total d (evi_ID child))))]"

lemma report_codes [simp]:
  "resp_Code (writeReportErr a b m f) = a" "resp_Code (report_internal m e) = 500"
  "400 \<le> resp_Code (writeReportStoreErr e)"
  by (simp_all add: writeReportErr_def writeReportJSON_def report_internal_def writeReportStoreErr_def mapReportStoreErr_def)

lemma sum_children_run:
  assumes "numeric_decodes dec"
    and "sum_children (pg_report_handler c coll dec) children acc items k s = ((b, resp), s')"
  shows "(400 \<le> resp_Code resp \<and> pg_committed (snd s') = pg_committed (snd s)) \<or>
    (\<exists>s1. ptx_work (fst s1) = ptx_work (fst s) \<and> pg_committed (snd s1) = pg_committed (snd s) \<and>
       k (acc + (\<Sum>ch\<leftarrow>children. child_total (ptx_work (fst s)) (evi_ID ch)))
         (items @ map (child_entry (ptx_work (fst s))) children) s1 = ((b, resp), s'))"
  using assms(2)
proof (induction children arbitrary: acc items s)
  case Nil
  then show ?case by (intro disjI2 exI [of _ s]) simp
next
  case (Cons child children)
  obtain q s1 where m: "SumWeightedByEvaluationItem (evi_ID child) s = (q, s1)" by (rule prod.exhaust)
  have pub: "pg_committed (snd s1) = pg_committed (snd s)"
    using keepsD [OF score_sum_keeps m] by (simp add: published_def)
  show ?case
  proof (cases q)
    case (Inl e)
    with Cons.prems m pub show ?thesis
      by (auto simp: pg_report_handler_def attempt_def refuse_def call_def)
  next
    case (Inr n)
    note w = weighted_sum_run [OF m [unfolded Inr]]
    let ?d = "ptx_work (fst s)"
    have t: "numericToRat (dec n) = child_total ?d (evi_ID child)" using numericToRat_sum [OF assms(1)] w by blast
    have "sum_children (pg_report_handler c coll dec) children (acc + child_total ?d (evi_ID child))
        (items @ [child_entry ?d child]) k s1 = ((b, resp), s')"
      using Cons.prems m Inr t
      by (simp add: pg_report_handler_def attempt_def call_def retn_def accumulateWeighted_def reportItem_def
          child_entry_def reportNumericScale_def)
    from Cons.IH [OF this] w pub show ?thesis by (simp add: add.assoc)
  qed
qed

text \<open>The two reads of the items, in a transaction of their own.\<close>

definition category_children :: "(string \<Rightarrow> rat) \<Rightarrow> num_codec \<Rightarrow> string \<Rightarrow> db \<Rightarrow> EvalItem list" where
  "category_children coll c i d = map (scanEvalItemRow c) (sort_key (\<lambda>r. coll (ei_id r))
     (List.filter (\<lambda>r. ei_parent_id r = Some i) (db_eval_items d)))"

lemma list_children_run:
  "GetEvalItemsByParentID coll c i s = (Inr xs, s') \<Longrightarrow> xs = category_children coll c i (ptx_work (fst s))"
  by (auto simp: GetEvalItemsByParentID_def category_children_def pg_query_def eff_simps pg_run_Inr_iff)

lemma category_reads_run:
  assumes "category_reads (pg_report_handler c coll dec) i s = (q, s')"
  shows "pg_committed (snd s') = pg_committed (snd s) \<and>
    (case q of Inl resp \<Rightarrow> 400 \<le> resp_Code resp
     | Inr (category, children) \<Rightarrow>
         (\<exists>r. row_lookup ei_id (db_eval_items (ptx_work (fst s))) i = Some r \<and> category = scanEvalItemRow c r) \<and>
         children = category_children coll c i (ptx_work (fst s)))"
proof -
  obtain a s1 where g: "GetEvalItemByID c i s = (a, s1)" by (rule prod.exhaust)
  obtain b s2 where l: "GetEvalItemsByParentID coll c i s1 = (b, s2)" by (rule prod.exhaust)
  have pub: "pg_committed (snd s1) = pg_committed (snd s)" "pg_committed (snd s2) = pg_committed (snd s1)"
    using keepsD [OF item_reads_keep(1) g] keepsD [OF item_reads_keep(3) l] by (simp_all add: published_def)
  show ?thesis
  proof (cases a)
    case (Inl e)
    then show ?thesis using assms g pub by (auto simp: category_reads_def pg_report_handler_def)
  next
    case (Inr item)
    obtain r where r: "row_lookup ei_id (db_eval_items (work s)) i = Some r" "item = scanEvalItemRow c r" "fst s1 = fst s"
      by (rule get_item_ok [OF g [unfolded Inr]])
    show ?thesis
    proof (cases b)
      case (Inl e)
      then show ?thesis using assms g l pub Inr by (auto simp: category_reads_def pg_report_handler_def)
    next
      case (Inr xs)
      have "xs = category_children coll c i (ptx_work (fst s))"
        using list_children_run [OF l [unfolded Inr]] r(3) by simp
      then show ?thesis
        using assms g l pub Inr \<open>a = Inr item\<close> r(1,2) by (auto simp: category_reads_def pg_report_handler_def work_def)
    qed
  qed
qed

lemma enumerate_run:
  assumes "enumerateCategoryChildren (pg_report_handler c coll dec) i w = (q, w')"
  shows "pg_committed w' = pg_committed w \<and>
    (case q of Inl resp \<Rightarrow> 400 \<le> resp_Code resp
     | Inr (category, children) \<Rightarrow>
         (\<exists>r. row_lookup ei_id (db_eval_items (pg_committed w)) i = Some r \<and> category = scanEvalItemRow c r) \<and>
         children = category_children coll c i (pg_committed w))"
proof -
  obtain b w1 where b: "PgStore_BeginEvalItemTx w = (b, w1)" by (rule prod.exhaust)
  have w1: "pg_committed w1 = pg_committed w" using keepsD [OF item_txs.begin_keeps b] .
  show ?thesis
  proof (cases b)
    case (Inl e)
    then show ?thesis using assms b w1 by (auto simp: enumerateCategoryChildren_def pg_report_handler_def)
  next
    case (Inr t)
    have pend: "ptx_work t = pg_committed w" using item_txs.begin_pending [OF b [unfolded Inr]] by simp
    obtain p s where r: "category_reads (pg_report_handler c coll dec) i (t, w1) = (p, s)" by (rule prod.exhaust)
    have "q = p" "pg_committed w' = pg_committed (snd s)"
      using assms b Inr r keeps_snd [OF item_txs.rollback_keeps, of s]
      by (auto simp: enumerateCategoryChildren_def pg_report_handler_def)
    with category_reads_run [OF r] w1 pend show ?thesis by (simp split: sum.splits prod.splits)
  qed
qed

text \<open>A letter that is the one of the highest threshold of the scope that the score reaches.\<close>

definition graded :: "num_codec \<Rightarrow> string \<Rightarrow> db \<Rightarrow> float64 \<Rightarrow> string \<Rightarrow> bool" where
  "graded c scope d x g \<longleftrightarrow>
     (let ts = List.filter (\<lambda>r. gt_scope r = scope) (db_thresholds d);
          reached = (\<lambda>r. threshold_matches x (scan_threshold c r))
      in \<exists>t\<in>set ts. gt_letter t = g \<and> reached t \<and> (\<forall>q\<in>set ts. gt_min_value t < gt_min_value q \<longrightarrow> \<not> reached q))"

lemma determine_grade_run:
  assumes "DetermineGrade c scope x s = (q, s')"
  shows "pg_committed (snd s') = pg_committed (snd s) \<and> (\<forall>g. q = Inr g \<longrightarrow> graded c scope (ptx_work (fst s)) x g)"
proof -
  have pub: "pg_committed (snd s') = pg_committed (snd s)"
    using keepsD [OF score_lists_keep(2) assms] by (simp add: published_def)
  let ?ts = "List.filter (\<lambda>r. gt_scope r = scope) (db_thresholds (ptx_work (fst s)))"
  let ?m = "\<lambda>r. threshold_matches x (scan_threshold c r)"
  have found: "\<exists>t. find ?m (rev (sort_key gt_min_value ?ts)) = Some t \<and> gt_letter t = g" if "q = Inr g" for g
    using assms that
    by (auto simp: DetermineGrade_def pg_query_def eff_simps pg_run_Inr_iff find_map scan_threshold_def
        split: option.splits if_splits)
  have "graded c scope (ptx_work (fst s)) x g" if "q = Inr g" for g
    using found [OF that] find_descending [of ?m gt_min_value ?ts] unfolding graded_def Let_def by blast
  then show ?thesis using pub by simp
qed

section \<open>The report\<close>

text \<open>What the report on a category says, in terms of the tables.\<close>

definition report_total :: "db \<Rightarrow> EvalItem list \<Rightarrow> rat" where
  "report_total d children = (\<Sum>ch\<leftarrow>children. child_total d (evi_ID ch))"

definition report_of ::
  "db \<Rightarrow> EvalItem \<Rightarrow> EvalItem list \<Rightarrow> string option \<Rightarrow> time \<Rightarrow> json" where
  "report_of d category children grade now = JObject
        [(''category_grade'', pointer_json JString grade), (''category_id'', JString (evi_ID category)),
         (''category_name'', JString (evi_DisplayName category)),
         (''category_total'', JString (FloatString 4 (report_total d children))),
         (''generated_at'', JString (Format_RFC3339 now)), (''items'', JArray (map (child_entry d) children))]"

lemma finish_report_run:
  assumes "finish_report (pg_report_handler c coll dec) category acc items grade s = ((b, resp), s')"
  shows "pg_committed (snd s') = pg_committed (snd s) \<and> resp_Code resp = 200 \<and>
    (\<exists>now. resp_Body resp = categoryReportResponse category items acc grade now)"
  using assms
  by (cases s) (auto simp: finish_report_def pg_report_handler_def read_clock_def refuse_def writeReportJSON_def)

lemma report_stage_run:
  assumes dec: "numeric_decodes dec"
    and run: "report_stage (pg_report_handler c coll dec) i category children s = ((b, resp), s')"
  defines "d \<equiv> ptx_work (fst s)"
  shows "pg_committed (snd s') = pg_committed (snd s) \<and>
    (400 \<le> resp_Code resp \<or> resp_Code resp = 200 \<and>
      (\<exists>grade now. resp_Body resp = report_of d category children grade now \<and>
         (\<forall>g. grade = Some g \<longrightarrow> graded c i d (f64_of_rat (report_total d children)) g)))"
proof -
  let ?h = "pg_report_handler c coll dec"
  let ?acc = "report_total d children" and ?items = "map (child_entry d) children"
  define k where "k = (\<lambda>acc items s. case rp_DetermineGrade ?h i (f64_of_rat acc) s of
         (Inr g, s1) \<Rightarrow> finish_report ?h category acc items (Some g) s1
       | (Inl e, s1) \<Rightarrow> if errors_Is e ErrGradeThresholdsUnavailable then finish_report ?h category acc items None s1
           else refuse (writeReportStoreErr e) s1)"
  have "sum_children ?h children 0 [] k s = ((b, resp), s')" using run by (simp add: report_stage_def k_def)
  from sum_children_run [OF dec this] consider
      (refused) "400 \<le> resp_Code resp" "pg_committed (snd s') = pg_committed (snd s)"
    | (summed) s1 where "ptx_work (fst s1) = d" "pg_committed (snd s1) = pg_committed (snd s)"
        "k ?acc ?items s1 = ((b, resp), s')"
    by (auto simp: d_def report_total_def)
  then show ?thesis
  proof cases
    case (summed s1)
    obtain q s2 where g: "DetermineGrade c i (f64_of_rat ?acc) s1 = (q, s2)" by (rule prod.exhaust)
    note grade = determine_grade_run [OF g, unfolded summed(1)]
    have fin: "report_of d category children gr now = categoryReportResponse category ?items ?acc gr now"
      for gr now by (simp add: report_of_def categoryReportResponse_def reportNumericScale_def)
    show ?thesis
    proof (cases q)
      case (Inr l)
      then have "finish_report ?h category ?acc ?items (Some l) s2 = ((b, resp), s')"
        using summed(3) g by (simp add: k_def pg_report_handler_def)
      from finish_report_run [OF this] grade Inr summed(2) show ?thesis
        unfolding fin by fastforce
    next
      case (Inl e)
      have "finish_report ?h category ?acc ?items None s2 = ((b, resp), s') \<or>
          400 \<le> resp_Code resp \<and> s' = s2"
        using summed(3) g Inl by (auto simp: k_def pg_report_handler_def refuse_def split: if_splits)
      then show ?thesis
      proof
        assume "finish_report ?h category ?acc ?items None s2 = ((b, resp), s')"
        from finish_report_run [OF this] grade summed(2) show ?thesis unfolding fin by auto
      qed (use grade summed(2) in auto)
    qed
  qed auto
qed

lemma exact_text: "\<exists>k::int. q = of_int k / 10 ^ 4 \<Longrightarrow> number_value (FloatString 4 q) = q"
  by (elim exE) (simp only: FloatString_value zero_less_numeral)

text \<open>
  C35: The report on a category. Whatever PostgreSQL answers, the request writes nothing, and it is
  either refused with an error or answered 200. Then the category exists, the items are its children
  in the order of the collation, and the texts of the answer are exact: read as numbers, the text of
  each item is the weighted sum of that item and the text of the total is the sum of all of them, so
  no cent is lost to float64 on the way. The grade, if there is one, is the letter of the highest
  threshold of the category that the total reaches. The hypothesis is what the driver promises of a
  NUMERIC with four digits.
\<close>

theorem report_exact:
  assumes "numeric_decodes dec"
    and "handleCategoryReport (pg_report_handler c coll dec) r w = (resp, w')"
  shows "pg_committed w' = pg_committed w \<and>
    (400 \<le> resp_Code resp \<or> resp_Code resp = 200 \<and>
      (let i = TrimSpace (req_PathID r); d = pg_committed w; children = category_children coll c i d in
       \<exists>row grade now. row_lookup ei_id (db_eval_items d) i = Some row \<and>
         resp_Body resp = report_of d (scanEvalItemRow c row) children grade now \<and>
         number_value (FloatString 4 (report_total d children)) = report_total d children \<and>
         (\<forall>ch\<in>set children. number_value (FloatString 4 (child_total d (evi_ID ch))) = child_total d (evi_ID ch)) \<and>
         (\<forall>g. grade = Some g \<longrightarrow> graded c i d (f64_of_rat (report_total d children)) g)))"
proof (cases "parseCategoryID r")
  case (Inl q)
  then show ?thesis using assms(2) by (auto simp: handleCategoryReport_def parseCategoryID_def Let_def split: if_splits)
next
  case (Inr i)
  then have i: "i = TrimSpace (req_PathID r)" by (auto simp: parseCategoryID_def Let_def split: if_splits)
  let ?d = "pg_committed w"
  obtain q w1 where e: "enumerateCategoryChildren (pg_report_handler c coll dec) i w = (q, w1)" by (rule prod.exhaust)
  note en = enumerate_run [OF e]
  show ?thesis
  proof (cases q)
    case (Inl l)
    then show ?thesis using assms(2) Inr e en by (auto simp: handleCategoryReport_def)
  next
    case p: (Inr p)
    obtain category children where cc: "p = (category, children)" by (rule prod.exhaust)
    from en p cc obtain row where row: "row_lookup ei_id (db_eval_items ?d) i = Some row" "category = scanEvalItemRow c row"
      and ch: "children = category_children coll c i ?d" and w1: "pg_committed w1 = ?d" by auto
    let ?st = "report_stage (pg_report_handler c coll dec) i category children"
    have run: "with_defer PgStore_BeginScoreTx (report_internal ''begin failed'') PgScoreTx_Rollback ?st w1 = (resp, w')"
      using assms(2) Inr e p cc by (simp add: handleCategoryReport_def pg_report_handler_def)
    have exact: "number_value (FloatString 4 (child_total ?d x)) = child_total ?d x" for x
      by (rule exact_text) (rule child_total_units)
    have total: "number_value (FloatString 4 (report_total ?d children)) = report_total ?d children"
      unfolding report_total_def by (rule exact_text, rule sum_units, rule child_total_units)
    show ?thesis
    proof (rule score_txs.with_defer_cases [OF _ run], goal_cases)
      case (1 s b r s')
      then show ?case using report_stage_run [OF assms(1) 1] by blast
    next
      case (2 e)
      then show ?case using w1 by simp
    next
      case (3 s b s')
      from report_stage_run [OF assms(1) 3(2)] 3(1,3) w1 row exact total ch i show ?case by (auto simp: Let_def)
    qed
  qed
qed

text \<open>A driver that keeps the promise, and a category with one item that has one score.\<close>

definition sample_decoder :: "numeric \<Rightarrow> pgtype_Numeric" where
  "sample_decoder n = (case n of
     Num q \<Rightarrow> \<lparr>pn_Int = Some \<lfloor>q * 10 ^ 4\<rfloor>, pn_Exp = - 4, pn_InfinityModifier = 0, pn_NaN = False, pn_Valid = True\<rparr>
   | NumNaN \<Rightarrow> \<lparr>pn_Int = None, pn_Exp = 0, pn_InfinityModifier = 0, pn_NaN = True, pn_Valid = True\<rparr>)"

lemma sample_decodes: "numeric_decodes sample_decoder"
  by (simp add: numeric_decodes_def sample_decoder_def ten_power_def)

definition sample_report_db :: db where
  "sample_report_db = empty_db
     \<lparr>db_eval_items := [sample_item ''A'' None, sample_item ''B'' (Some ''A'')],
      db_scores := [\<lparr>so_id = 7, so_evaluation_item_id = ''B'', so_evidence_id = None, so_level = ''raw'',
        so_score_value = Some (Num 90), so_weight = Some (Num (1 / 4)), so_grade = None, so_status = ''DRAFT'',
        so_metadata = None, so_created_at = 1, so_created_by = ''u'', so_updated_at = 1\<rparr>]\<rparr>"

lemma sample_report_children:
  "category_children (\<lambda>i. 0) exact_codec ''A'' sample_report_db = [scanEvalItemRow exact_codec (sample_item ''B'' (Some ''A''))]"
  by (simp add: category_children_def sample_report_db_def sample_item_def)

lemma round_sample: "round_away 225000 = 225000"
  using round_away_int [of 225000] by simp

lemma sample_report_total: "child_total sample_report_db ''B'' = 45 / 2"
  by (simp add: child_total_def weighted_sum_def sample_report_db_def Let_def round_sample)

theorem report_exact_witness:
  "\<exists>resp w'. handleCategoryReport (pg_report_handler exact_codec (\<lambda>i. 0) sample_decoder) (plain_request ''A'' None None)
       (sample_pg sample_report_db) = (resp, w') \<and> resp_Code resp = 200 \<and> pg_committed w' = sample_report_db \<and>
     number_value (FloatString 4 (report_total sample_report_db
       (category_children (\<lambda>i. 0) exact_codec ''A'' sample_report_db))) = 45 / 2"
proof -
  have nf: "env_faults (sample_pg d) = (\<lambda>n. None)" for d by (simp add: fun_eq_iff)
  obtain w1 where e: "enumerateCategoryChildren (pg_report_handler exact_codec (\<lambda>i. 0) sample_decoder) ''A'' (sample_pg sample_report_db) =
      (Inr (scanEvalItemRow exact_codec (sample_item ''A'' None), [scanEvalItemRow exact_codec (sample_item ''B'' (Some ''A''))]), w1)"
     "no_faults w1" "pg_committed w1 = sample_report_db"
    by (simp add: enumerateCategoryChildren_def sample_report_db_def sample_item_def
       pg_report_handler_def PgStore_BeginEvalItemTx_def pool_BeginTx_def pg_statements category_reads_def GetEvalItemByID_def
       GetEvalItemsByParentID_def PgEvalItemTx_Rollback_def pg_rollback_def nf)
  have th: "db_thresholds empty_db = []" by (simp add: empty_db_def)
  have st: "\<exists>b resp t w2. report_stage (pg_report_handler exact_codec (\<lambda>i. 0) sample_decoder) ''A''
      (scanEvalItemRow exact_codec (sample_item ''A'' None)) [scanEvalItemRow exact_codec (sample_item ''B'' (Some ''A''))]
      (s, w) = ((b, resp), (t, w2)) \<and> resp_Code resp = 200"
    if "ptx_work s = sample_report_db" "no_faults w" "\<not> ptx_closed s" "\<not> ptx_aborted s" for s w
    using that
    by (auto simp: report_stage_def pg_report_handler_def pg_statements attempt_def refuse_def
      SumWeightedByEvaluationItem_def DetermineGrade_def sample_report_db_def weighted_sum_def sample_item_def scanEvalItemRow_def
      finish_report_def Let_def round_sample writeReportJSON_def sample_decoder_def th)
  obtain resp w' where run: "handleCategoryReport (pg_report_handler exact_codec (\<lambda>i. 0) sample_decoder)
      (plain_request ''A'' None None) (sample_pg sample_report_db) = (resp, w')" by (rule prod.exhaust)
  obtain t w2 where b: "PgStore_BeginScoreTx w1 = (Inr t, w2)" "no_faults w2" "ptx_work t = sample_report_db"
      "\<not> ptx_closed t" "\<not> ptx_aborted t"
    using e(2,3) by (simp add: PgStore_BeginScoreTx_def pool_BeginTx_def pg_statements)
  have tr: "TrimSpace ''A'' = ''A''" by (simp add: TrimSpace_def is_space_def)
  have id: "parseCategoryID (plain_request ''A'' None None) = Inr ''A''"
    by (simp add: parseCategoryID_def maxReportCategoryIDLen_def Let_def tr)
  have "resp_Code resp = 200"
    using run st [OF b(3,2,4,5)] b(1) e(1) id by (auto simp: handleCategoryReport_def with_defer_def pg_report_handler_def)
  with report_exact [OF sample_decodes run] run show ?thesis
    by (auto simp: tr sample_report_children report_total_def sample_report_total scanEvalItemRow_def sample_item_def Let_def)
qed

end
