(* ===== verification/Serve_Mux.thy ===== *)
theory Serve_Mux
  imports Http
begin

text \<open>
  http.ServeMux of the standard library, as far as the routes of the program use it: patterns with an
  optional method, literal segments, single wildcards in braces and a slash at the end, without hosts.
  A path has no percent-encoded bytes, so URL.Path and EscapedPath are the same text. The body of an
  answer in plain text is a string here; a redirect names the path without the query and without its
  body.
\<close>

section \<open>Patterns\<close>

datatype pat_seg = Lit string | Wild string | Rest

record pattern =
  pat_method :: string
  pat_segs :: "pat_seg list"

text \<open>The pieces between slashes. A path ends with the piece \<^verbatim>\<open>[]\<close> when it ends with a slash.\<close>

primrec pieces_from :: "string \<Rightarrow> string \<Rightarrow> string list" where
  "pieces_from cur [] = [rev cur]"
| "pieces_from cur (c # s) = (if c = CHR ''/'' then rev cur # pieces_from [] s else pieces_from (c # cur) s)"

definition path_pieces :: "string \<Rightarrow> string list" where
  "path_pieces s = tl (pieces_from [] s)"

definition pattern_seg :: "string \<Rightarrow> pat_seg" where
  "pattern_seg s =
     (if s = [] then Rest
      else if hd s = CHR ''{'' \<and> last s = CHR ''}'' then Wild (butlast (tl s)) else Lit s)"

definition parsePattern :: "string \<Rightarrow> pattern" where
  "parsePattern s =
     (let m = takeWhile (\<lambda>c. c \<noteq> CHR '' '') s; rest = dropWhile (\<lambda>c. c \<noteq> CHR '' '') s
      in if rest = [] then \<lparr>pat_method = [], pat_segs = map pattern_seg (path_pieces m)\<rparr>
         else \<lparr>pat_method = m, pat_segs = map pattern_seg (path_pieces (dropWhile (\<lambda>c. c = CHR '' '') rest))\<rparr>)"

section \<open>Paths\<close>

text \<open>cleanPath: path.Clean of a rooted path; a slash at the end is kept.\<close>

primrec clean_pieces :: "string list \<Rightarrow> string list \<Rightarrow> string list" where
  "clean_pieces done_pieces [] = rev done_pieces"
| "clean_pieces done_pieces (p # ps) =
     (if p = [] \<or> p = ''.'' then clean_pieces done_pieces ps
      else if p = ''..'' then clean_pieces (tl done_pieces) ps
      else clean_pieces (p # done_pieces) ps)"

primrec path_of :: "string list \<Rightarrow> string" where
  "path_of [] = []"
| "path_of (p # ps) = CHR ''/'' # p @ path_of ps"

definition cleanPath :: "string \<Rightarrow> string" where
  "cleanPath p =
     (let q = (if p = [] \<or> hd p \<noteq> CHR ''/'' then CHR ''/'' # p else p);
          ps = clean_pieces [] (path_pieces q)
      in if ps = [] then ''/''
         else if last q = CHR ''/'' then path_of ps @ ''/'' else path_of ps)"

section \<open>Matching\<close>

text \<open>
  The candidates that are left, each with the segments that are still to match. A literal segment is
  preferred to a wildcard, and a wildcard to the rest of the path; a wildcard does not match a slash
  at the end. The result carries the values of the wildcards in order.
\<close>

definition advance :: "pat_seg \<Rightarrow> (pat_seg list \<times> 'a) list \<Rightarrow> (pat_seg list \<times> 'a) list" where
  "advance x cs = List.map_filter (\<lambda>(ss, a). case ss of [] \<Rightarrow> None | y # ys \<Rightarrow> if y = x then Some (ys, a) else None) cs"

definition advance_wild :: "(pat_seg list \<times> 'a) list \<Rightarrow> (pat_seg list \<times> 'a) list" where
  "advance_wild cs = List.map_filter (\<lambda>(ss, a). case ss of Wild n # ys \<Rightarrow> Some (ys, a) | _ \<Rightarrow> None) cs"

definition or_else :: "'a option \<Rightarrow> 'a option \<Rightarrow> 'a option" where
  "or_else x y = (case x of None \<Rightarrow> y | Some a \<Rightarrow> x)"

primrec matchPath :: "string list \<Rightarrow> (pat_seg list \<times> 'a) list \<Rightarrow> string list \<Rightarrow> ('a \<times> string list) option" where
  "matchPath [] cs ms = map_option (\<lambda>c. (snd c, ms)) (find (\<lambda>c. fst c = []) cs)"
| "matchPath (p # ps) cs ms =
     (if cs = [] then None
      else or_else (matchPath ps (advance (Lit p) cs) ms)
        (or_else (if p = [] then None else matchPath ps (advance_wild cs) (ms @ [p]))
          (map_option (\<lambda>c. (snd c, ms)) (find (\<lambda>c. fst c = [Rest]) cs))))"

type_synonym 's route = "pattern \<times> 's handler"

definition candidates :: "string \<Rightarrow> 's route list \<Rightarrow> (pat_seg list \<times> 's route) list" where
  "candidates m routes = map (\<lambda>q. (pat_segs (fst q), q)) (List.filter (\<lambda>q. pat_method (fst q) = m) routes)"

text \<open>GET matches HEAD too.\<close>

definition matchMethodAndPath :: "'s route list \<Rightarrow> string \<Rightarrow> string \<Rightarrow> ('s route \<times> string list) option" where
  "matchMethodAndPath routes m path =
     (let ps = path_pieces path
      in or_else (matchPath ps (candidates m routes) [])
           (or_else (if m = ''HEAD'' then matchPath ps (candidates ''GET'' routes) [] else None)
             (matchPath ps (candidates [] routes) [])))"

definition exactMatch :: "('s route \<times> string list) option \<Rightarrow> string \<Rightarrow> bool" where
  "exactMatch n path = (case n of
     None \<Rightarrow> False
   | Some (q, ms) \<Rightarrow>
       if pat_segs (fst q) = [] \<or> last (pat_segs (fst q)) \<noteq> Rest then True
       else path \<noteq> [] \<and> last path = CHR ''/'' \<and> length (pat_segs (fst q)) = length (path_pieces path))"

section \<open>Serving\<close>

definition mux_text :: "nat \<Rightarrow> string \<Rightarrow> (string \<times> string) list \<Rightarrow> response" where
  "mux_text code body hs =
     \<lparr>resp_Code = code, resp_Header = hs @ [(''Content-Type'', ''text/plain; charset=utf-8'')], resp_Body = JString body\<rparr>"

definition redirect :: "string \<Rightarrow> response" where
  "redirect path = \<lparr>resp_Code = 301, resp_Header = [(''Location'', path)], resp_Body = JNull\<rparr>"

text \<open>The methods that patterns of the program have, in the order of the Allow header.\<close>

definition matchingMethods :: "'s route list \<Rightarrow> string \<Rightarrow> string list" where
  "matchingMethods routes path =
     List.filter (\<lambda>m. matchPath (path_pieces path) (candidates m routes) [] \<noteq> None \<or>
         m = ''HEAD'' \<and> matchPath (path_pieces path) (candidates ''GET'' routes) [] \<noteq> None)
       [''DELETE'', ''GET'', ''HEAD'', ''PATCH'', ''POST'', ''PUT'']"

primrec join_with :: "string \<Rightarrow> string list \<Rightarrow> string" where
  "join_with sep [] = []"
| "join_with sep (x # xs) = (if xs = [] then x else x @ sep @ join_with sep xs)"

definition mux_refusal :: "'s route list \<Rightarrow> string \<Rightarrow> response" where
  "mux_refusal routes path =
     (let ms = matchingMethods routes path
      in if ms = [] then mux_text 404 ''404 page not found'' []
         else mux_text 405 ''Method Not Allowed'' [(''Allow'', join_with '', '' ms)])"

primrec wild_names :: "pat_seg list \<Rightarrow> string list" where
  "wild_names [] = []"
| "wild_names (x # xs) = (case x of Wild n \<Rightarrow> n # wild_names xs | _ \<Rightarrow> wild_names xs)"

definition PathValue :: "string \<Rightarrow> pattern \<Rightarrow> string list \<Rightarrow> string" where
  "PathValue name p ms = (case map_of (zip (wild_names (pat_segs p)) ms) name of None \<Rightarrow> [] | Some v \<Rightarrow> v)"

definition ServeHTTP :: "'s route list \<Rightarrow> 's handler" where
  "ServeHTTP routes r s =
     (let path = cleanPath (req_Path r);
          n = matchMethodAndPath routes (req_Method r) path;
          slashed = path @ ''/''
      in if \<not> exactMatch n path \<and> last path \<noteq> CHR ''/'' \<and>
            exactMatch (matchMethodAndPath routes (req_Method r) slashed) slashed
         then (redirect slashed, s)
         else if path \<noteq> req_Path r then (redirect path, s)
         else case n of
           None \<Rightarrow> (mux_refusal routes path, s)
         | Some ((pat, h), ms) \<Rightarrow> h (r\<lparr>req_PathID := PathValue ''id'' pat ms\<rparr>) s)"

definition HandleFunc :: "string \<Rightarrow> 's handler \<Rightarrow> 's route" where
  "HandleFunc s h = (parsePattern s, h)"

section \<open>What a match means\<close>

text \<open>A pattern matches the pieces of a path; the single wildcards bind nonempty pieces in order.\<close>

fun seg_match :: "pat_seg list \<Rightarrow> string list \<Rightarrow> string list \<Rightarrow> bool" where
  "seg_match [] [] bs = (bs = [])"
| "seg_match [Rest] (p # ps) bs = (bs = [])"
| "seg_match (Lit q # ss) (p # ps) bs = (q = p \<and> seg_match ss ps bs)"
| "seg_match (Wild n # ss) (p # ps) (b # bs) = (b = p \<and> p \<noteq> [] \<and> seg_match ss ps bs)"
| "seg_match _ _ _ = False"

lemma in_advance:
  "(ss, a) \<in> set (advance y cs) \<Longrightarrow> (y # ss, a) \<in> set cs"
  "(ss, a) \<in> set (advance_wild cs) \<Longrightarrow> \<exists>n. (Wild n # ss, a) \<in> set cs"
  by (force simp: advance_def advance_wild_def List.map_filter_def split: list.splits pat_seg.splits if_splits)+

lemma find_fst: "find (\<lambda>c. fst c = k) xs = Some c \<Longrightarrow> (k, snd c) \<in> set xs"
  by (auto simp: find_Some_iff in_set_conv_nth)

lemma or_else_Some: "or_else x y = Some a \<longleftrightarrow> x = Some a \<or> x = None \<and> y = Some a"
  by (auto simp: or_else_def split: option.splits)

lemma matchPath_sound:
  "matchPath ps cs ms = Some (a, ns) \<Longrightarrow> \<exists>ss bs. (ss, a) \<in> set cs \<and> seg_match ss ps bs \<and> ns = ms @ bs"
proof (induction ps arbitrary: cs ms)
  case Nil
  then have "([], a) \<in> set cs" "ns = ms @ []" by (auto dest: find_fst)
  then show ?case using seg_match.simps(1) by blast
next
  case (Cons p ps)
  then consider "matchPath ps (advance (Lit p) cs) ms = Some (a, ns)"
    | "p \<noteq> []" "matchPath ps (advance_wild cs) (ms @ [p]) = Some (a, ns)"
    | c where "find (\<lambda>c. fst c = [Rest]) cs = Some c" "snd c = a" "ns = ms"
    by (auto simp: or_else_Some split: if_splits)
  then show ?case
  proof cases
    case 1
    from Cons.IH [OF this] obtain ss bs where "(ss, a) \<in> set (advance (Lit p) cs)" "seg_match ss ps bs" "ns = ms @ bs"
      by blast
    then have "(Lit p # ss, a) \<in> set cs" "seg_match (Lit p # ss) (p # ps) bs" using in_advance(1) by auto
    then show ?thesis using \<open>ns = ms @ bs\<close> by blast
  next
    case 2
    from Cons.IH [OF 2(2)] obtain ss bs where b: "(ss, a) \<in> set (advance_wild cs)" "seg_match ss ps bs" "ns = (ms @ [p]) @ bs"
      by blast
    from in_advance(2) [OF b(1)] obtain n where "(Wild n # ss, a) \<in> set cs" by blast
    moreover have "seg_match (Wild n # ss) (p # ps) (p # bs)" using b(2) 2(1) by simp
    moreover have "ns = ms @ (p # bs)" using b(3) by simp
    ultimately show ?thesis by blast
  next
    case 3
    then have "([Rest], a) \<in> set cs" "ns = ms @ []" by (auto dest: find_fst)
    moreover have "seg_match [Rest] (p # ps) []" by simp
    ultimately show ?thesis by blast
  qed
qed

lemma matchPath_candidates:
  assumes "matchPath ps (candidates m routes) [] = Some (q, ms)"
  shows "q \<in> set routes \<and> pat_method (fst q) = m \<and> seg_match (pat_segs (fst q)) ps ms"
  using matchPath_sound [OF assms] by (auto simp: candidates_def)

lemma matchMethod_sound:
  assumes "matchMethodAndPath routes m path = Some (q, ms)"
  shows "q \<in> set routes \<and> seg_match (pat_segs (fst q)) (path_pieces path) ms \<and>
    (pat_method (fst q) = m \<or> m = ''HEAD'' \<and> pat_method (fst q) = ''GET'' \<or> pat_method (fst q) = [])"
proof -
  from assms consider "matchPath (path_pieces path) (candidates m routes) [] = Some (q, ms)"
    | "m = ''HEAD''" "matchPath (path_pieces path) (candidates ''GET'' routes) [] = Some (q, ms)"
    | "matchPath (path_pieces path) (candidates [] routes) [] = Some (q, ms)"
    by (auto simp: matchMethodAndPath_def Let_def or_else_Some split: if_splits)
  then show ?thesis by cases (auto dest: matchPath_candidates)
qed

text \<open>A request is refused or redirected, or a registered handler answers it whose pattern matches.\<close>

lemma ServeHTTP_cases:
  obtains (refused) resp where "ServeHTTP routes r s = (resp, s)" "resp_Code resp \<in> {301, 404, 405}"
  | (routed) pat h ms where "(pat, h) \<in> set routes"
      "ServeHTTP routes r s = h (r\<lparr>req_PathID := PathValue ''id'' pat ms\<rparr>) s"
      "cleanPath (req_Path r) = req_Path r" "seg_match (pat_segs pat) (path_pieces (req_Path r)) ms"
      "pat_method pat = req_Method r \<or> req_Method r = ''HEAD'' \<and> pat_method pat = ''GET'' \<or> pat_method pat = []"
proof (cases "\<exists>resp. ServeHTTP routes r s = (resp, s) \<and> resp_Code resp \<in> {301, 404, 405}")
  case True
  then show ?thesis using refused by blast
next
  case False
  then obtain pat h ms where n: "matchMethodAndPath routes (req_Method r) (cleanPath (req_Path r)) = Some ((pat, h), ms)"
    and run: "ServeHTTP routes r s = h (r\<lparr>req_PathID := PathValue ''id'' pat ms\<rparr>) s" "cleanPath (req_Path r) = req_Path r"
    by (auto simp: ServeHTTP_def Let_def redirect_def mux_refusal_def mux_text_def split: if_splits option.splits)
  from matchMethod_sound [OF n] run show ?thesis by (intro routed) auto
qed

section \<open>Paths that are made of plain pieces\<close>

definition plain_piece :: "string \<Rightarrow> bool" where
  "plain_piece p \<longleftrightarrow> p \<noteq> [] \<and> p \<noteq> ''.'' \<and> p \<noteq> ''..'' \<and> CHR ''/'' \<notin> set p"

lemma pieces_from_path:
  "CHR ''/'' \<notin> set p \<Longrightarrow> \<forall>q\<in>set ps. CHR ''/'' \<notin> set q \<Longrightarrow> pieces_from cur (p @ path_of ps) = (rev cur @ p) # ps"
proof (induction ps arbitrary: p cur)
  case Nil
  then show ?case by (induction p arbitrary: cur) auto
next
  case (Cons q ps)
  have "pieces_from [] (q @ path_of ps) = q # ps" using Cons.IH [of q "[]"] Cons.prems(2) by simp
  with Cons.prems(1) show ?case by (induction p arbitrary: cur) auto
qed

lemma path_pieces_of: "\<forall>q\<in>set ps. CHR ''/'' \<notin> set q \<Longrightarrow> path_pieces (path_of ps) = ps"
  using pieces_from_path [of "[]" ps "[]"] by (simp add: path_pieces_def)

lemma path_pieces_slashed: "\<forall>q\<in>set ps. CHR ''/'' \<notin> set q \<Longrightarrow> path_pieces (path_of ps @ ''/'') = ps @ [[]]"
proof -
  have "path_of ps @ ''/'' = path_of (ps @ [[]])" by (induction ps) simp_all
  then show "\<forall>q\<in>set ps. CHR ''/'' \<notin> set q \<Longrightarrow> ?thesis" using path_pieces_of [of "ps @ [[]]"] by auto
qed

lemma clean_plain: "\<forall>q\<in>set ps. plain_piece q \<Longrightarrow> clean_pieces ds ps = rev ds @ ps"
  by (induction ps arbitrary: ds) (auto simp: plain_piece_def)

lemma path_of_last: "ps \<noteq> [] \<Longrightarrow> last ps \<noteq> [] \<Longrightarrow> last (path_of ps) = last (last ps)"
proof (induction ps)
  case (Cons p ps)
  then show ?case by (cases ps) (auto simp: last_append)
qed simp

lemma path_of_plain:
  assumes "\<forall>q\<in>set ps. plain_piece q" and "ps \<noteq> []"
  shows "path_pieces (path_of ps) = ps" "cleanPath (path_of ps) = path_of ps" "last (path_of ps) \<noteq> CHR ''/''"
    "path_pieces (path_of ps @ ''/'') = ps @ [[]]"
proof -
  have s: "\<forall>q\<in>set ps. CHR ''/'' \<notin> set q" using assms(1) by (simp add: plain_piece_def)
  have l: "plain_piece (last ps)" using assms by simp
  then have "last (last ps) \<in> set (last ps)" by (intro last_in_set) (simp add: plain_piece_def)
  then show q: "last (path_of ps) \<noteq> CHR ''/''"
    using l assms(2) by (metis path_of_last plain_piece_def)
  show "path_pieces (path_of ps) = ps" by (rule path_pieces_of [OF s])
  show "path_pieces (path_of ps @ ''/'') = ps @ [[]]" by (rule path_pieces_slashed [OF s])
  obtain p qs where p: "ps = p # qs" using assms(2) by (cases ps) auto
  show "cleanPath (path_of ps) = path_of ps"
    using q assms by (simp add: cleanPath_def Let_def path_pieces_of [OF s] clean_plain) (simp add: p)
qed

text \<open>Such a path is served by its match, unless only the path with a slash has an exact one.\<close>

definition mux_match :: "'s route list \<Rightarrow> string \<Rightarrow> string list \<Rightarrow> ('s route \<times> string list) option" where
  "mux_match routes m ps =
     or_else (matchPath ps (candidates m routes) [])
       (or_else (if m = ''HEAD'' then matchPath ps (candidates ''GET'' routes) [] else None)
         (matchPath ps (candidates [] routes) []))"

lemma ServeHTTP_plain:
  assumes "\<forall>q\<in>set ps. plain_piece q" and "ps \<noteq> []" and "req_Path r = path_of ps"
    and "mux_match routes (req_Method r) ps = Some ((pat, h), ms)"
    and "(pat_segs pat \<noteq> [] \<and> last (pat_segs pat) = Rest) \<Longrightarrow>
      (case mux_match routes (req_Method r) (ps @ [[]]) of None \<Rightarrow> True | Some (q, ns) \<Rightarrow>
         pat_segs (fst q) \<noteq> [] \<and> last (pat_segs (fst q)) = Rest \<and> length (pat_segs (fst q)) \<noteq> Suc (length ps))"
  shows "ServeHTTP routes r s = h (r\<lparr>req_PathID := PathValue ''id'' pat ms\<rparr>) s"
proof -
  note p = path_of_plain [OF assms(1,2)]
  have m: "matchMethodAndPath routes (req_Method r) (path_of ps) = Some ((pat, h), ms)"
    using assms(4) by (simp add: matchMethodAndPath_def mux_match_def p(1) Let_def)
  have m2: "matchMethodAndPath routes (req_Method r) (path_of ps @ ''/'') = mux_match routes (req_Method r) (ps @ [[]])"
    by (simp add: matchMethodAndPath_def mux_match_def p(4) Let_def)
  have "\<not> (\<not> exactMatch (Some ((pat, h), ms)) (path_of ps) \<and>
      exactMatch (mux_match routes (req_Method r) (ps @ [[]])) (path_of ps @ ''/''))"
    using assms(5) p(4) by (auto simp: exactMatch_def split: option.splits)
  then show ?thesis by (auto simp: ServeHTTP_def Let_def assms(3) p(2,3) m m2)
qed

end
