(* ===== verification/Metrics_Middleware.thy ===== *)
theory Metrics_Middleware
  imports Authz
begin

text \<open>
  internal/metrics: permission.go, middleware.go and interceptor.go. The collectors of Prometheus are
  parameters (record Metrics): what an observation does to the state of the program.
\<close>

record 's Metrics =
  mt_ObserveHTTPDuration :: "string \<Rightarrow> string \<Rightarrow> string \<Rightarrow> time \<Rightarrow> 's \<Rightarrow> 's"
  mt_ObserveGRPCDuration :: "string \<Rightarrow> string \<Rightarrow> time \<Rightarrow> 's \<Rightarrow> 's"
  mt_IncAuthzForbidden :: "string \<Rightarrow> string \<Rightarrow> 's \<Rightarrow> 's"
  mt_Now :: "'s \<Rightarrow> time \<times> 's"

section \<open>Who may read the metrics\<close>

definition IsMetricsAuthorized :: "User option \<Rightarrow> bool" where
  "IsMetricsAuthorized u = (case u of
     None \<Rightarrow> False
   | Some v \<Rightarrow> list_ex (\<lambda>r. r = RoleAdmin) (ParseRolesFromScope (join_space (usr_Scopes v))))"

text \<open>The package rebuilds the user of a token, with the same rule for the roles as package auth.\<close>

definition validatedTokenToMetricsUser :: "ValidatedToken \<Rightarrow> User" where
  "validatedTokenToMetricsUser vt =
     (let roles = json_strings (vt_Claims vt ''roles'')
      in \<lparr>usr_UID = vt_Subject vt, usr_Issuer = vt_Issuer vt,
          usr_Roles = (if roles = [] then (case vt_Claims vt ''realm_access'' of
             Some (JObject ra) \<Rightarrow> json_strings (map_of ra ''roles'') | _ \<Rightarrow> []) else roles),
          usr_Scopes = vt_Scopes vt\<rparr>)"

definition writeMetricsErrorWithDetails :: "nat \<Rightarrow> string \<Rightarrow> string \<Rightarrow> (string \<times> json) list \<Rightarrow> response" where
  "writeMetricsErrorWithDetails statusCode code message details =
     \<lparr>resp_Code = statusCode, resp_Header = json_header,
      resp_Body = JObject [(''error'', JObject
        ((if details = [] then [] else [(''details'', JObject details)]) @
         [(''code'', JString code), (''message'', JString message)]))]\<rparr>"

definition writeMetricsError :: "nat \<Rightarrow> string \<Rightarrow> string \<Rightarrow> response" where
  "writeMetricsError statusCode code message = writeMetricsErrorWithDetails statusCode code message []"

definition metrics_unauthenticated :: response where
  "metrics_unauthenticated = writeMetricsError 401 ''UNAUTHENTICATED'' ''authentication required for metrics''"

definition metrics_forbidden :: response where
  "metrics_forbidden = writeMetricsErrorWithDetails 403 ''PERMISSION_DENIED'' ''insufficient scope''
     [(''required'', JString ''read:metrics'')]"

text \<open>The part of the middleware behind the token: the user is known.\<close>

definition metrics_authz :: "'s Metrics \<Rightarrow> User \<Rightarrow> 's handler \<Rightarrow> 's handler" where
  "metrics_authz m u next r s =
     (if \<not> IsMetricsAuthorized (Some u)
      then (metrics_forbidden,
            mt_IncAuthzForbidden m (case usr_Roles u of [] \<Rightarrow> [] | role # _ \<Rightarrow> role) ''/metrics'' s)
      else next (WithUser u r) s)"

definition MetricsAuthMiddleware :: "'s Metrics \<Rightarrow> 's verifier option \<Rightarrow> bool \<Rightarrow> 's handler \<Rightarrow> 's handler" where
  "MetricsAuthMiddleware m v authEnabled next r s =
     (if \<not> authEnabled then next r s
      else case v of
        None \<Rightarrow> next r s
      | Some verify \<Rightarrow> (case CutPrefix (req_Authorization r) ''Bearer '' of
          None \<Rightarrow> (metrics_unauthenticated, s)
        | Some tokenStr \<Rightarrow> (case verify tokenStr s of
            (Inl e, s') \<Rightarrow> (metrics_unauthenticated, s')
          | (Inr vt, s') \<Rightarrow> metrics_authz m (validatedTokenToMetricsUser vt) next r s')))"

section \<open>Durations\<close>

definition probePaths :: "string list" where
  "probePaths = [''/health'', ''/ready'', ''/metrics'']"

definition HTTPInstrumentationMiddleware :: "'s Metrics \<Rightarrow> 's handler \<Rightarrow> 's handler" where
  "HTTPInstrumentationMiddleware m next r s =
     (if req_Path r \<in> set probePaths then next r s
      else case mt_Now m s of (start, s1) \<Rightarrow>
        (case next r s1 of (resp, s2) \<Rightarrow>
           (case mt_Now m s2 of (end_time, s3) \<Rightarrow>
              (resp, mt_ObserveHTTPDuration m (req_Method r) (req_Path r)
                 (strconv_Itoa (int (resp_Code resp))) (end_time - start) s3))))"

text \<open>status.Code as the number of google.golang.org/grpc/codes.\<close>

definition grpc_code_number :: "grpc_code \<Rightarrow> int" where
  "grpc_code_number c = (case c of
     Canceled \<Rightarrow> 1 | InvalidArgument \<Rightarrow> 3 | NotFound \<Rightarrow> 5 | AlreadyExists \<Rightarrow> 6 | PermissionDenied \<Rightarrow> 7
   | Internal \<Rightarrow> 13 | Unavailable \<Rightarrow> 14 | Unauthenticated \<Rightarrow> 16)"

definition UnaryMetricsInterceptor :: "'s Metrics \<Rightarrow> ('s, 'q, 'p) grpc_handler \<Rightarrow> ('s, 'q, 'p) grpc_handler" where
  "UnaryMetricsInterceptor m handler c s =
     (case mt_Now m s of (start, s1) \<Rightarrow>
        (case handler c s1 of (resp, s2) \<Rightarrow>
           (case mt_Now m s2 of (end_time, s3) \<Rightarrow>
              (resp, mt_ObserveGRPCDuration m (gc_FullMethod c)
                 (strconv_Itoa (case resp of Inl e \<Rightarrow> grpc_code_number (fst e) | Inr _ \<Rightarrow> 0)) (end_time - start) s3))))"

section \<open>Lemmas\<close>

text \<open>Both packages make the same user of a token.\<close>

lemma metrics_user: "validatedTokenToMetricsUser vt = validatedTokenToUser vt"
  by (simp add: validatedTokenToMetricsUser_def validatedTokenToUser_def Let_def)

text \<open>The instrumentation passes the answer of the handler on; where no time is observed, the state too.\<close>

lemma instrumented_answer:
  "fst (HTTPInstrumentationMiddleware m next r s) =
     fst (next r (if req_Path r \<in> set probePaths then s else snd (mt_Now m s)))"
  by (simp add: HTTPInstrumentationMiddleware_def split: prod.splits)

text \<open>
  What the metrics endpoint answers: with authentication on, its handler runs for an accepted bearer
  token with the role admin and for nothing else.
\<close>

lemma metrics_gate:
  "MetricsAuthMiddleware m (Some verify) True next r s =
     (case CutPrefix (req_Authorization r) ''Bearer '' of
        None \<Rightarrow> (metrics_unauthenticated, s)
      | Some token \<Rightarrow> (case verify token s of
          (Inl e, s') \<Rightarrow> (metrics_unauthenticated, s')
        | (Inr vt, s') \<Rightarrow>
            if hasAdminRole (validatedTokenToUser vt) then next (WithUser (validatedTokenToUser vt) r) s'
            else (metrics_forbidden, mt_IncAuthzForbidden m
                    (case usr_Roles (validatedTokenToUser vt) of [] \<Rightarrow> [] | role # _ \<Rightarrow> role) ''/metrics'' s')))"
  by (auto simp: MetricsAuthMiddleware_def metrics_authz_def metrics_user IsMetricsAuthorized_def hasAdminRole_def
      split: option.splits prod.splits sum.splits)

end
