(* ===== verification/Server_Routes.thy ===== *)
theory Server_Routes
  imports Serve_Mux Metrics_Middleware Server_Setup Review_Handler_Properties Rubric_Handler_Properties
    Score_Handler_Properties Eval_Item_Properties Evidence_Properties Audit_Query_Properties
    Report_Properties Workflow_Service_Properties
begin

text \<open>
  The REST side of cmd/server/server.go: the Routes of every handler, the inner mux, the chain of the
  middlewares, the outer mux and the instrumentation. The state is a pair: what the authentication,
  the probes and the metrics read and change, and the database.
\<close>

section \<open>What a request carries beside its head and body\<close>

record wire_input =
  wi_ResultText :: bytes
  wi_ContentType :: string
  wi_Multipart :: "string + part list \<times> bool"
  wi_Err :: "string option"
  wi_CanceledAfter :: bool

definition callback_view :: "wire_input \<Rightarrow> request \<Rightarrow> callback_request" where
  "callback_view x r = request.extend r \<lparr>cr_ResultText = wi_ResultText x\<rparr>"

definition service_view :: "wire_input \<Rightarrow> request \<Rightarrow> service_request" where
  "service_view x r = request.extend r \<lparr>sr_Err = wi_Err x, sr_CanceledAfter = wi_CanceledAfter x\<rparr>"

definition evidence_view :: "wire_input \<Rightarrow> request \<Rightarrow> evidence_request" where
  "evidence_view x r = request.extend r \<lparr>er_ContentType = wi_ContentType x, er_Multipart = wi_Multipart x\<rparr>"

section \<open>Routes\<close>

definition AuditQueryHandler_Routes :: "'x runtime \<Rightarrow> ('t, 'w) AuditQueryHandler \<Rightarrow> 'w route list" where
  "AuditQueryHandler_Routes rt h =
     [HandleFunc ''GET /api/v1/audit-logs/{id}'' (handleGetAuditLog rt h),
      HandleFunc ''GET /api/v1/audit-logs'' (handleListAuditLogs rt h)]"

definition EvalItemHandler_Routes :: "('t \<times> 'w) runtime \<Rightarrow> ('t, 'w) EvalItemHandler \<Rightarrow> 'w route list" where
  "EvalItemHandler_Routes rt h =
     [HandleFunc ''GET /api/v1/eval-items/{id}/children'' (handleGetChildren h),
      HandleFunc ''GET /api/v1/eval-items/{id}'' (handleGetByID_EvalItem h),
      HandleFunc ''PUT /api/v1/eval-items/{id}'' (handleUpdate_EvalItem rt h),
      HandleFunc ''POST /api/v1/eval-items'' (handleCreate_EvalItem rt h)]"

definition EvidenceHandler_Routes :: "('t \<times> 'w) runtime \<Rightarrow> ('t, 'w) EvidenceHandler \<Rightarrow> wire_input \<Rightarrow> 'w route list" where
  "EvidenceHandler_Routes rt h x =
     [HandleFunc ''POST /api/v1/evidences'' (\<lambda>r. handleCreateEvidence rt h (evidence_view x r))]"

definition ReportHandler_Routes :: "('u, 'v, 'w) ReportHandler \<Rightarrow> 'w route list" where
  "ReportHandler_Routes h = [HandleFunc ''GET /api/v1/reports/category/{id}'' (handleCategoryReport h)]"

definition ReviewHandler_Routes :: "'x runtime \<Rightarrow> ('t, 'u, 'w) ReviewHandler \<Rightarrow> 'w route list" where
  "ReviewHandler_Routes rt h =
     [HandleFunc ''POST /api/v1/reviews/{id}/assign-reviewer'' (handleAssignReviewer rt h),
      HandleFunc ''POST /api/v1/reviews/{id}/approve'' (handleApprove rt h),
      HandleFunc ''POST /api/v1/reviews/{id}/reject'' (handleReject rt h),
      HandleFunc ''GET /api/v1/reviews/{id}'' (handleGetReview rt h),
      HandleFunc ''GET /api/v1/reviews'' (handleListReviews rt h),
      HandleFunc ''POST /api/v1/reviews'' (handleCreateReview rt h)]"

definition RubricHandler_Routes :: "'x runtime \<Rightarrow> ('t, 'u, 'v, 'w) RubricHandler \<Rightarrow> 'w route list" where
  "RubricHandler_Routes rt h =
     [HandleFunc ''POST /api/v1/rubrics/{id}/clone-new-version'' (handleCloneNewVersion rt h),
      HandleFunc ''POST /api/v1/rubrics/{id}/apply'' (handleApplyRubric rt h),
      HandleFunc ''POST /api/v1/rubrics/{id}/criteria'' (handleAddCriterion rt h),
      HandleFunc ''POST /api/v1/rubrics/{id}/bands'' (handleAddBand rt h),
      HandleFunc ''POST /api/v1/rubrics/{id}/archive'' (handleArchiveRubric rt h),
      HandleFunc ''PUT /api/v1/rubrics/{id}'' (handleUpdateRubric rt h),
      HandleFunc ''GET /api/v1/rubrics/{id}'' (handleGetRubric rt h),
      HandleFunc ''GET /api/v1/rubrics'' (handleListRubrics rt h),
      HandleFunc ''POST /api/v1/rubrics'' (handleCreateRubric rt h)]"

definition ScoreHandler_Routes :: "'x runtime \<Rightarrow> ('t, 'w) ScoreHandler \<Rightarrow> 'w route list" where
  "ScoreHandler_Routes rt h =
     [HandleFunc ''GET /api/v1/scores/rollup'' (handleRollup h),
      HandleFunc ''GET /api/v1/scores/grade'' (handleGrade h),
      HandleFunc ''POST /api/v1/scores/{id}/supersede'' (handleSupersedeScore rt h),
      HandleFunc ''GET /api/v1/scores/{id}'' (handleGetScore rt h),
      HandleFunc ''PUT /api/v1/scores/{id}'' (handleUpdateScore rt h),
      HandleFunc ''GET /api/v1/scores'' (handleListScores rt h),
      HandleFunc ''POST /api/v1/scores'' (handleCreateScore rt h)]"

definition WorkflowCallbackHandler_Routes ::
  "('t \<times> 'w) runtime \<Rightarrow> ('t, 'w) WorkflowCallbackHandler \<Rightarrow> wire_input \<Rightarrow> 'w route list" where
  "WorkflowCallbackHandler_Routes rt h x =
     [HandleFunc ''POST /api/v1/workflows/{id}/callback'' (\<lambda>r. handleCallback rt h (callback_view x r))]"

definition RESTHandler_Mux :: "('t \<times> 'w) runtime \<Rightarrow> ('t, 'w) WorkflowService \<Rightarrow> wire_input \<Rightarrow> 'w route list" where
  "RESTHandler_Mux rt sv x =
     [HandleFunc ''POST /api/v1/workflows'' (\<lambda>r. handleCreateWorkflow rt sv (service_view x r)),
      HandleFunc ''GET /api/v1/workflows'' (\<lambda>r. handleListWorkflows rt sv (service_view x r)),
      HandleFunc ''GET /api/v1/workflows/{id}'' (\<lambda>r. handleGetWorkflow rt sv (service_view x r)),
      HandleFunc ''GET /health'' (\<lambda>r. handleHealth)]"

section \<open>The server\<close>

record 'c Server =
  svr_rt :: "pg_state runtime"
  svr_evidenceH :: "(pg_tx, pg_world) EvidenceHandler"
  svr_scoreH :: "(pg_tx, pg_world) ScoreHandler"
  svr_reportH :: "(pg_tx, pg_tx, pg_world) ReportHandler"
  svr_reviewH :: "(pg_tx, pg_tx, pg_world) ReviewHandler"
  svr_rubricH :: "(pg_tx, pg_tx, pg_tx, pg_world) RubricHandler"
  svr_auditQueryH :: "(pg_tx, pg_world) AuditQueryHandler"
  svr_callbackH :: "(pg_tx, pg_world) WorkflowCallbackHandler"
  svr_evalItemH :: "(pg_tx, pg_world) EvalItemHandler"
  svr_workflowSvc :: "(pg_tx, pg_world) WorkflowService"
  svr_tokenValidator :: "'c verifier option"
  svr_authEnabled :: bool
  svr_metrics :: "'c Metrics"
  svr_metricsHandler :: "'c handler"
  svr_probes :: "'c ProbeServer"
  svr_buildVersion :: string

text \<open>What the libraries provide: UUIDs, the driver, the collation, number and time texts.\<close>

record server_library =
  lib_Parse :: "string \<Rightarrow> uuid option"
  lib_String :: "uuid \<Rightarrow> string"
  lib_SHA1 :: "uuid \<Rightarrow> string \<Rightarrow> uuid"
  lib_codec :: num_codec
  lib_collation :: "string \<Rightarrow> rat"
  lib_numeric_text :: "numeric \<Rightarrow> goerr + string option"
  lib_ParseFloat :: "string \<Rightarrow> float64 option"
  lib_decimal :: "numeric \<Rightarrow> pgtype_Numeric"
  lib_ParseTime :: "string \<Rightarrow> time option"
  lib_details :: "json_map \<Rightarrow> (string \<times> json) list"

text \<open>
  The part of New that builds the handlers, on one PostgreSQL store, from the configuration and the
  parts that the earlier steps have made.
\<close>

definition New_Server ::
  "server_library \<Rightarrow> Config \<Rightarrow> 'c verifier option \<Rightarrow> 'c Metrics \<Rightarrow> 'c handler \<Rightarrow> 'c ProbeServer \<Rightarrow> string \<Rightarrow> 'c Server" where
  "New_Server l cfg verifier m mh probes version =
     (let rt = pg_runtime (lib_Parse l) (lib_String l) (lib_SHA1 l); c = lib_codec l;
          rec = NewRecorder rt (cfg_AuthEnabled cfg) []; svc = pg_service (lib_Parse l) rec
      in \<lparr>svr_rt = rt,
          svr_evidenceH = pg_evidence_handler rt (cfg_AuthEnabled cfg) (word_of_int (cfg_EvidenceMaxFileBytes cfg))
            (cfg_EvidenceDuplicateSignalEnabled cfg),
          svr_scoreH = pg_score_handler rt c (lib_numeric_text l) (lib_ParseFloat l),
          svr_reportH = pg_report_handler c (lib_collation l) (lib_decimal l),
          svr_reviewH = pg_review_handler rt c,
          svr_rubricH = pg_rubric_handler rt c (lib_collation l),
          svr_auditQueryH = pg_audit_handler (lib_Parse l) (lib_ParseTime l) (lib_details l),
          svr_callbackH = \<lparr>ch_store = sv_store svc\<rparr>,
          svr_evalItemH = pg_eval_item_handler rt (cfg_AuthEnabled cfg) (lib_collation l) c,
          svr_workflowSvc = svc,
          svr_tokenValidator = (if cfg_AuthEnabled cfg then verifier else None),
          svr_authEnabled = cfg_AuthEnabled cfg,
          svr_metrics = m, svr_metricsHandler = mh, svr_probes = probes, svr_buildVersion = version\<rparr>)"

definition innerMux :: "'c Server \<Rightarrow> wire_input \<Rightarrow> pg_world route list" where
  "innerMux s x =
     (let rt = svr_rt s in
      [HandleFunc ''/api/v1/evidences'' (ServeHTTP (EvidenceHandler_Routes rt (svr_evidenceH s) x)),
       HandleFunc ''/api/v1/scores'' (ServeHTTP (ScoreHandler_Routes rt (svr_scoreH s))),
       HandleFunc ''/api/v1/scores/'' (ServeHTTP (ScoreHandler_Routes rt (svr_scoreH s))),
       HandleFunc ''/api/v1/reports'' (ServeHTTP (ReportHandler_Routes (svr_reportH s))),
       HandleFunc ''/api/v1/reports/'' (ServeHTTP (ReportHandler_Routes (svr_reportH s))),
       HandleFunc ''/api/v1/reviews'' (ServeHTTP (ReviewHandler_Routes rt (svr_reviewH s))),
       HandleFunc ''/api/v1/reviews/'' (ServeHTTP (ReviewHandler_Routes rt (svr_reviewH s))),
       HandleFunc ''/api/v1/rubrics'' (ServeHTTP (RubricHandler_Routes rt (svr_rubricH s))),
       HandleFunc ''/api/v1/rubrics/'' (ServeHTTP (RubricHandler_Routes rt (svr_rubricH s))),
       HandleFunc ''/api/v1/audit-logs'' (ServeHTTP (AuditQueryHandler_Routes rt (svr_auditQueryH s))),
       HandleFunc ''/api/v1/audit-logs/'' (ServeHTTP (AuditQueryHandler_Routes rt (svr_auditQueryH s))),
       HandleFunc ''/api/v1/workflows/{id}/callback'' (ServeHTTP (WorkflowCallbackHandler_Routes rt (svr_callbackH s) x)),
       HandleFunc ''/api/v1/eval-items'' (ServeHTTP (EvalItemHandler_Routes rt (svr_evalItemH s))),
       HandleFunc ''/api/v1/eval-items/'' (ServeHTTP (EvalItemHandler_Routes rt (svr_evalItemH s))),
       HandleFunc ''/'' (ServeHTTP (RESTHandler_Mux rt (svr_workflowSvc s) x))])"

text \<open>The handlers of one part of the state, on the pair.\<close>

definition on_db :: "'w handler \<Rightarrow> ('c \<times> 'w) handler" where
  "on_db h r = (\<lambda>(c, w). case h r w of (resp, w') \<Rightarrow> (resp, (c, w')))"

definition on_side :: "'c handler \<Rightarrow> ('c \<times> 'w) handler" where
  "on_side h r = (\<lambda>(c, w). case h r c of (resp, c') \<Rightarrow> (resp, (c', w)))"

definition side_verifier :: "'c verifier \<Rightarrow> ('c \<times> 'w) verifier" where
  "side_verifier verify token = (\<lambda>(c, w). case verify token c of (q, c') \<Rightarrow> (q, (c', w)))"

definition side_metrics :: "'c Metrics \<Rightarrow> ('c \<times> 'w) Metrics" where
  "side_metrics m =
     \<lparr>mt_ObserveHTTPDuration = (\<lambda>a b q t. apfst (mt_ObserveHTTPDuration m a b q t)),
      mt_ObserveGRPCDuration = (\<lambda>a b t. apfst (mt_ObserveGRPCDuration m a b t)),
      mt_IncAuthzForbidden = (\<lambda>a b. apfst (mt_IncAuthzForbidden m a b)),
      mt_Now = (\<lambda>(c, w). case mt_Now m c of (ts, c') \<Rightarrow> (ts, (c', w)))\<rparr>"

definition rest_chain :: "'c Server \<Rightarrow> wire_input \<Rightarrow> ('c \<times> pg_world) handler" where
  "rest_chain s x =
     BuildRESTChain
       (ABACMiddleware (NewABACEvaluator DefaultABACPolicies None) (svr_authEnabled s) (on_db (ServeHTTP (innerMux s x))))
       (map_option side_verifier (svr_tokenValidator s)) None (svr_authEnabled s) []"

definition outerMux :: "'c Server \<Rightarrow> wire_input \<Rightarrow> ('c \<times> pg_world) route list" where
  "outerMux s x =
     [HandleFunc ''GET /health'' (livenessHandler (svr_buildVersion s)),
      HandleFunc ''GET /ready'' (on_side (readinessHandler (svr_probes s))),
      HandleFunc ''GET /metrics''
        (on_side (MetricsAuthMiddleware (svr_metrics s) (svr_tokenValidator s) (svr_authEnabled s) (svr_metricsHandler s))),
      HandleFunc ''/'' (rest_chain s x)]"

text \<open>The handler of the http.Server that Run starts.\<close>

definition server_handler :: "'c Server \<Rightarrow> wire_input \<Rightarrow> ('c \<times> pg_world) handler" where
  "server_handler s x = HTTPInstrumentationMiddleware (side_metrics (svr_metrics s)) (ServeHTTP (outerMux s x))"

end
