(* ===== verification/Server_Properties.thy ===== *)
theory Server_Properties
  imports Server_Routes Authz_Properties
begin

text \<open>
  What the server as a whole does with a request: which endpoint it reaches, and which requests can
  change the tables when authentication is on.
\<close>

section \<open>The patterns of the routes\<close>

lemma route_patterns:
  "parsePattern ''GET /api/v1/audit-logs/{id}'' = \<lparr>pat_method = ''GET'', pat_segs = [Lit ''api'', Lit ''v1'', Lit ''audit-logs'', Wild ''id'']\<rparr>"
  "parsePattern ''GET /api/v1/audit-logs'' = \<lparr>pat_method = ''GET'', pat_segs = [Lit ''api'', Lit ''v1'', Lit ''audit-logs'']\<rparr>"
  "parsePattern ''GET /api/v1/eval-items/{id}/children'' = \<lparr>pat_method = ''GET'', pat_segs = [Lit ''api'', Lit ''v1'', Lit ''eval-items'', Wild ''id'', Lit ''children'']\<rparr>"
  "parsePattern ''GET /api/v1/eval-items/{id}'' = \<lparr>pat_method = ''GET'', pat_segs = [Lit ''api'', Lit ''v1'', Lit ''eval-items'', Wild ''id'']\<rparr>"
  "parsePattern ''PUT /api/v1/eval-items/{id}'' = \<lparr>pat_method = ''PUT'', pat_segs = [Lit ''api'', Lit ''v1'', Lit ''eval-items'', Wild ''id'']\<rparr>"
  "parsePattern ''POST /api/v1/eval-items'' = \<lparr>pat_method = ''POST'', pat_segs = [Lit ''api'', Lit ''v1'', Lit ''eval-items'']\<rparr>"
  "parsePattern ''POST /api/v1/evidences'' = \<lparr>pat_method = ''POST'', pat_segs = [Lit ''api'', Lit ''v1'', Lit ''evidences'']\<rparr>"
  "parsePattern ''GET /api/v1/reports/category/{id}'' = \<lparr>pat_method = ''GET'', pat_segs = [Lit ''api'', Lit ''v1'', Lit ''reports'', Lit ''category'', Wild ''id'']\<rparr>"
  "parsePattern ''POST /api/v1/reviews/{id}/assign-reviewer'' = \<lparr>pat_method = ''POST'', pat_segs = [Lit ''api'', Lit ''v1'', Lit ''reviews'', Wild ''id'', Lit ''assign-reviewer'']\<rparr>"
  "parsePattern ''POST /api/v1/reviews/{id}/approve'' = \<lparr>pat_method = ''POST'', pat_segs = [Lit ''api'', Lit ''v1'', Lit ''reviews'', Wild ''id'', Lit ''approve'']\<rparr>"
  "parsePattern ''POST /api/v1/reviews/{id}/reject'' = \<lparr>pat_method = ''POST'', pat_segs = [Lit ''api'', Lit ''v1'', Lit ''reviews'', Wild ''id'', Lit ''reject'']\<rparr>"
  "parsePattern ''GET /api/v1/reviews/{id}'' = \<lparr>pat_method = ''GET'', pat_segs = [Lit ''api'', Lit ''v1'', Lit ''reviews'', Wild ''id'']\<rparr>"
  "parsePattern ''GET /api/v1/reviews'' = \<lparr>pat_method = ''GET'', pat_segs = [Lit ''api'', Lit ''v1'', Lit ''reviews'']\<rparr>"
  "parsePattern ''POST /api/v1/reviews'' = \<lparr>pat_method = ''POST'', pat_segs = [Lit ''api'', Lit ''v1'', Lit ''reviews'']\<rparr>"
  "parsePattern ''POST /api/v1/rubrics/{id}/clone-new-version'' = \<lparr>pat_method = ''POST'', pat_segs = [Lit ''api'', Lit ''v1'', Lit ''rubrics'', Wild ''id'', Lit ''clone-new-version'']\<rparr>"
  "parsePattern ''POST /api/v1/rubrics/{id}/apply'' = \<lparr>pat_method = ''POST'', pat_segs = [Lit ''api'', Lit ''v1'', Lit ''rubrics'', Wild ''id'', Lit ''apply'']\<rparr>"
  "parsePattern ''POST /api/v1/rubrics/{id}/criteria'' = \<lparr>pat_method = ''POST'', pat_segs = [Lit ''api'', Lit ''v1'', Lit ''rubrics'', Wild ''id'', Lit ''criteria'']\<rparr>"
  "parsePattern ''POST /api/v1/rubrics/{id}/bands'' = \<lparr>pat_method = ''POST'', pat_segs = [Lit ''api'', Lit ''v1'', Lit ''rubrics'', Wild ''id'', Lit ''bands'']\<rparr>"
  "parsePattern ''POST /api/v1/rubrics/{id}/archive'' = \<lparr>pat_method = ''POST'', pat_segs = [Lit ''api'', Lit ''v1'', Lit ''rubrics'', Wild ''id'', Lit ''archive'']\<rparr>"
  "parsePattern ''PUT /api/v1/rubrics/{id}'' = \<lparr>pat_method = ''PUT'', pat_segs = [Lit ''api'', Lit ''v1'', Lit ''rubrics'', Wild ''id'']\<rparr>"
  "parsePattern ''GET /api/v1/rubrics/{id}'' = \<lparr>pat_method = ''GET'', pat_segs = [Lit ''api'', Lit ''v1'', Lit ''rubrics'', Wild ''id'']\<rparr>"
  "parsePattern ''GET /api/v1/rubrics'' = \<lparr>pat_method = ''GET'', pat_segs = [Lit ''api'', Lit ''v1'', Lit ''rubrics'']\<rparr>"
  "parsePattern ''POST /api/v1/rubrics'' = \<lparr>pat_method = ''POST'', pat_segs = [Lit ''api'', Lit ''v1'', Lit ''rubrics'']\<rparr>"
  "parsePattern ''GET /api/v1/scores/rollup'' = \<lparr>pat_method = ''GET'', pat_segs = [Lit ''api'', Lit ''v1'', Lit ''scores'', Lit ''rollup'']\<rparr>"
  "parsePattern ''GET /api/v1/scores/grade'' = \<lparr>pat_method = ''GET'', pat_segs = [Lit ''api'', Lit ''v1'', Lit ''scores'', Lit ''grade'']\<rparr>"
  "parsePattern ''POST /api/v1/scores/{id}/supersede'' = \<lparr>pat_method = ''POST'', pat_segs = [Lit ''api'', Lit ''v1'', Lit ''scores'', Wild ''id'', Lit ''supersede'']\<rparr>"
  "parsePattern ''GET /api/v1/scores/{id}'' = \<lparr>pat_method = ''GET'', pat_segs = [Lit ''api'', Lit ''v1'', Lit ''scores'', Wild ''id'']\<rparr>"
  "parsePattern ''PUT /api/v1/scores/{id}'' = \<lparr>pat_method = ''PUT'', pat_segs = [Lit ''api'', Lit ''v1'', Lit ''scores'', Wild ''id'']\<rparr>"
  "parsePattern ''GET /api/v1/scores'' = \<lparr>pat_method = ''GET'', pat_segs = [Lit ''api'', Lit ''v1'', Lit ''scores'']\<rparr>"
  "parsePattern ''POST /api/v1/scores'' = \<lparr>pat_method = ''POST'', pat_segs = [Lit ''api'', Lit ''v1'', Lit ''scores'']\<rparr>"
  "parsePattern ''POST /api/v1/workflows/{id}/callback'' = \<lparr>pat_method = ''POST'', pat_segs = [Lit ''api'', Lit ''v1'', Lit ''workflows'', Wild ''id'', Lit ''callback'']\<rparr>"
  "parsePattern ''POST /api/v1/workflows'' = \<lparr>pat_method = ''POST'', pat_segs = [Lit ''api'', Lit ''v1'', Lit ''workflows'']\<rparr>"
  "parsePattern ''GET /api/v1/workflows'' = \<lparr>pat_method = ''GET'', pat_segs = [Lit ''api'', Lit ''v1'', Lit ''workflows'']\<rparr>"
  "parsePattern ''GET /api/v1/workflows/{id}'' = \<lparr>pat_method = ''GET'', pat_segs = [Lit ''api'', Lit ''v1'', Lit ''workflows'', Wild ''id'']\<rparr>"
  "parsePattern ''GET /health'' = \<lparr>pat_method = ''GET'', pat_segs = [Lit ''health'']\<rparr>"
  "parsePattern ''/api/v1/evidences'' = \<lparr>pat_method = [], pat_segs = [Lit ''api'', Lit ''v1'', Lit ''evidences'']\<rparr>"
  "parsePattern ''/api/v1/scores'' = \<lparr>pat_method = [], pat_segs = [Lit ''api'', Lit ''v1'', Lit ''scores'']\<rparr>"
  "parsePattern ''/api/v1/scores/'' = \<lparr>pat_method = [], pat_segs = [Lit ''api'', Lit ''v1'', Lit ''scores'', Rest]\<rparr>"
  "parsePattern ''/api/v1/reports'' = \<lparr>pat_method = [], pat_segs = [Lit ''api'', Lit ''v1'', Lit ''reports'']\<rparr>"
  "parsePattern ''/api/v1/reports/'' = \<lparr>pat_method = [], pat_segs = [Lit ''api'', Lit ''v1'', Lit ''reports'', Rest]\<rparr>"
  "parsePattern ''/api/v1/reviews'' = \<lparr>pat_method = [], pat_segs = [Lit ''api'', Lit ''v1'', Lit ''reviews'']\<rparr>"
  "parsePattern ''/api/v1/reviews/'' = \<lparr>pat_method = [], pat_segs = [Lit ''api'', Lit ''v1'', Lit ''reviews'', Rest]\<rparr>"
  "parsePattern ''/api/v1/rubrics'' = \<lparr>pat_method = [], pat_segs = [Lit ''api'', Lit ''v1'', Lit ''rubrics'']\<rparr>"
  "parsePattern ''/api/v1/rubrics/'' = \<lparr>pat_method = [], pat_segs = [Lit ''api'', Lit ''v1'', Lit ''rubrics'', Rest]\<rparr>"
  "parsePattern ''/api/v1/audit-logs'' = \<lparr>pat_method = [], pat_segs = [Lit ''api'', Lit ''v1'', Lit ''audit-logs'']\<rparr>"
  "parsePattern ''/api/v1/audit-logs/'' = \<lparr>pat_method = [], pat_segs = [Lit ''api'', Lit ''v1'', Lit ''audit-logs'', Rest]\<rparr>"
  "parsePattern ''/api/v1/workflows/{id}/callback'' = \<lparr>pat_method = [], pat_segs = [Lit ''api'', Lit ''v1'', Lit ''workflows'', Wild ''id'', Lit ''callback'']\<rparr>"
  "parsePattern ''/api/v1/eval-items'' = \<lparr>pat_method = [], pat_segs = [Lit ''api'', Lit ''v1'', Lit ''eval-items'']\<rparr>"
  "parsePattern ''/api/v1/eval-items/'' = \<lparr>pat_method = [], pat_segs = [Lit ''api'', Lit ''v1'', Lit ''eval-items'', Rest]\<rparr>"
  "parsePattern ''/'' = \<lparr>pat_method = [], pat_segs = [Rest]\<rparr>"
  "parsePattern ''GET /ready'' = \<lparr>pat_method = ''GET'', pat_segs = [Lit ''ready'']\<rparr>"
  "parsePattern ''GET /metrics'' = \<lparr>pat_method = ''GET'', pat_segs = [Lit ''metrics'']\<rparr>"
  by (simp_all add: parsePattern_def path_pieces_def pattern_seg_def)

lemmas route_tables = AuditQueryHandler_Routes_def EvalItemHandler_Routes_def EvidenceHandler_Routes_def
  ReportHandler_Routes_def ReviewHandler_Routes_def RubricHandler_Routes_def ScoreHandler_Routes_def
  WorkflowCallbackHandler_Routes_def RESTHandler_Mux_def HandleFunc_def route_patterns

section \<open>Handlers that only read\<close>

text \<open>
  \<^verbatim>\<open>reads_only h\<close>: whatever h answers to a request that is no POST or PUT, the tables stay.
\<close>

definition reads_only :: "pg_world handler \<Rightarrow> bool" where
  "reads_only h \<longleftrightarrow> (\<forall>r w. req_Method r \<notin> {''POST'', ''PUT''} \<longrightarrow> pg_committed (snd (h r w)) = pg_committed w)"

lemma reads_onlyI:
  "(\<And>r w resp w'. h r w = (resp, w') \<Longrightarrow> pg_committed w' = pg_committed w) \<Longrightarrow> reads_only h"
  unfolding reads_only_def by (metis prod.collapse)

lemma mux_reads_only:
  assumes "\<And>pat h. (pat, h) \<in> set routes \<Longrightarrow> pat_method pat \<notin> {''POST'', ''PUT''} \<Longrightarrow> reads_only h"
  shows "reads_only (ServeHTTP routes)"
  unfolding reads_only_def
proof (intro allI impI)
  fix r :: request and w :: pg_world assume m: "req_Method r \<notin> {''POST'', ''PUT''}"
  show "pg_committed (snd (ServeHTTP routes r w)) = pg_committed w"
  proof (rule ServeHTTP_cases [of routes r w])
    fix pat h ms
    assume q: "(pat, h) \<in> set routes" "ServeHTTP routes r w = h (r\<lparr>req_PathID := PathValue ''id'' pat ms\<rparr>) w"
      "pat_method pat = req_Method r \<or> req_Method r = ''HEAD'' \<and> pat_method pat = ''GET'' \<or> pat_method pat = []"
    then have "reads_only h" using m assms by auto
    then show ?thesis using q(2) m by (simp add: reads_only_def)
  qed auto
qed

text \<open>The reading handlers of every component, on PostgreSQL.\<close>

lemma score_handlers_read:
  fixes parse toString sha1 c v p
  defines "h \<equiv> pg_score_handler (pg_runtime parse toString sha1) c v p"
  shows "reads_only (handleGetScore rt0 h)" "reads_only (handleListScores rt0 h)"
    "reads_only (handleRollup h)" "reads_only (handleGrade h)"
proof -
  have "reads_only (score_api rt0 h y)" if "score_read y" for y
    using that unfolding h_def by (intro reads_onlyI) (auto dest!: score_api_effect simp: score_outcome_def)
  from this [of ScoreGet] this [of ScoreList] this [of ScoreRollup] this [of ScoreGrade]
  show "reads_only (handleGetScore rt0 h)" "reads_only (handleListScores rt0 h)"
    "reads_only (handleRollup h)" "reads_only (handleGrade h)"
    by (simp_all add: score_api_def score_read_def)
qed

lemma review_handlers_read:
  fixes parse toString sha1 c
  defines "h \<equiv> pg_review_handler (pg_runtime parse toString sha1) c"
  shows "reads_only (handleGetReview rt0 h)" "reads_only (handleListReviews rt0 h)"
proof -
  have "reads_only (review_api rt0 h y)" if "y \<in> {ApiGet, ApiList}" for y
    using that unfolding h_def by (intro reads_onlyI) (auto dest!: review_api_effect simp: review_outcome_def)
  from this [of ApiGet] this [of ApiList] show "reads_only (handleGetReview rt0 h)" "reads_only (handleListReviews rt0 h)"
    by (simp_all add: review_api_def)
qed

lemma rubric_handlers_read:
  fixes parse toString sha1 c coll
  defines "h \<equiv> pg_rubric_handler (pg_runtime parse toString sha1) c coll"
  shows "reads_only (handleGetRubric rt0 h)" "reads_only (handleListRubrics rt0 h)"
proof -
  have "reads_only (rubric_api rt0 h y)" if "y \<in> {RubricGet, RubricList}" for y
  proof (rule reads_onlyI)
    fix r w resp w' assume "rubric_api rt0 h y r w = (resp, w')"
    from rubric_read_request [OF that this [unfolded h_def]] that show "pg_committed w' = pg_committed w"
      by (auto simp: rubric_outcome_def rubric_read_def)
  qed
  from this [of RubricGet] this [of RubricList]
  show "reads_only (handleGetRubric rt0 h)" "reads_only (handleListRubrics rt0 h)"
    by (simp_all add: rubric_api_def)
qed

lemma item_handlers_read:
  fixes parse toString sha1 auth coll c
  defines "rt \<equiv> pg_runtime parse toString sha1" and "h \<equiv> pg_eval_item_handler (pg_runtime parse toString sha1) auth coll c"
  shows "reads_only (handleGetByID_EvalItem h)" "reads_only (handleGetChildren h)"
proof -
  have "reads_only (item_api rt h y)" if "y \<in> {ApiGetItem, ApiChildren}" for y
    using that unfolding h_def rt_def
    by (intro reads_onlyI) (auto dest!: item_request_outcome simp: item_outcome_def Let_def)
  from this [of ApiGetItem] this [of ApiChildren]
  show "reads_only (handleGetByID_EvalItem h)" "reads_only (handleGetChildren h)"
    by (simp_all add: item_api_def)
qed

lemma clock_keeps_tables: "read_clock w = (t, w') \<Longrightarrow> pg_committed w' = pg_committed (w :: pg_world)"
  by (auto simp: read_clock_def)

lemma audit_handlers_read:
  "reads_only (handleListAuditLogs rt0 (pg_audit_handler parse parse_time details))"
  "reads_only (handleGetAuditLog rt0 (pg_audit_handler parse parse_time details))"
  by (rule reads_onlyI; auto simp: handleListAuditLogs_def handleGetAuditLog_def parseAuditQueryFilters_def clock_keeps_tables
      dest: audit_search_run split: option.splits sum.splits prod.splits)+

abbreviation untouched :: "db \<Rightarrow> response \<Rightarrow> db \<Rightarrow> bool" where
  "untouched d resp d' \<equiv> d' = d"

lemma sum_children_untouched:
  assumes "\<And>acc items. stage_does pg_committed untouched (k acc items)"
  shows "stage_does pg_committed untouched (sum_children (pg_report_handler c coll dec) children acc items k)"
proof (induction children arbitrary: acc items)
  case (Cons child children)
  have "keeps (\<lambda>s. pg_committed (snd s)) (call (SumWeightedByEvaluationItem i) (\<lambda>n. retn (dec n)))" for i
    using score_sum_keeps [unfolded published_def [abs_def]] by (intro eff_intros)
  then show ?case using Cons.IH by (auto simp: pg_report_handler_def intro!: does_attempt)
qed (simp add: assms)

lemma report_untouched:
  "stage_does pg_committed untouched (report_stage (pg_report_handler c coll dec) i category children)"
  unfolding report_stage_def
proof (rule sum_children_untouched)
  fix acc items
  show "stage_does pg_committed untouched (\<lambda>s. case rp_DetermineGrade (pg_report_handler c coll dec) i (f64_of_rat acc) s of
         (Inr g, s1) \<Rightarrow> finish_report (pg_report_handler c coll dec) category acc items (Some g) s1
       | (Inl e, s1) \<Rightarrow>
           if errors_Is e ErrGradeThresholdsUnavailable
           then finish_report (pg_report_handler c coll dec) category acc items None s1
           else refuse (writeReportStoreErr e) s1)"
    unfolding stage_does_def
    by (auto simp: pg_report_handler_def refuse_def dest!: determine_grade_run finish_report_run [unfolded pg_report_handler_def]
        split: prod.splits sum.splits if_splits)
qed

lemma report_handler_reads: "reads_only (handleCategoryReport (pg_report_handler c coll dec))"
proof (rule reads_onlyI)
  fix r w resp w' assume run: "handleCategoryReport (pg_report_handler c coll dec) r w = (resp, w')"
  show "pg_committed w' = pg_committed w"
  proof (cases "parseCategoryID r")
    case (Inl q)
    then show ?thesis using run by (simp add: handleCategoryReport_def)
  next
    case (Inr i)
    obtain q w1 where e: "enumerateCategoryChildren (pg_report_handler c coll dec) i w = (q, w1)" by (rule prod.exhaust)
    note w1 = enumerate_run [OF e, THEN conjunct1]
    show ?thesis
    proof (cases q)
      case (Inl l)
      then show ?thesis using run Inr e w1 by (simp add: handleCategoryReport_def)
    next
      case p: (Inr p)
      obtain category children where "p = (category, children)" by (rule prod.exhaust)
      then have "with_defer PgStore_BeginScoreTx (report_internal ''begin failed'') PgScoreTx_Rollback
          (report_stage (pg_report_handler c coll dec) i category children) w1 = (resp, w')"
        using run Inr e p by (simp add: handleCategoryReport_def pg_report_handler_def)
      from score_txs.with_defer_does [OF report_untouched _ this] show ?thesis using w1 by simp
    qed
  qed
qed

lemma workflow_handlers_read:
  "reads_only (\<lambda>r. handleGetWorkflow rt (pg_service parse rec) (service_view x r))"
  "reads_only (\<lambda>r. handleListWorkflows rt (pg_service parse rec) (service_view x r))"
  "reads_only (\<lambda>r. handleHealth)"
proof -
  have "pg_committed w' = pg_committed w" if "GetWorkflow rt (pg_service parse rec) i w = (q, w')" for i w q w'
  proof (cases "uuid_Parse rt i = None")
    case True
    then show ?thesis using that by (simp add: GetWorkflow_def)
  next
    case False
    obtain b w1 where b: "PgWorkflowStore_BeginTx w = (b, w1)" by (rule prod.exhaust)
    have w1: "pg_committed w1 = pg_committed w" using keepsD [OF workflow_txs.begin_keeps b] .
    show ?thesis
    proof (cases b)
      case (Inl e)
      then show ?thesis using that False b w1 by (simp add: GetWorkflow_def pg_service_def PgWorkflowStore_methods_def)
    next
      case (Inr t)
      obtain g s where g: "PgWorkflowTx_GetWorkflow parse i (t, w1) = (g, s)" by (rule prod.exhaust)
      have "pg_committed (snd s) = pg_committed w1" using keepsD [OF PgWorkflowTx_keeps(4) g] by (simp add: published_def)
      then show ?thesis using that False b w1 Inr g keeps_snd [OF workflow_txs.rollback_keeps, of s]
        by (auto simp: GetWorkflow_def pg_service_def PgWorkflowStore_methods_def PgWorkflowTx_methods_def)
    qed
  qed
  then show "reads_only (\<lambda>r. handleGetWorkflow rt (pg_service parse rec) (service_view x r))"
    by (intro reads_onlyI) (auto simp: handleGetWorkflow_def split: if_splits prod.splits sum.splits)
  have "pg_committed w' = pg_committed w" if "ListWorkflows rt (pg_service parse rec) n m w = (q, w')" for n m w q w'
    using that keeps_snd [OF PgWorkflowStore_ListWorkflows_keeps, of "list_limit n" m w]
    by (auto simp: ListWorkflows_def pg_service_def PgWorkflowStore_methods_def Let_def split: prod.splits sum.splits)
  then show "reads_only (\<lambda>r. handleListWorkflows rt (pg_service parse rec) (service_view x r))"
    by (intro reads_onlyI) (auto simp: handleListWorkflows_def split: option.splits prod.splits sum.splits)
  show "reads_only (\<lambda>r. handleHealth)" by (simp add: reads_only_def handleHealth_def)
qed

lemmas handlers_read = score_handlers_read review_handlers_read rubric_handlers_read item_handlers_read
  audit_handlers_read report_handler_reads workflow_handlers_read

text \<open>The whole inner mux: a request that is no POST or PUT changes no table.\<close>

lemma inner_mux_reads: "reads_only (ServeHTTP (innerMux (New_Server l cfg verifier m mh probes version) x))"
proof (rule mux_reads_only)
  fix pat h
  assume "(pat, h) \<in> set (innerMux (New_Server l cfg verifier m mh probes version) x)"
  then show "reads_only h"
    unfolding innerMux_def New_Server_def Let_def
    by (auto intro!: mux_reads_only simp: route_tables handlers_read)
qed

section \<open>Requests that can write\<close>

definition db_of :: "response \<times> 'c \<times> pg_world \<Rightarrow> db" where
  "db_of q = pg_committed (snd (snd q))"

lemma db_of_on_db [simp]: "db_of (on_db h r s) = pg_committed (snd (h r (snd s)))"
  by (simp add: db_of_def on_db_def split: prod.splits)

lemma instrumented_db:
  "\<exists>c'. db_of (HTTPInstrumentationMiddleware (side_metrics m) h r (c, w)) = db_of (h r (c', w))"
proof (cases "req_Path r \<in> set probePaths")
  case True
  then show ?thesis by (auto simp: HTTPInstrumentationMiddleware_def)
next
  case False
  obtain ts c1 where n: "mt_Now m c = (ts, c1)" by (rule prod.exhaust)
  obtain resp c2 w2 where r: "h r (c1, w) = (resp, (c2, w2))" by (metis prod.exhaust)
  have "db_of (HTTPInstrumentationMiddleware (side_metrics m) h r (c, w)) = pg_committed w2"
    using False n r by (auto simp: HTTPInstrumentationMiddleware_def side_metrics_def db_of_def split: prod.splits)
  with r have "db_of (HTTPInstrumentationMiddleware (side_metrics m) h r (c, w)) = db_of (h r (c1, w))"
    by (simp add: db_of_def)
  then show ?thesis by blast
qed

text \<open>The chain: nothing happens to the tables, or the handler runs for a user that may do this.\<close>

lemma authz_db:
  obtains (same) "db_of (RESTAuthzMiddleware None True (on_db h) r (c, w)) = pg_committed w"
  | (bypassed) "req_Method r \<in> {''GET'', ''HEAD'', ''OPTIONS''}"
      "db_of (RESTAuthzMiddleware None True (on_db h) r (c, w)) = pg_committed (snd (h r w))"
  | (granted) p u where "LookupRESTPermission (req_Method r) (req_Path r) = (p, False, True)" "req_User r = Some u"
      "EffectivePermissions (user_roles u) p"
      "db_of (RESTAuthzMiddleware None True (on_db h) r (c, w)) = pg_committed (snd (h (WithGrantedPermission p r) w))"
proof -
  obtain p b f where l: "LookupRESTPermission (req_Method r) (req_Path r) = (p, b, f)" by (metis prod.exhaust)
  show thesis
  proof (cases "b \<or> \<not> f \<or> req_User r = None")
    case True
    then show ?thesis
    proof (cases b)
      case True
      then have "req_Method r \<in> {''GET'', ''HEAD'', ''OPTIONS''}" using lookup_bypass_only [of "req_Method r" "req_Path r" p f] l by auto
      with True l show ?thesis by (intro bypassed) (simp_all add: RESTAuthzMiddleware_def)
    next
      case False
      with True l show ?thesis
        by (intro same) (auto simp: RESTAuthzMiddleware_def db_of_def UserFromContext_def)
    qed
  next
    case False
    then obtain u where u: "req_User r = Some u" by blast
    show ?thesis
    proof (cases "EffectivePermissions (user_roles u) p")
      case True
      then have "Authorize r p = Inr ()" using u by (simp add: Authorize_def UserFromContext_def user_roles_def)
      with False l u True show ?thesis
        by (intro granted [of p u]) (simp_all add: RESTAuthzMiddleware_def UserFromContext_def)
    next
      case no: False
      then have "Authorize r p = Inl e \<Longrightarrow> thesis" for e
        using False l u by (intro same) (simp add: RESTAuthzMiddleware_def db_of_def UserFromContext_def log_forbidden_def)
      moreover have "Authorize r p \<noteq> Inr q" for q using no u by (simp add: Authorize_def UserFromContext_def user_roles_def)
      ultimately show ?thesis by (cases "Authorize r p") auto
    qed
  qed
qed

lemma chain_db:
  fixes h r c w verify
  defines "run \<equiv> BuildRESTChain (on_db h) (Some (side_verifier verify)) None True [] r (c, w)"
  obtains (same) "db_of run = pg_committed w"
  | (bypassed) r' where "req_Method r \<in> {''GET'', ''HEAD'', ''OPTIONS''}" "req_Method r' = req_Method r"
      "db_of run = pg_committed (snd (h r' w))"
  | (granted) token vt c' p r' where "req_Authorization r = ''Bearer '' @ token" "verify token c = (Inr vt, c')"
      "LookupRESTPermission (req_Method r) (req_Path r) = (p, False, True)"
      "EffectivePermissions (user_roles (validatedTokenToUser vt)) p"
      "req_Method r' = req_Method r" "req_Path r' = req_Path r" "db_of run = pg_committed (snd (h r' w))"
proof (cases "req_Path r = ''/health''")
  case True
  then have run: "run = RESTAuthzMiddleware None True (on_db h) r (c, w)"
    by (simp add: run_def BuildRESTChain_def RESTMiddleware_def)
  show ?thesis
  proof (rule authz_db [of h r c w])
    fix p u assume "LookupRESTPermission (req_Method r) (req_Path r) = (p, False, True)"
    then show ?thesis using True by (elim lookup_rest_cases) auto
  qed (use run same bypassed [of r] in auto)
next
  case False
  show ?thesis
  proof (cases "CutPrefix (req_Authorization r) ''Bearer ''")
    case None
    with False show ?thesis by (intro same) (simp add: run_def BuildRESTChain_def RESTMiddleware_def db_of_def)
  next
    case (Some token)
    then have t: "req_Authorization r = ''Bearer '' @ token" by (simp only: CutPrefix_Some)
    obtain q c1 where v: "verify token c = (q, c1)" by (rule prod.exhaust)
    show ?thesis
    proof (cases q)
      case (Inl e)
      with False Some v t show ?thesis
        by (intro same) (simp add: run_def BuildRESTChain_def RESTMiddleware_def db_of_def side_verifier_def)
    next
      case (Inr vt)
      let ?r = "WithUser (validatedTokenToUser vt) r"
      have run: "run = RESTAuthzMiddleware None True (on_db h) ?r (c1, w)"
        using False Some v t Inr by (simp add: run_def BuildRESTChain_def RESTMiddleware_def side_verifier_def)
      show ?thesis
      proof (rule authz_db [of h ?r c1 w])
        fix p u
        assume g: "LookupRESTPermission (req_Method ?r) (req_Path ?r) = (p, False, True)" "req_User ?r = Some u"
          "EffectivePermissions (user_roles u) p"
          "db_of (RESTAuthzMiddleware None True (on_db h) ?r (c1, w)) = pg_committed (snd (h (WithGrantedPermission p ?r) w))"
        then show ?thesis
          using t v Inr run
          by (intro granted [of token vt c1 p "WithGrantedPermission p ?r"]) (auto simp: WithUser_def WithGrantedPermission_def)
      qed (use run same bypassed [of ?r] in \<open>auto simp: WithUser_def\<close>)
    qed
  qed
qed

text \<open>A POST below another name than the ones mounted ends in the mux of the workflow interface, which refuses it.\<close>

lemma post_elsewhere:
  assumes "req_Method r = ''POST''" and "path_pieces (req_Path r) = ''api'' # ''v1'' # q # ps"
    and "q \<in> {''documents'', ''recommendations''}"
  shows "snd (ServeHTTP (innerMux s x) r w) = w"
proof -
  have rest: "snd (ServeHTTP (RESTHandler_Mux rt sv x) r' w) = w"
    if "req_Method r' = req_Method r" "req_Path r' = req_Path r" for rt sv r'
  proof (rule ServeHTTP_cases [of "RESTHandler_Mux rt sv x" r' w])
    fix pat h ms
    assume "(pat, h) \<in> set (RESTHandler_Mux rt sv x)" "seg_match (pat_segs pat) (path_pieces (req_Path r')) ms"
      "pat_method pat = req_Method r' \<or> req_Method r' = ''HEAD'' \<and> pat_method pat = ''GET'' \<or> pat_method pat = []"
    then have False using that assms by (auto simp: route_tables)
    then show ?thesis ..
  qed simp
  show ?thesis
  proof (rule ServeHTTP_cases [of "innerMux s x" r w])
    fix pat h ms
    assume q: "(pat, h) \<in> set (innerMux s x)" "seg_match (pat_segs pat) (path_pieces (req_Path r)) ms"
      "ServeHTTP (innerMux s x) r w = h (r\<lparr>req_PathID := PathValue ''id'' pat ms\<rparr>) w"
    then have "h = ServeHTTP (RESTHandler_Mux (svr_rt s) (svr_workflowSvc s) x)"
      using assms(2,3) by (auto simp: innerMux_def HandleFunc_def route_patterns Let_def)
    then show ?thesis using q(3) by (simp add: rest)
  qed simp
qed

lemma abac_default [simp]:
  "ABACMiddleware (NewABACEvaluator DefaultABACPolicies rec) on h = h"
  by (auto simp: fun_eq_iff ABACMiddleware_def NewABACEvaluator_def DefaultABACPolicies_def ABACEvaluator_Evaluate_def Let_def
      split: option.splits)

lemma outer_db:
  "db_of (ServeHTTP (outerMux s x) r (c, w)) = pg_committed w \<or>
   (\<exists>i. db_of (ServeHTTP (outerMux s x) r (c, w)) = db_of (rest_chain s x (r\<lparr>req_PathID := i\<rparr>) (c, w)))"
proof (rule ServeHTTP_cases [of "outerMux s x" r "(c, w)"])
  fix resp assume "ServeHTTP (outerMux s x) r (c, w) = (resp, (c, w))"
  then show ?thesis by (simp add: db_of_def)
next
  fix pat h ms
  assume q: "(pat, h) \<in> set (outerMux s x)"
    "ServeHTTP (outerMux s x) r (c, w) = h (r\<lparr>req_PathID := PathValue ''id'' pat ms\<rparr>) (c, w)"
  have "h = livenessHandler (svr_buildVersion s) \<or> (\<exists>g. h = on_side g) \<or> h = rest_chain s x"
    using q(1) by (auto simp: outerMux_def HandleFunc_def)
  then show ?thesis
    using q(2) by (auto simp: db_of_def livenessHandler_def on_side_def split: prod.splits)
qed

text \<open>A change of the tables behind the whole server comes from the creation of a workflow by a user who may do it.\<close>

lemma writer_authorized:
  assumes "cfg_AuthEnabled cfg"
    and "server_handler (New_Server l cfg (Some verify) m mh probes version) x r (c, w) = (resp, (c', w'))"
    and "pg_committed w' \<noteq> pg_committed w"
  shows "req_Method r = ''POST'' \<and> req_Path r = ''/api/v1/workflows'' \<and>
    (\<exists>token c0 vt c1. req_Authorization r = ''Bearer '' @ token \<and> verify token c0 = (Inr vt, c1) \<and>
       EffectivePermissions (user_roles (validatedTokenToUser vt)) ''write:workflow'')"
proof -
  let ?s = "New_Server l cfg (Some verify) m mh probes version"
  let ?h = "ServeHTTP (innerMux ?s x)"
  have chain: "rest_chain ?s x = BuildRESTChain (on_db ?h) (Some (side_verifier verify)) None True []"
    using assms(1) by (simp add: rest_chain_def New_Server_def Let_def)
  obtain c0 where "db_of (ServeHTTP (outerMux ?s x) r (c0, w)) \<noteq> pg_committed w"
    using assms(2,3) instrumented_db [of "svr_metrics ?s" "ServeHTTP (outerMux ?s x)" r c w]
    by (auto simp: server_handler_def db_of_def)
  then obtain i where run: "db_of (rest_chain ?s x (r\<lparr>req_PathID := i\<rparr>) (c0, w)) \<noteq> pg_committed w"
    using outer_db [of ?s x r c0 w] by auto
  let ?r = "r\<lparr>req_PathID := i\<rparr>"
  have reads: "pg_committed (snd (?h r' w)) = pg_committed w" if "req_Method r' \<notin> {''POST'', ''PUT''}" for r'
    using inner_mux_reads [unfolded reads_only_def, rule_format, OF that] .
  show ?thesis
  proof (rule chain_db [of ?h verify ?r c0 w])
    fix token vt c1 p r'
    assume g: "req_Authorization ?r = ''Bearer '' @ token" "verify token c0 = (Inr vt, c1)"
      "LookupRESTPermission (req_Method ?r) (req_Path ?r) = (p, False, True)"
      "EffectivePermissions (user_roles (validatedTokenToUser vt)) p"
      "req_Method r' = req_Method ?r" "req_Path r' = req_Path ?r"
      "db_of (BuildRESTChain (on_db ?h) (Some (side_verifier verify)) None True [] ?r (c0, w)) = pg_committed (snd (?h r' w))"
    then have wrote: "pg_committed (snd (?h r' w)) \<noteq> pg_committed w" using run chain by simp
    then have m: "req_Method r \<in> {''POST'', ''PUT''}" using reads [of r'] g(5) by auto
    have elsewhere: False if "path_pieces (req_Path r) = ''api'' # ''v1'' # q # ps" "q \<in> {''documents'', ''recommendations''}"
      "req_Method r = ''POST''" for q ps
      using post_elsewhere [of r' q ps ?s x w] that g(5,6) wrote by simp
    have d: "path_pieces ''/api/v1/documents/upload'' = ''api'' # ''v1'' # ''documents'' # [''upload'']"
      by (simp add: path_pieces_def)
    have rc: "path_pieces (''/api/v1/recommendations/'' @ t) = ''api'' # ''v1'' # ''recommendations'' # pieces_from [] t" for t
      by (simp add: path_pieces_def)
    have "req_Method r = ''POST'' \<Longrightarrow> req_Path r \<noteq> ''/api/v1/documents/upload''"
      "req_Method r = ''POST'' \<Longrightarrow> req_Path r \<noteq> ''/api/v1/recommendations/'' @ t" for t
      using elsewhere [of "''documents''" "[''upload'']"] elsewhere [of "''recommendations''" "pieces_from [] t"] d rc by force+
    then have "req_Method r = ''POST'' \<and> req_Path r = ''/api/v1/workflows'' \<and> p = ''write:workflow''"
      using m by (rule_tac lookup_rest_cases [OF g(3)]) auto
    then show ?thesis using g by auto
  next
    assume "db_of (BuildRESTChain (on_db ?h) (Some (side_verifier verify)) None True [] ?r (c0, w)) = pg_committed w"
    then show ?thesis using run chain by simp
  next
    fix r' assume "req_Method ?r \<in> {''GET'', ''HEAD'', ''OPTIONS''}" "req_Method r' = req_Method ?r"
      "db_of (BuildRESTChain (on_db ?h) (Some (side_verifier verify)) None True [] ?r (c0, w)) = pg_committed (snd (?h r' w))"
    then show ?thesis using run chain reads [of r'] by auto
  qed
qed

text \<open>A server for the witnesses: authentication is on, nothing is observed, no probe fails.\<close>

definition sample_library :: server_library where
  "sample_library =
     \<lparr>lib_Parse = canonical_Parse, lib_String = canonical_String, lib_SHA1 = sample_SHA1, lib_codec = exact_codec,
      lib_collation = (\<lambda>s. rat_of_nat (length s)), lib_numeric_text = (\<lambda>n. Inr None), lib_ParseFloat = (\<lambda>s. None),
      lib_decimal = sample_decoder, lib_ParseTime = (\<lambda>s. None), lib_details = (\<lambda>m. [])\<rparr>"

definition sample_settings :: "string \<Rightarrow> string" where
  "sample_settings k = (if k = ''AUTH_ENABLED'' then ''true'' else [])"

definition sample_metrics :: "nat Metrics" where
  "sample_metrics = \<lparr>mt_ObserveHTTPDuration = (\<lambda>a b q t n. n), mt_ObserveGRPCDuration = (\<lambda>a b t n. n),
     mt_IncAuthzForbidden = (\<lambda>a b n. n), mt_Now = (\<lambda>n. (0, n))\<rparr>"

definition sample_probes :: "nat ProbeServer" where
  "sample_probes = \<lparr>ps_shuttingDown = False, ps_timeoutSeconds = 5, ps_authEnabled = True, ps_pgPing = None,
     ps_redisPing = None, ps_jwksReachable = None, ps_text = (\<lambda>e. []), ps_timeout = (\<lambda>e. False)\<rparr>"

definition sample_server :: "nat Server" where
  "sample_server = New_Server sample_library (Load sample_settings) (Some sample_verify) sample_metrics
     (sample_handler 200) sample_probes ''1.0''"

definition sample_wire :: wire_input where
  "sample_wire = \<lparr>wi_ResultText = [], wi_ContentType = [], wi_Multipart = Inl [], wi_Err = None, wi_CanceledAfter = False\<rparr>"

lemma sample_auth [simp]: "cfg_AuthEnabled (Load sample_settings)"
  by (simp add: Load_def sample_settings_def getBoolEnv_def strconv_ParseBool_def Let_def)

text \<open>
  C9: Who can change the database through the REST server when authentication is on. Take the handler of
  the whole server (instrumentation, outer mux, authentication, authorization, attribute conditions,
  inner mux, the mux of the component, its handler), any request, any tables and faults of the
  connection. The tables are the same afterwards, or the request was POST /api/v1/workflows with a bearer
  token that the verifier accepted and one of whose roles has the permission write:workflow. Every
  other mutation that the server mounts (scores, reviews, rubrics, items, evidence, callbacks) leaves
  all tables as they were.
\<close>

theorem authenticated_writes:
  assumes "cfg_AuthEnabled cfg"
    and "server_handler (New_Server l cfg (Some verify) m mh probes version) x r (c, w) = (resp, (c', w'))"
  shows "pg_committed w' = pg_committed w \<or>
    req_Method r = ''POST'' \<and> req_Path r = ''/api/v1/workflows'' \<and>
    (\<exists>token c0 vt c1. req_Authorization r = ''Bearer '' @ token \<and> verify token c0 = (Inr vt, c1) \<and>
       EffectivePermissions (user_roles (validatedTokenToUser vt)) ''write:workflow'')"
  using writer_authorized [OF assms] by blast

theorem authenticated_writes_witness:
  "pg_committed (snd (snd (server_handler sample_server sample_wire
     (sample_request ''PUT'' ''/api/v1/rubrics/7'' ''Bearer iroum-ax:admin'') (0, sample_pg empty_db)))) = empty_db"
proof -
  let ?r = "sample_request ''PUT'' ''/api/v1/rubrics/7'' ''Bearer iroum-ax:admin''"
  obtain resp c w where run: "server_handler sample_server sample_wire ?r (0, sample_pg empty_db) = (resp, (c, w))"
    by (metis prod.exhaust)
  from authenticated_writes [OF sample_auth run [unfolded sample_server_def]] run show ?thesis by simp
qed

end
