(* ===== verification/Server_Endpoints.thy ===== *)
theory Server_Endpoints
  imports Server_Properties
begin

text \<open>
  The way of a request through the muxes of cmd/server/server.go: which handler answers it, with which
  id, and what authentication and authorization let through on the way.
\<close>

section \<open>Matching\<close>

lemma matchPath_none [simp]: "matchPath ps [] ms = None"
  by (cases ps) simp_all

lemma or_else_simps [simp]: "or_else None y = y" "or_else x None = x" "or_else (Some a) y = Some a"
  by (simp_all add: or_else_def split: option.splits)

lemma advance_simps [simp]:
  "advance y [] = []" "advance y (([], a) # cs) = advance y cs"
  "advance y ((z # ss, a) # cs) = (if z = y then (ss, a) # advance y cs else advance y cs)"
  "advance_wild [] = []" "advance_wild (([], a) # cs) = advance_wild cs"
  "advance_wild ((Lit q # ss, a) # cs) = advance_wild cs" "advance_wild ((Rest # ss, a) # cs) = advance_wild cs"
  "advance_wild ((Wild n # ss, a) # cs) = (ss, a) # advance_wild cs"
  by (simp_all add: advance_def advance_wild_def List.map_filter_simps)

definition below_v1 :: "'a list \<Rightarrow> (pat_seg list \<times> 'a) list" where
  "below_v1 hs = zip
     [[Lit ''evidences''],
      [Lit ''scores''],
      [Lit ''scores'', Rest],
      [Lit ''reports''],
      [Lit ''reports'', Rest],
      [Lit ''reviews''],
      [Lit ''reviews'', Rest],
      [Lit ''rubrics''],
      [Lit ''rubrics'', Rest],
      [Lit ''audit-logs''],
      [Lit ''audit-logs'', Rest],
      [Lit ''workflows'', Wild ''id'', Lit ''callback''],
      [Lit ''eval-items''],
      [Lit ''eval-items'', Rest]] hs"

lemma inner_tree:
  "matchPath (''api'' # ''v1'' # ps)
     [(Lit ''api'' # Lit ''v1'' # [Lit ''evidences''], a1),
      (Lit ''api'' # Lit ''v1'' # [Lit ''scores''], a2),
      (Lit ''api'' # Lit ''v1'' # [Lit ''scores'', Rest], a3),
      (Lit ''api'' # Lit ''v1'' # [Lit ''reports''], a4),
      (Lit ''api'' # Lit ''v1'' # [Lit ''reports'', Rest], a5),
      (Lit ''api'' # Lit ''v1'' # [Lit ''reviews''], a6),
      (Lit ''api'' # Lit ''v1'' # [Lit ''reviews'', Rest], a7),
      (Lit ''api'' # Lit ''v1'' # [Lit ''rubrics''], a8),
      (Lit ''api'' # Lit ''v1'' # [Lit ''rubrics'', Rest], a9),
      (Lit ''api'' # Lit ''v1'' # [Lit ''audit-logs''], a10),
      (Lit ''api'' # Lit ''v1'' # [Lit ''audit-logs'', Rest], a11),
      (Lit ''api'' # Lit ''v1'' # [Lit ''workflows'', Wild ''id'', Lit ''callback''], a12),
      (Lit ''api'' # Lit ''v1'' # [Lit ''eval-items''], a13),
      (Lit ''api'' # Lit ''v1'' # [Lit ''eval-items'', Rest], a14),
      ([Rest], a15)] ms =
   or_else (matchPath ps (below_v1 [a1, a2, a3, a4, a5, a6, a7, a8, a9, a10, a11, a12, a13, a14]) ms) (Some (a15, ms))"
  by (simp add: below_v1_def)

lemma below_v1_match:
  fixes a1 a2 a3 a4 a5 a6 a7 a8 a9 a10 a11 a12 a13 a14
  defines "cs \<equiv> below_v1 [a1, a2, a3, a4, a5, a6, a7, a8, a9, a10, a11, a12, a13, a14]"
  shows "matchPath (''scores'' # ps) cs ms = Some (if ps = [] then a2 else a3, ms)"
    "matchPath (''reports'' # ps) cs ms = Some (if ps = [] then a4 else a5, ms)"
    "matchPath (''reviews'' # ps) cs ms = Some (if ps = [] then a6 else a7, ms)"
    "matchPath (''rubrics'' # ps) cs ms = Some (if ps = [] then a8 else a9, ms)"
    "matchPath (''audit-logs'' # ps) cs ms = Some (if ps = [] then a10 else a11, ms)"
    "matchPath (''eval-items'' # ps) cs ms = Some (if ps = [] then a13 else a14, ms)"
    "matchPath [''evidences''] cs ms = Some (a1, ms)"
    "matchPath [''workflows''] cs ms = None" "matchPath [''workflows'', i] cs ms = None"
    "i \<noteq> [] \<Longrightarrow> matchPath [''workflows'', i, ''callback''] cs ms = Some (a12, ms @ [i])"
  by (simp_all add: cs_def below_v1_def split: list.split) (cases ps; simp)+

definition any_method :: "pat_seg list \<Rightarrow> 's route list \<Rightarrow> 's route" where
  "any_method ss routes = (\<lparr>pat_method = [], pat_segs = ss\<rparr>, ServeHTTP routes)"

lemma inner_explicit:
  "innerMux s x =
     [any_method [Lit ''api'', Lit ''v1'', Lit ''evidences''] (EvidenceHandler_Routes (svr_rt s) (svr_evidenceH s) x),
      any_method [Lit ''api'', Lit ''v1'', Lit ''scores''] (ScoreHandler_Routes (svr_rt s) (svr_scoreH s)),
      any_method [Lit ''api'', Lit ''v1'', Lit ''scores'', Rest] (ScoreHandler_Routes (svr_rt s) (svr_scoreH s)),
      any_method [Lit ''api'', Lit ''v1'', Lit ''reports''] (ReportHandler_Routes (svr_reportH s)),
      any_method [Lit ''api'', Lit ''v1'', Lit ''reports'', Rest] (ReportHandler_Routes (svr_reportH s)),
      any_method [Lit ''api'', Lit ''v1'', Lit ''reviews''] (ReviewHandler_Routes (svr_rt s) (svr_reviewH s)),
      any_method [Lit ''api'', Lit ''v1'', Lit ''reviews'', Rest] (ReviewHandler_Routes (svr_rt s) (svr_reviewH s)),
      any_method [Lit ''api'', Lit ''v1'', Lit ''rubrics''] (RubricHandler_Routes (svr_rt s) (svr_rubricH s)),
      any_method [Lit ''api'', Lit ''v1'', Lit ''rubrics'', Rest] (RubricHandler_Routes (svr_rt s) (svr_rubricH s)),
      any_method [Lit ''api'', Lit ''v1'', Lit ''audit-logs''] (AuditQueryHandler_Routes (svr_rt s) (svr_auditQueryH s)),
      any_method [Lit ''api'', Lit ''v1'', Lit ''audit-logs'', Rest] (AuditQueryHandler_Routes (svr_rt s) (svr_auditQueryH s)),
      any_method [Lit ''api'', Lit ''v1'', Lit ''workflows'', Wild ''id'', Lit ''callback''] (WorkflowCallbackHandler_Routes (svr_rt s) (svr_callbackH s) x),
      any_method [Lit ''api'', Lit ''v1'', Lit ''eval-items''] (EvalItemHandler_Routes (svr_rt s) (svr_evalItemH s)),
      any_method [Lit ''api'', Lit ''v1'', Lit ''eval-items'', Rest] (EvalItemHandler_Routes (svr_rt s) (svr_evalItemH s)),
      any_method [Rest] (RESTHandler_Mux (svr_rt s) (svr_workflowSvc s) x)]"
  by (simp add: innerMux_def HandleFunc_def route_patterns Let_def any_method_def)

lemma inner_match:
  assumes "m \<noteq> []"
  shows "mux_match (innerMux s x) m (''api'' # ''v1'' # ps) =
    or_else (matchPath ps (below_v1 (butlast (innerMux s x))) []) (Some (last (innerMux s x), []))"
proof -
  obtain h1 h2 h3 h4 h5 h6 h7 h8 h9 h10 h11 h12 h13 h14 h15 where h: "innerMux s x = [
      (\<lparr>pat_method = [], pat_segs = [Lit ''api'', Lit ''v1'', Lit ''evidences'']\<rparr>, h1),
      (\<lparr>pat_method = [], pat_segs = [Lit ''api'', Lit ''v1'', Lit ''scores'']\<rparr>, h2),
      (\<lparr>pat_method = [], pat_segs = [Lit ''api'', Lit ''v1'', Lit ''scores'', Rest]\<rparr>, h3),
      (\<lparr>pat_method = [], pat_segs = [Lit ''api'', Lit ''v1'', Lit ''reports'']\<rparr>, h4),
      (\<lparr>pat_method = [], pat_segs = [Lit ''api'', Lit ''v1'', Lit ''reports'', Rest]\<rparr>, h5),
      (\<lparr>pat_method = [], pat_segs = [Lit ''api'', Lit ''v1'', Lit ''reviews'']\<rparr>, h6),
      (\<lparr>pat_method = [], pat_segs = [Lit ''api'', Lit ''v1'', Lit ''reviews'', Rest]\<rparr>, h7),
      (\<lparr>pat_method = [], pat_segs = [Lit ''api'', Lit ''v1'', Lit ''rubrics'']\<rparr>, h8),
      (\<lparr>pat_method = [], pat_segs = [Lit ''api'', Lit ''v1'', Lit ''rubrics'', Rest]\<rparr>, h9),
      (\<lparr>pat_method = [], pat_segs = [Lit ''api'', Lit ''v1'', Lit ''audit-logs'']\<rparr>, h10),
      (\<lparr>pat_method = [], pat_segs = [Lit ''api'', Lit ''v1'', Lit ''audit-logs'', Rest]\<rparr>, h11),
      (\<lparr>pat_method = [], pat_segs = [Lit ''api'', Lit ''v1'', Lit ''workflows'', Wild ''id'', Lit ''callback'']\<rparr>, h12),
      (\<lparr>pat_method = [], pat_segs = [Lit ''api'', Lit ''v1'', Lit ''eval-items'']\<rparr>, h13),
      (\<lparr>pat_method = [], pat_segs = [Lit ''api'', Lit ''v1'', Lit ''eval-items'', Rest]\<rparr>, h14),
      (\<lparr>pat_method = [], pat_segs = [Rest]\<rparr>, h15)]"
    unfolding inner_explicit any_method_def by blast
  show ?thesis using assms by (simp add: h mux_match_def candidates_def inner_tree del: matchPath.simps)
qed

lemma PathValue_empty [simp]: "PathValue n pat [] = []"
  by (simp add: PathValue_def)

text \<open>Below /api/v1 the inner mux passes the request to the mux of the component.\<close>

lemma inner_serves:
  assumes "\<forall>p\<in>set ps. plain_piece p" and "req_Method r \<noteq> []"
  shows "req_Path r = path_of (''api'' # ''v1'' # ''scores'' # ps) \<Longrightarrow>
      ServeHTTP (innerMux s x) r w = ServeHTTP (ScoreHandler_Routes (svr_rt s) (svr_scoreH s)) (r\<lparr>req_PathID := []\<rparr>) w"
    and "req_Path r = path_of (''api'' # ''v1'' # ''reports'' # ps) \<Longrightarrow>
      ServeHTTP (innerMux s x) r w = ServeHTTP (ReportHandler_Routes (svr_reportH s)) (r\<lparr>req_PathID := []\<rparr>) w"
    and "req_Path r = path_of (''api'' # ''v1'' # ''reviews'' # ps) \<Longrightarrow>
      ServeHTTP (innerMux s x) r w = ServeHTTP (ReviewHandler_Routes (svr_rt s) (svr_reviewH s)) (r\<lparr>req_PathID := []\<rparr>) w"
    and "req_Path r = path_of (''api'' # ''v1'' # ''rubrics'' # ps) \<Longrightarrow>
      ServeHTTP (innerMux s x) r w = ServeHTTP (RubricHandler_Routes (svr_rt s) (svr_rubricH s)) (r\<lparr>req_PathID := []\<rparr>) w"
    and "req_Path r = path_of (''api'' # ''v1'' # ''audit-logs'' # ps) \<Longrightarrow>
      ServeHTTP (innerMux s x) r w = ServeHTTP (AuditQueryHandler_Routes (svr_rt s) (svr_auditQueryH s)) (r\<lparr>req_PathID := []\<rparr>) w"
    and "req_Path r = path_of (''api'' # ''v1'' # ''eval-items'' # ps) \<Longrightarrow>
      ServeHTTP (innerMux s x) r w = ServeHTTP (EvalItemHandler_Routes (svr_rt s) (svr_evalItemH s)) (r\<lparr>req_PathID := []\<rparr>) w"
proof -
  have subtree: "ServeHTTP (innerMux s x) r w = ServeHTTP routes (r\<lparr>req_PathID := []\<rparr>) w"
    if path: "req_Path r = path_of (''api'' # ''v1'' # q # ps)" and q: "plain_piece q"
      and m: "\<And>qs. mux_match (innerMux s x) (req_Method r) (''api'' # ''v1'' # q # qs) =
        Some (any_method (if qs = [] then [Lit ''api'', Lit ''v1'', Lit q] else [Lit ''api'', Lit ''v1'', Lit q, Rest]) routes, [])"
    for q routes
  proof -
    have "ServeHTTP (innerMux s x) r w = ServeHTTP routes (r\<lparr>req_PathID := PathValue ''id''
        \<lparr>pat_method = [], pat_segs = (if ps = [] then [Lit ''api'', Lit ''v1'', Lit q] else [Lit ''api'', Lit ''v1'', Lit q, Rest])\<rparr> []\<rparr>) w"
    proof (rule ServeHTTP_plain [where ps = "''api'' # ''v1'' # q # ps"])
      show "\<forall>p\<in>set (''api'' # ''v1'' # q # ps). plain_piece p" using assms(1) q by (simp add: plain_piece_def)
      show "mux_match (innerMux s x) (req_Method r) (''api'' # ''v1'' # q # ps) =
        Some ((\<lparr>pat_method = [], pat_segs = (if ps = [] then [Lit ''api'', Lit ''v1'', Lit q] else [Lit ''api'', Lit ''v1'', Lit q, Rest])\<rparr>,
          ServeHTTP routes), [])" by (simp add: m any_method_def)
    qed (use path m [of "ps @ [[]]"] in \<open>auto simp: any_method_def split: if_splits\<close>)
    then show ?thesis by simp
  qed
  have plain: "plain_piece ''scores''" "plain_piece ''reports''" "plain_piece ''reviews''" "plain_piece ''rubrics''"
    "plain_piece ''audit-logs''" "plain_piece ''eval-items''" by (simp_all add: plain_piece_def)
  note tree = inner_explicit [of s x] below_v1_match
  show "req_Path r = path_of (''api'' # ''v1'' # ''scores'' # ps) \<Longrightarrow>
      ServeHTTP (innerMux s x) r w = ServeHTTP (ScoreHandler_Routes (svr_rt s) (svr_scoreH s)) (r\<lparr>req_PathID := []\<rparr>) w"
    by (rule subtree, assumption, rule plain, subst inner_match [OF assms(2)]) (simp add: tree del: matchPath.simps)
  show "req_Path r = path_of (''api'' # ''v1'' # ''reports'' # ps) \<Longrightarrow>
      ServeHTTP (innerMux s x) r w = ServeHTTP (ReportHandler_Routes (svr_reportH s)) (r\<lparr>req_PathID := []\<rparr>) w"
    by (rule subtree, assumption, rule plain, subst inner_match [OF assms(2)]) (simp add: tree del: matchPath.simps)
  show "req_Path r = path_of (''api'' # ''v1'' # ''reviews'' # ps) \<Longrightarrow>
      ServeHTTP (innerMux s x) r w = ServeHTTP (ReviewHandler_Routes (svr_rt s) (svr_reviewH s)) (r\<lparr>req_PathID := []\<rparr>) w"
    by (rule subtree, assumption, rule plain, subst inner_match [OF assms(2)]) (simp add: tree del: matchPath.simps)
  show "req_Path r = path_of (''api'' # ''v1'' # ''rubrics'' # ps) \<Longrightarrow>
      ServeHTTP (innerMux s x) r w = ServeHTTP (RubricHandler_Routes (svr_rt s) (svr_rubricH s)) (r\<lparr>req_PathID := []\<rparr>) w"
    by (rule subtree, assumption, rule plain, subst inner_match [OF assms(2)]) (simp add: tree del: matchPath.simps)
  show "req_Path r = path_of (''api'' # ''v1'' # ''audit-logs'' # ps) \<Longrightarrow>
      ServeHTTP (innerMux s x) r w = ServeHTTP (AuditQueryHandler_Routes (svr_rt s) (svr_auditQueryH s)) (r\<lparr>req_PathID := []\<rparr>) w"
    by (rule subtree, assumption, rule plain, subst inner_match [OF assms(2)]) (simp add: tree del: matchPath.simps)
  show "req_Path r = path_of (''api'' # ''v1'' # ''eval-items'' # ps) \<Longrightarrow>
      ServeHTTP (innerMux s x) r w = ServeHTTP (EvalItemHandler_Routes (svr_rt s) (svr_evalItemH s)) (r\<lparr>req_PathID := []\<rparr>) w"
    by (rule subtree, assumption, rule plain, subst inner_match [OF assms(2)]) (simp add: tree del: matchPath.simps)
qed

lemma workflows_match:
  fixes a1 a2 a3 a4 a5 a6 a7 a8 a9 a10 a11 a12 a13 a14
  defines "cs \<equiv> below_v1 [a1, a2, a3, a4, a5, a6, a7, a8, a9, a10, a11, a12, a13, a14]"
  shows "matchPath [''workflows'', i, []] cs ms = None" "matchPath [''workflows'', i, ''callback'', []] cs ms = None"
    "matchPath [''evidences'', []] cs ms = None"
  by (simp_all add: cs_def below_v1_def)

lemma inner_serves_workflows:
  assumes "plain_piece i" and "req_Method r \<noteq> []"
  shows "req_Path r = path_of [''api'', ''v1'', ''workflows''] \<Longrightarrow>
      ServeHTTP (innerMux s x) r w = ServeHTTP (RESTHandler_Mux (svr_rt s) (svr_workflowSvc s) x) (r\<lparr>req_PathID := []\<rparr>) w"
    and "req_Path r = path_of [''api'', ''v1'', ''workflows'', i] \<Longrightarrow>
      ServeHTTP (innerMux s x) r w = ServeHTTP (RESTHandler_Mux (svr_rt s) (svr_workflowSvc s) x) (r\<lparr>req_PathID := []\<rparr>) w"
    and "req_Path r = path_of [''api'', ''v1'', ''workflows'', i, ''callback''] \<Longrightarrow>
      ServeHTTP (innerMux s x) r w = ServeHTTP (WorkflowCallbackHandler_Routes (svr_rt s) (svr_callbackH s) x) (r\<lparr>req_PathID := i\<rparr>) w"
    and "req_Path r = path_of [''api'', ''v1'', ''evidences''] \<Longrightarrow>
      ServeHTTP (innerMux s x) r w = ServeHTTP (EvidenceHandler_Routes (svr_rt s) (svr_evidenceH s) x) (r\<lparr>req_PathID := []\<rparr>) w"
proof -
  have served: "ServeHTTP (innerMux s x) r w = ServeHTTP routes (r\<lparr>req_PathID := PathValue ''id'' \<lparr>pat_method = [], pat_segs = ss\<rparr> ms\<rparr>) w"
    if "req_Path r = path_of (''api'' # ''v1'' # ps)" "\<forall>p\<in>set ps. plain_piece p"
      "mux_match (innerMux s x) (req_Method r) (''api'' # ''v1'' # ps) = Some (any_method ss routes, ms)"
      "ss = [Rest] \<Longrightarrow> mux_match (innerMux s x) (req_Method r) (''api'' # ''v1'' # ps @ [[]]) = Some (any_method [Rest] routes, ms)"
      "ss = [Rest] \<or> last ss \<noteq> Rest"
    for ps ss routes ms
  proof (rule ServeHTTP_plain [where ps = "''api'' # ''v1'' # ps"])
    show "\<forall>p\<in>set (''api'' # ''v1'' # ps). plain_piece p" using that(2) by (simp add: plain_piece_def)
  qed (use that in \<open>auto simp: any_method_def\<close>)
  have p: "plain_piece ''workflows''" "plain_piece ''callback''" "plain_piece ''evidences''" "i \<noteq> []"
    using assms(1) by (simp_all add: plain_piece_def)
  note tree = inner_explicit [of s x] below_v1_match workflows_match p PathValue_def
  show "req_Path r = path_of [''api'', ''v1'', ''workflows''] \<Longrightarrow>
      ServeHTTP (innerMux s x) r w = ServeHTTP (RESTHandler_Mux (svr_rt s) (svr_workflowSvc s) x) (r\<lparr>req_PathID := []\<rparr>) w"
    by (subst served [where ps = "[''workflows'']" and ss = "[Rest]" and ms = "[]" and routes = "RESTHandler_Mux (svr_rt s) (svr_workflowSvc s) x"];
        (subst inner_match [OF assms(2)])?; (simp add: tree del: matchPath.simps)?)
  show "req_Path r = path_of [''api'', ''v1'', ''workflows'', i] \<Longrightarrow>
      ServeHTTP (innerMux s x) r w = ServeHTTP (RESTHandler_Mux (svr_rt s) (svr_workflowSvc s) x) (r\<lparr>req_PathID := []\<rparr>) w"
    using assms(1) by (subst served [where ps = "[''workflows'', i]" and ss = "[Rest]" and ms = "[]" and routes = "RESTHandler_Mux (svr_rt s) (svr_workflowSvc s) x"];
        (subst inner_match [OF assms(2)])?; (simp add: tree del: matchPath.simps)?)
  show "req_Path r = path_of [''api'', ''v1'', ''workflows'', i, ''callback''] \<Longrightarrow>
      ServeHTTP (innerMux s x) r w = ServeHTTP (WorkflowCallbackHandler_Routes (svr_rt s) (svr_callbackH s) x) (r\<lparr>req_PathID := i\<rparr>) w"
    using assms(1) by (subst served [where ps = "[''workflows'', i, ''callback'']" and ss = "[Lit ''api'', Lit ''v1'', Lit ''workflows'', Wild ''id'', Lit ''callback'']"
          and ms = "[i]" and routes = "WorkflowCallbackHandler_Routes (svr_rt s) (svr_callbackH s) x"];
        (subst inner_match [OF assms(2)])?; (simp add: tree del: matchPath.simps)?)
  show "req_Path r = path_of [''api'', ''v1'', ''evidences''] \<Longrightarrow>
      ServeHTTP (innerMux s x) r w = ServeHTTP (EvidenceHandler_Routes (svr_rt s) (svr_evidenceH s) x) (r\<lparr>req_PathID := []\<rparr>) w"
    by (subst served [where ps = "[''evidences'']" and ss = "[Lit ''api'', Lit ''v1'', Lit ''evidences'']"
          and ms = "[]" and routes = "EvidenceHandler_Routes (svr_rt s) (svr_evidenceH s) x"];
        (subst inner_match [OF assms(2)])?; (simp add: tree del: matchPath.simps)?)
qed

lemma outer_serves:
  assumes "\<forall>p\<in>set ps. plain_piece p" and "req_Method r \<noteq> []" and "req_Path r = path_of (''api'' # ps)"
  shows "ServeHTTP (outerMux s x) r = rest_chain s x (r\<lparr>req_PathID := []\<rparr>)"
proof
  fix q
  let ?pat = "\<lparr>pat_method = [], pat_segs = [Rest]\<rparr>"
  have m: "mux_match (outerMux s x) (req_Method r) (''api'' # qs) = Some ((?pat, rest_chain s x), [])" for qs
    using assms(2)
    by (auto simp: mux_match_def candidates_def outerMux_def HandleFunc_def route_patterns split: list.split)
  have "ServeHTTP (outerMux s x) r q = rest_chain s x (r\<lparr>req_PathID := PathValue ''id'' ?pat []\<rparr>) q"
    by (rule ServeHTTP_plain [where ps = "''api'' # ps"]) (use assms m in \<open>auto simp: plain_piece_def\<close>)
  then show "ServeHTTP (outerMux s x) r q = rest_chain s x (r\<lparr>req_PathID := []\<rparr>) q" by simp
qed

section \<open>The endpoints\<close>

text \<open>
  Every pattern of the component muxes starts with /api/v1, so what is below decides. For each method
  the patterns of a component stand in a short list.
\<close>

definition under_v1 :: "(pat_seg list \<times> 'a) list \<Rightarrow> (pat_seg list \<times> 'a) list" where
  "under_v1 cs = map (\<lambda>(ss, a). (Lit ''api'' # Lit ''v1'' # ss, a)) cs"

lemma matchPath_under_v1: "matchPath (''api'' # ''v1'' # ps) (under_v1 cs) ms = matchPath ps cs ms"
proof -
  have a: "advance (Lit y) (map (\<lambda>(ss, a). (Lit y # f ss a, a)) ds) = map (\<lambda>(ss, a). (f ss a, a)) ds"
    "advance_wild (map (\<lambda>(ss, a). (Lit y # f ss a, a)) ds) = []"
    "find (\<lambda>c. fst c = [Rest]) (map (\<lambda>(ss, a). (Lit y # f ss a, a)) ds) = None"
    for y and f :: "pat_seg list \<Rightarrow> 'a \<Rightarrow> pat_seg list" and ds :: "(pat_seg list \<times> 'a) list"
    by (induction ds) auto
  have b: "map (\<lambda>(ss, a). (ss, a)) cs = cs" by (induction cs) auto
  show ?thesis
  proof (cases "cs = []")
    case False
    then show ?thesis using a(1) [of "''v1''" "\<lambda>ss a. ss" cs] a(2) [of "''v1''" "\<lambda>ss a. ss" cs] a(3) [of "''v1''" "\<lambda>ss a. ss" cs]
      by (simp add: a b under_v1_def)
  qed (simp add: under_v1_def)
qed

definition routes_below :: "string \<Rightarrow> 'w route list \<Rightarrow> (pat_seg list \<times> 'w route) list \<Rightarrow> bool" where
  "routes_below m routes cs \<longleftrightarrow>
     (\<forall>ps. matchPath (''api'' # ''v1'' # ps) (candidates m routes) [] = matchPath ps cs [])"

lemma routes_belowI: "candidates m routes = under_v1 cs \<Longrightarrow> routes_below m routes cs"
  by (simp add: routes_below_def matchPath_under_v1 del: matchPath.simps)

definition route_at :: "string \<Rightarrow> pat_seg list \<Rightarrow> 'w handler \<Rightarrow> 'w route" where
  "route_at m ss h = (\<lparr>pat_method = m, pat_segs = Lit ''api'' # Lit ''v1'' # ss\<rparr>, h)"

lemma route_at_inject [simp]: "route_at m ss h = route_at m' ss' h' \<longleftrightarrow> m = m' \<and> ss = ss' \<and> h = h'"
  by (auto simp: route_at_def)

definition route_for :: "string \<Rightarrow> pat_seg list \<Rightarrow> 'w handler \<Rightarrow> pat_seg list \<times> 'w route" where
  "route_for m ss h = (ss, route_at m ss h)"

text \<open>
  A mux serves an endpoint for a method: the match is exact, and the handler sees v as its id.
\<close>

definition serves_endpoint :: "'w route list \<Rightarrow> string \<Rightarrow> string list \<Rightarrow> string \<Rightarrow> 'w handler \<Rightarrow> bool" where
  "serves_endpoint routes m ps v h \<longleftrightarrow> (\<exists>pat ms. mux_match routes m (''api'' # ''v1'' # ps) = Some ((pat, h), ms) \<and>
     last (pat_segs pat) \<noteq> Rest \<and> PathValue ''id'' pat ms = v)"

lemma serves_endpoint_ServeHTTP:
  assumes "serves_endpoint routes (req_Method r) ps v h" and "\<forall>p\<in>set ps. plain_piece p"
    and "req_Path r = path_of (''api'' # ''v1'' # ps)"
  shows "ServeHTTP routes r w = h (r\<lparr>req_PathID := v\<rparr>) w"
proof -
  from assms(1) obtain pat ms where m: "mux_match routes (req_Method r) (''api'' # ''v1'' # ps) = Some ((pat, h), ms)"
    "last (pat_segs pat) \<noteq> Rest" "PathValue ''id'' pat ms = v"
    by (auto simp: serves_endpoint_def)
  have "ServeHTTP routes r w = h (r\<lparr>req_PathID := PathValue ''id'' pat ms\<rparr>) w"
    by (rule ServeHTTP_plain [where ps = "''api'' # ''v1'' # ps"]) (use assms m in \<open>auto simp: plain_piece_def\<close>)
  then show ?thesis by (simp add: m(3))
qed

lemma serves_below:
  assumes "routes_below m routes cs"
    and "\<exists>ss ms. matchPath ps cs [] = Some (route_at m ss h, ms) \<and> last (Lit ''v1'' # ss) \<noteq> Rest \<and>
      PathValue ''id'' \<lparr>pat_method = m, pat_segs = Lit ''api'' # Lit ''v1'' # ss\<rparr> ms = v"
  shows "serves_endpoint routes m ps v h"
proof -
  obtain ss ms where m: "matchPath ps cs [] = Some (route_at m ss h, ms)" "last (Lit ''v1'' # ss) \<noteq> Rest"
    "PathValue ''id'' \<lparr>pat_method = m, pat_segs = Lit ''api'' # Lit ''v1'' # ss\<rparr> ms = v"
    using assms(2) by blast
  have "mux_match routes m (''api'' # ''v1'' # ps) = Some ((\<lparr>pat_method = m, pat_segs = Lit ''api'' # Lit ''v1'' # ss\<rparr>, h), ms)"
    using assms(1) m(1) by (simp add: mux_match_def routes_below_def route_at_def del: matchPath.simps)
  then show ?thesis using m(2,3) by (auto simp: serves_endpoint_def)
qed

lemmas serves_simps = route_for_def PathValue_def

lemma score_below:
  "routes_below ''GET'' (ScoreHandler_Routes rt h)
     [route_for ''GET'' [Lit ''scores'', Lit ''rollup''] (handleRollup h),
      route_for ''GET'' [Lit ''scores'', Lit ''grade''] (handleGrade h),
      route_for ''GET'' [Lit ''scores'', Wild ''id''] (handleGetScore rt h),
      route_for ''GET'' [Lit ''scores''] (handleListScores rt h)]"
  "routes_below ''POST'' (ScoreHandler_Routes rt h)
     [route_for ''POST'' [Lit ''scores'', Wild ''id'', Lit ''supersede''] (handleSupersedeScore rt h),
      route_for ''POST'' [Lit ''scores''] (handleCreateScore rt h)]"
  "routes_below ''PUT'' (ScoreHandler_Routes rt h)
     [route_for ''PUT'' [Lit ''scores'', Wild ''id''] (handleUpdateScore rt h)]"
  by (simp_all add: routes_belowI candidates_def under_v1_def route_for_def route_at_def route_tables)

lemma score_endpoints:
  assumes "i \<noteq> []" and "i \<noteq> ''rollup''" and "i \<noteq> ''grade''"
  shows "serves_endpoint (ScoreHandler_Routes rt h) ''GET'' [''scores'', ''rollup''] [] (handleRollup h)"
    "serves_endpoint (ScoreHandler_Routes rt h) ''GET'' [''scores'', ''grade''] [] (handleGrade h)"
    "serves_endpoint (ScoreHandler_Routes rt h) ''POST'' [''scores'', i, ''supersede''] i (handleSupersedeScore rt h)"
    "serves_endpoint (ScoreHandler_Routes rt h) ''GET'' [''scores'', i] i (handleGetScore rt h)"
    "serves_endpoint (ScoreHandler_Routes rt h) ''PUT'' [''scores'', i] i (handleUpdateScore rt h)"
    "serves_endpoint (ScoreHandler_Routes rt h) ''GET'' [''scores''] [] (handleListScores rt h)"
    "serves_endpoint (ScoreHandler_Routes rt h) ''POST'' [''scores''] [] (handleCreateScore rt h)"
  by (simp_all add: score_below [THEN serves_below] serves_simps assms assms [symmetric])

lemma report_below:
  "routes_below ''GET'' (ReportHandler_Routes h)
     [route_for ''GET'' [Lit ''reports'', Lit ''category'', Wild ''id''] (handleCategoryReport h)]"
  by (simp_all add: routes_belowI candidates_def under_v1_def route_for_def route_at_def route_tables)

lemma report_endpoints:
  assumes "i \<noteq> []"
  shows "serves_endpoint (ReportHandler_Routes h) ''GET'' [''reports'', ''category'', i] i (handleCategoryReport h)"
  by (simp_all add: report_below [THEN serves_below] serves_simps assms assms [symmetric])

lemma review_below:
  "routes_below ''POST'' (ReviewHandler_Routes rt h)
     [route_for ''POST'' [Lit ''reviews'', Wild ''id'', Lit ''assign-reviewer''] (handleAssignReviewer rt h),
      route_for ''POST'' [Lit ''reviews'', Wild ''id'', Lit ''approve''] (handleApprove rt h),
      route_for ''POST'' [Lit ''reviews'', Wild ''id'', Lit ''reject''] (handleReject rt h),
      route_for ''POST'' [Lit ''reviews''] (handleCreateReview rt h)]"
  "routes_below ''GET'' (ReviewHandler_Routes rt h)
     [route_for ''GET'' [Lit ''reviews'', Wild ''id''] (handleGetReview rt h),
      route_for ''GET'' [Lit ''reviews''] (handleListReviews rt h)]"
  by (simp_all add: routes_belowI candidates_def under_v1_def route_for_def route_at_def route_tables)

lemma review_endpoints:
  assumes "i \<noteq> []"
  shows "serves_endpoint (ReviewHandler_Routes rt h) ''POST'' [''reviews'', i, ''assign-reviewer''] i (handleAssignReviewer rt h)"
    "serves_endpoint (ReviewHandler_Routes rt h) ''POST'' [''reviews'', i, ''approve''] i (handleApprove rt h)"
    "serves_endpoint (ReviewHandler_Routes rt h) ''POST'' [''reviews'', i, ''reject''] i (handleReject rt h)"
    "serves_endpoint (ReviewHandler_Routes rt h) ''GET'' [''reviews'', i] i (handleGetReview rt h)"
    "serves_endpoint (ReviewHandler_Routes rt h) ''GET'' [''reviews''] [] (handleListReviews rt h)"
    "serves_endpoint (ReviewHandler_Routes rt h) ''POST'' [''reviews''] [] (handleCreateReview rt h)"
  by (simp_all add: review_below [THEN serves_below] serves_simps assms assms [symmetric])

lemma rubric_below:
  "routes_below ''POST'' (RubricHandler_Routes rt h)
     [route_for ''POST'' [Lit ''rubrics'', Wild ''id'', Lit ''clone-new-version''] (handleCloneNewVersion rt h),
      route_for ''POST'' [Lit ''rubrics'', Wild ''id'', Lit ''apply''] (handleApplyRubric rt h),
      route_for ''POST'' [Lit ''rubrics'', Wild ''id'', Lit ''criteria''] (handleAddCriterion rt h),
      route_for ''POST'' [Lit ''rubrics'', Wild ''id'', Lit ''bands''] (handleAddBand rt h),
      route_for ''POST'' [Lit ''rubrics'', Wild ''id'', Lit ''archive''] (handleArchiveRubric rt h),
      route_for ''POST'' [Lit ''rubrics''] (handleCreateRubric rt h)]"
  "routes_below ''PUT'' (RubricHandler_Routes rt h)
     [route_for ''PUT'' [Lit ''rubrics'', Wild ''id''] (handleUpdateRubric rt h)]"
  "routes_below ''GET'' (RubricHandler_Routes rt h)
     [route_for ''GET'' [Lit ''rubrics'', Wild ''id''] (handleGetRubric rt h),
      route_for ''GET'' [Lit ''rubrics''] (handleListRubrics rt h)]"
  by (simp_all add: routes_belowI candidates_def under_v1_def route_for_def route_at_def route_tables)

lemma rubric_endpoints:
  assumes "i \<noteq> []"
  shows "serves_endpoint (RubricHandler_Routes rt h) ''POST'' [''rubrics'', i, ''clone-new-version''] i (handleCloneNewVersion rt h)"
    "serves_endpoint (RubricHandler_Routes rt h) ''POST'' [''rubrics'', i, ''apply''] i (handleApplyRubric rt h)"
    "serves_endpoint (RubricHandler_Routes rt h) ''POST'' [''rubrics'', i, ''criteria''] i (handleAddCriterion rt h)"
    "serves_endpoint (RubricHandler_Routes rt h) ''POST'' [''rubrics'', i, ''bands''] i (handleAddBand rt h)"
    "serves_endpoint (RubricHandler_Routes rt h) ''POST'' [''rubrics'', i, ''archive''] i (handleArchiveRubric rt h)"
    "serves_endpoint (RubricHandler_Routes rt h) ''PUT'' [''rubrics'', i] i (handleUpdateRubric rt h)"
    "serves_endpoint (RubricHandler_Routes rt h) ''GET'' [''rubrics'', i] i (handleGetRubric rt h)"
    "serves_endpoint (RubricHandler_Routes rt h) ''GET'' [''rubrics''] [] (handleListRubrics rt h)"
    "serves_endpoint (RubricHandler_Routes rt h) ''POST'' [''rubrics''] [] (handleCreateRubric rt h)"
  by (simp_all add: rubric_below [THEN serves_below] serves_simps assms assms [symmetric])

lemma audit_below:
  "routes_below ''GET'' (AuditQueryHandler_Routes rt h)
     [route_for ''GET'' [Lit ''audit-logs'', Wild ''id''] (handleGetAuditLog rt h),
      route_for ''GET'' [Lit ''audit-logs''] (handleListAuditLogs rt h)]"
  by (simp_all add: routes_belowI candidates_def under_v1_def route_for_def route_at_def route_tables)

lemma audit_endpoints:
  assumes "i \<noteq> []"
  shows "serves_endpoint (AuditQueryHandler_Routes rt h) ''GET'' [''audit-logs'', i] i (handleGetAuditLog rt h)"
    "serves_endpoint (AuditQueryHandler_Routes rt h) ''GET'' [''audit-logs''] [] (handleListAuditLogs rt h)"
  by (simp_all add: audit_below [THEN serves_below] serves_simps assms assms [symmetric])

lemma item_below:
  "routes_below ''GET'' (EvalItemHandler_Routes rt h)
     [route_for ''GET'' [Lit ''eval-items'', Wild ''id'', Lit ''children''] (handleGetChildren h),
      route_for ''GET'' [Lit ''eval-items'', Wild ''id''] (handleGetByID_EvalItem h)]"
  "routes_below ''PUT'' (EvalItemHandler_Routes rt h)
     [route_for ''PUT'' [Lit ''eval-items'', Wild ''id''] (handleUpdate_EvalItem rt h)]"
  "routes_below ''POST'' (EvalItemHandler_Routes rt h)
     [route_for ''POST'' [Lit ''eval-items''] (handleCreate_EvalItem rt h)]"
  by (simp_all add: routes_belowI candidates_def under_v1_def route_for_def route_at_def route_tables)

lemma item_endpoints:
  assumes "i \<noteq> []"
  shows "serves_endpoint (EvalItemHandler_Routes rt h) ''GET'' [''eval-items'', i, ''children''] i (handleGetChildren h)"
    "serves_endpoint (EvalItemHandler_Routes rt h) ''GET'' [''eval-items'', i] i (handleGetByID_EvalItem h)"
    "serves_endpoint (EvalItemHandler_Routes rt h) ''PUT'' [''eval-items'', i] i (handleUpdate_EvalItem rt h)"
    "serves_endpoint (EvalItemHandler_Routes rt h) ''POST'' [''eval-items''] [] (handleCreate_EvalItem rt h)"
  by (simp_all add: item_below [THEN serves_below] serves_simps assms assms [symmetric])

lemma workflow_below:
  "routes_below ''POST'' (RESTHandler_Mux rt sv x)
     [route_for ''POST'' [Lit ''workflows''] (\<lambda>r. handleCreateWorkflow rt sv (service_view x r))]"
  "routes_below ''GET'' (RESTHandler_Mux rt sv x)
     [route_for ''GET'' [Lit ''workflows''] (\<lambda>r. handleListWorkflows rt sv (service_view x r)),
      route_for ''GET'' [Lit ''workflows'', Wild ''id''] (\<lambda>r. handleGetWorkflow rt sv (service_view x r))]"
  by (simp add: routes_belowI candidates_def under_v1_def route_for_def route_at_def route_tables,
    simp add: routes_below_def candidates_def route_for_def route_at_def route_tables)

lemma workflow_endpoints:
  assumes "i \<noteq> []"
  shows "serves_endpoint (RESTHandler_Mux rt sv x) ''POST'' [''workflows''] [] (\<lambda>r. handleCreateWorkflow rt sv (service_view x r))"
    "serves_endpoint (RESTHandler_Mux rt sv x) ''GET'' [''workflows''] [] (\<lambda>r. handleListWorkflows rt sv (service_view x r))"
    "serves_endpoint (RESTHandler_Mux rt sv x) ''GET'' [''workflows'', i] i (\<lambda>r. handleGetWorkflow rt sv (service_view x r))"
  by (simp_all add: workflow_below [THEN serves_below] serves_simps assms assms [symmetric])

lemma callback_below:
  "routes_below ''POST'' (WorkflowCallbackHandler_Routes rt h x)
     [route_for ''POST'' [Lit ''workflows'', Wild ''id'', Lit ''callback''] (\<lambda>r. handleCallback rt h (callback_view x r))]"
  by (simp_all add: routes_belowI candidates_def under_v1_def route_for_def route_at_def route_tables)

lemma callback_endpoints:
  assumes "i \<noteq> []"
  shows "serves_endpoint (WorkflowCallbackHandler_Routes rt h x) ''POST'' [''workflows'', i, ''callback''] i (\<lambda>r. handleCallback rt h (callback_view x r))"
  by (simp_all add: callback_below [THEN serves_below] serves_simps assms assms [symmetric])

lemma evidence_below:
  "routes_below ''POST'' (EvidenceHandler_Routes rt h x)
     [route_for ''POST'' [Lit ''evidences''] (\<lambda>r. handleCreateEvidence rt h (evidence_view x r))]"
  by (simp_all add: routes_belowI candidates_def under_v1_def route_for_def route_at_def route_tables)

lemma evidence_endpoints:
  assumes "i \<noteq> []"
  shows "serves_endpoint (EvidenceHandler_Routes rt h x) ''POST'' [''evidences''] [] (\<lambda>r. handleCreateEvidence rt h (evidence_view x r))"
  by (simp_all add: evidence_below [THEN serves_below] serves_simps assms assms [symmetric])


text \<open>A mux without HEAD patterns serves HEAD as it serves GET.\<close>

lemma serves_head:
  assumes "candidates ''HEAD'' routes = []" and "serves_endpoint routes ''GET'' ps v h"
  shows "serves_endpoint routes ''HEAD'' ps v h"
  using assms by (simp add: serves_endpoint_def mux_match_def del: matchPath.simps)

lemma no_head_routes:
  "candidates ''HEAD'' (ScoreHandler_Routes rt1 h1) = []"
  "candidates ''HEAD'' (ReportHandler_Routes h2) = []"
  "candidates ''HEAD'' (ReviewHandler_Routes rt3 h3) = []"
  "candidates ''HEAD'' (RubricHandler_Routes rt4 h4) = []"
  "candidates ''HEAD'' (AuditQueryHandler_Routes rt5 h5) = []"
  "candidates ''HEAD'' (EvalItemHandler_Routes rt6 h6) = []"
  "candidates ''HEAD'' (RESTHandler_Mux rt7 sv x) = []"
  "candidates ''HEAD'' (WorkflowCallbackHandler_Routes rt8 h8 x) = []"
  "candidates ''HEAD'' (EvidenceHandler_Routes rt9 h9 x) = []"
  by (simp_all add: candidates_def route_tables)

section \<open>The endpoints of the server\<close>

text \<open>
  What a client may call: the method, the pieces of the path below /api/v1, the id that the handler
  reads, and the handler.
\<close>

type_synonym endpoint = "string \<times> string list \<times> string \<times> pg_world handler"

definition score_table :: "'c Server \<Rightarrow> wire_input \<Rightarrow> string \<Rightarrow> endpoint list" where
  "score_table s x i =
     [(''GET'', [''scores'', ''rollup''], [], handleRollup (svr_scoreH s)),
      (''GET'', [''scores'', ''grade''], [], handleGrade (svr_scoreH s)),
      (''POST'', [''scores'', i, ''supersede''], i, handleSupersedeScore (svr_rt s) (svr_scoreH s)),
      (''GET'', [''scores'', i], i, handleGetScore (svr_rt s) (svr_scoreH s)),
      (''PUT'', [''scores'', i], i, handleUpdateScore (svr_rt s) (svr_scoreH s)),
      (''GET'', [''scores''], [], handleListScores (svr_rt s) (svr_scoreH s)),
      (''POST'', [''scores''], [], handleCreateScore (svr_rt s) (svr_scoreH s))]"

definition report_table :: "'c Server \<Rightarrow> wire_input \<Rightarrow> string \<Rightarrow> endpoint list" where
  "report_table s x i =
     [(''GET'', [''reports'', ''category'', i], i, handleCategoryReport (svr_reportH s))]"

definition review_table :: "'c Server \<Rightarrow> wire_input \<Rightarrow> string \<Rightarrow> endpoint list" where
  "review_table s x i =
     [(''POST'', [''reviews'', i, ''assign-reviewer''], i, handleAssignReviewer (svr_rt s) (svr_reviewH s)),
      (''POST'', [''reviews'', i, ''approve''], i, handleApprove (svr_rt s) (svr_reviewH s)),
      (''POST'', [''reviews'', i, ''reject''], i, handleReject (svr_rt s) (svr_reviewH s)),
      (''GET'', [''reviews'', i], i, handleGetReview (svr_rt s) (svr_reviewH s)),
      (''GET'', [''reviews''], [], handleListReviews (svr_rt s) (svr_reviewH s)),
      (''POST'', [''reviews''], [], handleCreateReview (svr_rt s) (svr_reviewH s))]"

definition rubric_table :: "'c Server \<Rightarrow> wire_input \<Rightarrow> string \<Rightarrow> endpoint list" where
  "rubric_table s x i =
     [(''POST'', [''rubrics'', i, ''clone-new-version''], i, handleCloneNewVersion (svr_rt s) (svr_rubricH s)),
      (''POST'', [''rubrics'', i, ''apply''], i, handleApplyRubric (svr_rt s) (svr_rubricH s)),
      (''POST'', [''rubrics'', i, ''criteria''], i, handleAddCriterion (svr_rt s) (svr_rubricH s)),
      (''POST'', [''rubrics'', i, ''bands''], i, handleAddBand (svr_rt s) (svr_rubricH s)),
      (''POST'', [''rubrics'', i, ''archive''], i, handleArchiveRubric (svr_rt s) (svr_rubricH s)),
      (''PUT'', [''rubrics'', i], i, handleUpdateRubric (svr_rt s) (svr_rubricH s)),
      (''GET'', [''rubrics'', i], i, handleGetRubric (svr_rt s) (svr_rubricH s)),
      (''GET'', [''rubrics''], [], handleListRubrics (svr_rt s) (svr_rubricH s)),
      (''POST'', [''rubrics''], [], handleCreateRubric (svr_rt s) (svr_rubricH s))]"

definition audit_table :: "'c Server \<Rightarrow> wire_input \<Rightarrow> string \<Rightarrow> endpoint list" where
  "audit_table s x i =
     [(''GET'', [''audit-logs'', i], i, handleGetAuditLog (svr_rt s) (svr_auditQueryH s)),
      (''GET'', [''audit-logs''], [], handleListAuditLogs (svr_rt s) (svr_auditQueryH s))]"

definition item_table :: "'c Server \<Rightarrow> wire_input \<Rightarrow> string \<Rightarrow> endpoint list" where
  "item_table s x i =
     [(''GET'', [''eval-items'', i, ''children''], i, handleGetChildren (svr_evalItemH s)),
      (''GET'', [''eval-items'', i], i, handleGetByID_EvalItem (svr_evalItemH s)),
      (''PUT'', [''eval-items'', i], i, handleUpdate_EvalItem (svr_rt s) (svr_evalItemH s)),
      (''POST'', [''eval-items''], [], handleCreate_EvalItem (svr_rt s) (svr_evalItemH s))]"

definition workflow_table :: "'c Server \<Rightarrow> wire_input \<Rightarrow> string \<Rightarrow> endpoint list" where
  "workflow_table s x i =
     [(''POST'', [''workflows''], [], \<lambda>r. handleCreateWorkflow (svr_rt s) (svr_workflowSvc s) (service_view x r)),
      (''GET'', [''workflows''], [], \<lambda>r. handleListWorkflows (svr_rt s) (svr_workflowSvc s) (service_view x r)),
      (''GET'', [''workflows'', i], i, \<lambda>r. handleGetWorkflow (svr_rt s) (svr_workflowSvc s) (service_view x r))]"

definition callback_table :: "'c Server \<Rightarrow> wire_input \<Rightarrow> string \<Rightarrow> endpoint list" where
  "callback_table s x i =
     [(''POST'', [''workflows'', i, ''callback''], i, \<lambda>r. handleCallback (svr_rt s) (svr_callbackH s) (callback_view x r))]"

definition evidence_table :: "'c Server \<Rightarrow> wire_input \<Rightarrow> string \<Rightarrow> endpoint list" where
  "evidence_table s x i =
     [(''POST'', [''evidences''], [], \<lambda>r. handleCreateEvidence (svr_rt s) (svr_evidenceH s) (evidence_view x r))]"

definition server_endpoints :: "'c Server \<Rightarrow> wire_input \<Rightarrow> string \<Rightarrow> endpoint list" where
  "server_endpoints s x i =
     score_table s x i @ report_table s x i @ review_table s x i @ rubric_table s x i @ audit_table s x i @ item_table s x i @ workflow_table s x i @ callback_table s x i @ evidence_table s x i"

lemma tables_served:
  "(m, ps, v, h) \<in> set (score_table s x i) \<Longrightarrow> i \<noteq> [] \<Longrightarrow> i \<noteq> ''rollup'' \<Longrightarrow> i \<noteq> ''grade'' \<Longrightarrow>
    (\<exists>qs. ps = ''scores'' # qs) \<and> serves_endpoint (ScoreHandler_Routes (svr_rt s) (svr_scoreH s)) m ps v h"
  "(m, ps, v, h) \<in> set (report_table s x i) \<Longrightarrow> i \<noteq> [] \<Longrightarrow>
    (\<exists>qs. ps = ''reports'' # qs) \<and> serves_endpoint (ReportHandler_Routes (svr_reportH s)) m ps v h"
  "(m, ps, v, h) \<in> set (review_table s x i) \<Longrightarrow> i \<noteq> [] \<Longrightarrow>
    (\<exists>qs. ps = ''reviews'' # qs) \<and> serves_endpoint (ReviewHandler_Routes (svr_rt s) (svr_reviewH s)) m ps v h"
  "(m, ps, v, h) \<in> set (rubric_table s x i) \<Longrightarrow> i \<noteq> [] \<Longrightarrow>
    (\<exists>qs. ps = ''rubrics'' # qs) \<and> serves_endpoint (RubricHandler_Routes (svr_rt s) (svr_rubricH s)) m ps v h"
  "(m, ps, v, h) \<in> set (audit_table s x i) \<Longrightarrow> i \<noteq> [] \<Longrightarrow>
    (\<exists>qs. ps = ''audit-logs'' # qs) \<and> serves_endpoint (AuditQueryHandler_Routes (svr_rt s) (svr_auditQueryH s)) m ps v h"
  "(m, ps, v, h) \<in> set (item_table s x i) \<Longrightarrow> i \<noteq> [] \<Longrightarrow>
    (\<exists>qs. ps = ''eval-items'' # qs) \<and> serves_endpoint (EvalItemHandler_Routes (svr_rt s) (svr_evalItemH s)) m ps v h"
  "(m, ps, v, h) \<in> set (workflow_table s x i) \<Longrightarrow> i \<noteq> [] \<Longrightarrow>
    ps \<in> {[''workflows''], [''workflows'', i]} \<and> serves_endpoint (RESTHandler_Mux (svr_rt s) (svr_workflowSvc s) x) m ps v h"
  "(m, ps, v, h) \<in> set (callback_table s x i) \<Longrightarrow> i \<noteq> [] \<Longrightarrow>
    ps = [''workflows'', i, ''callback''] \<and> serves_endpoint (WorkflowCallbackHandler_Routes (svr_rt s) (svr_callbackH s) x) m ps v h"
  "(m, ps, v, h) \<in> set (evidence_table s x i) \<Longrightarrow> i \<noteq> [] \<Longrightarrow>
    ps = [''evidences''] \<and> serves_endpoint (EvidenceHandler_Routes (svr_rt s) (svr_evidenceH s) x) m ps v h"
  by (auto simp: score_table_def score_endpoints report_table_def report_endpoints review_table_def
      review_endpoints rubric_table_def rubric_endpoints audit_table_def audit_endpoints item_table_def
      item_endpoints workflow_table_def workflow_endpoints callback_table_def callback_endpoints
      evidence_table_def evidence_endpoints)

lemma endpoint_cases:
  assumes "(m, ps, v, h) \<in> set (server_endpoints s x i)" and "i \<noteq> []" and "i \<noteq> ''rollup''" and "i \<noteq> ''grade''"
  obtains (score) qs where "ps = ''scores'' # qs" "serves_endpoint (ScoreHandler_Routes (svr_rt s) (svr_scoreH s)) m ps v h"
  | (report) qs where "ps = ''reports'' # qs" "serves_endpoint (ReportHandler_Routes (svr_reportH s)) m ps v h"
  | (review) qs where "ps = ''reviews'' # qs" "serves_endpoint (ReviewHandler_Routes (svr_rt s) (svr_reviewH s)) m ps v h"
  | (rubric) qs where "ps = ''rubrics'' # qs" "serves_endpoint (RubricHandler_Routes (svr_rt s) (svr_rubricH s)) m ps v h"
  | (audit) qs where "ps = ''audit-logs'' # qs" "serves_endpoint (AuditQueryHandler_Routes (svr_rt s) (svr_auditQueryH s)) m ps v h"
  | (item) qs where "ps = ''eval-items'' # qs" "serves_endpoint (EvalItemHandler_Routes (svr_rt s) (svr_evalItemH s)) m ps v h"
  | (workflow) "ps \<in> {[''workflows''], [''workflows'', i]}" "serves_endpoint (RESTHandler_Mux (svr_rt s) (svr_workflowSvc s) x) m ps v h"
  | (callback) "ps = [''workflows'', i, ''callback'']" "serves_endpoint (WorkflowCallbackHandler_Routes (svr_rt s) (svr_callbackH s) x) m ps v h"
  | (evidence) "ps = [''evidences'']" "serves_endpoint (EvidenceHandler_Routes (svr_rt s) (svr_evidenceH s) x) m ps v h"
proof -
  from assms(1) consider "(m, ps, v, h) \<in> set (score_table s x i)"
    | "(m, ps, v, h) \<in> set (report_table s x i)"
    | "(m, ps, v, h) \<in> set (review_table s x i)"
    | "(m, ps, v, h) \<in> set (rubric_table s x i)"
    | "(m, ps, v, h) \<in> set (audit_table s x i)"
    | "(m, ps, v, h) \<in> set (item_table s x i)"
    | "(m, ps, v, h) \<in> set (workflow_table s x i)"
    | "(m, ps, v, h) \<in> set (callback_table s x i)"
    | "(m, ps, v, h) \<in> set (evidence_table s x i)"
    unfolding server_endpoints_def set_append Un_iff by blast
  then show ?thesis
  proof cases
    case 1
    show ?thesis using tables_served(1) [OF 1 assms(2-4)] score by blast
  next
    case 2
    show ?thesis using tables_served(2) [OF 2 assms(2)] report by blast
  next
    case 3
    show ?thesis using tables_served(3) [OF 3 assms(2)] review by blast
  next
    case 4
    show ?thesis using tables_served(4) [OF 4 assms(2)] rubric by blast
  next
    case 5
    show ?thesis using tables_served(5) [OF 5 assms(2)] audit by blast
  next
    case 6
    show ?thesis using tables_served(6) [OF 6 assms(2)] item by blast
  next
    case 7
    show ?thesis using tables_served(7) [OF 7 assms(2)] workflow by blast
  next
    case 8
    show ?thesis using tables_served(8) [OF 8 assms(2)] callback by blast
  next
    case 9
    show ?thesis using tables_served(9) [OF 9 assms(2)] evidence by blast
  qed
qed


text \<open>The paths of the endpoints.\<close>

definition endpoint_path :: "string \<Rightarrow> string \<Rightarrow> string list \<Rightarrow> bool" where
  "endpoint_path i m ps \<longleftrightarrow>
     ps \<noteq> [] \<and> list_all (\<lambda>p. p = i \<or> plain_piece p) ps \<and> m \<in> {''GET'', ''POST'', ''PUT''} \<and>
     (hd ps \<in> {''scores'', ''reports'', ''reviews'', ''rubrics'', ''audit-logs'', ''eval-items'', ''evidences''} \<or>
      ps = [''workflows''] \<and> m \<in> {''GET'', ''POST''} \<or> ps = [''workflows'', i] \<and> m = ''GET'' \<or>
      ps = [''workflows'', i, ''callback''] \<and> m = ''POST'')"

lemma endpoint_paths: "list_all (\<lambda>(m, ps, v, h). endpoint_path i m ps) (server_endpoints s x i)"
  by (simp add: endpoint_path_def plain_piece_def server_endpoints_def score_table_def report_table_def review_table_def rubric_table_def audit_table_def
      item_table_def workflow_table_def callback_table_def evidence_table_def)

lemma endpoint_path:
  assumes "(m, ps, v, h) \<in> set (server_endpoints s x i)"
  shows "endpoint_path i m ps"
  using endpoint_paths [of i s x] assms by (auto simp: list_all_iff)

lemma endpoint_plain:
  assumes "(m, ps, v, h) \<in> set (server_endpoints s x i)" and "plain_piece i"
  shows "m \<in> {''GET'', ''POST'', ''PUT''}" "\<forall>p\<in>set ps. plain_piece p"
  using endpoint_path [OF assms(1)] assms(2) by (auto simp: endpoint_path_def list_all_iff)

lemma inner_endpoint:
  assumes "(m, ps, v, h) \<in> set (server_endpoints s x i)" and "plain_piece i" and "i \<noteq> ''rollup''" and "i \<noteq> ''grade''"
    and path: "req_Path r = path_of (''api'' # ''v1'' # ps)" and m: "req_Method r = m \<or> m = ''GET'' \<and> req_Method r = ''HEAD''"
  shows "ServeHTTP (innerMux s x) r w = h (r\<lparr>req_PathID := v\<rparr>) w"
proof -
  note plain = endpoint_plain [OF assms(1,2)]
  have i: "i \<noteq> []" using assms(2) by (simp add: plain_piece_def)
  have n: "req_Method r \<noteq> []" using plain(1) m by auto
  have served: "ServeHTTP routes (r\<lparr>req_PathID := u\<rparr>) w = h (r\<lparr>req_PathID := v\<rparr>) w"
    if "serves_endpoint routes m ps v h" "candidates ''HEAD'' routes = []" for routes u
    using serves_endpoint_ServeHTTP [of routes "r\<lparr>req_PathID := u\<rparr>" ps v h w] that m path plain(2) serves_head [OF that(2)] by auto
  have below: "\<forall>p\<in>set qs. plain_piece p" if "ps = q # qs" for q qs using plain(2) that by simp
  show ?thesis
  proof (rule endpoint_cases [OF assms(1) i assms(3,4)])
    fix qs assume q: "ps = ''scores'' # qs" "serves_endpoint (ScoreHandler_Routes (svr_rt s) (svr_scoreH s)) m ps v h"
    show ?thesis using inner_serves(1) [OF below [OF q(1)] n, of s x w] path served [OF q(2) no_head_routes(1)] q(1) by simp
  next
    fix qs assume q: "ps = ''reports'' # qs" "serves_endpoint (ReportHandler_Routes (svr_reportH s)) m ps v h"
    show ?thesis using inner_serves(2) [OF below [OF q(1)] n, of s x w] path served [OF q(2) no_head_routes(2)] q(1) by simp
  next
    fix qs assume q: "ps = ''reviews'' # qs" "serves_endpoint (ReviewHandler_Routes (svr_rt s) (svr_reviewH s)) m ps v h"
    show ?thesis using inner_serves(3) [OF below [OF q(1)] n, of s x w] path served [OF q(2) no_head_routes(3)] q(1) by simp
  next
    fix qs assume q: "ps = ''rubrics'' # qs" "serves_endpoint (RubricHandler_Routes (svr_rt s) (svr_rubricH s)) m ps v h"
    show ?thesis using inner_serves(4) [OF below [OF q(1)] n, of s x w] path served [OF q(2) no_head_routes(4)] q(1) by simp
  next
    fix qs assume q: "ps = ''audit-logs'' # qs" "serves_endpoint (AuditQueryHandler_Routes (svr_rt s) (svr_auditQueryH s)) m ps v h"
    show ?thesis using inner_serves(5) [OF below [OF q(1)] n, of s x w] path served [OF q(2) no_head_routes(5)] q(1) by simp
  next
    fix qs assume q: "ps = ''eval-items'' # qs" "serves_endpoint (EvalItemHandler_Routes (svr_rt s) (svr_evalItemH s)) m ps v h"
    show ?thesis using inner_serves(6) [OF below [OF q(1)] n, of s x w] path served [OF q(2) no_head_routes(6)] q(1) by simp
  next
    assume q: "ps \<in> {[''workflows''], [''workflows'', i]}"
      "serves_endpoint (RESTHandler_Mux (svr_rt s) (svr_workflowSvc s) x) m ps v h"
    show ?thesis using inner_serves_workflows(1,2) [OF assms(2) n, of s x w] path served [OF q(2) no_head_routes(7)] q(1) by auto
  next
    assume q: "ps = [''workflows'', i, ''callback'']"
      "serves_endpoint (WorkflowCallbackHandler_Routes (svr_rt s) (svr_callbackH s) x) m ps v h"
    show ?thesis using inner_serves_workflows(3) [OF assms(2) n, of s x w] path served [OF q(2) no_head_routes(8)] q(1) by simp
  next
    assume q: "ps = [''evidences'']" "serves_endpoint (EvidenceHandler_Routes (svr_rt s) (svr_evidenceH s) x) m ps v h"
    show ?thesis using inner_serves_workflows(4) [OF assms(2) n, of s x w] path served [OF q(2) no_head_routes(9)] q(1) by simp
  qed
qed

text \<open>The permission that the mapping asks for an endpoint: only two workflow endpoints have one.\<close>

definition endpoint_permission :: "string \<Rightarrow> string list \<Rightarrow> string option" where
  "endpoint_permission m ps =
     (if m = ''POST'' \<and> ps = [''workflows''] then Some ''write:workflow''
      else if m = ''GET'' \<and> hd ps = ''workflows'' then Some ''read:workflow'' else None)"

lemma endpoint_lookup:
  assumes "(m, ps, v, h) \<in> set (server_endpoints s x i)"
  shows "LookupRESTPermission m (path_of (''api'' # ''v1'' # ps)) =
    (case endpoint_permission m ps of None \<Rightarrow> ([], False, False) | Some p \<Rightarrow> (p, False, True))"
proof -
  note shape = endpoint_path [OF assms, unfolded endpoint_path_def]
  obtain q qs where ps: "ps = q # qs" using shape by (cases ps) auto
  show ?thesis
  proof (cases "q = ''workflows''")
    case False
    then have "''/api/v1/'' @ q \<in> set innerMux_subtrees" "m \<noteq> ''HEAD''" "m \<noteq> ''OPTIONS''" "endpoint_permission m ps = None"
      using shape ps by (auto simp: innerMux_subtrees_def endpoint_permission_def)
    then show ?thesis using subtree_unmapped [of "''/api/v1/'' @ q" m "path_of qs"] ps by simp
  next
    case True
    then consider "ps = [''workflows'']" "m = ''GET''" | "ps = [''workflows'']" "m = ''POST''" | "ps = [''workflows'', i]" "m = ''GET''"
      | "ps = [''workflows'', i, ''callback'']" "m = ''POST''" using shape ps by auto
    then show ?thesis
    proof cases
      case 4
      then show ?thesis using callback_unmapped [of i] by (simp add: endpoint_permission_def callback_path_def)
    qed (simp_all add: endpoint_permission_def LookupRESTPermission_def restPermissionTable_def entry_matches_def
        rest_exact_def rest_prefix_def HasPrefix_def)
  qed
qed


text \<open>
  C11: What every endpoint answers, from the muxes to the handler. A request with a bearer token that the
  verifier accepts is sent to one of the endpoints (with HEAD for a GET one, too). With authentication
  off the handler of the endpoint answers it and reads the id of the path. With authentication on, a HEAD
  request reaches the handler of the GET endpoint whatever the roles of the token are; another request
  reaches its handler only at the workflow endpoints that have a permission, when a role of the token
  has it, and is refused with 403 without it; at every other endpoint it is refused with 503 for every
  token.
\<close>

theorem endpoint_access:
  assumes "s = New_Server l cfg (Some verify) mt mh probes version"
    and "(m, ps, v, h) \<in> set (server_endpoints s x i)" and "plain_piece i" and "i \<noteq> ''rollup''" and "i \<noteq> ''grade''"
    and "req_Path r = path_of (''api'' # ''v1'' # ps)" and "req_Method r = m \<or> m = ''GET'' \<and> req_Method r = ''HEAD''"
    and "req_Authorization r = ''Bearer '' @ token" and "verify token c = (Inr vt, c')"
  defines "u \<equiv> validatedTokenToUser vt"
  shows "ServeHTTP (outerMux s x) r (c, w) =
    (if \<not> cfg_AuthEnabled cfg then on_db h (r\<lparr>req_PathID := v\<rparr>) (c, w)
     else if req_Method r = ''HEAD'' then on_db h (WithUser u (r\<lparr>req_PathID := v\<rparr>)) (c', w)
     else case endpoint_permission m ps of
       None \<Rightarrow> (writeMappingMissing, (c', w))
     | Some p \<Rightarrow>
         if EffectivePermissions (user_roles u) p
         then on_db h (WithGrantedPermission p (WithUser u (r\<lparr>req_PathID := v\<rparr>))) (c', w)
         else (writeForbidden p (user_roles u), (c', w)))"
proof -
  note plain = endpoint_plain [OF assms(2,3)]
  have n: "req_Method r \<noteq> []" using plain(1) assms(7) by auto
  let ?r = "r\<lparr>req_PathID := []\<rparr>" and ?h = "on_db (ServeHTTP (innerMux s x))"
  have inner: "?h r' (c1, w) = on_db h (r'\<lparr>req_PathID := v\<rparr>) (c1, w)"
    if "req_Path r' = req_Path r" "req_Method r' = req_Method r" for r' c1
    using inner_endpoint [OF assms(2-5), of r' w] that assms(6,7) by (simp add: on_db_def)
  have outer: "ServeHTTP (outerMux s x) r (c, w) = rest_chain s x ?r (c, w)"
    using outer_serves [of "''v1'' # ps" r s x] plain(2) n assms(6) by (simp add: plain_piece_def)
  show ?thesis
  proof (cases "cfg_AuthEnabled cfg")
    case False
    then have "rest_chain s x ?r (c, w) = ?h ?r (c, w)"
      by (simp add: rest_chain_def BuildRESTChain_def New_Server_def Let_def assms(1))
    then show ?thesis using outer inner [of ?r c] False by simp
  next
    case True
    have chain: "rest_chain s x ?r (c, w) = BuildRESTChain ?h (Some (side_verifier verify)) None True [] ?r (c, w)"
      using True by (simp add: rest_chain_def New_Server_def Let_def assms(1))
    have v: "side_verifier verify token (c, w) = (Inr vt, (c', w))" by (simp add: side_verifier_def assms(9))
    have l: "LookupRESTPermission (req_Method ?r) (req_Path ?r) = (if req_Method r = ''HEAD'' then ([], True, True)
        else case endpoint_permission m ps of None \<Rightarrow> ([], False, False) | Some p \<Rightarrow> (p, False, True))"
      using endpoint_lookup [OF assms(2)] assms(6,7) by (auto simp: LookupRESTPermission_def)
    note answer = rest_chain_answers [of ?r token "side_verifier verify" "(c, w)" vt "(c', w)" ?h None]
    have users: "?h (WithUser u ?r) (c', w) = on_db h (WithUser u (r\<lparr>req_PathID := v\<rparr>)) (c', w)"
      "?h (WithGrantedPermission p (WithUser u ?r)) (c', w) =
         on_db h (WithGrantedPermission p (WithUser u (r\<lparr>req_PathID := v\<rparr>))) (c', w)" for p
    proof -
      have "(WithUser u ?r)\<lparr>req_PathID := v\<rparr> = WithUser u (r\<lparr>req_PathID := v\<rparr>)"
        "(WithGrantedPermission p (WithUser u ?r))\<lparr>req_PathID := v\<rparr> = WithGrantedPermission p (WithUser u (r\<lparr>req_PathID := v\<rparr>))"
        "req_Path (WithUser u ?r) = req_Path r \<and> req_Method (WithUser u ?r) = req_Method r"
        "req_Path (WithGrantedPermission p (WithUser u ?r)) = req_Path r \<and>
          req_Method (WithGrantedPermission p (WithUser u ?r)) = req_Method r"
        by (simp_all add: WithUser_def WithGrantedPermission_def)
      then show "?h (WithUser u ?r) (c', w) = on_db h (WithUser u (r\<lparr>req_PathID := v\<rparr>)) (c', w)"
        "?h (WithGrantedPermission p (WithUser u ?r)) (c', w) =
         on_db h (WithGrantedPermission p (WithUser u (r\<lparr>req_PathID := v\<rparr>))) (c', w)"
        using inner [of "WithUser u ?r" c'] inner [of "WithGrantedPermission p (WithUser u ?r)" c'] by simp_all
    qed
    have "rest_chain s x ?r (c, w) = (case LookupRESTPermission (req_Method ?r) (req_Path ?r) of (p, bypass, found) \<Rightarrow>
       if bypass then ?h (WithUser u ?r) (c', w)
       else if \<not> found then (writeMappingMissing, (c', w))
       else if EffectivePermissions (user_roles u) p then ?h (WithGrantedPermission p (WithUser u ?r)) (c', w)
       else (writeForbidden p (user_roles u), (c', w)))"
    proof -
      obtain p bypass found where q: "LookupRESTPermission (req_Method ?r) (req_Path ?r) = (p, bypass, found)"
        by (metis prod.exhaust)
      show ?thesis using answer v assms(6,8) unfolding chain q by (simp add: u_def log_forbidden_def)
    qed
    then show ?thesis
      unfolding outer l users by (cases "endpoint_permission m ps") (simp_all add: True)
  qed
qed

theorem endpoint_access_witness:
  "ServeHTTP (outerMux sample_server sample_wire) (sample_request ''HEAD'' ''/api/v1/rubrics'' ''Bearer guest'') (0, sample_pg empty_db) =
     on_db (handleListRubrics (svr_rt sample_server) (svr_rubricH sample_server))
       (WithUser (sample_user [''guest'']) (sample_request ''HEAD'' ''/api/v1/rubrics'' ''Bearer guest'')) (1, sample_pg empty_db) \<and>
   ServeHTTP (outerMux sample_server sample_wire) (sample_request ''GET'' ''/api/v1/rubrics'' ''Bearer guest'') (0, sample_pg empty_db) =
     (writeMappingMissing, (1, sample_pg empty_db))"
proof -
  let ?r = "\<lambda>m. sample_request m ''/api/v1/rubrics'' ''Bearer guest''"
  let ?vt = "\<lparr>vt_ExpiresAt = 0, vt_Claims = Map.empty, vt_Subject = ''kim'', vt_Issuer = ''https://idp'',
    vt_Audience = [], vt_Scopes = [''guest'']\<rparr>"
  have e: "(''GET'', [''rubrics''], [], handleListRubrics (svr_rt sample_server) (svr_rubricH sample_server))
      \<in> set (server_endpoints sample_server sample_wire ''7'')"
    by (simp add: server_endpoints_def rubric_table_def)
  have v: "sample_verify ''guest'' 0 = (Inr ?vt, 1)" by (simp add: sample_verify_def)
  have u: "validatedTokenToUser ?vt = sample_user [''guest'']"
    by (simp add: validatedTokenToUser_def sample_user_def json_strings_def Let_def)
  have r: "(?r m)\<lparr>req_PathID := []\<rparr> = ?r m" for m by (simp add: sample_request_def)
  have p: "plain_piece ''7''" "endpoint_permission ''GET'' [''rubrics''] = None"
    by (simp_all add: plain_piece_def endpoint_permission_def)
  note answer = endpoint_access [OF sample_server_def e p(1), where token = "''guest''" and c = 0 and vt = ?vt and c' = 1 and w = "sample_pg empty_db"]
  show ?thesis using answer [of "?r ''HEAD''"] answer [of "?r ''GET''"] by (simp add: v u r p(2))
qed

end
