(* ===== verification/Spec2Isabelle.thy ===== *)
theory Spec2Isabelle
  imports
    Prelude Numbers Workflow_Types Audit_Events Recorder Store_Interface Fake_Store Transaction State_Machine
    Workflow_History Database Pg_Workflow Workflow_Properties
    Review_Store Review_Properties Score_Store Score_Properties Rubric_Store Rubric_Properties
    Http Rbac Authz Authz_Properties Uuid_Instance Samples
    Handler_Frame Review_Handlers Review_Handler_Properties
    Token_Validator Jwks_Cache Token_Properties Refresh Refresh_Properties
    Eval_Item_Store Eval_Item_Handlers Eval_Item_Properties
    Sha256 Evidence_Store Evidence_Handlers Evidence_Properties
    Workflow_Callback Workflow_Service Workflow_Service_Properties
    Rubric_Handlers Rubric_Handler_Properties Json_Text Dispatcher Score_Handlers Score_Handler_Properties
    Audit_Query_Handlers Audit_Query_Properties Report_Handlers Report_Properties
    Serve_Mux Metrics_Middleware Server_Setup Server_Routes Server_Properties Server_Endpoints
begin

text \<open>
  The control plane (src/apps/control-plane): a Go server that keeps workflows, evidence,
  evaluation items, scores, review requests and rubrics in PostgreSQL, writes an audit event in the
  transaction of every change, and guards its REST and gRPC interfaces by tokens, roles and
  attribute conditions. This development models its core in HOL and proves what makes it correct.

  Conventions. A method that can fail and that changes state is a function
  \<^verbatim>\<open>'s \<Rightarrow> (goerr + 'a) \<times> 's\<close> (Prelude: retn, throw, call, callw); an error is a value of
  \<^verbatim>\<open>goerr\<close> that errors.Is and errors.As walk. A Go interface is a record of its methods, a
  struct is a record, an integer kept at its width is a word, and a string is a list of characters,
  its bytes (the Korean texts of messages are English here). What the code reads from its
  surroundings (clocks, generated ids, faults of the connection) is a stream in the state
  (Prelude: env), so every theorem quantifies over all of it. Libraries are arguments: parsing and
  printing of UUIDs and SHA-1 (record runtime, Audit_Events), the driver's conversion between
  float64 and NUMERIC (num_codec, Database), what a JSONB column keeps of a text (db_jsonb,
  Database), the JWT library and the HTTP exchange of the key cache (token_library, jwks_source). The chains of Authz take any token verifier; Token_Validator
  defines the one of the code.

  Theories and code.
  \<^item> Prelude: errors (internal/errors/errors.go, internal/auth/errors.go), methods with state,
    frame facts, float64, JSON values, tables as lists of rows, the surroundings.
  \<^item> Workflow_Types: internal/types/workflow.go.
  \<^item> Audit_Events, Recorder: internal/audit.
  \<^item> Store_Interface: the workflow part of internal/store/store.go, and the locale workflow_store
    that says what a store promises; Fake_Store (internal/store/fake_store.go) and Pg_Workflow
    (internal/store/pg_store.go, audit_query.go) interpret it.
  \<^item> Transaction, State_Machine: internal/workflow, on any such store; Workflow_History reads the
    audit log as a history, Workflow_Properties states the properties on the PostgreSQL store.
  \<^item> Database: the tables of .moai/db/schema as lists of rows, transactions with faults, statements.
    What a column keeps is written out where it is not what was sent: JSONB has a normal form or
    refuses the text, timestamps keep microseconds, texts must be UTF-8 without NUL (22021), and a
    parameter that no bytea can hold is refused.
  \<^item> Review_Store, Score_Store, Rubric_Store: internal/store/score_review_request.go, score.go,
    rubric.go, with the constraints of their tables; the theories named Properties beside them hold
    the specifications (a step relation or an effect) and the properties.
  \<^item> Http, Rbac, Authz: internal/auth (rbac.go, authz_mapping.go, middleware.go,
    authz_middleware.go, abac.go, chain.go); Authz_Properties holds their properties.
  \<^item> Handler_Frame: what the REST handlers share, and the locale transactional (a handler and the
    transactions it opens), interpreted on the PostgreSQL transactions; Review_Handlers
    (cmd/server/review_handlers.go) and Review_Handler_Properties.
  \<^item> Numbers: decimal texts, the rounding of a JSON number to a float64, int64 conversions, instants.
  \<^item> Token_Validator, Jwks_Cache, Refresh: internal/auth/validator.go, jwks_cache.go, refresh.go, with
    the locale refresh_store for the contract of the store of refresh tokens; Token_Properties and
    Refresh_Properties.
  \<^item> Eval_Item_Store, Eval_Item_Handlers: internal/store/eval_item.go and
    cmd/server/eval_item_handlers.go; Eval_Item_Properties composes them on the tables.
  \<^item> Sha256, Evidence_Store, Evidence_Handlers: internal/store/evidence.go, internal/storage and
    cmd/server/evidence_handlers.go; Evidence_Properties composes them on the tables.
  \<^item> Workflow_Callback, Workflow_Service: cmd/server/workflow_callback_handler.go and
    internal/server (grpc_server.go, rest_handler.go), on any workflow store;
    Workflow_Service_Properties puts them on PostgreSQL.
  \<^item> Rubric_Handlers: cmd/server/rubric_handlers.go; Rubric_Handler_Properties composes it with the
    rubric, item and score stores.
  \<^item> Score_Handlers, Audit_Query_Handlers, Report_Handlers: cmd/server/score_handlers.go,
    audit_query_handlers.go, report_handlers.go; the theories named Properties beside them put them
    on PostgreSQL.
  \<^item> Json_Text, Dispatcher: the texts of encoding/json and base64, and
    internal/scheduler/dispatcher.go, which queues the Celery task of a workflow. RPUSH may append
    its value more than once, as the client repeats a command; the reader of Python literals
    refuses what Python refuses.
  \<^item> Server_Setup: internal/config/config.go, internal/auth/oidc.go, cmd/server/probes.go.
  \<^item> Metrics_Middleware: internal/metrics (permission.go, middleware.go, interceptor.go).
  \<^item> Serve_Mux: http.ServeMux of the standard library, as far as the routes use it. Server_Routes:
    the Routes of every handler and the muxes and the chain of cmd/server/server.go.
    Server_Properties: who can change the tables; Server_Endpoints: which handler answers a request.
  \<^item> Uuid_Instance, Samples: the concrete UUID functions, states and surroundings at which the
    properties are applied.

  What the properties show. Workflows: the life of a workflow and its audit log, for every sequence of
  calls, callbacks, requests and faults. Middleware: what the chains in front of the handlers let
  through. Scores, rubrics, reviews, evaluation items, evidence: what each operation and each request
  does to the tables and the log, the invariant it keeps, and what it refuses. Tokens: what an accepted
  token implies, which keys are served, and what a rotation of a refresh token checks. The server: the
  way of a request from the outer mux to the tables, and who gets that far.

  Every loop of the code that is modelled is a recursion over a list or has a termination proof. Only
  the readers of Json_Text and Dispatcher, which state the round trips, take fuel; the round trips
  say how much is enough (the length of the text).

  Not modelled. Concurrency: one call runs at a time, and a transaction sees the tables as they
  were at its begin (the row locks of the code are therefore no steps here). The key cache is the
  exception: what other goroutines do while a call waits is an argument. Paths with percent-encoded
  bytes and the method CONNECT, which ServeMux treats in another way. A multipart body, the raw text
  of a callback and the end of a context come beside the request (record wire_input).
  The widths of columns count bytes, which are characters as long as a text is ASCII. Listeners, shutdown, the
  connection steps of New, logging, metrics export, tracing, the connection pool
  and the generated protocol code are I/O or libraries.
\<close>

end
